(* ===== verification/CAPV_Prelude.thy ===== *)
theory CAPV_Prelude
  imports Main "HOL-Library.Sublist"
begin

text \<open>
  Shared vocabulary of the development: Go's \<open>error\<close> values, the plumbing that
  threads a state through calls that may fail, and generic list and option lemmas.

  \<^item> \<open>go_error\<close> is the type of the values the controllers return as
    \<open>error\<close>. The formatting verbs of \<open>pkgerrors.Errorf\<close> and \<open>Wrapf\<close> are not
    expanded: an error keeps its format and its arguments. Arguments that only name the
    object being reconciled (\<open>vmCtx\<close>, the VM's name) are left out.
  \<^item> a Go function \<open>func (s) (T, error)\<close> whose value is meaningless next to an
    error becomes \<open>'s \<Rightarrow> (go_error + 'a) \<times> 's\<close>; the combinators below are the
    source's \<open>if err != nil { return ..., err }\<close>.
\<close>

section \<open>Errors\<close>

datatype go_error =
    Errorf string "string list"
      \<comment> \<open>\<open>pkgerrors.New\<close>, \<open>pkgerrors.Errorf\<close>, \<open>fmt.Errorf\<close>, \<open>errors.New\<close>\<close>
  | Wrapf go_error string "string list"
      \<comment> \<open>\<open>pkgerrors.Wrap\<close>, \<open>pkgerrors.Wrapf\<close>\<close>
  | Aggregate "go_error list"
      \<comment> \<open>\<open>kerrors.NewAggregate\<close> on a list that is not empty\<close>
  | ErrNotFound string string
      \<comment> \<open>\<open>errNotFound{uuid, byInventoryPath}\<close> of \<open>pkg/services/govmomi/errors.go\<close>\<close>
  | FindNotFoundError string
      \<comment> \<open>\<open>*find.NotFoundError\<close> of govmomi's finder\<close>
  | APINotFound string
      \<comment> \<open>a Kubernetes API error with reason NotFound\<close>
  | APIError string
      \<comment> \<open>any other error of the Kubernetes API\<close>
  | RestStatusError nat
      \<comment> \<open>an HTTP status error of vCenter's REST API\<close>
  | VimError string
      \<comment> \<open>any other error of a vCenter call\<close>
  | ErrWaitingForIPAddr
      \<comment> \<open>the sentinel of \<open>pkg/services/govmomi/ipam/error.go\<close>\<close>
  | ErrClusterNotConnected
      \<comment> \<open>\<open>clustercache.ErrClusterNotConnected\<close>\<close>
  | IncompatibleOwnerError string
      \<comment> \<open>\<open>clustermodule.IncompatibleOwnerError\<close>\<close>
  | Panic string
      \<comment> \<open>a run-time panic (index out of range, nil dereference)\<close>

text \<open>
  \<open>pkgerrors.Is\<close> looks through wrapped errors and into aggregates, \<open>apierrors.IsNotFound\<close>
  through wrapped errors; a Go type switch does not. \<open>root_cause\<close> is the error under every wrapper.
\<close>

fun root_cause :: "go_error \<Rightarrow> go_error" where
  "root_cause (Wrapf e _ _) = root_cause e"
| "root_cause e = e"

fun errors_Is :: "go_error \<Rightarrow> go_error \<Rightarrow> bool" where
  "errors_Is (Wrapf e m as) target \<longleftrightarrow> Wrapf e m as = target \<or> errors_Is e target"
| "errors_Is (Aggregate es) target \<longleftrightarrow> (\<exists>e \<in> set es. errors_Is e target)"
| "errors_Is e target \<longleftrightarrow> e = target"

definition apierrors_IsNotFound :: "go_error \<Rightarrow> bool" where
  "apierrors_IsNotFound e \<longleftrightarrow> (case root_cause e of APINotFound _ \<Rightarrow> True | _ \<Rightarrow> False)"

definition kerrors_NewAggregate :: "go_error list \<Rightarrow> go_error option" where
  "kerrors_NewAggregate es = (if es = [] then None else Some (Aggregate es))"

section \<open>Calls that may fail\<close>

named_theorems go_simps \<open>definitions and equations the component proofs unfold\<close>
named_theorems frame_simps \<open>which fields an operation leaves alone\<close>

definition returnE :: "'a \<Rightarrow> 's \<Rightarrow> ('e + 'a) \<times> 's" where
  [go_simps]: "returnE x s = (Inr x, s)"

definition failE :: "'e \<Rightarrow> 's \<Rightarrow> ('e + 'a) \<times> 's" where
  [go_simps]: "failE e s = (Inl e, s)"

definition bindE ::
  "('e + 'a) \<times> 's \<Rightarrow> ('a \<Rightarrow> 's \<Rightarrow> ('e + 'b) \<times> 's) \<Rightarrow> ('e + 'b) \<times> 's" where
  "bindE m k = (case m of (Inl e, s) \<Rightarrow> (Inl e, s) | (Inr x, s) \<Rightarrow> k x s)"

definition wrapE :: "string \<Rightarrow> string list \<Rightarrow> (go_error + 'a) \<times> 's \<Rightarrow> (go_error + 'a) \<times> 's" where
  \<comment> \<open>\<open>if err != nil { return ..., pkgerrors.Wrapf(err, msg, args...) }\<close>\<close>
  "wrapE msg args m = (case m of (Inl e, s) \<Rightarrow> (Inl (Wrapf e msg args), s) | (Inr x, s) \<Rightarrow> (Inr x, s))"

lemma bindE_simps [simp]:
  "bindE (Inl e, s) k = (Inl e, s)"
  "bindE (Inr x, s) k = k x s"
  by (simp_all add: bindE_def)

lemma wrapE_simps [simp]:
  "wrapE msg args (Inl e, s) = (Inl (Wrapf e msg args), s)"
  "wrapE msg args (Inr x, s) = (Inr x, s)"
  by (simp_all add: wrapE_def)

lemma bindE_eq_Inr:
  "bindE m k = (Inr y, s') \<longleftrightarrow> (\<exists>x s. m = (Inr x, s) \<and> k x s = (Inr y, s'))"
  by (cases m; cases "fst m") auto

lemma bindE_eq_Inl:
  "bindE m k = (Inl e, s') \<longleftrightarrow> m = (Inl e, s') \<or> (\<exists>x s. m = (Inr x, s) \<and> k x s = (Inl e, s'))"
  by (cases m; cases "fst m") auto

lemma bindE_split:
  "P (bindE m k) \<longleftrightarrow>
     (\<forall>e s. m = (Inl e, s) \<longrightarrow> P (Inl e, s)) \<and> (\<forall>x s. m = (Inr x, s) \<longrightarrow> P (k x s))"
  by (cases m; cases "fst m") auto

lemma bindE_split_asm:
  "P (bindE m k) \<longleftrightarrow>
     \<not> ((\<exists>e s. m = (Inl e, s) \<and> \<not> P (Inl e, s)) \<or> (\<exists>x s. m = (Inr x, s) \<and> \<not> P (k x s)))"
  by (cases m; cases "fst m") auto

lemma wrapE_eq_Inr: "wrapE msg args m = (Inr x, s) \<longleftrightarrow> m = (Inr x, s)"
  by (cases m; cases "fst m") auto

lemma wrapE_eq_Inl:
  "wrapE msg args m = (Inl e, s) \<longleftrightarrow> (\<exists>e'. m = (Inl e', s) \<and> e = Wrapf e' msg args)"
  by (cases m; cases "fst m") auto

lemma snd_wrapE [simp]: "snd (wrapE msg args m) = snd m"
  by (cases m; cases "fst m") auto

lemmas bindE_splits = bindE_split bindE_split_asm

section \<open>Pointers\<close>

text \<open>\<open>ptr.Deref(p, d)\<close> on an optional field.\<close>

definition Deref :: "'a option \<Rightarrow> 'a \<Rightarrow> 'a" where
  [go_simps]: "Deref p d = (case p of None \<Rightarrow> d | Some v \<Rightarrow> v)"

lemma Deref_simps [simp]: "Deref None d = d" "Deref (Some v) d = v"
  by (simp_all add: Deref_def)

section \<open>Lists and maps\<close>

lemma foldl_invariant:
  assumes "I a" and "\<And>a x. x \<in> set xs \<Longrightarrow> I a \<Longrightarrow> I (f a x)"
  shows "I (foldl f a xs)"
  using assms by (induction xs arbitrary: a) auto

lemma distinct_map_upt_inj: "inj_on f {i..<j} \<Longrightarrow> distinct (map f [i..<j])"
  by (simp add: distinct_map)

lemma filter_eq_count: "length (filter ((=) x) xs) = count_list xs x"
  by (induction xs) auto

end
