(* ===== verification/Go_Netip.thy ===== *)
theory Go_Netip
  imports Go_Strings
begin

text \<open>
  The address parsing of Go's \<open>net/netip\<close> and \<open>net\<close> packages: \<open>netip.ParseAddr\<close>,
  \<open>netip.ParsePrefix\<close>, \<open>net.ParseIP\<close>, \<open>net.ParseCIDR\<close>, the formatting of addresses and
  prefixes and the address predicates the program calls. Addresses are lists of bytes
  (4 or 16); \<open>None\<close> is a parse error.
\<close>

section \<open>Addresses\<close>

datatype Addr = Addr4 "nat list" | Addr6 "nat list" string
  \<comment> \<open>an IPv4 address; an IPv6 address with its zone\<close>

fun Is4 :: "Addr \<Rightarrow> bool" where
  "Is4 (Addr4 _) = True"
| "Is4 (Addr6 _ _) = False"

fun addr_zone :: "Addr \<Rightarrow> string" where
  "addr_zone (Addr4 _) = []"
| "addr_zone (Addr6 _ z) = z"

definition Is6 :: "Addr \<Rightarrow> bool" where
  "Is6 a \<longleftrightarrow> \<not> Is4 a"

text \<open>\<open>As16\<close>: the 16-byte form; an IPv4 address is mapped to \<open>::ffff:a.b.c.d\<close>.\<close>

definition v4_in_v6_prefix :: "nat list" where
  "v4_in_v6_prefix = replicate 10 0 @ [255, 255]"

fun As16 :: "Addr \<Rightarrow> nat list" where
  "As16 (Addr4 bs) = v4_in_v6_prefix @ bs"
| "As16 (Addr6 bs _) = bs"

section \<open>IPv4\<close>

text \<open>
  The loop of \<open>parseIPv4Fields\<close>: the value and the number of digits of the current
  octet, and the octets read so far. A dot is rejected at the start, at the end and
  after another dot; a leading zero and a value above 255 are rejected.
\<close>

fun parse_v4 :: "string \<Rightarrow> nat \<Rightarrow> nat \<Rightarrow> nat list \<Rightarrow> nat list option" where
  "parse_v4 [] val digLen fields = (if length fields < 3 then None else Some (fields @ [val]))"
| "parse_v4 (c # cs) val digLen fields =
     (if is_digit c then
        (if digLen = 1 \<and> val = 0 then None
         else let v = val * 10 + digit_val c
              in if v > 255 then None else parse_v4 cs v (Suc digLen) fields)
      else if c = CHR ''.'' then
        (if digLen = 0 \<or> cs = [] then None
         else if length fields = 3 then None
         else parse_v4 cs 0 0 (fields @ [val]))
      else None)"

section \<open>IPv6\<close>

definition is_hex :: "char \<Rightarrow> bool" where
  "is_hex c \<longleftrightarrow> (let n = (of_char c :: nat) in
     (48 \<le> n \<and> n \<le> 57) \<or> (97 \<le> n \<and> n \<le> 102) \<or> (65 \<le> n \<and> n \<le> 70))"

definition hex_val :: "char \<Rightarrow> nat" where
  "hex_val c = (let n = (of_char c :: nat) in
     if n \<le> 57 then n - 48 else if 97 \<le> n then n - 87 else n - 55)"

definition hex_num :: "string \<Rightarrow> nat" where
  "hex_num ds = foldl (\<lambda>n c. 16 * n + hex_val c) 0 ds"

text \<open>
  The group loop of \<open>parseIPv6\<close>: the bytes read so far, the position of the ellipsis
  and the rest of the text. It ends when 16 bytes are read or the text is used up.
\<close>

function parse_v6 ::
  "string \<Rightarrow> nat list \<Rightarrow> nat option \<Rightarrow> (nat list \<times> nat option \<times> string) option" where
  "parse_v6 s ip ell =
     (if 16 \<le> length ip then Some (ip, ell, s)
      else let h = takeWhile is_hex s; r = dropWhile is_hex s; ip' = ip @ [hex_num h div 256, hex_num h mod 256]
           in if h = [] \<or> 4 < length h then None
              else (case r of
                      [] \<Rightarrow> Some (ip', ell, [])
                    | c # r1 \<Rightarrow>
                        if c = CHR ''.'' then
                          (if ell = None \<and> length ip \<noteq> 12 then None
                           else if 16 < length ip + 4 then None
                           else map_option (\<lambda>f. (ip @ f, ell, [])) (parse_v4 s 0 0 []))
                        else if c \<noteq> CHR '':'' then None
                        else (case r1 of
                                [] \<Rightarrow> None
                              | d # r2 \<Rightarrow>
                                  if d = CHR '':'' then
                                    (if ell \<noteq> None then None
                                     else if r2 = [] then Some (ip', Some (length ip'), [])
                                     else parse_v6 r2 ip' (Some (length ip')))
                                  else parse_v6 r1 ip' ell)))"
  by pat_completeness auto
termination
  by (relation "measure (\<lambda>(s, ip, ell). 16 - length ip)") auto

declare parse_v6.simps [simp del]

definition expand_v6 :: "nat list \<times> nat option \<times> string \<Rightarrow> nat list option" where
  "expand_v6 r =
     (case r of (ip, ell, s) \<Rightarrow>
        if s \<noteq> [] then None
        else if length ip < 16 then
          (case ell of
             None \<Rightarrow> None
           | Some e \<Rightarrow> Some (take e ip @ replicate (16 - length ip) 0 @ drop e ip))
        else if ell \<noteq> None then None
        else Some ip)"

definition ParseIPv6 :: "string \<Rightarrow> Addr option" where
  "ParseIPv6 input =
     (let s = takeWhile (\<lambda>c. c \<noteq> CHR ''%'') input;
          z = dropWhile (\<lambda>c. c \<noteq> CHR ''%'') input
      in if z \<noteq> [] \<and> tl z = [] then None
         else map_option (\<lambda>bs. Addr6 bs (tl z))
           (if take 2 s = ''::'' then
              (if drop 2 s = [] then Some (replicate 16 0)
               else Option.bind (parse_v6 (drop 2 s) [] (Some 0)) expand_v6)
            else Option.bind (parse_v6 s [] None) expand_v6))"

section \<open>\<open>ParseAddr\<close>, \<open>ParseIP\<close>, \<open>ParseCIDR\<close>, \<open>ParsePrefix\<close>\<close>

definition ParseAddr :: "string \<Rightarrow> Addr option" where
  "ParseAddr s =
     (case dropWhile (\<lambda>c. c \<noteq> CHR ''.'' \<and> c \<noteq> CHR '':'' \<and> c \<noteq> CHR ''%'') s of
        [] \<Rightarrow> None
      | c # _ \<Rightarrow> if c = CHR ''.'' then map_option Addr4 (parse_v4 s 0 0 [])
                else if c = CHR '':'' then ParseIPv6 s else None)"

text \<open>\<open>net.IP\<close>: 16 bytes, or nil.\<close>

definition ParseIP :: "string \<Rightarrow> nat list option" where
  "ParseIP s = (case ParseAddr s of
     None \<Rightarrow> None | Some a \<Rightarrow> if addr_zone a = [] then Some (As16 a) else None)"

definition To4 :: "nat list \<Rightarrow> nat list option" where
  "To4 ip = (if take 12 ip = v4_in_v6_prefix then Some (drop 12 ip) else None)"

definition addr_bits :: "Addr \<Rightarrow> int" where
  "addr_bits a = (if Is4 a then 32 else 128)"

text \<open>\<open>ParseCIDR\<close> cuts at the first slash and reads the mask with \<open>dtoi\<close>.\<close>

definition ParseCIDR :: "string \<Rightarrow> (nat list \<times> nat) option" where
  "ParseCIDR s =
     (let addr = takeWhile (\<lambda>c. c \<noteq> CHR ''/'') s;
          m = dropWhile (\<lambda>c. c \<noteq> CHR ''/'') s
      in if m = [] then None
         else case ParseAddr addr of
                None \<Rightarrow> None
              | Some a \<Rightarrow>
                  if addr_zone a \<noteq> [] then None
                  else if tl m = [] \<or> \<not> list_all is_digit (tl m) then None
                  else if addr_bits a < int (digits_val (tl m)) then None
                  else Some (As16 a, digits_val (tl m)))"

record Prefix =
  p_Addr :: Addr
  p_Bits :: int

definition ParsePrefix :: "string \<Rightarrow> Prefix option" where
  "ParsePrefix s =
     (case LastIndex s (CHR ''/'') of
        None \<Rightarrow> None
      | Some i \<Rightarrow>
          (case ParseAddr (take i s) of
             None \<Rightarrow> None
           | Some a \<Rightarrow>
               (let bitsStr = drop (Suc i) s
                in if Is6 a \<and> addr_zone a \<noteq> [] then None
                   else if 1 < length bitsStr \<and> \<not> (is_digit (hd bitsStr) \<and> hd bitsStr \<noteq> CHR ''0'') then None
                   else case Atoi bitsStr of
                          None \<Rightarrow> None
                        | Some b \<Rightarrow> if b < 0 \<or> addr_bits a < b then None
                                   else Some \<lparr>p_Addr = a, p_Bits = b\<rparr>)))"

section \<open>Address predicates of \<open>net.IP\<close>\<close>

definition IsUnspecified :: "nat list \<Rightarrow> bool" where
  "IsUnspecified ip \<longleftrightarrow> ip = v4_in_v6_prefix @ [0, 0, 0, 0] \<or> ip = replicate 16 0"

definition IsLoopback :: "nat list \<Rightarrow> bool" where
  "IsLoopback ip = (case To4 ip of
     Some ip4 \<Rightarrow> ip4 ! 0 = 127 | None \<Rightarrow> ip = replicate 15 0 @ [1])"

definition IsLinkLocalMulticast :: "nat list \<Rightarrow> bool" where
  "IsLinkLocalMulticast ip = (case To4 ip of
     Some ip4 \<Rightarrow> ip4 ! 0 = 224 \<and> ip4 ! 1 = 0 \<and> ip4 ! 2 = 0
   | None \<Rightarrow> length ip = 16 \<and> ip ! 0 = 255 \<and> ip ! 1 mod 16 = 2)"

definition IsLinkLocalUnicast :: "nat list \<Rightarrow> bool" where
  "IsLinkLocalUnicast ip = (case To4 ip of
     Some ip4 \<Rightarrow> ip4 ! 0 = 169 \<and> ip4 ! 1 = 254
   | None \<Rightarrow> length ip = 16 \<and> ip ! 0 = 254 \<and> 128 \<le> ip ! 1 \<and> ip ! 1 < 192)"

section \<open>Lemmas\<close>

lemma parse_v4_length: "parse_v4 s v d fs = Some r \<Longrightarrow> length fs \<le> 3 \<Longrightarrow> length r = 4"
  by (induction s v d fs rule: parse_v4.induct)
     (auto simp: Let_def split: if_splits)

lemma parse_v4_chars:
  "parse_v4 s v d fs = Some r \<Longrightarrow> c \<in> set s \<Longrightarrow> is_digit c \<or> c = CHR ''.''"
  by (induction s v d fs rule: parse_v4.induct) (auto simp: Let_def split: if_splits)

lemma parse_v4_no_slash: "CHR ''/'' \<in> set s \<Longrightarrow> parse_v4 s v d fs = None"
  using parse_v4_chars [of s v d fs _ "CHR ''/''"] by (cases "parse_v4 s v d fs") (auto simp: is_digit_def)

lemma To4_As16_v4 [simp]: "To4 (As16 (Addr4 bs)) = Some bs"
  by (simp add: To4_def v4_in_v6_prefix_def)

text \<open>How long the text of an address can be, and that no address text holds a slash.\<close>

lemma parse_v4_bound:
  assumes "parse_v4 s val digLen fs = Some r" and "length fs \<le> 3"
    and "digLen = 0 \<or> digLen = 1 \<or> digLen = 2 \<and> 10 \<le> val \<or> digLen = 3 \<and> 100 \<le> val"
  shows "length s + digLen \<le> 3 + 4 * (3 - length fs)"
  using assms
proof (induction s val digLen fs rule: parse_v4.induct)
  case (1 val digLen fs)
  then show ?case by auto
next
  case (2 c cs val digLen fs)
  show ?case
  proof (cases "is_digit c")
    case True
    let ?v = "val * 10 + digit_val c"
    from 2 True have step: "parse_v4 cs ?v (Suc digLen) fs = Some r" "?v \<le> 255" "\<not> (digLen = 1 \<and> val = 0)"
      by (auto simp: Let_def split: if_splits)
    from step(2,3) "2.prems"(3)
    have "Suc digLen = 1 \<or> Suc digLen = 2 \<and> 10 \<le> ?v \<or> Suc digLen = 3 \<and> 100 \<le> ?v" by auto
    then have "length cs + Suc digLen \<le> 3 + 4 * (3 - length fs)"
      using "2.IH"(1) [of ?v] True step "2.prems"(2) by auto
    then show ?thesis by simp
  next
    case False
    with 2 have step: "parse_v4 cs 0 0 (fs @ [val]) = Some r" "c = CHR ''.''" "length fs \<noteq> 3"
        "\<not> (digLen = 0 \<or> cs = [])"
      by (auto split: if_splits)
    with "2.IH"(2) False "2.prems"(2) have "length cs \<le> 3 + 4 * (3 - Suc (length fs))" by simp
    moreover from "2.prems"(3) have "digLen \<le> 3" by auto
    moreover from "2.prems"(2) step(3) have "length fs < 3" by simp
    ultimately show ?thesis by simp
  qed
qed

lemma takeWhile_dropWhile_length: "length s = length (takeWhile P s) + length (dropWhile P s)"
  by (metis length_append takeWhile_dropWhile_id)

lemma parse_v6_bound:
  assumes "parse_v6 s ip ell = Some (ip', ell', [])" and "length ip = 16 - 2 * k" and "k \<le> 8"
  shows "length s \<le> 5 * k + 5 + (if ell = None then 1 else 0)"
  using assms
proof (induction s ip ell arbitrary: k rule: parse_v6.induct)
  case (1 s ip ell)
  show ?case
  proof (cases "k = 0")
    case True
    with "1.prems" show ?thesis by (simp add: parse_v6.simps [of s ip ell])
  next
    case k: False
    let ?h = "takeWhile is_hex s" and ?r = "dropWhile is_hex s"
    let ?ip = "ip @ [hex_num ?h div 256, hex_num ?h mod 256]"
    have short: "\<not> 16 \<le> length ip" using "1.prems" k by simp
    have len: "length s = length ?h + length ?r" by (rule takeWhile_dropWhile_length)
    from "1.prems"(1) short have h: "?h \<noteq> []" "length ?h \<le> 4"
      by (auto simp: parse_v6.simps [of s ip ell] Let_def split: if_splits)
    have ip2: "length ?ip = 16 - 2 * (k - 1)" "k - 1 \<le> 8" using "1.prems" k by simp_all
    show ?thesis
    proof (cases ?r)
      case Nil
      with len h k show ?thesis by simp
    next
      case (Cons c r1)
      note unf = "1.prems"(1) [unfolded parse_v6.simps [of s ip ell] Let_def] short h Cons
      show ?thesis
      proof (cases "c = CHR ''.''")
        case True
        with unf have "16 \<ge> length ip + 4" "\<exists>f. parse_v4 s 0 0 [] = Some f"
          by (auto split: if_splits)
        then have "length s \<le> 15" "2 \<le> k" using parse_v4_bound [of s 0 0 "[]"] "1.prems" by auto
        then show ?thesis by simp
      next
        case False
        with unf have c: "c = CHR '':''" by (auto split: if_splits)
        from unf c obtain d r2 where r1: "r1 = d # r2" by (cases r1) auto
        show ?thesis
        proof (cases "d = CHR '':''")
          case True
          show ?thesis
          proof (cases "r2 = []")
            case r2: True
            have "ell = None" using unf c r1 True by (auto split: if_splits)
            with len Cons r1 r2 h k show ?thesis by simp
          next
            case r2: False
            from unf c r1 True r2 have "ell = None"
              "parse_v6 r2 ?ip (Some (length ?ip)) = Some (ip', ell', [])" by (auto split: if_splits)
            with "1.IH"(1) short h Cons c r1 True r2 ip2
            have "length r2 \<le> 5 * (k - 1) + 5 + (if Some (length ?ip) = None then 1 else 0)" by simp
            with len Cons r1 h k \<open>ell = None\<close> show ?thesis by simp
          qed
        next
          case False
          from unf c r1 False have "parse_v6 r1 ?ip ell = Some (ip', ell', [])" by (auto split: if_splits)
          with "1.IH"(2) short h Cons c r1 False ip2
          have "length r1 \<le> 5 * (k - 1) + 5 + (if ell = None then 1 else 0)" by simp
          with len Cons r1 h k show ?thesis by simp
        qed
      qed
    qed
  qed
qed

lemma ParseAddr_v6_bound:
  assumes "ParseAddr s = Some (Addr6 bs [])"
  shows "length s \<le> 47"
proof -
  let ?t = "takeWhile (\<lambda>c. c \<noteq> CHR ''%'') s" and ?z = "dropWhile (\<lambda>c. c \<noteq> CHR ''%'') s"
  from assms have "ParseIPv6 s = Some (Addr6 bs [])"
    by (auto simp: ParseAddr_def split: list.splits if_splits)
  then have z: "?z = []" and body: "(if take 2 ?t = ''::'' then
              (if drop 2 ?t = [] then Some (replicate 16 0)
               else Option.bind (parse_v6 (drop 2 ?t) [] (Some 0)) expand_v6)
            else Option.bind (parse_v6 ?t [] None) expand_v6) = Some bs"
    unfolding ParseIPv6_def Let_def by (cases ?z; force split: if_split_asm)+
  from z have t: "?t = s" by (metis append_Nil2 takeWhile_dropWhile_id)
  have "length ?t \<le> 47"
  proof (cases "take 2 ?t = ''::''")
    case True
    have "length (drop 2 ?t) \<le> 45"
      using body True parse_v6_bound [where k = 8 and ip = "[]" and s = "drop 2 ?t" and ell = "Some 0"]
      by (auto simp: expand_v6_def bind_eq_Some_conv split: if_splits)
    then show ?thesis by simp
  next
    case False
    then show ?thesis
      using body parse_v6_bound [where k = 8 and ip = "[]" and s = ?t and ell = None]
      by (auto simp: expand_v6_def bind_eq_Some_conv split: if_splits)
  qed
  then show ?thesis unfolding t .
qed

lemma ParseIP_bound:
  assumes "ParseIP s = Some ip"
  shows "length s \<le> 47"
proof -
  from assms obtain a where a: "ParseAddr s = Some a" "addr_zone a = []"
    by (auto simp: ParseIP_def split: option.splits if_splits)
  show ?thesis
  proof (cases a)
    case (Addr4 bs)
    with a have "parse_v4 s 0 0 [] = Some bs"
      by (auto simp: ParseAddr_def ParseIPv6_def Let_def split: list.splits if_splits)
    then show ?thesis using parse_v4_bound by fastforce
  next
    case (Addr6 bs z)
    with a ParseAddr_v6_bound show ?thesis by simp
  qed
qed

section \<open>Formatting\<close>

definition hex_char :: "nat \<Rightarrow> char" where
  "hex_char n = (if n < 10 then char_of (n + 48) else char_of (n + 87))"

fun show_hex :: "nat \<Rightarrow> string" where
  "show_hex n = (if n < 16 then [hex_char n] else show_hex (n div 16) @ [hex_char (n mod 16)])"

declare show_hex.simps [simp del]

fun join_with :: "string \<Rightarrow> string list \<Rightarrow> string" where
  "join_with sep [] = []"
| "join_with sep [s] = s"
| "join_with sep (s # ss) = s @ sep @ join_with sep ss"

definition string4 :: "nat list \<Rightarrow> string" where
  "string4 bs = join_with ''.'' (map show_nat bs)"

fun v6_groups :: "nat list \<Rightarrow> nat list" where
  "v6_groups (a # b # bs) = (256 * a + b) # v6_groups bs"
| "v6_groups _ = []"

text \<open>The longest run of at least two zero groups, the first one on a tie: \<open>(start, end)\<close>.\<close>

fun zero_run :: "nat \<Rightarrow> nat \<times> nat \<Rightarrow> nat list \<Rightarrow> nat \<times> nat" where
  "zero_run i best [] = best"
| "zero_run i best (g # gs) =
     (let l = length (takeWhile (\<lambda>g. g = 0) (g # gs))
      in zero_run (Suc i) (if 2 \<le> l \<and> snd best - fst best < l then (i, i + l) else best) gs)"

definition string6 :: "nat list \<Rightarrow> string" where
  "string6 bs =
     (let gs = v6_groups bs; (s, e) = zero_run 0 (0, 0) gs
      in if s = e then join_with '':'' (map show_hex gs)
         else join_with '':'' (map show_hex (take s gs)) @ ''::'' @ join_with '':'' (map show_hex (drop e gs)))"

text \<open>\<open>netip.Addr.String\<close>, \<open>netip.Prefix.String\<close> and \<open>net.IP.String\<close> (of nil and of 16 bytes).\<close>

definition Addr_String :: "Addr \<Rightarrow> string" where
  "Addr_String a =
     (case a of
        Addr4 bs \<Rightarrow> string4 bs
      | Addr6 bs z \<Rightarrow>
          (if take 12 bs = v4_in_v6_prefix then ''::ffff:'' @ string4 (drop 12 bs) else string6 bs) @
          (if z = [] then [] else CHR ''%'' # z))"

definition Prefix_String :: "Prefix \<Rightarrow> string" where
  "Prefix_String p = Addr_String (p_Addr p) @ ''/'' @ show_int (p_Bits p)"

definition IP_String :: "nat list option \<Rightarrow> string" where
  "IP_String ip =
     (case ip of
        None \<Rightarrow> ''<nil>''
      | Some bs \<Rightarrow> (case To4 bs of Some b4 \<Rightarrow> string4 b4 | None \<Rightarrow> string6 bs))"

section \<open>No address text holds a slash\<close>

lemma parse_v6_no_slash:
  assumes "CHR ''/'' \<in> set s" and "parse_v6 s ip ell = Some (ip', ell', t)"
  shows "t \<noteq> []"
  using assms
proof (induction s ip ell rule: parse_v6.induct)
  case (1 s ip ell)
  let ?h = "takeWhile is_hex s" and ?r = "dropWhile is_hex s"
  let ?ip = "ip @ [hex_num ?h div 256, hex_num ?h mod 256]"
  have nh: "CHR ''/'' \<notin> set ?h" by (auto simp: is_hex_def dest!: set_takeWhileD)
  have r: "CHR ''/'' \<in> set ?r" using "1.prems"(1) nh by (metis Un_iff set_append takeWhile_dropWhile_id)
  show ?case
  proof (cases "16 \<le> length ip")
    case True
    with "1.prems" show ?thesis by (auto simp: parse_v6.simps [of s ip ell])
  next
    case short: False
    from "1.prems"(2) short have h: "?h \<noteq> []" "length ?h \<le> 4"
      by (auto simp: parse_v6.simps [of s ip ell] Let_def split: if_splits)
    from r obtain c r1 where Cons: "?r = c # r1" by (cases ?r) auto
    note unf = "1.prems"(2) [unfolded parse_v6.simps [of s ip ell] Let_def] short h Cons
    have dot: "c \<noteq> CHR ''.''"
      using unf parse_v4_no_slash [OF "1.prems"(1), of 0 0 "[]"] by (auto split: if_splits)
    with unf have c: "c = CHR '':''" by (auto split: if_splits)
    from r Cons c have r1s: "CHR ''/'' \<in> set r1" by auto
    then obtain d r2 where r1: "r1 = d # r2" by (cases r1) auto
    show ?thesis
    proof (cases "d = CHR '':''")
      case True
      with r1s r1 have r2: "CHR ''/'' \<in> set r2" by auto
      then have "r2 \<noteq> []" by auto
      with unf c r1 True have "ell = None"
        "parse_v6 r2 ?ip (Some (length ?ip)) = Some (ip', ell', t)" by (auto split: if_splits)
      with "1.IH"(1) short h Cons c r1 True \<open>r2 \<noteq> []\<close> r2 show ?thesis by auto
    next
      case False
      with unf c r1 have "parse_v6 r1 ?ip ell = Some (ip', ell', t)" by (auto split: if_splits)
      with "1.IH"(2) short h Cons c r1 False r1s show ?thesis by auto
    qed
  qed
qed

lemma ParseIP_no_slash:
  assumes "CHR ''/'' \<in> set s"
  shows "ParseIP s = None"
proof (cases "ParseAddr s")
  case (Some a)
  let ?t = "takeWhile (\<lambda>c. c \<noteq> CHR ''%'') s" and ?z = "dropWhile (\<lambda>c. c \<noteq> CHR ''%'') s"
  show ?thesis
  proof (rule ccontr)
    assume "ParseIP s \<noteq> None"
    with Some have zone: "addr_zone a = []" by (auto simp: ParseIP_def split: if_splits)
    have no4: "parse_v4 s 0 0 [] = None" by (rule parse_v4_no_slash [OF assms])
    with Some have v6: "ParseIPv6 s = Some a" by (auto simp: ParseAddr_def split: list.splits if_splits)
    then obtain bs where a: "a = Addr6 bs (tl ?z)"
      and body: "(if take 2 ?t = ''::'' then
              (if drop 2 ?t = [] then Some (replicate 16 0)
               else Option.bind (parse_v6 (drop 2 ?t) [] (Some 0)) expand_v6)
            else Option.bind (parse_v6 ?t [] None) expand_v6) = Some bs"
      and z: "\<not> (?z \<noteq> [] \<and> tl ?z = [])"
      unfolding ParseIPv6_def Let_def by (auto split: if_split_asm)
    from a zone z have "?z = []" by auto
    then have t: "?t = s" by (metis append_Nil2 takeWhile_dropWhile_id)
    show False
    proof (cases "take 2 s = ''::''")
      case True
      have "CHR ''/'' \<in> set (drop 2 s)"
      proof -
        have "CHR ''/'' \<in> set (take 2 s @ drop 2 s)" using assms by simp
        then show ?thesis using True by (simp only: set_append) simp
      qed
      with body True parse_v6_no_slash [OF this] show False
        unfolding t by (auto simp: expand_v6_def bind_eq_Some_conv split: if_splits)
    next
      case False
      with body parse_v6_no_slash [OF assms] show False
        unfolding t by (auto simp: expand_v6_def bind_eq_Some_conv split: if_splits)
    qed
  qed
qed (simp add: ParseIP_def)

end
