(* ===== verification/Util.thy ===== *)
theory Util
  imports Go_Netip
begin

text \<open>
  The pure helpers of \<open>pkg/util\<close>: hardware versions (\<open>vmx.go\<close>), provider IDs and
  machine lists (\<open>machines.go\<close>), names of IP address claims (\<open>ipaddress_claim.go\<close>), host
  labels (\<open>label.go\<close>) and the cluster's IP family (\<open>ipfamily.go\<close>).
\<close>

section \<open>Hardware versions\<close>

definition ParseHardwareVersion :: "string \<Rightarrow> int option" where
  "ParseHardwareVersion version = Atoi (TrimPrefix version ''vmx-'')"

definition LessThan :: "string \<Rightarrow> string \<Rightarrow> bool option" where
  "LessThan version1 version2 =
     (case ParseHardwareVersion version1 of
        None \<Rightarrow> None
      | Some v1 \<Rightarrow> (case ParseHardwareVersion version2 of None \<Rightarrow> None | Some v2 \<Rightarrow> Some (v1 < v2)))"

lemma LessThan_vmx:
  assumes "int m \<le> max_int64" and "int n \<le> max_int64"
  shows "LessThan (''vmx-'' @ show_nat m) (''vmx-'' @ show_nat n) = Some (m < n)"
  using assms by (simp only: LessThan_def ParseHardwareVersion_def TrimPrefix_append Atoi_show_nat) simp

section \<open>Provider IDs\<close>

definition ProviderIDPrefix :: string where
  "ProviderIDPrefix = ''vsphere://''"

text \<open>\<open>UUIDPattern\<close>: case-insensitive, 8-4-4-4-12 hexadecimal digits.\<close>

definition match_UUIDPattern :: "string \<Rightarrow> bool" where
  "match_UUIDPattern s \<longleftrightarrow> length s = 36 \<and>
     list_all (\<lambda>i. if i \<in> {8, 13, 18, 23} then s ! i = CHR ''-'' else is_hex (s ! i)) [0..<36]"

text \<open>\<open>ProviderIDPattern\<close> captures the UUID after the (case-insensitive) prefix.\<close>

definition provider_prefix_length :: "string \<Rightarrow> nat option" where
  \<comment> \<open>bytes that \<open>(?i)^vsphere://\<close> matches: besides the two cases of a letter, Go folds s to the long s U+017F, which is C5 BF in UTF-8\<close>
  "provider_prefix_length s =
     (if EqualFold (take 10 s) ProviderIDPrefix then Some 10
      else if EqualFold (take 1 s) ''v'' \<and> take 2 (drop 1 s) = [CHR 0xC5, CHR 0xBF] \<and> EqualFold (take 8 (drop 3 s)) ''phere://'' then Some 11
      else None)"

definition match_ProviderIDPattern :: "string \<Rightarrow> string option" where
  "match_ProviderIDPattern s =
     (case provider_prefix_length s of
        None \<Rightarrow> None
      | Some n \<Rightarrow> if match_UUIDPattern (drop n s) then Some (drop n s) else None)"

definition ConvertProviderIDToUUID :: "string option \<Rightarrow> string" where
  "ConvertProviderIDToUUID providerID =
     (case providerID of
        None \<Rightarrow> ''''
      | Some p \<Rightarrow> if p = '''' then ''''
                 else case match_ProviderIDPattern p of None \<Rightarrow> '''' | Some u \<Rightarrow> u)"

definition ConvertUUIDToProviderID :: "string \<Rightarrow> string" where
  "ConvertUUIDToProviderID uuid =
     (if uuid = '''' then ''''
      else if \<not> match_UUIDPattern uuid then ''''
      else ProviderIDPrefix @ uuid)"

lemma match_UUIDPattern_not_Nil: "match_UUIDPattern u \<Longrightarrow> u \<noteq> []"
  by (auto simp: match_UUIDPattern_def)

lemma length_ProviderIDPrefix [simp]: "length ProviderIDPrefix = 10"
  by (simp add: ProviderIDPrefix_def)

lemma ConvertUUIDToProviderID_eq_Nil:
  "ConvertUUIDToProviderID u = [] \<longleftrightarrow> \<not> match_UUIDPattern u"
  by (auto simp: ConvertUUIDToProviderID_def ProviderIDPrefix_def dest: match_UUIDPattern_not_Nil)

lemma ConvertUUIDToProviderID_valid:
  "match_UUIDPattern u \<Longrightarrow> ConvertUUIDToProviderID u = ProviderIDPrefix @ u"
  by (auto simp: ConvertUUIDToProviderID_def dest: match_UUIDPattern_not_Nil)

lemma match_ProviderIDPattern_prefixed:
  "match_ProviderIDPattern (ProviderIDPrefix @ u) = (if match_UUIDPattern u then Some u else None)"
  by (simp add: match_ProviderIDPattern_def provider_prefix_length_def)

section \<open>Machines in messages\<close>

definition namespaced_name :: "string \<times> string \<Rightarrow> string" where
  "namespaced_name m = fst m @ ''/'' @ snd m"

text \<open>The loop of \<open>MachinesAsString\<close>: \<open>count\<close> starts at 1, \<open>n\<close> is \<open>len(machines)\<close>.\<close>

fun machines_loop :: "nat \<Rightarrow> nat \<Rightarrow> string \<Rightarrow> (string \<times> string) list \<Rightarrow> string" where
  "machines_loop n count message [] = message"
| "machines_loop n count message (m # ms) =
     machines_loop n (Suc count)
       (if count = 1 then namespaced_name m
        else if count > 1 \<and> count \<noteq> n then message @ '', '' @ namespaced_name m
        else message @ '' and '' @ namespaced_name m) ms"

definition MachinesAsString :: "(string \<times> string) list \<Rightarrow> string" where
  "MachinesAsString machines = machines_loop (length machines) 1 '''' machines"

section \<open>Names of IP address claims\<close>

definition IPAddressClaimName :: "string \<Rightarrow> nat \<Rightarrow> nat \<Rightarrow> string" where
  "IPAddressClaimName vmName deviceIndex poolIndex =
     vmName @ ''-'' @ show_nat deviceIndex @ ''-'' @ show_nat poolIndex"

lemma IPAddressClaimName_inject:
  "IPAddressClaimName v d p = IPAddressClaimName v' d' p' \<longleftrightarrow> v = v' \<and> d = d' \<and> p = p'"
proof
  assume "IPAddressClaimName v d p = IPAddressClaimName v' d' p'"
  then have "(v @ CHR ''-'' # show_nat d) @ CHR ''-'' # show_nat p
      = (v' @ CHR ''-'' # show_nat d') @ CHR ''-'' # show_nat p'"
    by (simp add: IPAddressClaimName_def)
  from split_last_unique [OF this] have outer: "v @ CHR ''-'' # show_nat d = v' @ CHR ''-'' # show_nat d'"
    and "p = p'" by simp_all
  from split_last_unique [OF outer] have "v = v'" "d = d'" by simp_all
  with \<open>p = p'\<close> show "v = v' \<and> d = d' \<and> p = p'" by simp
qed simp

section \<open>Host labels\<close>

text \<open>
  \<open>validation.LabelValueMaxLength\<close> is a constant of Kubernetes' API machinery and a
  parameter here.
\<close>

function truncate_loop :: "nat \<Rightarrow> string \<Rightarrow> string" where
  "truncate_loop maxLen inputURL =
     (case LastIndex inputURL (CHR ''.'') of
        None \<Rightarrow> take maxLen inputURL
      | Some pos \<Rightarrow>
          if length (take pos inputURL) \<le> maxLen then take pos inputURL
          else truncate_loop maxLen (take pos inputURL))"
  by pat_completeness auto
termination
  by (relation "measure (\<lambda>(m, s). length s)") (auto dest: LastIndex_Some)

declare truncate_loop.simps [simp del]

definition truncateLabelLength :: "nat \<Rightarrow> string \<Rightarrow> string" where
  "truncateLabelLength maxLen inputURL =
     (if length inputURL \<le> maxLen then inputURL else truncate_loop maxLen inputURL)"

definition stripZoneInfo :: "string \<Rightarrow> string" where
  "stripZoneInfo info =
     (case LastIndex info (CHR ''%'') of None \<Rightarrow> info | Some idx \<Rightarrow> take idx info)"

definition SanitizeHostInfoLabel :: "nat \<Rightarrow> string \<Rightarrow> string" where
  "SanitizeHostInfoLabel maxLen info =
     (let updatedInfo = stripZoneInfo info
      in case ParseIP updatedInfo of
           Some ip \<Rightarrow>
             if To4 ip = None
             then ReplaceAll updatedInfo (CHR '':'') (CHR ''-'') @ ''.ipv6-literal''
             else updatedInfo
         | None \<Rightarrow> truncateLabelLength maxLen info)"

lemma truncate_loop_bound: "length (truncate_loop maxLen s) \<le> maxLen"
proof (induction maxLen s rule: truncate_loop.induct)
  case (1 maxLen s)
  then show ?case
    by (subst truncate_loop.simps) (auto split: option.splits)
qed

lemma truncate_loop_prefix: "prefix (truncate_loop maxLen s) s"
proof (induction maxLen s rule: truncate_loop.induct)
  case (1 maxLen s)
  show ?case
  proof (cases "LastIndex s (CHR ''.'')")
    case None
    then show ?thesis by (simp add: truncate_loop.simps [of maxLen s] take_is_prefix)
  next
    case (Some pos)
    show ?thesis
    proof (cases "length (take pos s) \<le> maxLen")
      case True
      with Some show ?thesis by (simp add: truncate_loop.simps [of maxLen s] take_is_prefix)
    next
      case False
      with Some "1" have "prefix (truncate_loop maxLen (take pos s)) (take pos s)" by blast
      then have "prefix (truncate_loop maxLen (take pos s)) s"
        using take_is_prefix prefix_order.trans by blast
      with Some False show ?thesis by (simp add: truncate_loop.simps [of maxLen s])
    qed
  qed
qed

section \<open>IP family of a cluster\<close>

datatype ClusterIPFamily =
    IPv4SingleStack | IPv6SingleStack | DualStackIPv4Primary | DualStackIPv6Primary

record ClusterNetwork =
  cn_Pods :: "string list"
  cn_Services :: "string list"

definition cidr_is_v6 :: "string \<Rightarrow> bool option" where
  \<comment> \<open>\<open>ip.To4() == nil\<close> for the address of a CIDR block; \<open>None\<close>: it does not parse\<close>
  "cidr_is_v6 cidr = map_option (\<lambda>(ip, n). To4 ip = None) (ParseCIDR cidr)"

fun family_loop ::
  "nat \<Rightarrow> bool \<Rightarrow> bool \<Rightarrow> bool \<Rightarrow> string list \<Rightarrow> go_error + (bool \<times> bool \<times> bool)" where
  "family_loop i hasIPv4 hasIPv6 firstIsIPv6 [] = Inr (hasIPv4, hasIPv6, firstIsIPv6)"
| "family_loop i hasIPv4 hasIPv6 firstIsIPv6 (cidr # rest) =
     (case cidr_is_v6 cidr of
        None \<Rightarrow> Inl (Errorf ''failed to parse CIDR %q: %w'' [cidr])
      | Some isIPv6 \<Rightarrow>
          family_loop (Suc i) (if isIPv6 then hasIPv4 else True) (if isIPv6 then True else hasIPv6)
            (if i = 0 then isIPv6 else firstIsIPv6) rest)"

definition DetermineClusterIPFamily :: "ClusterNetwork option \<Rightarrow> go_error + ClusterIPFamily" where
  "DetermineClusterIPFamily cluster =
     (case cluster of
        None \<Rightarrow> Inl (Errorf ''cluster is nil'' [])
      | Some c \<Rightarrow>
          (let cidrBlocks = (if length (cn_Pods c) = 0 then cn_Services c else cn_Pods c)
           in if length cidrBlocks = 0
              then Inl (Errorf ''cluster %s/%s has no Pod or Service CIDR blocks'' [])
              else case family_loop 0 False False False cidrBlocks of
                     Inl e \<Rightarrow> Inl e
                   | Inr (hasIPv4, hasIPv6, firstIsIPv6) \<Rightarrow>
                       Inr (if hasIPv4 \<and> hasIPv6
                            then (if firstIsIPv6 then DualStackIPv6Primary else DualStackIPv4Primary)
                            else if hasIPv6 then IPv6SingleStack else IPv4SingleStack)))"

lemma family_loop_later:
  "i \<noteq> 0 \<Longrightarrow> list_all (\<lambda>c. cidr_is_v6 c \<noteq> None) cs \<Longrightarrow>
   family_loop i h4 h6 f cs =
     Inr (h4 \<or> Some False \<in> cidr_is_v6 ` set cs, h6 \<or> Some True \<in> cidr_is_v6 ` set cs, f)"
  by (induction cs arbitrary: i h4 h6) (auto split: option.splits)

lemma family_loop_error:
  "\<not> list_all (\<lambda>c. cidr_is_v6 c \<noteq> None) cs \<Longrightarrow>
   \<exists>c \<in> set cs. cidr_is_v6 c = None \<and>
     family_loop i h4 h6 f cs = Inl (Errorf ''failed to parse CIDR %q: %w'' [c])"
  by (induction cs arbitrary: i h4 h6 f) (auto split: option.splits)

lemma family_loop_start:
  "list_all (\<lambda>c. cidr_is_v6 c \<noteq> None) (c # cs) \<Longrightarrow>
   family_loop 0 False False False (c # cs) =
     Inr (Some False \<in> cidr_is_v6 ` set (c # cs), Some True \<in> cidr_is_v6 ` set (c # cs),
          cidr_is_v6 c = Some True)"
  by (auto simp: family_loop_later split: option.splits)

section \<open>Machine names from a template\<close>

text \<open>
  \<open>pkg/util/template.go\<close>. Parsing and executing the template is Go's \<open>text/template\<close>
  with two functions of sprig: \<open>Parse\<close> and \<open>Execute\<close> are parameters.
\<close>

definition maxNameLength :: nat where
  "maxNameLength = 63"

definition GenerateMachineNameFromTemplate ::
  "(string \<Rightarrow> go_error + 'tpl) \<Rightarrow> ('tpl \<Rightarrow> string \<Rightarrow> go_error + string) \<Rightarrow>
   string \<Rightarrow> string \<Rightarrow> go_error + string" where
  "GenerateMachineNameFromTemplate Parse Execute machineName nameTemplate =
     (if machineName = '''' then Inl (Errorf ''machine name can not be emmpty'' [])
      else if nameTemplate = '''' then Inr machineName
      else case Parse nameTemplate of
             Inl err \<Rightarrow> Inl (Wrapf err ''unable to parse template %q'' [nameTemplate])
           | Inr tpl \<Rightarrow>
               (case Execute tpl machineName of
                  Inl err \<Rightarrow> Inl err
                | Inr name \<Rightarrow> Inr (if length name > maxNameLength then take maxNameLength name else name)))"

section \<open>NCP versions\<close>

text \<open>
  \<open>pkg/util/networkutil.go\<close>. The API reads are arguments; \<open>semver.Parse\<close> and its
  order are parameters.
\<close>

fun split_dots :: "string \<Rightarrow> string list" where
  "split_dots [] = [[]]"
| "split_dots (c # cs) =
     (if c = CHR ''.'' then [] # split_dots cs
      else case split_dots cs of [] \<Rightarrow> [[c]] | w # ws \<Rightarrow> (c # w) # ws)"

fun join_dots :: "string list \<Rightarrow> string" where
  "join_dots [] = []"
| "join_dots [w] = w"
| "join_dots (w # ws) = w @ ''.'' @ join_dots ws"

definition GetNamespaceNetSnatIP ::
  "(go_error + (string \<rightharpoonup> string) option) \<Rightarrow> go_error + string" where
  \<comment> \<open>the argument: the namespace's annotations as the API returns them\<close>
  "GetNamespaceNetSnatIP namespaceObj =
     (case namespaceObj of
        Inl err \<Rightarrow> Inl err
      | Inr None \<Rightarrow> Inl (Errorf ''annotation not found'' [])
      | Inr (Some annotations) \<Rightarrow>
          (let snatIP = Deref (annotations ''ncp/snat_ip'') ''''
           in if snatIP = '''' then Inl (Errorf ''ncp/snat_ip key not found'' []) else Inr snatIP))"

definition GetNCPVersion :: "(go_error + (string \<rightharpoonup> string)) \<Rightarrow> go_error + string" where
  "GetNCPVersion configmapData =
     (case configmapData of
        Inl err \<Rightarrow> Inl err
      | Inr data \<Rightarrow>
          (let version = Deref (data ''version'') ''''; segments = split_dots version
           in if length segments > 3 then Inr (join_dots (take 3 segments)) else Inr version))"

definition NCPSupportFW ::
  "(string \<Rightarrow> go_error + 'v) \<Rightarrow> ('v \<Rightarrow> 'v \<Rightarrow> bool) \<Rightarrow> 'v \<Rightarrow> 'v \<Rightarrow>
   (go_error + (string \<rightharpoonup> string)) \<Rightarrow> go_error + bool" where
  "NCPSupportFW semver_Parse LT supportFW supportFWEnded configmapData =
     (case GetNCPVersion configmapData of
        Inl err \<Rightarrow> Inl err
      | Inr ncpVersion \<Rightarrow>
          (case semver_Parse ncpVersion of
             Inl err \<Rightarrow> Inl err
           | Inr v \<Rightarrow> Inr (\<not> LT v supportFW \<and> LT v supportFWEnded)))"

lemma split_dots_not_Nil [simp]: "split_dots s \<noteq> []"
  by (induction s) (auto split: list.splits)

lemma join_split_dots [simp]: "join_dots (split_dots s) = s"
proof (induction s)
  case (Cons c s)
  then show ?case by (cases "split_dots s"; cases "tl (split_dots s)") auto
qed simp

lemma dots_in_split: "w \<in> set (split_dots s) \<Longrightarrow> CHR ''.'' \<notin> set w"
  by (induction s arbitrary: w) (auto split: list.splits if_splits)

lemma split_join_dots:
  "ws \<noteq> [] \<Longrightarrow> \<forall>w \<in> set ws. CHR ''.'' \<notin> set w \<Longrightarrow> split_dots (join_dots ws) = ws"
proof (induction ws rule: join_dots.induct)
  case (2 w)
  then have "CHR ''.'' \<notin> set w" by simp
  then show ?case by (induction w) auto
next
  case (3 w v vs)
  then have "CHR ''.'' \<notin> set w" by simp
  moreover from 3 have "split_dots (join_dots (v # vs)) = v # vs" by simp
  ultimately show ?case by (induction w) auto
qed simp

section \<open>Properties\<close>

text \<open>
  C38 (round trip). A UUID survives the trip through a provider ID; anything that is not a UUID
  becomes the empty provider ID, and whatever is read out of a provider ID is a UUID
  or empty.
\<close>

theorem provider_id_roundtrip:
  "ConvertProviderIDToUUID (Some (ConvertUUIDToProviderID u)) =
     (if match_UUIDPattern u then u else '''') \<and>
   (ConvertUUIDToProviderID u = '''' \<longleftrightarrow> \<not> match_UUIDPattern u) \<and>
   (let v = ConvertProviderIDToUUID q in v = '''' \<or> match_UUIDPattern v)"
proof (intro conjI)
  show "ConvertProviderIDToUUID (Some (ConvertUUIDToProviderID u)) =
      (if match_UUIDPattern u then u else '''')"
  proof (cases "match_UUIDPattern u")
    case True
    then have "ConvertUUIDToProviderID u = ProviderIDPrefix @ u"
      by (rule ConvertUUIDToProviderID_valid)
    with True show ?thesis
      by (auto simp: ConvertProviderIDToUUID_def match_ProviderIDPattern_prefixed
          dest: match_UUIDPattern_not_Nil)
  next
    case False
    then show ?thesis
      by (simp add: ConvertProviderIDToUUID_def ConvertUUIDToProviderID_eq_Nil [THEN iffD2])
  qed
  show "ConvertUUIDToProviderID u = '''' \<longleftrightarrow> \<not> match_UUIDPattern u"
    by (rule ConvertUUIDToProviderID_eq_Nil)
  show "let v = ConvertProviderIDToUUID q in v = '''' \<or> match_UUIDPattern v"
    by (auto simp: ConvertProviderIDToUUID_def match_ProviderIDPattern_def Let_def split: option.splits if_splits)
qed

text \<open>
  With the label limit of Kubernetes (63) every sanitised host name fits in a
  label value, IPv6 literals with their suffix included.
\<close>

lemma host_label_fits:
  "length (SanitizeHostInfoLabel 63 info) \<le> 63"
proof (cases "ParseIP (stripZoneInfo info)")
  case None
  then show ?thesis
    by (simp add: SanitizeHostInfoLabel_def truncateLabelLength_def truncate_loop_bound)
next
  case (Some ip)
  then show ?thesis
    using ParseIP_bound [of "stripZoneInfo info" ip] by (simp add: SanitizeHostInfoLabel_def Let_def)
qed

text \<open>
  The IP family of a cluster is decided by its pod CIDRs, or by its
  service CIDRs when it has no pod CIDRs: single stack when all blocks are of one family,
  otherwise dual stack with the family of the first block as the primary one.
\<close>

lemma cluster_ip_family_spec:
  assumes "blocks = (if cn_Pods c = [] then cn_Services c else cn_Pods c)"
    and "blocks \<noteq> []" and "\<forall>b \<in> set blocks. cidr_is_v6 b \<noteq> None"
  shows "DetermineClusterIPFamily (Some c) = Inr (
     if \<forall>b \<in> set blocks. cidr_is_v6 b = Some False then IPv4SingleStack
     else if \<forall>b \<in> set blocks. cidr_is_v6 b = Some True then IPv6SingleStack
     else if cidr_is_v6 (hd blocks) = Some True then DualStackIPv6Primary
     else DualStackIPv4Primary)"
proof -
  obtain b bs where blocks: "blocks = b # bs" using assms(2) by (cases blocks) auto
  have def: "list_all (\<lambda>c. cidr_is_v6 c \<noteq> None) (b # bs)"
    using assms(3) blocks by (simp add: list_all_iff)
  have unf: "DetermineClusterIPFamily (Some c) =
     (case family_loop 0 False False False (b # bs) of Inl e \<Rightarrow> Inl e
      | Inr (h4, h6, f) \<Rightarrow> Inr (if h4 \<and> h6 then (if f then DualStackIPv6Primary else DualStackIPv4Primary)
          else if h6 then IPv6SingleStack else IPv4SingleStack))"
    using assms(1) blocks by (auto simp: DetermineClusterIPFamily_def Let_def)
  have all4: "(\<forall>b \<in> set blocks. cidr_is_v6 b = Some False) \<longleftrightarrow> Some True \<notin> cidr_is_v6 ` set (b # bs)"
    using assms(3) unfolding blocks by force
  have all6: "(\<forall>b \<in> set blocks. cidr_is_v6 b = Some True) \<longleftrightarrow> Some False \<notin> cidr_is_v6 ` set (b # bs)"
    using assms(3) unfolding blocks by force
  show ?thesis
    unfolding unf all4 all6 family_loop_start [OF def] using blocks by simp
qed

lemma ParseAddr_example_v6: "ParseAddr ''fd00::'' = Some (Addr6 ([253, 0] @ replicate 14 0) [])"
proof -
  have "parse_v6 ''fd00::'' [] None = Some ([253, 0], Some 2, [])"
    by (subst parse_v6.simps) (simp add: is_hex_def hex_val_def hex_num_def Let_def)
  then show ?thesis
    by (simp add: ParseIPv6_def Let_def ParseAddr_def expand_v6_def numeral_eq_Suc)
qed

text \<open>
  A generated machine name is never longer than 63 characters, unless the
  template is empty and the machine's own name is used as it is.
\<close>

lemma generated_name_bound:
  "GenerateMachineNameFromTemplate P X m t = Inr name \<Longrightarrow>
   m \<noteq> '''' \<and> (if t = '''' then name = m else length name \<le> 63)"
  by (auto simp: GenerateMachineNameFromTemplate_def maxNameLength_def split: if_splits sum.splits)

text \<open>
  Of a version with more than three segments only the first three
  reach \<open>semver.Parse\<close>; shorter versions reach it unchanged.
\<close>

lemma ncp_version_segments:
  "data ''version'' = Some v \<Longrightarrow>
   GetNCPVersion (Inr data) = Inr (join_dots (take 3 (split_dots v))) \<and>
   length (split_dots (join_dots (take 3 (split_dots v)))) \<le> 3"
proof -
  assume v: "data ''version'' = Some v"
  have "split_dots (join_dots (take 3 (split_dots v))) = take 3 (split_dots v)"
    by (rule split_join_dots) (auto dest: in_set_takeD dots_in_split)
  with v show ?thesis by (simp add: GetNCPVersion_def Let_def)
qed

end
