(* ===== verification/Go_Base64.thy ===== *)
theory Go_Base64
  imports Go_Strings
begin

text \<open>
  Go's \<open>base64.StdEncoding\<close>: \<open>EncodeToString\<close> and \<open>DecodeString\<close>. The decoder skips
  carriage returns and line feeds anywhere in its input (also inside a group and after
  the padding), accepts padding only at the end of the last group, and, the encoding
  not being strict, ignores the trailing bits of a padded group. \<open>None\<close> is the
  \<open>CorruptInputError\<close>.
\<close>

section \<open>The alphabet\<close>

definition b64_char :: "nat \<Rightarrow> char" where
  "b64_char n = char_of
     (if n < 26 then n + 65 else if n < 52 then n + 71 else if n < 62 then n - 4
      else if n = 62 then 43 else 47)"

definition b64_val :: "char \<Rightarrow> nat option" where
  "b64_val c =
     (let n = (of_char c :: nat) in
      if 65 \<le> n \<and> n \<le> 90 then Some (n - 65)
      else if 97 \<le> n \<and> n \<le> 122 then Some (n - 71)
      else if 48 \<le> n \<and> n \<le> 57 then Some (n + 4)
      else if n = 43 then Some 62 else if n = 47 then Some 63 else None)"

abbreviation pad_char :: char where "pad_char \<equiv> CHR ''=''"

lemma of_char_b64_char:
  "n < 64 \<Longrightarrow> (of_char (b64_char n) :: nat) =
     (if n < 26 then n + 65 else if n < 52 then n + 71 else if n < 62 then n - 4
      else if n = 62 then 43 else 47)"
  by (auto simp: b64_char_def)

lemma b64_val_char [simp]: "n < 64 \<Longrightarrow> b64_val (b64_char n) = Some n"
  unfolding b64_val_def of_char_b64_char Let_def by auto

lemma b64_char_not_pad [simp]: "n < 64 \<Longrightarrow> b64_char n \<noteq> pad_char"
  using b64_val_char [of n] by (auto simp: b64_val_def)

lemma b64_val_less: "b64_val c = Some n \<Longrightarrow> n < 64"
  by (auto simp: b64_val_def Let_def split: if_splits)

definition is_newline :: "char \<Rightarrow> bool" where
  "is_newline c \<longleftrightarrow> (of_char c :: nat) = 10 \<or> (of_char c :: nat) = 13"

lemma b64_char_not_newline [simp]: "n < 64 \<Longrightarrow> \<not> is_newline (b64_char n)"
  unfolding is_newline_def of_char_b64_char by auto

lemma pad_not_newline [simp]: "\<not> is_newline pad_char"
  by (simp add: is_newline_def)

section \<open>Encoding\<close>

abbreviation byte :: "char \<Rightarrow> nat" where "byte c \<equiv> of_char c"

fun EncodeToString :: "string \<Rightarrow> string" where
  "EncodeToString [] = []"
| "EncodeToString [x] =
     [b64_char (byte x div 4), b64_char (byte x mod 4 * 16), pad_char, pad_char]"
| "EncodeToString [x, y] =
     [b64_char (byte x div 4), b64_char (byte x mod 4 * 16 + byte y div 16),
      b64_char (byte y mod 16 * 4), pad_char]"
| "EncodeToString (x # y # z # rest) =
     [b64_char (byte x div 4), b64_char (byte x mod 4 * 16 + byte y div 16),
      b64_char (byte y mod 16 * 4 + byte z div 64), b64_char (byte z mod 64)]
     @ EncodeToString rest"

section \<open>Decoding\<close>

definition out1 :: "nat \<Rightarrow> nat \<Rightarrow> char" where
  "out1 a b = char_of (a * 4 + b div 16)"

definition out2 :: "nat \<Rightarrow> nat \<Rightarrow> char" where
  "out2 b c = char_of (b mod 16 * 16 + c div 4)"

definition out3 :: "nat \<Rightarrow> nat \<Rightarrow> char" where
  "out3 c d = char_of (c mod 4 * 64 + d)"

fun decode_groups :: "string \<Rightarrow> string option" where
  "decode_groups [] = Some []"
| "decode_groups (a # b # c # d # rest) =
     (case (b64_val a, b64_val b) of
        (Some va, Some vb) \<Rightarrow>
          if c = pad_char then (if d = pad_char \<and> rest = [] then Some [out1 va vb] else None)
          else (case b64_val c of
                  None \<Rightarrow> None
                | Some vc \<Rightarrow>
                    if d = pad_char then (if rest = [] then Some [out1 va vb, out2 vb vc] else None)
                    else (case b64_val d of
                            None \<Rightarrow> None
                          | Some vd \<Rightarrow>
                              map_option (\<lambda>t. out1 va vb # out2 vb vc # out3 vc vd # t)
                                (decode_groups rest)))
      | _ \<Rightarrow> None)"
| "decode_groups _ = None"

definition DecodeString :: "string \<Rightarrow> string option" where
  "DecodeString s = decode_groups (filter (\<lambda>c. \<not> is_newline c) s)"

section \<open>Round trip and sizes\<close>

lemma byte_less: "byte c < (256 :: nat)"
  by (rule nat_of_char_less_256)

lemma group_less:
  "byte x div 4 < (64::nat)" "byte x mod 4 * 16 < (64::nat)" "byte x mod 16 * 4 < (64::nat)"
  "byte x mod 4 * 16 + byte y div 16 < (64::nat)"
  "byte x mod 16 * 4 + byte y div 64 < (64::nat)" "byte x mod 64 < (64::nat)"
  using byte_less [of x] byte_less [of y] by linarith+

lemma out_simps:
  "out1 (byte x div 4) (byte x mod 4 * 16) = x"
  "out1 (byte x div 4) (byte x mod 4 * 16 + byte y div 16) = x"
  "out2 (byte x mod 4 * 16 + byte y div 16) (byte y mod 16 * 4) = y"
  "out2 (byte x mod 4 * 16 + byte y div 16) (byte y mod 16 * 4 + byte z div 64) = y"
  "out3 (byte y mod 16 * 4 + byte z div 64) (byte z mod 64) = z"
proof -
  have "byte y div 16 < (16::nat)" "byte z div 64 < (4::nat)"
    using byte_less [of y] byte_less [of z] by linarith+
  moreover have "byte x div 4 * 4 + byte x mod 4 = (byte x :: nat)"
    "byte y div 16 * 16 + byte y mod 16 = (byte y :: nat)"
    "byte z div 64 * 64 + byte z mod 64 = (byte z :: nat)"
    by simp_all
  ultimately show
    "out1 (byte x div 4) (byte x mod 4 * 16) = x"
    "out1 (byte x div 4) (byte x mod 4 * 16 + byte y div 16) = x"
    "out2 (byte x mod 4 * 16 + byte y div 16) (byte y mod 16 * 4) = y"
    "out2 (byte x mod 4 * 16 + byte y div 16) (byte y mod 16 * 4 + byte z div 64) = y"
    "out3 (byte y mod 16 * 4 + byte z div 64) (byte z mod 64) = z"
    by (simp_all add: out1_def out2_def out3_def)
qed

lemma decode_groups_encode: "decode_groups (EncodeToString s) = Some s"
  by (induction s rule: EncodeToString.induct) (simp_all add: group_less out_simps)

lemma encode_no_newline: "filter (\<lambda>c. \<not> is_newline c) (EncodeToString s) = EncodeToString s"
  by (induction s rule: EncodeToString.induct) (simp_all add: group_less)

lemma DecodeString_EncodeToString [simp]: "DecodeString (EncodeToString s) = Some s"
  by (simp add: DecodeString_def encode_no_newline decode_groups_encode)

lemma decode_groups_length: "decode_groups s = Some t \<Longrightarrow> 4 * length t \<le> 3 * length s"
  by (induction s arbitrary: t rule: decode_groups.induct)
     (fastforce split: option.splits if_splits)+

lemma DecodeString_length: "DecodeString s = Some t \<Longrightarrow> 4 * length t \<le> 3 * length s"
  using decode_groups_length [of "filter (\<lambda>c. \<not> is_newline c) s" t]
    length_filter_le [of "\<lambda>c. \<not> is_newline c" s]
  unfolding DecodeString_def by linarith

lemma DecodeString_shrinks:
  assumes "DecodeString s = Some t" and "s \<noteq> []"
  shows "length t < length s"
  using DecodeString_length [OF assms(1)] assms(2) by (cases s) auto

lemma DecodeString_Nil [simp]: "DecodeString [] = Some []"
  by (simp add: DecodeString_def)

lemma decode_groups_Nil_iff: "decode_groups s = Some [] \<longleftrightarrow> s = []"
  by (cases s rule: decode_groups.cases) (auto split: option.splits)

lemma DecodeString_eq_Nil: "DecodeString s = Some [] \<longleftrightarrow> list_all is_newline s"
  by (auto simp: DecodeString_def decode_groups_Nil_iff filter_empty_conv list_all_iff)

lemma EncodeToString_Nil_iff [simp]: "EncodeToString s = [] \<longleftrightarrow> s = []"
  by (cases s rule: EncodeToString.cases) auto

text \<open>A text with a character outside the alphabet does not decode.\<close>

lemma decode_groups_chars:
  "decode_groups s = Some t \<Longrightarrow> c \<in> set s \<Longrightarrow> c = pad_char \<or> b64_val c \<noteq> None"
  by (induction s arbitrary: t rule: decode_groups.induct)
     (fastforce split: option.splits if_splits)+

lemma DecodeString_bad_char:
  assumes "c \<in> set s" and "\<not> is_newline c" and "c \<noteq> pad_char" and "b64_val c = None"
  shows "DecodeString s = None"
proof (cases "DecodeString s")
  case (Some t)
  then show ?thesis using decode_groups_chars [of "filter (\<lambda>c. \<not> is_newline c) s" t c] assms
    by (auto simp: DecodeString_def)
qed

end
