(* ===== verification/Extra_Config.thy ===== *)
theory Extra_Config
  imports Go_Base64
begin

text \<open>
  \<open>pkg/services/govmomi/extra/config.go\<close>: the guestInfo options through which bootstrap
  data and cloud-init metadata reach a VM. A \<open>Config\<close> is a slice of option values; the
  setters append to it. \<open>encode\<close> strips base64 layers in an unbounded loop, so it is a
  \<open>partial_function\<close>: \<open>None\<close> means that the loop does not end.
\<close>

section \<open>Model\<close>

record OptionValue =
  ov_Key :: string
  ov_Value :: string

type_synonym Config = "OptionValue list"

definition guestInfoIgnitionData :: string where
  "guestInfoIgnitionData = ''guestinfo.ignition.config.data''"
definition guestInfoIgnitionEncoding :: string where
  "guestInfoIgnitionEncoding = ''guestinfo.ignition.config.data.encoding''"
definition guestInfoCloudInitData :: string where
  "guestInfoCloudInitData = ''guestinfo.userdata''"
definition guestInfoCloudInitEncoding :: string where
  "guestInfoCloudInitEncoding = ''guestinfo.userdata.encoding''"
definition guestInfoKeyMetadata :: string where
  "guestInfoKeyMetadata = ''guestinfo.metadata''"

partial_function (option) encode_loop :: "string \<Rightarrow> string option" where
  "encode_loop data =
     (case DecodeString data of
        None \<Rightarrow> Some (EncodeToString data)
      | Some decoded \<Rightarrow> encode_loop decoded)"

definition encode :: "string \<Rightarrow> string option" where
  "encode data = (if length data = 0 then Some [] else encode_loop data)"

text \<open>
  \<open>range\<close> over a Go map visits the keys in an order of the run time's choice: the
  argument lists the map's entries in that order.
\<close>

definition SetCustomVMXKeys :: "(string \<times> string) list \<Rightarrow> Config \<Rightarrow> Config" where
  "SetCustomVMXKeys customKeys e = e @ map (\<lambda>(k, v). \<lparr>ov_Key = k, ov_Value = v\<rparr>) customKeys"

definition setUserData :: "string \<Rightarrow> string \<Rightarrow> string \<Rightarrow> Config \<Rightarrow> Config option" where
  "setUserData userdataKey encodingKey data e =
     map_option (\<lambda>v. e @ [\<lparr>ov_Key = userdataKey, ov_Value = v\<rparr>,
                          \<lparr>ov_Key = encodingKey, ov_Value = ''base64''\<rparr>]) (encode data)"

definition SetCloudInitUserData :: "string \<Rightarrow> Config \<Rightarrow> Config option" where
  "SetCloudInitUserData data e = setUserData guestInfoCloudInitData guestInfoCloudInitEncoding data e"

definition SetIgnitionUserData :: "string \<Rightarrow> Config \<Rightarrow> Config option" where
  "SetIgnitionUserData data e = setUserData guestInfoIgnitionData guestInfoIgnitionEncoding data e"

definition SetCloudInitMetadata :: "string \<Rightarrow> Config \<Rightarrow> Config option" where
  "SetCloudInitMetadata data e =
     map_option (\<lambda>v. e @ [\<lparr>ov_Key = ''guestinfo.metadata'', ov_Value = v\<rparr>,
                          \<lparr>ov_Key = ''guestinfo.metadata.encoding'', ov_Value = ''base64''\<rparr>])
       (encode data)"

section \<open>The text under the base64 layers\<close>

text \<open>
  \<open>plain_text\<close> is the reference: decode while decoding succeeds. Decoding makes a
  non-empty text shorter, so the only way not to reach a text that fails to decode is to
  reach the empty text, which decodes to itself.
\<close>

function plain_text :: "string \<Rightarrow> string option" where
  "plain_text data =
     (if data = [] then None
      else case DecodeString data of None \<Rightarrow> Some data | Some d \<Rightarrow> plain_text d)"
  by pat_completeness auto
termination
  by (relation "measure length") (auto dest: DecodeString_shrinks)

declare plain_text.simps [simp del]

lemma plain_text_Nil [simp]: "plain_text [] = None"
  by (simp add: plain_text.simps)

lemma plain_text_undecodable:
  "data \<noteq> [] \<Longrightarrow> DecodeString data = None \<Longrightarrow> plain_text data = Some data"
  by (simp add: plain_text.simps)

lemma plain_text_decodable:
  "data \<noteq> [] \<Longrightarrow> DecodeString data = Some d \<Longrightarrow> plain_text data = plain_text d"
  by (subst plain_text.simps) simp

lemma plain_text_stops: "plain_text data = Some p \<Longrightarrow> p \<noteq> [] \<and> DecodeString p = None"
  by (induction data rule: plain_text.induct)
     (subst (asm) (2) plain_text.simps, auto split: if_splits option.splits)

lemma encode_loop_sound:
  assumes "encode_loop data = Some r"
  shows "\<exists>p. plain_text data = Some p \<and> r = EncodeToString p"
proof (rule encode_loop.raw_induct
    [where P = "\<lambda>data r. \<exists>p. plain_text data = Some p \<and> r = EncodeToString p", OF _ assms])
  fix f data r
  assume IH: "\<And>d r. f d = Some r \<Longrightarrow> \<exists>p. plain_text d = Some p \<and> r = EncodeToString p"
    and eq: "(case DecodeString data of None \<Rightarrow> Some (EncodeToString data) | Some d \<Rightarrow> f d) = Some r"
  show "\<exists>p. plain_text data = Some p \<and> r = EncodeToString p"
  proof (cases "DecodeString data")
    case None
    then have "data \<noteq> []" by auto
    with None eq show ?thesis by (simp add: plain_text_undecodable)
  next
    case (Some d)
    with eq IH obtain p where "plain_text d = Some p" "r = EncodeToString p" by auto
    moreover from this have "data \<noteq> []" using Some by auto
    ultimately show ?thesis using Some by (simp add: plain_text_decodable)
  qed
qed

lemma encode_loop_complete: "plain_text data = Some p \<Longrightarrow> encode_loop data = Some (EncodeToString p)"
proof (induction data rule: plain_text.induct)
  case (1 data)
  then have ne: "data \<noteq> []" by auto
  show ?case
  proof (cases "DecodeString data")
    case None
    with ne "1.prems" show ?thesis by (simp add: encode_loop.simps plain_text_undecodable)
  next
    case (Some d)
    with ne "1.prems" "1.IH" show ?thesis
      by (subst encode_loop.simps) (simp add: plain_text_decodable)
  qed
qed

lemma encode_loop_eq: "encode_loop data = map_option EncodeToString (plain_text data)"
  using encode_loop_sound [of data] encode_loop_complete [of data]
  by (cases "encode_loop data"; cases "plain_text data") fastforce+

lemma encode_eq:
  "encode data = (if data = [] then Some [] else map_option EncodeToString (plain_text data))"
  by (simp add: encode_def encode_loop_eq)

section \<open>Properties\<close>

text \<open>
  C40 (termination). \<open>encode\<close> ends on every input whose base64 layers do not unwrap to the
  empty text, and then its result is the base64 form of a text that is itself not base64.
\<close>

theorem encode_terminates_iff:
  "(\<exists>r. encode data = Some r) \<longleftrightarrow> data = [] \<or> (\<exists>p. plain_text data = Some p)"
  by (auto simp: encode_eq)

text \<open>
  On data that consists of line breaks only the decoder
  succeeds with the empty text, which decodes to itself again: the loop of \<open>encode\<close>
  never ends.
\<close>

lemma encode_diverges_on_line_breaks:
  assumes "data \<noteq> []" and "list_all is_newline data"
  shows "encode data = None"
proof -
  have "plain_text data = None"
    using assms by (simp add: plain_text_decodable DecodeString_eq_Nil [THEN iffD2])
  then show ?thesis using assms(1) by (simp add: encode_eq)
qed

text \<open>
  Data that is not itself base64 comes back unchanged from the decoder,
  and encoding is idempotent under any number of base64 layers already present.
\<close>

lemma encode_roundtrip:
  assumes "data \<noteq> []" and "DecodeString data = None"
  shows "encode data = Some (EncodeToString data) \<and>
    DecodeString (EncodeToString data) = Some data \<and>
    encode (EncodeToString data) = encode data"
proof -
  have "plain_text (EncodeToString data) = Some data"
    using assms by (simp add: plain_text_decodable plain_text_undecodable)
  with assms show ?thesis
    by (simp add: encode_eq plain_text_undecodable)
qed

end
