(* ===== verification/API_Types.thy ===== *)
theory API_Types
  imports CAPV_Prelude
begin

text \<open>
  The API types of the govmomi mode (\<open>api/govmomi/v1beta2\<close>): one record per Go struct with
  a field per field of the struct. Optional pointer fields are options; string-typed
  enumerations stay strings, because the API server may hand over a value outside the
  list of constants. The type of a \<open>resource.Quantity\<close> is not part of the repository: a
  quantity is what the program observes of it, whether it is zero and its integer value.

  The condition lists of the API objects are written and read through Cluster API's
  condition packages. An object keeps the list of the condition operations applied to it;
  what those packages report about such a list (\<open>Has\<close>, \<open>GetLastTransitionTime\<close>) is a
  parameter of the code that asks.
\<close>

section \<open>Metadata and conditions\<close>

type_synonym time = int
  \<comment> \<open>nanoseconds; \<open>metav1.Time\<close> is a \<open>time option\<close>, its zero value \<open>None\<close>\<close>

record OwnerReference =
  or_APIVersion :: string
  or_Kind :: string
  or_Name :: string
  or_UID :: string
  or_Controller :: "bool option"
  or_BlockOwnerDeletion :: "bool option"

record ObjectMeta =
  m_Name :: string
  m_Namespace :: string
  m_UID :: string
  m_Labels :: "string \<rightharpoonup> string"
  m_Annotations :: "string \<rightharpoonup> string"
  m_Finalizers :: "string list"
  m_OwnerReferences :: "OwnerReference list"
  m_DeletionTimestamp :: "time option"

definition empty_meta :: ObjectMeta where
  "empty_meta = \<lparr>m_Name = '''', m_Namespace = '''', m_UID = '''', m_Labels = Map.empty,
     m_Annotations = Map.empty, m_Finalizers = [], m_OwnerReferences = [], m_DeletionTimestamp = None\<rparr>"

datatype ConditionStatus = ConditionTrue | ConditionFalse | ConditionUnknown

datatype Severity = SeverityInfo | SeverityWarning | SeverityError | SeverityNone

datatype cond_msg =
    NoMsg
  | Msg string "string list" \<comment> \<open>a format and its arguments\<close>
  | ErrMsg go_error \<comment> \<open>\<open>err.Error()\<close>, or \<open>"%v", err\<close>\<close>

datatype cond_op =
    cond_Set string ConditionStatus string cond_msg \<comment> \<open>\<open>conditions.Set\<close>: type, status, reason, message\<close>
  | cond_Delete string
  | v1beta1_MarkTrue string
  | v1beta1_MarkFalse string string Severity cond_msg \<comment> \<open>type, reason, severity, message\<close>
  | v1beta1_Delete string
  | v1beta1_SetSummary "string list"
  | cond_SetSummary string "string list" "string list" \<comment> \<open>target, sources, ignored when missing\<close>
  | v1beta1_SetAggregate string "(string \<times> cond_op list) list" \<comment> \<open>target; sources with their conditions\<close>
  | cond_SetAggregate string "(string \<times> cond_op list) list"
  | v1beta1_SetMirror string "cond_op list" \<comment> \<open>type; the conditions of the mirrored object\<close>
  | cond_SetMirror string string "cond_op list" \<comment> \<open>target, source type; the conditions of the mirrored object\<close>

section \<open>\<open>types.go\<close>\<close>

type_synonym CloneMode = string

definition FullClone :: CloneMode where "FullClone = ''fullClone''"
definition LinkedClone :: CloneMode where "LinkedClone = ''linkedClone''"

type_synonym FtEncryptionMode = string

definition FtEncryptionDisabled :: FtEncryptionMode where "FtEncryptionDisabled = ''ftEncryptionDisabled''"
definition FtEncryptionOpportunistic :: FtEncryptionMode where
  "FtEncryptionOpportunistic = ''ftEncryptionOpportunistic''"
definition FtEncryptionRequired :: FtEncryptionMode where "FtEncryptionRequired = ''ftEncryptionRequired''"

type_synonym MigrateEncryption = string

definition DisabledMigrateEncryption :: MigrateEncryption where "DisabledMigrateEncryption = ''disabled''"
definition OpportunisticMigrateEncryption :: MigrateEncryption where
  "OpportunisticMigrateEncryption = ''opportunistic''"
definition RequiredMigrateEncryption :: MigrateEncryption where "RequiredMigrateEncryption = ''required''"

type_synonym OS = string

definition Linux :: OS where "Linux = ''Linux''"
definition Windows :: OS where "Windows = ''Windows''"

type_synonym VirtualMachinePowerOpMode = string

definition VirtualMachinePowerOpModeHard :: VirtualMachinePowerOpMode where
  "VirtualMachinePowerOpModeHard = ''hard''"
definition VirtualMachinePowerOpModeSoft :: VirtualMachinePowerOpMode where
  "VirtualMachinePowerOpModeSoft = ''soft''"
definition VirtualMachinePowerOpModeTrySoft :: VirtualMachinePowerOpMode where
  "VirtualMachinePowerOpModeTrySoft = ''trySoft''"

lemmas power_mode_defs = VirtualMachinePowerOpModeHard_def VirtualMachinePowerOpModeSoft_def
  VirtualMachinePowerOpModeTrySoft_def

datatype VirtualMachinePowerState =
    VirtualMachinePowerStatePoweredOn
  | VirtualMachinePowerStatePoweredOff
  | VirtualMachinePowerStateSuspended

record Quantity =
  q_IsZero :: bool
  q_Value :: int

record VirtualMachineResourceSpec =
  rs_CPU :: Quantity
  rs_Memory :: Quantity

record VirtualMachineResourceShares =
  sh_CPU :: int
  sh_Memory :: int

record VirtualMachineResources =
  r_Requests :: VirtualMachineResourceSpec
  r_Limits :: VirtualMachineResourceSpec
  r_Shares :: VirtualMachineResourceShares

type_synonym ProvisioningMode = string

definition ThinProvisioningMode :: ProvisioningMode where "ThinProvisioningMode = ''Thin''"
definition ThickProvisioningMode :: ProvisioningMode where "ThickProvisioningMode = ''Thick''"
definition EagerlyZeroedProvisioningMode :: ProvisioningMode where
  "EagerlyZeroedProvisioningMode = ''EagerlyZeroed''"

record VSphereDisk =
  vd_Name :: string
  vd_SizeGiB :: int
  vd_ProvisioningMode :: ProvisioningMode

record PCIDeviceSpec =
  pci_DeviceID :: "int option"
  pci_VendorID :: "int option"
  pci_VGPUProfile :: string
  pci_CustomLabel :: string

record IPPoolReference =
  pool_Name :: string
  pool_Kind :: string
  pool_APIGroup :: string

record DHCPOverrides =
  o_Hostname :: "string option"
  o_RouteMetric :: "int option"
  o_SendHostname :: "bool option"
  o_UseDNS :: "bool option"
  o_UseDomains :: "string option"
  o_UseHostname :: "bool option"
  o_UseMTU :: "bool option"
  o_UseNTP :: "bool option"
  o_UseRoutes :: "string option"

record NetworkRouteSpec =
  rt_To :: string
  rt_Via :: string
  rt_Metric :: "int option"

record NetworkDeviceSpec =
  d_NetworkName :: string
  d_DeviceName :: string
  d_DHCP4 :: "bool option"
  d_DHCP6 :: "bool option"
  d_Gateway4 :: string
  d_Gateway6 :: string
  d_IPAddrs :: "string list"
  d_MTU :: "int option"
  d_MACAddr :: string
  d_Nameservers :: "string list"
  d_Routes :: "NetworkRouteSpec list"
  d_SearchDomains :: "string list"
  d_AddressesFromPools :: "IPPoolReference list"
  d_DHCP4Overrides :: "DHCPOverrides option"
  d_DHCP6Overrides :: "DHCPOverrides option"
  d_SkipIPAllocation :: "bool option"

definition empty_device :: NetworkDeviceSpec where
  "empty_device = \<lparr>d_NetworkName = '''', d_DeviceName = '''', d_DHCP4 = None, d_DHCP6 = None,
     d_Gateway4 = '''', d_Gateway6 = '''', d_IPAddrs = [], d_MTU = None, d_MACAddr = '''',
     d_Nameservers = [], d_Routes = [], d_SearchDomains = [], d_AddressesFromPools = [],
     d_DHCP4Overrides = None, d_DHCP6Overrides = None, d_SkipIPAllocation = None\<rparr>"

record NetworkSpec =
  ns_Devices :: "NetworkDeviceSpec list"
  ns_Routes :: "NetworkRouteSpec list"

record NetworkStatus =
  nst_Connected :: "bool option"
  nst_IPAddrs :: "string list"
  nst_MACAddr :: string
  nst_NetworkName :: string

record VirtualMachineCloneSpec =
  c_Template :: string
  c_CloneMode :: CloneMode
  c_Snapshot :: string
  c_Server :: string
  c_Thumbprint :: string
  c_Datacenter :: string
  c_Folder :: string
  c_Datastore :: string
  c_StoragePolicyName :: string
  c_ResourcePool :: string
  c_Network :: NetworkSpec
  c_NumCPUs :: int
  c_NumCoresPerSocket :: "int option"
  c_Resources :: VirtualMachineResources
  c_MemoryMiB :: int
  c_DiskGiB :: int
  c_AdditionalDisksGiB :: "int list"
  c_CustomVMXKeys :: "(string \<times> string) list option"
    \<comment> \<open>a map; \<open>None\<close> is nil; the entries in the order a \<open>range\<close> over it visits them\<close>
  c_TagIDs :: "string list"
  c_PciDevices :: "PCIDeviceSpec list"
  c_OS :: OS
  c_HardwareVersion :: string
  c_DataDisks :: "VSphereDisk list"
  c_NestedHV :: "bool option"
  c_FtEncryptionMode :: FtEncryptionMode
  c_MigrateEncryption :: MigrateEncryption
  c_CryptoKeyID :: string
  c_CryptoProfile :: string

record APIEndpoint =
  ae_Host :: string
  ae_Port :: int

section \<open>\<open>vspherevm_types.go\<close>\<close>

definition VMFinalizer :: string where
  "VMFinalizer = ''vspherevm.infrastructure.cluster.x-k8s.io''"
definition IPAddressClaimFinalizer :: string where
  "IPAddressClaimFinalizer = ''vspherevm.infrastructure.cluster.x-k8s.io/ip-claim-protection''"
definition GuestSoftPowerOffDefaultTimeoutSeconds :: int where
  "GuestSoftPowerOffDefaultTimeoutSeconds = 5 * 60"

definition VSphereVMReadyCondition :: string where "VSphereVMReadyCondition = ''Ready''"
definition VSphereVMVirtualMachineProvisionedCondition :: string where
  "VSphereVMVirtualMachineProvisionedCondition = ''VirtualMachineProvisioned''"
definition VSphereVMVCenterAvailableCondition :: string where
  "VSphereVMVCenterAvailableCondition = ''VCenterAvailable''"
definition VSphereVMIPAddressClaimsFulfilledCondition :: string where
  "VSphereVMIPAddressClaimsFulfilledCondition = ''IPAddressClaimsFulfilled''"
definition VSphereVMGuestSoftPowerOffSucceededCondition :: string where
  "VSphereVMGuestSoftPowerOffSucceededCondition = ''GuestSoftPowerOffSucceeded''"
definition VSphereVMPCIDevicesDetachedCondition :: string where
  "VSphereVMPCIDevicesDetachedCondition = ''PCIDevicesDetached''"

definition GroupName :: string where "GroupName = ''infrastructure.cluster.x-k8s.io''"
definition GroupVersion_String :: string where "GroupVersion_String = ''infrastructure.cluster.x-k8s.io/v1beta2''"

record VSphereVMSpec =
  s_Clone :: VirtualMachineCloneSpec
  s_BootstrapRefName :: string
  s_BiosUUID :: string
  s_PowerOffMode :: VirtualMachinePowerOpMode
  s_GuestSoftPowerOffTimeoutSeconds :: int

record VSphereVMStatus =
  st_Conditions :: "cond_op list"
  st_Host :: string
  st_Ready :: "bool option"
  st_Addresses :: "string list"
  st_CloneMode :: CloneMode
  st_Snapshot :: string
  st_RetryAfter :: "time option"
  st_TaskRef :: string
  st_Network :: "NetworkStatus list"
  st_ModuleUUID :: "string option"
  st_VMRef :: string
  st_FailureReason :: "string option"
  st_FailureMessage :: "string option"

record VSphereVM =
  vm_meta :: ObjectMeta
  vm_Spec :: VSphereVMSpec
  vm_Status :: VSphereVMStatus

section \<open>\<open>pkg/services/interfaces.go\<close>\<close>

datatype VirtualMachineState =
    VirtualMachineStateNotFound
  | VirtualMachineStatePending
  | VirtualMachineStateReady

record VirtualMachine =
  svm_Name :: string
  svm_BiosUUID :: string
  svm_State :: VirtualMachineState
  svm_Network :: "NetworkStatus list"
  svm_VMRef :: string

section \<open>Sample values\<close>

text \<open>The zero values of the structs, as Go's composite literals leave them.\<close>

definition zero_quantity :: Quantity where
  "zero_quantity = \<lparr>q_IsZero = True, q_Value = 0\<rparr>"

definition zero_resources :: VirtualMachineResources where
  "zero_resources = \<lparr>r_Requests = \<lparr>rs_CPU = zero_quantity, rs_Memory = zero_quantity\<rparr>,
     r_Limits = \<lparr>rs_CPU = zero_quantity, rs_Memory = zero_quantity\<rparr>,
     r_Shares = \<lparr>sh_CPU = 0, sh_Memory = 0\<rparr>\<rparr>"

definition zero_clone :: VirtualMachineCloneSpec where
  "zero_clone = \<lparr>c_Template = '''', c_CloneMode = '''', c_Snapshot = '''', c_Server = '''',
     c_Thumbprint = '''', c_Datacenter = '''', c_Folder = '''', c_Datastore = '''',
     c_StoragePolicyName = '''', c_ResourcePool = '''',
     c_Network = \<lparr>ns_Devices = [], ns_Routes = []\<rparr>, c_NumCPUs = 0, c_NumCoresPerSocket = None,
     c_Resources = zero_resources, c_MemoryMiB = 0, c_DiskGiB = 0, c_AdditionalDisksGiB = [],
     c_CustomVMXKeys = None, c_TagIDs = [], c_PciDevices = [], c_OS = '''', c_HardwareVersion = '''',
     c_DataDisks = [], c_NestedHV = None, c_FtEncryptionMode = '''', c_MigrateEncryption = '''',
     c_CryptoKeyID = '''', c_CryptoProfile = ''''\<rparr>"

definition zero_VSphereVM :: VSphereVM where
  "zero_VSphereVM = \<lparr>vm_meta = empty_meta,
     vm_Spec = \<lparr>s_Clone = zero_clone, s_BootstrapRefName = '''', s_BiosUUID = '''', s_PowerOffMode = '''',
       s_GuestSoftPowerOffTimeoutSeconds = 0\<rparr>,
     vm_Status = \<lparr>st_Conditions = [], st_Host = '''', st_Ready = None, st_Addresses = [],
       st_CloneMode = '''', st_Snapshot = '''', st_RetryAfter = None, st_TaskRef = '''', st_Network = [],
       st_ModuleUUID = None, st_VMRef = '''', st_FailureReason = None, st_FailureMessage = None\<rparr>\<rparr>"

end
