(* ===== verification/API_Cluster.thy ===== *)
theory API_Cluster
  imports API_Types
begin

text \<open>
  The API types around a VM (\<open>api/govmomi/v1beta2\<close>): machines, clusters, identities, failure
  domains and deployment zones, and the fields of Cluster API's and of the IPAM contract's
  objects that the controllers read.
\<close>

section \<open>\<open>vspheremachine_types.go\<close>\<close>

definition MachineFinalizer :: string where
  "MachineFinalizer = ''vspheremachine.infrastructure.cluster.x-k8s.io''"

datatype MachineAddressType =
    MachineHostName | MachineExternalIP | MachineInternalIP | MachineExternalDNS | MachineInternalDNS

record MachineAddress =
  ma_Type :: MachineAddressType
  ma_Address :: string

record VSphereMachineSpec =
  ms_Clone :: VirtualMachineCloneSpec
  ms_ProviderID :: string
  ms_PowerOffMode :: VirtualMachinePowerOpMode
  ms_GuestSoftPowerOffTimeoutSeconds :: int
  ms_NamingTemplate :: string

record VSphereMachineStatus =
  mst_Conditions :: "cond_op list"
  mst_Provisioned :: "bool option"
  mst_Addresses :: "MachineAddress list"
  mst_Network :: "NetworkStatus list"
  mst_FailureReason :: "string option"
  mst_FailureMessage :: "string option"

record VSphereMachine =
  vmach_meta :: ObjectMeta
  vmach_Spec :: VSphereMachineSpec
  vmach_Status :: VSphereMachineStatus

record VSphereMachineTemplate =
  vmt_meta :: ObjectMeta
  vmt_Spec :: VSphereMachineSpec \<comment> \<open>\<open>Spec.Template.Spec\<close>\<close>

section \<open>\<open>vspherecluster_types.go\<close>\<close>

definition ClusterFinalizer :: string where
  "ClusterFinalizer = ''vspherecluster.infrastructure.cluster.x-k8s.io''"

record VSphereIdentityReference =
  ir_Kind :: string
  ir_Name :: string

definition VSphereClusterIdentityKind :: string where
  "VSphereClusterIdentityKind = ''VSphereClusterIdentity''"
definition SecretKind :: string where
  "SecretKind = ''Secret''"

definition identity_ref_IsDefined :: "VSphereIdentityReference \<Rightarrow> bool" where
  "identity_ref_IsDefined m \<longleftrightarrow> ir_Kind m \<noteq> '''' \<or> ir_Name m \<noteq> ''''"

record ClusterModule =
  cm_ControlPlane :: "bool option"
  cm_TargetObjectName :: string
  cm_ModuleUUID :: string

text \<open>A label selector is a third-party type: what matters of it is the labels it selects.\<close>

type_synonym LabelSelector = "(string \<rightharpoonup> string) \<Rightarrow> bool"

record VSphereClusterSpec =
  cs_Server :: string
  cs_Thumbprint :: string
  cs_ControlPlaneEndpoint :: APIEndpoint
  cs_IdentityRef :: VSphereIdentityReference
  cs_ClusterModules :: "ClusterModule list"
  cs_DisableClusterModule :: "bool option"
  cs_FailureDomainSelector :: "(go_error + LabelSelector) option"
    \<comment> \<open>\<open>None\<close>: the field is nil; \<open>Inl\<close>: the selector cannot be built\<close>

record FailureDomainStatus =
  fds_Name :: string
  fds_ControlPlane :: "bool option"

record VSphereClusterStatus =
  cst_Conditions :: "cond_op list"
  cst_Provisioned :: "bool option"
  cst_FailureDomains :: "FailureDomainStatus list"
  cst_VCenterVersion :: string

record VSphereCluster =
  vc_meta :: ObjectMeta
  vc_Spec :: VSphereClusterSpec
  vc_Status :: VSphereClusterStatus

section \<open>\<open>vsphereclusteridentity_types.go\<close>\<close>

definition SecretIdentitySetFinalizer :: string where
  "SecretIdentitySetFinalizer = ''vspherecluster/infrastructure.cluster.x-k8s.io''"
definition VSphereClusterIdentityFinalizer :: string where
  "VSphereClusterIdentityFinalizer = ''vsphereclusteridentity/infrastructure.cluster.x-k8s.io''"

record VSphereClusterIdentity =
  ci_meta :: ObjectMeta
  ci_SecretName :: string
  ci_AllowedNamespaces :: "(go_error + LabelSelector) option"
    \<comment> \<open>\<open>None\<close>: the field is nil; \<open>Inl\<close>: the selector cannot be built\<close>
  ci_Ready :: "bool option"
  ci_Conditions :: "cond_op list"

section \<open>\<open>vspherefailuredomain_types.go\<close>, \<open>vspheredeploymentzone_types.go\<close>\<close>

definition DeploymentZoneFinalizer :: string where
  "DeploymentZoneFinalizer = ''vspheredeploymentzone.infrastructure.cluster.x-k8s.io''"

type_synonym FailureDomainType = string

definition HostGroupFailureDomain :: FailureDomainType where "HostGroupFailureDomain = ''HostGroup''"
definition ComputeClusterFailureDomain :: FailureDomainType where
  "ComputeClusterFailureDomain = ''ComputeCluster''"
definition DatacenterFailureDomain :: FailureDomainType where "DatacenterFailureDomain = ''Datacenter''"

record FailureDomain =
  fd_Name :: string
  fd_Type :: FailureDomainType
  fd_TagCategory :: string

record NetworkConfiguration =
  nc_NetworkName :: string
  nc_DHCP4 :: "bool option"
  nc_DHCP6 :: "bool option"
  nc_Nameservers :: "string list"
  nc_SearchDomains :: "string list"
  nc_DHCP4Overrides :: "DHCPOverrides option"
  nc_DHCP6Overrides :: "DHCPOverrides option"
  nc_AddressesFromPools :: "IPPoolReference list"

record FailureDomainHosts =
  h_VMGroupName :: string
  h_HostGroupName :: string

definition hosts_IsDefined :: "FailureDomainHosts \<Rightarrow> bool" where
  "hosts_IsDefined m \<longleftrightarrow> h_VMGroupName m \<noteq> '''' \<or> h_HostGroupName m \<noteq> ''''"

record Topology =
  t_Datacenter :: string
  t_ComputeCluster :: string
  t_Hosts :: FailureDomainHosts
  t_Networks :: "string list"
  t_NetworkConfigurations :: "NetworkConfiguration list"
  t_Datastore :: string

record VSphereFailureDomain =
  vfd_meta :: ObjectMeta
  vfd_Region :: FailureDomain
  vfd_Zone :: FailureDomain
  vfd_Topology :: Topology

record PlacementConstraint =
  plc_ResourcePool :: string
  plc_Folder :: string

record VSphereDeploymentZone =
  dz_meta :: ObjectMeta
  dz_Server :: string
  dz_FailureDomain :: string
  dz_ControlPlane :: "bool option"
  dz_PlacementConstraint :: PlacementConstraint
  dz_Ready :: "bool option"
  dz_Conditions :: "cond_op list"

section \<open>Objects of Cluster API and of the IPAM contract\<close>

text \<open>Only the fields the controllers read or write.\<close>

record Cluster =
  cl_meta :: ObjectMeta
  cl_InfrastructureRefIsDefined :: bool \<comment> \<open>\<open>Spec.InfrastructureRef.IsDefined()\<close>\<close>
  cl_InfrastructureRefName :: string
  cl_InfrastructureRefKind :: string
  cl_EndpointIsZero :: bool \<comment> \<open>\<open>Spec.ControlPlaneEndpoint.IsZero()\<close>\<close>
  cl_InfrastructureProvisioned :: "bool option"
  cl_Conditions :: "cond_op list"

record Machine =
  mach_meta :: ObjectMeta
  mach_FailureDomain :: string
  mach_BootstrapDataSecretName :: "string option"

record IPAddressClaim =
  ipc_meta :: ObjectMeta
  ipc_PoolRef :: IPPoolReference
  ipc_AddressRefName :: string
  ipc_Conditions :: "cond_op list"

record IPAddress =
  ipa_Namespace :: string
  ipa_Name :: string
  ipa_Address :: string
  ipa_Prefix :: "int option"
  ipa_Gateway :: string

definition ClusterNameLabel :: string where
  "ClusterNameLabel = ''cluster.x-k8s.io/cluster-name''"
definition MachineControlPlaneLabel :: string where
  "MachineControlPlaneLabel = ''cluster.x-k8s.io/control-plane''"

end
