(* ===== verification/Vim.thy ===== *)
theory Vim
  imports API_Cluster Extra_Config
begin

text \<open>
  The world outside the repository: vCenter (through govmomi), the Kubernetes API (through
  controller-runtime) and the clock.

  \<^item> A \<open>call\<close> is one request to the outside with its arguments. The state of an operation
    carries the list \<open>hist\<close> of the calls made so far, so that theorems can speak of what
    was sent, and in which order.
  \<^item> The answers are the parameter \<open>ext\<close>: for each type of answer a function of the
    history, whose last element is the call being answered. An answer may depend on all
    that happened before, so every behaviour of the outside is an instance; nothing is
    assumed of it here.
  \<^item> \<open>do_call\<close> sends a call and reads its answer.
\<close>

section \<open>Data of the vSphere API\<close>

record moref =
  mo_Type :: string
  mo_Value :: string

definition moref_String :: "moref \<Rightarrow> string" where
  "moref_String r = mo_Type r @ '':'' @ mo_Value r"

datatype backing =
    NoBacking
  | FlatVer2Backing string string "bool option" "bool option"
      \<comment> \<open>file name, disk mode, ThinProvisioned, EagerlyScrub\<close>
  | VmiopBacking string \<comment> \<open>vGPU profile\<close>
  | DynamicBacking "(int \<times> int) list" string \<comment> \<open>allowed (vendor, device), custom label\<close>
  | OtherBacking string

datatype device_kind =
    VirtualDisk int \<comment> \<open>CapacityInKB\<close>
  | VirtualEthernetCard string string \<comment> \<open>MacAddress, AddressType\<close>
  | VirtualSCSIController int \<comment> \<open>ScsiCtlrUnitNumber\<close>
  | VirtualController
  | VirtualPCIPassthrough
  | OtherDevice

record VirtualDevice =
  dev_Key :: int
  dev_ControllerKey :: int
  dev_UnitNumber :: "int option"
  dev_Backing :: backing
  dev_kind :: device_kind

text \<open>The type tests of the source on the dynamic type of a device.\<close>

fun is_disk :: "VirtualDevice \<Rightarrow> bool" where
  "is_disk d = (case dev_kind d of VirtualDisk _ \<Rightarrow> True | _ \<Rightarrow> False)"

fun is_nic :: "VirtualDevice \<Rightarrow> bool" where
  "is_nic d = (case dev_kind d of VirtualEthernetCard _ _ \<Rightarrow> True | _ \<Rightarrow> False)"

fun is_controller :: "VirtualDevice \<Rightarrow> bool" where
  "is_controller d = (case dev_kind d of VirtualSCSIController _ \<Rightarrow> True | VirtualController \<Rightarrow> True | _ \<Rightarrow> False)"

definition mac_of :: "VirtualDevice \<Rightarrow> string" where
  "mac_of d = (case dev_kind d of VirtualEthernetCard m _ \<Rightarrow> m | _ \<Rightarrow> '''')"

definition capacity_of :: "VirtualDevice \<Rightarrow> int" where
  "capacity_of d = (case dev_kind d of VirtualDisk c \<Rightarrow> c | _ \<Rightarrow> 0)"

datatype device_op = OpAdd | OpEdit | OpRemove

record VirtualDeviceConfigSpec =
  dcs_Operation :: device_op
  dcs_FileCreate :: bool
  dcs_Device :: "VirtualDevice option"
  dcs_Profile :: "string list"

record SharesInfo =
  si_Shares :: int
  si_Custom :: bool

record ResourceAllocationInfo =
  ra_Reservation :: "int option"
  ra_Limit :: "int option"
  ra_Shares :: "SharesInfo option"

record VirtualMachineConfigSpec =
  vcs_InstanceUuid :: string
  vcs_DiskUuidEnabled :: "bool option"
  vcs_DeviceChange :: "VirtualDeviceConfigSpec list"
  vcs_ExtraConfig :: Config
  vcs_NumCPUs :: int
  vcs_NumCoresPerSocket :: "int option"
  vcs_MemoryMB :: int
  vcs_VAppConfigRemoved :: "bool option"
  vcs_CpuAllocation :: "ResourceAllocationInfo option"
  vcs_MemoryAllocation :: "ResourceAllocationInfo option"
  vcs_MemoryReservationLockedToMax :: "bool option"
  vcs_NestedHVEnabled :: "bool option"
  vcs_FtEncryptionMode :: string
  vcs_MigrateEncryption :: string
  vcs_VmProfile :: "string list"
  vcs_CryptoKeyId :: "string option"

definition zero_config_spec :: VirtualMachineConfigSpec where
  "zero_config_spec = \<lparr>vcs_InstanceUuid = '''', vcs_DiskUuidEnabled = None, vcs_DeviceChange = [],
     vcs_ExtraConfig = [], vcs_NumCPUs = 0, vcs_NumCoresPerSocket = None, vcs_MemoryMB = 0,
     vcs_VAppConfigRemoved = None, vcs_CpuAllocation = None, vcs_MemoryAllocation = None,
     vcs_MemoryReservationLockedToMax = None, vcs_NestedHVEnabled = None, vcs_FtEncryptionMode = '''',
     vcs_MigrateEncryption = '''', vcs_VmProfile = [], vcs_CryptoKeyId = None\<rparr>"

record DiskLocator =
  dl_DiskId :: int
  dl_DiskMoveType :: string
  dl_Datastore :: moref
  dl_DiskBackingInfo :: "backing option"

record CloneSpec =
  csp_Config :: VirtualMachineConfigSpec
  csp_DiskMoveType :: string
  csp_Folder :: moref
  csp_Pool :: moref
  csp_Datastore :: "moref option"
  csp_Disk :: "DiskLocator list"
  csp_PowerOn :: bool
  csp_Snapshot :: "moref option"

datatype fault = NoFault | InvalidPowerState string string \<comment> \<open>ExistingState, RequestedState\<close> | OtherFault

record TaskInfo =
  ti_State :: string
  ti_Error :: "(fault \<times> string) option" \<comment> \<open>fault and LocalizedMessage\<close>

record GuestNicInfo =
  gn_MacAddress :: string
  gn_Network :: string
  gn_Connected :: bool
  gn_IpAddress :: "string list"

record net_props =
  np_Devices :: "VirtualDevice list option" \<comment> \<open>\<open>None\<close>: \<open>obj.Config\<close> is nil\<close>
  np_GuestNet :: "GuestNicInfo list option" \<comment> \<open>\<open>None\<close>: \<open>obj.Guest\<close> is nil\<close>

datatype option_value = StringValue string | OtherValue

datatype cluster_rule =
    ClusterVmHostRuleInfo string string "bool option" "bool option"
      \<comment> \<open>AffineHostGroupName, VmGroupName, Enabled, Mandatory\<close>
  | OtherRule

datatype cluster_group = ClusterVmGroup string "moref list" | ClusterHostGroup string "moref list" | OtherGroup

record ProfileResult =
  pr_Key :: string
  pr_ProfileId :: "string list"

section \<open>Calls\<close>

text \<open>vCenter's inventory, read by path or by UUID.\<close>

datatype finder_call =
    FindByBIOSUUID string
  | FindByInstanceUUID string
  | FolderOrDefault string
  | Finder_VirtualMachine string
  | ResourcePoolOrDefault string
  | Finder_Datastore string
  | DefaultDatastore
  | Finder_Network string
  | ClusterComputeResource string
  | Finder_ResourcePool string
  | Finder_Folder string
  | Finder_Datacenter string

text \<open>Properties of inventory objects.\<close>

datatype object_call =
    Task_Info string
  | VM_ExtraConfig moref
  | VM_DevicesAndGuestNet moref
  | VM_ConfigVersion moref
  | VM_CurrentSnapshot moref
  | VM_GuestStateChangeSupported moref
  | VM_UUID moref
  | VM_Device moref
  | VM_PowerState moref
  | VM_HostSystem moref
  | Host_ObjectName moref
  | VM_IsToolsRunning moref
  | VM_FindSnapshot moref string

datatype service_call =
    Pool_Owner moref
  | ComputeResource_Datastores moref
  | Datastore_Summaries "moref list"
  | Ccr_Configuration moref
  | Network_EthernetCardBackingInfo moref
  | Pbm_NewClient
  | Pbm_ProfileIDByName string
  | Pbm_QueryAssociatedProfiles "string list"
  | Pbm_CheckRequirements "moref list" string
  | Crypto_GetManagerKmip
  | ListModuleMembers string
  | Find_InventoryPath moref
  | GetTagForCategory string string
  | GetAttachedTags moref

text \<open>Requests that change vCenter's inventory.\<close>

datatype vim_change =
    VM_UpgradeVM moref string
  | VM_AddDevice moref "VirtualDevice list"
  | VM_Reconfigure moref VirtualMachineConfigSpec
  | VM_PowerOn moref
  | VM_PowerOff moref
  | VM_ShutdownGuest moref
  | VM_Destroy moref
  | VM_Clone moref moref string CloneSpec \<comment> \<open>template, folder, name, spec\<close>
  | Kmip_GenerateKey string
  | AttachMultipleTagsToObject "string list" moref
  | AddModuleMembers string moref
  | RemoveModuleMembers string moref
  | Manager_CreateModule moref
  | Manager_DeleteModule string
  | Ccr_Reconfigure moref string "moref list" \<comment> \<open>VM group name and its members\<close>

text \<open>The Kubernetes API.\<close>

datatype k8s_get =
    Get_Secret string string
  | Get_Namespace string
  | Get_VSphereVM string string
  | Get_VSphereMachine string string
  | Get_VSphereCluster string string
  | Get_VSphereClusterIdentity string
  | Get_VSphereDeploymentZone string
  | Get_VSphereFailureDomain string
  | Get_Cluster string string
  | Get_Machine string string
  | Get_Owner string string string \<comment> \<open>kind, namespace, name\<close>
  | Get_IPAddressClaim string string
  | Get_IPAddress string string
  | List_VSphereVMs "string \<rightharpoonup> string"
  | List_VSphereMachines string "string \<rightharpoonup> string"
  | List_VSphereClusters
  | List_VSphereDeploymentZones "LabelSelector option"
  | List_Machines
  | List_KubeadmControlPlanes string "string \<rightharpoonup> string"
  | List_MachineDeployments string "string \<rightharpoonup> string"
  | Get_Unstructured string string string \<comment> \<open>kind, namespace, name\<close>
  | Get_VSphereMachineTemplate string string

datatype k8s_write =
    CreateOrPatch_IPAddressClaim IPAddressClaim
  | Update_IPAddressClaim IPAddressClaim
  | CreateOrPatch_VSphereVM VSphereVM
  | Delete_VSphereVM string string
  | Patch_VSphereVM VSphereVM
  | Patch_VSphereMachine VSphereMachine
  | Delete_Node string
  | Patch_Machine Machine
  | Patch_VSphereCluster VSphereCluster
  | Patch_VSphereClusterIdentity VSphereClusterIdentity
  | Patch_VSphereDeploymentZone VSphereDeploymentZone
  | Patch_VSphereFailureDomain VSphereFailureDomain
  | Delete_VSphereFailureDomain string
  | Patch_Secret ObjectMeta
  | Update_Secret ObjectMeta
  | Delete_Secret string string

text \<open>Helpers of Cluster API and controller-runtime that read and write API objects themselves.\<close>

datatype capi_call =
    GetClusterFromMetadata ObjectMeta
  | GetOwnerMachine ObjectMeta
  | GetOwnerCluster ObjectMeta
  | AddOwners Machine \<comment> \<open>\<open>clog.AddOwners\<close>\<close>
  | NewPatchHelper ObjectMeta
  | EnsureFinalizer ObjectMeta string
  | EnsurePausedCondition ObjectMeta
  | ClusterCache_GetClient string string
  | CreateOrPatch_Read string string \<comment> \<open>\<open>CreateOrPatch\<close> fetches the object its mutate function works on\<close>
  | WaitForCache string string string \<comment> \<open>\<open>wait.PollUntilContextTimeout\<close> until the cached task reference differs\<close>

text \<open>Goroutines started in the background.\<close>

datatype go_routine =
    OnTaskCompletion string
  | WhenNetworkIsReady moref string

datatype call =
    Find finder_call
  | Obj object_call
  | Svc service_call
  | Change vim_change
  | Get k8s_get
  | Put k8s_write
  | Go go_routine
  | Capi capi_call
  | Session_GetOrCreate string string "string \<times> string" string
      \<comment> \<open>server, datacenter, user name and password, thumbprint\<close>
  | Time_Now
  | Rand_Intn nat

text \<open>The calls that change vCenter's inventory.\<close>

fun vcenter_change :: "call \<Rightarrow> bool" where
  "vcenter_change (Change _) = True"
| "vcenter_change _ = False"

section \<open>Answers\<close>

type_synonym 'a answer = "call list \<Rightarrow> go_error + 'a"

record ext =
  x_unit :: "unit answer"
  x_bool :: "bool answer"
  x_string :: "string answer"
  x_strings :: "string list answer"
  x_string_opt :: "string option answer"
  x_task :: "string answer" \<comment> \<open>the value of a task's reference\<close>
  x_ref :: "moref answer"
  x_ref_opt :: "moref option answer"
  x_refs :: "moref list answer"
  x_folder :: "(string \<times> moref) answer" \<comment> \<open>inventory path and reference\<close>
  x_taskinfo :: "TaskInfo answer"
  x_devices :: "VirtualDevice list answer"
  x_backing :: "backing answer"
  x_netprops :: "net_props answer"
  x_extraconfig :: "(string \<times> option_value) list option answer"
  x_groups :: "cluster_group list answer"
  x_profiles :: "ProfileResult list answer"
  x_datastores :: "(moref \<times> string) list answer" \<comment> \<open>datastore and maintenance mode\<close>
  x_bool_opt :: "bool option answer"
  x_data :: "(string \<rightharpoonup> string) answer"
  x_vm :: "VSphereVM answer"
  x_vms :: "(string \<times> string) list answer"
  x_machine :: "VSphereMachine answer"
  x_vcluster :: "VSphereCluster answer"
  x_identity :: "VSphereClusterIdentity answer"
  x_zone :: "VSphereDeploymentZone answer"
  x_domain :: "VSphereFailureDomain answer"
  x_cluster :: "Cluster answer"
  x_capimachine_opt :: "Machine option answer"
  x_cluster_opt :: "Cluster option answer"
  x_machines :: "VSphereMachine list answer"
  x_vclusters :: "VSphereCluster list answer"
  x_zones :: "VSphereDeploymentZone list answer"
  x_capimachines :: "Machine list answer"
  x_metas :: "ObjectMeta list answer"
  x_rules :: "cluster_rule list answer"
  x_unstructured :: "(string list \<Rightarrow> go_error + (string \<times> string) option) answer"
    \<comment> \<open>an object as \<open>UnstructuredUnmarshalField\<close> sees it: the reference (kind, name) at a path, \<open>None\<close> if there is none\<close>
  x_template :: "VSphereMachineTemplate answer"
  x_paused :: "(bool \<times> bool) answer" \<comment> \<open>isPaused, requeue\<close>
  x_meta :: "ObjectMeta answer"
  x_claim :: "IPAddressClaim answer"
  x_claim_patched :: "(IPAddressClaim \<times> bool) answer" \<comment> \<open>the stored claim; whether it was created\<close>
  x_address :: "IPAddress answer"
  x_now :: "call list \<Rightarrow> time"
  x_rand :: "call list \<Rightarrow> nat"
  x_About_Version :: "call list \<Rightarrow> string" \<comment> \<open>\<open>ServiceContent.About.Version\<close> of the session created last\<close>
  \<comment> \<open>pure functions of third-party packages\<close>
  x_uuid_valid :: "string \<Rightarrow> bool" \<comment> \<open>\<open>uuid.Parse\<close>\<close>
  x_NewKey :: "VirtualDevice list \<Rightarrow> int"
  x_FindByKey :: "VirtualDevice list \<Rightarrow> int \<Rightarrow> VirtualDevice option"
  x_SelectByBackingInfo :: "VirtualDevice list \<Rightarrow> backing \<Rightarrow> VirtualDevice list"
  x_CreateEthernetCard :: "string \<Rightarrow> backing \<Rightarrow> go_error + VirtualDevice"
  x_IsVC :: bool
  x_ParseGroupVersion :: "string \<Rightarrow> go_error + (string \<times> string)"
  x_Has :: "cond_op list \<Rightarrow> string \<Rightarrow> bool" \<comment> \<open>\<open>conditions.Has\<close>\<close>
  x_LastTransitionTime :: "cond_op list \<Rightarrow> string \<Rightarrow> time"
  x_EnsureOwnerRef :: "OwnerReference list \<Rightarrow> OwnerReference \<Rightarrow> OwnerReference list"
  x_HasOwner :: "OwnerReference list \<Rightarrow> string \<Rightarrow> string list \<Rightarrow> bool"
  x_AddFinalizer :: "string list \<Rightarrow> string \<Rightarrow> string list"
  x_RemoveFinalizer :: "string list \<Rightarrow> string \<Rightarrow> string list \<times> bool" \<comment> \<open>and whether it was there\<close>
  x_RemoveOwnerRef :: "OwnerReference list \<Rightarrow> OwnerReference \<Rightarrow> OwnerReference list"
  x_IsOwnedByObject :: "OwnerReference list \<Rightarrow> ObjectMeta \<Rightarrow> string \<Rightarrow> bool" \<comment> \<open>owners, object, its kind\<close>
  x_IsTrue :: "cond_op list \<Rightarrow> string \<Rightarrow> bool" \<comment> \<open>\<open>conditions.IsTrue\<close>\<close>
  x_IsValidLabelValue :: "string \<Rightarrow> string list"
  x_ExecuteTemplate :: "string \<Rightarrow> string \<Rightarrow> go_error + string" \<comment> \<open>parsed template, machine name\<close>
  x_ParseTemplate :: "string \<Rightarrow> go_error + string"
  x_semver_Major :: "string \<Rightarrow> go_error + nat" \<comment> \<open>\<open>semver.New\<close> and its field \<open>Major\<close>\<close>
  x_SortedByCreationTimestamp :: "Machine list \<Rightarrow> Machine list"
  x_FromMachineList :: "Machine list \<Rightarrow> Machine list" \<comment> \<open>the members of the collection \<open>collections.FromMachineList\<close>\<close>
  x_SetSummaryCondition :: "cond_op list \<Rightarrow> go_error option" \<comment> \<open>the error of \<open>SetSummaryCondition\<close>\<close>
  x_SetAggregateCondition :: "(string \<times> cond_op list) list \<Rightarrow> go_error option"

section \<open>State\<close>

record world =
  hist :: "call list"

definition do_call :: "call \<Rightarrow> (call list \<Rightarrow> 'r) \<Rightarrow> 'w world_scheme \<Rightarrow> 'r \<times> 'w world_scheme" where
  "do_call c f w = (f (hist w @ [c]), w\<lparr>hist := hist w @ [c]\<rparr>)"

lemma do_call_eq: "do_call c f w = (r, w') \<longleftrightarrow> f (hist w @ [c]) = r \<and> w' = w\<lparr>hist := hist w @ [c]\<rparr>"
  by (auto simp: do_call_def)

text \<open>
  An outside on which every call fails: the base from which concrete instances are built by
  updating single fields.
\<close>

definition ext_default :: ext where
  "ext_default =
     \<lparr>x_unit = \<lambda>h. Inl (VimError ''x''), x_bool = \<lambda>h. Inl (VimError ''x''), x_string = \<lambda>h. Inl (VimError ''x''),
      x_strings = \<lambda>h. Inl (VimError ''x''), x_string_opt = \<lambda>h. Inl (VimError ''x''), x_task = \<lambda>h. Inl (VimError ''x''), x_ref = \<lambda>h. Inl (VimError ''x''),
      x_ref_opt = \<lambda>h. Inl (VimError ''x''), x_refs = \<lambda>h. Inl (VimError ''x''),
      x_folder = \<lambda>h. Inl (VimError ''x''), x_taskinfo = \<lambda>h. Inl (VimError ''x''),
      x_devices = \<lambda>h. Inl (VimError ''x''), x_backing = \<lambda>h. Inl (VimError ''x''),
      x_netprops = \<lambda>h. Inl (VimError ''x''), x_extraconfig = \<lambda>h. Inl (VimError ''x''),
      x_groups = \<lambda>h. Inl (VimError ''x''), x_profiles = \<lambda>h. Inl (VimError ''x''),
      x_datastores = \<lambda>h. Inl (VimError ''x''), x_bool_opt = \<lambda>h. Inl (VimError ''x''),
      x_data = \<lambda>h. Inl (APIError ''x''), x_vm = \<lambda>h. Inl (APIError ''x''), x_vms = \<lambda>h. Inl (APIError ''x''),
      x_machine = \<lambda>h. Inl (APIError ''x''), x_vcluster = \<lambda>h. Inl (APIError ''x''),
      x_identity = \<lambda>h. Inl (APIError ''x''), x_zone = \<lambda>h. Inl (APIError ''x''),
      x_domain = \<lambda>h. Inl (APIError ''x''), x_cluster = \<lambda>h. Inl (APIError ''x''),
      x_capimachine_opt = \<lambda>h. Inl (APIError ''x''), x_cluster_opt = \<lambda>h. Inl (APIError ''x''),
      x_machines = \<lambda>h. Inl (APIError ''x''), x_vclusters = \<lambda>h. Inl (APIError ''x''), x_zones = \<lambda>h. Inl (APIError ''x''),
      x_capimachines = \<lambda>h. Inl (APIError ''x''), x_metas = \<lambda>h. Inl (APIError ''x''), x_rules = \<lambda>h. Inl (VimError ''x''),
      x_unstructured = \<lambda>h. Inl (APIError ''x''), x_template = \<lambda>h. Inl (APIError ''x''), x_paused = \<lambda>h. Inl (APIError ''x''), x_meta = \<lambda>h. Inl (APIError ''x''),
      x_claim = \<lambda>h. Inl (APINotFound ''x''), x_claim_patched = \<lambda>h. Inl (APIError ''x''),
      x_address = \<lambda>h. Inl (APIError ''x''), x_now = \<lambda>h. 0, x_rand = \<lambda>h. 0, x_About_Version = \<lambda>h. ''8.0.0'',
      x_uuid_valid = \<lambda>s. False, x_NewKey = \<lambda>ds. - 201, x_FindByKey = \<lambda>ds k. find (\<lambda>d. dev_Key d = k) ds,
      x_SelectByBackingInfo = \<lambda>ds b. filter (\<lambda>d. dev_Backing d = b) ds,
      x_CreateEthernetCard = \<lambda>t b. Inl (VimError ''x''), x_IsVC = True,
      x_ParseGroupVersion = \<lambda>s. Inr (s, ''''), x_Has = \<lambda>cs t. False, x_LastTransitionTime = \<lambda>cs t. 0,
      x_EnsureOwnerRef = \<lambda>rs r. rs @ [r],
      x_HasOwner = \<lambda>rs v ks. list_ex (\<lambda>r. or_APIVersion r = v \<and> or_Kind r \<in> set ks) rs,
      x_AddFinalizer = \<lambda>fs f. if f \<in> set fs then fs else fs @ [f],
      x_RemoveFinalizer = \<lambda>fs f. (filter (\<lambda>g. g \<noteq> f) fs, f \<in> set fs),
      x_RemoveOwnerRef = \<lambda>rs r. filter (\<lambda>q. \<not> (or_Kind q = or_Kind r \<and> or_Name q = or_Name r)) rs,
      x_IsOwnedByObject = \<lambda>rs m k. list_ex (\<lambda>r. or_Kind r = k \<and> or_Name r = m_Name m) rs,
      x_IsTrue = \<lambda>cs t. False, x_IsValidLabelValue = \<lambda>s. [], x_ExecuteTemplate = \<lambda>t n. Inr n, x_ParseTemplate = \<lambda>t. Inr t,
      x_semver_Major = \<lambda>s. Inr 7, x_SortedByCreationTimestamp = \<lambda>ms. ms, x_FromMachineList = \<lambda>ms. ms,
      x_SetSummaryCondition = \<lambda>cs. None, x_SetAggregateCondition = \<lambda>cs. None\<rparr>"

lemma ext_default_simps [simp]:
  "x_unit ext_default = (\<lambda>h. Inl (VimError ''x''))"
  "x_bool ext_default = (\<lambda>h. Inl (VimError ''x''))"
  "x_string ext_default = (\<lambda>h. Inl (VimError ''x''))"
  "x_strings ext_default = (\<lambda>h. Inl (VimError ''x''))"
  "x_string_opt ext_default = (\<lambda>h. Inl (VimError ''x''))"
  "x_task ext_default = (\<lambda>h. Inl (VimError ''x''))"
  "x_ref ext_default = (\<lambda>h. Inl (VimError ''x''))"
  "x_ref_opt ext_default = (\<lambda>h. Inl (VimError ''x''))"
  "x_refs ext_default = (\<lambda>h. Inl (VimError ''x''))"
  "x_folder ext_default = (\<lambda>h. Inl (VimError ''x''))"
  "x_taskinfo ext_default = (\<lambda>h. Inl (VimError ''x''))"
  "x_devices ext_default = (\<lambda>h. Inl (VimError ''x''))"
  "x_backing ext_default = (\<lambda>h. Inl (VimError ''x''))"
  "x_netprops ext_default = (\<lambda>h. Inl (VimError ''x''))"
  "x_extraconfig ext_default = (\<lambda>h. Inl (VimError ''x''))"
  "x_groups ext_default = (\<lambda>h. Inl (VimError ''x''))"
  "x_profiles ext_default = (\<lambda>h. Inl (VimError ''x''))"
  "x_datastores ext_default = (\<lambda>h. Inl (VimError ''x''))"
  "x_bool_opt ext_default = (\<lambda>h. Inl (VimError ''x''))"
  "x_data ext_default = (\<lambda>h. Inl (APIError ''x''))"
  "x_vm ext_default = (\<lambda>h. Inl (APIError ''x''))"
  "x_vms ext_default = (\<lambda>h. Inl (APIError ''x''))"
  "x_machine ext_default = (\<lambda>h. Inl (APIError ''x''))"
  "x_vcluster ext_default = (\<lambda>h. Inl (APIError ''x''))"
  "x_identity ext_default = (\<lambda>h. Inl (APIError ''x''))"
  "x_zone ext_default = (\<lambda>h. Inl (APIError ''x''))"
  "x_domain ext_default = (\<lambda>h. Inl (APIError ''x''))"
  "x_cluster ext_default = (\<lambda>h. Inl (APIError ''x''))"
  "x_capimachine_opt ext_default = (\<lambda>h. Inl (APIError ''x''))"
  "x_cluster_opt ext_default = (\<lambda>h. Inl (APIError ''x''))"
  "x_machines ext_default = (\<lambda>h. Inl (APIError ''x''))"
  "x_vclusters ext_default = (\<lambda>h. Inl (APIError ''x''))"
  "x_zones ext_default = (\<lambda>h. Inl (APIError ''x''))"
  "x_capimachines ext_default = (\<lambda>h. Inl (APIError ''x''))"
  "x_metas ext_default = (\<lambda>h. Inl (APIError ''x''))"
  "x_rules ext_default = (\<lambda>h. Inl (VimError ''x''))"
  "x_unstructured ext_default = (\<lambda>h. Inl (APIError ''x''))"
  "x_template ext_default = (\<lambda>h. Inl (APIError ''x''))"
  "x_paused ext_default = (\<lambda>h. Inl (APIError ''x''))"
  "x_meta ext_default = (\<lambda>h. Inl (APIError ''x''))"
  "x_claim ext_default = (\<lambda>h. Inl (APINotFound ''x''))"
  "x_claim_patched ext_default = (\<lambda>h. Inl (APIError ''x''))"
  "x_address ext_default = (\<lambda>h. Inl (APIError ''x''))"
  "x_now ext_default = (\<lambda>h. 0)"
  "x_rand ext_default = (\<lambda>h. 0)"
  "x_About_Version ext_default = (\<lambda>h. ''8.0.0'')"
  "x_uuid_valid ext_default = (\<lambda>s. False)"
  "x_NewKey ext_default = (\<lambda>ds. - 201)"
  "x_FindByKey ext_default = (\<lambda>ds k. find (\<lambda>d. dev_Key d = k) ds)"
  "x_SelectByBackingInfo ext_default = (\<lambda>ds b. filter (\<lambda>d. dev_Backing d = b) ds)"
  "x_CreateEthernetCard ext_default = (\<lambda>t b. Inl (VimError ''x''))"
  "x_IsVC ext_default = (True)"
  "x_ParseGroupVersion ext_default = (\<lambda>s. Inr (s, ''''))"
  "x_Has ext_default = (\<lambda>cs t. False)"
  "x_LastTransitionTime ext_default = (\<lambda>cs t. 0)"
  "x_EnsureOwnerRef ext_default = (\<lambda>rs r. rs @ [r])"
  "x_HasOwner ext_default = (\<lambda>rs v ks. list_ex (\<lambda>r. or_APIVersion r = v \<and> or_Kind r \<in> set ks) rs)"
  "x_AddFinalizer ext_default = (\<lambda>fs f. if f \<in> set fs then fs else fs @ [f])"
  "x_RemoveFinalizer ext_default = (\<lambda>fs f. (filter (\<lambda>g. g \<noteq> f) fs, f \<in> set fs))"
  "x_RemoveOwnerRef ext_default = (\<lambda>rs r. filter (\<lambda>q. \<not> (or_Kind q = or_Kind r \<and> or_Name q = or_Name r)) rs)"
  "x_IsOwnedByObject ext_default = (\<lambda>rs m k. list_ex (\<lambda>r. or_Kind r = k \<and> or_Name r = m_Name m) rs)"
  "x_IsTrue ext_default = (\<lambda>cs t. False)"
  "x_IsValidLabelValue ext_default = (\<lambda>s. [])"
  "x_ExecuteTemplate ext_default = (\<lambda>t n. Inr n)"
  "x_ParseTemplate ext_default = (\<lambda>t. Inr t)"
  "x_semver_Major ext_default = (\<lambda>s. Inr 7)"
  "x_SortedByCreationTimestamp ext_default = (\<lambda>ms. ms)"
  "x_FromMachineList ext_default = (\<lambda>ms. ms)"
  "x_SetSummaryCondition ext_default = (\<lambda>cs. None)"
  "x_SetAggregateCondition ext_default = (\<lambda>cs. None)"
  by (simp_all add: ext_default_def)

end
