(* ===== verification/VM_Context.thy ===== *)
theory VM_Context
  imports Vim
begin

text \<open>
  \<open>pkg/context/vm_context.go\<close>: the state a reconciliation of a VSphereVM works on. The Go
  context points to one VSphereVM that all steps change; here the object is a field of the
  state. \<open>Patch\<close> writes the object to the API server and leaves it as it is.
\<close>

record vm_ctx = world +
  ctx_VM :: VSphereVM
  ctx_ClusterModuleInfo :: "string option"
  ctx_FailureDomain :: "VSphereFailureDomain option"

type_synonym ('w, 'a) vm_step = "'w vm_ctx_scheme \<Rightarrow> (go_error + 'a) \<times> 'w vm_ctx_scheme"

abbreviation vm_spec :: "'w vm_ctx_scheme \<Rightarrow> VSphereVMSpec" where
  "vm_spec w \<equiv> vm_Spec (ctx_VM w)"

abbreviation vm_clone_spec :: "'w vm_ctx_scheme \<Rightarrow> VirtualMachineCloneSpec" where
  "vm_clone_spec w \<equiv> s_Clone (vm_Spec (ctx_VM w))"

abbreviation vm_status :: "'w vm_ctx_scheme \<Rightarrow> VSphereVMStatus" where
  "vm_status w \<equiv> vm_Status (ctx_VM w)"

abbreviation vm_name :: "'w vm_ctx_scheme \<Rightarrow> string" where
  "vm_name w \<equiv> m_Name (vm_meta (ctx_VM w))"

definition upd_status :: "(VSphereVMStatus \<Rightarrow> VSphereVMStatus) \<Rightarrow> 'w vm_ctx_scheme \<Rightarrow> 'w vm_ctx_scheme" where
  "upd_status f w = w\<lparr>ctx_VM := (ctx_VM w)\<lparr>vm_Status := f (vm_Status (ctx_VM w))\<rparr>\<rparr>"

definition set_TaskRef :: "string \<Rightarrow> 'w vm_ctx_scheme \<Rightarrow> 'w vm_ctx_scheme" where
  "set_TaskRef t = upd_status (\<lambda>s. s\<lparr>st_TaskRef := t\<rparr>)"

definition add_cond :: "cond_op list \<Rightarrow> 'w vm_ctx_scheme \<Rightarrow> 'w vm_ctx_scheme" where
  \<comment> \<open>condition operations on the VSphereVM, in order\<close>
  "add_cond ops = upd_status (\<lambda>s. s\<lparr>st_Conditions := st_Conditions s @ ops\<rparr>)"

definition vm_Patch :: "ext \<Rightarrow> ('w, unit) vm_step" where
  "vm_Patch x w = do_call (Put (Patch_VSphereVM (ctx_VM w))) (x_unit x) w"

section \<open>Which fields the setters change\<close>

lemma upd_status_simps [simp]:
  "hist (upd_status f w) = hist w"
  "vm_Spec (ctx_VM (upd_status f w)) = vm_Spec (ctx_VM w)"
  "vm_meta (ctx_VM (upd_status f w)) = vm_meta (ctx_VM w)"
  "vm_Status (ctx_VM (upd_status f w)) = f (vm_Status (ctx_VM w))"
  "ctx_ClusterModuleInfo (upd_status f w) = ctx_ClusterModuleInfo w"
  "ctx_FailureDomain (upd_status f w) = ctx_FailureDomain w"
  by (simp_all add: upd_status_def)

lemma set_TaskRef_simps [simp]:
  "hist (set_TaskRef t w) = hist w"
  "vm_Spec (ctx_VM (set_TaskRef t w)) = vm_Spec (ctx_VM w)"
  "vm_meta (ctx_VM (set_TaskRef t w)) = vm_meta (ctx_VM w)"
  "vm_Status (ctx_VM (set_TaskRef t w)) = (vm_Status (ctx_VM w))\<lparr>st_TaskRef := t\<rparr>"
  "ctx_ClusterModuleInfo (set_TaskRef t w) = ctx_ClusterModuleInfo w"
  "ctx_FailureDomain (set_TaskRef t w) = ctx_FailureDomain w"
  by (simp_all add: set_TaskRef_def)

lemma add_cond_simps [simp]:
  "hist (add_cond ops w) = hist w"
  "vm_Spec (ctx_VM (add_cond ops w)) = vm_Spec (ctx_VM w)"
  "vm_meta (ctx_VM (add_cond ops w)) = vm_meta (ctx_VM w)"
  "vm_Status (ctx_VM (add_cond ops w)) =
     (vm_Status (ctx_VM w))\<lparr>st_Conditions := st_Conditions (vm_Status (ctx_VM w)) @ ops\<rparr>"
  "ctx_ClusterModuleInfo (add_cond ops w) = ctx_ClusterModuleInfo w"
  "ctx_FailureDomain (add_cond ops w) = ctx_FailureDomain w"
  by (simp_all add: add_cond_def)

section \<open>Requests that leave a task running\<close>

text \<open>
  The requests that start a task of vCenter and return its reference without waiting for it; the reference goes to
  \<open>TaskRef\<close>. \<open>AddDevice\<close> of govmomi is none of them: it waits for the reconfiguration that it starts, so that task is over when
  the call returns.
\<close>

fun leaves_task :: "call \<Rightarrow> bool" where
  "leaves_task (Change (VM_UpgradeVM _ _)) = True"
| "leaves_task (Change (VM_Reconfigure _ _)) = True"
| "leaves_task (Change (VM_PowerOn _)) = True"
| "leaves_task (Change (VM_PowerOff _)) = True"
| "leaves_task (Change (VM_Destroy _)) = True"
| "leaves_task (Change (VM_Clone _ _ _ _)) = True"
| "leaves_task (Change (Ccr_Reconfigure _ _ _)) = True"
| "leaves_task _ = False"

lemma not_change_no_task: "\<not> vcenter_change c \<Longrightarrow> \<not> leaves_task c"
  by (cases c) auto

section \<open>Histories only grow\<close>

text \<open>
  \<open>calls_ok P w w'\<close>: from \<open>w\<close> to \<open>w'\<close> only calls with property \<open>P\<close> were made. The component
  proofs show it operation by operation and compose it along the code.
\<close>

definition calls_ok :: "(call \<Rightarrow> bool) \<Rightarrow> 'v world_scheme \<Rightarrow> 'w world_scheme \<Rightarrow> bool" where
  "calls_ok P w w' \<longleftrightarrow> (\<exists>cs. hist w' = hist w @ cs \<and> list_all P cs)"

named_theorems calls_intros \<open>introduction rules for \<open>calls_ok\<close>\<close>

lemma calls_ok_refl [simp, intro, calls_intros]: "calls_ok P w w"
  by (simp add: calls_ok_def)

lemma calls_ok_trans [trans]: "calls_ok P u v \<Longrightarrow> calls_ok P v w \<Longrightarrow> calls_ok P u w"
  unfolding calls_ok_def by fastforce

lemma calls_ok_mono: "calls_ok P w w' \<Longrightarrow> (\<And>c. P c \<Longrightarrow> Q c) \<Longrightarrow> calls_ok Q w w'"
  unfolding calls_ok_def by (metis (mono_tags, lifting) list_all_iff)

lemma calls_ok_hist: "hist w' = hist w'' \<Longrightarrow> calls_ok P w w' \<longleftrightarrow> calls_ok P w w''"
  by (simp add: calls_ok_def)

lemma calls_ok_set_TaskRef [simp]: "calls_ok P w (set_TaskRef t w') \<longleftrightarrow> calls_ok P w w'"
  by (rule calls_ok_hist) simp

lemma calls_ok_add_cond [simp]: "calls_ok P w (add_cond ops w') \<longleftrightarrow> calls_ok P w w'"
  by (rule calls_ok_hist) simp

lemma calls_ok_upd_status [simp]: "calls_ok P w (upd_status f w') \<longleftrightarrow> calls_ok P w w'"
  by (rule calls_ok_hist) simp

lemma calls_ok_do_call [calls_intros]: "P c \<Longrightarrow> calls_ok P w (snd (do_call c f w))"
  by (simp add: do_call_def calls_ok_def)

lemma calls_ok_bindE [calls_intros]:
  assumes "calls_ok P w (snd m)"
    and "\<And>y w'. m = (Inr y, w') \<Longrightarrow> calls_ok P w' (snd (k y w'))"
  shows "calls_ok P w (snd (bindE m k))"
  using assms by (cases m; cases "fst m") (auto intro: calls_ok_trans)

lemma calls_ok_wrapE [calls_intros]: "calls_ok P w (snd m) \<Longrightarrow> calls_ok P w (snd (wrapE s as m))"
  by simp

text \<open>Made calls never disappear, and those made by an operation come after the earlier ones.\<close>

lemma calls_ok_prefix: "calls_ok P w w' \<Longrightarrow> prefix (hist w) (hist w')"
  by (auto simp: calls_ok_def)

definition new_calls :: "'v world_scheme \<Rightarrow> 'w world_scheme \<Rightarrow> call list" where
  "new_calls w w' = drop (length (hist w)) (hist w')"

lemma calls_ok_new_calls: "calls_ok P w w' \<longleftrightarrow> prefix (hist w) (hist w') \<and> list_all P (new_calls w w')"
  by (auto simp: calls_ok_def new_calls_def prefix_def)

lemma calls_ok_append [simp]: "calls_ok P w (w\<lparr>hist := hist w @ cs\<rparr>) \<longleftrightarrow> list_all P cs"
  by (simp add: calls_ok_def)

lemma calls_ok_snoc_trans: "calls_ok P w w' \<Longrightarrow> P c \<Longrightarrow> calls_ok P w (w'\<lparr>hist := hist w' @ [c]\<rparr>)"
  by (rule calls_ok_trans [of _ _ w']) simp_all

lemma calls_ok_pair [calls_intros]: "calls_ok P w w' \<Longrightarrow> calls_ok P w (snd (r, w'))"
  by simp

lemma do_call_fields [simp]:
  "hist (snd (do_call c f w)) = hist w @ [c]"
  "ctx_VM (snd (do_call c f v)) = ctx_VM v"
  "ctx_ClusterModuleInfo (snd (do_call c f v)) = ctx_ClusterModuleInfo v"
  "ctx_FailureDomain (snd (do_call c f v)) = ctx_FailureDomain v"
  by (simp_all add: do_call_def)

text \<open>
  \<open>same_but_hist w w'\<close>: from \<open>w\<close> to \<open>w'\<close> calls were made but the rest of the state was left alone.
\<close>

definition same_but_hist :: "'w world_scheme \<Rightarrow> 'w world_scheme \<Rightarrow> bool" where
  "same_but_hist w w' \<longleftrightarrow> world.more w' = world.more w"

named_theorems frame_intros \<open>introduction rules for \<open>same_but_hist\<close>\<close>

lemma same_but_hist_refl [simp, intro, frame_intros]: "same_but_hist w w"
  by (simp add: same_but_hist_def)

lemma same_but_hist_trans [trans]: "same_but_hist u v \<Longrightarrow> same_but_hist v w \<Longrightarrow> same_but_hist u w"
  by (simp add: same_but_hist_def)

lemma same_but_hist_do_call [frame_intros]: "same_but_hist w (snd (do_call c f w))"
  by (simp add: same_but_hist_def do_call_def)

lemma same_but_hist_snoc [simp]: "same_but_hist w (w\<lparr>hist := h\<rparr>)"
  by (simp add: same_but_hist_def)

lemma same_but_hist_bindE [frame_intros]:
  assumes "same_but_hist w (snd m)"
    and "\<And>y w'. m = (Inr y, w') \<Longrightarrow> same_but_hist w' (snd (k y w'))"
  shows "same_but_hist w (snd (bindE m k))"
  using assms by (cases m; cases "fst m") (auto intro: same_but_hist_trans)

lemma same_but_hist_wrapE [frame_intros]: "same_but_hist w (snd m) \<Longrightarrow> same_but_hist w (snd (wrapE s as m))"
  by simp

lemma same_but_hist_pair [frame_intros]: "same_but_hist w w' \<Longrightarrow> same_but_hist w (snd (r, w'))"
  by simp

lemma same_but_hist_fields:
  fixes v v' :: "'w vm_ctx_scheme"
  assumes "same_but_hist v v'"
  shows "ctx_VM v' = ctx_VM v" "ctx_ClusterModuleInfo v' = ctx_ClusterModuleInfo v"
    "ctx_FailureDomain v' = ctx_FailureDomain v"
proof -
  obtain h where v': "v' = v\<lparr>hist := h\<rparr>"
    using assms by (cases v; cases v') (simp add: same_but_hist_def)
  show "ctx_VM v' = ctx_VM v" "ctx_ClusterModuleInfo v' = ctx_ClusterModuleInfo v"
    "ctx_FailureDomain v' = ctx_FailureDomain v" by (simp_all add: v')
qed

text \<open>A VSphereVM with empty fields and a reference, for concrete instances.\<close>

definition sample_ref :: moref where
  "sample_ref = \<lparr>mo_Type = ''VirtualMachine'', mo_Value = ''vm-42''\<rparr>"

definition sample_ctx :: vm_ctx where
  "sample_ctx = \<lparr>hist = [], ctx_VM = zero_VSphereVM, ctx_ClusterModuleInfo = None, ctx_FailureDomain = None\<rparr>"

end
