(* ===== verification/Disks.thy ===== *)
theory Disks
  imports Vim
begin

text \<open>
  The virtual hardware a clone asks for (\<open>pkg/services/govmomi/vcenter/clone.go\<close>): sizes of
  the template's disks, additional data disks with their unit numbers, disk locators and
  network cards. An index outside the slice of used unit numbers panics.
\<close>

section \<open>Unit numbers\<close>

definition maxUnitNumber :: nat where
  "maxUnitNumber = 30"

record unitNumberAssigner =
  u_used :: "bool list"
  u_offset :: nat

fun mark_used :: "int \<Rightarrow> bool list \<Rightarrow> go_error + bool list" where
  \<comment> \<open>\<open>used[i] = true\<close>\<close>
  "mark_used i used =
     (if 0 \<le> i \<and> nat i < length used then Inr (used[nat i := True])
      else Inl (Panic ''index out of range''))"

fun mark_devices :: "int \<Rightarrow> bool list \<Rightarrow> VirtualDevice list \<Rightarrow> go_error + bool list" where
  "mark_devices controllerKey used [] = Inr used"
| "mark_devices controllerKey used (d # ds) =
     (case dev_UnitNumber d of
        Some n \<Rightarrow>
          if dev_ControllerKey d = controllerKey
          then (case mark_used n used of Inl e \<Rightarrow> Inl e | Inr used' \<Rightarrow> mark_devices controllerKey used' ds)
          else mark_devices controllerKey used ds
      | None \<Rightarrow> mark_devices controllerKey used ds)"

definition newUnitNumberAssigner ::
  "VirtualDevice option \<Rightarrow> VirtualDevice list \<Rightarrow> go_error + unitNumberAssigner" where
  "newUnitNumberAssigner controller existingDevices =
     (case controller of
        None \<Rightarrow> Inl (Errorf ''controller parameter cannot be nil'' [])
      | Some c \<Rightarrow>
          (let used = replicate maxUnitNumber False
           in case (case dev_kind c of VirtualSCSIController n \<Rightarrow> mark_used n used | _ \<Rightarrow> Inr used) of
                Inl e \<Rightarrow> Inl e
              | Inr used \<Rightarrow>
                  (case mark_devices (dev_Key c) used existingDevices of
                     Inl e \<Rightarrow> Inl e
                   | Inr used \<Rightarrow> Inr \<lparr>u_used = used, u_offset = 0\<rparr>)))"

text \<open>The scan \<open>for i, isInUse := range a.used[a.offset:]\<close>: the first free position.\<close>

fun first_free :: "nat \<Rightarrow> bool list \<Rightarrow> nat option" where
  "first_free i [] = None"
| "first_free i (inUse # rest) = (if \<not> inUse then Some i else first_free (Suc i) rest)"

definition assign :: "unitNumberAssigner \<Rightarrow> (go_error + nat) \<times> unitNumberAssigner" where
  "assign a =
     (if u_offset a > length (u_used a) then (Inl (Errorf ''all unit numbers are already in-use'' []), a)
      else case first_free (u_offset a) (drop (u_offset a) (u_used a)) of
             Some unit \<Rightarrow>
               (Inr unit, \<lparr>u_used = (u_used a)[unit := True], u_offset = Suc (u_offset a)\<rparr>)
           | None \<Rightarrow> (Inl (Errorf ''all unit numbers are already in-use'' []), a))"

section \<open>Disks\<close>

definition getDiskConfigSpec :: "VirtualDevice \<Rightarrow> int \<Rightarrow> go_error + VirtualDeviceConfigSpec" where
  "getDiskConfigSpec disk diskCloneCapacityKB =
     (if diskCloneCapacityKB > 0 \<and> diskCloneCapacityKB < capacity_of disk
      then Inl (Errorf ''can't resize template disk down, initial capacity is larger: %dKiB > %dKiB'' [])
      else Inr \<lparr>dcs_Operation = OpEdit, dcs_FileCreate = False,
             dcs_Device = Some (if diskCloneCapacityKB > 0 then disk\<lparr>dev_kind := VirtualDisk diskCloneCapacityKB\<rparr>
                                else disk),
             dcs_Profile = []\<rparr>)"

text \<open>The loop over the disks after the first; \<open>i\<close> indexes \<open>AdditionalDisksGiB\<close>.\<close>

fun additional_disk_specs ::
  "int list \<Rightarrow> nat \<Rightarrow> VirtualDevice list \<Rightarrow> go_error + VirtualDeviceConfigSpec list" where
  "additional_disk_specs sizes i [] = Inr []"
| "additional_disk_specs sizes i (disk # disks) =
     (case getDiskConfigSpec disk (if length sizes > i then sizes ! i * 1024 * 1024 else capacity_of disk) of
        Inl e \<Rightarrow> Inl (Wrapf e ''Error getting disk config spec for additional disk'' [])
      | Inr spec \<Rightarrow>
          (case additional_disk_specs sizes (Suc i) disks of
             Inl e \<Rightarrow> Inl e
           | Inr specs \<Rightarrow> Inr (spec # specs)))"

definition getDiskSpec ::
  "VirtualMachineCloneSpec \<Rightarrow> VirtualDevice list \<Rightarrow> go_error + VirtualDeviceConfigSpec list" where
  "getDiskSpec spec devices =
     (case filter is_disk devices of
        [] \<Rightarrow> Inl (Errorf ''Invalid disk count: %d'' [''0''])
      | primaryDisk # disks \<Rightarrow>
          (case getDiskConfigSpec primaryDisk (c_DiskGiB spec * 1024 * 1024) of
             Inl e \<Rightarrow> Inl (Wrapf e ''Error getting disk config spec for primary disk'' [])
           | Inr primary \<Rightarrow>
               (case additional_disk_specs (c_AdditionalDisksGiB spec) 0 disks of
                  Inl e \<Rightarrow> Inl e
                | Inr specs \<Rightarrow> Inr (primary # specs))))"

text \<open>The backing of a new data disk, by its provisioning mode.\<close>

definition data_disk_backing :: "ProvisioningMode \<Rightarrow> backing" where
  "data_disk_backing mode =
     (if mode = ThinProvisioningMode then FlatVer2Backing '''' ''persistent'' (Some True) None
      else if mode = ThickProvisioningMode then FlatVer2Backing '''' ''persistent'' (Some False) None
      else if mode = EagerlyZeroedProvisioningMode
           then FlatVer2Backing '''' ''persistent'' (Some False) (Some True)
      else FlatVer2Backing '''' ''persistent'' None None)"

fun data_disk_loop ::
  "int \<Rightarrow> int \<Rightarrow> nat \<Rightarrow> unitNumberAssigner \<Rightarrow> VSphereDisk list \<Rightarrow> go_error + VirtualDeviceConfigSpec list" where
  "data_disk_loop newKey controllerKey i a [] = Inr []"
| "data_disk_loop newKey controllerKey i a (dataDisk # rest) =
     (case assign a of
        (Inl e, _) \<Rightarrow> Inl e
      | (Inr unitNumber, a') \<Rightarrow>
          (case data_disk_loop newKey controllerKey (Suc i) a' rest of
             Inl e \<Rightarrow> Inl e
           | Inr specs \<Rightarrow>
               Inr (\<lparr>dcs_Operation = OpAdd, dcs_FileCreate = True,
                     dcs_Device = Some \<lparr>dev_Key = newKey - int i, dev_ControllerKey = controllerKey,
                       dev_UnitNumber = Some (int unitNumber),
                       dev_Backing = data_disk_backing (vd_ProvisioningMode dataDisk),
                       dev_kind = VirtualDisk (vd_SizeGiB dataDisk * 1024 * 1024)\<rparr>,
                     dcs_Profile = []\<rparr> # specs)))"

definition createDataDisks ::
  "ext \<Rightarrow> VSphereDisk list \<Rightarrow> VirtualDevice list \<Rightarrow> go_error + VirtualDeviceConfigSpec list" where
  "createDataDisks x dataDiskDefs devices =
     (case filter is_disk devices of
        [] \<Rightarrow> Inl (Errorf ''Invalid disk count: %d'' [''0''])
      | primaryDisk # _ \<Rightarrow>
          (case x_FindByKey x devices (dev_ControllerKey primaryDisk) of
             None \<Rightarrow> Inl (Errorf ''unable to find controller with key=%v'' [])
           | Some controller \<Rightarrow>
               if \<not> is_controller controller then Inl (Errorf ''unable to find controller with key=%v'' [])
               else case newUnitNumberAssigner (Some controller) devices of
                      Inl e \<Rightarrow> Inl e
                    | Inr a \<Rightarrow> data_disk_loop (x_NewKey x devices) (dev_Key controller) 0 a dataDiskDefs))"

definition fullCloneDiskMoveType :: string where
  "fullCloneDiskMoveType = ''moveAllDiskBackingsAndConsolidate''"
definition linkCloneDiskMoveType :: string where
  "linkCloneDiskMoveType = ''createNewChildDiskBacking''"

definition getDiskLocators :: "VirtualDevice list \<Rightarrow> moref \<Rightarrow> bool \<Rightarrow> DiskLocator list" where
  "getDiskLocators disks datastoreRef isLinkedClone =
     map (\<lambda>disk. \<lparr>dl_DiskId = dev_Key disk,
            dl_DiskMoveType = (if isLinkedClone then linkCloneDiskMoveType
                               else ''moveAllDiskBackingsAndDisallowSharing''),
            dl_Datastore = datastoreRef,
            dl_DiskBackingInfo =
              (case dev_Backing disk of FlatVer2Backing _ _ _ _ \<Rightarrow> Some (dev_Backing disk) | _ \<Rightarrow> None)\<rparr>)
       disks"

section \<open>Network cards\<close>

definition ethCardType :: string where
  "ethCardType = ''vmxnet3''"

text \<open>\<open>nic.MacAddress\<close>, \<open>nic.AddressType\<close> and \<open>nic.Key\<close> of the new card.\<close>

definition configure_nic :: "string \<Rightarrow> int \<Rightarrow> VirtualDevice \<Rightarrow> VirtualDevice" where
  "configure_nic mac key dev =
     dev\<lparr>dev_Key := key,
         dev_kind := (case dev_kind dev of
            VirtualEthernetCard m t \<Rightarrow>
              if mac \<noteq> '''' then VirtualEthernetCard mac ''Manual'' else VirtualEthernetCard m t
          | k \<Rightarrow> k)\<rparr>"

fun add_nics ::
  "ext \<Rightarrow> int \<Rightarrow> NetworkDeviceSpec list \<Rightarrow> 'w world_scheme \<Rightarrow>
   (go_error + VirtualDeviceConfigSpec list) \<times> 'w world_scheme" where
  "add_nics x key [] w = (Inr [], w)"
| "add_nics x key (netSpec # rest) w =
     bindE (wrapE ''unable to find network %q'' [d_NetworkName netSpec]
             (do_call (Find (Finder_Network (d_NetworkName netSpec))) (x_ref x) w)) (\<lambda>ref w.
     bindE (wrapE ''unable to create new ethernet card backing info for network %q on %q'' [d_NetworkName netSpec]
             (do_call (Svc (Network_EthernetCardBackingInfo ref)) (x_backing x) w)) (\<lambda>backing w.
     bindE (wrapE ''unable to create new ethernet card %q for network %q on %q'' [ethCardType, d_NetworkName netSpec]
             (x_CreateEthernetCard x ethCardType backing, w)) (\<lambda>dev w.
     bindE (add_nics x (key - 1) rest w) (\<lambda>specs w.
     (Inr (\<lparr>dcs_Operation = OpAdd, dcs_FileCreate = False,
            dcs_Device = Some (configure_nic (d_MACAddr netSpec) key dev), dcs_Profile = []\<rparr> # specs), w)))))"

definition getNetworkSpecs ::
  "ext \<Rightarrow> NetworkDeviceSpec list \<Rightarrow> VirtualDevice list \<Rightarrow> 'w world_scheme \<Rightarrow>
   (go_error + VirtualDeviceConfigSpec list) \<times> 'w world_scheme" where
  "getNetworkSpecs x netDevices devices w =
     (let removals = map (\<lambda>dev. \<lparr>dcs_Operation = OpRemove, dcs_FileCreate = False, dcs_Device = Some dev,
                                   dcs_Profile = []\<rparr>) (filter is_nic devices)
      in bindE (add_nics x (- 100) netDevices w) (\<lambda>specs w. (Inr (removals @ specs), w)))"

section \<open>Allocation of unit numbers\<close>

text \<open>
  What the disks rely on: an allocator hands out the smallest free number and takes it
  from the free set, and it fails only when nothing is free.
\<close>

locale unit_allocator =
  fixes inv :: "'a \<Rightarrow> bool" and free :: "'a \<Rightarrow> nat set"
    and alloc :: "'a \<Rightarrow> ('e + nat) \<times> 'a"
  assumes alloc_inv: "inv a \<Longrightarrow> alloc a = (Inr n, a') \<Longrightarrow> inv a'"
    and alloc_least: "inv a \<Longrightarrow> alloc a = (Inr n, a') \<Longrightarrow> n \<in> free a \<and> (\<forall>m \<in> free a. n \<le> m)"
    and alloc_free: "inv a \<Longrightarrow> alloc a = (Inr n, a') \<Longrightarrow> free a' = free a - {n}"
    and alloc_fails: "inv a \<Longrightarrow> alloc a = (Inl e, a') \<Longrightarrow> free a = {}"
    and finite_free: "inv a \<Longrightarrow> finite (free a)"
begin

fun alloc_many :: "nat \<Rightarrow> 'a \<Rightarrow> ('e + nat list) \<times> 'a" where
  "alloc_many 0 a = (Inr [], a)"
| "alloc_many (Suc k) a =
     (case alloc a of
        (Inl e, a') \<Rightarrow> (Inl e, a')
      | (Inr n, a') \<Rightarrow>
          (case alloc_many k a' of (Inl e, a'') \<Rightarrow> (Inl e, a'') | (Inr ns, a'') \<Rightarrow> (Inr (n # ns), a'')))"

lemma alloc_many_spec:
  "inv a \<Longrightarrow> alloc_many k a = (Inr ns, a') \<Longrightarrow>
   length ns = k \<and> sorted ns \<and> distinct ns \<and> set ns \<subseteq> free a \<and> free a' = free a - set ns \<and> inv a'"
proof (induction k arbitrary: a ns)
  case (Suc k)
  then obtain n a1 ns1 where step: "alloc a = (Inr n, a1)" "alloc_many k a1 = (Inr ns1, a')" "ns = n # ns1"
    by (auto split: prod.splits sum.splits)
  note one = alloc_inv [OF Suc.prems(1) step(1)] alloc_least [OF Suc.prems(1) step(1)]
    alloc_free [OF Suc.prems(1) step(1)]
  from Suc.IH [OF one(1) step(2)] one(2,3) show ?case unfolding step(3) by auto
qed simp

lemma alloc_many_complete:
  "inv a \<Longrightarrow> k \<le> card (free a) \<Longrightarrow> \<exists>ns a'. alloc_many k a = (Inr ns, a')"
proof (induction k arbitrary: a)
  case (Suc k)
  then have "free a \<noteq> {}" by auto
  with alloc_fails [OF Suc.prems(1)] obtain n a1 where step: "alloc a = (Inr n, a1)"
    by (cases "alloc a"; cases "fst (alloc a)") auto
  note one = alloc_inv [OF Suc.prems(1) step] alloc_least [OF Suc.prems(1) step]
    alloc_free [OF Suc.prems(1) step]
  from one finite_free [OF Suc.prems(1)] Suc.prems(2) have "k \<le> card (free a1)"
    by (simp add: card_Diff_singleton)
  with Suc.IH [OF one(1)] step show ?case by fastforce
qed simp

end

definition assigner_inv :: "unitNumberAssigner \<Rightarrow> bool" where
  \<comment> \<open>every unit below the offset is in use: the scan misses nothing by starting there\<close>
  "assigner_inv a \<longleftrightarrow> u_offset a \<le> length (u_used a) \<and> list_all id (take (u_offset a) (u_used a))"

definition free_units :: "unitNumberAssigner \<Rightarrow> nat set" where
  "free_units a = {n. n < length (u_used a) \<and> \<not> u_used a ! n}"

lemma nth_update_True: "j < length xs \<Longrightarrow> xs[i := True] ! j \<longleftrightarrow> i = j \<or> xs ! j"
  by (cases "i = j") auto

lemma first_free_Some:
  "first_free i xs = Some n \<longleftrightarrow>
     i \<le> n \<and> n - i < length xs \<and> \<not> xs ! (n - i) \<and> (\<forall>j < n - i. xs ! j)"
proof (induction xs arbitrary: i)
  case (Cons b xs)
  show ?case
  proof (cases b)
    case False
    then show ?thesis by (cases "n - i") force+
  next
    case True
    have "(i \<le> n \<and> n - i < length (b # xs) \<and> \<not> (b # xs) ! (n - i) \<and> (\<forall>j < n - i. (b # xs) ! j)) \<longleftrightarrow>
      (Suc i \<le> n \<and> n - Suc i < length xs \<and> \<not> xs ! (n - Suc i) \<and> (\<forall>j < n - Suc i. xs ! j))"
    proof (cases "n - i")
      case 0
      with True show ?thesis by auto
    next
      case (Suc d)
      then have "n - Suc i = d" by simp
      with Suc True show ?thesis by (auto simp: All_less_Suc2)
    qed
    with True Cons.IH [of "Suc i"] show ?thesis by simp
  qed
qed simp

lemma first_free_None: "first_free i xs = None \<longleftrightarrow> list_all id xs"
  by (induction xs arbitrary: i) auto

lemma list_all_take_nth: "list_all id (take k xs) \<longleftrightarrow> (\<forall>j < min k (length xs). xs ! j)"
  by (auto simp: list_all_length)

lemma assign_Inr:
  assumes "assigner_inv a" and "assign a = (Inr n, a')"
  shows "n \<in> free_units a \<and> (\<forall>m \<in> free_units a. n \<le> m) \<and>
    u_used a' = (u_used a)[n := True] \<and> u_offset a' = Suc (u_offset a)"
proof -
  let ?o = "u_offset a" and ?u = "u_used a"
  from assms have ff: "first_free ?o (drop ?o ?u) = Some n"
    and a': "a' = \<lparr>u_used = ?u[n := True], u_offset = Suc ?o\<rparr>"
    by (auto simp: assign_def split: if_splits option.splits)
  from assms(1) have inv: "?o \<le> length ?u" "\<forall>j < ?o. ?u ! j"
    by (auto simp: assigner_inv_def list_all_take_nth)
  from ff [unfolded first_free_Some] inv(1)
  have n: "?o \<le> n" "n < length ?u" "\<not> ?u ! n" and low: "\<forall>j < n - ?o. ?u ! (?o + j)" by auto
  have "n \<le> m" if "m \<in> free_units a" for m
  proof (rule ccontr)
    assume "\<not> n \<le> m"
    then have "?u ! m" using inv(2) low [rule_format, of "m - ?o"] by (cases "m < ?o") auto
    with that show False by (simp add: free_units_def)
  qed
  with n a' show ?thesis by (simp add: free_units_def)
qed

lemma assign_Inl:
  assumes "assigner_inv a" and "assign a = (Inl e, a')"
  shows "free_units a = {}"
proof -
  let ?o = "u_offset a" and ?u = "u_used a"
  from assms have "first_free ?o (drop ?o ?u) = None"
    by (auto simp: assign_def assigner_inv_def split: if_splits option.splits)
  then have "list_all id (drop ?o ?u)" by (simp add: first_free_None)
  moreover have "list_all id (take ?o ?u)" using assms(1) by (simp add: assigner_inv_def)
  ultimately have "list_all id ?u" by (metis append_take_drop_id list_all_append)
  then show ?thesis by (auto simp: free_units_def list_all_length)
qed

interpretation units: unit_allocator assigner_inv free_units assign
proof
  fix a n a'
  assume inv: "assigner_inv a" and ok: "assign a = (Inr n, a')"
  from assign_Inr [OF inv ok] show "n \<in> free_units a \<and> (\<forall>m \<in> free_units a. n \<le> m)" by simp
  from assign_Inr [OF inv ok] show "free_units a' = free_units a - {n}"
    by (auto simp: free_units_def nth_list_update)
  have n: "n < length (u_used a)" "u_offset a \<le> n"
    using assign_Inr [OF inv ok] ok inv
    by (auto simp: free_units_def assign_def first_free_Some split: if_splits option.splits)
  show "assigner_inv a'"
    unfolding assigner_inv_def list_all_take_nth
  proof (intro conjI allI impI)
    show "u_offset a' \<le> length (u_used a')" using assign_Inr [OF inv ok] n by simp
    fix j assume "j < min (u_offset a') (length (u_used a'))"
    then have j: "j \<le> u_offset a" "j < length (u_used a)" using assign_Inr [OF inv ok] by auto
    show "u_used a' ! j"
    proof (cases "j < u_offset a")
      case True
      then show ?thesis
        using inv assign_Inr [OF inv ok] j
        by (simp add: assigner_inv_def list_all_take_nth nth_update_True)
    next
      case False
      with j have "j = u_offset a" by simp
      moreover have "n = j \<or> u_used a ! j"
      proof (cases "u_used a ! j")
        case False
        with j have "j \<in> free_units a" by (simp add: free_units_def)
        with assign_Inr [OF inv ok] n \<open>j = u_offset a\<close> show ?thesis by force
      qed simp
      ultimately show ?thesis
        using assign_Inr [OF inv ok] j by (auto simp: nth_update_True)
    qed
  qed
next
  fix a e a'
  show "assigner_inv a \<Longrightarrow> assign a = (Inl e, a') \<Longrightarrow> free_units a = {}" by (rule assign_Inl)
next
  fix a
  show "finite (free_units a)" by (simp add: free_units_def)
qed

section \<open>Data disks\<close>

definition spec_device :: "VirtualDeviceConfigSpec \<Rightarrow> VirtualDevice" where
  "spec_device s = the (dcs_Device s)"

lemma data_disk_loop_units:
  assumes "data_disk_loop newKey controllerKey i a disks = Inr specs"
  shows "\<exists>ns a'. units.alloc_many (length disks) a = (Inr ns, a') \<and>
    map (dev_UnitNumber \<circ> spec_device) specs = map (Some \<circ> int) ns"
  using assms
proof (induction newKey controllerKey i a disks arbitrary: specs rule: data_disk_loop.induct)
  case (2 newKey controllerKey i a disk rest)
  then obtain n a1 specs1 where step: "assign a = (Inr n, a1)"
      "data_disk_loop newKey controllerKey (Suc i) a1 rest = Inr specs1"
      "map (dev_UnitNumber \<circ> spec_device) specs = Some (int n) # map (dev_UnitNumber \<circ> spec_device) specs1"
    by (auto simp: spec_device_def split: prod.splits sum.splits)
  from "2.IH" [OF step(1) [symmetric] refl step(2)] obtain ns a' where
      "units.alloc_many (length rest) a1 = (Inr ns, a')"
      "map (dev_UnitNumber \<circ> spec_device) specs1 = map (Some \<circ> int) ns" by blast
  with step show ?case by (simp add: comp_def)
qed simp

lemma data_disk_loop_shape:
  "data_disk_loop newKey controllerKey i a disks = Inr specs \<Longrightarrow>
   map (\<lambda>s. (dcs_Operation s, dev_Key (spec_device s), dev_ControllerKey (spec_device s),
             capacity_of (spec_device s))) specs =
   map (\<lambda>(j, d). (OpAdd, newKey - int j, controllerKey, vd_SizeGiB d * 1024 * 1024))
     (enumerate i disks)"
  by (induction newKey controllerKey i a disks arbitrary: specs rule: data_disk_loop.induct)
     (auto simp: spec_device_def capacity_of_def split: prod.splits sum.splits)

lemma mark_used_Inr:
  "mark_used i used = Inr used' \<longleftrightarrow> 0 \<le> i \<and> nat i < length used \<and> used' = used[nat i := True]"
  by auto

lemma mark_devices_spec:
  assumes "mark_devices key used ds = Inr used'"
  shows "length used' = length used \<and>
    (\<forall>n < length used. used' ! n \<longleftrightarrow> used ! n \<or>
       (\<exists>d \<in> set ds. dev_ControllerKey d = key \<and> dev_UnitNumber d = Some (int n)))"
  using assms
proof (induction key used ds rule: mark_devices.induct)
  case (2 key used d ds)
  show ?case
  proof (cases "dev_ControllerKey d = key \<and> dev_UnitNumber d \<noteq> None")
    case False
    with 2 show ?thesis by (auto split: option.splits)
  next
    case True
    then obtain u where u: "dev_UnitNumber d = Some u" "dev_ControllerKey d = key" by auto
    with "2.prems" have m: "mark_used u used = Inr (used[nat u := True])" "0 \<le> u" "nat u < length used"
      and rest: "mark_devices key (used[nat u := True]) ds = Inr used'"
      by (auto split: if_splits)
    have "\<forall>n < length used. used[nat u := True] ! n \<longleftrightarrow> used ! n \<or> u = int n"
      using m(2) by (auto simp: nth_update_True)
    with "2.IH"(2) [OF u(1) u(2) m(1) rest] u show ?thesis by auto
  qed
qed simp

lemma newUnitNumberAssigner_spec:
  assumes "newUnitNumberAssigner (Some c) devices = Inr a"
  shows "assigner_inv a \<and> free_units a =
    {n. n < 30 \<and> dev_kind c \<noteq> VirtualSCSIController (int n) \<and>
        \<not> (\<exists>d \<in> set devices. dev_ControllerKey d = dev_Key c \<and> dev_UnitNumber d = Some (int n))}"
proof -
  let ?u0 = "replicate maxUnitNumber False"
  from assms obtain used1 used where
      u1: "(case dev_kind c of VirtualSCSIController n \<Rightarrow> mark_used n ?u0 | _ \<Rightarrow> Inr ?u0) = Inr used1"
    and u: "mark_devices (dev_Key c) used1 devices = Inr used" and a: "a = \<lparr>u_used = used, u_offset = 0\<rparr>"
    by (auto simp: newUnitNumberAssigner_def Let_def simp del: mark_used.simps split: sum.splits)
  from u1 have len1: "length used1 = 30"
    and v1: "\<forall>n < 30. used1 ! n \<longleftrightarrow> dev_kind c = VirtualSCSIController (int n)"
    by (auto simp: maxUnitNumber_def nth_list_update split: device_kind.splits if_splits)
  from mark_devices_spec [OF u] len1 v1 show ?thesis
    unfolding a by (auto simp: assigner_inv_def free_units_def)
qed

section \<open>Disk sizes and network cards\<close>

lemma getDiskConfigSpec_Inr:
  "getDiskConfigSpec disk c = Inr s \<Longrightarrow>
   dcs_Operation s = OpEdit \<and> dev_Key (spec_device s) = dev_Key disk \<and>
   (is_disk disk \<longrightarrow> capacity_of (spec_device s) = (if c > 0 then c else capacity_of disk) \<and>
      capacity_of disk \<le> capacity_of (spec_device s))"
  by (auto simp: getDiskConfigSpec_def spec_device_def capacity_of_def split: if_splits)

lemma additional_disk_specs_Inr:
  assumes "additional_disk_specs sizes i disks = Inr specs" and "list_all is_disk disks"
  shows "list_all2 (\<lambda>s d. dcs_Operation s = OpEdit \<and> dev_Key (spec_device s) = dev_Key d \<and>
    capacity_of d \<le> capacity_of (spec_device s)) specs disks"
  using assms
  by (induction sizes i disks arbitrary: specs rule: additional_disk_specs.induct)
     (auto split: sum.splits dest!: getDiskConfigSpec_Inr simp del: is_disk.simps)

lemma add_nics_keys:
  "add_nics x key ds w = (Inr specs, w') \<Longrightarrow>
   map (\<lambda>s. (dcs_Operation s, dev_Key (spec_device s))) specs =
   map (\<lambda>i. (OpAdd, key - int i)) [0..<length ds]"
proof (induction x key ds w arbitrary: specs w' rule: add_nics.induct)
  case (2 x key d ds w)
  from "2.prems" obtain r b dv w1 w2 specs1 where
      net: "wrapE ''unable to find network %q'' [d_NetworkName d]
        (do_call (Find (Finder_Network (d_NetworkName d))) (x_ref x) w) = (Inr r, w1)"
    and card: "do_call (Svc (Network_EthernetCardBackingInfo r)) (x_backing x) w1 = (Inr b, w2)"
    and dv: "x_CreateEthernetCard x ethCardType b = Inr dv"
    and rest: "add_nics x (key - 1) ds w2 = (Inr specs1, w')"
    and specs: "specs = \<lparr>dcs_Operation = OpAdd, dcs_FileCreate = False,
        dcs_Device = Some (configure_nic (d_MACAddr d) key dv), dcs_Profile = []\<rparr> # specs1"
    by (auto simp: bindE_eq_Inr wrapE_eq_Inr)
  have "map (\<lambda>s. (dcs_Operation s, dev_Key (spec_device s))) specs1 =
        map (\<lambda>i. (OpAdd, key - 1 - int i)) [0..<length ds]"
    by (rule "2.IH" [OF rest])
  then show ?case
    unfolding specs
    by (simp add: spec_device_def configure_nic_def upt_conv_Cons map_Suc_upt [symmetric] del: upt_Suc)
qed simp

section \<open>Properties\<close>

text \<open>The devices of a template for the witnesses: a SCSI controller and two disks on it.\<close>

definition sample_devices :: "VirtualDevice list" where
  "sample_devices =
     [\<lparr>dev_Key = 1000, dev_ControllerKey = 100, dev_UnitNumber = None, dev_Backing = NoBacking,
       dev_kind = VirtualSCSIController 7\<rparr>,
      \<lparr>dev_Key = 2000, dev_ControllerKey = 1000, dev_UnitNumber = Some 0, dev_Backing = NoBacking,
       dev_kind = VirtualDisk 20971520\<rparr>,
      \<lparr>dev_Key = 2001, dev_ControllerKey = 1000, dev_UnitNumber = Some 1, dev_Backing = NoBacking,
       dev_kind = VirtualDisk 1048576\<rparr>]"

definition sample_disk :: VSphereDisk where
  "sample_disk = \<lparr>vd_Name = ''etcd'', vd_SizeGiB = 8, vd_ProvisioningMode = ''Thin''\<rparr>"

text \<open>
  C30 (safety). The data disks of a clone go to the controller of the primary disk, on unit
  numbers that are in range, pairwise distinct, in ascending order, and taken neither by the
  controller itself nor by a device already on it; their temporary keys are distinct.
\<close>

theorem data_disks_on_free_units:
  assumes "createDataDisks x defs devices = Inr specs"
    and "x_FindByKey x devices (dev_ControllerKey (hd (filter is_disk devices))) = Some c"
  shows "\<exists>ns. map (dev_UnitNumber \<circ> spec_device) specs = map (Some \<circ> int) ns \<and>
      length ns = length defs \<and> sorted ns \<and> distinct ns \<and>
      (\<forall>n \<in> set ns. n < 30 \<and> dev_kind c \<noteq> VirtualSCSIController (int n) \<and>
         \<not> (\<exists>d \<in> set devices. dev_ControllerKey d = dev_Key c \<and> dev_UnitNumber d = Some (int n))) \<and>
      distinct (map (dev_Key \<circ> spec_device) specs) \<and>
      (\<forall>s \<in> set specs. dev_ControllerKey (spec_device s) = dev_Key c)"
proof -
  from assms obtain a where a: "newUnitNumberAssigner (Some c) devices = Inr a"
    and loop: "data_disk_loop (x_NewKey x devices) (dev_Key c) 0 a defs = Inr specs"
    by (auto simp: createDataDisks_def simp del: is_controller.simps split: list.splits option.splits if_splits sum.splits)
  from data_disk_loop_units [OF loop] obtain ns a' where
      many: "units.alloc_many (length defs) a = (Inr ns, a')"
    and units: "map (dev_UnitNumber \<circ> spec_device) specs = map (Some \<circ> int) ns" by blast
  note new = newUnitNumberAssigner_spec [OF a]
  from units.alloc_many_spec [OF _ many] new
  have ns: "length ns = length defs" "sorted ns" "distinct ns" "set ns \<subseteq> free_units a" by auto
  note shape = data_disk_loop_shape [OF loop]
  have "map (dev_Key \<circ> spec_device) specs = map (fst \<circ> snd)
      (map (\<lambda>s. (dcs_Operation s, dev_Key (spec_device s), dev_ControllerKey (spec_device s),
             capacity_of (spec_device s))) specs)" by simp
  also have "\<dots> = map (\<lambda>i. x_NewKey x devices - int i) [0..<length defs]"
  proof -
    have "map (\<lambda>p. x_NewKey x devices - int (fst p)) (enumerate 0 defs) =
        map (\<lambda>i. x_NewKey x devices - int i) (map fst (enumerate 0 defs))"
      unfolding map_map comp_def ..
    then show ?thesis unfolding shape by (simp add: comp_def case_prod_unfold)
  qed
  finally have "distinct (map (dev_Key \<circ> spec_device) specs)"
    by (simp add: distinct_map_upt_inj inj_on_def)
  moreover have "dev_ControllerKey (spec_device s) = dev_Key c" if "s \<in> set specs" for s
  proof -
    have "(dcs_Operation s, dev_Key (spec_device s), dev_ControllerKey (spec_device s),
             capacity_of (spec_device s)) \<in> set (map (\<lambda>(j, d). (OpAdd, x_NewKey x devices - int j,
             dev_Key c, vd_SizeGiB d * 1024 * 1024)) (enumerate 0 defs))"
      using that unfolding shape [symmetric] by simp
    then show ?thesis by auto
  qed
  ultimately show ?thesis using units ns new by (intro exI [of _ ns]) auto
qed

theorem data_disks_on_free_units_witness:
  "\<exists>specs ns. createDataDisks ext_default [sample_disk, sample_disk] sample_devices = Inr specs \<and>
     map (dev_UnitNumber \<circ> spec_device) specs = map (Some \<circ> int) ns \<and> distinct ns \<and> length ns = 2"
proof -
  have find: "x_FindByKey ext_default sample_devices (dev_ControllerKey (hd (filter is_disk sample_devices)))
      = Some (hd sample_devices)" by (simp add: sample_devices_def)
  have "\<exists>specs. createDataDisks ext_default [sample_disk, sample_disk] sample_devices = Inr specs"
    by (simp add: createDataDisks_def sample_devices_def newUnitNumberAssigner_def maxUnitNumber_def
        assign_def numeral_eq_Suc)
  then obtain specs where run: "createDataDisks ext_default [sample_disk, sample_disk] sample_devices = Inr specs" ..
  from data_disks_on_free_units [OF run find] run show ?thesis by auto
qed

text \<open>
  If the controller is found, no unit number of its devices is out of range, and it
  has at least as many free units as data disks are requested, creating the disks succeeds.
\<close>

lemma data_disks_created:
  assumes "filter is_disk devices = primary # others"
    and "x_FindByKey x devices (dev_ControllerKey primary) = Some c" and "is_controller c"
    and "newUnitNumberAssigner (Some c) devices = Inr a" and "length defs \<le> card (free_units a)"
  shows "\<exists>specs. createDataDisks x defs devices = Inr specs \<and> length specs = length defs"
proof -
  have inv: "assigner_inv a" using newUnitNumberAssigner_spec [OF assms(4)] by simp
  have loop: "\<exists>specs. data_disk_loop newKey key i a defs = Inr specs \<and> length specs = length defs"
    if "units.alloc_many (length defs) a = (Inr ns, a')" for newKey key i a defs ns a'
    using that
  proof (induction defs arbitrary: i a ns)
    case (Cons d defs)
    then obtain n a1 ns1 where "assign a = (Inr n, a1)" "units.alloc_many (length defs) a1 = (Inr ns1, a')"
      by (auto split: prod.splits sum.splits)
    moreover from Cons.IH [OF this(2)] obtain specs where
      "data_disk_loop newKey key (Suc i) a1 defs = Inr specs" "length specs = length defs" by blast
    ultimately show ?case by simp
  qed simp
  from units.alloc_many_complete [OF inv assms(5)] obtain ns a' where
    "units.alloc_many (length defs) a = (Inr ns, a')" by blast
  from loop [OF this] assms show ?thesis by (simp add: createDataDisks_def del: is_controller.simps)
qed

text \<open>
  C27 (bounds). Cloning never shrinks a disk of the template: every disk gets exactly one edit, in
  order, and keeps its key and at least its capacity. Otherwise the clone is refused.
\<close>

theorem clone_never_shrinks_disks:
  assumes "getDiskSpec spec devices = Inr specs"
  shows "list_all2 (\<lambda>s d. dcs_Operation s = OpEdit \<and> dev_Key (spec_device s) = dev_Key d \<and>
    capacity_of d \<le> capacity_of (spec_device s)) specs (filter is_disk devices)"
proof -
  from assms obtain p ds s0 ss where disks: "filter is_disk devices = p # ds"
    and s0: "getDiskConfigSpec p (c_DiskGiB spec * 1024 * 1024) = Inr s0"
    and ss: "additional_disk_specs (c_AdditionalDisksGiB spec) 0 ds = Inr ss" and specs: "specs = s0 # ss"
    by (auto simp: getDiskSpec_def split: list.splits sum.splits)
  have "list_all is_disk (p # ds)" unfolding disks [symmetric] by (simp add: list_all_iff)
  with additional_disk_specs_Inr [OF ss] getDiskConfigSpec_Inr [OF s0] show ?thesis
    unfolding disks specs by (simp del: is_disk.simps)
qed

theorem clone_never_shrinks_disks_witness:
  "\<exists>specs. getDiskSpec (zero_clone\<lparr>c_DiskGiB := 25\<rparr>) sample_devices = Inr specs \<and>
     list_all2 (\<lambda>s d. dcs_Operation s = OpEdit \<and> dev_Key (spec_device s) = dev_Key d \<and>
       capacity_of d \<le> capacity_of (spec_device s)) specs (filter is_disk sample_devices)"
proof -
  have "\<exists>specs. getDiskSpec (zero_clone\<lparr>c_DiskGiB := 25\<rparr>) sample_devices = Inr specs"
    by (simp add: getDiskSpec_def sample_devices_def getDiskConfigSpec_def capacity_of_def zero_clone_def)
  then obtain specs where run: "getDiskSpec (zero_clone\<lparr>c_DiskGiB := 25\<rparr>) sample_devices = Inr specs" ..
  from clone_never_shrinks_disks [OF run] run show ?thesis by blast
qed

text \<open>
  The network change list removes every network card of the template and adds
  one card per network device of the spec, in order, under distinct temporary keys.
\<close>

lemma network_cards_replaced:
  assumes "getNetworkSpecs x netDevices devices w = (Inr specs, w')"
  shows "\<exists>adds. specs = map (\<lambda>d. \<lparr>dcs_Operation = OpRemove, dcs_FileCreate = False, dcs_Device = Some d,
        dcs_Profile = []\<rparr>) (filter is_nic devices) @ adds \<and>
      length adds = length netDevices \<and> (\<forall>s \<in> set adds. dcs_Operation s = OpAdd) \<and>
      distinct (map (dev_Key \<circ> spec_device) adds)"
proof -
  from assms obtain adds where adds: "add_nics x (- 100) netDevices w = (Inr adds, w')"
    and specs: "specs = map (\<lambda>d. \<lparr>dcs_Operation = OpRemove, dcs_FileCreate = False, dcs_Device = Some d,
        dcs_Profile = []\<rparr>) (filter is_nic devices) @ adds"
    by (auto simp: getNetworkSpecs_def Let_def bindE_eq_Inr)
  note keys = add_nics_keys [OF adds]
  from arg_cong [OF keys, of length] have "length adds = length netDevices" by simp
  moreover from arg_cong [OF keys, of "map snd"]
  have "map (dev_Key \<circ> spec_device) adds = map (\<lambda>i. - 100 - int i) [0..<length netDevices]"
    by (simp add: comp_def)
  then have "distinct (map (dev_Key \<circ> spec_device) adds)"
    by (simp add: distinct_map_upt_inj inj_on_def)
  moreover from arg_cong [OF keys, of "map fst"] have "map dcs_Operation adds = map (\<lambda>i. OpAdd) [0..<length netDevices]"
    by (simp add: comp_def)
  then have "\<forall>s \<in> set adds. dcs_Operation s = OpAdd"
    by (metis (no_types, lifting) imageE image_eqI list.set_map)
  ultimately show ?thesis using specs by blast
qed

definition sample_nic :: VirtualDevice where
  "sample_nic = \<lparr>dev_Key = 4000, dev_ControllerKey = 100, dev_UnitNumber = None, dev_Backing = NoBacking,
     dev_kind = VirtualEthernetCard ''00:50:56:00:00:01'' ''''\<rparr>"

end
