(* ===== verification/Go_Float.thy ===== *)
theory Go_Float
  imports Complex_Main
begin

text \<open>
  Go's \<open>float64\<close> as far as the program uses it: the conversion of an integer, a division by a
  constant and \<open>math.Ceil\<close>. A \<open>float64\<close> is a rational number; \<open>float64\<close> rounds a rational to
  the nearest number with a 53-bit significand, ties to even. The values that occur are far
  from the limits of the exponent, so overflow and subnormal numbers are left out.
\<close>

definition round_even :: "rat \<Rightarrow> int" where
  "round_even y =
     (let f = \<lfloor>y\<rfloor>; d = y - of_int f
      in if d < 1/2 then f else if d > 1/2 then f + 1 else if even f then f else f + 1)"

fun bit_length :: "nat \<Rightarrow> nat" where
  "bit_length n = (if n = 0 then 0 else Suc (bit_length (n div 2)))"

declare bit_length.simps [simp del]

text \<open>The exponent \<open>e\<close> with \<open>2 ^ e \<le> \<bar>x\<bar> < 2 ^ (e + 1)\<close>, from the bit lengths of the fraction.\<close>

definition bexp :: "rat \<Rightarrow> int" where
  "bexp x =
     (case quotient_of \<bar>x\<bar> of (a, b) \<Rightarrow>
        let k = int (bit_length (nat a)) - int (bit_length (nat b))
        in if \<bar>x\<bar> < 2 powi k then k - 1 else k)"

definition ulp :: "rat \<Rightarrow> rat" where
  "ulp x = 2 powi (bexp x - 52)"

definition float64 :: "rat \<Rightarrow> rat" where
  "float64 x = (if x = 0 then 0 else of_int (round_even (x / ulp x)) * ulp x)"

lemma bit_length_bounds: "n < 2 ^ bit_length n \<and> (0 < n \<longrightarrow> 0 < bit_length n \<and> 2 ^ (bit_length n - 1) \<le> n)"
proof (induction n rule: bit_length.induct)
  case (1 n)
  show ?case
  proof (cases "n = 0")
    case False
    with 1 have IH: "n div 2 < 2 ^ bit_length (n div 2)"
        "0 < n div 2 \<Longrightarrow> 2 * 2 ^ (bit_length (n div 2) - 1) \<le> 2 * (n div 2) \<and> 0 < bit_length (n div 2)" by auto
    have "bit_length n = Suc (bit_length (n div 2))" using False by (subst bit_length.simps) simp
    moreover have "n < 2 * 2 ^ bit_length (n div 2)" using IH(1) by linarith
    moreover have "2 ^ bit_length (n div 2) \<le> n"
    proof (cases "n div 2 = 0")
      case True
      then show ?thesis using False by (simp add: bit_length.simps [of 0])
    next
      case nz: False
      then have "(2::nat) ^ bit_length (n div 2) = 2 * 2 ^ (bit_length (n div 2) - 1)"
        using IH(2) by (metis Suc_diff_1 gr0I power_Suc)
      moreover have "2 * 2 ^ (bit_length (n div 2) - 1) \<le> 2 * (n div 2)" using IH(2) nz by simp
      ultimately show ?thesis by simp
    qed
    ultimately show ?thesis by simp
  qed (simp add: bit_length.simps [of 0])
qed

lemma round_even_int [simp]: "round_even (of_int n) = n"
  by (simp add: round_even_def)

lemma round_even_error: "\<bar>of_int (round_even y) - y\<bar> \<le> 1/2"
  using floor_correct [of y] by (auto simp: round_even_def Let_def abs_le_iff)

lemma ulp_pos [simp]: "0 < ulp x"
  by (simp add: ulp_def)

lemma bexp_lower:
  assumes "x \<noteq> 0"
  shows "2 powi bexp x \<le> \<bar>x\<bar>"
proof -
  obtain a b where ab: "quotient_of \<bar>x\<bar> = (a, b)" by fastforce
  then have x: "\<bar>x\<bar> = of_int a / of_int b" and b: "b > 0"
    using quotient_of_div quotient_of_denom_pos by blast+
  from assms x b have a: "a > 0" by (metis abs_le_zero_iff divide_nonpos_pos not_le of_int_0_less_iff of_int_le_0_iff)
  define m where "m = bit_length (nat a)"
  define n where "n = bit_length (nat b)"
  have "2 ^ (m - 1) \<le> nat a" "m > 0"
    using bit_length_bounds [of "nat a"] a unfolding m_def by auto
  then have a': "(2::rat) powi (int m - 1) \<le> of_int a"
  proof -
    have "int (2 ^ (m - 1)) \<le> a" using \<open>2 ^ (m - 1) \<le> nat a\<close> a by linarith
    then have "(2::rat) ^ (m - 1) \<le> of_int a" by (metis of_int_le_iff of_int_of_nat_eq of_nat_numeral of_nat_power)
    moreover have "(2::rat) powi (int m - 1) = 2 ^ (m - 1)"
      using \<open>m > 0\<close> by (simp add: power_int_def nat_diff_distrib)
    ultimately show ?thesis by simp
  qed
  have b': "of_int b \<le> (2::rat) powi int n"
  proof -
    have "nat b < 2 ^ n" using bit_length_bounds [of "nat b"] unfolding n_def by simp
    then have "b < int (2 ^ n)" using b by linarith
    then have "b \<le> 2 ^ n" by simp
    then have "of_int b \<le> (2::rat) ^ n" by (metis of_int_le_iff of_int_numeral of_int_power)
    then show ?thesis by simp
  qed
  have "(2::rat) powi (int m - int n - 1) = 2 powi (int m - 1) / 2 powi int n"
    using power_int_diff [of "2::rat" "int m - 1" "int n"] by (simp add: algebra_simps)
  also have "\<dots> \<le> of_int a / of_int b"
    using a' b' a b by (intro frac_le) auto
  finally have "(2::rat) powi (int m - int n - 1) \<le> \<bar>x\<bar>" using x by simp
  then show ?thesis
    unfolding bexp_def ab m_def n_def by (auto simp: Let_def)
qed

lemma float64_error: "\<bar>float64 x - x\<bar> \<le> \<bar>x\<bar> / 2 ^ 53"
proof (cases "x = 0")
  case False
  have "\<bar>float64 x - x\<bar> = \<bar>of_int (round_even (x / ulp x)) - x / ulp x\<bar> * ulp x"
    using False by (simp add: float64_def abs_mult [symmetric] left_diff_distrib) (metis abs_mult abs_of_pos left_diff_distrib nonzero_eq_divide_eq order_less_irrefl ulp_pos)
  also have "\<dots> \<le> 1/2 * ulp x" using round_even_error ulp_pos [of x] by (intro mult_right_mono) (simp_all add: less_imp_le)
  also have "ulp x = 2 powi bexp x / 2 ^ 52" by (simp add: ulp_def power_int_diff)
  also have "1/2 * (2 powi bexp x / 2 ^ 52) \<le> \<bar>x\<bar> / 2 ^ 53"
    using bexp_lower [OF False] by (simp add: field_simps)
  finally show ?thesis .
qed (simp add: float64_def)

lemma float64_exact:
  assumes "x = of_int m / 2 ^ e" and "\<bar>m\<bar> < 2 ^ 53"
  shows "float64 x = x"
proof (cases "x = 0")
  case False
  have "(2::rat) powi bexp x \<le> \<bar>x\<bar>" using bexp_lower [OF False] .
  also have "\<dots> < 2 ^ 53 / 2 ^ e"
  proof -
    have "of_int \<bar>m\<bar> < (2::rat) ^ 53" using assms(2) by (metis of_int_less_iff of_int_numeral of_int_power)
    then show ?thesis unfolding assms(1) by (simp add: divide_strict_right_mono)
  qed
  also have "\<dots> = 2 powi (53 - int e)" by (simp add: power_int_diff)
  finally have "bexp x < 53 - int e"
    by (metis not_less one_le_numeral power_int_increasing)
  then have "int e + bexp x - 52 \<le> 0" by simp
  then obtain d where d: "int e + bexp x - 52 = - int d" by (metis zero_le_imp_eq_int neg_0_le_iff_le minus_minus)
  have "x / ulp x = of_int m / (2 ^ e * 2 powi (bexp x - 52))" unfolding ulp_def using assms(1) by simp
  also have "2 ^ e * (2::rat) powi (bexp x - 52) = 2 powi (- int d)"
  proof -
    have "2 ^ e * (2::rat) powi (bexp x - 52) = 2 powi int e * 2 powi (bexp x - 52)" by simp
    also have "\<dots> = 2 powi (int e + (bexp x - 52))" by (simp add: power_int_add)
    finally show ?thesis unfolding d [symmetric] by (simp add: algebra_simps)
  qed
  also have "of_int m / (2::rat) powi (- int d) = of_int (m * 2 ^ d)" by (simp add: power_int_minus divide_inverse)
  finally have "x / ulp x = of_int (m * 2 ^ d)" .
  then have "of_int (round_even (x / ulp x)) = x / ulp x" by (metis round_even_int)
  moreover have "ulp x \<noteq> 0" by (simp add: ulp_def)
  ultimately show ?thesis using False by (simp add: float64_def)
qed (simp add: float64_def)

text \<open>
  Rounding up survives the rounding of the division: for \<open>0 \<le> v < 2 ^ 52\<close> the ceiling of the
  rounded quotient \<open>v / c\<close> is the exact ceiling.
\<close>

lemma ceiling_float64_div:
  assumes "0 \<le> v" and "v < 2 ^ 52" and "0 < c"
  shows "\<lceil>float64 (of_int v / of_int c)\<rceil> = \<lceil>of_int v / (of_int c :: rat)\<rceil>"
proof -
  let ?x = "of_int v / of_int c :: rat"
  have x0: "0 \<le> ?x" using assms by simp
  have "\<bar>float64 ?x - ?x\<bar> \<le> ?x / 2 ^ 53" using float64_error [of ?x] x0 by simp
  also have "\<dots> < 1 / of_int c"
  proof -
    have "v < 2 ^ 53" using assms(2) by simp
    then have "of_int v < (2::rat) ^ 53" by (metis of_int_less_iff of_int_numeral of_int_power)
    then show ?thesis using assms(3) by (simp add: field_simps)
  qed
  finally have err: "\<bar>float64 ?x - ?x\<bar> < 1 / of_int c" .
  define k where "k = \<lceil>?x\<rceil>"
  have k: "of_int (k - 1) < ?x" "?x \<le> of_int k" unfolding k_def by (simp_all add: ceiling_correct)
  have low: "of_int (k - 1) < float64 ?x"
  proof -
    have "of_int ((k - 1) * c) < (of_int v :: rat)" using k(1) assms(3) by (simp add: field_simps)
    then have "(k - 1) * c + 1 \<le> v" by linarith
    then have "of_int ((k - 1) * c + 1) / of_int c \<le> ?x"
      using assms(3) by (intro divide_right_mono) (simp_all only: of_int_le_iff of_int_0_le_iff)
    moreover have "of_int ((k - 1) * c + 1) / of_int c = of_int (k - 1) + 1 / (of_int c :: rat)"
      using assms(3) by (simp add: add_divide_distrib)
    ultimately have "of_int (k - 1) + 1 / of_int c \<le> ?x" by simp
    with err show ?thesis by linarith
  qed
  have high: "float64 ?x \<le> of_int k"
  proof (cases "?x = of_int k")
    case True
    have "\<bar>k\<bar> < 2 ^ 53"
    proof -
      have "of_int v * 1 \<le> (of_int v * of_int c :: rat)" using assms by (intro mult_left_mono) auto
      then have "?x \<le> of_int v" using assms(3) by (simp add: field_simps)
      with True have "of_int k \<le> (of_int v :: rat)" by simp
      then have "k \<le> v" by simp
      moreover have "0 \<le> k" using True x0 by simp
      ultimately show ?thesis using assms(2) by simp
    qed
    with float64_exact [of ?x k 0] True show ?thesis by simp
  next
    case False
    with k(2) have "of_int v < (of_int (k * c) :: rat)" using assms(3) by (simp add: field_simps)
    then have "v + 1 \<le> k * c" by linarith
    then have "of_int (v + 1) / of_int c \<le> of_int (k * c) / (of_int c :: rat)"
      using assms(3) by (intro divide_right_mono) (simp_all only: of_int_le_iff of_int_0_le_iff)
    then have "?x + 1 / of_int c \<le> of_int k" using assms(3) by (simp add: add_divide_distrib)
    with err show ?thesis by linarith
  qed
  from low high have "\<lceil>float64 ?x\<rceil> = k" by (simp add: ceiling_eq_iff)
  then show ?thesis by (simp add: k_def)
qed

end
