(* ===== verification/Clone.thy ===== *)
theory Clone
  imports VM_Context Disks Go_Float
begin

text \<open>
  \<open>pkg/services/govmomi/vcenter/clone.go\<close> and \<open>template/template.go\<close>: the request that creates
  a VM from a template. \<open>Clone\<close> is \<open>None\<close> when encoding the bootstrap data does not end
  (see \<open>Extra_Config\<close>); otherwise it returns nil or an error.
\<close>

section \<open>The template\<close>

definition findTemplateByInstanceUUID ::
  "ext \<Rightarrow> string \<Rightarrow> 'w world_scheme \<Rightarrow> (go_error + moref option) \<times> 'w world_scheme" where
  "findTemplateByInstanceUUID x templateID w =
     (if \<not> x_uuid_valid x templateID then (Inr None, w)
      else wrapE ''error querying template by instance UUID'' []
             (do_call (Find (FindByInstanceUUID templateID)) (x_ref_opt x) w))"

definition findTemplateByName ::
  "ext \<Rightarrow> string \<Rightarrow> 'w world_scheme \<Rightarrow> (go_error + moref) \<times> 'w world_scheme" where
  "findTemplateByName x templateID w =
     wrapE ''unable to find template by name %q'' [templateID]
       (do_call (Find (Finder_VirtualMachine templateID)) (x_ref x) w)"

definition FindTemplate ::
  "ext \<Rightarrow> string \<Rightarrow> 'w world_scheme \<Rightarrow> (go_error + moref) \<times> 'w world_scheme" where
  "FindTemplate x templateID w =
     bindE (findTemplateByInstanceUUID x templateID w) (\<lambda>tpl w.
       case tpl of Some t \<Rightarrow> (Inr t, w) | None \<Rightarrow> findTemplateByName x templateID w)"

section \<open>Resources\<close>

definition convertQuantityToMhz :: "Quantity \<Rightarrow> int" where
  "convertQuantityToMhz quantity = \<lceil>float64 (float64 (of_int (q_Value quantity)) / 1000000)\<rceil>"

definition convertQuantityToMiB :: "Quantity \<Rightarrow> int" where
  "convertQuantityToMiB quantity =
     \<lceil>float64 (float64 (float64 (of_int (q_Value quantity)) / 1024) / 1024)\<rceil>"

text \<open>The CPU and the memory allocation have the same shape; they differ in the conversion.\<close>

definition resource_allocation ::
  "(Quantity \<Rightarrow> int) \<Rightarrow> Quantity \<Rightarrow> Quantity \<Rightarrow> int \<Rightarrow> ResourceAllocationInfo option" where
  "resource_allocation conv requests limits shares =
     (if \<not> q_IsZero requests \<or> \<not> q_IsZero limits \<or> shares > 0
      then Some \<lparr>ra_Reservation = (if \<not> q_IsZero requests then Some (conv requests) else None),
                 ra_Limit = (if \<not> q_IsZero limits then Some (conv limits) else None),
                 ra_Shares = (if shares > 0 then Some \<lparr>si_Shares = shares, si_Custom = True\<rparr> else None)\<rparr>
      else None)"

definition cpu_allocation :: "VirtualMachineResources \<Rightarrow> ResourceAllocationInfo option" where
  "cpu_allocation r = resource_allocation convertQuantityToMhz (rs_CPU (r_Requests r)) (rs_CPU (r_Limits r))
     (sh_CPU (r_Shares r))"

definition memory_allocation :: "VirtualMachineResources \<Rightarrow> ResourceAllocationInfo option" where
  "memory_allocation r = resource_allocation convertQuantityToMiB (rs_Memory (r_Requests r))
     (rs_Memory (r_Limits r)) (sh_Memory (r_Shares r))"

section \<open>Guest data\<close>

definition CloudConfig :: string where "CloudConfig = ''cloud-config''"
definition Ignition :: string where "Ignition = ''ignition''"

definition clone_extra_config :: "VirtualMachineCloneSpec \<Rightarrow> string \<Rightarrow> string \<Rightarrow> Config option" where
  "clone_extra_config spec bootstrapData format =
     map_option (\<lambda>e. case c_CustomVMXKeys spec of None \<Rightarrow> e | Some keys \<Rightarrow> SetCustomVMXKeys keys e)
       (if length bootstrapData > 0 then
          (if format = CloudConfig then SetCloudInitUserData bootstrapData []
           else if format = Ignition then SetIgnitionUserData bootstrapData []
           else Some [])
        else Some [])"

section \<open>Snapshot and datastore\<close>

definition clone_snapshot ::
  "ext \<Rightarrow> VirtualMachineCloneSpec \<Rightarrow> moref \<Rightarrow> 'w world_scheme \<Rightarrow> (go_error + moref option) \<times> 'w world_scheme" where
  "clone_snapshot x spec tpl w =
     (if c_CloneMode spec = '''' \<or> c_CloneMode spec = LinkedClone then
        (if c_Snapshot spec = '''' then
           wrapE ''error getting snapshot information for template %s'' [c_Template spec]
             (do_call (Obj (VM_CurrentSnapshot tpl)) (x_ref_opt x) w)
         else case do_call (Obj (VM_FindSnapshot tpl (c_Snapshot spec))) (x_ref x) w of
                (Inl err, w) \<Rightarrow> (Inr None, w)
              | (Inr ref, w) \<Rightarrow> (Inr (Some ref), w))
      else (Inr None, w))"

text \<open>The datastores a storage policy may use: the configured one, or those of the pool's cluster.\<close>

definition placement_hubs ::
  "ext \<Rightarrow> moref \<Rightarrow> moref option \<Rightarrow> 'w world_scheme \<Rightarrow> (go_error + moref list) \<times> 'w world_scheme" where
  "placement_hubs x pool datastoreRef w =
     (case datastoreRef of
        Some ref \<Rightarrow> (Inr [ref], w)
      | None \<Rightarrow>
          bindE (wrapE ''failed to get owning cluster of resourcepool %q to calculate datastore based on storage policy'' []
                  (do_call (Svc (Pool_Owner pool)) (x_ref x) w)) (\<lambda>cluster w.
          bindE (wrapE ''unable to list datastores from owning cluster of requested resourcepool'' []
                  (do_call (Svc (ComputeResource_Datastores cluster)) (x_refs x) w)) (\<lambda>refs w.
          bindE (wrapE ''unable to collect datastore properties to validate maintenance mode'' []
                  (do_call (Svc (Datastore_Summaries refs)) (x_datastores x) w)) (\<lambda>datastores w.
          (Inr (map fst (filter (\<lambda>ds. snd ds = ''normal'') datastores)), w)))))"

definition policy_datastore ::
  "ext \<Rightarrow> VirtualMachineCloneSpec \<Rightarrow> moref \<Rightarrow> moref option \<Rightarrow> 'w world_scheme \<Rightarrow>
   (go_error + moref option) \<times> 'w world_scheme" where
  "policy_datastore x spec pool datastoreRef w =
     (if c_StoragePolicyName spec = '''' then (Inr datastoreRef, w)
      else
        bindE (wrapE ''unable to create pbm client for %q'' [] (do_call (Svc Pbm_NewClient) (x_unit x) w)) (\<lambda>_ w.
        bindE (wrapE ''unable to get storageProfileID from name %s for %q'' [c_StoragePolicyName spec]
                (do_call (Svc (Pbm_ProfileIDByName (c_StoragePolicyName spec))) (x_string x) w))
          (\<lambda>storageProfileID w.
        bindE (placement_hubs x pool datastoreRef w) (\<lambda>hubs w.
        bindE (wrapE ''unable to check requirements for storage policy'' []
                (do_call (Svc (Pbm_CheckRequirements hubs storageProfileID)) (x_refs x) w)) (\<lambda>compatible w.
        if length compatible = 0
        then (Inl (Errorf ''no compatible datastores found for storage policy: %s'' [c_StoragePolicyName spec]), w)
        else case datastoreRef of
               Some ref \<Rightarrow> (Inr (Some ref), w)
             | None \<Rightarrow>
                 (case do_call (Rand_Intn (length compatible)) (x_rand x) w of
                    (r, w) \<Rightarrow> (Inr (Some (compatible ! (r mod length compatible))), w)))))))"

definition clone_datastore ::
  "ext \<Rightarrow> VirtualMachineCloneSpec \<Rightarrow> moref \<Rightarrow> 'w world_scheme \<Rightarrow> (go_error + moref) \<times> 'w world_scheme" where
  "clone_datastore x spec pool w =
     bindE (if c_Datastore spec \<noteq> ''''
            then bindE (wrapE ''unable to get datastore %s for %q'' [c_Datastore spec]
                         (do_call (Find (Finder_Datastore (c_Datastore spec))) (x_ref x) w))
                   (\<lambda>ref w. (Inr (Some ref), w))
            else (Inr None, w)) (\<lambda>datastoreRef w.
     bindE (policy_datastore x spec pool datastoreRef w) (\<lambda>datastoreRef w.
     case datastoreRef of
       Some ref \<Rightarrow> (Inr ref, w)
     | None \<Rightarrow> wrapE ''unable to get default datastore for %q'' []
                 (do_call (Find DefaultDatastore) (x_ref x) w)))"

section \<open>Encryption\<close>

definition crypto_profile ::
  "ext \<Rightarrow> VirtualMachineCloneSpec \<Rightarrow> 'w world_scheme \<Rightarrow> (go_error + string list) \<times> 'w world_scheme" where
  "crypto_profile x spec w =
     (if c_CryptoProfile spec = '''' then (Inr [], w)
      else
        bindE (wrapE ''unable to create pbm client for %q'' [] (do_call (Svc Pbm_NewClient) (x_unit x) w)) (\<lambda>_ w.
        bindE (wrapE ''unable to get storageProfileID from name %s for %q'' [c_CryptoProfile spec]
                (do_call (Svc (Pbm_ProfileIDByName (c_CryptoProfile spec))) (x_string x) w)) (\<lambda>policyID w.
        (Inr [policyID], w))))"

definition crypto_key ::
  "ext \<Rightarrow> VirtualMachineCloneSpec \<Rightarrow> 'w world_scheme \<Rightarrow> (go_error + string option) \<times> 'w world_scheme" where
  "crypto_key x spec w =
     (if c_CryptoKeyID spec = '''' then (Inr None, w)
      else
        bindE (wrapE ''unable to create kmip client for %q'' []
                (do_call (Svc Crypto_GetManagerKmip) (x_unit x) w)) (\<lambda>_ w.
        bindE (wrapE ''unable to generate a key for %q'' []
                (do_call (Change (Kmip_GenerateKey (c_CryptoKeyID spec))) (x_string x) w)) (\<lambda>keyID w.
        (Inr (Some keyID), w))))"

definition encryption_mode :: "string list \<Rightarrow> string \<Rightarrow> string" where
  \<comment> \<open>a mode is passed on only if it is one of the known ones\<close>
  "encryption_mode known mode = (if mode \<in> set known then mode else '''')"

section \<open>The clone request\<close>

definition clone_device_specs ::
  "ext \<Rightarrow> VirtualMachineCloneSpec \<Rightarrow> moref option \<Rightarrow> VirtualDevice list \<Rightarrow> 'w world_scheme \<Rightarrow>
   (go_error + VirtualDeviceConfigSpec list) \<times> 'w world_scheme" where
  "clone_device_specs x spec snapshotRef devices w =
     bindE (wrapE ''error getting disk spec for %q'' []
             (if snapshotRef = None then getDiskSpec spec devices else Inr [], w)) (\<lambda>diskSpecs w.
     bindE (wrapE ''error getting data disks'' []
             (if length (c_DataDisks spec) > 0 then createDataDisks x (c_DataDisks spec) devices else Inr [], w))
       (\<lambda>dataDisks w.
     bindE (wrapE ''error getting network specs for %q'' []
             (getNetworkSpecs x (ns_Devices (c_Network spec)) devices w)) (\<lambda>networkSpecs w.
     (Inr (diskSpecs @ dataDisks @ networkSpecs), w))))"

definition clone_config ::
  "VirtualMachineCloneSpec \<Rightarrow> string \<Rightarrow> Config \<Rightarrow> VirtualDeviceConfigSpec list \<Rightarrow> string list \<Rightarrow> string option \<Rightarrow>
   VirtualMachineConfigSpec" where
  "clone_config spec uid extraConfig deviceSpecs profiles keyID =
     \<lparr>vcs_InstanceUuid = uid, vcs_DiskUuidEnabled = Some True, vcs_DeviceChange = deviceSpecs,
      vcs_ExtraConfig = extraConfig,
      vcs_NumCPUs = (if c_NumCPUs spec < 2 then 2 else c_NumCPUs spec),
      vcs_NumCoresPerSocket = c_NumCoresPerSocket spec,
      vcs_MemoryMB = (if c_MemoryMiB spec = 0 then 2048 else c_MemoryMiB spec),
      vcs_VAppConfigRemoved = Some True,
      vcs_CpuAllocation = cpu_allocation (c_Resources spec),
      vcs_MemoryAllocation = memory_allocation (c_Resources spec),
      vcs_MemoryReservationLockedToMax = (if length (c_PciDevices spec) > 0 then Some True else None),
      vcs_NestedHVEnabled = c_NestedHV spec,
      vcs_FtEncryptionMode = encryption_mode
        [FtEncryptionDisabled, FtEncryptionOpportunistic, FtEncryptionRequired] (c_FtEncryptionMode spec),
      vcs_MigrateEncryption = encryption_mode
        [DisabledMigrateEncryption, OpportunisticMigrateEncryption, RequiredMigrateEncryption]
        (c_MigrateEncryption spec),
      vcs_VmProfile = profiles, vcs_CryptoKeyId = keyID\<rparr>"

definition record_clone_mode :: "moref option \<Rightarrow> 'w vm_ctx_scheme \<Rightarrow> 'w vm_ctx_scheme" where
  "record_clone_mode snapshotRef =
     upd_status (\<lambda>s. case snapshotRef of
        None \<Rightarrow> s\<lparr>st_CloneMode := FullClone\<rparr>
      | Some ref \<Rightarrow> s\<lparr>st_CloneMode := LinkedClone, st_Snapshot := mo_Value ref\<rparr>)"

text \<open>
  \<open>clone_prepare\<close> is the body of \<open>Clone\<close> up to the request: it looks everything up, records the
  clone mode in the status and builds the specification. \<open>clone_request\<close> adds the request, the
  task reference and the early patch, whose failure is only logged.
\<close>

definition clone_prepare :: "ext \<Rightarrow> Config \<Rightarrow> ('w, moref \<times> moref \<times> CloneSpec) vm_step" where
  "clone_prepare x extraConfig w =
     (let spec = vm_clone_spec w in
      bindE (FindTemplate x (c_Template spec) w) (\<lambda>tpl w.
      bindE (clone_snapshot x spec tpl w) (\<lambda>snapshotRef w.
      bindE (wrapE ''unable to get folder for %q'' []
              (do_call (Find (FolderOrDefault (c_Folder spec))) (x_folder x) (record_clone_mode snapshotRef w)))
        (\<lambda>folder w.
      bindE (wrapE ''unable to get resource pool for %q'' []
              (do_call (Find (ResourcePoolOrDefault (c_ResourcePool spec))) (x_ref x) w)) (\<lambda>pool w.
      bindE (wrapE ''error getting devices for %q'' [] (do_call (Obj (VM_Device tpl)) (x_devices x) w))
        (\<lambda>devices w.
      bindE (clone_device_specs x spec snapshotRef devices w) (\<lambda>deviceSpecs w.
      bindE (clone_datastore x spec pool w) (\<lambda>datastoreRef w.
      bindE (crypto_profile x spec w) (\<lambda>profiles w.
      bindE (crypto_key x spec w) (\<lambda>keyID w.
      (Inr (tpl, snd folder,
        \<lparr>csp_Config = clone_config spec (m_UID (vm_meta (ctx_VM w))) extraConfig deviceSpecs profiles keyID,
         csp_DiskMoveType = (if snapshotRef \<noteq> None then linkCloneDiskMoveType else fullCloneDiskMoveType),
         csp_Folder = snd folder, csp_Pool = pool, csp_Datastore = Some datastoreRef,
         csp_Disk = getDiskLocators (filter is_disk devices) datastoreRef (snapshotRef \<noteq> None),
         csp_PowerOn = False, csp_Snapshot = snapshotRef\<rparr>), w)))))))))))"

definition clone_request :: "ext \<Rightarrow> Config \<Rightarrow> ('w, unit) vm_step" where
  "clone_request x extraConfig w =
     bindE (clone_prepare x extraConfig w) (\<lambda>(tpl, folder, cloneSpec) w.
     bindE (wrapE ''error trigging clone op for machine %s'' []
             (do_call (Change (VM_Clone tpl folder (vm_name w) cloneSpec)) (x_task x) w)) (\<lambda>task w.
     (Inr (), snd (vm_Patch x (set_TaskRef task w)))))"

definition Clone :: "ext \<Rightarrow> string \<Rightarrow> string \<Rightarrow> 'w vm_ctx_scheme \<Rightarrow>
    ((go_error + unit) \<times> 'w vm_ctx_scheme) option" where
  "Clone x bootstrapData format w =
     map_option (\<lambda>extraConfig. clone_request x extraConfig w)
       (clone_extra_config (vm_clone_spec w) bootstrapData format)"

definition createVM :: "ext \<Rightarrow> string \<Rightarrow> string \<Rightarrow> 'w vm_ctx_scheme \<Rightarrow>
    ((go_error + unit) \<times> 'w vm_ctx_scheme) option" where
  "createVM x bootstrapData format w =
     (if \<not> x_IsVC x then Some (Inl (Errorf ''expected VCenter client got %v'' []), w)
      else Clone x bootstrapData format w)"

section \<open>Lemmas\<close>

fun is_clone :: "call \<Rightarrow> bool" where
  "is_clone (Change (VM_Clone _ _ _ _)) = True"
| "is_clone _ = False"

text \<open>Every step before the request itself only makes calls other than clone requests and keeps the VSphereVM.\<close>

lemma add_nics_calls:
  "calls_ok (\<lambda>c. \<not> vcenter_change c) w (snd (add_nics x key ds w)) \<and> same_but_hist w (snd (add_nics x key ds w))"
proof (induction x key ds w rule: add_nics.induct)
  case (2 x key d ds w)
  show ?case
    by (auto intro!: calls_intros frame_intros intro: calls_ok_trans same_but_hist_trans simp: do_call_eq
        2 [THEN conjunct1] 2 [THEN conjunct2] wrapE_eq_Inr)
qed simp

lemma getNetworkSpecs_calls:
  "calls_ok (\<lambda>c. \<not> vcenter_change c) w (snd (getNetworkSpecs x ds devices w))"
  "same_but_hist w (snd (getNetworkSpecs x ds devices w))"
  by (auto simp: getNetworkSpecs_def Let_def add_nics_calls intro!: calls_intros frame_intros)

lemma FindTemplate_calls:
  "calls_ok (\<lambda>c. \<not> vcenter_change c) w (snd (FindTemplate x t w))"
  "same_but_hist w (snd (FindTemplate x t w))"
  by (auto simp: FindTemplate_def findTemplateByInstanceUUID_def findTemplateByName_def
      intro!: calls_intros frame_intros split: option.splits)

lemma clone_snapshot_calls:
  "calls_ok (\<lambda>c. \<not> vcenter_change c) w (snd (clone_snapshot x spec tpl w))"
  "same_but_hist w (snd (clone_snapshot x spec tpl w))"
  by (auto simp: clone_snapshot_def do_call_def intro!: calls_intros frame_intros split: option.splits sum.splits)

lemma placement_hubs_calls:
  "calls_ok (\<lambda>c. \<not> vcenter_change c) w (snd (placement_hubs x pool r w))"
  "same_but_hist w (snd (placement_hubs x pool r w))"
  by (auto simp: placement_hubs_def intro!: calls_intros frame_intros split: option.splits)

lemma policy_datastore_calls:
  "calls_ok (\<lambda>c. \<not> vcenter_change c) w (snd (policy_datastore x spec pool r w))"
  "same_but_hist w (snd (policy_datastore x spec pool r w))"
  by (auto simp: policy_datastore_def placement_hubs_calls case_prod_unfold
      intro!: calls_intros frame_intros split: option.splits)

lemma clone_datastore_calls:
  "calls_ok (\<lambda>c. \<not> vcenter_change c) w (snd (clone_datastore x spec pool w))"
  "same_but_hist w (snd (clone_datastore x spec pool w))"
  by (auto simp: clone_datastore_def policy_datastore_calls intro!: calls_intros frame_intros split: option.splits)

lemma clone_device_specs_calls:
  "calls_ok (\<lambda>c. \<not> vcenter_change c) w (snd (clone_device_specs x spec s ds w))"
  "same_but_hist w (snd (clone_device_specs x spec s ds w))"
  by (auto simp: clone_device_specs_def getNetworkSpecs_calls intro!: calls_intros frame_intros)

lemma crypto_profile_calls:
  "calls_ok (\<lambda>c. \<not> vcenter_change c) w (snd (crypto_profile x spec w))"
  "same_but_hist w (snd (crypto_profile x spec w))"
  by (auto simp: crypto_profile_def intro!: calls_intros frame_intros)

lemma crypto_key_calls:
  "calls_ok (\<lambda>c. \<not> leaves_task c) w (snd (crypto_key x spec w))"
  "same_but_hist w (snd (crypto_key x spec w))"
  by (auto simp: crypto_key_def intro!: calls_intros frame_intros)

lemma is_clone_leaves_task: "\<not> leaves_task c \<Longrightarrow> \<not> is_clone c"
  by (cases c rule: is_clone.cases) auto

lemmas no_task_lookups =
  FindTemplate_calls(1) [THEN calls_ok_mono, OF not_change_no_task]
  clone_snapshot_calls(1) [THEN calls_ok_mono, OF not_change_no_task]
  clone_device_specs_calls(1) [THEN calls_ok_mono, OF not_change_no_task]
  clone_datastore_calls(1) [THEN calls_ok_mono, OF not_change_no_task]
  crypto_profile_calls(1) [THEN calls_ok_mono, OF not_change_no_task]

text \<open>What \<open>clone_prepare\<close> may change of the VSphereVM: the clone mode and the snapshot in the status.\<close>

definition same_but_mode :: "'w vm_ctx_scheme \<Rightarrow> 'w vm_ctx_scheme \<Rightarrow> bool" where
  "same_but_mode w w' \<longleftrightarrow>
     (\<exists>m s. ctx_VM w' = (ctx_VM w)\<lparr>vm_Status := (vm_status w)\<lparr>st_CloneMode := m, st_Snapshot := s\<rparr>\<rparr>) \<and>
     ctx_ClusterModuleInfo w' = ctx_ClusterModuleInfo w \<and> ctx_FailureDomain w' = ctx_FailureDomain w"

lemma same_but_modeI:
  "ctx_VM w' = (ctx_VM w)\<lparr>vm_Status := (vm_status w)\<lparr>st_CloneMode := m, st_Snapshot := s\<rparr>\<rparr> \<Longrightarrow>
   ctx_ClusterModuleInfo w' = ctx_ClusterModuleInfo w \<Longrightarrow> ctx_FailureDomain w' = ctx_FailureDomain w \<Longrightarrow>
   same_but_mode w w'"
  unfolding same_but_mode_def by blast

lemma same_but_modeE:
  assumes "same_but_mode w w'"
  obtains m s where "ctx_VM w' = (ctx_VM w)\<lparr>vm_Status := (vm_status w)\<lparr>st_CloneMode := m, st_Snapshot := s\<rparr>\<rparr>"
    and "ctx_ClusterModuleInfo w' = ctx_ClusterModuleInfo w" and "ctx_FailureDomain w' = ctx_FailureDomain w"
  using assms unfolding same_but_mode_def by blast

lemma same_but_mode_trans: "same_but_mode u v \<Longrightarrow> same_but_mode v w \<Longrightarrow> same_but_mode u w"
  by (elim same_but_modeE, rule same_but_modeI) auto

lemma same_but_mode_hist: "same_but_hist w w' \<Longrightarrow> same_but_mode w w'"
  by (rule same_but_modeI [where m = "st_CloneMode (vm_status w)" and s = "st_Snapshot (vm_status w)"])
     (simp_all add: same_but_hist_fields [of w w'])

lemma same_but_mode_record [simp]: "same_but_mode w (record_clone_mode r w)"
proof (cases r)
  case None
  then show ?thesis
    by (intro same_but_modeI [where m = FullClone and s = "st_Snapshot (vm_status w)"])
       (simp_all add: record_clone_mode_def upd_status_def)
next
  case (Some ref)
  then show ?thesis
    by (intro same_but_modeI [where m = LinkedClone and s = "mo_Value ref"])
       (simp_all add: record_clone_mode_def upd_status_def)
qed

lemma same_but_mode_bindE:
  assumes "same_but_mode w (snd m)"
    and "\<And>y w'. m = (Inr y, w') \<Longrightarrow> same_but_mode w' (snd (k y w'))"
  shows "same_but_mode w (snd (bindE m k))"
  using assms by (cases m; cases "fst m") (auto intro: same_but_mode_trans)

lemma same_but_mode_folder:
  "same_but_mode w (snd (wrapE s as (do_call c f (record_clone_mode r w))))"
  by (rule same_but_mode_trans [OF same_but_mode_record same_but_mode_hist]) (auto intro: frame_intros)

lemma clone_prepare_frame: "same_but_mode w (snd (clone_prepare x ec w))"
  unfolding clone_prepare_def Let_def
  by (intro same_but_mode_bindE same_but_mode_folder same_but_mode_hist same_but_hist_wrapE same_but_hist_do_call
      same_but_hist_pair same_but_hist_refl FindTemplate_calls clone_snapshot_calls clone_device_specs_calls
      clone_datastore_calls crypto_profile_calls crypto_key_calls)

lemma hist_record_clone_mode [simp]: "hist (record_clone_mode r w) = hist w"
  by (simp add: record_clone_mode_def)

lemma calls_ok_folder [calls_intros]:
  "P c \<Longrightarrow> calls_ok P w (snd (wrapE s as (do_call c f (record_clone_mode r w))))"
  by (simp add: calls_ok_def)

lemma clone_prepare_no_task: "calls_ok (\<lambda>c. \<not> leaves_task c) w (snd (clone_prepare x ec w))"
  unfolding clone_prepare_def Let_def
  by (intro calls_ok_bindE calls_ok_folder calls_ok_wrapE calls_ok_do_call calls_ok_pair calls_ok_refl
      no_task_lookups crypto_key_calls) simp_all

lemma clone_prepare_calls: "calls_ok (\<lambda>c. \<not> is_clone c) w (snd (clone_prepare x ec w))"
  by (rule calls_ok_mono [OF clone_prepare_no_task is_clone_leaves_task])

lemma clone_prepare_spec:
  assumes "clone_prepare x ec w = (Inr (tpl, folder, cs), w')"
  shows "csp_PowerOn cs = False \<and> vcs_InstanceUuid (csp_Config cs) = m_UID (vm_meta (ctx_VM w)) \<and>
    vcs_ExtraConfig (csp_Config cs) = ec \<and> 2 \<le> vcs_NumCPUs (csp_Config cs) \<and> csp_Folder cs = folder \<and>
    (csp_DiskMoveType cs = linkCloneDiskMoveType \<longleftrightarrow> csp_Snapshot cs \<noteq> None) \<and>
    st_CloneMode (vm_status w') = (if csp_Snapshot cs = None then FullClone else LinkedClone)"
proof -
  let ?spec = "vm_clone_spec w"
  from assms obtain w1 sref w2 inv w3 pool w4 devices w5 specs w6 ds w7 profiles w8 key where
      steps: "FindTemplate x (c_Template ?spec) w = (Inr tpl, w1)"
        "clone_snapshot x ?spec tpl w1 = (Inr sref, w2)"
        "do_call (Find (FolderOrDefault (c_Folder ?spec))) (x_folder x) (record_clone_mode sref w2) = (Inr (inv, folder), w3)"
        "do_call (Find (ResourcePoolOrDefault (c_ResourcePool ?spec))) (x_ref x) w3 = (Inr pool, w4)"
        "do_call (Obj (VM_Device tpl)) (x_devices x) w4 = (Inr devices, w5)"
        "clone_device_specs x ?spec sref devices w5 = (Inr specs, w6)"
        "clone_datastore x ?spec pool w6 = (Inr ds, w7)"
        "crypto_profile x ?spec w7 = (Inr profiles, w8)" "crypto_key x ?spec w8 = (Inr key, w')"
    and cs: "cs = \<lparr>csp_Config = clone_config ?spec (m_UID (vm_meta (ctx_VM w'))) ec specs profiles key,
         csp_DiskMoveType = (if sref \<noteq> None then linkCloneDiskMoveType else fullCloneDiskMoveType),
         csp_Folder = folder, csp_Pool = pool, csp_Datastore = Some ds,
         csp_Disk = getDiskLocators (filter is_disk devices) ds (sref \<noteq> None),
         csp_PowerOn = False, csp_Snapshot = sref\<rparr>"
    unfolding clone_prepare_def Let_def by (fastforce simp: bindE_eq_Inr wrapE_eq_Inr)
  have "ctx_VM w' = ctx_VM (record_clone_mode sref w2)"
    using steps(3-5) clone_device_specs_calls(2) [of w5 x ?spec sref devices, THEN same_but_hist_fields(1)]
      clone_datastore_calls(2) [of w6 x ?spec pool, THEN same_but_hist_fields(1)]
      crypto_profile_calls(2) [of w7 x ?spec, THEN same_but_hist_fields(1)]
      crypto_key_calls(2) [of w8 x ?spec, THEN same_but_hist_fields(1)]
    unfolding steps(6-9) by (simp add: do_call_eq)
  then have mode: "st_CloneMode (vm_status w') = (if sref = None then FullClone else LinkedClone)"
    by (cases sref) (simp_all add: record_clone_mode_def)
  have "vm_meta (ctx_VM w') = vm_meta (ctx_VM w)"
    using clone_prepare_frame [of w x ec] assms by (auto elim: same_but_modeE)
  with mode show ?thesis
    unfolding cs by (auto simp: clone_config_def linkCloneDiskMoveType_def fullCloneDiskMoveType_def)
qed

section \<open>Properties\<close>

text \<open>
  A successful \<open>Clone\<close> sends exactly one clone request, for the VM's name, and then
  patches the VSphereVM with the reference of the task vCenter returned. The request leaves the
  VM powered off, carries the VSphereVM's UID as instance UUID, by which the VM is found again,
  and is a linked clone exactly when it names a snapshot; the status records which mode was used.
\<close>

lemma clone_sends_one_request:
  assumes "clone_request x ec w = (Inr (), w')"
  shows "\<exists>cs tpl folder spec task.
    hist w' = hist w @ cs @ [Change (VM_Clone tpl folder (vm_name w) spec), Put (Patch_VSphereVM (ctx_VM w'))] \<and>
    list_all (\<lambda>c. \<not> is_clone c) cs \<and>
    x_task x (hist w @ cs @ [Change (VM_Clone tpl folder (vm_name w) spec)]) = Inr task \<and>
    st_TaskRef (vm_status w') = task \<and> csp_PowerOn spec = False \<and>
    vcs_InstanceUuid (csp_Config spec) = m_UID (vm_meta (ctx_VM w)) \<and>
    (csp_DiskMoveType spec = linkCloneDiskMoveType \<longleftrightarrow> csp_Snapshot spec \<noteq> None) \<and>
    st_CloneMode (vm_status w') = (if csp_Snapshot spec = None then FullClone else LinkedClone)"
proof -
  from assms obtain tpl folder spec w1 task w2 where
      prep: "clone_prepare x ec w = (Inr (tpl, folder, spec), w1)"
    and send: "do_call (Change (VM_Clone tpl folder (vm_name w1) spec)) (x_task x) w1 = (Inr task, w2)"
    and w': "w' = snd (vm_Patch x (set_TaskRef task w2))"
    by (auto simp: clone_request_def bindE_eq_Inr wrapE_eq_Inr)
  have name: "vm_name w1 = vm_name w"
    using clone_prepare_frame [of w x ec] prep by (auto elim: same_but_modeE)
  from clone_prepare_calls [of w x ec] prep obtain cs where
      cs: "hist w1 = hist w @ cs" "list_all (\<lambda>c. \<not> is_clone c) cs" by (auto simp: calls_ok_def)
  have w2: "w2 = w1\<lparr>hist := hist w1 @ [Change (VM_Clone tpl folder (vm_name w) spec)]\<rparr>"
    and task: "x_task x (hist w1 @ [Change (VM_Clone tpl folder (vm_name w) spec)]) = Inr task"
    using send name by (auto simp: do_call_eq)
  have vm: "ctx_VM w' = ctx_VM (set_TaskRef task w2)" unfolding w' vm_Patch_def by simp
  have "hist w' = hist w @ cs @ [Change (VM_Clone tpl folder (vm_name w) spec), Put (Patch_VSphereVM (ctx_VM w'))]"
    unfolding vm unfolding w' vm_Patch_def by (simp add: w2 cs)
  moreover have "vm_status w' = (vm_status w1)\<lparr>st_TaskRef := task\<rparr>" unfolding vm by (simp add: w2)
  ultimately show ?thesis
    using cs task clone_prepare_spec [OF prep] by auto
qed

definition sample_vcenter :: ext where
  \<comment> \<open>lookups succeed, the template has two disks and no snapshot, and tasks are accepted\<close>
  "sample_vcenter = ext_default\<lparr>x_ref := \<lambda>h. Inr sample_ref, x_ref_opt := \<lambda>h. Inr None,
     x_folder := \<lambda>h. Inr (''/dc/vm'', sample_ref), x_devices := \<lambda>h. Inr sample_devices,
     x_task := \<lambda>h. Inr ''task-1'', x_unit := \<lambda>h. Inr ()\<rparr>"

lemma sample_clone_runs: "\<exists>w'. clone_request sample_vcenter [] sample_ctx = (Inr (), w')"
  by (simp add: clone_request_def clone_prepare_def FindTemplate_def findTemplateByInstanceUUID_def
      findTemplateByName_def clone_snapshot_def clone_device_specs_def clone_datastore_def policy_datastore_def
      crypto_profile_def crypto_key_def getNetworkSpecs_def do_call_def sample_vcenter_def sample_ctx_def
      zero_VSphereVM_def zero_clone_def record_clone_mode_def upd_status_def getDiskSpec_def sample_devices_def
      getDiskConfigSpec_def capacity_of_def Let_def)

text \<open>
  When \<open>Clone\<close> fails, the task reference of the VSphereVM is what it was, nothing was
  patched, and if a clone request was sent at all, it was the last call and vCenter refused it.
\<close>

lemma clone_failure_keeps_task:
  assumes "clone_request x ec w = (Inl e, w')"
  shows "st_TaskRef (vm_status w') = st_TaskRef (vm_status w) \<and>
    (\<exists>cs. hist w' = hist w @ cs \<and> list_all (\<lambda>c. \<not> is_clone c) (butlast cs) \<and>
       (cs \<noteq> [] \<and> is_clone (last cs) \<longrightarrow> (\<exists>err. x_task x (hist w') = Inl err)))"
proof -
  let ?p = "clone_prepare x ec w"
  have frame: "st_TaskRef (vm_status (snd ?p)) = st_TaskRef (vm_status w)"
    using clone_prepare_frame [of w x ec] by (auto elim!: same_but_modeE)
  from clone_prepare_calls [of w x ec] obtain cs where
      cs: "hist (snd ?p) = hist w @ cs" "list_all (\<lambda>c. \<not> is_clone c) cs" by (auto simp: calls_ok_def)
  from assms consider "?p = (Inl e, w')"
    | tpl folder spec w1 err where "?p = (Inr (tpl, folder, spec), w1)"
      "do_call (Change (VM_Clone tpl folder (vm_name w1) spec)) (x_task x) w1 = (Inl err, w')"
    by (auto simp: clone_request_def bindE_eq_Inl wrapE_eq_Inl)
  then show ?thesis
  proof cases
    case 1
    with frame cs have "hist w' = hist w @ cs" "st_TaskRef (vm_status w') = st_TaskRef (vm_status w)" by auto
    moreover have "cs \<noteq> [] \<Longrightarrow> \<not> is_clone (last cs)" using cs(2) by (simp add: list_all_iff)
    moreover have "list_all (\<lambda>c. \<not> is_clone c) (butlast cs)"
      using cs(2) by (simp add: list_all_iff in_set_butlastD)
    ultimately show ?thesis by blast
  next
    case (2 tpl folder spec w1 err)
    then have "hist w' = hist w @ cs @ [Change (VM_Clone tpl folder (vm_name w1) spec)]"
        "st_TaskRef (vm_status w') = st_TaskRef (vm_status w)" "x_task x (hist w') = Inl err"
      using frame cs by (auto simp: do_call_eq)
    then show ?thesis using cs(2) by (intro conjI exI [of _ "cs @ [Change (VM_Clone tpl folder (vm_name w1) spec)]"]) auto
  qed
qed

text \<open>
  CPU and memory quantities are rounded up to whole MHz and MiB exactly, in spite of the
  floating-point division, for every quantity below \<open>2 ^ 52\<close>.
\<close>

lemma quantities_round_up:
  assumes "0 \<le> q_Value q" and "q_Value q < 2 ^ 52"
  shows "convertQuantityToMhz q = \<lceil>of_int (q_Value q) / (1000000 :: rat)\<rceil> \<and>
    convertQuantityToMiB q = \<lceil>of_int (q_Value q) / (1048576 :: rat)\<rceil>"
proof -
  have small: "\<bar>q_Value q\<bar> < 2 ^ 53" using assms by simp
  have v: "float64 (of_int (q_Value q)) = of_int (q_Value q)"
    using float64_exact [of "of_int (q_Value q)" "q_Value q" 0] small by simp
  have kib: "float64 (of_int (q_Value q) / 1024) = of_int (q_Value q) / 1024"
    using float64_exact [of "of_int (q_Value q) / 1024" "q_Value q" 10] small by simp
  have mib: "float64 (of_int (q_Value q) / 1024 / 1024) = of_int (q_Value q) / 1024 / 1024"
    using float64_exact [of "of_int (q_Value q) / 1024 / 1024" "q_Value q" 20] small by simp
  have "convertQuantityToMhz q = \<lceil>of_int (q_Value q) / (1000000 :: rat)\<rceil>"
    unfolding convertQuantityToMhz_def v using ceiling_float64_div [OF assms, of 1000000] by simp
  moreover have "convertQuantityToMiB q = \<lceil>of_int (q_Value q) / (1048576 :: rat)\<rceil>"
    unfolding convertQuantityToMiB_def v kib mib by simp
  ultimately show ?thesis by simp
qed

end
