(* ===== verification/Net_Status.thy ===== *)
theory Net_Status
  imports VM_Context Go_Netip
begin

text \<open>
  \<open>pkg/services/govmomi/net/net.go\<close> and \<open>sanitizeIPAddrs\<close> of \<open>util.go\<close>: the network status of a VM,
  built from its network cards and what VMware Tools report of the guest.
\<close>

section \<open>Model\<close>

record net_NetworkStatus =
  n_Connected :: bool
  n_IPAddrs :: "string list"
  n_MACAddr :: string
  n_NetworkName :: string

text \<open>The inner loop over the guest's cards: the last card with the MAC address wins.\<close>

definition nic_status :: "GuestNicInfo list option \<Rightarrow> string \<Rightarrow> net_NetworkStatus" where
  "nic_status guest mac =
     foldl (\<lambda>st i. if EqualFold mac (gn_MacAddress i)
                    then st\<lparr>n_IPAddrs := gn_IpAddress i, n_NetworkName := gn_Network i, n_Connected := gn_Connected i\<rparr>
                    else st)
       \<lparr>n_Connected = False, n_IPAddrs = [], n_MACAddr = mac, n_NetworkName = ''''\<rparr>
       (case guest of None \<Rightarrow> [] | Some net \<Rightarrow> net)"

definition GetNetworkStatus ::
  "ext \<Rightarrow> moref \<Rightarrow> 'w world_scheme \<Rightarrow> (go_error + net_NetworkStatus list) \<times> 'w world_scheme" where
  "GetNetworkStatus x moRef w =
     bindE (wrapE ''unable to fetch props %v for vm %v'' []
             (do_call (Obj (VM_DevicesAndGuestNet moRef)) (x_netprops x) w)) (\<lambda>obj w.
     case np_Devices obj of
       None \<Rightarrow> (Inl (Errorf ''config.hardware.device is nil'' []), w)
     | Some devices \<Rightarrow>
         (Inr (map (\<lambda>d. nic_status (np_GuestNet obj) (mac_of d)) (filter is_nic devices)), w))"

definition ErrOnLocalOnlyIPAddr :: "string \<Rightarrow> go_error option" where
  "ErrOnLocalOnlyIPAddr addr =
     (let reason =
        (case ParseIP addr of
           None \<Rightarrow> ''invalid''
         | Some a \<Rightarrow>
             if IsUnspecified a then ''unspecified''
             else if IsLinkLocalMulticast a then ''link-local-mutlicast''
             else if IsLinkLocalUnicast a then ''link-local-unicast''
             else if IsLoopback a then ''loopback''
             else '''')
      in if reason \<noteq> '''' then Some (Errorf ''failed to validate ip addr=%v: %s'' [addr, reason]) else None)"

definition sanitizeIPAddrs :: "string list \<Rightarrow> string list" where
  "sanitizeIPAddrs ipAddrs =
     (if length ipAddrs = 0 then [] else filter (\<lambda>addr. ErrOnLocalOnlyIPAddr addr = None) ipAddrs)"

section \<open>Lemmas\<close>

lemma nic_status_mac [simp]: "n_MACAddr (nic_status guest mac) = mac"
proof -
  have "n_MACAddr (foldl f st net) = n_MACAddr st"
    if "\<And>s i. n_MACAddr (f s i) = n_MACAddr s"
    for f :: "net_NetworkStatus \<Rightarrow> GuestNicInfo \<Rightarrow> net_NetworkStatus" and st net
    using that by (induction net arbitrary: st) auto
  then show ?thesis by (simp add: nic_status_def)
qed

lemma nic_status_None:
  "\<forall>i \<in> set net. \<not> EqualFold mac (gn_MacAddress i) \<Longrightarrow> n_IPAddrs (nic_status (Some net) mac) = []"
  unfolding nic_status_def by (rule foldl_invariant [where I = "\<lambda>s. n_IPAddrs s = []"]) auto

lemma sanitizeIPAddrs_eq: "sanitizeIPAddrs as = filter (\<lambda>addr. ErrOnLocalOnlyIPAddr addr = None) as"
  by (simp add: sanitizeIPAddrs_def)

lemma GetNetworkStatus_calls:
  "calls_ok (\<lambda>c. \<not> vcenter_change c) w (snd (GetNetworkStatus x r w))"
  "same_but_hist w (snd (GetNetworkStatus x r w))"
  by (auto simp: GetNetworkStatus_def intro!: calls_intros frame_intros split: option.splits)

section \<open>Properties\<close>

text \<open>
  One status per network card of the VM, in the order of the cards, with the card's MAC
  address; the addresses of a card come from a guest interface with the same MAC address, compared
  without regard to case, and a card without such an interface has none.
\<close>

lemma network_status_per_card:
  assumes "GetNetworkStatus x r w = (Inr st, w')"
  shows "\<exists>obj devices. x_netprops x (hist w') = Inr obj \<and> np_Devices obj = Some devices \<and>
    map n_MACAddr st = map mac_of (filter is_nic devices) \<and>
    (\<forall>s \<in> set st. n_IPAddrs s \<noteq> [] \<longrightarrow>
       (\<exists>net i. np_GuestNet obj = Some net \<and> i \<in> set net \<and> EqualFold (n_MACAddr s) (gn_MacAddress i)))"
proof -
  from assms obtain obj devices where obj: "x_netprops x (hist w') = Inr obj" "np_Devices obj = Some devices"
      "st = map (\<lambda>d. nic_status (np_GuestNet obj) (mac_of d)) (filter is_nic devices)"
    by (auto simp: GetNetworkStatus_def bindE_eq_Inr wrapE_eq_Inr do_call_eq split: option.splits)
  have "\<exists>net i. np_GuestNet obj = Some net \<and> i \<in> set net \<and> EqualFold mac (gn_MacAddress i)"
    if "n_IPAddrs (nic_status (np_GuestNet obj) mac) \<noteq> []" for mac
  proof (cases "np_GuestNet obj")
    case None
    with that show ?thesis by (simp add: nic_status_def)
  next
    case (Some net)
    with that nic_status_None [of net mac] show ?thesis by auto
  qed
  with obj show ?thesis by auto
qed

text \<open>
  The addresses that reach the API are valid and can be reached from outside the guest: none is
  unspecified, loopback or link-local; and no such address is lost.
\<close>

lemma sanitized_addresses_usable:
  "addr \<in> set (sanitizeIPAddrs as) \<longleftrightarrow> addr \<in> set as \<and>
     (\<exists>a. ParseIP addr = Some a \<and> \<not> IsUnspecified a \<and> \<not> IsLoopback a \<and>
          \<not> IsLinkLocalUnicast a \<and> \<not> IsLinkLocalMulticast a)"
  by (auto simp: sanitizeIPAddrs_eq ErrOnLocalOnlyIPAddr_def Let_def split: option.splits if_splits)

end
