(* ===== verification/IPAM.thy ===== *)
theory IPAM
  imports VM_Context Util
begin

text \<open>
  \<open>pkg/services/govmomi/ipam\<close>: the addresses that IP address claims of a VSphereVM are bound to,
  as network device specs per MAC address. An error value that Go returns next to a map is
  modelled without the map: the only caller drops it.
\<close>

section \<open>\<open>parse.go\<close>\<close>

record ipamDeviceConfig =
  idc_DeviceIndex :: nat
  idc_IPAMAddresses :: "IPAddress list"
  idc_MACAddress :: string
  idc_NetworkSpecGateway4 :: string
  idc_IPAMConfigGateway4 :: string
  idc_NetworkSpecGateway6 :: string
  idc_IPAMConfigGateway6 :: string

definition prefixesAsStrings :: "Prefix list \<Rightarrow> string list" where
  "prefixesAsStrings pfxs = map Prefix_String pfxs"

definition parseAddressWithPrefix :: "IPAddress \<Rightarrow> go_error + Prefix" where
  "parseAddressWithPrefix ipamAddress =
     (let addressWithPrefix = ipa_Address ipamAddress @ ''/'' @ show_int (Deref (ipa_Prefix ipamAddress) 0)
      in case ParsePrefix addressWithPrefix of
           None \<Rightarrow> Inl (Errorf ''IPAddress %s/%s has invalid ip address: %q''
                     [ipa_Namespace ipamAddress, ipa_Name ipamAddress, addressWithPrefix])
         | Some p \<Rightarrow> Inr p)"

definition areGatewaysMismatched :: "string \<Rightarrow> string \<Rightarrow> bool" where
  "areGatewaysMismatched deviceGateway ipAddressGateway \<longleftrightarrow>
     deviceGateway \<noteq> '''' \<and> deviceGateway \<noteq> ipAddressGateway"

definition parseGateway :: "IPAddress \<Rightarrow> Prefix \<Rightarrow> ipamDeviceConfig \<Rightarrow> go_error + Addr option" where
  "parseGateway a addressWithPrefix cfg =
     (if ipa_Gateway a = '''' then Inr None
      else case ParseAddr (ipa_Gateway a) of
             None \<Rightarrow> Inl (Errorf ''IPAddress %s/%s has invalid gateway: %q''
                       [ipa_Namespace a, ipa_Name a, ipa_Gateway a])
           | Some gatewayAddr \<Rightarrow>
               if Is4 (p_Addr addressWithPrefix) \<noteq> Is4 gatewayAddr
               then Inl (Errorf ''IPAddress %s/%s has mismatched gateway and address IP families''
                      [ipa_Namespace a, ipa_Name a])
               else if Is4 gatewayAddr then
                 (if areGatewaysMismatched (idc_NetworkSpecGateway4 cfg) (ipa_Gateway a)
                  then Inl (Errorf ''the IPv4 Gateway for IPAddress %s does not match the Gateway4 already configured on device (index %d)''
                         [ipa_Name a, show_nat (idc_DeviceIndex cfg)])
                  else if areGatewaysMismatched (idc_IPAMConfigGateway4 cfg) (ipa_Gateway a)
                  then Inl (Errorf ''the IPv4 IPAddresses assigned to the same device (index %d) do not have the same gateway''
                         [show_nat (idc_DeviceIndex cfg)])
                  else Inr (Some gatewayAddr))
               else
                 (if areGatewaysMismatched (idc_NetworkSpecGateway6 cfg) (ipa_Gateway a)
                  then Inl (Errorf ''the IPv6 Gateway for IPAddress %s does not match the Gateway6 already configured on device (index %d)''
                         [ipa_Name a, show_nat (idc_DeviceIndex cfg)])
                  else if areGatewaysMismatched (idc_IPAMConfigGateway6 cfg) (ipa_Gateway a)
                  then Inl (Errorf ''the IPv6 IPAddresses assigned to the same device (index %d) do not have the same gateway''
                         [show_nat (idc_DeviceIndex cfg)])
                  else Inr (Some gatewayAddr)))"

section \<open>\<open>status.go\<close>\<close>

definition getIPAddrClaim :: "ext \<Rightarrow> string \<Rightarrow> ('w, IPAddressClaim) vm_step" where
  "getIPAddrClaim x ipAddrClaimName w =
     do_call (Get (Get_IPAddressClaim (m_Namespace (vm_meta (ctx_VM w))) ipAddrClaimName)) (x_claim x) w"

text \<open>
  The loop over the pools of one device: the bound addresses. A claim that does not exist or is
  not bound yet is skipped, so fewer addresses than pools come back.
\<close>

fun pool_addresses :: "ext \<Rightarrow> nat \<Rightarrow> nat \<Rightarrow> IPPoolReference list \<Rightarrow> ('w, IPAddress list) vm_step" where
  "pool_addresses x devIdx poolRefIdx [] w = (Inr [], w)"
| "pool_addresses x devIdx poolRefIdx (p # ps) w =
     (case getIPAddrClaim x (IPAddressClaimName (vm_name w) devIdx poolRefIdx) w of
        (Inl err, w) \<Rightarrow>
          if apierrors_IsNotFound err then pool_addresses x devIdx (Suc poolRefIdx) ps w
          else (Inl (Wrapf err ''failed to get IPAddressClaim %s'' []), w)
      | (Inr claim, w) \<Rightarrow>
          if ipc_AddressRefName claim = '''' then pool_addresses x devIdx (Suc poolRefIdx) ps w
          else
            bindE (do_call (Get (Get_IPAddress (m_Namespace (vm_meta (ctx_VM w))) (ipc_AddressRefName claim)))
                     (x_address x) w) (\<lambda>ipAddr w.
            bindE (pool_addresses x devIdx (Suc poolRefIdx) ps w) (\<lambda>addrs w. (Inr (ipAddr # addrs), w))))"

fun device_configs ::
  "ext \<Rightarrow> NetworkStatus list \<Rightarrow> nat \<Rightarrow> NetworkDeviceSpec list \<Rightarrow> ('w, ipamDeviceConfig list) vm_step" where
  "device_configs x networkStatus devIdx [] w = (Inr [], w)"
| "device_configs x networkStatus devIdx (d # ds) w =
     (if length networkStatus = 0 \<or> length networkStatus \<le> devIdx \<or> nst_MACAddr (networkStatus ! devIdx) = ''''
      then (Inl (Errorf ''waiting for devices to have MAC address set'' []), w)
      else
        bindE (pool_addresses x devIdx 0 (d_AddressesFromPools d) w) (\<lambda>addrs w.
        bindE (device_configs x networkStatus (Suc devIdx) ds w) (\<lambda>cfgs w.
        (Inr (\<lparr>idc_DeviceIndex = devIdx, idc_IPAMAddresses = addrs,
               idc_MACAddress = nst_MACAddr (networkStatus ! devIdx),
               idc_NetworkSpecGateway4 = d_Gateway4 d, idc_IPAMConfigGateway4 = '''',
               idc_NetworkSpecGateway6 = d_Gateway6 d, idc_IPAMConfigGateway6 = ''''\<rparr> # cfgs), w))))"

definition buildIPAMDeviceConfigs ::
  "ext \<Rightarrow> NetworkStatus list \<Rightarrow> ('w, ipamDeviceConfig list) vm_step" where
  "buildIPAMDeviceConfigs x networkStatus w =
     bindE (device_configs x networkStatus 0 (ns_Devices (c_Network (vm_clone_spec w))) w) (\<lambda>cfgs w.
       let totalClaims = sum_list (map (\<lambda>d. length (d_AddressesFromPools d)) (ns_Devices (c_Network (vm_clone_spec w))));
           boundClaims = sum_list (map (\<lambda>c. length (idc_IPAMAddresses c)) cfgs)
       in if boundClaims < totalClaims then (Inl ErrWaitingForIPAddr, w) else (Inr cfgs, w))"

text \<open>
  One device: the addresses are parsed in order, with the gateways found so far in the configuration.
  An address that does not parse, is a duplicate or has a bad gateway adds an error and is left out.
\<close>

fun device_addresses ::
  "ipamDeviceConfig \<Rightarrow> Prefix list \<Rightarrow> go_error list \<Rightarrow> IPAddress list \<Rightarrow>
   ipamDeviceConfig \<times> Prefix list \<times> go_error list" where
  "device_addresses cfg pfxs errs [] = (cfg, pfxs, errs)"
| "device_addresses cfg pfxs errs (a # as) =
     (case parseAddressWithPrefix a of
        Inl err \<Rightarrow> device_addresses cfg pfxs (errs @ [err]) as
      | Inr p \<Rightarrow>
          if p \<in> set pfxs
          then device_addresses cfg pfxs
                 (errs @ [Errorf ''IPAddress %s/%s is a duplicate of another address: %q''
                            [ipa_Namespace a, ipa_Name a, Prefix_String p]]) as
          else case parseGateway a p cfg of
                 Inl err \<Rightarrow> device_addresses cfg pfxs (errs @ [err]) as
               | Inr gatewayAddr \<Rightarrow>
                   device_addresses
                     (case gatewayAddr of
                        None \<Rightarrow> cfg
                      | Some g \<Rightarrow> if Is4 g then cfg\<lparr>idc_IPAMConfigGateway4 := ipa_Gateway a\<rparr>
                                 else cfg\<lparr>idc_IPAMConfigGateway6 := ipa_Gateway a\<rparr>)
                     (pfxs @ [p]) errs as)"

type_synonym ipam_state = "string \<rightharpoonup> NetworkDeviceSpec"

fun build_devices ::
  "ipam_state \<Rightarrow> go_error list \<Rightarrow> ipamDeviceConfig list \<Rightarrow> ipam_state \<times> go_error list" where
  "build_devices state errs [] = (state, errs)"
| "build_devices state errs (cfg # cfgs) =
     (case device_addresses cfg [] [] (idc_IPAMAddresses cfg) of
        (cfg', pfxs, es) \<Rightarrow>
          build_devices
            (if length pfxs > 0
             then state(idc_MACAddress cfg' \<mapsto> empty_device\<lparr>d_IPAddrs := prefixesAsStrings pfxs,
                      d_Gateway4 := idc_IPAMConfigGateway4 cfg', d_Gateway6 := idc_IPAMConfigGateway6 cfg'\<rparr>)
             else state) (errs @ es) cfgs)"

definition BuildState :: "ext \<Rightarrow> NetworkStatus list \<Rightarrow> ('w, ipam_state) vm_step" where
  "BuildState x networkStatus w =
     bindE (buildIPAMDeviceConfigs x networkStatus w) (\<lambda>cfgs w.
       case build_devices Map.empty [] cfgs of
         (state, errs) \<Rightarrow> if length errs > 0 then (Inl (Aggregate errs), w) else (Inr state, w))"

section \<open>Lemmas\<close>

lemma device_addresses_fields:
  "device_addresses cfg ps es as = (cfg', ps', es') \<Longrightarrow>
   idc_MACAddress cfg' = idc_MACAddress cfg \<and> idc_NetworkSpecGateway4 cfg' = idc_NetworkSpecGateway4 cfg \<and>
   idc_NetworkSpecGateway6 cfg' = idc_NetworkSpecGateway6 cfg \<and> idc_DeviceIndex cfg' = idc_DeviceIndex cfg"
  by (induction cfg ps es as rule: device_addresses.induct)
     (fastforce split: sum.splits if_splits option.splits)+

lemma device_addresses_errs: "device_addresses cfg ps es as = (cfg', ps', es') \<Longrightarrow> prefix es es'"
  by (induction cfg ps es as rule: device_addresses.induct)
     (fastforce split: sum.splits if_splits simp: prefix_def)+

lemma device_addresses_distinct:
  "device_addresses cfg ps es as = (cfg', ps', es') \<Longrightarrow> distinct ps \<Longrightarrow> distinct ps'"
  by (induction cfg ps es as rule: device_addresses.induct)
     (auto split: sum.splits if_splits)

text \<open>
  When no address fails, every address of the device is parsed, in order; a gateway that an address names
  is the gateway of the device for that family, and it is the one of the network spec if that has one.
\<close>

definition gateway_of :: "bool \<Rightarrow> ipamDeviceConfig \<Rightarrow> string" where
  "gateway_of v4 cfg = (if v4 then idc_IPAMConfigGateway4 cfg else idc_IPAMConfigGateway6 cfg)"

definition spec_gateway :: "bool \<Rightarrow> ipamDeviceConfig \<Rightarrow> string" where
  "spec_gateway v4 cfg = (if v4 then idc_NetworkSpecGateway4 cfg else idc_NetworkSpecGateway6 cfg)"

lemma parseGateway_Inr:
  "parseGateway a p cfg = Inr (Some g) \<Longrightarrow>
   ipa_Gateway a \<noteq> '''' \<and> ParseAddr (ipa_Gateway a) = Some g \<and> Is4 g = Is4 (p_Addr p) \<and>
   (gateway_of (Is4 g) cfg = '''' \<or> gateway_of (Is4 g) cfg = ipa_Gateway a) \<and>
   (spec_gateway (Is4 g) cfg = '''' \<or> spec_gateway (Is4 g) cfg = ipa_Gateway a)"
  "parseGateway a p cfg = Inr None \<Longrightarrow> ipa_Gateway a = ''''"
  by (auto simp: parseGateway_def areGatewaysMismatched_def gateway_of_def spec_gateway_def
      split: if_splits option.splits)

lemma device_addresses_gateways:
  assumes "device_addresses cfg ps es as = (cfg', ps', es)"
  shows "(\<forall>a \<in> set as. ipa_Gateway a \<noteq> '''' \<longrightarrow>
        (\<exists>g. ParseAddr (ipa_Gateway a) = Some g \<and> gateway_of (Is4 g) cfg' = ipa_Gateway a \<and>
             (spec_gateway (Is4 g) cfg = '''' \<or> spec_gateway (Is4 g) cfg = ipa_Gateway a))) \<and>
     (\<forall>v4. gateway_of v4 cfg \<noteq> '''' \<longrightarrow> gateway_of v4 cfg' = gateway_of v4 cfg)"
  using assms
proof (induction cfg ps es as rule: device_addresses.induct)
  case (2 cfg ps es a as)
  have bad: False if "device_addresses c q (es @ [e]) as = (cfg', ps', es)" for c q e
    using device_addresses_errs [OF that] by (auto simp: prefix_def)
  from "2.prems" bad obtain p where p: "parseAddressWithPrefix a = Inr p" by (auto split: sum.splits)
  with "2.prems" bad have new: "p \<notin> set ps" by (auto split: if_splits)
  with "2.prems" p bad obtain r where r: "parseGateway a p cfg = Inr r" by (auto split: sum.splits)
  let ?cfg = "case r of None \<Rightarrow> cfg | Some g \<Rightarrow> if Is4 g then cfg\<lparr>idc_IPAMConfigGateway4 := ipa_Gateway a\<rparr>
                                 else cfg\<lparr>idc_IPAMConfigGateway6 := ipa_Gateway a\<rparr>"
  from "2.prems" p new r have rest: "device_addresses ?cfg (ps @ [p]) es as = (cfg', ps', es)" by simp
  note IH = "2.IH"(4) [OF p new r rest]
  have spec: "spec_gateway v4 ?cfg = spec_gateway v4 cfg" for v4
    by (auto simp: spec_gateway_def split: option.splits)
  show ?case
  proof (cases r)
    case None
    with r have "ipa_Gateway a = ''''" using parseGateway_Inr(2) by blast
    with IH None show ?thesis by simp
  next
    case (Some g)
    with r have g: "ipa_Gateway a \<noteq> ''''" "ParseAddr (ipa_Gateway a) = Some g"
        "gateway_of (Is4 g) cfg = '''' \<or> gateway_of (Is4 g) cfg = ipa_Gateway a"
        "spec_gateway (Is4 g) cfg = '''' \<or> spec_gateway (Is4 g) cfg = ipa_Gateway a"
      using parseGateway_Inr(1) by blast+
    have upd: "gateway_of v4 ?cfg = (if v4 = Is4 g then ipa_Gateway a else gateway_of v4 cfg)" for v4
      by (auto simp: Some gateway_of_def)
    have mine: "gateway_of (Is4 g) cfg' = ipa_Gateway a"
      using IH [THEN conjunct2, rule_format, of "Is4 g"] g(1) unfolding upd by simp
    have keep: "gateway_of v4 cfg' = gateway_of v4 cfg" if "gateway_of v4 cfg \<noteq> ''''" for v4
      using IH [THEN conjunct2, rule_format, of v4] mine g(1,3) that unfolding upd
      by (cases "v4 = Is4 g") auto
    from IH [THEN conjunct1] mine keep g show ?thesis unfolding spec by auto
  qed
qed simp

lemma build_devices_errs: "build_devices st es cfgs = (st', es') \<Longrightarrow> prefix es es'"
proof (induction st es cfgs rule: build_devices.induct)
  case (2 st es cfg cfgs)
  obtain c p e where d: "device_addresses cfg [] [] (idc_IPAMAddresses cfg) = (c, p, e)" by (metis prod_cases3)
  from 2 d have "prefix (es @ e) es'" by (auto split: if_splits)
  then show ?case by (auto simp: prefix_def)
qed simp

lemma build_devices_state:
  assumes "build_devices st [] cfgs = (st', [])" and "st' mac = Some dev" and "st mac \<noteq> Some dev"
  shows "\<exists>cfg \<in> set cfgs. \<exists>cfg' ps. idc_MACAddress cfg = mac \<and>
    device_addresses cfg [] [] (idc_IPAMAddresses cfg) = (cfg', ps, []) \<and>
    dev = empty_device\<lparr>d_IPAddrs := prefixesAsStrings ps, d_Gateway4 := gateway_of True cfg',
      d_Gateway6 := gateway_of False cfg'\<rparr>"
  using assms
proof (induction cfgs arbitrary: st)
  case (Cons cfg cfgs)
  obtain c p e where d: "device_addresses cfg [] [] (idc_IPAMAddresses cfg) = (c, p, e)" by (metis prod_cases3)
  let ?st = "if length p > 0 then st(idc_MACAddress c \<mapsto> empty_device\<lparr>d_IPAddrs := prefixesAsStrings p,
      d_Gateway4 := idc_IPAMConfigGateway4 c, d_Gateway6 := idc_IPAMConfigGateway6 c\<rparr>) else st"
  from Cons.prems(1) d have rest: "build_devices ?st e cfgs = (st', [])" by simp
  with build_devices_errs [OF this] have e: "e = []" by simp
  show ?case
  proof (cases "?st mac = Some dev")
    case False
    from Cons.IH [OF rest [unfolded e] Cons.prems(2) False] show ?thesis by auto
  next
    case True
    with Cons.prems(3) have "idc_MACAddress c = mac" "dev = empty_device\<lparr>d_IPAddrs := prefixesAsStrings p,
      d_Gateway4 := idc_IPAMConfigGateway4 c, d_Gateway6 := idc_IPAMConfigGateway6 c\<rparr>"
      by (auto split: if_splits)
    with d e device_addresses_fields [OF d] show ?thesis by (auto simp: gateway_of_def)
  qed
qed simp

lemma pool_addresses_calls:
  "calls_ok (\<lambda>c. \<not> vcenter_change c) w (snd (pool_addresses x i j ps w)) \<and> same_but_hist w (snd (pool_addresses x i j ps w))"
proof (induction ps arbitrary: j w)
  case (Cons p ps)
  show ?case
    by (auto simp: getIPAddrClaim_def do_call_def split: sum.splits
        intro!: calls_intros frame_intros intro: calls_ok_trans [OF _ Cons [THEN conjunct1]]
          same_but_hist_trans [OF _ Cons [THEN conjunct2]])
qed simp

lemma device_configs_calls:
  "calls_ok (\<lambda>c. \<not> vcenter_change c) w (snd (device_configs x ns i ds w)) \<and> same_but_hist w (snd (device_configs x ns i ds w))"
proof (induction ds arbitrary: i w)
  case (Cons d ds)
  then show ?case by (auto simp: pool_addresses_calls intro!: calls_intros frame_intros)
qed simp

lemma BuildState_calls:
  "calls_ok (\<lambda>c. \<not> vcenter_change c) w (snd (BuildState x ns w))"
  "same_but_hist w (snd (BuildState x ns w))"
  unfolding BuildState_def buildIPAMDeviceConfigs_def
  by (auto simp: device_configs_calls Let_def split: prod.splits intro!: calls_intros frame_intros)

section \<open>Properties\<close>

text \<open>
  If \<open>BuildState\<close> succeeds, the entry of a MAC address comes from one device: its addresses are
  distinct prefixes, and every address of the device that names a gateway names the one the entry has
  for that family, which is also the gateway of the network spec where that has one.
\<close>

lemma ipam_state_consistent:
  assumes "BuildState x ns w = (Inr state, w')" and "state mac = Some dev"
  shows "\<exists>cfg ps. idc_MACAddress cfg = mac \<and> d_IPAddrs dev = map Prefix_String ps \<and> distinct ps \<and>
    (\<forall>a \<in> set (idc_IPAMAddresses cfg). ipa_Gateway a \<noteq> '''' \<longrightarrow>
       (\<exists>g. ParseAddr (ipa_Gateway a) = Some g \<and>
          (if Is4 g then d_Gateway4 dev else d_Gateway6 dev) = ipa_Gateway a \<and>
          (spec_gateway (Is4 g) cfg = '''' \<or> spec_gateway (Is4 g) cfg = ipa_Gateway a)))"
proof -
  from assms(1) obtain cfgs w1 where "(case build_devices Map.empty [] cfgs of
         (state, errs) \<Rightarrow> if length errs > 0 then (Inl (Aggregate errs), w1) else (Inr state, w1)) = (Inr state, w')"
    by (auto simp: BuildState_def bindE_eq_Inr)
  then have "build_devices Map.empty [] cfgs = (state, [])"
    by (cases "build_devices Map.empty [] cfgs") (auto split: if_splits)
  from build_devices_state [OF this assms(2)] obtain cfg cfg' ps where
      mac: "idc_MACAddress cfg = mac" and d: "device_addresses cfg [] [] (idc_IPAMAddresses cfg) = (cfg', ps, [])"
    and dev: "dev = empty_device\<lparr>d_IPAddrs := prefixesAsStrings ps, d_Gateway4 := gateway_of True cfg',
      d_Gateway6 := gateway_of False cfg'\<rparr>" by auto
  have "(if Is4 g then d_Gateway4 dev else d_Gateway6 dev) = gateway_of (Is4 g) cfg'" for g
    by (simp add: dev)
  with device_addresses_gateways [OF d] device_addresses_distinct [OF d] mac dev show ?thesis
    by (intro exI [of _ cfg] exI [of _ ps]) (simp add: prefixesAsStrings_def)
qed

definition sample_address :: IPAddress where
  "sample_address = \<lparr>ipa_Namespace = ''ns'', ipa_Name = ''a'', ipa_Address = ''10.0.0.5'', ipa_Prefix = Some 24,
     ipa_Gateway = ''10.0.0.1''\<rparr>"

definition sample_claim :: IPAddressClaim where
  "sample_claim = \<lparr>ipc_meta = empty_meta, ipc_PoolRef = \<lparr>pool_Name = ''p'', pool_Kind = ''k'', pool_APIGroup = ''g''\<rparr>,
     ipc_AddressRefName = ''a'', ipc_Conditions = []\<rparr>"

definition sample_pool_ctx :: vm_ctx where
  "sample_pool_ctx = \<lparr>hist = [], ctx_VM = zero_VSphereVM\<lparr>vm_Spec := (vm_Spec zero_VSphereVM)\<lparr>s_Clone :=
     zero_clone\<lparr>c_Network := \<lparr>ns_Devices = [empty_device\<lparr>d_AddressesFromPools := [ipc_PoolRef sample_claim]\<rparr>],
       ns_Routes = []\<rparr>\<rparr>\<rparr>\<rparr>, ctx_ClusterModuleInfo = None, ctx_FailureDomain = None\<rparr>"

definition sample_net_status :: "NetworkStatus list" where
  "sample_net_status = [\<lparr>nst_Connected = Some True, nst_IPAddrs = [], nst_MACAddr = ''00:aa'', nst_NetworkName = ''n''\<rparr>]"

lemma sample_parse:
  "parseAddressWithPrefix sample_address = Inr \<lparr>p_Addr = Addr4 [10, 0, 0, 5], p_Bits = 24\<rparr>"
  "ParseAddr ''10.0.0.1'' = Some (Addr4 [10, 0, 0, 1])"
  by code_simp+

end
