(* ===== verification/Metadata.thy ===== *)
theory Metadata
  imports IPAM
begin

text \<open>
  \<open>GetMachineMetadata\<close> of \<open>pkg/util/machines.go\<close> with the template \<open>metadataFormat\<close> of
  \<open>pkg/util/constants.go\<close>: the cloud-init metadata of a VM. The template is translated to a
  rendering function: \<open>{{-\<close> removes the white space before an action, so every piece starts
  with a line break; a pointer field is rendered when it is not nil.
\<close>

section \<open>The devices\<close>

definition merge_device ::
  "ipam_state \<Rightarrow> NetworkRouteSpec list \<Rightarrow> NetworkStatus option \<Rightarrow> NetworkDeviceSpec \<Rightarrow> NetworkDeviceSpec" where
  "merge_device ipamState vmRoutes status d =
     (let d = d\<lparr>d_Routes := d_Routes d @ vmRoutes\<rparr>;
          d = (case status of None \<Rightarrow> d | Some s \<Rightarrow> d\<lparr>d_MACAddr := nst_MACAddr s\<rparr>)
      in case ipamState (d_MACAddr d) of
           None \<Rightarrow> d
         | Some state \<Rightarrow> d\<lparr>d_IPAddrs := d_IPAddrs d @ d_IPAddrs state, d_Gateway4 := d_Gateway4 state,
                          d_Gateway6 := d_Gateway6 state\<rparr>)"

definition nth_opt :: "'a list \<Rightarrow> nat \<Rightarrow> 'a option" where
  "nth_opt xs i = (if i < length xs then Some (xs ! i) else None)"

text \<open>
  One device per spec or status, whichever are more; the VM-wide routes reach the devices without a
  spec only from inside the loop over the specs, at its last element.
\<close>

definition metadata_devices ::
  "NetworkSpec \<Rightarrow> ipam_state \<Rightarrow> NetworkStatus list \<Rightarrow> NetworkDeviceSpec list" where
  "metadata_devices net ipamState networkStatuses =
     map (\<lambda>i. let d = (if i < length (ns_Devices net)
                        then merge_device ipamState (ns_Routes net) (nth_opt networkStatuses i) (ns_Devices net ! i)
                        else empty_device\<lparr>d_Routes := (if ns_Devices net = [] then [] else ns_Routes net)\<rparr>)
               in case nth_opt networkStatuses i of None \<Rightarrow> d | Some s \<Rightarrow> d\<lparr>d_MACAddr := nst_MACAddr s\<rparr>)
       [0..<max (length (ns_Devices net)) (length networkStatuses)]"

text \<open>The flags \<open>waitForIPv4\<close> and \<open>waitForIPv6\<close>.\<close>

fun wait_flags :: "bool \<Rightarrow> bool \<Rightarrow> NetworkDeviceSpec list \<Rightarrow> bool \<times> bool" where
  "wait_flags w4 w6 [] = (w4, w6)"
| "wait_flags w4 w6 (d # ds) =
     (if w4 \<and> w6 then wait_flags w4 w6 ds
      else wait_flags
        (w4 \<or> list_ex (\<lambda>s. case ParseIP s of None \<Rightarrow> False | Some ip \<Rightarrow> To4 ip \<noteq> None) (d_IPAddrs d) \<or>
         Deref (d_DHCP4 d) False)
        (w6 \<or> list_ex (\<lambda>s. case ParseIP s of None \<Rightarrow> False | Some ip \<Rightarrow> To4 ip = None) (d_IPAddrs d) \<or>
         Deref (d_DHCP6 d) False) ds)"

section \<open>The template\<close>

definition nl :: string where "nl = [CHR 0x0A]"
definition quoted :: "string \<Rightarrow> string" where "quoted s = CHR 0x22 # s @ [CHR 0x22]"

definition show_bool :: "bool \<Rightarrow> string" where
  "show_bool b = (if b then ''true'' else ''false'')"

definition opt_line :: "string \<Rightarrow> ('a \<Rightarrow> string) \<Rightarrow> 'a option \<Rightarrow> string" where
  "opt_line label sh v = (case v of None \<Rightarrow> '''' | Some a \<Rightarrow> nl @ label @ sh a)"

definition list_lines :: "string \<Rightarrow> string \<Rightarrow> string list \<Rightarrow> string" where
  "list_lines header item xs =
     (if xs = [] then '''' else nl @ header @ concat (map (\<lambda>x. nl @ item @ quoted x) xs))"

definition render_overrides :: "string \<Rightarrow> DHCPOverrides option \<Rightarrow> string" where
  "render_overrides header ov =
     (case ov of
        None \<Rightarrow> ''''
      | Some d \<Rightarrow> nl @ header
          @ opt_line ''        hostname: '' quoted (o_Hostname d)
          @ opt_line ''        route-metric: '' show_int (o_RouteMetric d)
          @ opt_line ''        send-hostname: '' show_bool (o_SendHostname d)
          @ opt_line ''        use-dns: '' show_bool (o_UseDNS d)
          @ opt_line ''        use-domains: '' id (o_UseDomains d)
          @ opt_line ''        use-hostname: '' show_bool (o_UseHostname d)
          @ opt_line ''        use-mtu: '' show_bool (o_UseMTU d)
          @ opt_line ''        use-ntp: '' show_bool (o_UseNTP d)
          @ opt_line ''        use-routes: '' quoted (o_UseRoutes d))"

definition render_route :: "NetworkRouteSpec \<Rightarrow> string" where
  "render_route r =
     nl @ ''      - to: '' @ quoted (rt_To r)
     @ nl @ ''        via: '' @ quoted (rt_Via r)
     @ nl @ ''        metric: '' @ (case rt_Metric r of None \<Rightarrow> ''<nil>'' | Some m \<Rightarrow> show_int m)"

definition render_nameservers :: "NetworkDeviceSpec \<Rightarrow> string" where
  "render_nameservers d =
     (if d_Nameservers d \<noteq> [] \<or> d_SearchDomains d \<noteq> []
      then nl @ ''      nameservers:''
           @ list_lines ''        addresses:'' ''        - '' (d_Nameservers d)
           @ list_lines ''        search:'' ''        - '' (d_SearchDomains d)
      else '''')"

definition render_device :: "nat \<Rightarrow> NetworkDeviceSpec \<Rightarrow> string" where
  "render_device i d =
     nl @ ''    id'' @ show_nat i @ '':''
     @ nl @ ''      match:''
     @ nl @ ''        macaddress: '' @ quoted (d_MACAddr d)
     @ nl @ ''      set-name: '' @ quoted (if d_DeviceName d \<noteq> '''' then d_DeviceName d else ''eth'' @ show_nat i)
     @ nl @ ''      wakeonlan: true''
     @ nl @ ''      dhcp4: '' @ show_bool (Deref (d_DHCP4 d) False)
     @ nl @ ''      dhcp6: '' @ show_bool (Deref (d_DHCP6 d) False)
     @ nl @ ''      accept-ra: '' @ show_bool (Deref (d_DHCP6 d) False)
     @ render_overrides ''      dhcp4-overrides:'' (d_DHCP4Overrides d)
     @ render_overrides ''      dhcp6-overrides:'' (d_DHCP6Overrides d)
     @ list_lines ''      addresses:'' ''      - '' (d_IPAddrs d)
     @ (if d_Gateway4 d \<noteq> '''' then nl @ ''      gateway4: '' @ quoted (d_Gateway4 d) else '''')
     @ (if d_Gateway6 d \<noteq> '''' then nl @ ''      gateway6: '' @ quoted (d_Gateway6 d) else '''')
     @ opt_line ''      mtu: '' show_int (d_MTU d)
     @ (if d_Routes d = [] then '''' else nl @ ''      routes:'' @ concat (map render_route (d_Routes d)))
     @ render_nameservers d"

definition render_metadata :: "string \<Rightarrow> NetworkDeviceSpec list \<Rightarrow> bool \<Rightarrow> bool \<Rightarrow> string" where
  "render_metadata hostname devices waitForIPv4 waitForIPv6 =
     nl @ ''instance-id: '' @ quoted hostname
     @ nl @ ''local-hostname: '' @ quoted hostname
     @ nl @ ''wait-on-network:''
     @ nl @ ''  ipv4: '' @ show_bool waitForIPv4
     @ nl @ ''  ipv6: '' @ show_bool waitForIPv6
     @ nl @ ''network:''
     @ nl @ ''  version: 2''
     @ nl @ ''  ethernets:''
     @ concat (map (\<lambda>(i, d). render_device i d) (enumerate 0 devices))
     @ nl"

text \<open>The template is a constant that parses and all its fields exist, so executing it does not fail.\<close>

definition GetMachineMetadata ::
  "string \<Rightarrow> VSphereVM \<Rightarrow> ipam_state \<Rightarrow> NetworkStatus list \<Rightarrow> string" where
  "GetMachineMetadata hostname vsphereVM ipamState networkStatuses =
     (let net = c_Network (s_Clone (vm_Spec vsphereVM));
          (waitForIPv4, waitForIPv6) = wait_flags False False (ns_Devices net)
      in render_metadata hostname (metadata_devices net ipamState networkStatuses) waitForIPv4 waitForIPv6)"

section \<open>Lemmas\<close>

lemma metadata_bad_char: "CHR 0x22 \<in> set (GetMachineMetadata h vm ipam st)"
  by (simp add: GetMachineMetadata_def render_metadata_def quoted_def Let_def case_prod_unfold)

lemma metadata_not_base64: "DecodeString (GetMachineMetadata h vm ipam st) = None"
  by (rule DecodeString_bad_char [OF metadata_bad_char]) (simp_all add: is_newline_def b64_val_def)

lemma metadata_not_Nil: "GetMachineMetadata h vm ipam st \<noteq> []"
  using metadata_bad_char [of h vm ipam st] by (metis list.set(1) empty_iff)

lemma wait_flags_or:
  "fst (wait_flags w4 w6 ds) = (w4 \<or> fst (wait_flags False False ds)) \<and>
   snd (wait_flags w4 w6 ds) = (w6 \<or> snd (wait_flags False False ds))"
proof (induction ds arbitrary: w4 w6)
  case (Cons d ds)
  show ?case
    by (simp add: Cons [of "w4 \<or> _"] Cons [of "list_ex _ _ \<or> _"] Cons [of True True])
qed simp

section \<open>Properties\<close>

text \<open>
  The metadata describes as many network devices as the VM has specs or cards, whichever are
  more; a device with a card has the card's MAC address, so cloud-init matches it, and the addresses of a
  device are those of its spec followed by those IPAM assigned to its MAC address.
\<close>

lemma metadata_devices_spec:
  "length (metadata_devices net ipam st) = max (length (ns_Devices net)) (length st) \<and>
   (\<forall>i < length st. d_MACAddr (metadata_devices net ipam st ! i) = nst_MACAddr (st ! i)) \<and>
   (\<forall>i < length (ns_Devices net). d_IPAddrs (metadata_devices net ipam st ! i) =
      d_IPAddrs (ns_Devices net ! i) @
      (case ipam (d_MACAddr (metadata_devices net ipam st ! i)) of None \<Rightarrow> [] | Some d \<Rightarrow> d_IPAddrs d))"
proof (intro conjI allI impI)
  show "length (metadata_devices net ipam st) = max (length (ns_Devices net)) (length st)"
    by (simp add: metadata_devices_def)
next
  fix i assume "i < length st"
  then show "d_MACAddr (metadata_devices net ipam st ! i) = nst_MACAddr (st ! i)"
    by (simp add: metadata_devices_def nth_opt_def Let_def)
next
  fix i assume "i < length (ns_Devices net)"
  then show "d_IPAddrs (metadata_devices net ipam st ! i) = d_IPAddrs (ns_Devices net ! i) @
      (case ipam (d_MACAddr (metadata_devices net ipam st ! i)) of None \<Rightarrow> [] | Some d \<Rightarrow> d_IPAddrs d)"
    by (auto simp: metadata_devices_def nth_opt_def Let_def merge_device_def split: option.splits)
qed

text \<open>
  Static addresses are given in CIDR form, but the wait flags are computed with
  \<open>net.ParseIP\<close>, which rejects every text with a slash: a VM that uses only static addresses
  is told not to wait for the network.
\<close>

lemma static_addresses_not_waited_for:
  assumes "\<forall>d \<in> set ds. \<not> Deref (d_DHCP4 d) False \<and> \<not> Deref (d_DHCP6 d) False \<and>
    (\<forall>a \<in> set (d_IPAddrs d). CHR ''/'' \<in> set a)"
  shows "wait_flags False False ds = (False, False)"
  using assms
proof (induction ds)
  case (Cons d ds)
  have "\<not> list_ex (\<lambda>s. case ParseIP s of None \<Rightarrow> False | Some ip \<Rightarrow> Q ip) (d_IPAddrs d)" for Q
    using Cons.prems ParseIP_no_slash by (auto simp: list_ex_iff split: option.splits)
  with Cons show ?case by simp
qed simp

text \<open>
  When IPAM assigns addresses without a gateway to a device whose spec has a gateway,
  the metadata loses the gateway of the spec.
\<close>

lemma ipam_drops_spec_gateway:
  assumes "ipam (nst_MACAddr s) = Some st" and "d_Gateway4 st = ''''" and "d_Gateway4 d \<noteq> ''''"
  shows "d_Gateway4 (merge_device ipam routes (Some s) d) = ''''"
  using assms by (simp add: merge_device_def Let_def)

end
