(* ===== verification/Cluster_Module_Provider.thy ===== *)
theory Cluster_Module_Provider
  imports VM_Context
begin

text \<open>
  \<open>pkg/services/govmomi/clustermodules/provider.go\<close>: vCenter's cluster modules, and
  \<open>pkg/services/govmomi/cluster\<close>: VM groups, host groups and affinity rules of a compute cluster.
\<close>

section \<open>Cluster modules\<close>

definition rest_IsNotFound :: "go_error \<Rightarrow> bool" where
  \<comment> \<open>\<open>rest.IsStatusError(err, http.StatusNotFound)\<close>\<close>
  "rest_IsNotFound e \<longleftrightarrow> e = RestStatusError 404"

definition CreateModule :: "ext \<Rightarrow> moref \<Rightarrow> 'w world_scheme \<Rightarrow> (go_error + string) \<times> 'w world_scheme" where
  "CreateModule x clusterRef w = do_call (Change (Manager_CreateModule clusterRef)) (x_string x) w"

definition DeleteModule :: "ext \<Rightarrow> string \<Rightarrow> 'w world_scheme \<Rightarrow> (go_error + unit) \<times> 'w world_scheme" where
  "DeleteModule x moduleUUID w =
     (case do_call (Change (Manager_DeleteModule moduleUUID)) (x_unit x) w of
        (Inl err, w) \<Rightarrow> if rest_IsNotFound err then (Inr (), w) else (Inl err, w)
      | (Inr _, w) \<Rightarrow> (Inr (), w))"

definition DoesModuleExist :: "ext \<Rightarrow> string \<Rightarrow> 'w world_scheme \<Rightarrow> (go_error + bool) \<times> 'w world_scheme" where
  "DoesModuleExist x moduleUUID w =
     (if moduleUUID = '''' then (Inr False, w)
      else case do_call (Svc (ListModuleMembers moduleUUID)) (x_refs x) w of
             (Inr _, w) \<Rightarrow> (Inr True, w)
           | (Inl err, w) \<Rightarrow> if rest_IsNotFound err then (Inr False, w) else (Inl err, w))"

definition IsMoRefModuleMember ::
  "ext \<Rightarrow> string \<Rightarrow> moref \<Rightarrow> 'w world_scheme \<Rightarrow> (go_error + bool) \<times> 'w world_scheme" where
  "IsMoRefModuleMember x moduleID moRef w =
     bindE (do_call (Svc (ListModuleMembers moduleID)) (x_refs x) w) (\<lambda>members w. (Inr (moRef \<in> set members), w))"

definition AddMoRefToModule ::
  "ext \<Rightarrow> string \<Rightarrow> moref \<Rightarrow> 'w world_scheme \<Rightarrow> (go_error + unit) \<times> 'w world_scheme" where
  "AddMoRefToModule x moduleID moRef w =
     bindE (IsMoRefModuleMember x moduleID moRef w) (\<lambda>isMember w.
       if isMember then (Inr (), w) else do_call (Change (AddModuleMembers moduleID moRef)) (x_unit x) w)"

definition RemoveMoRefFromModule ::
  "ext \<Rightarrow> string \<Rightarrow> moref \<Rightarrow> 'w world_scheme \<Rightarrow> (go_error + unit) \<times> 'w world_scheme" where
  "RemoveMoRefFromModule x moduleID moRef w = do_call (Change (RemoveModuleMembers moduleID moRef)) (x_unit x) w"

section \<open>VM groups\<close>

record VMGroup =
  vg_Ccr :: moref
  vg_Name :: string
  vg_Vm :: "moref list"

fun find_vm_group :: "string \<Rightarrow> cluster_group list \<Rightarrow> moref list option" where
  "find_vm_group name [] = None"
| "find_vm_group name (ClusterVmGroup n vms # gs) = (if n = name then Some vms else find_vm_group name gs)"
| "find_vm_group name (_ # gs) = find_vm_group name gs"

definition FindVMGroup ::
  "ext \<Rightarrow> string \<Rightarrow> string \<Rightarrow> 'w world_scheme \<Rightarrow> (go_error + VMGroup) \<times> 'w world_scheme" where
  "FindVMGroup x clusterName vmGroupName w =
     bindE (do_call (Find (ClusterComputeResource clusterName)) (x_ref x) w) (\<lambda>ccr w.
     bindE (do_call (Svc (Ccr_Configuration ccr)) (x_groups x) w) (\<lambda>groups w.
     case find_vm_group vmGroupName groups of
       Some vms \<Rightarrow> (Inr \<lparr>vg_Ccr = ccr, vg_Name = vmGroupName, vg_Vm = vms\<rparr>, w)
     | None \<Rightarrow> (Inl (Errorf ''cannot find VM group %s'' [vmGroupName]), w)))"

definition vmgroup_Add ::
  "ext \<Rightarrow> VMGroup \<Rightarrow> moref \<Rightarrow> 'w world_scheme \<Rightarrow> (go_error + string) \<times> 'w world_scheme" where
  "vmgroup_Add x vg vmObj w =
     do_call (Change (Ccr_Reconfigure (vg_Ccr vg) (vg_Name vg) (vg_Vm vg @ [vmObj]))) (x_task x) w"

definition HasVM :: "VMGroup \<Rightarrow> moref \<Rightarrow> bool" where
  "HasVM vg vmObj \<longleftrightarrow> vmObj \<in> set (vg_Vm vg)"

fun ListHostsFromGroup :: "string \<Rightarrow> cluster_group list \<Rightarrow> moref list" where
  "ListHostsFromGroup name [] = []"
| "ListHostsFromGroup name (ClusterHostGroup n hosts # gs) = (if n = name then hosts else ListHostsFromGroup name gs)"
| "ListHostsFromGroup name (_ # gs) = ListHostsFromGroup name gs"

section \<open>Lemmas\<close>

lemma FindVMGroup_calls:
  "calls_ok (\<lambda>c. \<not> vcenter_change c) w (snd (FindVMGroup x c g w))"
  "same_but_hist w (snd (FindVMGroup x c g w))"
  by (auto simp: FindVMGroup_def intro!: calls_intros frame_intros split: option.splits)

lemma AddMoRefToModule_frame: "same_but_hist w (snd (AddMoRefToModule x m r w))"
  by (auto simp: AddMoRefToModule_def IsMoRefModuleMember_def intro!: frame_intros)

lemma AddMoRefToModule_calls:
  "calls_ok (\<lambda>c. vcenter_change c \<longrightarrow> c = Change (AddModuleMembers m r)) w (snd (AddMoRefToModule x m r w))"
  by (auto simp: AddMoRefToModule_def IsMoRefModuleMember_def intro!: calls_intros)

section \<open>Properties\<close>

text \<open>
  A VM is added to a cluster module at most once: the membership is asked for first, and the add
  request is sent exactly when the VM is not a member yet.
\<close>

lemma module_member_added_once:
  assumes "x_refs x (hist w @ [Svc (ListModuleMembers m)]) = Inr members"
  shows "hist (snd (AddMoRefToModule x m r w)) =
    hist w @ [Svc (ListModuleMembers m)] @ (if r \<in> set members then [] else [Change (AddModuleMembers m r)])"
  using assms by (simp add: AddMoRefToModule_def IsMoRefModuleMember_def do_call_def)

end
