(* ===== verification/PCI.thy ===== *)
theory PCI
  imports Vim Go_Strings
begin

text \<open>
  \<open>pkg/services/govmomi/pci/device.go\<close>: which PCI devices of a VM's spec are missing on the
  VM, and the device specs that add them. Dereferencing a nil device or vendor ID panics;
  govmomi's \<open>SelectByBackingInfo\<close> is the parameter \<open>x_SelectByBackingInfo\<close>.
\<close>

section \<open>Model\<close>

definition constructKey :: "PCIDeviceSpec \<Rightarrow> go_error + string" where
  "constructKey s =
     (if pci_VGPUProfile s \<noteq> '''' then Inr (pci_VGPUProfile s)
      else case (pci_DeviceID s, pci_VendorID s) of
             (Some d, Some v) \<Rightarrow> Inr (show_int d @ ''-'' @ show_int v)
           | _ \<Rightarrow> Inl (Panic ''nil pointer dereference''))"

definition createBackingInfo :: "PCIDeviceSpec \<Rightarrow> go_error + backing" where
  "createBackingInfo s =
     (if pci_VGPUProfile s \<noteq> '''' then Inr (VmiopBacking (pci_VGPUProfile s))
      else case (pci_VendorID s, pci_DeviceID s) of
             (Some v, Some d) \<Rightarrow> Inr (DynamicBacking [(v, d)] (pci_CustomLabel s))
           | _ \<Rightarrow> Inl (Panic ''nil pointer dereference''))"

text \<open>The first loop: how often each key is asked for.\<close>

fun count_expected :: "(string \<rightharpoonup> int) \<Rightarrow> PCIDeviceSpec list \<Rightarrow> go_error + (string \<rightharpoonup> int)" where
  "count_expected m [] = Inr m"
| "count_expected m (s # ss) =
     (case constructKey s of
        Inl e \<Rightarrow> Inl e
      | Inr key \<Rightarrow>
          count_expected (case m key of None \<Rightarrow> m(key \<mapsto> 1) | Some n \<Rightarrow> m(key \<mapsto> n + 1)) ss)"

text \<open>The second loop: a spec is added while more devices are expected than attached.\<close>

fun select_missing ::
  "(backing \<Rightarrow> VirtualDevice list) \<Rightarrow> (string \<rightharpoonup> int) \<Rightarrow> PCIDeviceSpec list \<Rightarrow> PCIDeviceSpec list
   \<Rightarrow> go_error + PCIDeviceSpec list" where
  "select_missing select m added [] = Inr added"
| "select_missing select m added (s # ss) =
     (case constructKey s of
        Inl e \<Rightarrow> Inl e
      | Inr key \<Rightarrow>
          (case createBackingInfo s of
             Inl e \<Rightarrow> Inl e
           | Inr b \<Rightarrow>
               (let expectedDeviceLen = Deref (m key) 0
                in if expectedDeviceLen - int (length (select b)) > 0
                   then select_missing select (m(key \<mapsto> expectedDeviceLen - 1)) (added @ [s]) ss
                   else select_missing select m added ss)))"

definition CalculateDevicesToBeAdded ::
  "ext \<Rightarrow> moref \<Rightarrow> PCIDeviceSpec list \<Rightarrow> 'w world_scheme \<Rightarrow>
   (go_error + PCIDeviceSpec list) \<times> 'w world_scheme" where
  "CalculateDevicesToBeAdded x vm deviceSpecs w =
     (case count_expected Map.empty deviceSpecs of
        Inl e \<Rightarrow> (Inl e, w)
      | Inr m \<Rightarrow>
          bindE (do_call (Obj (VM_Device vm)) (x_devices x) w)
            (\<lambda>devices w. (select_missing (x_SelectByBackingInfo x devices) m [] deviceSpecs, w)))"

fun construct_loop :: "int \<Rightarrow> PCIDeviceSpec list \<Rightarrow> go_error + VirtualDevice list" where
  "construct_loop deviceKey [] = Inr []"
| "construct_loop deviceKey (s # ss) =
     (case createBackingInfo s of
        Inl e \<Rightarrow> Inl e
      | Inr b \<Rightarrow>
          (case construct_loop (deviceKey - 1) ss of
             Inl e \<Rightarrow> Inl e
           | Inr ds \<Rightarrow> Inr (\<lparr>dev_Key = deviceKey, dev_ControllerKey = 0, dev_UnitNumber = None,
                            dev_Backing = b, dev_kind = VirtualPCIPassthrough\<rparr> # ds)))"

definition ConstructDeviceSpecs :: "PCIDeviceSpec list \<Rightarrow> go_error + VirtualDevice list" where
  "ConstructDeviceSpecs pciDeviceSpecs = construct_loop (- 200) pciDeviceSpecs"

section \<open>Lemmas\<close>

definition has_key :: "string \<Rightarrow> PCIDeviceSpec \<Rightarrow> bool" where
  "has_key k s \<longleftrightarrow> constructKey s = Inr k"

definition key_count :: "string \<Rightarrow> PCIDeviceSpec list \<Rightarrow> int" where
  "key_count k ss = int (length (filter (has_key k) ss))"

lemma key_count_simps [simp]:
  "key_count k [] = 0"
  "key_count k (s # ss) = (if has_key k s then 1 else 0) + key_count k ss"
  "key_count k (ss @ ts) = key_count k ss + key_count k ts"
  by (auto simp: key_count_def)

lemma key_count_nonneg [simp]: "0 \<le> key_count k ss"
  by (simp add: key_count_def)

lemma constructKey_backing: "constructKey s = Inr k \<Longrightarrow> \<exists>b. createBackingInfo s = Inr b"
  by (auto simp: constructKey_def createBackingInfo_def split: option.splits if_splits)

lemma createBackingInfo_key: "createBackingInfo s = Inr b \<Longrightarrow> \<exists>k. constructKey s = Inr k"
  by (auto simp: constructKey_def createBackingInfo_def split: option.splits if_splits)

lemma count_expected_spec:
  "count_expected m ss = Inr m' \<Longrightarrow> Deref (m' k) 0 = Deref (m k) 0 + key_count k ss"
  by (induction m ss rule: count_expected.induct)
     (auto simp: has_key_def split: sum.splits option.splits if_splits)

lemma count_expected_total:
  "\<forall>s \<in> set ss. \<exists>k. constructKey s = Inr k \<Longrightarrow> \<exists>m'. count_expected m ss = Inr m'"
  by (induction m ss rule: count_expected.induct) auto

text \<open>
  The loop keeps its results in front, adds a subsequence of the specs, and for a key whose
  specs all find \<open>n\<close> attached devices it adds as many specs as the key's counter exceeds
  \<open>n\<close>, as long as that many specs are left.
\<close>

lemma select_missing_subseq:
  "select_missing sel m acc ss = Inr r \<Longrightarrow> \<exists>r'. r = acc @ r' \<and> subseq r' ss"
proof (induction sel m acc ss rule: select_missing.induct)
  case (2 sel m acc s ss)
  then obtain k b where kb: "constructKey s = Inr k" "createBackingInfo s = Inr b"
    by (auto split: sum.splits)
  show ?case
  proof (cases "Deref (m k) 0 - int (length (sel b)) > 0")
    case True
    with "2.prems" kb have "select_missing sel (m(k \<mapsto> Deref (m k) 0 - 1)) (acc @ [s]) ss = Inr r"
      by (simp add: Let_def)
    from "2.IH"(1) [OF kb refl True this] obtain r' where "r = (acc @ [s]) @ r'" "subseq r' ss" by auto
    then show ?thesis by (intro exI [of _ "s # r'"]) simp
  next
    case False
    with "2.prems" kb have "select_missing sel m acc ss = Inr r" by (simp add: Let_def)
    from "2.IH"(2) [OF kb refl False this] obtain r' where "r = acc @ r'" "subseq r' ss" by auto
    then show ?thesis by (intro exI [of _ r']) auto
  qed
qed simp

lemma select_missing_count:
  assumes "select_missing sel m acc ss = Inr r"
    and "\<forall>s \<in> set ss. has_key k s \<longrightarrow> (\<forall>b. createBackingInfo s = Inr b \<longrightarrow> length (sel b) = n)"
  shows "key_count k r = key_count k acc + min (key_count k ss) (max 0 (Deref (m k) 0 - int n))"
  using assms
proof (induction sel m acc ss rule: select_missing.induct)
  case (2 sel m acc s ss)
  then obtain k' b where kb: "constructKey s = Inr k'" "createBackingInfo s = Inr b"
    by (auto split: sum.splits)
  have rest: "\<forall>s \<in> set ss. has_key k s \<longrightarrow> (\<forall>b. createBackingInfo s = Inr b \<longrightarrow> length (sel b) = n)"
    using "2.prems"(2) by simp
  show ?case
  proof (cases "Deref (m k') 0 - int (length (sel b)) > 0")
    case True
    let ?m = "m(k' \<mapsto> Deref (m k') 0 - 1)"
    from "2.prems"(1) kb True have step: "select_missing sel ?m (acc @ [s]) ss = Inr r"
      by (simp add: Let_def)
    from "2.IH"(1) [OF kb refl True step rest]
    have IH: "key_count k r = key_count k (acc @ [s]) + min (key_count k ss) (max 0 (Deref (?m k) 0 - int n))" .
    show ?thesis
    proof (cases "k' = k")
      case same: True
      have "length (sel b) = n" using "2.prems"(2) kb same by (auto simp: has_key_def)
      with IH True same kb key_count_nonneg [of k ss] show ?thesis
        by (simp add: has_key_def min_def max_def)
    next
      case False
      with IH kb show ?thesis by (simp add: has_key_def)
    qed
  next
    case False
    from "2.prems"(1) kb False have step: "select_missing sel m acc ss = Inr r" by (simp add: Let_def)
    from "2.IH"(2) [OF kb refl False step rest]
    have IH: "key_count k r = key_count k acc + min (key_count k ss) (max 0 (Deref (m k) 0 - int n))" .
    show ?thesis
    proof (cases "k' = k")
      case same: True
      have "length (sel b) = n" using "2.prems"(2) kb same by (auto simp: has_key_def)
      with False same have "max 0 (Deref (m k) 0 - int n) = 0" by simp
      with IH kb show ?thesis by (simp add: has_key_def)
    next
      case False
      with IH kb show ?thesis by (simp add: has_key_def)
    qed
  qed
qed simp

lemma construct_loop_keys:
  "construct_loop key ss = Inr ds \<Longrightarrow> map dev_Key ds = map (\<lambda>i. key - int i) [0..<length ss]"
proof (induction key ss arbitrary: ds rule: construct_loop.induct)
  case (2 key s ss)
  then obtain b ds' where ds': "construct_loop (key - 1) ss = Inr ds'" "createBackingInfo s = Inr b"
      "map dev_Key ds = key # map dev_Key ds'"
    by (auto split: sum.splits)
  with 2 have "map dev_Key ds' = map (\<lambda>i. key - 1 - int i) [0..<length ss]" by simp
  with ds'(3) show ?case by (simp add: upt_conv_Cons map_Suc_upt [symmetric] del: upt_Suc)
qed simp

section \<open>Properties\<close>

text \<open>
  When all specs with key \<open>k\<close> find the same number \<open>n\<close> of attached
  devices, the specs to be added are a subsequence of the requested ones and bring the
  number of devices with key \<open>k\<close> exactly to the number requested: nothing is added when
  enough devices are attached, and otherwise as many as are missing.
\<close>

lemma pci_devices_added_exactly:
  assumes "CalculateDevicesToBeAdded x vm specs w = (Inr r, w')"
    and "x_devices x (hist w') = Inr devices"
    and "\<forall>s \<in> set specs. has_key k s \<longrightarrow>
      (\<forall>b. createBackingInfo s = Inr b \<longrightarrow> length (x_SelectByBackingInfo x devices b) = n)"
  shows "subseq r specs \<and> key_count k r = max 0 (key_count k specs - int n)"
proof -
  from assms(1) obtain m where m: "count_expected Map.empty specs = Inr m"
    by (auto simp: CalculateDevicesToBeAdded_def split: sum.splits)
  with assms(1,2) have sel: "select_missing (x_SelectByBackingInfo x devices) m [] specs = Inr r"
    by (auto simp: CalculateDevicesToBeAdded_def bindE_eq_Inr do_call_eq split: sum.splits)
  from count_expected_spec [OF m, of k] have "Deref (m k) 0 = key_count k specs" by simp
  with select_missing_count [OF sel assms(3)]
  have "key_count k r = min (key_count k specs) (max 0 (key_count k specs - int n))" by simp
  also have "\<dots> = max 0 (key_count k specs - int n)" using key_count_nonneg [of k specs] by linarith
  finally have "key_count k r = max 0 (key_count k specs - int n)" .
  moreover from select_missing_subseq [OF sel] have "subseq r specs" by simp
  ultimately show ?thesis by simp
qed

text \<open>A sample vCenter for the witnesses: one GPU is attached and backing infos select by equality.\<close>

definition sample_gpu :: "string \<Rightarrow> PCIDeviceSpec" where
  "sample_gpu label = \<lparr>pci_DeviceID = Some 7, pci_VendorID = Some 4318, pci_VGPUProfile = '''',
     pci_CustomLabel = label\<rparr>"

definition attached_gpu :: VirtualDevice where
  "attached_gpu = \<lparr>dev_Key = 13000, dev_ControllerKey = 100, dev_UnitNumber = None,
     dev_Backing = DynamicBacking [(4318, 7)] ''a'', dev_kind = VirtualPCIPassthrough\<rparr>"

text \<open>
  The key of a passthrough device leaves out its custom label, but the
  search for attached devices uses it. With two specs that differ only in the label, of
  which one is attached, the attached device is asked for a second time.
\<close>

lemma pci_label_ignored:
  assumes "a \<noteq> b" and "x_devices x [Obj (VM_Device vm)] = Inr devices"
    and "length (x_SelectByBackingInfo x devices (DynamicBacking [(4318, 7)] a)) = 1"
    and "x_SelectByBackingInfo x devices (DynamicBacking [(4318, 7)] b) = []"
  shows "fst (CalculateDevicesToBeAdded x vm [sample_gpu a, sample_gpu b] \<lparr>hist = []\<rparr>) =
    Inr [sample_gpu a, sample_gpu b]"
proof -
  obtain k where key: "constructKey (sample_gpu l) = Inr k" for l
    by (simp add: constructKey_def sample_gpu_def)
  have backing: "createBackingInfo (sample_gpu l) = Inr (DynamicBacking [(4318, 7)] l)" for l
    by (simp add: createBackingInfo_def sample_gpu_def)
  show ?thesis
    using assms by (simp add: CalculateDevicesToBeAdded_def key backing do_call_def)
qed

text \<open>
  The temporary keys of the new PCI devices are distinct and negative, so they
  cannot clash with each other or with the keys vCenter gives to devices.
\<close>

lemma pci_device_keys_fresh:
  assumes "ConstructDeviceSpecs ss = Inr ds"
  shows "length ds = length ss \<and> distinct (map dev_Key ds) \<and> (\<forall>d \<in> set ds. dev_Key d \<le> - 200)"
proof -
  have keys: "map dev_Key ds = map (\<lambda>i. - 200 - int i) [0..<length ss]"
    using assms construct_loop_keys by (auto simp: ConstructDeviceSpecs_def)
  have "distinct (map dev_Key ds)"
    unfolding keys by (rule distinct_map_upt_inj) (simp add: inj_on_def)
  moreover have "length ds = length ss" using keys by (metis length_map length_upt diff_zero)
  moreover have "dev_Key d \<le> - 200" if "d \<in> set ds" for d
  proof -
    have "dev_Key d \<in> set (map dev_Key ds)" using that by simp
    then show ?thesis unfolding keys by auto
  qed
  ultimately show ?thesis by simp
qed

end
