(* ===== verification/Go_Path.thy ===== *)
theory Go_Path
  imports Go_Netip
begin

text \<open>\<open>path.Join\<close> and \<open>path.Clean\<close> of Go's standard library.\<close>

fun split_on :: "char \<Rightarrow> string \<Rightarrow> string list" where
  "split_on s [] = [[]]"
| "split_on s (c # cs) =
     (if c = s then [] # split_on s cs
      else case split_on s cs of [] \<Rightarrow> [[c]] | w # ws \<Rightarrow> (c # w) # ws)"

text \<open>The elements kept so far are in reverse; \<open>..\<close> removes the last one, unless there is none.\<close>

fun clean_elems :: "bool \<Rightarrow> string list \<Rightarrow> string list \<Rightarrow> string list" where
  "clean_elems rooted acc [] = rev acc"
| "clean_elems rooted acc (e # es) =
     (if e = '''' \<or> e = ''.'' then clean_elems rooted acc es
      else if e = ''..'' then
        (case acc of
           a # as \<Rightarrow> if a \<noteq> ''..'' then clean_elems rooted as es else clean_elems rooted (e # acc) es
         | [] \<Rightarrow> clean_elems rooted (if rooted then [] else [e]) es)
      else clean_elems rooted (e # acc) es)"

definition path_Clean :: "string \<Rightarrow> string" where
  "path_Clean p =
     (let rooted = (p \<noteq> [] \<and> hd p = CHR ''/'');
          es = clean_elems rooted [] (split_on (CHR ''/'') p)
      in if rooted then CHR ''/'' # join_with ''/'' es
         else if es = [] then ''.'' else join_with ''/'' es)"

definition path_Join :: "string list \<Rightarrow> string" where
  "path_Join elems =
     (let es = filter (\<lambda>e. e \<noteq> '''') elems
      in if es = [] then '''' else path_Clean (join_with ''/'' es))"

end
