(* ===== verification/VM_Tasks.thy ===== *)
theory VM_Tasks
  imports VM_Context Go_Path
begin

text \<open>
  The part of \<open>pkg/services/govmomi\<close> every operation of the VM service starts with: the task
  that may still run for a VSphereVM (\<open>util.go\<close>), finding the VM in vCenter (\<open>util.go\<close>,
  \<open>errors.go\<close>) and its power state (\<open>power.go\<close>). The task of a VSphereVM is a small state machine
  over \<open>TaskRef\<close> and \<open>RetryAfter\<close>: a reference stays until vCenter reports success or forgets
  the task; after a failure it stays until the retry time has passed.
\<close>

section \<open>Errors\<close>

text \<open>\<open>errors.go\<close>: these are type switches, so a wrapped error does not match.\<close>

fun isNotFound :: "go_error \<Rightarrow> bool" where
  "isNotFound (ErrNotFound _ _) = True"
| "isNotFound _ = False"

fun isFolderNotFound :: "go_error \<Rightarrow> bool" where
  "isFolderNotFound (FindNotFoundError _) = True"
| "isFolderNotFound _ = False"

fun isVirtualMachineNotFound :: "go_error \<Rightarrow> bool" where
  "isVirtualMachineNotFound (FindNotFoundError _) = True"
| "isVirtualMachineNotFound _ = False"

fun wasNotFoundByBIOSUUID :: "go_error \<Rightarrow> bool" where
  "wasNotFoundByBIOSUUID (ErrNotFound uuid byInventoryPath) \<longleftrightarrow> uuid \<noteq> '''' \<and> byInventoryPath = ''''"
| "wasNotFoundByBIOSUUID _ = False"

section \<open>Finding the VM\<close>

definition findVM :: "ext \<Rightarrow> ('w, moref) vm_step" where
  "findVM x w =
     (let biosUUID = s_BiosUUID (vm_spec w) in
      if biosUUID \<noteq> '''' then
        bindE (do_call (Find (FindByBIOSUUID biosUUID)) (x_ref_opt x) w) (\<lambda>objRef w.
          case objRef of
            None \<Rightarrow> (Inl (ErrNotFound biosUUID ''''), w)
          | Some ref \<Rightarrow> (Inr ref, w))
      else
        bindE (do_call (Find (FindByInstanceUUID (m_UID (vm_meta (ctx_VM w))))) (x_ref_opt x) w) (\<lambda>objRef w.
          case objRef of
            Some ref \<Rightarrow> (Inr ref, w)
          | None \<Rightarrow>
              bindE (do_call (Find (FolderOrDefault (c_Folder (vm_clone_spec w)))) (x_folder x) w) (\<lambda>folder w.
                let inventoryPath = path_Join [fst folder, vm_name w] in
                case do_call (Find (Finder_VirtualMachine inventoryPath)) (x_ref x) w of
                  (Inl err, w) \<Rightarrow>
                    if isVirtualMachineNotFound err then (Inl (ErrNotFound '''' inventoryPath), w) else (Inl err, w)
                | (Inr ref, w) \<Rightarrow> (Inr ref, w))))"

section \<open>Tasks\<close>

definition getTask :: "ext \<Rightarrow> 'w vm_ctx_scheme \<Rightarrow> TaskInfo option \<times> 'w vm_ctx_scheme" where
  "getTask x w =
     (if st_TaskRef (vm_status w) = '''' then (None, w)
      else case do_call (Obj (Task_Info (st_TaskRef (vm_status w)))) (x_taskinfo x) w of
             (Inl err, w) \<Rightarrow> (None, w)
           | (Inr obj, w) \<Rightarrow> (Some obj, w))"

fun isInvalidPowerStateAndExpectedPowerState :: "fault \<Rightarrow> bool" where
  "isInvalidPowerStateAndExpectedPowerState (InvalidPowerState existing requested) \<longleftrightarrow> existing = requested"
| "isInvalidPowerStateAndExpectedPowerState _ = False"

definition one_minute :: time where
  "one_minute = 60 * 1000000000"

definition provisioned_false :: "string \<Rightarrow> Severity \<Rightarrow> cond_msg \<Rightarrow> string \<Rightarrow> cond_msg \<Rightarrow> cond_op list" where
  \<comment> \<open>the pair of updates of the deprecated condition and of \<open>VirtualMachineProvisioned\<close>\<close>
  "provisioned_false v1reason severity v1msg reason msg =
     [v1beta1_MarkFalse ''VMProvisioned'' v1reason severity v1msg,
      cond_Set VSphereVMVirtualMachineProvisionedCondition ConditionFalse reason msg]"

definition task_failed :: "ext \<Rightarrow> string \<Rightarrow> ('w, bool) vm_step" where
  \<comment> \<open>the end of the branch for a task in state error\<close>
  "task_failed x errorMessage w =
     (let w = add_cond (provisioned_false ''TaskFailure'' SeverityInfo (Msg ''%s'' [errorMessage]) ''TaskFailed'' NoMsg) w
      in case st_RetryAfter (vm_status w) of
           None \<Rightarrow>
             (case do_call Time_Now (x_now x) w of
                (now, w) \<Rightarrow> (Inr True, upd_status (\<lambda>s. s\<lparr>st_RetryAfter := Some (now + one_minute)\<rparr>) w))
         | Some _ \<Rightarrow> (Inr True, upd_status (\<lambda>s. s\<lparr>st_TaskRef := '''', st_RetryAfter := None\<rparr>) w))"

definition task_state :: "ext \<Rightarrow> TaskInfo \<Rightarrow> ('w, bool) vm_step" where
  \<comment> \<open>the switch on \<open>task.Info.State\<close>\<close>
  "task_state x task w =
     (if ti_State task = ''queued'' then (Inr True, w)
      else if ti_State task = ''running'' then (Inr True, w)
      else if ti_State task = ''success'' then (Inr False, set_TaskRef '''' w)
      else if ti_State task = ''error'' then
        (case ti_Error task of
           Some (fault, localizedMessage) \<Rightarrow>
             if isInvalidPowerStateAndExpectedPowerState fault then (Inr False, set_TaskRef '''' w)
             else task_failed x localizedMessage w
         | None \<Rightarrow> task_failed x '''' w)
      else (Inl (Errorf ''unknown task state %q for %q'' [ti_State task]), w))"

definition checkAndRetryTask :: "ext \<Rightarrow> TaskInfo option \<Rightarrow> ('w, bool) vm_step" where
  "checkAndRetryTask x task w =
     (case task of
        None \<Rightarrow> (Inr False, set_TaskRef '''' w)
      | Some task \<Rightarrow>
          (case st_RetryAfter (vm_status w) of
             Some retryAfter \<Rightarrow>
               (case do_call Time_Now (x_now x) w of
                  (now, w) \<Rightarrow>
                    if now < retryAfter then (Inl (Errorf ''last task failed retry after %v'' []), w)
                    else task_state x task w)
           | None \<Rightarrow> task_state x task w))"

definition reconcileInFlightTask :: "ext \<Rightarrow> ('w, bool) vm_step" where
  "reconcileInFlightTask x w = (case getTask x w of (task, w) \<Rightarrow> checkAndRetryTask x task w)"

text \<open>
  \<open>reconcileVSphereVMOnTaskCompletion\<close> starts a goroutine that waits for the task and sends an event;
  nothing of the VSphereVM changes.
\<close>

definition reconcileVSphereVMOnTaskCompletion :: "ext \<Rightarrow> 'w vm_ctx_scheme \<Rightarrow> 'w vm_ctx_scheme" where
  "reconcileVSphereVMOnTaskCompletion x w =
     (case getTask x w of
        (None, w) \<Rightarrow> w
      | (Some _, w) \<Rightarrow> w\<lparr>hist := hist w @ [Go (OnTaskCompletion (st_TaskRef (vm_status w)))]\<rparr>)"

section \<open>Power state\<close>

definition getPowerState ::
  "ext \<Rightarrow> moref \<Rightarrow> 'w world_scheme \<Rightarrow> (go_error + VirtualMachinePowerState) \<times> 'w world_scheme" where
  "getPowerState x vm w =
     bindE (do_call (Obj (VM_PowerState vm)) (x_string x) w) (\<lambda>powerState w.
       if powerState = ''poweredOn'' then (Inr VirtualMachinePowerStatePoweredOn, w)
       else if powerState = ''poweredOff'' then (Inr VirtualMachinePowerStatePoweredOff, w)
       else if powerState = ''suspended'' then (Inr VirtualMachinePowerStateSuspended, w)
       else (Inl (Errorf ''unexpected power state %q for vm %s'' [powerState]), w))"

abbreviation has_soft_power_off :: "ext \<Rightarrow> 'w vm_ctx_scheme \<Rightarrow> bool" where
  "has_soft_power_off x w \<equiv>
     x_Has x (st_Conditions (vm_status w)) VSphereVMGuestSoftPowerOffSucceededCondition"

text \<open>
  Durations are nanoseconds. The default timeout is an untyped constant: assigned to a
  \<open>time.Duration\<close> it counts nanoseconds. \<open>Seconds()\<close> of two durations compare as the durations.
\<close>

definition soft_power_off_timeout :: "VSphereVMSpec \<Rightarrow> time" where
  "soft_power_off_timeout spec =
     (if s_GuestSoftPowerOffTimeoutSeconds spec \<noteq> 0
      then s_GuestSoftPowerOffTimeoutSeconds spec * 1000000000
      else GuestSoftPowerOffDefaultTimeoutSeconds)"

definition isSoftPowerOffTimeoutExceeded :: "ext \<Rightarrow> 'w vm_ctx_scheme \<Rightarrow> bool \<times> 'w vm_ctx_scheme" where
  "isSoftPowerOffTimeoutExceeded x w =
     (if \<not> has_soft_power_off x w then (False, w)
      else if s_PowerOffMode (vm_spec w) = VirtualMachinePowerOpModeSoft then (False, w)
      else case do_call Time_Now (x_now x) w of
             (now, w) \<Rightarrow>
               (let diff = now - x_LastTransitionTime x (st_Conditions (vm_status w))
                              VSphereVMGuestSoftPowerOffSucceededCondition;
                    timeout = soft_power_off_timeout (vm_spec w)
                in (timeout > 0 \<and> diff \<ge> timeout, w)))"

definition soft_power_off_cond :: "string \<Rightarrow> Severity \<Rightarrow> string \<Rightarrow> cond_msg \<Rightarrow> cond_op list" where
  "soft_power_off_cond v1reason severity reason msg =
     [v1beta1_MarkFalse ''GuestSoftPowerOffSucceeded'' v1reason severity msg,
      cond_Set VSphereVMGuestSoftPowerOffSucceededCondition ConditionFalse reason msg]"

text \<open>\<open>triggerSoftPowerOff\<close>: the result tells whether a soft power off is pending.\<close>

definition triggerSoftPowerOff :: "ext \<Rightarrow> moref \<Rightarrow> ('w, bool) vm_step" where
  "triggerSoftPowerOff x vm w =
     (let mode = s_PowerOffMode (vm_spec w) in
      if mode = '''' \<or> mode = VirtualMachinePowerOpModeHard then (Inr False, w)
      else if has_soft_power_off x w then
        (if mode = VirtualMachinePowerOpModeSoft then (Inr True, w)
         else case isSoftPowerOffTimeoutExceeded x w of (exceeded, w) \<Rightarrow> (Inr (\<not> exceeded), w))
      else
        bindE (do_call (Obj (VM_IsToolsRunning vm)) (x_bool x) w) (\<lambda>vmwareToolsRunning w.
        if \<not> vmwareToolsRunning then
          (if mode = VirtualMachinePowerOpModeTrySoft then (Inr False, w)
           else (Inr True, add_cond (soft_power_off_cond ''GuestSoftPowerOffFailed'' SeverityWarning ''Failed''
                    (Msg ''VMware Tools not installed on VM %s'' [])) w))
        else
          bindE (do_call (Obj (VM_GuestStateChangeSupported vm)) (x_bool_opt x) w) (\<lambda>supported w.
          if supported \<noteq> Some True then
            (if mode = VirtualMachinePowerOpModeTrySoft then (Inr False, w)
             else (Inr True, add_cond (soft_power_off_cond ''GuestSoftPowerOffFailed'' SeverityWarning ''Failed''
                      (Msg ''unable to trigger soft power off because guest state change is not supported on VM %s.'' [])) w))
          else
            bindE (do_call (Change (VM_ShutdownGuest vm)) (x_unit x) w) (\<lambda>_ w.
            (Inr True, add_cond (soft_power_off_cond ''GuestSoftPowerOffInProgress'' SeverityInfo ''InProgress''
               (Msg ''guest soft power off initiated on VM %s'' [])) w)))))"

section \<open>What the operations read and change\<close>

abbreviation readonly :: "'v world_scheme \<Rightarrow> 'w world_scheme \<Rightarrow> bool" where
  \<comment> \<open>nothing was changed in vCenter\<close>
  "readonly \<equiv> calls_ok (\<lambda>c. \<not> vcenter_change c)"

lemma getTask_cases:
  assumes "getTask x w = (t, w')"
  shows "readonly w w'" "same_but_hist w w'" "st_TaskRef (vm_status w) = '''' \<Longrightarrow> t = None \<and> w' = w"
proof -
  consider "st_TaskRef (vm_status w) = ''''" "w' = w" "t = None"
    | "w' = w\<lparr>hist := hist w @ [Obj (Task_Info (st_TaskRef (vm_status w)))]\<rparr>" "st_TaskRef (vm_status w) \<noteq> ''''"
    using assms by (auto simp: getTask_def do_call_def split: if_splits sum.splits)
  then show "readonly w w'" "same_but_hist w w'"
    "st_TaskRef (vm_status w) = '''' \<Longrightarrow> t = None \<and> w' = w" by (cases, simp_all)+
qed

lemma task_failed_readonly: "readonly w (snd (task_failed x m w))"
  by (simp add: task_failed_def do_call_def Let_def calls_ok_def split: option.split)

lemma task_state_readonly: "readonly w (snd (task_state x t w))"
  by (simp add: task_state_def task_failed_readonly split: option.split prod.split)

lemma checkAndRetryTask_readonly: "readonly w (snd (checkAndRetryTask x t w))"
proof (cases t)
  case (Some task)
  show ?thesis
  proof (cases "st_RetryAfter (vm_status w)")
    case None
    with Some show ?thesis by (simp add: checkAndRetryTask_def task_state_readonly)
  next
    case (Some r)
    have "readonly w (snd (task_state x task (w\<lparr>hist := hist w @ [Time_Now]\<rparr>)))"
      by (rule calls_ok_trans [OF _ task_state_readonly]) simp
    with Some \<open>t = Some task\<close> show ?thesis by (simp add: checkAndRetryTask_def do_call_def)
  qed
qed (simp add: checkAndRetryTask_def)

lemma reconcileInFlightTask_readonly: "readonly w (snd (reconcileInFlightTask x w))"
  unfolding reconcileInFlightTask_def
  by (metis (mono_tags, lifting) calls_ok_trans checkAndRetryTask_readonly getTask_cases(1) case_prod_unfold prod.collapse)

lemma reconcileVSphereVMOnTaskCompletion_frame:
  "readonly w (reconcileVSphereVMOnTaskCompletion x w)"
  "same_but_hist w (reconcileVSphereVMOnTaskCompletion x w)"
proof -
  obtain t v where g: "getTask x w = (t, v)" by (cases "getTask x w")
  note gs = getTask_cases [OF g]
  show "readonly w (reconcileVSphereVMOnTaskCompletion x w)"
    by (cases t) (simp_all add: reconcileVSphereVMOnTaskCompletion_def g gs calls_ok_snoc_trans)
  show "same_but_hist w (reconcileVSphereVMOnTaskCompletion x w)"
    by (cases t) (use gs(2) in \<open>simp_all add: reconcileVSphereVMOnTaskCompletion_def g same_but_hist_def\<close>)
qed

lemma findVM_frame: "readonly w (snd (findVM x w))" "same_but_hist w (snd (findVM x w))"
  by (simp_all add: findVM_def bindE_def do_call_def Let_def calls_ok_def same_but_hist_def
        split: sum.split option.split prod.split)

lemma getPowerState_frame: "readonly w (snd (getPowerState x vm w))" "same_but_hist w (snd (getPowerState x vm w))"
  unfolding getPowerState_def
  by (auto intro!: calls_intros frame_intros)

section \<open>The task of a VSphereVM\<close>

definition failed_task :: "TaskInfo \<Rightarrow> bool" where
  \<comment> \<open>the task ended in an error that is not \<open>already in the requested power state\<close>\<close>
  "failed_task t \<longleftrightarrow> ti_State t = ''error'' \<and>
     (case ti_Error t of None \<Rightarrow> True | Some (f, _) \<Rightarrow> \<not> isInvalidPowerStateAndExpectedPowerState f)"

definition error_message :: "TaskInfo \<Rightarrow> string" where
  "error_message t = (case ti_Error t of None \<Rightarrow> '''' | Some (_, m) \<Rightarrow> m)"

lemma task_state_failed: "failed_task t \<Longrightarrow> task_state x t w = task_failed x (error_message t) w"
  by (auto simp: failed_task_def task_state_def error_message_def split: option.splits)

lemma round_first_failure:
  assumes "st_TaskRef (vm_status w) \<noteq> ''''" "st_RetryAfter (vm_status w) = None"
    and "x_taskinfo x (hist w @ [Obj (Task_Info (st_TaskRef (vm_status w)))]) = Inr t" "failed_task t"
  shows "\<exists>w' now. reconcileInFlightTask x w = (Inr True, w') \<and> hist w' = hist w @ [Obj (Task_Info (st_TaskRef (vm_status w))), Time_Now] \<and>
    now = x_now x (hist w') \<and>
    st_TaskRef (vm_status w') = st_TaskRef (vm_status w) \<and> st_RetryAfter (vm_status w') = Some (now + one_minute)"
  using assms
  by (simp add: reconcileInFlightTask_def getTask_def do_call_def checkAndRetryTask_def task_state_failed task_failed_def)

lemma round_waiting:
  assumes "st_TaskRef (vm_status w) \<noteq> ''''" "st_RetryAfter (vm_status w) = Some r"
    and "x_taskinfo x (hist w @ [Obj (Task_Info (st_TaskRef (vm_status w)))]) = Inr t"
    and "x_now x (hist w @ [Obj (Task_Info (st_TaskRef (vm_status w))), Time_Now]) < r"
  shows "reconcileInFlightTask x w =
    (Inl (Errorf ''last task failed retry after %v'' []),
     w\<lparr>hist := hist w @ [Obj (Task_Info (st_TaskRef (vm_status w))), Time_Now]\<rparr>)"
  using assms by (simp add: reconcileInFlightTask_def getTask_def do_call_def checkAndRetryTask_def)

lemma round_retry:
  assumes "st_TaskRef (vm_status w) \<noteq> ''''" "st_RetryAfter (vm_status w) = Some r"
    and "x_taskinfo x (hist w @ [Obj (Task_Info (st_TaskRef (vm_status w)))]) = Inr t" "failed_task t"
    and "r \<le> x_now x (hist w @ [Obj (Task_Info (st_TaskRef (vm_status w))), Time_Now])"
  shows "\<exists>w'. reconcileInFlightTask x w = (Inr True, w') \<and> hist w' = hist w @ [Obj (Task_Info (st_TaskRef (vm_status w))), Time_Now] \<and>
    st_TaskRef (vm_status w') = '''' \<and> st_RetryAfter (vm_status w') = None"
  using assms
  by (simp add: reconcileInFlightTask_def getTask_def do_call_def checkAndRetryTask_def task_state_failed task_failed_def)

definition sample_failed :: TaskInfo where
  "sample_failed = \<lparr>ti_State = ''error'', ti_Error = Some (OtherFault, ''no space left'')\<rparr>"

definition sample_failing :: ext where
  \<comment> \<open>a vCenter that reports the task as failed; a quarter of a minute passes between two calls\<close>
  "sample_failing = ext_default\<lparr>x_taskinfo := \<lambda>h. Inr sample_failed, x_now := \<lambda>h. int (length h) * 15000000000\<rparr>"

section \<open>Properties\<close>

definition foreign_errors :: "ext \<Rightarrow> bool" where
  \<comment> \<open>\<open>errNotFound\<close> is not exported: no error of vCenter's client is one\<close>
  "foreign_errors x \<longleftrightarrow> (\<forall>h e. x_ref_opt x h = Inl e \<longrightarrow> \<not> isNotFound e) \<and>
     (\<forall>h e. x_folder x h = Inl e \<longrightarrow> \<not> isNotFound e) \<and> (\<forall>h e. x_ref x h = Inl e \<longrightarrow> \<not> isNotFound e)"

text \<open>
  C25. \<open>findVM\<close> reports that the VM does not exist only after every lookup that could find it
  said so: with a BIOS UUID the search for it; without one, the search for the instance UUID and
  then the one for the inventory path \<open>folder/name\<close>.
\<close>

theorem not_found_only_after_all_lookups:
  assumes "findVM x w = (Inl e, w')" and "isNotFound e" and "foreign_errors x"
  shows "(let bios = s_BiosUUID (vm_spec w); byBios = hist w @ [Find (FindByBIOSUUID bios)];
      byInstance = hist w @ [Find (FindByInstanceUUID (m_UID (vm_meta (ctx_VM w))))];
      inFolder = byInstance @ [Find (FolderOrDefault (c_Folder (vm_clone_spec w)))]
    in if bios \<noteq> '''' then x_ref_opt x byBios = Inr None \<and> hist w' = byBios
       else x_ref_opt x byInstance = Inr None \<and>
            (\<exists>path folder p e'. x_folder x inFolder = Inr (path, folder) \<and> p = path_Join [path, vm_name w] \<and>
               hist w' = inFolder @ [Find (Finder_VirtualMachine p)] \<and>
               x_ref x (hist w') = Inl e' \<and> isVirtualMachineNotFound e'))"
  using assms
  by (auto simp: findVM_def Let_def bindE_def do_call_def foreign_errors_def split: if_splits sum.splits option.splits)

definition sample_adopted :: vm_ctx where
  \<comment> \<open>a VSphereVM whose VM already has a BIOS UUID\<close>
  "sample_adopted = sample_ctx\<lparr>ctx_VM := zero_VSphereVM\<lparr>vm_Spec := (vm_Spec zero_VSphereVM)\<lparr>s_BiosUUID := ''uuid''\<rparr>\<rparr>\<rparr>"

definition sample_empty :: ext where
  "sample_empty = ext_default\<lparr>x_ref_opt := \<lambda>h. Inr None\<rparr>"

theorem not_found_only_after_all_lookups_witness:
  "fst (findVM sample_empty sample_adopted) = Inl (ErrNotFound ''uuid'' '''') \<and>
   hist (snd (findVM sample_empty sample_adopted)) = [Find (FindByBIOSUUID ''uuid'')]"
proof -
  have run: "fst (findVM sample_empty sample_adopted) = Inl (ErrNotFound ''uuid'' '''')"
    by (simp add: findVM_def do_call_def sample_ctx_def sample_adopted_def sample_empty_def Let_def)
  have "foreign_errors sample_empty" by (simp add: foreign_errors_def sample_empty_def)
  then show ?thesis
    using not_found_only_after_all_lookups [of sample_empty sample_adopted "ErrNotFound ''uuid'' ''''"] run
    by (cases "findVM sample_empty sample_adopted") (simp add: sample_adopted_def sample_ctx_def Let_def)
qed

text \<open>
  The power-off modes. In mode \<open>hard\<close>, or with no mode, no guest shutdown is asked for and the
  caller powers the VM off. In mode \<open>soft\<close> the answer is always that a soft power off is pending,
  so the VM is never powered off hard. In mode \<open>trySoft\<close> the caller powers off hard only when the
  guest cannot be shut down or the timeout since the request has passed.
\<close>

lemma power_off_modes:
  assumes run: "triggerSoftPowerOff x vm w = (Inr pending, w')"
  shows "(s_PowerOffMode (vm_spec w) \<in> {'''', VirtualMachinePowerOpModeHard} \<longrightarrow> \<not> pending \<and> w' = w) \<and>
    (s_PowerOffMode (vm_spec w) = VirtualMachinePowerOpModeSoft \<longrightarrow> pending) \<and>
    (s_PowerOffMode (vm_spec w) = VirtualMachinePowerOpModeTrySoft \<and> \<not> pending \<longrightarrow>
       (if has_soft_power_off x w
        then soft_power_off_timeout (vm_spec w) \<le>
             x_now x (hist w @ [Time_Now]) - x_LastTransitionTime x (st_Conditions (vm_status w)) VSphereVMGuestSoftPowerOffSucceededCondition
        else x_bool x (hist w @ [Obj (VM_IsToolsRunning vm)]) = Inr False \<or>
          x_bool_opt x (hist w @ [Obj (VM_IsToolsRunning vm), Obj (VM_GuestStateChangeSupported vm)]) \<noteq> Inr (Some True)))"
  using run
  by (auto simp: triggerSoftPowerOff_def isSoftPowerOffTimeoutExceeded_def Let_def bindE_def do_call_def
      VirtualMachinePowerOpModeHard_def VirtualMachinePowerOpModeSoft_def VirtualMachinePowerOpModeTrySoft_def
      split: if_splits sum.splits option.splits)

definition sample_try_soft :: vm_ctx where
  "sample_try_soft = sample_ctx\<lparr>ctx_VM := zero_VSphereVM\<lparr>vm_Spec :=
     (vm_Spec zero_VSphereVM)\<lparr>s_PowerOffMode := VirtualMachinePowerOpModeTrySoft\<rparr>\<rparr>\<rparr>"

text \<open>
  The default timeout of a soft power off is the number 300 taken as nanoseconds: with no
  timeout in the spec, a VM in mode \<open>trySoft\<close> is powered off hard at the first reconciliation
  300 nanoseconds after the request, where the API documents five minutes.
\<close>

lemma default_soft_power_off_timeout_is_300ns:
  assumes "s_GuestSoftPowerOffTimeoutSeconds (vm_spec w) = 0"
    and "s_PowerOffMode (vm_spec w) = VirtualMachinePowerOpModeTrySoft"
    and "has_soft_power_off x w"
    and "x_LastTransitionTime x (st_Conditions (vm_status w)) VSphereVMGuestSoftPowerOffSucceededCondition + 300 \<le> x_now x (hist w @ [Time_Now])"
  shows "fst (triggerSoftPowerOff x vm w) = Inr False"
  using assms
  by (simp add: triggerSoftPowerOff_def isSoftPowerOffTimeoutExceeded_def do_call_def power_mode_defs
      soft_power_off_timeout_def GuestSoftPowerOffDefaultTimeoutSeconds_def Let_def)

end
