(* ===== verification/VM_Service.thy ===== *)
theory VM_Service
  imports Clone Net_Status IPAM Metadata Cluster_Module_Provider PCI VM_Tasks Util
begin

text \<open>
  \<open>pkg/services/govmomi/service.go\<close>: the VM service of the controllers, \<open>ReconcileVM\<close> and
  \<open>DestroyVM\<close>, with every step they take on a VM that exists.

  \<^item> \<open>svc_ctx\<close> is \<open>virtualMachineContext\<close> of \<open>context.go\<close>: the context of the VSphereVM, the
    reported \<open>services.VirtualMachine\<close> (\<open>State\<close>) and \<open>IPAMState\<close>; the reference \<open>Ref\<close> is an argument.
  \<^item> A step \<open>func ... (bool, error)\<close> has the result \<open>go_error + bool\<close>, where \<open>False\<close> ends the
    reconciliation without an error.
  \<^item> Encoding the bootstrap data may run forever (theory \<open>Extra_Config\<close>): the result of
    \<open>ReconcileVM\<close> is then \<open>None\<close>.
\<close>

record svc_ctx = vm_ctx +
  svc_vm :: VirtualMachine
  svc_ipam :: ipam_state

type_synonym ('w, 'a) svc_step = "'w svc_ctx_scheme \<Rightarrow> (go_error + 'a) \<times> 'w svc_ctx_scheme"

definition not_provisioned :: "string \<Rightarrow> Severity \<Rightarrow> go_error \<Rightarrow> cond_op list" where
  "not_provisioned v1reason severity err =
     provisioned_false v1reason severity (ErrMsg err) ''NotProvisioned'' (ErrMsg err)"

section \<open>Steps on a VM that exists\<close>

definition reconcileUUID :: "ext \<Rightarrow> moref \<Rightarrow> 'w svc_ctx_scheme \<Rightarrow> 'w svc_ctx_scheme" where
  \<comment> \<open>\<open>Obj.UUID\<close> answers the empty string when the property cannot be read\<close>
  "reconcileUUID x ref w =
     (case do_call (Obj (VM_UUID ref)) (x_string x) w of
        (Inl _, w) \<Rightarrow> w\<lparr>svc_vm := (svc_vm w)\<lparr>svm_BiosUUID := ''''\<rparr>\<rparr>
      | (Inr uuid, w) \<Rightarrow> w\<lparr>svc_vm := (svc_vm w)\<lparr>svm_BiosUUID := uuid\<rparr>\<rparr>)"

definition reconcileHardwareVersion :: "ext \<Rightarrow> moref \<Rightarrow> ('w, bool) svc_step" where
  "reconcileHardwareVersion x ref w =
     (let hardwareVersion = c_HardwareVersion (vm_clone_spec w) in
      if hardwareVersion \<noteq> '''' then
        bindE (wrapE ''error getting guestInfo version information from VM %s'' []
                (do_call (Obj (VM_ConfigVersion ref)) (x_string_opt x) w)) (\<lambda>version w.
        case version of
          None \<Rightarrow> (Inl (Panic ''virtualMachine.Config is nil''), w)
        | Some version \<Rightarrow>
            (case LessThan version hardwareVersion of
               None \<Rightarrow> (Inl (Wrapf (Errorf ''strconv.Atoi'' []) ''failed to parse hardware version'' []), w)
             | Some toUpgrade \<Rightarrow>
                 if toUpgrade then
                   bindE (wrapE ''error trigging upgrade op for machine %s'' []
                           (do_call (Change (VM_UpgradeVM ref hardwareVersion)) (x_task x) w)) (\<lambda>task w.
                   (Inr False, set_TaskRef task w))
                 else (Inr True, w)))
      else (Inr True, w))"

definition reconcilePCIDevices :: "ext \<Rightarrow> moref \<Rightarrow> ('w, unit) svc_step" where
  "reconcilePCIDevices x ref w =
     (let expectedPciDevices = c_PciDevices (vm_clone_spec w) in
      if length expectedPciDevices \<noteq> 0 then
        bindE (CalculateDevicesToBeAdded x ref expectedPciDevices w) (\<lambda>specsToBeAdded w.
        if length specsToBeAdded = 0 then
          (if x_Has x (st_Conditions (vm_status w)) VSphereVMPCIDevicesDetachedCondition
           then (Inr (), add_cond [v1beta1_Delete ''PCIDevicesDetached'', cond_Delete VSphereVMPCIDevicesDetachedCondition] w)
           else (Inr (), w))
        else
          bindE (do_call (Obj (VM_PowerState ref)) (x_string x) w) (\<lambda>powerState w.
          if powerState = ''poweredOn'' then
            (Inl (Errorf ''missing PCI devices'' []),
             add_cond [v1beta1_MarkFalse ''PCIDevicesDetached'' ''NotFound'' SeverityWarning
                         (Msg ''PCI devices removed after VM was powered on'' []),
                       cond_Set VSphereVMPCIDevicesDetachedCondition ConditionFalse ''NotFound''
                         (Msg ''PCI devices removed after VM was powered on'' [])] w)
          else
            case ConstructDeviceSpecs specsToBeAdded of
              Inl e \<Rightarrow> (Inl e, w)
            | Inr devices \<Rightarrow>
                wrapE ''error adding pci devices for %q'' [] (do_call (Change (VM_AddDevice ref devices)) (x_unit x) w)))
      else (Inr (), w))"

definition getNetworkStatus ::
  "ext \<Rightarrow> moref \<Rightarrow> 'w world_scheme \<Rightarrow> (go_error + NetworkStatus list) \<times> 'w world_scheme" where
  "getNetworkStatus x ref w =
     bindE (GetNetworkStatus x ref w) (\<lambda>allNetStatus w.
       (Inr (map (\<lambda>s. \<lparr>nst_Connected = Some (n_Connected s), nst_IPAddrs = sanitizeIPAddrs (n_IPAddrs s),
                        nst_MACAddr = n_MACAddr s, nst_NetworkName = n_NetworkName s\<rparr>) allNetStatus), w))"

definition reconcileNetworkStatus :: "ext \<Rightarrow> moref \<Rightarrow> ('w, unit) svc_step" where
  "reconcileNetworkStatus x ref w =
     bindE (getNetworkStatus x ref w) (\<lambda>netStatus w. (Inr (), w\<lparr>svc_vm := (svc_vm w)\<lparr>svm_Network := netStatus\<rparr>\<rparr>))"

definition reconcileIPAddresses :: "ext \<Rightarrow> ('w, bool) svc_step" where
  "reconcileIPAddresses x w =
     (case BuildState x (svm_Network (svc_vm w)) w of
        (Inl err, w) \<Rightarrow>
          if errors_Is err ErrWaitingForIPAddr
          then (Inr False, add_cond (provisioned_false ''WaitingForIPAddress'' SeverityInfo (ErrMsg err)
                              ''WaitingForIPAddress'' (ErrMsg err)) w)
          else (Inl err, w)
      | (Inr ipamState, w) \<Rightarrow> (Inr True, w\<lparr>svc_ipam := ipamState\<rparr>))"

section \<open>Metadata\<close>

text \<open>\<open>getMetadata\<close>: of several options with the key, the last one with a string value counts.\<close>

definition metadata_option :: "(string \<times> option_value) list \<Rightarrow> string" where
  "metadata_option extraConfig =
     foldl (\<lambda>metadataBase64 (key, v).
       if key = guestInfoKeyMetadata then (case v of StringValue s \<Rightarrow> s | OtherValue \<Rightarrow> metadataBase64)
       else metadataBase64) '''' extraConfig"

definition getMetadata ::
  "ext \<Rightarrow> moref \<Rightarrow> 'w world_scheme \<Rightarrow> (go_error + string) \<times> 'w world_scheme" where
  "getMetadata x ref w =
     bindE (wrapE ''unable to fetch props %v for vm %s'' []
             (do_call (Obj (VM_ExtraConfig ref)) (x_extraconfig x) w)) (\<lambda>config w.
     case config of
       None \<Rightarrow> (Inr '''', w)
     | Some extraConfig \<Rightarrow>
         (let metadataBase64 = metadata_option extraConfig in
          if metadataBase64 = '''' then (Inr '''', w)
          else case DecodeString metadataBase64 of
                 None \<Rightarrow> (Inl (Wrapf (Errorf ''illegal base64 data'' []) ''unable to decode metadata for %s'' []), w)
               | Some metadataBuf \<Rightarrow> (Inr metadataBuf, w)))"

definition setMetadata ::
  "ext \<Rightarrow> moref \<Rightarrow> string \<Rightarrow> 'w world_scheme \<Rightarrow> ((go_error + string) \<times> 'w world_scheme) option" where
  "setMetadata x ref metadata w =
     map_option (\<lambda>extraConfig.
       wrapE ''unable to set metadata on vm %s'' []
         (do_call (Change (VM_Reconfigure ref (zero_config_spec\<lparr>vcs_ExtraConfig := extraConfig\<rparr>))) (x_task x) w))
       (SetCloudInitMetadata metadata [])"

definition new_metadata :: "'w svc_ctx_scheme \<Rightarrow> string" where
  \<comment> \<open>the call of \<open>util.GetMachineMetadata\<close> in \<open>reconcileMetadata\<close>\<close>
  "new_metadata w = GetMachineMetadata (vm_name w) (ctx_VM w) (svc_ipam w) (svm_Network (svc_vm w))"

definition reconcileMetadata ::
  "ext \<Rightarrow> moref \<Rightarrow> 'w svc_ctx_scheme \<Rightarrow> ((go_error + bool) \<times> 'w svc_ctx_scheme) option" where
  "reconcileMetadata x ref w =
     (case getMetadata x ref w of
        (Inl err, w) \<Rightarrow> Some (Inl err, w)
      | (Inr existingMetadata, w) \<Rightarrow>
          if new_metadata w = existingMetadata then Some (Inr True, w)
          else map_option (\<lambda>r. bindE (wrapE ''unable to set metadata on vm %s'' [] r)
                                 (\<lambda>taskRef w. (Inr False, set_TaskRef taskRef w)))
                 (setMetadata x ref (new_metadata w) w))"

section \<open>Storage policy, VM group, cluster module\<close>

definition isStoragePolicyIDPresent :: "string \<Rightarrow> ProfileResult \<Rightarrow> bool" where
  "isStoragePolicyIDPresent storageProfileID result \<longleftrightarrow> list_ex (\<lambda>i. i = storageProfileID) (pr_ProfileId result)"

definition diskID :: "moref \<Rightarrow> VirtualDevice \<Rightarrow> string" where
  "diskID ref disk = mo_Value ref @ '':'' @ show_int (dev_Key disk)"

definition diskMap :: "moref \<Rightarrow> VirtualDevice list \<Rightarrow> string \<rightharpoonup> VirtualDevice" where
  "diskMap ref disks = foldl (\<lambda>m d. m(diskID ref d \<mapsto> d)) Map.empty disks"

definition storage_changes ::
  "moref \<Rightarrow> string \<Rightarrow> VirtualDevice list \<Rightarrow> ProfileResult list \<Rightarrow> VirtualDeviceConfigSpec list" where
  "storage_changes ref storageProfileID disks diskObjects =
     map (\<lambda>o'. \<lparr>dcs_Operation = OpEdit, dcs_FileCreate = False, dcs_Device = diskMap ref disks (pr_Key o'),
                 dcs_Profile = [storageProfileID]\<rparr>)
       (filter (\<lambda>o'. \<not> isStoragePolicyIDPresent storageProfileID o') diskObjects)"

definition reconcileStoragePolicy :: "ext \<Rightarrow> moref \<Rightarrow> ('w, unit) svc_step" where
  "reconcileStoragePolicy x ref w =
     (if c_StoragePolicyName (vm_clone_spec w) = '''' then (Inr (), w)
      else
        bindE (getPowerState x ref w) (\<lambda>powerState w.
        if powerState = VirtualMachinePowerStatePoweredOn then (Inr (), w)
        else
          bindE (wrapE ''unable to create pbm client'' [] (do_call (Svc Pbm_NewClient) (x_unit x) w)) (\<lambda>_ w.
          bindE (wrapE ''unable to retrieve storage profile ID'' []
                  (do_call (Svc (Pbm_ProfileIDByName (c_StoragePolicyName (vm_clone_spec w)))) (x_string x) w))
            (\<lambda>storageProfileID w.
          bindE (do_call (Obj (VM_Device ref)) (x_devices x) w) (\<lambda>devices w.
          let disks = filter is_disk devices in
          bindE (wrapE ''unable to query disks associated profiles'' []
                  (do_call (Svc (Pbm_QueryAssociatedProfiles (map (diskID ref) disks))) (x_profiles x) w))
            (\<lambda>diskObjects w.
          let changes = storage_changes ref storageProfileID disks diskObjects in
          if length changes > 0 then
            bindE (wrapE ''unable to set storagePolicy on vm %s'' []
                    (do_call (Change (VM_Reconfigure ref
                        (zero_config_spec\<lparr>vcs_VmProfile := [storageProfileID], vcs_DeviceChange := changes\<rparr>)))
                      (x_task x) w)) (\<lambda>task w. (Inr (), set_TaskRef task w))
          else (Inr (), w)))))))"

definition reconcileVMGroupInfo :: "ext \<Rightarrow> moref \<Rightarrow> ('w, bool) svc_step" where
  "reconcileVMGroupInfo x ref w =
     (case ctx_FailureDomain w of
        None \<Rightarrow> (Inr True, w)
      | Some fd \<Rightarrow>
          if \<not> hosts_IsDefined (t_Hosts (vfd_Topology fd)) then (Inr True, w)
          else
            let topology = vfd_Topology fd; group = h_VMGroupName (t_Hosts topology) in
            bindE (wrapE ''unable to find VM Group %s'' [group]
                    (FindVMGroup x (t_ComputeCluster topology) group w)) (\<lambda>vmGroup w.
            if \<not> HasVM vmGroup ref then
              bindE (wrapE ''failed to add VM %s to VM group'' [] (vmgroup_Add x vmGroup ref w))
                (\<lambda>task w. (Inr False, set_TaskRef task w))
            else (Inr True, w)))"

definition reconcileClusterModuleMembership :: "ext \<Rightarrow> moref \<Rightarrow> ('w, unit) svc_step" where
  "reconcileClusterModuleMembership x ref w =
     (case ctx_ClusterModuleInfo w of
        None \<Rightarrow> (Inr (), w)
      | Some moduleUUID \<Rightarrow>
          bindE (AddMoRefToModule x moduleUUID ref w)
            (\<lambda>_ w. (Inr (), upd_status (\<lambda>s. s\<lparr>st_ModuleUUID := Some moduleUUID\<rparr>) w)))"

section \<open>Power state, host, tags\<close>

definition reconcilePowerState :: "ext \<Rightarrow> moref \<Rightarrow> ('w, bool) svc_step" where
  "reconcilePowerState x ref w =
     bindE (getPowerState x ref w) (\<lambda>powerState w.
     case powerState of
       VirtualMachinePowerStatePoweredOff \<Rightarrow>
         (case do_call (Change (VM_PowerOn ref)) (x_task x) w of
            (Inl err, w) \<Rightarrow>
              (Inl (Wrapf err ''failed to trigger power on op for vm %s'' []),
               add_cond (not_provisioned ''PoweringOnFailed'' SeverityWarning err) w)
          | (Inr task, w) \<Rightarrow>
              let w = set_TaskRef task (add_cond (provisioned_false ''PoweringOn'' SeverityInfo NoMsg ''PoweringOn'' NoMsg) w) in
              bindE (vm_Patch x w) (\<lambda>_ w.
              (Inr False, w\<lparr>hist := hist w @ [Go (WhenNetworkIsReady ref task)]\<rparr>)))
     | VirtualMachinePowerStatePoweredOn \<Rightarrow> (Inr True, w)
     | VirtualMachinePowerStateSuspended \<Rightarrow> (Inl (Errorf ''unexpected power state %q for vm %s'' [''suspended'']), w))"

definition reconcileHostInfo :: "ext \<Rightarrow> moref \<Rightarrow> ('w, unit) svc_step" where
  "reconcileHostInfo x ref w =
     bindE (do_call (Obj (VM_HostSystem ref)) (x_ref x) w) (\<lambda>host w.
     bindE (do_call (Obj (Host_ObjectName host)) (x_string x) w) (\<lambda>name w.
     (Inr (), upd_status (\<lambda>s. s\<lparr>st_Host := name\<rparr>) w)))"

definition reconcileTags :: "ext \<Rightarrow> moref \<Rightarrow> ('w, unit) svc_step" where
  "reconcileTags x ref w =
     (let tagIDs = c_TagIDs (vm_clone_spec w) in
      if length tagIDs = 0 then (Inr (), w)
      else wrapE ''failed to attach tags %v to VM %s'' tagIDs
             (do_call (Change (AttachMultipleTagsToObject tagIDs ref)) (x_unit x) w))"

definition getBootstrapData :: "ext \<Rightarrow> ('w, string \<times> string) vm_step" where
  "getBootstrapData x w =
     (if s_BootstrapRefName (vm_spec w) = '''' then (Inr ('''', ''''), w)
      else
        bindE (wrapE ''failed to get bootstrap data secret for %s'' []
                (do_call (Get (Get_Secret (m_Namespace (vm_meta (ctx_VM w))) (s_BootstrapRefName (vm_spec w)))) (x_data x) w))
          (\<lambda>data w.
        let format = (case data ''format'' of None \<Rightarrow> CloudConfig | Some f \<Rightarrow> if length f = 0 then CloudConfig else f) in
        case data ''value'' of
          None \<Rightarrow> (Inl (Errorf ''error retrieving bootstrap data: secret value key is missing'' []), w)
        | Some value \<Rightarrow> (Inr (value, format), w)))"

section \<open>ReconcileVM\<close>

text \<open>
  \<open>if err := step(); err != nil { return vm, err }\<close> and
  \<open>if ok, err := step(); err != nil || !ok { return vm, err }\<close>.
\<close>

definition thenE :: "(go_error + unit) \<times> 'w \<Rightarrow> ('w \<Rightarrow> ((go_error + unit) \<times> 'w) option) \<Rightarrow> ((go_error + unit) \<times> 'w) option" where
  "thenE m k = (case m of (Inl e, w) \<Rightarrow> Some (Inl e, w) | (Inr _, w) \<Rightarrow> k w)"

definition andThen :: "(go_error + bool) \<times> 'w \<Rightarrow> ('w \<Rightarrow> ((go_error + unit) \<times> 'w) option) \<Rightarrow> ((go_error + unit) \<times> 'w) option" where
  "andThen m k = (case m of (Inl e, w) \<Rightarrow> Some (Inl e, w) | (Inr ok, w) \<Rightarrow> if ok then k w else Some (Inr (), w))"

definition create_missing ::
  "ext \<Rightarrow> go_error \<Rightarrow> 'w svc_ctx_scheme \<Rightarrow> ((go_error + unit) \<times> 'w svc_ctx_scheme) option" where
  \<comment> \<open>the branch of \<open>ReconcileVM\<close> for a VM that was not found\<close>
  "create_missing x err w =
     (if wasNotFoundByBIOSUUID err then
        Some (Inl err, (add_cond (provisioned_false ''NotFoundByBIOSUUID'' SeverityWarning (ErrMsg err)
                          ''NotFoundByBIOSUUID'' (ErrMsg err)) w)
                \<lparr>svc_vm := (svc_vm w)\<lparr>svm_State := VirtualMachineStateNotFound\<rparr>\<rparr>)
      else
        let w = (if \<not> x_Has x (st_Conditions (vm_status w)) VSphereVMVirtualMachineProvisionedCondition
                 then add_cond (provisioned_false ''Cloning'' SeverityInfo NoMsg ''WaitingForClone'' NoMsg) w else w) in
        case getBootstrapData x w of
          (Inl err, w) \<Rightarrow> Some (Inl err, add_cond (not_provisioned ''CloningFailed'' SeverityWarning err) w)
        | (Inr (bootstrapData, format), w) \<Rightarrow>
            map_option (\<lambda>r. case r of
                (Inl err, w) \<Rightarrow> (Inl err, add_cond (not_provisioned ''CloningFailed'' SeverityWarning err) w)
              | (Inr _, w) \<Rightarrow> (Inr (), w)) (createVM x bootstrapData format w))"

definition finish_existing ::
  "ext \<Rightarrow> moref \<Rightarrow> 'w svc_ctx_scheme \<Rightarrow> ((go_error + unit) \<times> 'w svc_ctx_scheme) option" where
  \<comment> \<open>from \<open>reconcileStoragePolicy\<close> to the end of \<open>ReconcileVM\<close>\<close>
  "finish_existing x ref w =
     thenE (reconcileStoragePolicy x ref w) (\<lambda>w.
     andThen (reconcileVMGroupInfo x ref w) (\<lambda>w.
     thenE (reconcileClusterModuleMembership x ref w) (\<lambda>w.
     andThen (reconcilePowerState x ref w) (\<lambda>w.
     thenE (reconcileHostInfo x ref w) (\<lambda>w.
     case reconcileTags x ref w of
       (Inl err, w) \<Rightarrow> Some (Inl err, add_cond (not_provisioned ''TagsAttachmentFailed'' SeverityError err) w)
     | (Inr _, w) \<Rightarrow> Some (Inr (), w\<lparr>svc_vm := (svc_vm w)\<lparr>svm_State := VirtualMachineStateReady\<rparr>\<rparr>))))))"

definition reconcile_existing ::
  "ext \<Rightarrow> moref \<Rightarrow> 'w svc_ctx_scheme \<Rightarrow> ((go_error + unit) \<times> 'w svc_ctx_scheme) option" where
  \<comment> \<open>the part of \<open>ReconcileVM\<close> on a VM that was found\<close>
  "reconcile_existing x ref w =
     (let w = w\<lparr>svc_vm := (svc_vm w)\<lparr>svm_VMRef := moref_String ref\<rparr>\<rparr>;
          w = reconcileUUID x ref w in
      andThen (reconcileHardwareVersion x ref w) (\<lambda>w.
      thenE (reconcilePCIDevices x ref w) (\<lambda>w.
      thenE (reconcileNetworkStatus x ref w) (\<lambda>w.
      andThen (reconcileIPAddresses x w) (\<lambda>w.
      Option.bind (reconcileMetadata x ref w) (\<lambda>r. andThen r (finish_existing x ref)))))))"

definition initial_vm :: "string \<Rightarrow> VirtualMachine" where
  "initial_vm name = \<lparr>svm_Name = name, svm_BiosUUID = '''', svm_State = VirtualMachineStatePending,
     svm_Network = [], svm_VMRef = ''''\<rparr>"

definition ReconcileVM ::
  "ext \<Rightarrow> 'w svc_ctx_scheme \<Rightarrow> ((go_error + unit) \<times> 'w svc_ctx_scheme) option" where
  "ReconcileVM x w =
     (case reconcileInFlightTask x (w\<lparr>svc_vm := initial_vm (vm_name w), svc_ipam := Map.empty\<rparr>) of
        (Inl err, w) \<Rightarrow> Some (Inl err, w)
      | (Inr True, w) \<Rightarrow> Some (Inr (), w)
      | (Inr False, w) \<Rightarrow>
          map_option (\<lambda>(r, w). (r, reconcileVSphereVMOnTaskCompletion x w))
            (case findVM x w of
               (Inl err, w) \<Rightarrow> if \<not> isNotFound err then Some (Inl err, w) else create_missing x err w
             | (Inr vmRef, w) \<Rightarrow> reconcile_existing x vmRef w))"

section \<open>DestroyVM\<close>

text \<open>The result is \<open>RequeueAfter\<close> of the reconcile result; 0 is the empty result.\<close>

definition power_off_hard :: "ext \<Rightarrow> moref \<Rightarrow> ('w, time) svc_step" where
  "power_off_hard x ref w =
     bindE (do_call (Change (VM_PowerOff ref)) (x_task x) w) (\<lambda>task w.
     bindE (vm_Patch x (set_TaskRef task w)) (\<lambda>_ w. (Inr 0, w)))"

definition destroy_powered_off :: "ext \<Rightarrow> moref \<Rightarrow> ('w, time) svc_step" where
  \<comment> \<open>the end of \<open>DestroyVM\<close>, from \<open>VM is powered off\<close>\<close>
  "destroy_powered_off x ref w =
     bindE (case ctx_ClusterModuleInfo w of
              None \<Rightarrow> (Inr (), w)
            | Some moduleUUID \<Rightarrow>
                (case RemoveMoRefFromModule x moduleUUID ref w of
                   (Inl err, w) \<Rightarrow>
                     if \<not> rest_IsNotFound err then (Inl err, w)
                     else (Inr (), upd_status (\<lambda>s. s\<lparr>st_ModuleUUID := None\<rparr>) w)
                 | (Inr _, w) \<Rightarrow> (Inr (), upd_status (\<lambda>s. s\<lparr>st_ModuleUUID := None\<rparr>) w)))
       (\<lambda>_ w. bindE (do_call (Change (VM_Destroy ref)) (x_task x) w) (\<lambda>task w. (Inr 0, set_TaskRef task w)))"

definition destroy_existing :: "ext \<Rightarrow> moref \<Rightarrow> ('w, time) svc_step" where
  "destroy_existing x ref w =
     bindE (getPowerState x ref w) (\<lambda>powerState w.
     if powerState = VirtualMachinePowerStatePoweredOn then
       bindE (triggerSoftPowerOff x ref w) (\<lambda>softPowerOffPending w.
       if softPowerOffPending then (Inr (20 * 1000000000), w) else power_off_hard x ref w)
     else
       destroy_powered_off x ref
         (if has_soft_power_off x w
          then add_cond [v1beta1_MarkTrue ''GuestSoftPowerOffSucceeded'',
                         cond_Set VSphereVMGuestSoftPowerOffSucceededCondition ConditionTrue ''Succeeded'' NoMsg] w
          else w))"

definition DestroyVM :: "ext \<Rightarrow> ('w, time) svc_step" where
  "DestroyVM x w =
     (case reconcileInFlightTask x (w\<lparr>svc_vm := initial_vm (vm_name w), svc_ipam := Map.empty\<rparr>) of
        (Inl err, w) \<Rightarrow> (Inl err, w)
      | (Inr True, w) \<Rightarrow> (Inr 0, w)
      | (Inr False, w) \<Rightarrow>
          (case (case findVM x w of
                   (Inl err, w) \<Rightarrow>
                     if isNotFound err \<or> isFolderNotFound err
                     then (Inr 0, w\<lparr>svc_vm := (svc_vm w)\<lparr>svm_State := VirtualMachineStateNotFound\<rparr>\<rparr>)
                     else (Inl err, w)
                 | (Inr vmRef, w) \<Rightarrow> destroy_existing x vmRef w) of
             (r, w) \<Rightarrow> (r, reconcileVSphereVMOnTaskCompletion x w)))"

section \<open>What a step may do\<close>

definition same_report :: "VSphereVMStatus \<Rightarrow> VSphereVMStatus \<Rightarrow> bool" where
  "same_report s s' \<longleftrightarrow> st_Ready s' = st_Ready s \<and> st_Addresses s' = st_Addresses s \<and> st_Network s' = st_Network s \<and>
     st_VMRef s' = st_VMRef s"

lemma same_report_simps [simp]:
  "same_report s s" "same_report s (s'\<lparr>st_TaskRef := t\<rparr>) \<longleftrightarrow> same_report s s'"
  "same_report s (s'\<lparr>st_Conditions := cs\<rparr>) \<longleftrightarrow> same_report s s'"
  "same_report s (s'\<lparr>st_RetryAfter := r\<rparr>) \<longleftrightarrow> same_report s s'"
  "same_report s (s'\<lparr>st_Host := h\<rparr>) \<longleftrightarrow> same_report s s'"
  "same_report s (s'\<lparr>st_ModuleUUID := m\<rparr>) \<longleftrightarrow> same_report s s'"
  "same_report s (s'\<lparr>st_CloneMode := c\<rparr>) \<longleftrightarrow> same_report s s'"
  "same_report s (s'\<lparr>st_Snapshot := n\<rparr>) \<longleftrightarrow> same_report s s'"
  by (simp_all add: same_report_def)

lemma same_report_trans: "same_report s t \<Longrightarrow> same_report t u \<Longrightarrow> same_report s u"
  by (simp add: same_report_def)

definition keeps_spec :: "'w vm_ctx_scheme \<Rightarrow> 'w vm_ctx_scheme \<Rightarrow> bool" where
  \<comment> \<open>only the status of the VSphereVM changed, and not the part of it that the controller reports\<close>
  "keeps_spec w w' \<longleftrightarrow> vm_Spec (ctx_VM w') = vm_Spec (ctx_VM w) \<and> vm_meta (ctx_VM w') = vm_meta (ctx_VM w) \<and>
     same_report (vm_status w) (vm_status w') \<and>
     ctx_ClusterModuleInfo w' = ctx_ClusterModuleInfo w \<and> ctx_FailureDomain w' = ctx_FailureDomain w"

definition quiet :: "'w vm_ctx_scheme \<Rightarrow> 'w vm_ctx_scheme \<Rightarrow> bool" where
  \<comment> \<open>no task was left running\<close>
  "quiet w w' \<longleftrightarrow> keeps_spec w w' \<and> calls_ok (\<lambda>c. \<not> leaves_task c) w w' \<and>
     st_TaskRef (vm_status w') = st_TaskRef (vm_status w)"

definition one_task :: "'w vm_ctx_scheme \<Rightarrow> 'w vm_ctx_scheme \<Rightarrow> bool" where
  \<comment> \<open>at most one task was left running\<close>
  "one_task w w' \<longleftrightarrow> keeps_spec w w' \<and> prefix (hist w) (hist w') \<and> length (filter leaves_task (new_calls w w')) \<le> 1"

lemma keeps_spec_refl [simp]: "keeps_spec w w"
  by (simp add: keeps_spec_def)

lemma keeps_spec_trans: "keeps_spec u v \<Longrightarrow> keeps_spec v w \<Longrightarrow> keeps_spec u w"
  by (auto simp: keeps_spec_def elim: same_report_trans)

lemma keeps_spec_frame: "same_but_hist w w' \<Longrightarrow> keeps_spec w w'"
  by (simp add: keeps_spec_def same_but_hist_fields)

lemma quiet_refl [simp]: "quiet w w"
  by (simp add: quiet_def)

lemma quiet_trans: "quiet u v \<Longrightarrow> quiet v w \<Longrightarrow> quiet u w"
  by (auto simp: quiet_def elim: keeps_spec_trans calls_ok_trans)

lemma new_calls_trans:
  assumes "prefix (hist u) (hist v)" "prefix (hist v) (hist w)"
  shows "new_calls u w = new_calls u v @ new_calls v w"
  using assms by (auto simp: new_calls_def elim!: prefixE)

lemma no_tasks_new_calls: "calls_ok (\<lambda>c. \<not> leaves_task c) u v \<Longrightarrow> filter leaves_task (new_calls u v) = []"
  by (auto simp: calls_ok_new_calls list_all_iff filter_empty_conv)

lemma quietD:
  assumes "quiet u v"
  shows "keeps_spec u v" "prefix (hist u) (hist v)" "filter leaves_task (new_calls u v) = []"
    "st_TaskRef (vm_status v) = st_TaskRef (vm_status u)"
  using assms calls_ok_prefix [of _ u v] no_tasks_new_calls [of u v] unfolding quiet_def by blast+

lemma quiet_one_task: "quiet u v \<Longrightarrow> one_task u v"
  by (simp add: one_task_def quietD)

lemma quiet_then_one_task:
  assumes "quiet u v" "one_task v w"
  shows "one_task u w"
proof -
  note q = quietD [OF assms(1)] and o' = assms(2) [unfolded one_task_def]
  have "new_calls u w = new_calls u v @ new_calls v w" using q(2) o' by (intro new_calls_trans) simp_all
  then have "filter leaves_task (new_calls u w) = filter leaves_task (new_calls v w)" using q(3) by simp
  moreover have "keeps_spec u w" using q(1) o' by (blast intro: keeps_spec_trans)
  moreover have "prefix (hist u) (hist w)" using q(2) o' by (blast intro: prefix_order.trans)
  ultimately show ?thesis using o' by (simp add: one_task_def)
qed

lemma one_task_then:
  assumes "one_task u v" "keeps_spec v w" "calls_ok (\<lambda>c. \<not> leaves_task c) v w"
  shows "one_task u w"
proof -
  note q = assms(2) calls_ok_prefix [OF assms(3)] no_tasks_new_calls [OF assms(3)] and o' = assms(1) [unfolded one_task_def]
  have "new_calls u w = new_calls u v @ new_calls v w" using q(2) o' by (intro new_calls_trans) simp_all
  then have "filter leaves_task (new_calls u w) = filter leaves_task (new_calls u v)" using q(3) by simp
  moreover have "keeps_spec u w" using q(1) o' by (blast intro: keeps_spec_trans)
  moreover have "prefix (hist u) (hist w)" using q(2) o' by (blast intro: prefix_order.trans)
  ultimately show ?thesis using o' by (simp add: one_task_def)
qed

lemma one_task_then_quiet: "one_task u v \<Longrightarrow> quiet v w \<Longrightarrow> one_task u w"
  by (auto simp only: quiet_def intro: one_task_then)

lemma readonly_frame_quiet:
  assumes "readonly w w'" "same_but_hist w w'"
  shows "quiet w w'"
proof -
  have "calls_ok (\<lambda>c. \<not> leaves_task c) w w'"
    using assms(1) by (rule calls_ok_mono) (rule not_change_no_task)
  then show ?thesis
    by (simp add: quiet_def same_but_hist_fields [OF assms(2)] keeps_spec_frame [OF assms(2)])
qed

end
