(* ===== verification/VM_Service_Steps.thy ===== *)
theory VM_Service_Steps
  imports VM_Service
begin

text \<open>
  The steps of \<open>ReconcileVM\<close> share a contract (locales
  \<open>service_step\<close>, \<open>stopping_step\<close>): no step leaves more than one task running, and a step after which the reconciliation goes on
  leaves none, with the exception of the step for the storage policy. The properties of \<open>ReconcileVM\<close> follow by sequencing the steps (theory \<open>VM_Service_Correct\<close>).
\<close>

section \<open>Calls of the library under the service\<close>

lemma quiet_step [simp]: "\<not> leaves_task c \<Longrightarrow> quiet w (w\<lparr>hist := hist w @ [c]\<rparr>)"
  by (simp add: quiet_def keeps_spec_def calls_ok_def)

lemma one_task_step [simp]: "one_task w (w\<lparr>hist := hist w @ [c]\<rparr>)"
  by (simp add: one_task_def keeps_spec_def new_calls_def)

lemma one_task_calls [simp]: "one_task w (w\<lparr>hist := hist w @ cs\<rparr>) \<longleftrightarrow> length (filter leaves_task cs) \<le> 1"
  by (simp add: one_task_def keeps_spec_def new_calls_def)

lemma quiet_calls [simp]: "quiet w (w\<lparr>hist := hist w @ cs\<rparr>) \<longleftrightarrow> list_all (\<lambda>c. \<not> leaves_task c) cs"
  by (simp add: quiet_def keeps_spec_def calls_ok_def)

lemma one_task_refl [simp]: "one_task w w"
  by (simp add: quiet_one_task)

lemma quiet_add_cond [simp]: "quiet w (add_cond ops w') \<longleftrightarrow> quiet w w'"
  by (simp add: quiet_def keeps_spec_def)

lemma one_task_add_cond [simp]: "one_task w (add_cond ops w') \<longleftrightarrow> one_task w w'"
  by (simp add: one_task_def keeps_spec_def new_calls_def)

lemma one_task_set_TaskRef [simp]: "one_task w (set_TaskRef t w') \<longleftrightarrow> one_task w w'"
  by (simp add: one_task_def keeps_spec_def new_calls_def)

lemma quiet_svc [simp]:
  "quiet w (w'\<lparr>svc_vm := a\<rparr>) \<longleftrightarrow> quiet w w'" "quiet w (w'\<lparr>svc_ipam := s\<rparr>) \<longleftrightarrow> quiet w w'"
  "one_task w (w'\<lparr>svc_vm := a\<rparr>) \<longleftrightarrow> one_task w w'" "one_task w (w'\<lparr>svc_ipam := s\<rparr>) \<longleftrightarrow> one_task w w'"
  by (simp_all add: quiet_def keeps_spec_def calls_ok_def one_task_def new_calls_def)

lemma one_task_upd_status:
  "one_task w w' \<Longrightarrow> (\<And>s. same_report s (f s)) \<Longrightarrow> one_task w (upd_status f w')"
  by (auto simp: one_task_def keeps_spec_def new_calls_def elim: same_report_trans)

lemma quiet_upd_status:
  "quiet w w' \<Longrightarrow> (\<And>s. st_TaskRef (f s) = st_TaskRef s \<and> same_report s (f s)) \<Longrightarrow> quiet w (upd_status f w')"
  by (auto simp: quiet_def keeps_spec_def elim: same_report_trans)

named_theorems task_intros \<open>introduction rules for \<open>quiet\<close> and \<open>one_task\<close>\<close>

lemma quiet_do_call [task_intros]: "\<not> leaves_task c \<Longrightarrow> quiet w (snd (do_call c f w))"
  by (simp add: do_call_def)

lemma quiet_bindE [task_intros]:
  assumes "quiet w (snd m)" and "\<And>y w'. m = (Inr y, w') \<Longrightarrow> quiet w' (snd (k y w'))"
  shows "quiet w (snd (bindE m k))"
  using assms by (cases m; cases "fst m") (auto intro: quiet_trans)

lemma one_task_bindE:
  assumes "quiet w (snd m)" and "\<And>y w'. m = (Inr y, w') \<Longrightarrow> one_task w' (snd (k y w'))"
  shows "one_task w (snd (bindE m k))"
  using assms by (cases m; cases "fst m") (auto intro: quiet_then_one_task quiet_one_task)

lemma one_task_request:
  assumes "\<And>y w'. keeps_spec w' (snd (k y w'))" and "\<And>y w'. calls_ok (\<lambda>c. \<not> leaves_task c) w' (snd (k y w'))"
  shows "one_task w (snd (bindE (wrapE s as (do_call c f w)) k))"
proof (cases "f (hist w @ [c])")
  case (Inr y)
  have "one_task w (snd (k y (w\<lparr>hist := hist w @ [c]\<rparr>)))"
    by (rule one_task_then [OF one_task_step]) (rule assms)+
  with Inr show ?thesis by (simp add: do_call_def)
qed (simp add: do_call_def)

lemma quiet_wrapE [simp]: "quiet w (snd (wrapE s as m)) \<longleftrightarrow> quiet w (snd m)"
  by simp

lemma CalculateDevicesToBeAdded_quiet: "quiet w (snd (CalculateDevicesToBeAdded x r ds w))"
  by (auto simp: CalculateDevicesToBeAdded_def split: sum.split intro!: task_intros)

lemma getNetworkStatus_quiet: "quiet w (snd (getNetworkStatus x r w))"
  by (auto simp: getNetworkStatus_def GetNetworkStatus_def split: option.split intro!: task_intros)

lemma BuildState_quiet: "quiet w (snd (BuildState x ns w))"
  by (simp add: BuildState_calls readonly_frame_quiet)

lemma getPowerState_quiet: "quiet w (snd (getPowerState x r w))"
  by (simp add: getPowerState_frame readonly_frame_quiet)

lemma getMetadata_quiet: "quiet w (snd (getMetadata x r w))"
  by (auto simp: getMetadata_def Let_def split: option.split intro!: task_intros)

lemma FindVMGroup_quiet: "quiet w (snd (FindVMGroup x c g w))"
  by (simp add: FindVMGroup_calls readonly_frame_quiet)

lemma AddMoRefToModule_quiet: "quiet w (snd (AddMoRefToModule x m r w))"
  by (auto simp: AddMoRefToModule_def IsMoRefModuleMember_def intro!: task_intros)

lemma findVM_quiet: "quiet w (snd (findVM x w))"
  by (simp add: findVM_frame readonly_frame_quiet)

lemma OnTaskCompletion_quiet: "quiet w (reconcileVSphereVMOnTaskCompletion x w)"
  by (simp add: reconcileVSphereVMOnTaskCompletion_frame readonly_frame_quiet)

lemmas library_quiet = CalculateDevicesToBeAdded_quiet getNetworkStatus_quiet BuildState_quiet getPowerState_quiet
  getMetadata_quiet FindVMGroup_quiet AddMoRefToModule_quiet findVM_quiet OnTaskCompletion_quiet

section \<open>How many tasks are left running\<close>

text \<open>
  At most one task is left running, but the reconfiguration for a storage policy may precede it (first argument: a storage
  policy is asked for).
\<close>

fun policy_change :: "call \<Rightarrow> bool" where
  "policy_change (Change (VM_Reconfigure _ cfg)) \<longleftrightarrow> vcs_VmProfile cfg \<noteq> []"
| "policy_change _ = False"

abbreviation has_policy :: "'w vm_ctx_scheme \<Rightarrow> bool" where
  "has_policy w \<equiv> c_StoragePolicyName (vm_clone_spec w) \<noteq> ''''"

definition few :: "bool \<Rightarrow> call list \<Rightarrow> bool" where
  "few p ts \<longleftrightarrow> length ts \<le> 1 \<or> p \<and> (\<exists>c c'. ts = [c, c'] \<and> policy_change c)"

definition few_tasks :: "bool \<Rightarrow> 'w vm_ctx_scheme \<Rightarrow> 'w vm_ctx_scheme \<Rightarrow> bool" where
  "few_tasks p w w' \<longleftrightarrow> keeps_spec w w' \<and> prefix (hist w) (hist w') \<and> few p (filter leaves_task (new_calls w w'))"

lemma one_few_tasks: "one_task w w' \<Longrightarrow> few_tasks p w w'"
  by (simp add: one_task_def few_tasks_def few_def)

lemma few_tasks_one: "few_tasks False w w' \<longleftrightarrow> one_task w w'"
  by (simp add: one_task_def few_tasks_def few_def)

lemma no_task_then_few_tasks:
  assumes "keeps_spec w v" "calls_ok (\<lambda>c. \<not> leaves_task c) w v" "few_tasks p v w'"
  shows "few_tasks p w w'"
proof -
  have "new_calls w w' = new_calls w v @ new_calls v w'"
    using calls_ok_prefix [OF assms(2)] assms(3) unfolding few_tasks_def by (intro new_calls_trans) blast+
  then show ?thesis
    using assms(3) no_tasks_new_calls [OF assms(2)] keeps_spec_trans [OF assms(1), of w']
      prefix_order.trans [OF calls_ok_prefix [OF assms(2)], of "hist w'"]
    by (simp add: few_tasks_def)
qed

lemma quiet_then_few_tasks: "quiet u v \<Longrightarrow> few_tasks p v w \<Longrightarrow> few_tasks p u w"
  unfolding quiet_def by (blast intro: no_task_then_few_tasks)

lemma few_tasks_then_quiet:
  assumes "few_tasks p u v" "quiet v w"
  shows "few_tasks p u w"
proof -
  note q = quietD [OF assms(2)]
  have "new_calls u w = new_calls u v @ new_calls v w" using q(2) assms(1) by (intro new_calls_trans) (simp_all add: few_tasks_def)
  then show ?thesis
    using assms(1) q(1,3) keeps_spec_trans [of u v w] prefix_order.trans [OF _ q(2), of "hist u"] by (auto simp: few_tasks_def)
qed

section \<open>The contract of a step\<close>

definition seqO ::
  "('a \<Rightarrow> bool) \<Rightarrow> (go_error + 'a) \<times> 'w \<Rightarrow> ('w \<Rightarrow> ((go_error + unit) \<times> 'w) option) \<Rightarrow> ((go_error + unit) \<times> 'w) option" where
  "seqO goes_on m k = (case m of (Inl e, w) \<Rightarrow> Some (Inl e, w) | (Inr a, w) \<Rightarrow> if goes_on a then k w else Some (Inr (), w))"

lemma thenE_seqO: "thenE m k = seqO (\<lambda>_. True) m k"
  by (simp add: thenE_def seqO_def split: prod.split sum.split)

lemma andThen_seqO: "andThen m k = seqO (\<lambda>ok. ok) m k"
  by (simp add: andThen_def seqO_def)

definition ready_post ::
  "('w svc_ctx_scheme \<Rightarrow> ((go_error + unit) \<times> 'w svc_ctx_scheme) option) \<Rightarrow>
   ('w svc_ctx_scheme \<Rightarrow> (go_error + unit) \<Rightarrow> 'w svc_ctx_scheme \<Rightarrow> bool) \<Rightarrow> bool" where
  \<comment> \<open>what holds when \<open>k\<close> takes a pending VM to a ready one\<close>
  "ready_post k Q \<longleftrightarrow> (\<forall>w r w'. k w = Some (r, w') \<longrightarrow> svm_State (svc_vm w) = VirtualMachineStatePending \<longrightarrow>
     svm_State (svc_vm w') = VirtualMachineStateReady \<longrightarrow> Q w r w')"

locale service_step =
  fixes step :: "ext \<Rightarrow> moref \<Rightarrow> 'w svc_ctx_scheme \<Rightarrow> (go_error + 'a) \<times> 'w svc_ctx_scheme"
    and goes_on :: "'a \<Rightarrow> bool"
  assumes at_most_one: "one_task w (snd (step x ref w))"
    and keeps_state: "svm_State (svc_vm (snd (step x ref w))) = svm_State (svc_vm w)"
    and keeps_ref: "svm_VMRef (svc_vm (snd (step x ref w))) = svm_VMRef (svc_vm w)"
begin

lemma seq_ready:
  assumes rest: "ready_post k Q"
  shows "ready_post (\<lambda>w. seqO goes_on (step x ref w) k)
    (\<lambda>w r w'. \<exists>a v. step x ref w = (Inr a, v) \<and> goes_on a \<and> one_task w v \<and> svm_VMRef (svc_vm v) = svm_VMRef (svc_vm w) \<and> Q v r w')"
  unfolding ready_post_def
proof (intro allI impI)
  fix w r w'
  assume run: "seqO goes_on (step x ref w) k = Some (r, w')"
    and pending: "svm_State (svc_vm w) = VirtualMachineStatePending" and ready: "svm_State (svc_vm w') = VirtualMachineStateReady"
  obtain q v where s: "step x ref w = (q, v)" by (cases "step x ref w")
  have v: "svm_State (svc_vm v) = VirtualMachineStatePending" "one_task w v" "svm_VMRef (svc_vm v) = svm_VMRef (svc_vm w)"
    using keeps_state [of x ref w] keeps_ref [of x ref w] at_most_one [of w x ref] s pending by simp_all
  then obtain a where a: "q = Inr a" "goes_on a" "k v = Some (r, w')"
    using run ready s by (auto simp: seqO_def split: sum.splits if_splits)
  then have "Q v r w'" using rest v(1) ready by (auto simp: ready_post_def)
  with s v a show "\<exists>a v. step x ref w = (Inr a, v) \<and> goes_on a \<and> one_task w v \<and> svm_VMRef (svc_vm v) = svm_VMRef (svc_vm w) \<and> Q v r w'" by blast
qed

end

text \<open>
  All steps but the one for the storage policy stop the reconciliation when they have left a task running.
\<close>

locale stopping_step = service_step +
  assumes goes_on_quiet: "step x ref w = (Inr a, w') \<Longrightarrow> goes_on a \<Longrightarrow> quiet w w'"
begin

lemma seq_few_tasks:
  assumes run: "seqO goes_on (step x ref w) k = Some (r, w')"
    and rest: "\<And>v. quiet w v \<Longrightarrow> k v = Some (r, w') \<Longrightarrow> few_tasks p v w'"
  shows "few_tasks p w w'"
proof -
  obtain q v where s: "step x ref w = (q, v)" by (cases "step x ref w")
  have one: "few_tasks p w v" using at_most_one [of w x ref] s by (simp add: one_few_tasks)
  show ?thesis
  proof (cases q)
    case (Inl e)
    then show ?thesis using run one s by (simp add: seqO_def)
  next
    case (Inr a)
    show ?thesis
    proof (cases "goes_on a")
      case True
      with goes_on_quiet s Inr have "quiet w v" by blast
      moreover have "k v = Some (r, w')" using run s Inr True by (simp add: seqO_def)
      ultimately show ?thesis by (blast intro: quiet_then_few_tasks rest)
    next
      case False
      then show ?thesis using run one s Inr by (simp add: seqO_def)
    qed
  qed
qed

end

text \<open>After the metadata is in place, the steps leave the report on the VM alone.\<close>

locale finishing_step = stopping_step +
  assumes keeps_report: "svc_vm (snd (step x ref w)) = svc_vm w \<and> svc_ipam (snd (step x ref w)) = svc_ipam w"

section \<open>The steps keep it\<close>

lemma keeps_spec_set_TaskRef [simp]: "keeps_spec w (set_TaskRef t w') \<longleftrightarrow> keeps_spec w w'"
  by (simp add: keeps_spec_def)

lemma svc_fields [simp]:
  "svc_vm (set_TaskRef t w) = svc_vm w" "svc_ipam (set_TaskRef t w) = svc_ipam w"
  "svc_vm (add_cond ops w) = svc_vm w" "svc_ipam (add_cond ops w) = svc_ipam w"
  "svc_vm (upd_status f w) = svc_vm w" "svc_ipam (upd_status f w) = svc_ipam w"
  by (simp_all add: set_TaskRef_def add_cond_def upd_status_def)

lemma svc_frame:
  fixes w w' :: "'w svc_ctx_scheme"
  assumes "same_but_hist w w'"
  shows "svc_vm w' = svc_vm w" "svc_ipam w' = svc_ipam w"
  using assms by (cases w; cases w'; simp add: same_but_hist_def)+

lemma bindE_field:
  assumes "F (snd m) = F w" and "\<And>y w'. m = (Inr y, w') \<Longrightarrow> F (snd (k y w')) = F w'"
  shows "F (snd (bindE m k)) = F w"
  using assms by (cases m; cases "fst m") auto

lemmas step_unfolds = Let_def bindE_def wrapE_def do_call_def
lemmas step_splits = sum.split option.split prod.split if_split

interpretation hw: stopping_step reconcileHardwareVersion "\<lambda>ok. ok"
  by unfold_locales
    (auto simp: reconcileHardwareVersion_def step_unfolds split: if_splits sum.splits option.splits)

interpretation pci: stopping_step reconcilePCIDevices "\<lambda>_. True"
  by unfold_locales
    (auto simp: reconcilePCIDevices_def CalculateDevicesToBeAdded_def step_unfolds split: if_splits sum.splits option.splits)

interpretation net: stopping_step reconcileNetworkStatus "\<lambda>_. True"
  by unfold_locales
    (auto simp: reconcileNetworkStatus_def getNetworkStatus_def GetNetworkStatus_def step_unfolds
          split: if_splits sum.splits option.splits)

lemma reconcileIPAddresses_cases:
  obtains (waiting) e v where "BuildState x (svm_Network (svc_vm w)) w = (Inl e, v)" "errors_Is e ErrWaitingForIPAddr"
      "fst (reconcileIPAddresses x w) = Inr False"
      "\<exists>ops. snd (reconcileIPAddresses x w) = add_cond ops v"
  | (failed) e v where "BuildState x (svm_Network (svc_vm w)) w = (Inl e, v)" "reconcileIPAddresses x w = (Inl e, v)"
  | (bound) st v where "BuildState x (svm_Network (svc_vm w)) w = (Inr st, v)"
      "reconcileIPAddresses x w = (Inr True, v\<lparr>svc_ipam := st\<rparr>)"
proof -
  obtain q v where b: "BuildState x (svm_Network (svc_vm w)) w = (q, v)" by fastforce
  show thesis
    by (cases q; cases "errors_Is (projl q) ErrWaitingForIPAddr")
      (use that b in \<open>auto simp: reconcileIPAddresses_def\<close>)
qed

interpretation ips: stopping_step "\<lambda>x _. reconcileIPAddresses x" "\<lambda>ok. ok"
proof
  fix x :: ext and w :: "'a svc_ctx_scheme"
  let ?b = "snd (BuildState x (svm_Network (svc_vm w)) w)"
  have q: "quiet w ?b" by (rule BuildState_quiet)
  have f: "svc_vm ?b = svc_vm w" by (rule svc_frame) (rule BuildState_calls)
  show "one_task w (snd (reconcileIPAddresses x w))"
    by (cases rule: reconcileIPAddresses_cases [of x w]) (use q in \<open>auto intro: quiet_one_task\<close>)
  show "svm_State (svc_vm (snd (reconcileIPAddresses x w))) = svm_State (svc_vm w)"
    "svm_VMRef (svc_vm (snd (reconcileIPAddresses x w))) = svm_VMRef (svc_vm w)"
    by (cases rule: reconcileIPAddresses_cases [of x w]; use f in auto)+
  show "quiet w w'" if "reconcileIPAddresses x w = (Inr a, w')" "a" for a w'
    by (cases rule: reconcileIPAddresses_cases [of x w]) (use q that in auto)
qed

subsection \<open>Metadata\<close>

definition metadata_config :: "string \<Rightarrow> Config" where
  "metadata_config m = [\<lparr>ov_Key = ''guestinfo.metadata'', ov_Value = EncodeToString m\<rparr>,
     \<lparr>ov_Key = ''guestinfo.metadata.encoding'', ov_Value = ''base64''\<rparr>]"

lemma SetCloudInitMetadata_new: "SetCloudInitMetadata (new_metadata w) [] = Some (metadata_config (new_metadata w))"
  by (simp add: SetCloudInitMetadata_def encode_eq plain_text_undecodable new_metadata_def metadata_not_base64
      metadata_not_Nil metadata_config_def)

lemma setMetadata_new:
  "setMetadata x ref (new_metadata v) w = Some (wrapE ''unable to set metadata on vm %s'' []
     (do_call (Change (VM_Reconfigure ref (zero_config_spec\<lparr>vcs_ExtraConfig := metadata_config (new_metadata v)\<rparr>))) (x_task x) w))"
  by (simp add: setMetadata_def SetCloudInitMetadata_new)

definition metadata_step :: "ext \<Rightarrow> moref \<Rightarrow> 'w svc_ctx_scheme \<Rightarrow> (go_error + bool) \<times> 'w svc_ctx_scheme" where
  \<comment> \<open>\<open>reconcileMetadata\<close>, which always returns\<close>
  "metadata_step x ref w =
     bindE (getMetadata x ref w) (\<lambda>existing w.
       if new_metadata w = existing then (Inr True, w)
       else bindE (wrapE ''unable to set metadata on vm %s'' [] (the (setMetadata x ref (new_metadata w) w)))
              (\<lambda>taskRef w. (Inr False, set_TaskRef taskRef w)))"

lemma reconcileMetadata_total: "reconcileMetadata x ref w = Some (metadata_step x ref w)"
  unfolding reconcileMetadata_def metadata_step_def
  by (auto simp: setMetadata_new bindE_def split: prod.split sum.split)

lemma snd_getMetadata: "snd (getMetadata x ref w) = w\<lparr>hist := hist w @ [Obj (VM_ExtraConfig ref)]\<rparr>"
  by (simp add: getMetadata_def step_unfolds split: sum.split option.split)

lemma getMetadata_cases:
  obtains r where "getMetadata x ref w = (r, w\<lparr>hist := hist w @ [Obj (VM_ExtraConfig ref)]\<rparr>)"
  using snd_getMetadata [of x ref w] by (cases "getMetadata x ref w") simp

lemma new_metadata_hist [simp]: "new_metadata (w\<lparr>hist := h\<rparr>) = new_metadata w"
  by (simp add: new_metadata_def)

interpretation md: stopping_step metadata_step "\<lambda>ok. ok"
proof
  fix x ref and w :: "'a svc_ctx_scheme"
  obtain r where g: "getMetadata x ref w = (r, w\<lparr>hist := hist w @ [Obj (VM_ExtraConfig ref)]\<rparr>)"
    by (rule getMetadata_cases)
  show "one_task w (snd (metadata_step x ref w))"
    "svm_State (svc_vm (snd (metadata_step x ref w))) = svm_State (svc_vm w)"
    "svm_VMRef (svc_vm (snd (metadata_step x ref w))) = svm_VMRef (svc_vm w)"
    by (auto simp: metadata_step_def g setMetadata_new step_unfolds split: sum.split)
  show "quiet w w'" if "metadata_step x ref w = (Inr a, w')" "a" for a w'
    using that by (auto simp: metadata_step_def g setMetadata_new step_unfolds split: sum.splits if_splits)
qed

subsection \<open>From the storage policy on\<close>

lemma snd_getPowerState: "snd (getPowerState x ref w) = w\<lparr>hist := hist w @ [Obj (VM_PowerState ref)]\<rparr>"
  by (simp add: getPowerState_def step_unfolds split: sum.split)

lemma getPowerState_cases:
  obtains r where "getPowerState x ref w = (r, w\<lparr>hist := hist w @ [Obj (VM_PowerState ref)]\<rparr>)"
  using snd_getPowerState [of x ref w] by (cases "getPowerState x ref w") simp

interpretation policy: service_step reconcileStoragePolicy "\<lambda>_. True"
proof
  fix x ref and w :: "'a svc_ctx_scheme"
  obtain r where g: "getPowerState x ref w = (r, w\<lparr>hist := hist w @ [Obj (VM_PowerState ref)]\<rparr>)"
    by (rule getPowerState_cases)
  show "one_task w (snd (reconcileStoragePolicy x ref w))"
    "svm_State (svc_vm (snd (reconcileStoragePolicy x ref w))) = svm_State (svc_vm w)"
    "svm_VMRef (svc_vm (snd (reconcileStoragePolicy x ref w))) = svm_VMRef (svc_vm w)"
    by (auto simp: reconcileStoragePolicy_def g step_unfolds split: sum.split)
qed

lemma policy_keeps_report:
  "svc_vm (snd (reconcileStoragePolicy x ref w)) = svc_vm w \<and> svc_ipam (snd (reconcileStoragePolicy x ref w)) = svc_ipam w"
proof -
  obtain r where g: "getPowerState x ref w = (r, w\<lparr>hist := hist w @ [Obj (VM_PowerState ref)]\<rparr>)"
    by (rule getPowerState_cases)
  show ?thesis by (auto simp: reconcileStoragePolicy_def g step_unfolds split: sum.split)
qed

definition policy_only :: "call list \<Rightarrow> bool" where
  "policy_only ts \<longleftrightarrow> ts = [] \<or> (\<exists>c. ts = [c] \<and> policy_change c)"

lemma policy_only_simps [simp]: "policy_only []" "policy_only [c] \<longleftrightarrow> policy_change c"
  by (simp_all add: policy_only_def)

lemma policy_task:
  "policy_only (filter leaves_task (new_calls w (snd (reconcileStoragePolicy x ref w)))) \<and> (has_policy w \<or> snd (reconcileStoragePolicy x ref w) = w)"
proof (cases "has_policy w")
  case True
  obtain r where g: "getPowerState x ref w = (r, w\<lparr>hist := hist w @ [Obj (VM_PowerState ref)]\<rparr>)"
    by (rule getPowerState_cases)
  have "policy_only (filter leaves_task (new_calls w (snd (reconcileStoragePolicy x ref w))))"
    using True by (simp add: reconcileStoragePolicy_def g step_unfolds new_calls_def split: sum.split)
  with True show ?thesis by blast
qed (simp add: reconcileStoragePolicy_def new_calls_def)

interpretation group: finishing_step reconcileVMGroupInfo "\<lambda>ok. ok"
  by unfold_locales
    (auto simp: reconcileVMGroupInfo_def FindVMGroup_def vmgroup_Add_def step_unfolds split: if_splits sum.splits option.splits)

interpretation module: finishing_step reconcileClusterModuleMembership "\<lambda>_. True"
  by unfold_locales
    (auto simp: reconcileClusterModuleMembership_def AddMoRefToModule_def IsMoRefModuleMember_def step_unfolds
          split: if_splits sum.splits option.splits intro!: one_task_upd_status quiet_upd_status)

interpretation power: finishing_step reconcilePowerState "\<lambda>ok. ok"
proof
  fix x ref and w :: "'a svc_ctx_scheme"
  obtain r where g: "getPowerState x ref w = (r, w\<lparr>hist := hist w @ [Obj (VM_PowerState ref)]\<rparr>)"
    by (rule getPowerState_cases)
  show "one_task w (snd (reconcilePowerState x ref w))"
    "svm_State (svc_vm (snd (reconcilePowerState x ref w))) = svm_State (svc_vm w)"
    "svm_VMRef (svc_vm (snd (reconcilePowerState x ref w))) = svm_VMRef (svc_vm w)"
    "svc_vm (snd (reconcilePowerState x ref w)) = svc_vm w \<and> svc_ipam (snd (reconcilePowerState x ref w)) = svc_ipam w"
    by (auto simp: reconcilePowerState_def g vm_Patch_def step_unfolds one_task_def keeps_spec_def new_calls_def
          split: sum.split VirtualMachinePowerState.split)
  show "quiet w w'" if "reconcilePowerState x ref w = (Inr a, w')" "a" for a w'
    using that by (auto simp: reconcilePowerState_def g vm_Patch_def step_unfolds
        split: sum.splits VirtualMachinePowerState.splits)
qed

interpretation host: finishing_step reconcileHostInfo "\<lambda>_. True"
  by unfold_locales
    (auto simp: reconcileHostInfo_def step_unfolds split: if_splits sum.splits option.splits
          intro!: one_task_upd_status quiet_upd_status)

interpretation tags: finishing_step reconcileTags "\<lambda>_. True"
  by unfold_locales (auto simp: reconcileTags_def step_unfolds split: if_splits sum.splits)

end
