(* ===== verification/VM_Service_Correct.thy ===== *)
theory VM_Service_Correct
  imports VM_Service_Steps
begin

text \<open>
  Properties of \<open>ReconcileVM\<close> and \<open>DestroyVM\<close>: when they may change vCenter, how many tasks
  they start, what a VM reported as ready has gone through, and when a VM may be destroyed.
\<close>

section \<open>Sequencing\<close>

lemma quiet_policy: "quiet w v \<Longrightarrow> has_policy v = has_policy w"
  by (simp add: quiet_def keeps_spec_def)

lemma finish_existing_seq:
  "finish_existing x ref w =
     seqO (\<lambda>_. True) (reconcileStoragePolicy x ref w) (\<lambda>w.
     seqO (\<lambda>ok. ok) (reconcileVMGroupInfo x ref w) (\<lambda>w.
     seqO (\<lambda>_. True) (reconcileClusterModuleMembership x ref w) (\<lambda>w.
     seqO (\<lambda>ok. ok) (reconcilePowerState x ref w) (\<lambda>w.
     seqO (\<lambda>_. True) (reconcileHostInfo x ref w) (\<lambda>w.
     case reconcileTags x ref w of
       (Inl err, w) \<Rightarrow> Some (Inl err, add_cond (not_provisioned ''TagsAttachmentFailed'' SeverityError err) w)
     | (Inr _, w) \<Rightarrow> Some (Inr (), w\<lparr>svc_vm := (svc_vm w)\<lparr>svm_State := VirtualMachineStateReady\<rparr>\<rparr>))))))"
  by (simp only: finish_existing_def thenE_seqO andThen_seqO)

lemma policy_then_one:
  assumes s: "reconcileStoragePolicy x ref w = (q, v)" and rest: "one_task v w'"
  shows "few_tasks (has_policy w) w w'"
proof -
  let ?f = "\<lambda>a b. filter leaves_task (new_calls a b)"
  have o': "one_task w v" using policy.at_most_one [of w x ref] s by simp
  have "new_calls w w' = new_calls w v @ new_calls v w'" using o' rest by (intro new_calls_trans) (simp_all add: one_task_def)
  then have ts: "?f w w' = ?f w v @ ?f v w'" by simp
  have "length (?f v w') \<le> 1" using rest by (simp add: one_task_def)
  then have "?f v w' = [] \<or> (\<exists>c. ?f v w' = [c])" by (cases "?f v w'") auto
  moreover have "?f w v = [] \<or> has_policy w \<and> (\<exists>c. ?f w v = [c] \<and> policy_change c)" using policy_task [of w x ref] s by (auto simp: policy_only_def new_calls_def)
  ultimately have "few (has_policy w) (?f w w')" unfolding ts by (auto simp: few_def)
  moreover have "keeps_spec w w'" "prefix (hist w) (hist w')"
    using o' rest by (auto simp: one_task_def intro: keeps_spec_trans prefix_order.trans)
  ultimately show ?thesis by (simp add: few_tasks_def)
qed

lemma finish_existing_few_tasks:
  assumes "finish_existing x ref w = Some (r, w')"
  shows "few_tasks (has_policy w) w w'"
proof -
  let ?k = "\<lambda>w. seqO (\<lambda>ok. ok) (reconcileVMGroupInfo x ref w) (\<lambda>w.
     seqO (\<lambda>_. True) (reconcileClusterModuleMembership x ref w) (\<lambda>w.
     seqO (\<lambda>ok. ok) (reconcilePowerState x ref w) (\<lambda>w.
     seqO (\<lambda>_. True) (reconcileHostInfo x ref w) (\<lambda>w.
     case reconcileTags x ref w of
       (Inl err, w) \<Rightarrow> Some (Inl err, add_cond (not_provisioned ''TagsAttachmentFailed'' SeverityError err) w)
     | (Inr _, w) \<Rightarrow> Some (Inr (), w\<lparr>svc_vm := (svc_vm w)\<lparr>svm_State := VirtualMachineStateReady\<rparr>\<rparr>)))))"
  have rest: "one_task v w'" if "?k v = Some (r, w')" for v
    using that unfolding few_tasks_one [symmetric]
  proof (elim group.seq_few_tasks module.seq_few_tasks power.seq_few_tasks host.seq_few_tasks)
    fix v assume "(case reconcileTags x ref v of
         (Inl err, w) \<Rightarrow> Some (Inl err, add_cond (not_provisioned ''TagsAttachmentFailed'' SeverityError err) w)
       | (Inr _, w) \<Rightarrow> Some (Inr (), w\<lparr>svc_vm := (svc_vm w)\<lparr>svm_State := VirtualMachineStateReady\<rparr>\<rparr>)) = Some (r, w')"
    then show "few_tasks False v w'"
      unfolding few_tasks_one using tags.at_most_one [of v x ref] by (auto split: prod.splits sum.splits)
  qed
  obtain q v where s: "reconcileStoragePolicy x ref w = (q, v)" by fastforce
  show ?thesis
  proof (cases q)
    case (Inl e)
    then have "w' = v" using assms s by (simp add: finish_existing_seq seqO_def)
    then show ?thesis using policy.at_most_one [of w x ref] s by (simp add: one_few_tasks)
  next
    case (Inr u)
    then have "?k v = Some (r, w')" using assms s by (simp add: finish_existing_seq seqO_def [of _ "(Inr _, _)"])
    from policy_then_one [OF s rest [OF this]] show ?thesis .
  qed
qed

lemma reconcile_existing_seq:
  "reconcile_existing x ref w =
     seqO (\<lambda>ok. ok) (reconcileHardwareVersion x ref
         (reconcileUUID x ref (w\<lparr>svc_vm := (svc_vm w)\<lparr>svm_VMRef := moref_String ref\<rparr>\<rparr>))) (\<lambda>w.
     seqO (\<lambda>_. True) (reconcilePCIDevices x ref w) (\<lambda>w.
     seqO (\<lambda>_. True) (reconcileNetworkStatus x ref w) (\<lambda>w.
     seqO (\<lambda>ok. ok) (reconcileIPAddresses x w) (\<lambda>w.
     seqO (\<lambda>ok. ok) (metadata_step x ref w) (finish_existing x ref)))))"
  by (simp only: reconcile_existing_def thenE_seqO andThen_seqO Let_def reconcileMetadata_total bind.bind_lunit)

lemma reconcileUUID_quiet: "quiet w (reconcileUUID x ref w)"
  by (simp add: reconcileUUID_def do_call_def split: sum.split)

lemma reconcile_existing_few_tasks:
  assumes run: "reconcile_existing x ref w = Some (r, w')"
  shows "few_tasks (has_policy w) w w'"
proof -
  let ?v = "reconcileUUID x ref (w\<lparr>svc_vm := (svc_vm w)\<lparr>svm_VMRef := moref_String ref\<rparr>\<rparr>)"
  have v: "quiet w ?v" by (rule quiet_trans [OF _ reconcileUUID_quiet]) simp
  have fin: "few_tasks p u w'" if "finish_existing x ref u = Some (r, w')" "has_policy u = p" for u p
    using finish_existing_few_tasks [OF that(1)] that(2) by simp
  have "few_tasks (has_policy w) ?v w'"
    using run unfolding reconcile_existing_seq
    by (elim hw.seq_few_tasks pci.seq_few_tasks net.seq_few_tasks ips.seq_few_tasks md.seq_few_tasks fin)
      (simp add: quiet_policy quiet_policy [OF v])
  with v show ?thesis by (rule quiet_then_few_tasks)
qed

lemma clone_prepare_quiet: "quiet w (snd (clone_prepare x ec w))"
  using clone_prepare_frame [of w x ec] clone_prepare_no_task [of w x ec]
  by (elim same_but_modeE) (simp add: quiet_def keeps_spec_def)

lemma clone_request_one_task: "one_task w (snd (clone_request x ec w))"
  unfolding clone_request_def
proof (rule one_task_bindE [OF clone_prepare_quiet], clarify)
  fix tpl folder spec and v :: "'a vm_ctx_scheme"
  show "one_task v (snd (bindE (wrapE ''error trigging clone op for machine %s'' []
      (do_call (Change (VM_Clone tpl folder (vm_name v) spec)) (x_task x) v))
      (\<lambda>task w. (Inr (), snd (vm_Patch x (set_TaskRef task w))))))"
    by (rule one_task_request) (simp_all add: vm_Patch_def keeps_spec_def calls_ok_def)
qed

lemma createVM_one_task: "createVM x d f w = Some (r, w') \<Longrightarrow> one_task w w'"
  using clone_request_one_task [of w x] by (auto simp: createVM_def Clone_def split: if_splits) (metis snd_conv)

lemma getBootstrapData_quiet: "quiet w (snd (getBootstrapData x w))"
  by (auto simp: getBootstrapData_def Let_def split: option.split intro!: task_intros)

lemma add_cond_Nil [simp]: "add_cond [] w = w"
  by (simp add: add_cond_def upd_status_def)

lemma create_missing_cases:
  assumes "create_missing x e w = Some (r, w')"
  obtains (bios) ops where "w' = (add_cond ops w)\<lparr>svc_vm := (svc_vm w)\<lparr>svm_State := VirtualMachineStateNotFound\<rparr>\<rparr>"
  | (no_data) ops ops' e' u where "getBootstrapData x (add_cond ops w) = (Inl e', u)" "w' = add_cond ops' u"
  | (clone) ops ops' d f u r' u' where "getBootstrapData x (add_cond ops w) = (Inr (d, f), u)"
      "createVM x d f u = Some (r', u')" "w' = add_cond ops' u'"
proof (cases "wasNotFoundByBIOSUUID e")
  case True
  with assms bios show thesis by (auto simp: create_missing_def)
next
  case False
  obtain ops where v: "(if \<not> x_Has x (st_Conditions (vm_status w)) VSphereVMVirtualMachineProvisionedCondition
    then add_cond (provisioned_false ''Cloning'' SeverityInfo NoMsg ''WaitingForClone'' NoMsg) w else w) = add_cond ops w"
    by (metis add_cond_Nil)
  obtain q u where b: "getBootstrapData x (add_cond ops w) = (q, u)" by fastforce
  show thesis
  proof (cases q)
    case (Inl e')
    with assms False b no_data show thesis by (auto simp: create_missing_def v)
  next
    case (Inr df)
    obtain d f where df: "df = (d, f)" by fastforce
    with assms False b Inr obtain r' u' where c: "createVM x d f u = Some (r', u')" by (auto simp: create_missing_def v)
    with assms False b Inr df have "\<exists>ops'. w' = add_cond ops' u'"
      by (cases r') (auto simp: create_missing_def v intro: add_cond_Nil [symmetric] exI)
    with clone b Inr df c show thesis by blast
  qed
qed

lemma create_missing_one_task:
  assumes "create_missing x e w = Some (r, w')"
  shows "one_task w w'"
  using assms
proof (cases rule: create_missing_cases)
  case (no_data ops ops' e' u)
  have "quiet w u" using getBootstrapData_quiet [of "add_cond ops w" x] no_data(1) by (intro quiet_trans [of w "add_cond ops w" u]) simp_all
  then show ?thesis by (simp add: no_data(2) quiet_one_task)
next
  case (clone ops ops' d f u r' u')
  have "quiet w u" using getBootstrapData_quiet [of "add_cond ops w" x] clone(1) by (intro quiet_trans [of w "add_cond ops w" u]) simp_all
  then have "one_task w u'" by (rule quiet_then_one_task [OF _ createVM_one_task [OF clone(2)]])
  then show ?thesis by (simp add: clone(3))
qed simp

lemma reconcileInFlightTask_no_task: "calls_ok (\<lambda>c. \<not> leaves_task c) w (snd (reconcileInFlightTask x w))"
  by (rule calls_ok_mono [OF reconcileInFlightTask_readonly not_change_no_task])

lemma reconcileInFlightTask_keeps_spec: "keeps_spec w (snd (reconcileInFlightTask x w))"
proof -
  obtain t v where g: "getTask x w = (t, v)" by fastforce
  have "keeps_spec w v" using getTask_cases(2) [OF g] by (rule keeps_spec_frame)
  moreover have "keeps_spec v (snd (checkAndRetryTask x t v))"
    by (simp add: checkAndRetryTask_def task_state_def task_failed_def keeps_spec_def do_call_def Let_def split: option.split)
  ultimately show ?thesis by (simp add: reconcileInFlightTask_def g keeps_spec_trans)
qed

lemma reconcileInFlightTask_clears: "reconcileInFlightTask x w = (Inr False, w') \<Longrightarrow> st_TaskRef (vm_status w') = ''''"
  by (auto simp: reconcileInFlightTask_def checkAndRetryTask_def task_state_def task_failed_def do_call_def Let_def
      split: option.splits prod.splits if_splits)

text \<open>The parts of \<open>ReconcileVM\<close> behind the check of the task.\<close>

abbreviation svc_start :: "'w svc_ctx_scheme \<Rightarrow> 'w svc_ctx_scheme" where
  "svc_start w \<equiv> w\<lparr>svc_vm := initial_vm (vm_name w), svc_ipam := Map.empty\<rparr>"

lemma ReconcileVM_cases:
  assumes "ReconcileVM x w = Some (r, w')"
  obtains (failed) e where "reconcileInFlightTask x (svc_start w) = (Inl e, w')" "r = Inl e"
  | (in_flight) "reconcileInFlightTask x (svc_start w) = (Inr True, w')" "r = Inr ()"
  | (unknown) v e u where "reconcileInFlightTask x (svc_start w) = (Inr False, v)"
      "findVM x v = (Inl e, u)" "\<not> isNotFound e" "r = Inl e" "w' = reconcileVSphereVMOnTaskCompletion x u"
  | (missing) v e u u' where "reconcileInFlightTask x (svc_start w) = (Inr False, v)"
      "findVM x v = (Inl e, u)" "isNotFound e" "create_missing x e u = Some (r, u')" "w' = reconcileVSphereVMOnTaskCompletion x u'"
  | (existing) v ref u u' where "reconcileInFlightTask x (svc_start w) = (Inr False, v)"
      "findVM x v = (Inr ref, u)" "reconcile_existing x ref u = Some (r, u')" "w' = reconcileVSphereVMOnTaskCompletion x u'"
proof -
  obtain q v where t: "reconcileInFlightTask x (svc_start w) = (q, v)" by fastforce
  obtain f u where f: "findVM x v = (f, u)" by fastforce
  consider e where "q = Inl e" | "q = Inr True" | "q = Inr False" by (metis (full_types) sum.exhaust)
  then show thesis
  proof cases
    case 3
    show thesis
    proof (cases f)
      case (Inl e)
      with 3 t f assms that(3,4) show thesis by (cases "isNotFound e") (auto simp: ReconcileVM_def)
    next
      case (Inr ref)
      with 3 t f assms that(5) show thesis by (auto simp: ReconcileVM_def)
    qed
  qed (use t assms that(1,2) in \<open>auto simp: ReconcileVM_def\<close>)
qed

lemma in_flight_part:
  assumes "reconcileInFlightTask x (svc_start w) = (q, v)"
  shows "keeps_spec w v" "calls_ok (\<lambda>c. \<not> leaves_task c) w v" "readonly w v"
  using reconcileInFlightTask_keeps_spec [of "svc_start w" x] reconcileInFlightTask_no_task [of "svc_start w" x]
    reconcileInFlightTask_readonly [of "svc_start w" x] assms
  by (simp_all add: keeps_spec_def calls_ok_def)

section \<open>Properties of ReconcileVM\<close>

lemma ReconcileVM_few_tasks:
  assumes run: "ReconcileVM x w = Some (r, w')"
  shows "few_tasks (has_policy w) w w'"
  using run
proof (cases rule: ReconcileVM_cases)
  case (unknown v e u)
  note i = in_flight_part [OF unknown(1)]
  have "quiet v u" using findVM_quiet [of v x] unknown(2) by simp
  then have "few_tasks (has_policy w) v w'"
    unfolding unknown(5) by (intro one_few_tasks quiet_one_task quiet_trans [OF _ OnTaskCompletion_quiet])
  with i show ?thesis by (blast intro: no_task_then_few_tasks)
next
  case (missing v e u u')
  note i = in_flight_part [OF missing(1)]
  have q: "quiet v u" using findVM_quiet [of v x] missing(2) by simp
  have "few_tasks (has_policy w) v u'" by (rule quiet_then_few_tasks [OF q one_few_tasks [OF create_missing_one_task [OF missing(4)]]])
  then have "few_tasks (has_policy w) v w'" unfolding missing(5) by (rule few_tasks_then_quiet [OF _ OnTaskCompletion_quiet])
  with i show ?thesis by (blast intro: no_task_then_few_tasks)
next
  case (existing v ref u u')
  note i = in_flight_part [OF existing(1)]
  have q: "quiet v u" using findVM_quiet [of v x] existing(2) by simp
  have "has_policy u = has_policy w" using i(1) q by (simp add: keeps_spec_def quiet_def)
  then have "few_tasks (has_policy w) v u'" using quiet_then_few_tasks [OF q reconcile_existing_few_tasks [OF existing(3)]] by simp
  then have "few_tasks (has_policy w) v w'" unfolding existing(4) by (rule few_tasks_then_quiet [OF _ OnTaskCompletion_quiet])
  with i show ?thesis by (blast intro: no_task_then_few_tasks)
next
  case (failed e)
  show ?thesis by (rule no_task_then_few_tasks [OF in_flight_part(1,2) [OF failed(1)]]) (simp add: one_few_tasks)
next
  case in_flight
  show ?thesis by (rule no_task_then_few_tasks [OF in_flight_part(1,2) [OF in_flight(1)]]) (simp add: one_few_tasks)
qed

definition sample_svc :: svc_ctx where
  "sample_svc = \<lparr>hist = [], ctx_VM = zero_VSphereVM, ctx_ClusterModuleInfo = None, ctx_FailureDomain = None,
     svc_vm = initial_vm '''', svc_ipam = Map.empty\<rparr>"

definition sample_found :: ext where
  \<comment> \<open>the VM exists, is powered off and has no metadata yet\<close>
  "sample_found = ext_default\<lparr>x_ref_opt := \<lambda>h. Inr (Some sample_ref), x_ref := \<lambda>h. Inr sample_ref,
     x_string := \<lambda>h. Inr ''poweredOff'', x_netprops := \<lambda>h. Inr \<lparr>np_Devices = Some [], np_GuestNet = None\<rparr>,
     x_extraconfig := \<lambda>h. Inr None, x_task := \<lambda>h. Inr ''task-1'', x_unit := \<lambda>h. Inr (),
     x_taskinfo := \<lambda>h. Inr \<lparr>ti_State = ''queued'', ti_Error = None\<rparr>\<rparr>"

lemma BuildState_no_devices:
  "ns_Devices (c_Network (vm_clone_spec w)) = [] \<Longrightarrow> BuildState x ns w = (Inr Map.empty, w)"
  by (simp add: BuildState_def buildIPAMDeviceConfigs_def)

lemma new_metadata_not_Nil [simp]: "new_metadata w \<noteq> []"
  by (simp add: new_metadata_def metadata_not_Nil)

lemmas run_simps = ReconcileVM_def reconcileInFlightTask_def getTask_def checkAndRetryTask_def findVM_def Let_def
  reconcile_existing_seq finish_existing_seq reconcileUUID_def reconcileHardwareVersion_def reconcilePCIDevices_def
  reconcileNetworkStatus_def getNetworkStatus_def GetNetworkStatus_def reconcileIPAddresses_def BuildState_no_devices
  metadata_step_def getMetadata_def setMetadata_new do_call_def seqO_def reconcileVSphereVMOnTaskCompletion_def
  set_TaskRef_def upd_status_def add_cond_def

lemmas sample_simps = sample_svc_def initial_vm_def zero_VSphereVM_def zero_clone_def sample_ref_def

lemma sample_found_run:
  "\<exists>w' cfg. ReconcileVM sample_found sample_svc = Some (Inr (), w') \<and> Change (VM_Reconfigure sample_ref cfg) \<in> set (hist w')"
  by (simp add: run_simps sample_simps sample_found_def empty_meta_def)

text \<open>
  C7. While the task in \<open>TaskRef\<close> is queued or running, neither \<open>ReconcileVM\<close> nor \<open>DestroyVM\<close> changes
  anything in vCenter or in the VSphereVM, and both report the VM as pending.
\<close>

theorem in_flight_task_blocks_changes:
  assumes ref: "st_TaskRef (vm_status w) = t" "t \<noteq> ''''"
    and info: "x_taskinfo x (hist w @ [Obj (Task_Info t)]) = Inr i" "ti_State i \<in> {''queued'', ''running''}"
  shows "(\<exists>r w'. ReconcileVM x w = Some (r, w') \<and> ctx_VM w' = ctx_VM w \<and> svm_State (svc_vm w') = VirtualMachineStatePending \<and>
      list_all (\<lambda>c. \<not> vcenter_change c) (new_calls w w')) \<and>
    (\<exists>r w'. DestroyVM x w = (r, w') \<and> ctx_VM w' = ctx_VM w \<and> svm_State (svc_vm w') = VirtualMachineStatePending \<and>
      list_all (\<lambda>c. \<not> vcenter_change c) (new_calls w w'))"
proof -
  let ?v = "svc_start w"
  obtain q v where q: "reconcileInFlightTask x ?v = (q, v)" by fastforce
  have q': "q \<noteq> Inr False" and v: "ctx_VM v = ctx_VM w" "svc_vm v = initial_vm (vm_name w)"
    using q ref info
    by (auto simp: reconcileInFlightTask_def getTask_def do_call_def checkAndRetryTask_def task_state_def
        split: option.splits if_splits)
  have r: "list_all (\<lambda>c. \<not> vcenter_change c) (new_calls w v)"
    using in_flight_part(3) [OF q] by (simp add: calls_ok_new_calls)
  consider e where "q = Inl e" | "q = Inr True" using q' by (cases q) auto
  then show ?thesis
    by cases (use q v r in \<open>auto simp: ReconcileVM_def DestroyVM_def initial_vm_def\<close>)
qed

theorem in_flight_task_blocks_changes_witness:
  "\<exists>r w'. ReconcileVM sample_found (set_TaskRef ''task-0'' sample_svc) = Some (r, w') \<and>
     svm_State (svc_vm w') = VirtualMachineStatePending \<and>
     list_all (\<lambda>c. \<not> vcenter_change c) (new_calls (set_TaskRef ''task-0'' sample_svc) w')"
  using in_flight_task_blocks_changes [of "set_TaskRef ''task-0'' sample_svc" "''task-0''" sample_found
      "\<lparr>ti_State = ''queued'', ti_Error = None\<rparr>"]
  by (auto simp: sample_found_def)

section \<open>What a ready VM has gone through\<close>

definition answered :: "(call list \<Rightarrow> 'r) \<Rightarrow> call \<Rightarrow> 'r \<Rightarrow> 'v world_scheme \<Rightarrow> 'w world_scheme \<Rightarrow> bool" where
  \<comment> \<open>between the two states the call was made and got this answer\<close>
  "answered f c r w w' \<longleftrightarrow> (\<exists>h. prefix (hist w) h \<and> prefix (h @ [c]) (hist w') \<and> f (h @ [c]) = r)"

lemma answered_mono:
  assumes "answered f c r u v" "prefix (hist w) (hist u)" "prefix (hist v) (hist w')"
  shows "answered f c r w w'"
proof -
  obtain h where "prefix (hist u) h" "prefix (h @ [c]) (hist v)" "f (h @ [c]) = r"
    using assms(1) unfolding answered_def by blast
  then show ?thesis
    unfolding answered_def using prefix_order.trans [OF assms(2)] prefix_order.trans [OF _ assms(3)] by blast
qed

lemma answered_now: "f (hist w @ [c]) = r \<Longrightarrow> prefix (hist w @ [c]) (hist w') \<Longrightarrow> answered f c r w w'"
  by (auto simp: answered_def)

lemma one_task_prefix: "one_task w w' \<Longrightarrow> prefix (hist w) (hist w')"
  by (simp add: one_task_def)

lemma power_goes_on:
  assumes "reconcilePowerState x ref w = (Inr True, w')"
  shows "answered (x_string x) (Obj (VM_PowerState ref)) (Inr ''poweredOn'') w w'"
  using assms
  by (auto simp: reconcilePowerState_def getPowerState_def vm_Patch_def step_unfolds
      split: sum.splits if_splits intro!: answered_now)

lemma metadata_goes_on:
  assumes "metadata_step x ref w = (Inr True, w')"
  shows "\<exists>cfg. answered (x_extraconfig x) (Obj (VM_ExtraConfig ref)) (Inr (Some cfg)) w w' \<and>
    DecodeString (metadata_option cfg) = Some (new_metadata w) \<and> w' = w\<lparr>hist := hist w @ [Obj (VM_ExtraConfig ref)]\<rparr>"
proof -
  obtain r where g: "getMetadata x ref w = (r, w\<lparr>hist := hist w @ [Obj (VM_ExtraConfig ref)]\<rparr>)" by (rule getMetadata_cases)
  have r: "r = Inr (new_metadata w)" and w': "w' = w\<lparr>hist := hist w @ [Obj (VM_ExtraConfig ref)]\<rparr>"
    using assms by (auto simp: metadata_step_def g setMetadata_new bindE_def wrapE_def do_call_def split: sum.splits if_splits)
  then have "\<exists>cfg. x_extraconfig x (hist w @ [Obj (VM_ExtraConfig ref)]) = Inr (Some cfg) \<and>
      DecodeString (metadata_option cfg) = Some (new_metadata w)"
    using g by (auto simp: getMetadata_def new_metadata_not_Nil [THEN not_sym] bindE_def wrapE_def do_call_def Let_def split: sum.splits option.splits if_splits)
  then obtain cfg where "x_extraconfig x (hist w @ [Obj (VM_ExtraConfig ref)]) = Inr (Some cfg)"
      "DecodeString (metadata_option cfg) = Some (new_metadata w)" by blast
  then show ?thesis using answered_now [of "x_extraconfig x" w _ "Inr (Some cfg)" w'] w' by auto
qed

definition tags_attached :: "ext \<Rightarrow> moref \<Rightarrow> string list \<Rightarrow> 'v world_scheme \<Rightarrow> 'w world_scheme \<Rightarrow> bool" where
  "tags_attached x ref tagIDs w w' \<longleftrightarrow>
     tagIDs = [] \<or> answered (x_unit x) (Change (AttachMultipleTagsToObject tagIDs ref)) (Inr ()) w w'"

lemma tags_ready:
  "ready_post (\<lambda>w. case reconcileTags x ref w of
       (Inl err, w) \<Rightarrow> Some (Inl err, add_cond (not_provisioned ''TagsAttachmentFailed'' SeverityError err) w)
     | (Inr _, w) \<Rightarrow> Some (Inr (), w\<lparr>svc_vm := (svc_vm w)\<lparr>svm_State := VirtualMachineStateReady\<rparr>\<rparr>))
   (\<lambda>w r w'. r = Inr () \<and> svc_vm w' = (svc_vm w)\<lparr>svm_State := VirtualMachineStateReady\<rparr> \<and> svc_ipam w' = svc_ipam w \<and>
      one_task w w' \<and> tags_attached x ref (c_TagIDs (vm_clone_spec w)) w w')"
  by (auto simp: tags_attached_def ready_post_def reconcileTags_def step_unfolds split: if_splits sum.splits intro!: answered_now)

lemma finish_ready:
  assumes run: "finish_existing x ref w = Some (r, w')"
    and pending: "svm_State (svc_vm w) = VirtualMachineStatePending" and ready: "svm_State (svc_vm w') = VirtualMachineStateReady"
  shows "r = Inr () \<and> svc_vm w' = (svc_vm w)\<lparr>svm_State := VirtualMachineStateReady\<rparr> \<and> svc_ipam w' = svc_ipam w \<and>
    prefix (hist w) (hist w') \<and> keeps_spec w w' \<and>
    answered (x_string x) (Obj (VM_PowerState ref)) (Inr ''poweredOn'') w w' \<and>
    tags_attached x ref (c_TagIDs (vm_clone_spec w)) w w'"
proof -
  note post = policy.seq_ready [OF group.seq_ready [OF module.seq_ready [OF power.seq_ready [OF host.seq_ready [OF tags_ready]]]]]
  from post [of x ref x ref x ref x ref x ref x ref, folded finish_existing_seq, unfolded ready_post_def, rule_format, OF run pending ready]
  obtain w1 w2 w3 w4 w5 where
      s: "reconcileStoragePolicy x ref w = (Inr (), w1)" "reconcileVMGroupInfo x ref w1 = (Inr True, w2)"
        "reconcileClusterModuleMembership x ref w2 = (Inr (), w3)" "reconcilePowerState x ref w3 = (Inr True, w4)"
        "reconcileHostInfo x ref w4 = (Inr (), w5)"
    and o': "one_task w w1" "one_task w1 w2" "one_task w2 w3" "one_task w3 w4" "one_task w4 w5" "one_task w5 w'"
    and e: "r = Inr ()" "svc_vm w' = (svc_vm w5)\<lparr>svm_State := VirtualMachineStateReady\<rparr>" "svc_ipam w' = svc_ipam w5"
      "tags_attached x ref (c_TagIDs (vm_clone_spec w5)) w5 w'"
    by auto
  note f = s [THEN arg_cong, of snd]
  have report: "svc_vm w5 = svc_vm w" "svc_ipam w5 = svc_ipam w"
    using policy_keeps_report [of x ref w] group.keeps_report [of x ref w1] module.keeps_report [of x ref w2]
      power.keeps_report [of x ref w3] host.keeps_report [of x ref w4] by (simp_all add: f)
  have p: "prefix (hist w) (hist w3)" "prefix (hist w4) (hist w')" "prefix (hist w) (hist w5)" "prefix (hist w) (hist w')"
    using o' [THEN one_task_prefix] by (blast intro: prefix_order.trans)+
  have k: "keeps_spec w w5" "keeps_spec w w'" using o' by (auto simp: one_task_def keeps_spec_def same_report_def)
  have "answered (x_string x) (Obj (VM_PowerState ref)) (Inr ''poweredOn'') w w'"
    by (rule answered_mono [OF power_goes_on [OF s(4)] p(1,2)])
  then show ?thesis
    using e report p(4) k answered_mono [OF _ p(3) prefix_order.refl, of "x_unit x" _ "Inr ()" w']
    by (auto simp: keeps_spec_def tags_attached_def)
qed

lemma svc_vm_wrapE: "svc_vm (snd m) = a \<Longrightarrow> svc_vm (snd (wrapE s as m)) = a"
  by simp

lemma svc_vm_pair: "svc_vm (snd (r, w)) = svc_vm w"
  by simp

lemma svc_vm_do_call: "svc_vm (snd (do_call c f w)) = svc_vm w"
  by (simp add: do_call_def)

lemma svc_vm_record [simp]: "svc_vm (record_clone_mode r w) = svc_vm w"
  by (simp add: record_clone_mode_def split: option.split)

lemma clone_prepare_svc_vm: "svc_vm (snd (clone_prepare x ec w)) = svc_vm w"
  unfolding clone_prepare_def Let_def
  by (intro bindE_field [where F = svc_vm] svc_vm_wrapE svc_vm_pair svc_vm_do_call
      svc_frame(1) [OF FindTemplate_calls(2)] svc_frame(1) [OF clone_snapshot_calls(2)]
      svc_frame(1) [OF clone_device_specs_calls(2)] svc_frame(1) [OF clone_datastore_calls(2)]
      svc_frame(1) [OF crypto_profile_calls(2)] svc_frame(1) [OF crypto_key_calls(2)])
    (simp_all add: svc_vm_do_call)

lemma createVM_svc_vm: "createVM x d f w = Some (r, w') \<Longrightarrow> svc_vm w' = svc_vm w"
proof -
  have "svc_vm (snd (clone_request x ec w)) = svc_vm w" for ec
    unfolding clone_request_def
    by (rule bindE_field [where F = svc_vm, OF clone_prepare_svc_vm])
      (auto simp: vm_Patch_def step_unfolds split: sum.splits)
  then show "createVM x d f w = Some (r, w') \<Longrightarrow> svc_vm w' = svc_vm w"
    by (auto simp: createVM_def Clone_def split: if_splits) (metis snd_conv)
qed

lemma create_missing_not_ready:
  assumes run: "create_missing x e w = Some (r, w')" and pending: "svm_State (svc_vm w) = VirtualMachineStatePending"
  shows "svm_State (svc_vm w') \<noteq> VirtualMachineStateReady"
proof -
  have b: "svc_vm (snd (getBootstrapData x (add_cond ops w))) = svc_vm w" for ops
    by (simp add: getBootstrapData_def step_unfolds split: sum.split option.split)
  show ?thesis
    using run
  proof (cases rule: create_missing_cases)
    case (no_data ops ops' e' u)
    then show ?thesis using b [of ops] pending by simp
  next
    case (clone ops ops' d f u r' u')
    then show ?thesis using b [of ops] pending createVM_svc_vm [OF clone(2)] by simp
  qed simp
qed

lemma reconcileInFlightTask_svc_vm: "svc_vm (snd (reconcileInFlightTask x w)) = svc_vm w"
proof -
  obtain t v where g: "getTask x w = (t, v)" by fastforce
  have "svc_vm v = svc_vm w" by (rule svc_frame [OF getTask_cases(2) [OF g]])
  moreover have "svc_vm (snd (checkAndRetryTask x t v)) = svc_vm v"
    by (simp add: checkAndRetryTask_def task_state_def task_failed_def do_call_def Let_def split: option.split)
  ultimately show ?thesis by (simp add: reconcileInFlightTask_def g)
qed

lemma reconcile_existing_ready:
  assumes run: "reconcile_existing x ref w = Some (r, w')"
    and pending: "svm_State (svc_vm w) = VirtualMachineStatePending" and ready: "svm_State (svc_vm w') = VirtualMachineStateReady"
  shows "r = Inr () \<and> svm_VMRef (svc_vm w') = moref_String ref \<and> prefix (hist w) (hist w') \<and>
    answered (x_string x) (Obj (VM_PowerState ref)) (Inr ''poweredOn'') w w' \<and>
    tags_attached x ref (c_TagIDs (vm_clone_spec w)) w w' \<and>
    (\<exists>cfg. answered (x_extraconfig x) (Obj (VM_ExtraConfig ref)) (Inr (Some cfg)) w w' \<and>
      DecodeString (metadata_option cfg) =
        Some (GetMachineMetadata (vm_name w) (ctx_VM w) (svc_ipam w') (svm_Network (svc_vm w'))))"
proof -
  let ?v = "reconcileUUID x ref (w\<lparr>svc_vm := (svc_vm w)\<lparr>svm_VMRef := moref_String ref\<rparr>\<rparr>)"
  have v: "quiet w ?v" by (rule quiet_trans [OF _ reconcileUUID_quiet]) simp
  have v': "svm_State (svc_vm ?v) = VirtualMachineStatePending" "svm_VMRef (svc_vm ?v) = moref_String ref"
    using pending by (simp_all add: reconcileUUID_def do_call_def split: sum.split)
  have rest: "ready_post (finish_existing x ref) (\<lambda>w r w'. finish_existing x ref w = Some (r, w') \<and>
      svm_State (svc_vm w) = VirtualMachineStatePending)" by (simp add: ready_post_def)
  note post = hw.seq_ready [OF pci.seq_ready [OF net.seq_ready [OF ips.seq_ready [OF md.seq_ready [OF rest]]]]]
  from post [of x ref x ref x ref x x ref, unfolded ready_post_def, rule_format,
      OF run [unfolded reconcile_existing_seq] v'(1) ready]
  obtain w1 w2 w3 w4 w5 where
      md: "metadata_step x ref w4 = (Inr True, w5)" and f: "finish_existing x ref w5 = Some (r, w')"
        "svm_State (svc_vm w5) = VirtualMachineStatePending"
    and o': "one_task ?v w1" "one_task w1 w2" "one_task w2 w3" "one_task w3 w4" "one_task w4 w5"
    and vr: "svm_VMRef (svc_vm w5) = svm_VMRef (svc_vm ?v)" by auto
  note fin = finish_ready [OF f ready]
  from metadata_goes_on [OF md] obtain cfg where
      c: "answered (x_extraconfig x) (Obj (VM_ExtraConfig ref)) (Inr (Some cfg)) w4 w5"
        "DecodeString (metadata_option cfg) = Some (new_metadata w4)"
    and w5: "w5 = w4\<lparr>hist := hist w4 @ [Obj (VM_ExtraConfig ref)]\<rparr>" by blast
  have p: "prefix (hist w) (hist w4)" "prefix (hist w) (hist w5)" "prefix (hist w5) (hist w')" "prefix (hist w) (hist w')"
    using v quietD(2) [OF v] o' [THEN one_task_prefix] fin by (blast intro: prefix_order.trans)+
  have k: "keeps_spec w w4" "keeps_spec w w5" using quietD(1) [OF v] o' by (auto simp: one_task_def keeps_spec_def same_report_def)
  have "new_metadata w4 = GetMachineMetadata (vm_name w) (ctx_VM w) (svc_ipam w') (svm_Network (svc_vm w'))"
    using fin k(1) by (simp add: w5 new_metadata_def GetMachineMetadata_def keeps_spec_def)
  moreover have "answered (x_extraconfig x) (Obj (VM_ExtraConfig ref)) (Inr (Some cfg)) w w'"
    by (rule answered_mono [OF c(1) p(1,3)])
  moreover have "answered (x_string x) (Obj (VM_PowerState ref)) (Inr ''poweredOn'') w w'"
    using fin p(2) by (blast intro: answered_mono)
  moreover have "tags_attached x ref (c_TagIDs (vm_clone_spec w)) w w'"
    using fin k(2) p(2) answered_mono [OF _ p(2) prefix_order.refl, of "x_unit x" _ "Inr ()" w']
    by (auto simp: tags_attached_def keeps_spec_def)
  ultimately show ?thesis using fin c(2) v'(2) vr p(4) by auto
qed

lemma deferred_report [simp]:
  "svc_vm (reconcileVSphereVMOnTaskCompletion x u) = svc_vm u" "svc_ipam (reconcileVSphereVMOnTaskCompletion x u) = svc_ipam u"
  "ctx_VM (reconcileVSphereVMOnTaskCompletion x u) = ctx_VM u"
  by (rule svc_frame same_but_hist_fields, rule reconcileVSphereVMOnTaskCompletion_frame)+

lemma ready_was_found:
  assumes run: "ReconcileVM x w = Some (r, w')" and ready: "svm_State (svc_vm w') = VirtualMachineStateReady"
  obtains v ref u u' where "reconcileInFlightTask x (svc_start w) = (Inr False, v)" "findVM x v = (Inr ref, u)"
    "reconcile_existing x ref u = Some (r, u')" "w' = reconcileVSphereVMOnTaskCompletion x u'"
    "svm_State (svc_vm u) = VirtualMachineStatePending" "svm_State (svc_vm u') = VirtualMachineStateReady"
proof -
  have start: "svm_State (svc_vm v) = VirtualMachineStatePending" if "reconcileInFlightTask x (svc_start w) = (q, v)" for q v
    using reconcileInFlightTask_svc_vm [of x "svc_start w"] that by (simp add: initial_vm_def)
  have find: "svm_State (svc_vm u) = VirtualMachineStatePending"
    if "reconcileInFlightTask x (svc_start w) = (q, v)" "findVM x v = (f, u)" for q v f u
    using start [OF that(1)] svc_frame(1) [OF findVM_frame(2) [of v x]] that(2) by simp
  show thesis
    using run
  proof (cases rule: ReconcileVM_cases)
    case (missing v e u u')
    then show thesis using create_missing_not_ready [OF missing(4) find [OF missing(1,2)]] ready by simp
  next
    case (existing v ref u u')
    then show thesis using that find ready by simp
  next
    case (unknown v e u)
    then show thesis using find ready by fastforce
  qed (use start ready in fastforce)+
qed

text \<open>
  C1. A VM that \<open>ReconcileVM\<close> reports as ready was found in vCenter, and in this reconciliation vCenter
  answered that it is powered on, that the tags of the spec are attached, and that its cloud-init
  metadata decodes to the one computed from the spec, the bound IP addresses and the network status
  that are reported with it.
\<close>

theorem ready_means_converged:
  assumes run: "ReconcileVM x w = Some (r, w')" and ready: "svm_State (svc_vm w') = VirtualMachineStateReady"
  shows "r = Inr () \<and> (\<exists>ref cfg. svm_VMRef (svc_vm w') = moref_String ref \<and>
    answered (x_string x) (Obj (VM_PowerState ref)) (Inr ''poweredOn'') w w' \<and>
    tags_attached x ref (c_TagIDs (vm_clone_spec w)) w w' \<and>
    answered (x_extraconfig x) (Obj (VM_ExtraConfig ref)) (Inr (Some cfg)) w w' \<and>
    DecodeString (metadata_option cfg) =
      Some (GetMachineMetadata (vm_name w) (ctx_VM w) (svc_ipam w') (svm_Network (svc_vm w'))))"
proof -
  obtain v ref u u' where existing: "reconcileInFlightTask x (svc_start w) = (Inr False, v)" "findVM x v = (Inr ref, u)"
      "reconcile_existing x ref u = Some (r, u')" "w' = reconcileVSphereVMOnTaskCompletion x u'"
    and st: "svm_State (svc_vm u) = VirtualMachineStatePending" "svm_State (svc_vm u') = VirtualMachineStateReady"
    by (rule ready_was_found [OF run ready])
  note e = reconcile_existing_ready [OF existing(3) st]
  have p: "prefix (hist w) (hist u)" "prefix (hist u') (hist w')"
    using calls_ok_prefix [OF in_flight_part(2) [OF existing(1)]] quietD(2) [OF findVM_quiet [of v x]]
      quietD(2) [OF OnTaskCompletion_quiet [of u' x]] existing(2,4) by (auto intro: prefix_order.trans)
  have k: "keeps_spec w u" using in_flight_part(1) [OF existing(1)] quietD(1) [OF findVM_quiet [of v x]] existing(2)
    by (auto intro: keeps_spec_trans)
  have t: "tags_attached x ref (c_TagIDs (vm_clone_spec w)) w w'"
    using e answered_mono [OF _ p, of "x_unit x" _ "Inr ()"] k by (auto simp: tags_attached_def keeps_spec_def)
  have m: "GetMachineMetadata (vm_name u) (ctx_VM u) (svc_ipam u') (svm_Network (svc_vm u')) =
      GetMachineMetadata (vm_name w) (ctx_VM w) (svc_ipam w') (svm_Network (svc_vm w'))"
    using k existing(4) by (simp add: GetMachineMetadata_def keeps_spec_def)
  from e obtain cfg where "answered (x_extraconfig x) (Obj (VM_ExtraConfig ref)) (Inr (Some cfg)) u u'"
    "DecodeString (metadata_option cfg) = Some (GetMachineMetadata (vm_name u) (ctx_VM u) (svc_ipam u') (svm_Network (svc_vm u')))"
    by blast
  then show ?thesis
    using e t answered_mono [OF _ p, of "x_string x"] answered_mono [OF _ p, of "x_extraconfig x"]
    unfolding m existing(4) deferred_report by blast
qed

definition sample_metadata :: string where
  "sample_metadata = GetMachineMetadata '''' zero_VSphereVM Map.empty []"

definition sample_running :: ext where
  \<comment> \<open>the VM exists, is powered on and has its metadata\<close>
  "sample_running = sample_found\<lparr>x_string := \<lambda>h. Inr ''poweredOn'',
     x_extraconfig := \<lambda>h. Inr (Some [(guestInfoKeyMetadata, StringValue (EncodeToString sample_metadata))])\<rparr>"

lemma sample_metadata_not_Nil [simp]: "sample_metadata \<noteq> []"
  by (simp add: sample_metadata_def metadata_not_Nil)

lemma sample_running_run:
  "\<exists>w'. ReconcileVM sample_running sample_svc = Some (Inr (), w') \<and> svm_State (svc_vm w') = VirtualMachineStateReady"
proof -
  have [simp]: "new_metadata w = sample_metadata"
    if "ctx_VM w = zero_VSphereVM" "svc_ipam w = Map.empty" "svm_Network (svc_vm w) = []" for w
    using that by (simp add: new_metadata_def sample_metadata_def zero_VSphereVM_def empty_meta_def)
  have "case ReconcileVM sample_running sample_svc of
      Some (r, w') \<Rightarrow> r = Inr () \<and> svm_State (svc_vm w') = VirtualMachineStateReady | None \<Rightarrow> False"
    by (simp add: run_simps sample_svc_def initial_vm_def sample_ref_def sample_running_def sample_found_def metadata_option_def)
      (simp add: run_simps zero_VSphereVM_def zero_clone_def reconcileStoragePolicy_def reconcileVMGroupInfo_def
        reconcileClusterModuleMembership_def reconcilePowerState_def getPowerState_def reconcileHostInfo_def reconcileTags_def)
  then show ?thesis by (auto split: option.splits)
qed

theorem ready_means_converged_witness:
  "\<exists>w' ref. ReconcileVM sample_running sample_svc = Some (Inr (), w') \<and> svm_VMRef (svc_vm w') = moref_String ref \<and>
     answered (x_string sample_running) (Obj (VM_PowerState ref)) (Inr ''poweredOn'') sample_svc w'"
  using sample_running_run ready_means_converged [of sample_running sample_svc "Inr ()"] by blast

end
