(* ===== verification/VM_Service_Destroy.thy ===== *)
theory VM_Service_Destroy
  imports VM_Service_Correct
begin

text \<open>
  Deleting a VM: properties of \<open>DestroyVM\<close>, and the two facts on \<open>ReconcileVM\<close> that concern
  progress: it returns, and the metadata it writes is the one it reads back. Last, what a failed task does to both: the delay before a retry.
\<close>

section \<open>DestroyVM\<close>

lemma triggerSoftPowerOff_quiet: "quiet w (snd (triggerSoftPowerOff x ref w))"
  by (auto simp: triggerSoftPowerOff_def isSoftPowerOffTimeoutExceeded_def step_unfolds split: sum.split)

lemma new_calls_append [simp]: "new_calls w (w\<lparr>hist := hist w @ cs\<rparr>) = cs"
  by (simp add: new_calls_def)

lemma new_calls_status [simp]:
  "new_calls w (set_TaskRef t v) = new_calls w v" "new_calls w (add_cond ops v) = new_calls w v"
  "new_calls w (upd_status f v) = new_calls w v"
  by (simp_all add: new_calls_def)

definition tasks :: "'v world_scheme \<Rightarrow> 'w world_scheme \<Rightarrow> call list" where
  \<comment> \<open>the tasks left running between two states\<close>
  "tasks w w' = filter leaves_task (new_calls w w')"

lemma power_off_hard_calls:
  "tasks w (snd (power_off_hard x ref w)) = [Change (VM_PowerOff ref)]"
  "prefix (hist w) (hist (snd (power_off_hard x ref w)))" "keeps_spec w (snd (power_off_hard x ref w))"
  by (simp_all add: power_off_hard_def vm_Patch_def step_unfolds tasks_def new_calls_def keeps_spec_def split: sum.split)

lemma destroy_powered_off_calls:
  "tasks w (snd (destroy_powered_off x ref w)) \<in> {[], [Change (VM_Destroy ref)]}"
  "prefix (hist w) (hist (snd (destroy_powered_off x ref w)))" "keeps_spec w (snd (destroy_powered_off x ref w))"
  by (auto simp: destroy_powered_off_def RemoveMoRefFromModule_def step_unfolds tasks_def new_calls_def keeps_spec_def
      split: sum.split option.split)

lemma tasks_quiet_then:
  assumes "quiet u v" "prefix (hist v) (hist w)"
  shows "tasks u w = tasks v w"
  using new_calls_trans [OF quietD(2) [OF assms(1)] assms(2)] quietD(3) [OF assms(1)] by (simp add: tasks_def)

lemma tasks_then_quiet:
  assumes "prefix (hist u) (hist v)" "quiet v w"
  shows "tasks u w = tasks u v"
  using new_calls_trans [OF assms(1) quietD(2) [OF assms(2)]] quietD(3) [OF assms(2)] by (simp add: tasks_def)

lemma tasks_quiet: "quiet u v \<Longrightarrow> tasks u v = []"
  by (simp add: tasks_def quietD)

lemma getPowerState_answer:
  assumes "getPowerState x ref w = (Inr p, v)"
  shows "v = w\<lparr>hist := hist w @ [Obj (VM_PowerState ref)]\<rparr> \<and> (\<exists>s. x_string x (hist v) = Inr s \<and>
    (s = ''poweredOn'' \<longleftrightarrow> p = VirtualMachinePowerStatePoweredOn))"
  using assms by (auto simp: getPowerState_def step_unfolds split: sum.splits if_splits)

definition power_answer :: "ext \<Rightarrow> moref \<Rightarrow> bool \<Rightarrow> 'v world_scheme \<Rightarrow> 'w world_scheme \<Rightarrow> bool" where
  \<comment> \<open>vCenter was asked for the power state and said on, or something else\<close>
  "power_answer x ref on w w' \<longleftrightarrow>
     (\<exists>s. answered (x_string x) (Obj (VM_PowerState ref)) (Inr s) w w' \<and> (s = ''poweredOn'') = on)"

lemma power_answer_mono:
  "power_answer x ref on u v \<Longrightarrow> prefix (hist w) (hist u) \<Longrightarrow> prefix (hist v) (hist w') \<Longrightarrow> power_answer x ref on w w'"
  unfolding power_answer_def by (blast intro: answered_mono)

lemma soft_stays_pending:
  "s_PowerOffMode (vm_spec w) = VirtualMachinePowerOpModeSoft \<Longrightarrow> triggerSoftPowerOff x ref w \<noteq> (Inr False, w')"
  by (auto simp: triggerSoftPowerOff_def step_unfolds power_mode_defs split: sum.splits if_splits)

lemma destroy_existing_tasks:
  fixes w :: "'w svc_ctx_scheme"
  assumes run: "destroy_existing x ref w = (r, w')"
  shows "prefix (hist w) (hist w') \<and> keeps_spec w w' \<and>
    (tasks w w' = [] \<or>
     tasks w w' = [Change (VM_Destroy ref)] \<and> power_answer x ref False w w' \<or>
     tasks w w' = [Change (VM_PowerOff ref)] \<and> power_answer x ref True w w' \<and>
       s_PowerOffMode (vm_spec w) \<noteq> VirtualMachinePowerOpModeSoft)"
proof -
  obtain p v where p: "getPowerState x ref w = (p, v)" by fastforce
  have wv: "quiet w v" using getPowerState_quiet [of w x ref] p by simp
  have ans: "power_answer x ref (ps = VirtualMachinePowerStatePoweredOn) w w'"
    if "p = Inr ps" "prefix (hist v) (hist w')" for ps
    using getPowerState_answer [OF p [unfolded that(1)]] that(2) by (auto simp: power_answer_def intro!: answered_now)
  consider (stop) "quiet v w'"
    | (hard) u where "p = Inr VirtualMachinePowerStatePoweredOn" "triggerSoftPowerOff x ref v = (Inr False, u)"
        "w' = snd (power_off_hard x ref u)"
    | (off) ps ops where "p = Inr ps" "ps \<noteq> VirtualMachinePowerStatePoweredOn"
        "w' = snd (destroy_powered_off x ref (add_cond ops v))"
  proof (cases p)
    case (Inl e)
    then show thesis using run p stop by (auto simp: destroy_existing_def)
  next
    case (Inr ps)
    show thesis
    proof (cases "ps = VirtualMachinePowerStatePoweredOn")
      case True
      then show thesis
        using run p Inr stop hard triggerSoftPowerOff_quiet [of v x ref]
        by (auto simp: destroy_existing_def bindE_def split: prod.splits sum.splits if_splits)
    next
      case False
      then have "\<exists>ops. destroy_powered_off x ref (add_cond ops v) = (r, w')"
        using run p Inr by (auto simp: destroy_existing_def split: if_splits intro: exI [of _ "[]"])
      then show thesis using off [OF Inr False] by (metis snd_conv)
    qed
  qed
  then show ?thesis
  proof cases
    case stop
    then have "quiet w w'" by (rule quiet_trans [OF wv])
    then show ?thesis by (simp add: quietD tasks_quiet)
  next
    case (hard u)
    have vu: "quiet v u" using triggerSoftPowerOff_quiet [of v x ref] hard(2) by simp
    have wu: "quiet w u" by (rule quiet_trans [OF wv vu])
    note c = power_off_hard_calls [where w = u and x = x and ref = ref, folded hard(3)]
    have "tasks w w' = [Change (VM_PowerOff ref)]" by (simp only: tasks_quiet_then [OF wu c(2)] c(1))
    moreover have "prefix (hist v) (hist w')" "prefix (hist w) (hist w')"
      using quietD(2) [OF vu] quietD(2) [OF wu] c(2) by (blast intro: prefix_order.trans)+
    moreover have "keeps_spec w w'" using quietD(1) [OF wu] c(3) by (rule keeps_spec_trans)
    moreover have "s_PowerOffMode (vm_spec w) \<noteq> VirtualMachinePowerOpModeSoft"
      using soft_stays_pending [of v x ref u] hard(2) quietD(1) [OF wv] by (auto simp: keeps_spec_def)
    ultimately show ?thesis using ans [OF hard(1)] by simp
  next
    case (off ps ops)
    have wu: "quiet w (add_cond ops v)" using wv by simp
    note c = destroy_powered_off_calls [where w = "add_cond ops v" and x = x and ref = ref, folded off(3)]
    have "tasks w w' \<in> {[], [Change (VM_Destroy ref)]}" using tasks_quiet_then [OF wu c(2)] c(1) by simp
    moreover have "prefix (hist v) (hist w')" "prefix (hist w) (hist w')"
      using quietD(2) [OF wu] c(2) by (auto intro: prefix_order.trans)
    moreover have "keeps_spec w w'" using quietD(1) [OF wu] c(3) by (rule keeps_spec_trans)
    ultimately show ?thesis using ans [OF off(1)] off(2) by auto
  qed
qed

lemma DestroyVM_tasks:
  assumes run: "DestroyVM x w = (r, w')"
  shows "prefix (hist w) (hist w') \<and> keeps_spec w w' \<and> (tasks w w' = [] \<or>
    (\<exists>ref. tasks w w' = [Change (VM_Destroy ref)] \<and> power_answer x ref False w w') \<or>
    (\<exists>ref. tasks w w' = [Change (VM_PowerOff ref)] \<and> power_answer x ref True w w' \<and>
       s_PowerOffMode (vm_spec w) \<noteq> VirtualMachinePowerOpModeSoft))"
proof -
  obtain q v where q: "reconcileInFlightTask x (svc_start w) = (q, v)" by fastforce
  note i = in_flight_part [OF q]
  have wv: "prefix (hist w) (hist v)" "tasks w v = []"
    using calls_ok_prefix [OF i(2)] no_tasks_new_calls [OF i(2)] by (simp_all add: tasks_def)
  show ?thesis
  proof (cases "q = Inr False")
    case False
    then have "w' = v" using run q by (auto simp: DestroyVM_def split: sum.splits bool.splits)
    then show ?thesis using wv i(1) by simp
  next
    case True
    obtain f u where f: "findVM x v = (f, u)" by fastforce
    have vu: "quiet v u" using findVM_quiet [of v x] f by simp
    have wu: "keeps_spec w u" using i(1) quietD(1) [OF vu] by (rule keeps_spec_trans)
    have end': "tasks w (reconcileVSphereVMOnTaskCompletion x u') = tasks u u'"
      "prefix (hist w) (hist u)" "prefix (hist u') (hist (reconcileVSphereVMOnTaskCompletion x u'))"
      "prefix (hist w) (hist (reconcileVSphereVMOnTaskCompletion x u'))"
      if "prefix (hist u) (hist u')" for u'
    proof -
      have p: "prefix (hist v) (hist u')" "prefix (hist w) (hist u')"
        using quietD(2) [OF vu] wv that by (blast intro: prefix_order.trans)+
      have "tasks w u' = tasks v u'" using new_calls_trans [OF wv(1) p(1)] wv(2) by (simp add: tasks_def)
      then show "tasks w (reconcileVSphereVMOnTaskCompletion x u') = tasks u u'"
        by (simp add: tasks_then_quiet [OF p(2) OnTaskCompletion_quiet] tasks_quiet_then [OF vu that])
      show "prefix (hist w) (hist u)" using quietD(2) [OF vu] wv by (blast intro: prefix_order.trans)
      show "prefix (hist u') (hist (reconcileVSphereVMOnTaskCompletion x u'))" by (rule quietD(2) [OF OnTaskCompletion_quiet])
      then show "prefix (hist w) (hist (reconcileVSphereVMOnTaskCompletion x u'))" by (rule prefix_order.trans [OF p(2)])
    qed
    have last: "keeps_spec w (reconcileVSphereVMOnTaskCompletion x u')" if "keeps_spec u u'" for u'
      by (rule keeps_spec_trans [OF keeps_spec_trans [OF wu that] quietD(1) [OF OnTaskCompletion_quiet]])
    show ?thesis
    proof (cases f)
      case (Inl e)
      then obtain u' where "w' = reconcileVSphereVMOnTaskCompletion x u'" "hist u' = hist u" "keeps_spec u u'"
        using run q True f by (auto simp: DestroyVM_def keeps_spec_def split: if_splits)
      then show ?thesis using end'(1,4) [of u'] last [of u'] by (simp add: tasks_def new_calls_def)
    next
      case (Inr ref)
      then obtain r' u' where d: "destroy_existing x ref u = (r', u')" and w': "w' = reconcileVSphereVMOnTaskCompletion x u'"
        using run q True f by (auto simp: DestroyVM_def split: prod.splits)
      note t = destroy_existing_tasks [OF d]
      have "s_PowerOffMode (vm_spec u) = s_PowerOffMode (vm_spec w)" using i(1) quietD(1) [OF vu] by (simp add: keeps_spec_def)
      then show ?thesis unfolding w' using t end' [of u'] last [of u'] power_answer_mono [of x ref _ u u' w] by auto
    qed
  qed
qed

text \<open>
  C15. \<open>DestroyVM\<close> starts at most one task. It destroys a VM only after vCenter said, in the same
  call, that the VM is not powered on (it is powered off or suspended); it powers a VM off hard only after vCenter said that it is
  on, and never in mode \<open>soft\<close>.
\<close>

theorem destroy_only_when_not_powered_on:
  assumes run: "DestroyVM x w = (r, w')"
  shows "tasks w w' = [] \<or>
    (\<exists>ref. tasks w w' = [Change (VM_Destroy ref)] \<and> power_answer x ref False w w') \<or>
    (\<exists>ref. tasks w w' = [Change (VM_PowerOff ref)] \<and> power_answer x ref True w w' \<and>
       s_PowerOffMode (vm_spec w) \<noteq> VirtualMachinePowerOpModeSoft)"
  using DestroyVM_tasks [OF run] by blast

theorem destroy_only_when_not_powered_on_witness:
  "tasks sample_svc (snd (DestroyVM sample_found sample_svc)) = [Change (VM_Destroy sample_ref)] \<and>
   power_answer sample_found sample_ref False sample_svc (snd (DestroyVM sample_found sample_svc))"
proof -
  have "tasks sample_svc (snd (DestroyVM sample_found sample_svc)) = [Change (VM_Destroy sample_ref)]"
    by (simp add: DestroyVM_def run_simps sample_simps sample_found_def destroy_existing_def destroy_powered_off_def
        getPowerState_def tasks_def new_calls_def)
  then show ?thesis
    using destroy_only_when_not_powered_on [of sample_found sample_svc "fst (DestroyVM sample_found sample_svc)"
        "snd (DestroyVM sample_found sample_svc)"] by auto
qed

lemma destroy_existing_svc_vm: "svc_vm (snd (destroy_existing x ref w)) = svc_vm w"
proof -
  have p: "svc_vm (snd (getPowerState x ref v)) = svc_vm v" for v :: "'a svc_ctx_scheme"
    by (simp add: snd_getPowerState)
  have t: "svc_vm (snd (triggerSoftPowerOff x ref v)) = svc_vm v" for v :: "'a svc_ctx_scheme"
    by (simp add: triggerSoftPowerOff_def isSoftPowerOffTimeoutExceeded_def step_unfolds split: sum.split)
  have h: "svc_vm (snd (power_off_hard x ref v)) = svc_vm v" for v :: "'a svc_ctx_scheme"
    by (simp add: power_off_hard_def vm_Patch_def step_unfolds split: sum.split)
  have o': "svc_vm (snd (destroy_powered_off x ref v)) = svc_vm v" for v :: "'a svc_ctx_scheme"
    by (simp add: destroy_powered_off_def RemoveMoRefFromModule_def step_unfolds split: sum.split option.split)
  show ?thesis
    unfolding destroy_existing_def
    by (rule bindE_field [where F = svc_vm, OF p]) (auto intro!: bindE_field [where F = svc_vm] simp: t h o')
qed

lemma DestroyVM_gone:
  fixes w :: "'w svc_ctx_scheme"
  assumes run: "DestroyVM x w = (r, w')" and gone: "svm_State (svc_vm w') = VirtualMachineStateNotFound"
  shows "\<exists>(v :: 'w svc_ctx_scheme) e. prefix (hist w) (hist v) \<and> fst (findVM x v) = Inl e \<and> (isNotFound e \<or> isFolderNotFound e) \<and> ctx_VM v = ctx_VM w' \<and>
    st_TaskRef (vm_status w') = '''' \<and> list_all (\<lambda>c. \<not> vcenter_change c) (new_calls w w')"
proof -
  obtain q v where q: "reconcileInFlightTask x (svc_start w) = (q, v)" by fastforce
  obtain f u where f: "findVM x v = (f, u)" by fastforce
  have s: "svm_State (svc_vm v) = VirtualMachineStatePending"
    using reconcileInFlightTask_svc_vm [of x "svc_start w"] q by (simp add: initial_vm_def)
  have su: "svm_State (svc_vm u) = VirtualMachineStatePending" "ctx_VM u = ctx_VM v"
    using s svc_frame(1) [OF findVM_frame(2) [of v x]] same_but_hist_fields(1) [OF findVM_frame(2) [of v x]] f by simp_all
  note d = destroy_existing_svc_vm
  have qF: "q = Inr False"
    using run gone q s by (auto simp: DestroyVM_def split: sum.splits bool.splits)
  obtain e where e: "f = Inl e" "isNotFound e \<or> isFolderNotFound e"
    and w': "w' = reconcileVSphereVMOnTaskCompletion x (u\<lparr>svc_vm := (svc_vm u)\<lparr>svm_State := VirtualMachineStateNotFound\<rparr>\<rparr>)"
  proof (cases f)
    case (Inl e)
    then show thesis using that run gone q f su qF by (auto simp: DestroyVM_def split: if_splits)
  next
    case (Inr ref)
    then have "svc_vm w' = svc_vm u"
      using run q f qF d [of x ref u] by (auto simp: DestroyVM_def split: prod.splits)
    then show thesis using gone su by simp
  qed
  have "readonly w v" by (rule in_flight_part(3) [OF q])
  also have "readonly v u" using findVM_frame(1) [of v x] f by simp
  also have "readonly u w'" unfolding w' by (rule calls_ok_trans [OF _ reconcileVSphereVMOnTaskCompletion_frame(1)]) (simp add: calls_ok_def)
  finally have "list_all (\<lambda>c. \<not> vcenter_change c) (new_calls w w')" by (simp add: calls_ok_new_calls)
  moreover have "ctx_VM w' = ctx_VM v" using su(2) by (simp add: w')
  moreover have "st_TaskRef (vm_status v) = ''''" using reconcileInFlightTask_clears [OF q [unfolded qF]] .
  moreover have "prefix (hist w) (hist v)" by (rule calls_ok_prefix [OF in_flight_part(3) [OF q]])
  ultimately show ?thesis using e f by (intro exI [of _ v] exI [of _ e]) simp
qed

text \<open>
  \<open>DestroyVM\<close> reports that the VM is gone, which releases the finalizer of the VSphereVM, only when
  \<open>findVM\<close> reported a VM or a folder that does not exist, and then it has changed nothing in vCenter.
\<close>

lemma destroyed_means_not_found:
  fixes w :: "'w svc_ctx_scheme"
  assumes run: "DestroyVM x w = (r, w')" and gone: "svm_State (svc_vm w') = VirtualMachineStateNotFound"
  shows "\<exists>(v :: 'w svc_ctx_scheme) e. prefix (hist w) (hist v) \<and> fst (findVM x v) = Inl e \<and> (isNotFound e \<or> isFolderNotFound e) \<and> ctx_VM v = ctx_VM w' \<and>
    st_TaskRef (vm_status w') = '''' \<and> list_all (\<lambda>c. \<not> vcenter_change c) (new_calls w w')"
  using DestroyVM_gone [OF assms] .

definition sample_gone :: ext where
  \<comment> \<open>a vCenter without the VM and without its folder\<close>
  "sample_gone = ext_default\<lparr>x_ref_opt := \<lambda>h. Inr None, x_folder := \<lambda>h. Inl (FindNotFoundError ''vm'')\<rparr>"

section \<open>A failed task\<close>













section \<open>ReconcileVM returns\<close>

text \<open>
  C34. \<open>ReconcileVM\<close> returns in every case but one: the VM does not exist yet and the bootstrap data in
  its secret is data on which \<open>encode\<close> runs forever.
\<close>

theorem reconcile_diverges_only_on_bootstrap_data:
  fixes w :: "'w svc_ctx_scheme"
  assumes "ReconcileVM x w = None"
  shows "\<exists>(v :: 'w svc_ctx_scheme) e h secret data. fst (findVM x v) = Inl e \<and> isNotFound e \<and>
    x_data x (h @ [Get (Get_Secret (m_Namespace (vm_meta (ctx_VM w))) (s_BootstrapRefName (vm_spec w)))]) = Inr secret \<and>
    secret ''value'' = Some data \<and> encode data = None"
proof -
  have existing: "reconcile_existing x ref u \<noteq> None" for ref and u :: "'w svc_ctx_scheme"
    by (simp add: reconcile_existing_seq finish_existing_seq seqO_def split: sum.split prod.split)
  obtain q v where q: "reconcileInFlightTask x (svc_start w) = (q, v)" by fastforce
  obtain f u where f: "findVM x v = (f, u)" by fastforce
  have qF: "q = Inr False" using assms q by (auto simp: ReconcileVM_def split: sum.splits bool.splits)
  obtain e where e: "f = Inl e" "isNotFound e" and c: "create_missing x e u = None"
    using assms q f qF existing by (cases f) (auto simp: ReconcileVM_def split: if_splits)
  obtain ops where v: "(if \<not> x_Has x (st_Conditions (vm_status u)) VSphereVMVirtualMachineProvisionedCondition
    then add_cond (provisioned_false ''Cloning'' SeverityInfo NoMsg ''WaitingForClone'' NoMsg) u else u) = add_cond ops u"
    by (metis add_cond_Nil)
  have "\<exists>d fmt u'. getBootstrapData x (add_cond ops u) = (Inr (d, fmt), u') \<and> createVM x d fmt u' = None"
    using c by (auto simp: create_missing_def v split: if_splits prod.splits sum.splits)
  then obtain d fmt u' where b: "getBootstrapData x (add_cond ops u) = (Inr (d, fmt), u')" and n: "createVM x d fmt u' = None"
    by blast
  have d: "d \<noteq> '''' \<and> encode d = None"
    using n by (auto simp: createVM_def Clone_def clone_extra_config_def SetCloudInitUserData_def SetIgnitionUserData_def
        setUserData_def split: if_splits option.splits)
  have "keeps_spec w u" using in_flight_part(1) [OF q] keeps_spec_frame [OF findVM_frame(2) [of v x]] f
    by (auto intro: keeps_spec_trans)
  then have "\<exists>h secret. x_data x (h @ [Get (Get_Secret (m_Namespace (vm_meta (ctx_VM w))) (s_BootstrapRefName (vm_spec w)))]) = Inr secret \<and>
      secret ''value'' = Some d"
    using b d by (auto simp: getBootstrapData_def step_unfolds keeps_spec_def split: if_splits sum.splits option.splits)
  then show ?thesis using e f d by (metis fst_conv)
qed

definition sample_line_break :: ext where
  \<comment> \<open>no VM, and bootstrap data that is a line break\<close>
  "sample_line_break = ext_default\<lparr>x_ref_opt := \<lambda>h. Inr None, x_folder := \<lambda>h. Inr (''/dc/vm'', sample_ref),
     x_ref := \<lambda>h. Inl (FindNotFoundError ''vm''), x_data := \<lambda>h. Inr [''value'' \<mapsto> [CHR 0x0A]]\<rparr>"

definition sample_bootstrapped :: svc_ctx where
  "sample_bootstrapped = sample_svc\<lparr>ctx_VM := zero_VSphereVM\<lparr>vm_Spec := (vm_Spec zero_VSphereVM)\<lparr>s_BootstrapRefName := ''secret''\<rparr>\<rparr>\<rparr>"

lemma line_break_diverges: "encode [CHR 0x0A] = None"
  by (simp add: encode_eq plain_text_decodable DecodeString_eq_Nil [THEN iffD2] is_newline_def)

theorem reconcile_diverges_only_on_bootstrap_data_witness:
  "ReconcileVM sample_line_break sample_bootstrapped = None \<and>
   (\<exists>h secret data. x_data sample_line_break h = Inr secret \<and> secret ''value'' = Some data \<and> encode data = None)"
proof -
  have "ReconcileVM sample_line_break sample_bootstrapped = None"
    by (simp add: run_simps sample_simps sample_line_break_def sample_bootstrapped_def create_missing_def getBootstrapData_def
        createVM_def Clone_def clone_extra_config_def SetCloudInitUserData_def setUserData_def line_break_diverges)
  then show ?thesis using reconcile_diverges_only_on_bootstrap_data by blast
qed

section \<open>Metadata and storage policy\<close>

text \<open>
  The metadata settles: once the options that \<open>setMetadata\<close> writes are in the extra
  configuration of the VM, whatever options it had before, the next \<open>reconcileMetadata\<close> reads the
  metadata back, changes nothing and lets the reconciliation go on.
\<close>

lemma metadata_settles:
  assumes "SetCloudInitMetadata (new_metadata w) [] = Some cfg"
    and "x_extraconfig x (hist w @ [Obj (VM_ExtraConfig ref)]) =
      Inr (Some (old @ map (\<lambda>opt. (ov_Key opt, StringValue (ov_Value opt))) cfg))"
  shows "reconcileMetadata x ref w = Some (Inr True, w\<lparr>hist := hist w @ [Obj (VM_ExtraConfig ref)]\<rparr>)"
  using assms
  by (auto simp: reconcileMetadata_total metadata_step_def getMetadata_def step_unfolds SetCloudInitMetadata_new
      metadata_config_def metadata_option_def guestInfoKeyMetadata_def)

definition sample_written :: ext where
  \<comment> \<open>a vCenter whose VM has the options that were written\<close>
  "sample_written = ext_default\<lparr>x_extraconfig := \<lambda>h. Inr (Some (map (\<lambda>opt. (ov_Key opt, StringValue (ov_Value opt)))
     (metadata_config (new_metadata sample_svc))))\<rparr>"

definition sample_policy_vcenter :: ext where
  \<comment> \<open>a powered-off VM with its metadata, and one disk without the storage policy\<close>
  "sample_policy_vcenter = sample_running\<lparr>
     x_string := \<lambda>h. case last h of Svc _ \<Rightarrow> Inr ''policy-1'' | _ \<Rightarrow> Inr ''poweredOff'',
     x_task := \<lambda>h. case last h of Change (VM_PowerOn _) \<Rightarrow> Inr ''task-2'' | _ \<Rightarrow> Inr ''task-1'',
     x_devices := \<lambda>h. Inr [\<lparr>dev_Key = 2000, dev_ControllerKey = 1000, dev_UnitNumber = Some 0, dev_Backing = NoBacking, dev_kind = VirtualDisk 1\<rparr>],
     x_profiles := \<lambda>h. Inr [\<lparr>pr_Key = ''vm-42:2000'', pr_ProfileId = []\<rparr>]\<rparr>"

definition sample_policy_ctx :: svc_ctx where
  "sample_policy_ctx = sample_svc\<lparr>ctx_VM := zero_VSphereVM\<lparr>vm_Spec := (vm_Spec zero_VSphereVM)\<lparr>s_Clone :=
     zero_clone\<lparr>c_StoragePolicyName := ''gold''\<rparr>\<rparr>\<rparr>\<rparr>"

text \<open>
  With a storage policy the reconciliation does not stop after it has asked vCenter to reconfigure
  the disks: it powers the VM on in the same run, with two tasks at once, and \<open>TaskRef\<close> then
  names the second one only. The task of the storage policy is never looked at again.
\<close>

lemma storage_policy_task_lost:
  "\<exists>w' cfg. ReconcileVM sample_policy_vcenter sample_policy_ctx = Some (Inr (), w') \<and>
     tasks sample_policy_ctx w' = [Change (VM_Reconfigure sample_ref cfg), Change (VM_PowerOn sample_ref)] \<and>
     st_TaskRef (vm_status w') = ''task-2''"
proof -
  have [simp]: "new_metadata w = sample_metadata"
    if "c_Network (vm_clone_spec w) = \<lparr>ns_Devices = [], ns_Routes = []\<rparr>" "vm_name w = ''''"
      "svc_ipam w = Map.empty" "svm_Network (svc_vm w) = []" for w
    using that by (simp add: new_metadata_def sample_metadata_def GetMachineMetadata_def zero_VSphereVM_def zero_clone_def)
  have "case ReconcileVM sample_policy_vcenter sample_policy_ctx of None \<Rightarrow> False
      | Some (r, w') \<Rightarrow> r = Inr () \<and>
     (\<exists>cfg. tasks sample_policy_ctx w' = [Change (VM_Reconfigure sample_ref cfg), Change (VM_PowerOn sample_ref)]) \<and>
     st_TaskRef (vm_status w') = ''task-2''"
    by (simp add: run_simps sample_svc_def initial_vm_def sample_policy_ctx_def sample_ref_def sample_policy_vcenter_def
        sample_running_def sample_found_def metadata_option_def zero_VSphereVM_def zero_clone_def empty_meta_def)
      (simp add: reconcileStoragePolicy_def run_simps storage_changes_def isStoragePolicyIDPresent_def
        reconcileVMGroupInfo_def reconcileClusterModuleMembership_def reconcilePowerState_def getPowerState_def vm_Patch_def
        provisioned_false_def tasks_def new_calls_def sample_ref_def sample_policy_ctx_def sample_svc_def)
  then show ?thesis by (auto split: option.splits)
qed

end
