(* ===== verification/VM_Service_Contract.thy ===== *)
theory VM_Service_Contract
  imports VM_Service_Destroy
begin

text \<open>
  The interface \<open>VirtualMachineService\<close> of \<open>pkg/services/interfaces.go\<close> as the controller of
  VSphereVMs uses it: what \<open>ReconcileVM\<close> and \<open>DestroyVM\<close> promise is a locale, and the govmomi
  service is an instance of it.
\<close>

section \<open>The promise\<close>

definition grows :: "'w vm_ctx_scheme \<Rightarrow> 'w vm_ctx_scheme \<Rightarrow> bool" where
  \<comment> \<open>calls were made, and of the VSphereVM only the part that belongs to the service changed\<close>
  "grows w w' \<longleftrightarrow> keeps_spec w w' \<and> prefix (hist w) (hist w')"

lemma grows_refl [simp]: "grows w w"
  by (simp add: grows_def)

lemma grows_trans: "grows u v \<Longrightarrow> grows v w \<Longrightarrow> grows u w"
  by (auto simp: grows_def elim: keeps_spec_trans prefix_order.trans)

lemma one_task_grows: "one_task w w' \<Longrightarrow> grows w w'"
  by (simp add: grows_def one_task_def)

lemma quiet_grows: "quiet w w' \<Longrightarrow> grows w w'"
  by (simp add: one_task_grows quiet_one_task)

type_synonym 'w reconcile_fn = "'w svc_ctx_scheme \<Rightarrow> ((go_error + unit) \<times> 'w svc_ctx_scheme) option"
type_synonym 'w destroy_fn = "'w svc_ctx_scheme \<Rightarrow> (go_error + time) \<times> 'w svc_ctx_scheme"

locale virtual_machine_service =
  fixes reconcileVM :: "'w reconcile_fn" and destroyVM :: "'w destroy_fn"
  assumes reconcile_few: "reconcileVM w = Some (r, w') \<Longrightarrow> few_tasks (has_policy w) w w'"
    and reconcile_ready: "reconcileVM w = Some (r, w') \<Longrightarrow> svm_State (svc_vm w') = VirtualMachineStateReady \<Longrightarrow>
      svm_VMRef (svc_vm w') \<noteq> ''''"
    and destroy_one: "destroyVM w = (d, w') \<Longrightarrow> one_task w w'"
    and destroy_gone: "destroyVM w = (d, w') \<Longrightarrow> svm_State (svc_vm w') = VirtualMachineStateNotFound \<Longrightarrow>
      tasks w w' = [] \<and> st_TaskRef (vm_status w') = ''''"
begin

lemma reconcile_grows: "reconcileVM w = Some (r, w') \<Longrightarrow> grows w w'"
  using reconcile_few by (simp add: few_tasks_def grows_def)

lemma destroy_grows: "destroyVM w = (d, w') \<Longrightarrow> grows w w'"
  by (rule one_task_grows [OF destroy_one])

end

section \<open>The govmomi service keeps it\<close>

lemma DestroyVM_one_task: "DestroyVM x w = (r, w') \<Longrightarrow> one_task w w'"
  using DestroyVM_tasks [of x w r w'] by (auto simp: one_task_def tasks_def)

interpretation govmomi: virtual_machine_service "ReconcileVM x" "DestroyVM x" for x
proof
  fix w w' :: "'w svc_ctx_scheme" and r
  assume run: "ReconcileVM x w = Some (r, w')"
  then show "few_tasks (has_policy w) w w'" by (rule ReconcileVM_few_tasks)
  show "svm_VMRef (svc_vm w') \<noteq> ''''" if ready: "svm_State (svc_vm w') = VirtualMachineStateReady"
  proof -
    obtain ref u u' where "reconcile_existing x ref u = Some (r, u')" "w' = reconcileVSphereVMOnTaskCompletion x u'"
      "svm_State (svc_vm u) = VirtualMachineStatePending" "svm_State (svc_vm u') = VirtualMachineStateReady"
      by (rule ready_was_found [OF run ready])
    then show ?thesis using reconcile_existing_ready [of x ref u r u'] by (auto simp: moref_String_def)
  qed
next
  fix w w' :: "'w svc_ctx_scheme" and r
  assume run: "DestroyVM x w = (r, w')"
  then show "one_task w w'" by (rule DestroyVM_one_task)
  show "tasks w w' = [] \<and> st_TaskRef (vm_status w') = ''''" if "svm_State (svc_vm w') = VirtualMachineStateNotFound"
    using DestroyVM_gone [OF run that] not_change_no_task by (auto simp: tasks_def filter_empty_conv list_all_iff)
qed

end
