(* ===== verification/VM_Claims.thy ===== *)
theory VM_Claims
  imports VM_Service
begin

text \<open>
  \<open>controllers/vspherevm_ipaddress_reconciler.go\<close>: one IPAddressClaim per pool of every network
  device of a VSphereVM, and the release of the claims when the VSphereVM goes away.

  \<open>CreateOrPatch\<close> of controller-runtime fetches the object, runs the mutate function on it and
  writes it back; fetching and writing are two calls here, and what the API server has stored
  and whether it created the object are answers.
\<close>

section \<open>Creating a claim\<close>

definition ReadyCondition :: string where "ReadyCondition = ''Ready''"

definition claim_mutate :: "ext \<Rightarrow> VSphereVM \<Rightarrow> IPPoolReference \<Rightarrow> IPAddressClaim \<Rightarrow> IPAddressClaim" where
  \<comment> \<open>\<open>mutateFn\<close> of \<open>createOrPatchIPAddressClaim\<close>\<close>
  "claim_mutate x vm poolRef claim =
     claim\<lparr>ipc_meta := (ipc_meta claim)
             \<lparr>m_OwnerReferences := x_EnsureOwnerRef x (m_OwnerReferences (ipc_meta claim))
                \<lparr>or_APIVersion = GroupVersion_String, or_Kind = ''VSphereVM'', or_Name = m_Name (vm_meta vm),
                 or_UID = m_UID (vm_meta vm), or_Controller = None, or_BlockOwnerDeletion = None\<rparr>,
              m_Finalizers := x_AddFinalizer x (m_Finalizers (ipc_meta claim)) IPAddressClaimFinalizer,
              m_Labels := (m_Labels (ipc_meta claim))(ClusterNameLabel \<mapsto>
                (case m_Labels (vm_meta vm) ClusterNameLabel of None \<Rightarrow> '''' | Some v \<Rightarrow> v))\<rparr>,
           ipc_PoolRef := poolRef\<rparr>"

definition createOrPatchIPAddressClaim ::
  "ext \<Rightarrow> string \<Rightarrow> IPPoolReference \<Rightarrow> ('w, IPAddressClaim \<times> bool) vm_step" where
  "createOrPatchIPAddressClaim x name poolRef w =
     wrapE ''failed to CreateOrPatch IPAddressClaim'' []
       (bindE (do_call (Capi (CreateOrPatch_Read (m_Namespace (vm_meta (ctx_VM w))) name)) (x_claim x) w) (\<lambda>claim w.
        do_call (Put (CreateOrPatch_IPAddressClaim (claim_mutate x (ctx_VM w) poolRef claim))) (x_claim_patched x) w))"

section \<open>The loops over devices and pools\<close>

definition claim_slots :: "VSphereVM \<Rightarrow> (string \<times> IPPoolReference) list" where
  \<comment> \<open>the claim names and pools in the order of \<open>for devIdx, device ... for poolRefIdx, poolRef\<close>\<close>
  "claim_slots vm =
     concat (map (\<lambda>(devIdx, device).
       map (\<lambda>(poolRefIdx, poolRef). (IPAddressClaimName (m_Name (vm_meta vm)) devIdx poolRefIdx, poolRef))
         (enumerate 0 (d_AddressesFromPools device)))
       (enumerate 0 (ns_Devices (c_Network (s_Clone (vm_Spec vm))))))"

record claim_counts =
  totalClaims :: nat
  claimsCreated :: nat
  claimsFulfilled :: nat
  ready_claims :: "IPAddressClaim list" \<comment> \<open>the claims that report a Ready condition\<close>
  errList :: "go_error list"

definition zero_counts :: claim_counts where
  "zero_counts = \<lparr>totalClaims = 0, claimsCreated = 0, claimsFulfilled = 0, ready_claims = [], errList = []\<rparr>"

definition count_claim :: "ext \<Rightarrow> IPAddressClaim \<Rightarrow> bool \<Rightarrow> claim_counts \<Rightarrow> claim_counts" where
  "count_claim x claim created n =
     n\<lparr>claimsCreated := claimsCreated n + (if created then 1 else 0),
       claimsFulfilled := claimsFulfilled n + (if ipc_AddressRefName claim \<noteq> '''' then 1 else 0),
       ready_claims := ready_claims n @ (if x_Has x (ipc_Conditions claim) ReadyCondition then [claim] else [])\<rparr>"

definition claim_step :: "ext \<Rightarrow> string \<Rightarrow> IPPoolReference \<Rightarrow> claim_counts \<Rightarrow> 'w vm_ctx_scheme \<Rightarrow> claim_counts \<times> 'w vm_ctx_scheme" where
  \<comment> \<open>\<open>createOrPatchIPAddressClaim\<close> and the counting after it; its error does not end the loop\<close>
  "claim_step x name poolRef n w =
     (case createOrPatchIPAddressClaim x name poolRef w of
        (Inl err, w) \<Rightarrow> (n\<lparr>errList := errList n @ [err]\<rparr>, w)
      | (Inr (claim, created), w) \<Rightarrow> (count_claim x claim created n, w))"

fun claims_loop :: "ext \<Rightarrow> claim_counts \<Rightarrow> (string \<times> IPPoolReference) list \<Rightarrow> ('w, claim_counts) vm_step" where
  "claims_loop x n [] w = (Inr n, w)"
| "claims_loop x n ((name, poolRef) # slots) w =
     (let namespace = m_Namespace (vm_meta (ctx_VM w)) in
      case do_call (Get (Get_IPAddressClaim namespace name)) (x_claim x) w of
        (got, w) \<Rightarrow>
          (case (case got of Inl err \<Rightarrow> if apierrors_IsNotFound err then None else Some err | Inr _ \<Rightarrow> None) of
             Some err \<Rightarrow> (Inl (Wrapf err ''failed to get IPAddressClaim %s'' [namespace, name]), w)
           | None \<Rightarrow>
               (case claim_step x name poolRef (n\<lparr>totalClaims := totalClaims n + 1\<rparr>) w of
                  (n, w) \<Rightarrow> claims_loop x n slots w)))"

section \<open>The condition of the VSphereVM\<close>

definition claims_false :: "string \<Rightarrow> Severity \<Rightarrow> cond_msg \<Rightarrow> string \<Rightarrow> cond_msg \<Rightarrow> cond_op list" where
  "claims_false v1reason severity v1msg reason msg =
     [v1beta1_MarkFalse ''IPAddressClaimed'' v1reason severity v1msg,
      cond_Set VSphereVMIPAddressClaimsFulfilledCondition ConditionFalse reason msg]"

definition claim_sources :: "IPAddressClaim list \<Rightarrow> (string \<times> cond_op list) list" where
  "claim_sources = map (\<lambda>c. (m_Name (ipc_meta c), ipc_Conditions c))"

definition claims_condition :: "ext \<Rightarrow> claim_counts \<Rightarrow> ('w, unit) vm_step" where
  \<comment> \<open>the end of \<open>reconcileIPAddressClaims\<close>, from \<open>if len(errList) > 0\<close>\<close>
  "claims_condition x n w =
     (if errList n \<noteq> [] then
        (let err = Aggregate (errList n) in
         (Inl err, add_cond (claims_false ''IPAddressClaimNotFound'' SeverityError (ErrMsg err) ''NotFulfilled'' (ErrMsg err)) w))
      else if length (ready_claims n) = totalClaims n then
        (let w = add_cond [v1beta1_SetAggregate ''IPAddressClaimed'' (claim_sources (ready_claims n))] w in
         if length (ready_claims n) > 0 then
           (case x_SetAggregateCondition x (claim_sources (ready_claims n)) of
              Some err \<Rightarrow> (Inl (Wrapf err ''failed to aggregate Ready condition from IPAddressClaims'' []), w)
            | None \<Rightarrow> (Inr (), add_cond [cond_SetAggregate VSphereVMIPAddressClaimsFulfilledCondition (claim_sources (ready_claims n))] w))
         else (Inr (), add_cond [cond_Set VSphereVMIPAddressClaimsFulfilledCondition ConditionTrue ''NotFulfilled'' NoMsg] w))
      else if totalClaims n = claimsFulfilled n then
        (Inr (), add_cond [v1beta1_MarkTrue ''IPAddressClaimed'',
                           cond_Set VSphereVMIPAddressClaimsFulfilledCondition ConditionTrue ''Fulfilled'' NoMsg] w)
      else if claimsFulfilled n < totalClaims n \<and> claimsCreated n > 0 then
        (let msg = Msg ''%d/%d claims being created'' [show_nat (claimsCreated n), show_nat (totalClaims n)] in
         (Inr (), add_cond (claims_false ''IPAddressClaimsBeingCreated'' SeverityInfo msg ''IPAddressClaimsBeingCreated'' msg) w))
      else if claimsFulfilled n < totalClaims n \<and> claimsCreated n = 0 then
        (let msg = Msg ''%d/%d claims being processed''
                     [show_nat (totalClaims n - claimsFulfilled n), show_nat (totalClaims n)] in
         (Inr (), add_cond (claims_false ''WaitingForIPAddress'' SeverityInfo msg ''WaitingForIPAddress'' msg) w))
      else (Inr (), w))"

definition reconcileIPAddressClaims :: "ext \<Rightarrow> ('w, unit) vm_step" where
  "reconcileIPAddressClaims x w = bindE (claims_loop x zero_counts (claim_slots (ctx_VM w)) w) (claims_condition x)"

section \<open>Releasing the claims\<close>

fun release_loop :: "ext \<Rightarrow> string list \<Rightarrow> ('w, unit) vm_step" where
  "release_loop x [] w = (Inr (), w)"
| "release_loop x (name # names) w =
     (let namespace = m_Namespace (vm_meta (ctx_VM w)) in
      case do_call (Get (Get_IPAddressClaim namespace name)) (x_claim x) w of
        (Inl err, w) \<Rightarrow>
          if apierrors_IsNotFound err then release_loop x names w
          else (Inl (Wrapf err ''failed to get IPAddressClaim %q to remove the finalizer'' [name]), w)
      | (Inr claim, w) \<Rightarrow>
          (case x_RemoveFinalizer x (m_Finalizers (ipc_meta claim)) IPAddressClaimFinalizer of
             (finalizers, removed) \<Rightarrow>
               if removed then
                 bindE (wrapE ''failed to update IPAddressClaim %s'' [name]
                          (do_call (Put (Update_IPAddressClaim (claim\<lparr>ipc_meta := (ipc_meta claim)\<lparr>m_Finalizers := finalizers\<rparr>\<rparr>)))
                             (x_unit x) w)) (\<lambda>_ w. release_loop x names w)
               else release_loop x names w))"

definition deleteIPAddressClaims :: "ext \<Rightarrow> ('w, unit) vm_step" where
  "deleteIPAddressClaims x w = release_loop x (map fst (claim_slots (ctx_VM w))) w"

end
