(* ===== verification/Owners.thy ===== *)
theory Owners
  imports Vim
begin

text \<open>
  \<open>pkg/util/fetch_object.go\<close>, \<open>pkg/util/cluster.go\<close> and the owner lookups of \<open>pkg/util/machines.go\<close>:
  from an object to the objects that own it. All of them only read the API.
\<close>

type_synonym ('w, 'a) k8s_step = "'w world_scheme \<Rightarrow> (go_error + 'a) \<times> 'w world_scheme"

section \<open>\<open>fetch_object.go\<close>\<close>

definition controlplanev1_Group :: string where
  "controlplanev1_Group = ''controlplane.cluster.x-k8s.io''"
definition clusterv1_Group :: string where
  "clusterv1_Group = ''cluster.x-k8s.io''"

fun findOwnerRefWithKind :: "ext \<Rightarrow> string \<Rightarrow> string \<Rightarrow> OwnerReference list \<Rightarrow> go_error + OwnerReference" where
  "findOwnerRefWithKind x gvkGroup kind [] =
     Inl (Errorf ''unable to find owner reference with APIVersion %s and Kind %s'' [gvkGroup, kind])"
| "findOwnerRefWithKind x gvkGroup kind (ref # ownerRefs) =
     (case x_ParseGroupVersion x (or_APIVersion ref) of
        Inl err \<Rightarrow> Inl err
      | Inr (gv_Group, _) \<Rightarrow>
          if gv_Group = gvkGroup \<and> or_Kind ref = kind then Inr ref
          else findOwnerRefWithKind x gvkGroup kind ownerRefs)"

definition fetchOwnerOfKindInto :: "ext \<Rightarrow> string \<Rightarrow> string \<Rightarrow> ObjectMeta \<Rightarrow> ('w, ObjectMeta) k8s_step" where
  "fetchOwnerOfKindInto x gvkGroup kind fromObject w =
     (case findOwnerRefWithKind x gvkGroup kind (m_OwnerReferences fromObject) of
        Inl err \<Rightarrow> (Inl err, w)
      | Inr ref \<Rightarrow> do_call (Get (Get_Owner kind (m_Namespace fromObject) (or_Name ref))) (x_meta x) w)"

definition FetchControlPlaneOwnerObject :: "ext \<Rightarrow> ObjectMeta \<Rightarrow> ('w, ObjectMeta) k8s_step" where
  "FetchControlPlaneOwnerObject x object =
     fetchOwnerOfKindInto x controlplanev1_Group ''KubeadmControlPlane'' object"

definition FetchMachineDeploymentOwnerObject :: "ext \<Rightarrow> ObjectMeta \<Rightarrow> ('w, ObjectMeta) k8s_step" where
  "FetchMachineDeploymentOwnerObject x object w =
     bindE (fetchOwnerOfKindInto x clusterv1_Group ''MachineSet'' object w) (\<lambda>ms w.
     fetchOwnerOfKindInto x clusterv1_Group ''MachineDeployment'' ms w)"

section \<open>Owners of a VSphereVM and of a VSphereMachine\<close>

definition getVSphereMachineByName :: "ext \<Rightarrow> string \<Rightarrow> string \<Rightarrow> ('w, VSphereMachine) k8s_step" where
  "getVSphereMachineByName x namespace name w = do_call (Get (Get_VSphereMachine namespace name)) (x_machine x) w"

fun owner_machine :: "ext \<Rightarrow> string \<Rightarrow> OwnerReference list \<Rightarrow> ('w, VSphereMachine option) k8s_step" where
  \<comment> \<open>the loop of \<open>GetOwnerVSphereMachine\<close>; \<open>None\<close> is a nil machine without an error\<close>
  "owner_machine x namespace [] w = (Inr None, w)"
| "owner_machine x namespace (ref # refs) w =
     (case x_ParseGroupVersion x (or_APIVersion ref) of
        Inl err \<Rightarrow> (Inl err, w)
      | Inr (gv_Group, _) \<Rightarrow>
          if or_Kind ref = ''VSphereMachine'' \<and> gv_Group = GroupName
          then bindE (getVSphereMachineByName x namespace (or_Name ref) w) (\<lambda>m w. (Inr (Some m), w))
          else owner_machine x namespace refs w)"

definition GetOwnerVSphereMachine :: "ext \<Rightarrow> ObjectMeta \<Rightarrow> ('w, VSphereMachine option) k8s_step" where
  "GetOwnerVSphereMachine x obj = owner_machine x (m_Namespace obj) (m_OwnerReferences obj)"

definition label_value :: "ObjectMeta \<Rightarrow> string \<Rightarrow> string" where
  \<comment> \<open>a Go map read: the empty string when the key is missing\<close>
  "label_value m key = (case m_Labels m key of None \<Rightarrow> '''' | Some v \<Rightarrow> v)"

definition GetVSphereClusterFromVSphereMachine :: "ext \<Rightarrow> VSphereMachine \<Rightarrow> ('w, VSphereCluster) k8s_step" where
  "GetVSphereClusterFromVSphereMachine x machine w =
     (let meta = vmach_meta machine; clusterName = label_value meta ClusterNameLabel in
      if clusterName = '''' then
        (Inl (Errorf ''error getting VSphereCluster name from VSphereMachine %s/%s'' [m_Namespace meta, m_Name meta]), w)
      else
        bindE (do_call (Get (Get_Cluster (m_Namespace meta) clusterName)) (x_cluster x) w) (\<lambda>cluster w.
        if \<not> cl_InfrastructureRefIsDefined cluster then
          (Inl (Errorf ''error getting VSphereCluster name from VSphereMachine %s/%s: Cluster.spec.infrastructureRef not yet set''
                  [m_Namespace meta, m_Name meta]), w)
        else do_call (Get (Get_VSphereCluster (m_Namespace meta) (cl_InfrastructureRefName cluster))) (x_vcluster x) w))"

section \<open>Reading a machine\<close>

fun GetMachinePreferredIPAddress :: "MachineAddress list \<Rightarrow> string option" where
  \<comment> \<open>\<open>None\<close>: \<open>ErrNoMachineIPAddr\<close>\<close>
  "GetMachinePreferredIPAddress [] = None"
| "GetMachinePreferredIPAddress (machineAddr # addrs) =
     (if ma_Type machineAddr \<noteq> MachineExternalIP then GetMachinePreferredIPAddress addrs
      else Some (ma_Address machineAddr))"

definition IsControlPlaneMachine :: "ObjectMeta \<Rightarrow> bool" where
  "IsControlPlaneMachine machine \<longleftrightarrow> m_Labels machine MachineControlPlaneLabel \<noteq> None"

end
