(* ===== verification/Identity.thy ===== *)
theory Identity
  imports Owners VM_Context
begin

text \<open>
  \<open>pkg/identity/identity.go\<close>: which secret holds the vCenter credentials of a VSphereCluster,
  and who may use it.
\<close>

record Credentials =
  cr_Username :: string
  cr_Password :: string

definition UsernameKey :: string where "UsernameKey = ''username''"
definition PasswordKey :: string where "PasswordKey = ''password''"

definition getData :: "(string \<rightharpoonup> string) \<Rightarrow> string \<Rightarrow> string" where
  "getData data key = (case data key of None \<Rightarrow> '''' | Some val \<Rightarrow> val)"

definition validateInputs :: "VSphereCluster \<Rightarrow> go_error option" where
  \<comment> \<open>the client and the cluster are never nil here\<close>
  "validateInputs cluster =
     (if \<not> identity_ref_IsDefined (cs_IdentityRef (vc_Spec cluster)) then Some (Errorf ''IdentityRef is required'' []) else None)"

definition cluster_identity_secret :: "ext \<Rightarrow> VSphereCluster \<Rightarrow> string \<Rightarrow> ('w, string \<times> string) k8s_step" where
  \<comment> \<open>the case \<open>VSphereClusterIdentityKind\<close> of \<open>GetCredentials\<close>: the key of the secret\<close>
  "cluster_identity_secret x cluster controllerNamespace w =
     bindE (do_call (Get (Get_VSphereClusterIdentity (ir_Name (cs_IdentityRef (vc_Spec cluster))))) (x_identity x) w)
       (\<lambda>identity w.
     if \<not> Deref (ci_Ready identity) False then (Inl (Errorf ''identity isn't ready to be used yet'' []), w)
     else case ci_AllowedNamespaces identity of
       None \<Rightarrow> (Inl (Errorf ''allowedNamespaces set to nil, no namespaces are allowed to use this identity'' []), w)
     | Some (Inl _) \<Rightarrow> (Inl (Errorf ''failed to build selector'' []), w)
     | Some (Inr selector) \<Rightarrow>
         bindE (do_call (Get (Get_Namespace (m_Namespace (vc_meta cluster)))) (x_meta x) w) (\<lambda>ns w.
         if \<not> selector (m_Labels ns)
         then (Inl (Errorf ''namespace %s is not allowed to use specifified identity'' [m_Namespace (vc_meta cluster)]), w)
         else (Inr (controllerNamespace, ci_SecretName identity), w)))"

definition GetCredentials :: "ext \<Rightarrow> VSphereCluster \<Rightarrow> string \<Rightarrow> ('w, Credentials) k8s_step" where
  "GetCredentials x cluster controllerNamespace w =
     (case validateInputs cluster of
        Some err \<Rightarrow> (Inl err, w)
      | None \<Rightarrow>
          let ref = cs_IdentityRef (vc_Spec cluster) in
          bindE (if ir_Kind ref = SecretKind then (Inr (m_Namespace (vc_meta cluster), ir_Name ref), w)
                 else if ir_Kind ref = VSphereClusterIdentityKind then cluster_identity_secret x cluster controllerNamespace w
                 else (Inl (Errorf ''unknown type %s used for Identity'' [ir_Kind ref]), w))
            (\<lambda>(secretNamespace, secretName) w.
          bindE (do_call (Get (Get_Secret secretNamespace secretName)) (x_data x) w) (\<lambda>secret w.
          (Inr \<lparr>cr_Username = getData secret UsernameKey, cr_Password = getData secret PasswordKey\<rparr>, w))))"

definition IsSecretIdentity :: "VSphereCluster \<Rightarrow> bool" where
  "IsSecretIdentity cluster \<longleftrightarrow>
     identity_ref_IsDefined (cs_IdentityRef (vc_Spec cluster)) \<and> ir_Kind (cs_IdentityRef (vc_Spec cluster)) = SecretKind"

definition IsOwnedByIdentityOrCluster :: "OwnerReference list \<Rightarrow> bool" where
  "IsOwnedByIdentityOrCluster ownerReferences \<longleftrightarrow>
     list_ex (\<lambda>r. sublist (GroupName @ ''/'') (or_APIVersion r) \<and>
                   (or_Kind r = ''VSphereCluster'' \<or> or_Kind r = ''VSphereClusterIdentity'')) ownerReferences"


section \<open>Who may use a secret\<close>

lemma cluster_identity_secret_calls:
  assumes "cluster_identity_secret x cluster cns w = (r, w')"
  shows "Get (Get_Secret sns sn) \<notin> set (new_calls w w') \<and> prefix (hist w) (hist w')"
  using assms
  by (auto simp: cluster_identity_secret_def do_call_def bindE_def new_calls_def split: sum.splits option.splits if_splits)

lemma cluster_identity_secret_allowed:
  assumes "cluster_identity_secret x cluster cns w = (Inr (sns, sn), w')"
  shows "sns = cns \<and> (\<exists>identity selector h ns. x_identity x (hist w @ [Get (Get_VSphereClusterIdentity (ir_Name (cs_IdentityRef (vc_Spec cluster))))]) = Inr identity \<and>
      ci_Ready identity = Some True \<and> ci_AllowedNamespaces identity = Some (Inr selector) \<and> sn = ci_SecretName identity \<and>
      x_meta x (h @ [Get (Get_Namespace (m_Namespace (vc_meta cluster)))]) = Inr ns \<and> selector (m_Labels ns))"
  using assms
  by (fastforce simp: cluster_identity_secret_def do_call_def bindE_def Deref_def split: sum.splits option.splits if_splits
      intro: exI [of _ "hist w @ [Get (Get_VSphereClusterIdentity (ir_Name (cs_IdentityRef (vc_Spec cluster))))]"])

text \<open>
  C32. \<open>GetCredentials\<close> reads at most one secret. A secret that is named by the cluster itself is read in the
  namespace of the cluster; the only other secret it reads is that of a VSphereClusterIdentity, in the
  namespace of the controller, and only when the identity is ready and its selector admits the labels of the
  cluster's namespace.
\<close>

theorem credentials_stay_in_namespace:
  assumes run: "GetCredentials x cluster controllerNamespace w = (r, w')"
    and read: "Get (Get_Secret sns sn) \<in> set (new_calls w w')"
  shows "(ir_Kind (cs_IdentityRef (vc_Spec cluster)) = SecretKind \<and> sns = m_Namespace (vc_meta cluster) \<and>
      sn = ir_Name (cs_IdentityRef (vc_Spec cluster))) \<or>
    (ir_Kind (cs_IdentityRef (vc_Spec cluster)) = VSphereClusterIdentityKind \<and> sns = controllerNamespace \<and>
      (\<exists>identity selector h ns. x_identity x (hist w @ [Get (Get_VSphereClusterIdentity (ir_Name (cs_IdentityRef (vc_Spec cluster))))]) = Inr identity \<and>
        ci_Ready identity = Some True \<and> ci_AllowedNamespaces identity = Some (Inr selector) \<and> sn = ci_SecretName identity \<and>
        x_meta x (h @ [Get (Get_Namespace (m_Namespace (vc_meta cluster)))]) = Inr ns \<and> selector (m_Labels ns)))"
proof -
  let ?ref = "cs_IdentityRef (vc_Spec cluster)"
  have valid: "validateInputs cluster = None" using run read by (auto simp: GetCredentials_def new_calls_def split: option.splits)
  show ?thesis
  proof (cases "ir_Kind ?ref = SecretKind")
    case True
    then show ?thesis
      using run read valid by (auto simp: GetCredentials_def Let_def do_call_def bindE_def new_calls_def split: sum.splits)
  next
    case False
    obtain q u where c: "cluster_identity_secret x cluster controllerNamespace w = (q, u)" by fastforce
    note cc = cluster_identity_secret_calls [OF c]
    have k: "ir_Kind ?ref = VSphereClusterIdentityKind"
      using run read valid False by (auto simp: GetCredentials_def Let_def new_calls_def split: if_splits)
    obtain a b where q: "q = Inr (a, b)" using run read valid False k c cc by (cases q) (auto simp: GetCredentials_def Let_def)
    have "w' = u\<lparr>hist := hist u @ [Get (Get_Secret a b)]\<rparr>"
      using run valid False k c q by (auto simp: GetCredentials_def Let_def do_call_def bindE_def split: sum.splits)
    then have "sns = a" "sn = b" using read cc [of sns sn] by (auto simp: new_calls_def dest: prefix_length_le)
    then show ?thesis using cluster_identity_secret_allowed [OF c [unfolded q]] k by blast
  qed
qed

definition sample_shared :: "bool \<Rightarrow> ext" where
  \<comment> \<open>a shared identity for namespaces with a label, and whether the namespace has it\<close>
  "sample_shared labelled = ext_default\<lparr>
     x_identity := \<lambda>h. Inr \<lparr>ci_meta = empty_meta, ci_SecretName = ''s'', ci_AllowedNamespaces = Some (Inr (\<lambda>l. l ''team'' = Some ''a'')),
       ci_Ready = Some True, ci_Conditions = []\<rparr>,
     x_meta := \<lambda>h. Inr (empty_meta\<lparr>m_Labels := if labelled then [''team'' \<mapsto> ''a''] else Map.empty\<rparr>),
     x_data := \<lambda>h. Inr [''username'' \<mapsto> ''u'', ''password'' \<mapsto> ''p'']\<rparr>"

definition sample_identity_cluster :: VSphereCluster where
  "sample_identity_cluster = \<lparr>vc_meta = empty_meta\<lparr>m_Namespace := ''n''\<rparr>,
     vc_Spec = \<lparr>cs_Server = '''', cs_Thumbprint = '''', cs_ControlPlaneEndpoint = \<lparr>ae_Host = '''', ae_Port = 0\<rparr>,
       cs_IdentityRef = \<lparr>ir_Kind = VSphereClusterIdentityKind, ir_Name = ''i''\<rparr>, cs_ClusterModules = [], cs_DisableClusterModule = None,
       cs_FailureDomainSelector = None\<rparr>,
     vc_Status = \<lparr>cst_Conditions = [], cst_Provisioned = None, cst_FailureDomains = [], cst_VCenterVersion = ''''\<rparr>\<rparr>"

theorem credentials_stay_in_namespace_witness:
  "\<exists>r w'. GetCredentials (sample_shared True) sample_identity_cluster ''capv'' \<lparr>hist = []\<rparr> = (Inr r, w') \<and>
     Get (Get_Secret ''capv'' ''s'') \<in> set (hist w') \<and>
     (\<exists>h ns. x_meta (sample_shared True) (h @ [Get (Get_Namespace ''n'')]) = Inr ns \<and> m_Labels ns ''team'' = Some ''a'')"
proof -
  have "\<exists>r w'. GetCredentials (sample_shared True) sample_identity_cluster ''capv'' \<lparr>hist = []\<rparr> = (Inr r, w') \<and>
      Get (Get_Secret ''capv'' ''s'') \<in> set (hist w')"
    by (simp add: GetCredentials_def validateInputs_def identity_ref_IsDefined_def cluster_identity_secret_def do_call_def
        sample_shared_def sample_identity_cluster_def SecretKind_def VSphereClusterIdentityKind_def)
  then obtain r w' where run: "GetCredentials (sample_shared True) sample_identity_cluster ''capv'' \<lparr>hist = []\<rparr> = (Inr r, w')"
    and c: "Get (Get_Secret ''capv'' ''s'') \<in> set (hist w')" by blast
  have "Get (Get_Secret ''capv'' ''s'') \<in> set (new_calls \<lparr>hist = []\<rparr> w')" using c by (simp add: new_calls_def)
  from credentials_stay_in_namespace [OF run this] run c show ?thesis
    by (auto simp: sample_identity_cluster_def sample_shared_def)
qed

end
