(* ===== verification/Controller_Base.thy ===== *)
theory Controller_Base
  imports Identity
begin

text \<open>
  What the controllers share: their settings (\<open>pkg/context/controller_manager_context.go\<close>), results and
  the shape of \<open>Reconcile\<close>. A result is the \<open>RequeueAfter\<close> of \<open>ctrl.Result\<close>; 0 is the empty result.
\<close>

section \<open>Settings\<close>

record manager =
  mgr_Namespace :: string
  mgr_Username :: string
  mgr_Password :: string
  mgr_NodeAntiAffinity :: bool \<comment> \<open>the feature gate\<close>

definition ten_seconds :: time where
  "ten_seconds = 10 * 1000000000"

text \<open>In \<open>go_error + 'a option\<close>, \<open>None\<close> is \<open>return reconcile.Result{}, nil\<close>.\<close>

definition bindR ::
  "(go_error + 'a option) \<times> 's \<Rightarrow> ('a \<Rightarrow> 's \<Rightarrow> (go_error + 'b option) \<times> 's) \<Rightarrow> (go_error + 'b option) \<times> 's" where
  "bindR m k = bindE m (\<lambda>a w. case a of None \<Rightarrow> (Inr None, w) | Some a \<Rightarrow> k a w)"

definition aggregate :: "go_error + time \<Rightarrow> go_error option \<Rightarrow> go_error + time" where
  \<comment> \<open>\<open>reterr = kerrors.NewAggregate([]error{reterr, err})\<close>; nil errors are dropped\<close>
  "aggregate r err =
     (case kerrors_NewAggregate ((case r of Inl reterr \<Rightarrow> [reterr] | Inr _ \<Rightarrow> []) @ (case err of Some e \<Rightarrow> [e] | None \<Rightarrow> [])) of
        Some e \<Rightarrow> Inl e
      | None \<Rightarrow> r)"


fun is_panic :: "go_error \<Rightarrow> bool" where
  "is_panic (Panic _) = True"
| "is_panic _ = False"

section \<open>The start of \<open>Reconcile\<close>\<close>

definition own_object :: "ext \<Rightarrow> ObjectMeta \<Rightarrow> string \<Rightarrow> ('w, unit option) k8s_step" where
  \<comment> \<open>the finalizer is in place, there is a patch helper, and the object is not paused\<close>
  "own_object x meta finalizer w =
     bindE (do_call (Capi (EnsureFinalizer meta finalizer)) (x_bool x) w) (\<lambda>finalizerAdded w.
     if finalizerAdded then (Inr None, w)
     else
       bindE (do_call (Capi (NewPatchHelper meta)) (x_unit x) w) (\<lambda>_ w.
       bindE (do_call (Capi (EnsurePausedCondition meta)) (x_paused x) w) (\<lambda>(isPaused, requeue) w.
       if isPaused \<or> requeue then (Inr None, w) else (Inr (Some ()), w))))"


section \<open>Frames of the shared operations\<close>

text \<open>The rules for a result whose error is handled by the caller.\<close>

lemma calls_ok_case [calls_intros]:
  assumes "calls_ok P w (snd m)" and "\<And>e w'. m = (Inl e, w') \<Longrightarrow> calls_ok P w' (snd (f e w'))"
    and "\<And>y w'. m = (Inr y, w') \<Longrightarrow> calls_ok P w' (snd (g y w'))"
  shows "calls_ok P w (snd (case m of (Inl e, w) \<Rightarrow> f e w | (Inr y, w) \<Rightarrow> g y w))"
  using assms by (cases m; cases "fst m") (auto intro: calls_ok_trans)

lemma same_but_hist_case [frame_intros]:
  assumes "same_but_hist w (snd m)" and "\<And>e w'. m = (Inl e, w') \<Longrightarrow> same_but_hist w' (snd (f e w'))"
    and "\<And>y w'. m = (Inr y, w') \<Longrightarrow> same_but_hist w' (snd (g y w'))"
  shows "same_but_hist w (snd (case m of (Inl e, w) \<Rightarrow> f e w | (Inr y, w) \<Rightarrow> g y w))"
  using assms by (cases m; cases "fst m") (auto intro: same_but_hist_trans)

lemma GetCredentials_calls [calls_intros]:
  "(\<And>g. P (Get g)) \<Longrightarrow> calls_ok P w (snd (GetCredentials x c ns w))"
  by (auto simp: GetCredentials_def cluster_identity_secret_def Let_def intro!: calls_intros split: option.splits sum.splits prod.splits)

lemma GetCredentials_frame [frame_intros]: "same_but_hist w (snd (GetCredentials x c ns w))"
  by (auto simp: GetCredentials_def cluster_identity_secret_def Let_def intro!: frame_intros split: option.splits sum.splits prod.splits)

lemma own_object_calls [calls_intros]:
  "(\<And>c. P (Capi c)) \<Longrightarrow> calls_ok P w (snd (own_object x meta f w))"
  by (auto simp: own_object_def intro!: calls_intros)

lemma own_object_frame [frame_intros]: "same_but_hist w (snd (own_object x meta f w))"
  by (auto simp: own_object_def intro!: frame_intros)

end
