(* ===== verification/VM_Controller.thy ===== *)
theory VM_Controller
  imports VM_Service_Contract VM_Claims Controller_Base
begin

text \<open>
  \<open>controllers/vspherevm_controller.go\<close>: the controller of VSphereVMs.

  \<^item> The field \<open>VMService\<close> of \<open>vmReconciler\<close> is an interface; its two methods are arguments \<open>rvm\<close> and
    \<open>dvm\<close> of the operations that call them.
  \<^item> A result is the \<open>RequeueAfter\<close> of \<open>ctrl.Result\<close>; 0 is the empty result.
  \<^item> \<open>Reconcile\<close> is split where the deferred function is registered: \<open>prepare\<close> is what runs before it,
    \<open>deferred\<close> is the function itself.
\<close>

definition provisioned_true :: "cond_op list" where
  "provisioned_true = [v1beta1_MarkTrue ''VMProvisioned'',
     cond_Set VSphereVMVirtualMachineProvisionedCondition ConditionTrue ''Provisioned'' NoMsg]"

section \<open>Deletion\<close>

definition deleteNode :: "ext \<Rightarrow> string \<Rightarrow> ('w, unit) vm_step" where
  "deleteNode x name w =
     bindE (do_call (Capi (GetClusterFromMetadata (vm_meta (ctx_VM w)))) (x_cluster x) w) (\<lambda>cluster w.
     if m_DeletionTimestamp (cl_meta cluster) \<noteq> None then (Inr (), w)
     else
       case do_call (Capi (ClusterCache_GetClient (m_Namespace (cl_meta cluster)) (m_Name (cl_meta cluster)))) (x_unit x) w of
         (Inl err, w) \<Rightarrow> if errors_Is err ErrClusterNotConnected then (Inr (), w) else (Inl err, w)
       | (Inr _, w) \<Rightarrow> do_call (Put (Delete_Node name)) (x_unit x) w)"

definition remove_vm_finalizer :: "ext \<Rightarrow> 'w vm_ctx_scheme \<Rightarrow> 'w vm_ctx_scheme" where
  \<comment> \<open>\<open>ctrlutil.RemoveFinalizer(vmCtx.VSphereVM, infrav1.VMFinalizer)\<close>\<close>
  "remove_vm_finalizer x w =
     w\<lparr>ctx_VM := (ctx_VM w)\<lparr>vm_meta := (vm_meta (ctx_VM w))
        \<lparr>m_Finalizers := fst (x_RemoveFinalizer x (m_Finalizers (vm_meta (ctx_VM w))) VMFinalizer)\<rparr>\<rparr>\<rparr>"

definition reconcileDelete :: "ext \<Rightarrow> 'w destroy_fn \<Rightarrow> ('w, time) svc_step" where
  "reconcileDelete x dvm w =
     (case dvm (add_cond (provisioned_false ''Deleting'' SeverityInfo NoMsg ''Deleting'' NoMsg) w) of
        (Inl err, w) \<Rightarrow>
          (Inl (Wrapf err ''failed to destroy VM'' []),
           add_cond (provisioned_false ''DeletionFailed'' SeverityWarning (ErrMsg err) ''Deleting'' (ErrMsg err)) w)
      | (Inr result, w) \<Rightarrow>
          if result \<noteq> 0 then (Inr result, w)
          else if svm_State (svc_vm w) \<noteq> VirtualMachineStateNotFound then (Inr 0, w)
          else
            bindE (deleteIPAddressClaims x (snd (deleteNode x (svm_Name (svc_vm w)) w))) (\<lambda>_ w.
            (Inr 0, remove_vm_finalizer x w)))"

section \<open>Normal operation\<close>

definition waits_for_address :: "NetworkDeviceSpec \<Rightarrow> bool" where
  \<comment> \<open>the body of the loop in \<open>isWaitingForStaticIPAllocation\<close>\<close>
  "waits_for_address dev \<longleftrightarrow>
     \<not> Deref (d_SkipIPAllocation dev) False \<and> \<not> (Deref (d_DHCP4 dev) False \<or> Deref (d_DHCP6 dev) False) \<and>
     length (d_IPAddrs dev) = 0 \<and> length (d_AddressesFromPools dev) = 0"

definition isWaitingForStaticIPAllocation :: "VSphereVM \<Rightarrow> bool" where
  "isWaitingForStaticIPAllocation vm \<longleftrightarrow> list_ex waits_for_address (ns_Devices (c_Network (s_Clone (vm_Spec vm))))"

definition reconcileNetwork :: "VirtualMachine \<Rightarrow> 'w vm_ctx_scheme \<Rightarrow> 'w vm_ctx_scheme" where
  "reconcileNetwork vm =
     upd_status (\<lambda>s. s\<lparr>st_Network := svm_Network vm, st_Addresses := concat (map nst_IPAddrs (svm_Network vm))\<rparr>)"

definition set_BiosUUID :: "string \<Rightarrow> 'w vm_ctx_scheme \<Rightarrow> 'w vm_ctx_scheme" where
  \<comment> \<open>\<open>if vmCtx.VSphereVM.Spec.BiosUUID != vm.BiosUUID\<close>\<close>
  "set_BiosUUID uuid w =
     (if s_BiosUUID (vm_spec w) \<noteq> uuid then w\<lparr>ctx_VM := (ctx_VM w)\<lparr>vm_Spec := (vm_spec w)\<lparr>s_BiosUUID := uuid\<rparr>\<rparr>\<rparr> else w)"

definition set_VMRef :: "string \<Rightarrow> 'w vm_ctx_scheme \<Rightarrow> 'w vm_ctx_scheme" where
  "set_VMRef ref w =
     (if ref \<noteq> '''' \<and> st_VMRef (vm_status w) = '''' then upd_status (\<lambda>s. s\<lparr>st_VMRef := ref\<rparr>) w else w)"

definition report_ready :: "VirtualMachine \<Rightarrow> ('w, time) vm_step" where
  \<comment> \<open>the end of \<open>reconcileNormal\<close>, for a VM that is ready\<close>
  "report_ready vm w =
     (if svm_BiosUUID vm = '''' then (Inl (Errorf ''biosUUID is empty while VM is ready'' []), w)
      else
        let w = reconcileNetwork vm (set_VMRef (svm_VMRef vm) (set_BiosUUID (svm_BiosUUID vm) w)) in
        if length (st_Addresses (vm_status w)) = 0 then
          (Inr ten_seconds, add_cond (provisioned_false ''WaitingForIPAllocation'' SeverityInfo NoMsg ''WaitingForIPAllocation'' NoMsg) w)
        else (Inr 0, add_cond provisioned_true (upd_status (\<lambda>s. s\<lparr>st_Ready := Some True\<rparr>) w)))"

definition after_service :: "ext \<Rightarrow> (go_error + unit) \<times> 'w svc_ctx_scheme \<Rightarrow> (go_error + time) \<times> 'w svc_ctx_scheme" where
  \<comment> \<open>\<open>reconcileNormal\<close> behind the call of \<open>ReconcileVM\<close>\<close>
  "after_service x rw =
     (case rw of
        (Inl err, w) \<Rightarrow> (Inl (Wrapf err ''failed to reconcile VM'' []), w)
      | (Inr _, w) \<Rightarrow>
          if svm_State (svc_vm w) \<noteq> VirtualMachineStateReady then
            (case st_RetryAfter (vm_status w) of
               Some retryAfter \<Rightarrow>
                 (case do_call Time_Now (x_now x) w of (now, w) \<Rightarrow> (Inr (retryAfter - now), w))
             | None \<Rightarrow> (Inr 0, w))
          else report_ready (svc_vm w) w)"

definition reconcileNormal ::
  "ext \<Rightarrow> 'w reconcile_fn \<Rightarrow> 'w svc_ctx_scheme \<Rightarrow> ((go_error + time) \<times> 'w svc_ctx_scheme) option" where
  "reconcileNormal x rvm w =
     (if isWaitingForStaticIPAllocation (ctx_VM w) then
        Some (Inr 0, add_cond (provisioned_false ''WaitingForStaticIPAllocation'' SeverityInfo NoMsg
                       ''WaitingForStaticIPAllocation'' NoMsg) w)
      else
        case reconcileIPAddressClaims x w of
          (Inl err, w) \<Rightarrow> Some (Inl err, w)
        | (Inr _, w) \<Rightarrow> map_option (after_service x) (rvm w))"

section \<open>One reconciliation\<close>

definition fetchClusterModuleInfo :: "ext \<Rightarrow> VSphereCluster \<Rightarrow> Machine \<Rightarrow> ('w, string option) k8s_step" where
  "fetchClusterModuleInfo x vsphereCluster machine w =
     (case (if IsControlPlaneMachine (mach_meta machine) then FetchControlPlaneOwnerObject x (mach_meta machine) w
            else FetchMachineDeploymentOwnerObject x (mach_meta machine) w) of
        (Inl err, w) \<Rightarrow> if apierrors_IsNotFound err then (Inr None, w) else (Inl err, w)
      | (Inr owner, w) \<Rightarrow>
          (Inr (map_option cm_ModuleUUID
                  (find (\<lambda>m. cm_TargetObjectName m = m_Name owner) (cs_ClusterModules (vc_Spec vsphereCluster)))), w))"

definition vm_reconcile ::
  "ext \<Rightarrow> manager \<Rightarrow> 'w reconcile_fn \<Rightarrow> 'w destroy_fn \<Rightarrow> VSphereCluster \<Rightarrow> Machine \<Rightarrow> 'w svc_ctx_scheme \<Rightarrow>
   ((go_error + time) \<times> 'w svc_ctx_scheme) option" where
  \<comment> \<open>\<open>vmReconciler.reconcile\<close>\<close>
  "vm_reconcile x mgr rvm dvm vsphereCluster machine w =
     (let dispatch = (\<lambda>w. if m_DeletionTimestamp (vm_meta (ctx_VM w)) \<noteq> None then Some (reconcileDelete x dvm w)
                           else reconcileNormal x rvm w) in
      if mgr_NodeAntiAffinity mgr \<and> \<not> Deref (cs_DisableClusterModule (vc_Spec vsphereCluster)) False then
        (case fetchClusterModuleInfo x vsphereCluster machine w of
           (Inl err, w) \<Rightarrow>
             if m_DeletionTimestamp (vm_meta (ctx_VM w)) = None then Some (Inl err, w)
             else dispatch (w\<lparr>ctx_ClusterModuleInfo := None\<rparr>)
         | (Inr clusterModuleInfo, w) \<Rightarrow> dispatch (w\<lparr>ctx_ClusterModuleInfo := clusterModuleInfo\<rparr>))
      else dispatch w)"

section \<open>The vCenter session\<close>

definition retrieveVcenterSession :: "ext \<Rightarrow> manager \<Rightarrow> VSphereVM \<Rightarrow> ('w, unit) k8s_step" where
  "retrieveVcenterSession x mgr vm w =
     (let clone = s_Clone (vm_Spec vm);
          getOrCreate = (\<lambda>user w. do_call (Session_GetOrCreate (c_Server clone) (c_Datacenter clone) user (c_Thumbprint clone)) (x_unit x) w);
          managers = (mgr_Username mgr, mgr_Password mgr) in
      case do_call (Capi (GetClusterFromMetadata (vm_meta vm))) (x_cluster x) w of
        (Inl _, w) \<Rightarrow> getOrCreate managers w
      | (Inr cluster, w) \<Rightarrow>
          if \<not> cl_InfrastructureRefIsDefined cluster then
            (Inl (Errorf ''cannot retrieve vCenter session for cluster %s: Cluster.spec.infrastructureRef is nil''
                    [m_Namespace (cl_meta cluster), m_Name (cl_meta cluster)]), w)
          else
            case do_call (Get (Get_VSphereCluster (m_Namespace (cl_meta cluster)) (cl_InfrastructureRefName cluster))) (x_vcluster x) w of
              (Inl _, w) \<Rightarrow> getOrCreate managers w
            | (Inr vsphereCluster, w) \<Rightarrow>
                if identity_ref_IsDefined (cs_IdentityRef (vc_Spec vsphereCluster)) then
                  bindE (wrapE ''failed to get credentials from IdentityRef'' []
                          (GetCredentials x vsphereCluster (mgr_Namespace mgr) w)) (\<lambda>creds w.
                  getOrCreate (cr_Username creds, cr_Password creds) w)
                else getOrCreate managers w)"

section \<open>Reconcile\<close>

record vm_inputs =
  in_VM :: VSphereVM
  in_Cluster :: VSphereCluster
  in_Machine :: Machine
  in_FailureDomain :: "VSphereFailureDomain option"

definition fetch_vm :: "ext \<Rightarrow> string \<Rightarrow> string \<Rightarrow> ('w, VSphereVM option) k8s_step" where
  \<comment> \<open>the VSphereVM with its finalizer in place, a patch helper for it, and not paused\<close>
  "fetch_vm x namespace name w =
     (case do_call (Get (Get_VSphereVM namespace name)) (x_vm x) w of
        (Inl err, w) \<Rightarrow> if apierrors_IsNotFound err then (Inr None, w) else (Inl err, w)
      | (Inr vm, w) \<Rightarrow>
          let w = snd (do_call (Capi (GetClusterFromMetadata (vm_meta vm))) (x_cluster x) w) in
          bindE (do_call (Capi (EnsureFinalizer (vm_meta vm) VMFinalizer)) (x_bool x) w) (\<lambda>finalizerAdded w.
          if finalizerAdded then (Inr None, w)
          else
            bindE (do_call (Capi (NewPatchHelper (vm_meta vm))) (x_unit x) w) (\<lambda>_ w.
            bindE (do_call (Capi (EnsurePausedCondition (vm_meta vm))) (x_paused x) w) (\<lambda>(isPaused, requeue) w.
            if isPaused \<or> requeue then (Inr None, w) else (Inr (Some vm), w)))))"

definition vcenter_available :: "VSphereVM \<Rightarrow> VSphereVM" where
  "vcenter_available vm =
     vm\<lparr>vm_Status := (vm_Status vm)\<lparr>st_Conditions := st_Conditions (vm_Status vm) @
          [v1beta1_MarkTrue ''VCenterAvailable'', cond_Set VSphereVMVCenterAvailableCondition ConditionTrue ''Available'' NoMsg]\<rparr>\<rparr>"

definition fetch_failure_domain :: "ext \<Rightarrow> string \<Rightarrow> ('w, VSphereFailureDomain option) k8s_step" where
  "fetch_failure_domain x failureDomain w =
     (if failureDomain = '''' then (Inr None, w)
      else
        bindE (wrapE ''failed to get VSphereDeploymentZone %s'' [failureDomain]
                (do_call (Get (Get_VSphereDeploymentZone failureDomain)) (x_zone x) w)) (\<lambda>zone w.
        bindE (wrapE ''failed to get VSphereFailureDomain %s'' [dz_FailureDomain zone]
                (do_call (Get (Get_VSphereFailureDomain (dz_FailureDomain zone))) (x_domain x) w)) (\<lambda>domain w.
        (Inr (Some domain), w))))"

definition fetch_owners :: "ext \<Rightarrow> VSphereVM \<Rightarrow> ('w, vm_inputs option) k8s_step" where
  "fetch_owners x vm w =
     bindR (wrapE ''failed to get VSphereMachine for VSphereVM'' [] (GetOwnerVSphereMachine x (vm_meta vm) w)) (\<lambda>vsphereMachine w.
     bindE (wrapE ''failed to get VSphereCluster from VSphereMachine'' []
             (GetVSphereClusterFromVSphereMachine x vsphereMachine w)) (\<lambda>vsphereCluster w.
     bindR (wrapE ''failed to get Machine for VSphereMachine'' []
             (do_call (Capi (GetOwnerMachine (vmach_meta vsphereMachine))) (x_capimachine_opt x) w)) (\<lambda>machine w.
     bindE (do_call (Capi (AddOwners machine)) (x_unit x) w) (\<lambda>_ w.
     bindE (fetch_failure_domain x (mach_FailureDomain machine) w) (\<lambda>domain w.
     (Inr (Some \<lparr>in_VM = vm, in_Cluster = vsphereCluster, in_Machine = machine, in_FailureDomain = domain\<rparr>), w))))))"

definition prepare :: "ext \<Rightarrow> manager \<Rightarrow> string \<Rightarrow> string \<Rightarrow> ('w, vm_inputs option) k8s_step" where
  "prepare x mgr namespace name w =
     bindR (fetch_vm x namespace name w) (\<lambda>vm w.
     bindE (retrieveVcenterSession x mgr vm w) (\<lambda>_ w.
     fetch_owners x (vcenter_available vm) w))"

definition summary_ops :: "cond_op list" where
  "summary_ops = [cond_SetSummary VSphereVMReadyCondition
     [VSphereVMVCenterAvailableCondition, VSphereVMVirtualMachineProvisionedCondition, VSphereVMIPAddressClaimsFulfilledCondition]
     [VSphereVMVCenterAvailableCondition, VSphereVMIPAddressClaimsFulfilledCondition]]"

definition deferred_conditions :: "ext \<Rightarrow> 'w vm_ctx_scheme \<Rightarrow> 'w vm_ctx_scheme" where
  "deferred_conditions x w =
     add_cond ((if \<not> x_Has x (st_Conditions (vm_status w)) VSphereVMVirtualMachineProvisionedCondition
                then if Deref (st_Ready (vm_status w)) False
                     then [cond_Set VSphereVMVirtualMachineProvisionedCondition ConditionTrue ''Provisioned'' NoMsg]
                     else [cond_Set VSphereVMVirtualMachineProvisionedCondition ConditionFalse ''NotProvisioned'' NoMsg]
                else []) @
               [v1beta1_SetSummary [''VCenterAvailable'', ''IPAddressClaimed'', ''VMProvisioned'']]) w"

definition wait_for_cache :: "ext \<Rightarrow> string \<Rightarrow> go_error + time \<Rightarrow> 'w vm_ctx_scheme \<Rightarrow> (go_error + time) \<times> 'w vm_ctx_scheme" where
  "wait_for_cache x originalTaskRef r w =
     (if st_TaskRef (vm_status w) \<noteq> originalTaskRef then
        (case do_call (Capi (WaitForCache (m_Namespace (vm_meta (ctx_VM w))) (vm_name w) originalTaskRef)) (x_unit x) w of
           (Inl err, w) \<Rightarrow> (aggregate r (Some err), w)
         | (Inr _, w) \<Rightarrow> (aggregate r None, w))
      else (r, w))"

definition deferred :: "ext \<Rightarrow> string \<Rightarrow> (go_error + time) \<times> 'w vm_ctx_scheme \<Rightarrow> (go_error + time) \<times> 'w vm_ctx_scheme" where
  "deferred x originalTaskRef rw =
     (case rw of (r, w) \<Rightarrow>
      let w = deferred_conditions x w in
      case x_SetSummaryCondition x (st_Conditions (vm_status w)) of
        Some err \<Rightarrow> (aggregate r (Some (Wrapf err ''failed to set %s condition'' [VSphereVMReadyCondition])), w)
      | None \<Rightarrow>
          (case vm_Patch x (add_cond summary_ops w) of
             (Inl err, w) \<Rightarrow> wait_for_cache x originalTaskRef (aggregate r (Some err)) w
           | (Inr _, w) \<Rightarrow> wait_for_cache x originalTaskRef r w))"

definition vm_context :: "vm_inputs \<Rightarrow> call list \<Rightarrow> svc_ctx" where
  "vm_context i h = \<lparr>hist = h, ctx_VM = in_VM i, ctx_ClusterModuleInfo = None, ctx_FailureDomain = in_FailureDomain i,
     svc_vm = initial_vm '''', svc_ipam = Map.empty\<rparr>"

definition vm_Reconcile ::
  "ext \<Rightarrow> manager \<Rightarrow> unit reconcile_fn \<Rightarrow> unit destroy_fn \<Rightarrow> string \<Rightarrow> string \<Rightarrow> world \<Rightarrow>
   ((go_error + time) \<times> call list) option" where
  \<comment> \<open>\<open>vmReconciler.Reconcile\<close>: its result and all calls made\<close>
  "vm_Reconcile x mgr rvm dvm namespace name w =
     (case prepare x mgr namespace name w of
        (Inl err, w) \<Rightarrow> Some (Inl err, hist w)
      | (Inr None, w) \<Rightarrow> Some (Inr 0, hist w)
      | (Inr (Some i), w) \<Rightarrow>
          map_option (\<lambda>rw. case deferred x (st_TaskRef (vm_Status (in_VM i))) rw of (r, w) \<Rightarrow> (r, hist w))
            (vm_reconcile x mgr rvm dvm (in_Cluster i) (in_Machine i) (vm_context i (hist w))))"

section \<open>Requests for other objects\<close>

definition clusterToVSphereVMs :: "ext \<Rightarrow> string \<Rightarrow> 'w world_scheme \<Rightarrow> (string \<times> string) list \<times> 'w world_scheme" where
  "clusterToVSphereVMs x clusterName w =
     (case do_call (Get (List_VSphereVMs [ClusterNameLabel \<mapsto> clusterName])) (x_vms x) w of
        (Inl _, w) \<Rightarrow> ([], w)
      | (Inr vms, w) \<Rightarrow> (vms, w))"

definition vsphereClusterToVSphereVMs :: "ext \<Rightarrow> VSphereCluster \<Rightarrow> 'w world_scheme \<Rightarrow> (string \<times> string) list \<times> 'w world_scheme" where
  "vsphereClusterToVSphereVMs x vsphereCluster w =
     (case m_Labels (vc_meta vsphereCluster) ClusterNameLabel of
        None \<Rightarrow> ([], w)
      | Some clusterName \<Rightarrow> clusterToVSphereVMs x clusterName w)"

definition ipAddressClaimToVSphereVM :: "ext \<Rightarrow> IPAddressClaim \<Rightarrow> (string \<times> string) list" where
  \<comment> \<open>(namespace, name) of the VSphereVM to reconcile\<close>
  "ipAddressClaimToVSphereVM x claim =
     (if x_HasOwner x (m_OwnerReferences (ipc_meta claim)) GroupVersion_String [''VSphereVM''] then
        (case find (\<lambda>ref. or_Kind ref = ''VSphereVM'') (m_OwnerReferences (ipc_meta claim)) of
           None \<Rightarrow> []
         | Some ref \<Rightarrow> [(m_Namespace (ipc_meta claim), or_Name ref)])
      else [])"

end
