(* ===== verification/VM_Controller_Steps.thy ===== *)
theory VM_Controller_Steps
  imports VM_Controller
begin

text \<open>
  The branches of the controller of VSphereVMs and what each changes. The lemmas about a whole
  reconciliation use the VM service only through its contract (locale \<open>virtual_machine_service\<close>).
\<close>

section \<open>Calls of the controller itself\<close>

lemma claim_step_quiet: "quiet w (snd (claim_step x name pool n w))"
  by (auto simp: claim_step_def createOrPatchIPAddressClaim_def step_unfolds split: sum.split)

lemma claims_loop_Cons:
  fixes w :: "'w vm_ctx_scheme"
  assumes run: "claims_loop x n ((name, pool) # slots) w = (r, w')"
  obtains (failed) e where "r = Inl e"
      "w' = w\<lparr>hist := hist w @ [Get (Get_IPAddressClaim (m_Namespace (vm_meta (ctx_VM w))) name)]\<rparr>"
  | (next_slot) m u where "claim_step x name pool (n\<lparr>totalClaims := totalClaims n + 1\<rparr>)
        (w\<lparr>hist := hist w @ [Get (Get_IPAddressClaim (m_Namespace (vm_meta (ctx_VM w))) name)]\<rparr>) = (m, u)"
      "claims_loop x m slots u = (r, w')"
  using run by (auto simp: do_call_def Let_def split: option.splits prod.splits)

lemma claims_loop_quiet: "claims_loop x n slots w = (r, w') \<Longrightarrow> quiet w w'"
proof (induction slots arbitrary: n w)
  case (Cons slot slots)
  obtain name pool where slot: "slot = (name, pool)" by fastforce
  from Cons.prems [unfolded slot] show ?case
  proof (cases rule: claims_loop_Cons)
    case (next_slot m u)
    let ?v = "w\<lparr>hist := hist w @ [Get (Get_IPAddressClaim (m_Namespace (vm_meta (ctx_VM w))) name)]\<rparr>"
    have "quiet w ?v" by simp
    moreover have "quiet ?v u" using claim_step_quiet [of ?v x name pool] next_slot(1) by (metis snd_conv)
    ultimately have "quiet w u" by (rule quiet_trans)
    then show ?thesis using Cons.IH [OF next_slot(2)] by (rule quiet_trans)
  qed simp
qed simp

lemma claims_condition_quiet: "quiet w (snd (claims_condition x n w))"
  by (simp add: claims_condition_def Let_def split: option.split)

lemma reconcileIPAddressClaims_quiet: "quiet w (snd (reconcileIPAddressClaims x w))"
proof -
  obtain r v where l: "claims_loop x zero_counts (claim_slots (ctx_VM w)) w = (r, v)" by fastforce
  have "quiet w v" by (rule claims_loop_quiet [OF l])
  then show ?thesis
    using claims_condition_quiet [of v x] by (cases r) (auto simp: reconcileIPAddressClaims_def l intro: quiet_trans)
qed

lemma deleteNode_quiet: "quiet w (snd (deleteNode x name w))"
  by (auto simp: deleteNode_def step_unfolds split: sum.split)

lemma release_loop_quiet: "quiet w (snd (release_loop x names w))"
proof (induction names arbitrary: w)
  case (Cons name names)
  show ?case
    by (auto simp: do_call_def Let_def bindE_def wrapE_def split: sum.split prod.split intro!: quiet_trans [OF _ Cons.IH])
qed simp

lemma fetch_owner_quiet:
  fixes w :: "'w vm_ctx_scheme"
  shows "quiet w (snd (fetchOwnerOfKindInto x g k m w))"
  by (auto simp: fetchOwnerOfKindInto_def do_call_def split: sum.split)

lemma fetchClusterModuleInfo_quiet:
  fixes w :: "'w vm_ctx_scheme"
  shows "quiet w (snd (fetchClusterModuleInfo x c m w))"
proof -
  have "quiet w (snd (FetchMachineDeploymentOwnerObject x (mach_meta m) w))"
    by (auto simp: FetchMachineDeploymentOwnerObject_def intro!: quiet_bindE fetch_owner_quiet)
  moreover have "quiet w (snd (FetchControlPlaneOwnerObject x (mach_meta m) w))"
    by (simp add: FetchControlPlaneOwnerObject_def fetch_owner_quiet)
  ultimately show ?thesis
    by (auto simp: fetchClusterModuleInfo_def split: prod.split sum.split if_splits)
qed


section \<open>The branches of a reconciliation\<close>

lemma reconcileDelete_cases:
  assumes run: "reconcileDelete x dvm w = (r, w')"
  obtains (stopped) ops q u ops' where "dvm (add_cond ops w) = (q, u)" "w' = add_cond ops' u"
  | (unreleased) ops u where "dvm (add_cond ops w) = (Inr 0, u)" "svm_State (svc_vm u) = VirtualMachineStateNotFound" "quiet u w'"
  | (released) ops u v where "dvm (add_cond ops w) = (Inr 0, u)" "svm_State (svc_vm u) = VirtualMachineStateNotFound"
      "deleteIPAddressClaims x (snd (deleteNode x (svm_Name (svc_vm u)) u)) = (Inr (), v)"
      "w' = remove_vm_finalizer x v" "r = Inr 0"
proof -
  let ?ops = "provisioned_false ''Deleting'' SeverityInfo NoMsg ''Deleting'' NoMsg"
  obtain q u where d: "dvm (add_cond ?ops w) = (q, u)" by fastforce
  obtain c v where c: "deleteIPAddressClaims x (snd (deleteNode x (svm_Name (svc_vm u)) u)) = (c, v)" by fastforce
  have v: "v = snd (deleteIPAddressClaims x (snd (deleteNode x (svm_Name (svc_vm u)) u)))" by (simp add: c)
  have uv: "quiet u v" unfolding v deleteIPAddressClaims_def by (rule quiet_trans [OF deleteNode_quiet release_loop_quiet])
  show thesis
  proof (cases "q = Inr 0 \<and> svm_State (svc_vm u) = VirtualMachineStateNotFound")
    case True
    then have d0: "dvm (add_cond ?ops w) = (Inr 0, u)" and gone: "svm_State (svc_vm u) = VirtualMachineStateNotFound"
      using d by auto
    show thesis
    proof (cases c)
      case (Inl e)
      then have "w' = v" using run d0 gone c by (simp add: reconcileDelete_def)
      then show thesis using unreleased [OF d0 gone] uv by simp
    next
      case (Inr a)
      then have "w' = remove_vm_finalizer x v" "r = Inr 0" using run d0 gone c by (simp_all add: reconcileDelete_def)
      then show thesis using released [OF d0 gone] c Inr by simp
    qed
  next
    case False
    then have "\<exists>ops'. w' = add_cond ops' u"
      using run d by (auto simp: reconcileDelete_def split: sum.splits if_splits intro: exI [of _ "[]"])
    then show thesis using stopped d by blast
  qed
qed

lemma reconcileNormal_cases:
  assumes run: "reconcileNormal x rvm w = Some (r, w')"
  obtains (stopped) "quiet w w'"
  | (served) v q u where "quiet w v" "rvm v = Some (q, u)" "after_service x (q, u) = (r, w')"
proof (cases "isWaitingForStaticIPAllocation (ctx_VM w)")
  case True
  then show thesis using run stopped by (auto simp: reconcileNormal_def)
next
  case False
  obtain c v where c: "reconcileIPAddressClaims x w = (c, v)" by fastforce
  have "quiet w v" using reconcileIPAddressClaims_quiet [of w x] c by simp
  then show thesis using run c False stopped served by (cases c) (auto simp: reconcileNormal_def)
qed

lemma after_service_cases:
  assumes run: "after_service x (q, u) = (r, w')"
  obtains (stopped) "quiet u w'"
  | (ready) "q = Inr ()" "svm_State (svc_vm u) = VirtualMachineStateReady" "svm_BiosUUID (svc_vm u) \<noteq> ''''"
      "report_ready (svc_vm u) u = (r, w')"
  using run
  by (auto simp: after_service_def report_ready_def do_call_def split: sum.splits if_splits option.splits)

lemma vm_reconcile_cases:
  assumes run: "vm_reconcile x mgr rvm dvm c m w = Some (r, w')"
  obtains (stopped) "quiet w w'"
  | (delete) v info where "quiet w v" "m_DeletionTimestamp (vm_meta (ctx_VM v)) \<noteq> None"
      "reconcileDelete x dvm (v\<lparr>ctx_ClusterModuleInfo := info\<rparr>) = (r, w')"
  | (normal) v info where "quiet w v" "m_DeletionTimestamp (vm_meta (ctx_VM v)) = None"
      "reconcileNormal x rvm (v\<lparr>ctx_ClusterModuleInfo := info\<rparr>) = Some (r, w')"
proof -
  obtain f v where f: "fetchClusterModuleInfo x c m w = (f, v)" by fastforce
  have v: "quiet w v" using fetchClusterModuleInfo_quiet [of w x c m] f by simp
  have w: "w = w\<lparr>ctx_ClusterModuleInfo := ctx_ClusterModuleInfo w\<rparr>" by simp
  show thesis
  proof (cases "mgr_NodeAntiAffinity mgr \<and> \<not> Deref (cs_DisableClusterModule (vc_Spec c)) False")
    case True
    note eq = run [unfolded vm_reconcile_def Let_def, simplified True f if_True simp_thms prod.case]
    show thesis
    proof (cases "m_DeletionTimestamp (vm_meta (ctx_VM v)) = None")
      case alive: True
      show thesis
      proof (cases f)
        case (Inl e)
        then have "w' = v" using eq alive by simp
        then show thesis using stopped v by simp
      next
        case (Inr info)
        then show thesis using eq alive by (intro normal [OF v alive]) simp
      qed
    next
      case deleted: False
      then show thesis using eq by (cases f) (auto intro: delete [OF v deleted])
    qed
  next
    case False
    note eq = run [unfolded vm_reconcile_def Let_def, simplified False if_False simp_thms]
    show thesis
    proof (cases "m_DeletionTimestamp (vm_meta (ctx_VM w)) = None")
      case True
      then show thesis using eq w by (intro normal [of w "ctx_ClusterModuleInfo w"]) simp_all
    next
      case False
      then show thesis using eq w by (intro delete [of w "ctx_ClusterModuleInfo w"]) simp_all
    qed
  qed
qed

section \<open>What a reconciliation changes\<close>

lemma report_ready_facts:
  assumes "report_ready vm w = (r, w')" "svm_BiosUUID vm \<noteq> ''''"
  shows "hist w' = hist w" "vm_meta (ctx_VM w') = vm_meta (ctx_VM w)" "s_Clone (vm_spec w') = s_Clone (vm_spec w)"
    "s_BiosUUID (vm_spec w') = svm_BiosUUID vm" "st_TaskRef (vm_status w') = st_TaskRef (vm_status w)"
    "st_VMRef (vm_status w') = (if st_VMRef (vm_status w) = '''' then svm_VMRef vm else st_VMRef (vm_status w))"
    "st_Network (vm_status w') = svm_Network vm"
    "st_Addresses (vm_status w') = concat (map nst_IPAddrs (svm_Network vm))"
    "st_Addresses (vm_status w') \<noteq> [] \<and> st_Ready (vm_status w') = Some True \<and> r = Inr 0 \<or>
     st_Addresses (vm_status w') = [] \<and> st_Ready (vm_status w') = st_Ready (vm_status w) \<and> r = Inr ten_seconds"
  using assms
  by (auto simp: report_ready_def reconcileNetwork_def set_VMRef_def set_BiosUUID_def Let_def split: if_splits)

definition unreported :: "'w vm_ctx_scheme \<Rightarrow> 'w vm_ctx_scheme \<Rightarrow> bool" where
  "unreported w w' \<longleftrightarrow> vm_spec w' = vm_spec w \<and> same_report (vm_status w) (vm_status w')"

definition reported_ready :: "VirtualMachine \<Rightarrow> go_error + time \<Rightarrow> 'w vm_ctx_scheme \<Rightarrow> 'w vm_ctx_scheme \<Rightarrow> bool" where
  \<comment> \<open>the service reported the VM as ready, and the VSphereVM carries the report\<close>
  "reported_ready vm r w w' \<longleftrightarrow>
     svm_BiosUUID vm \<noteq> '''' \<and> s_BiosUUID (vm_spec w') = svm_BiosUUID vm \<and> svm_VMRef vm \<noteq> '''' \<and>
     st_VMRef (vm_status w') = (if st_VMRef (vm_status w) = '''' then svm_VMRef vm else st_VMRef (vm_status w)) \<and>
     st_Network (vm_status w') = svm_Network vm \<and>
     st_Addresses (vm_status w') = concat (map nst_IPAddrs (svm_Network vm)) \<and>
     (if st_Addresses (vm_status w') = [] then st_Ready (vm_status w') = st_Ready (vm_status w) \<and> r = Inr ten_seconds
      else st_Ready (vm_status w') = Some True \<and> r = Inr 0)"

lemma unreported_trans: "unreported u v \<Longrightarrow> unreported v w \<Longrightarrow> unreported u w"
  by (auto simp: unreported_def elim: same_report_trans)

lemma unreported_simps [simp]:
  "unreported w w" "unreported w (add_cond ops w') \<longleftrightarrow> unreported w w'" "unreported (add_cond ops w) w' \<longleftrightarrow> unreported w w'"
  "unreported w (remove_vm_finalizer x w') \<longleftrightarrow> unreported w w'"
  "unreported (w\<lparr>ctx_ClusterModuleInfo := i\<rparr>) w' \<longleftrightarrow> unreported w w'"
  by (auto simp: unreported_def remove_vm_finalizer_def same_report_def)

lemma unreported_then_reported: "unreported w v \<Longrightarrow> reported_ready vm r v w' \<Longrightarrow> reported_ready vm r w w'"
  by (auto simp: unreported_def reported_ready_def same_report_def)

lemma quiet_unreported: "quiet w w' \<Longrightarrow> unreported w w'"
  by (simp add: quiet_def keeps_spec_def unreported_def)

lemma grows_unreported: "grows w w' \<Longrightarrow> unreported w w'"
  by (simp add: grows_def keeps_spec_def unreported_def)

context virtual_machine_service
begin

lemma delete_unreported:
  assumes "reconcileDelete x destroyVM w = (r, w')"
  shows "unreported w w'"
  using assms
proof (cases rule: reconcileDelete_cases)
  case (stopped ops q u ops')
  then show ?thesis using grows_unreported [OF destroy_grows [OF stopped(1)]] by simp
next
  case (unreleased ops u)
  then show ?thesis
    using grows_unreported [OF destroy_grows [OF unreleased(1)]] quiet_unreported [OF unreleased(3)]
    by (auto intro: unreported_trans)
next
  case (released ops u v)
  have "v = snd (deleteIPAddressClaims x (snd (deleteNode x (svm_Name (svc_vm u)) u)))" by (simp add: released(3))
  then have "quiet u v" unfolding deleteIPAddressClaims_def by (simp add: quiet_trans [OF deleteNode_quiet release_loop_quiet])
  then show ?thesis
    using grows_unreported [OF destroy_grows [OF released(1)]] quiet_unreported released(4) by (auto intro: unreported_trans)
qed

lemma reconcile_report:
  assumes "vm_reconcile x mgr reconcileVM destroyVM c m w = Some (r, w')"
  shows "unreported w w' \<or> m_DeletionTimestamp (vm_meta (ctx_VM w)) = None \<and> (\<exists>vm. reported_ready vm r w w')"
  using assms
proof (cases rule: vm_reconcile_cases)
  case stopped
  then show ?thesis by (simp add: quiet_unreported)
next
  case (delete v info)
  have "unreported v w'" using delete_unreported [OF delete(3)] by simp
  then show ?thesis using quiet_unreported [OF delete(1)] by (blast intro: unreported_trans)
next
  case (normal v info)
  note wv = quiet_unreported [OF normal(1)]
  have alive: "m_DeletionTimestamp (vm_meta (ctx_VM w)) = None" using normal(1,2) by (simp add: quiet_def keeps_spec_def)
  from normal(3) show ?thesis
  proof (cases rule: reconcileNormal_cases)
    case stopped
    then have "unreported v w'" using quiet_unreported by fastforce
    then show ?thesis using wv by (blast intro: unreported_trans)
  next
    case (served v1 q u)
    have "unreported v v1" using quiet_unreported [OF served(1)] by simp
    moreover have "unreported v1 u" by (rule grows_unreported [OF reconcile_grows [OF served(2)]])
    ultimately have wu: "unreported w u" using wv by (blast intro: unreported_trans)
    from served(3) show ?thesis
    proof (cases rule: after_service_cases)
      case stopped
      then show ?thesis using wu quiet_unreported by (blast intro: unreported_trans)
    next
      case ready
      note f = report_ready_facts [OF ready(4,3)]
      have "reported_ready (svc_vm u) r u w'"
        using f reconcile_ready [OF served(2) ready(2)] ready(3) by (auto simp: reported_ready_def)
      then show ?thesis using unreported_then_reported [OF wu] alive by blast
    qed
  qed
qed

end


section \<open>How many tasks are left running\<close>

definition few_started :: "bool \<Rightarrow> 'v world_scheme \<Rightarrow> 'w world_scheme \<Rightarrow> bool" where
  "few_started p w w' \<longleftrightarrow> prefix (hist w) (hist w') \<and> few p (tasks w w')"

definition none_started :: "'v world_scheme \<Rightarrow> 'w world_scheme \<Rightarrow> bool" where
  "none_started w w' \<longleftrightarrow> prefix (hist w) (hist w') \<and> tasks w w' = []"

lemma none_then_few: "none_started u v \<Longrightarrow> few_started p v w \<Longrightarrow> few_started p u w"
  using new_calls_trans [of u v w] by (auto simp: none_started_def few_started_def tasks_def elim: prefix_order.trans)

lemma few_then_none: "few_started p u v \<Longrightarrow> none_started v w \<Longrightarrow> few_started p u w"
  using new_calls_trans [of u v w] by (auto simp: none_started_def few_started_def tasks_def elim: prefix_order.trans)

lemma none_then_none: "none_started u v \<Longrightarrow> none_started v w \<Longrightarrow> none_started u w"
  using new_calls_trans [of u v w] by (auto simp: none_started_def tasks_def elim: prefix_order.trans)

lemma none_few: "none_started u v \<Longrightarrow> few_started p u v"
  by (simp add: none_started_def few_started_def few_def)

lemma quiet_none_started: "quiet w w' \<Longrightarrow> none_started w w'"
  by (simp add: none_started_def quietD tasks_quiet)

lemma few_tasks_few_started: "few_tasks p w w' \<Longrightarrow> few_started p w w'"
  by (simp add: few_started_def few_tasks_def tasks_def)

lemma calls_none_started: "calls_ok (\<lambda>c. \<not> leaves_task c) w w' \<Longrightarrow> none_started w w'"
  by (simp add: none_started_def calls_ok_prefix tasks_def no_tasks_new_calls)

lemma started_simps [simp]:
  "few_started p (w\<lparr>ctx_ClusterModuleInfo := i\<rparr>) w' \<longleftrightarrow> few_started p w w'" "few_started p (add_cond ops w) w' \<longleftrightarrow> few_started p w w'"
  "few_started p w (add_cond ops w') \<longleftrightarrow> few_started p w w'" "few_started p w (remove_vm_finalizer x w') \<longleftrightarrow> few_started p w w'"
  "none_started (w\<lparr>ctx_ClusterModuleInfo := i\<rparr>) w' \<longleftrightarrow> none_started w w'"
  by (simp_all add: few_started_def none_started_def tasks_def new_calls_def remove_vm_finalizer_def)

context virtual_machine_service
begin

lemma delete_few_started:
  assumes "reconcileDelete x destroyVM w = (r, w')"
  shows "few_started p w w'"
  using assms
proof (cases rule: reconcileDelete_cases)
  case (stopped ops q u ops')
  then show ?thesis using few_tasks_few_started [OF one_few_tasks [OF destroy_one [OF stopped(1)]]] by simp
next
  case (unreleased ops u)
  then show ?thesis
    using few_then_none [OF few_tasks_few_started [OF one_few_tasks [OF destroy_one [OF unreleased(1)]]] quiet_none_started] by simp
next
  case (released ops u v)
  have "v = snd (deleteIPAddressClaims x (snd (deleteNode x (svm_Name (svc_vm u)) u)))" by (simp add: released(3))
  then have "quiet u v" unfolding deleteIPAddressClaims_def by (simp add: quiet_trans [OF deleteNode_quiet release_loop_quiet])
  then show ?thesis
    using few_then_none [OF few_tasks_few_started [OF one_few_tasks [OF destroy_one [OF released(1)]]] quiet_none_started] released(4) by simp
qed

lemma normal_few_started:
  assumes "reconcileNormal x reconcileVM w = Some (r, w')"
  shows "few_started (has_policy w) w w'"
  using assms
proof (cases rule: reconcileNormal_cases)
  case stopped
  then show ?thesis by (intro none_few quiet_none_started)
next
  case (served v q u)
  have "few_started (has_policy w) v u"
    using few_tasks_few_started [OF reconcile_few [OF served(2)]] quiet_policy [OF served(1)] by simp
  then have wu: "few_started (has_policy w) w u" by (rule none_then_few [OF quiet_none_started [OF served(1)]])
  from served(3) show ?thesis
  proof (cases rule: after_service_cases)
    case stopped
    then show ?thesis by (intro few_then_none [OF wu] quiet_none_started)
  next
    case ready
    then have "hist w' = hist u" by (intro report_ready_facts(1))
    then show ?thesis using wu by (simp add: few_started_def tasks_def new_calls_def)
  qed
qed

lemma reconcile_few_started:
  assumes "vm_reconcile x mgr reconcileVM destroyVM c m w = Some (r, w')"
  shows "few_started (has_policy w) w w'"
  using assms
proof (cases rule: vm_reconcile_cases)
  case stopped
  then show ?thesis by (intro none_few quiet_none_started)
next
  case (delete v info)
  have "few_started (has_policy w) v w'" using delete_few_started [OF delete(3)] by simp
  then show ?thesis by (rule none_then_few [OF quiet_none_started [OF delete(1)]])
next
  case (normal v info)
  have "few_started (has_policy w) v w'" using normal_few_started [OF normal(3)] quiet_policy [OF normal(1)] by simp
  then show ?thesis by (rule none_then_few [OF quiet_none_started [OF normal(1)]])
qed

end

end
