(* ===== verification/VM_Controller_Correct.thy ===== *)
theory VM_Controller_Correct
  imports VM_Controller_Steps
begin

text \<open>
  Properties of \<open>Reconcile\<close> of the controller of VSphereVMs: how many vCenter tasks one run leaves running, and
  what the API server learns when vCenter cannot be reached.
\<close>

section \<open>How many tasks a run leaves\<close>

text \<open>Before the deferred patch is registered the controller only reads and opens its session.\<close>

fun preparing :: "call \<Rightarrow> bool" where
  "preparing (Get _) = True"
| "preparing (Capi _) = True"
| "preparing (Session_GetOrCreate _ _ _ _) = True"
| "preparing _ = False"

lemma preparing_no_task: "preparing c \<Longrightarrow> \<not> leaves_task c"
  by (cases c) auto

lemma calls_ok_bindR [calls_intros]:
  assumes "calls_ok P w (snd m)" "\<And>y w'. m = (Inr (Some y), w') \<Longrightarrow> calls_ok P w' (snd (k y w'))"
  shows "calls_ok P w (snd (bindR m k))"
  unfolding bindR_def by (rule calls_ok_bindE [OF assms(1)]) (auto split: option.split intro: assms(2))

lemma fetch_vm_calls: "calls_ok preparing w (snd (fetch_vm x ns n w))"
  by (auto simp: fetch_vm_def Let_def bindE_def do_call_def calls_ok_def split: sum.split prod.split)

lemma retrieveVcenterSession_calls: "calls_ok preparing w (snd (retrieveVcenterSession x mgr vm w))"
proof -
  have c: "calls_ok preparing u (snd (bindE (wrapE s as (GetCredentials x c ns u)) (\<lambda>creds w. do_call (Session_GetOrCreate a b (f creds) d) (x_unit x) w)))"
    for u :: "'a world_scheme" and s as c ns a b f d
    by (auto intro!: calls_intros)
  show ?thesis
    by (auto simp: retrieveVcenterSession_def Let_def do_call_def split: sum.split
        intro: calls_ok_trans [OF _ c [unfolded do_call_def]])
qed

lemma owner_machine_calls: "calls_ok preparing w (snd (owner_machine x ns refs w))"
  by (induction x ns refs w rule: owner_machine.induct)
    (auto simp: getVSphereMachineByName_def split: sum.split prod.split intro!: calls_intros)

lemma fetch_owners_calls: "calls_ok preparing w (snd (fetch_owners x vm w))"
  by (auto simp: fetch_owners_def GetOwnerVSphereMachine_def GetVSphereClusterFromVSphereMachine_def fetch_failure_domain_def Let_def
      intro!: calls_intros owner_machine_calls)

lemma prepare_calls: "calls_ok preparing w (snd (prepare x mgr ns n w))"
  unfolding prepare_def by (intro calls_intros fetch_vm_calls retrieveVcenterSession_calls fetch_owners_calls)

lemma fetch_owners_vm: "fetch_owners x vm w = (Inr (Some i), w') \<Longrightarrow> in_VM i = vm"
  by (auto simp: fetch_owners_def bindR_def bindE_eq_Inr wrapE_eq_Inr split: option.splits)

lemma prepare_vm:
  assumes "prepare x mgr ns n w = (Inr (Some i), w')"
  shows "\<exists>vm. x_vm x (hist w @ [Get (Get_VSphereVM ns n)]) = Inr vm \<and> in_VM i = vcenter_available vm"
proof -
  obtain vm u where f: "fetch_vm x ns n w = (Inr (Some vm), u)" and i: "in_VM i = vcenter_available vm"
    using assms fetch_owners_vm by (fastforce simp: prepare_def bindR_def bindE_eq_Inr split: option.splits)
  have "x_vm x (hist w @ [Get (Get_VSphereVM ns n)]) = Inr vm"
    using f by (auto simp: fetch_vm_def do_call_def Let_def bindE_eq_Inr split: sum.splits if_splits)
  with i show ?thesis by blast
qed

lemma wait_for_cache_quiet: "quiet w (snd (wait_for_cache x t r w))"
  by (simp add: wait_for_cache_def do_call_def split: sum.split)

lemma deferred_quiet: "quiet w (snd (deferred x t (r, w)))"
proof -
  obtain q u where p: "vm_Patch x (add_cond summary_ops (deferred_conditions x w)) = (q, u)" by fastforce
  have "u = snd (vm_Patch x (add_cond summary_ops (deferred_conditions x w)))" by (simp add: p)
  then have u: "quiet w u"
    by (simp add: vm_Patch_def do_call_def deferred_conditions_def quiet_def keeps_spec_def calls_ok_def)
  have "quiet w (deferred_conditions x w)" by (simp add: deferred_conditions_def)
  then show ?thesis
    using quiet_trans [OF u wait_for_cache_quiet]
    by (auto simp: deferred_def Let_def p split: option.split sum.split)
qed

text \<open>
  C3. One run of the controller, with the govmomi service behind it, leaves at most one task running in vCenter, whatever vCenter and
  the API server answer; only for a VSphereVM with a storage policy it may leave two, and then the first is the
  reconfiguration of the disks for that policy. (The task of \<open>AddDevice\<close>, which attaches PCI devices, does not count: the call waits for it.)
\<close>

theorem controller_at_most_one_task:
  assumes run: "vm_Reconcile x mgr (ReconcileVM x) (DestroyVM x) ns name w = Some (r, h)"
    and ts: "ts = filter leaves_task (drop (length (hist w)) h)"
  shows "length ts \<le> 1 \<or>
    (\<exists>vm c c'. x_vm x (hist w @ [Get (Get_VSphereVM ns name)]) = Inr vm \<and> c_StoragePolicyName (s_Clone (vm_Spec vm)) \<noteq> '''' \<and>
       ts = [c, c'] \<and> policy_change c)"
proof -
  obtain p v where p: "prepare x mgr ns name w = (p, v)" by fastforce
  have wv: "none_started w v"
    using calls_none_started [OF calls_ok_mono [OF prepare_calls preparing_no_task], of w x mgr ns name] p by simp
  consider "h = hist v" | i where "p = Inr (Some i)" using run p by (cases p; cases "projr p") (auto simp: vm_Reconcile_def)
  then show ?thesis
  proof cases
    case 1
    then show ?thesis using wv by (simp add: ts none_started_def tasks_def new_calls_def)
  next
    case (2 i)
    let ?u = "vm_context i (hist v)"
    obtain q u' where c: "vm_reconcile x mgr (ReconcileVM x) (DestroyVM x) (in_Cluster i) (in_Machine i) ?u = Some (q, u')"
      and h: "h = hist (snd (deferred x (st_TaskRef (vm_Status (in_VM i))) (q, u')))"
      using run p 2 by (auto simp: vm_Reconcile_def case_prod_beta)
    obtain vm where vm: "x_vm x (hist w @ [Get (Get_VSphereVM ns name)]) = Inr vm" "in_VM i = vcenter_available vm"
      using prepare_vm [OF p [unfolded 2]] by blast
    let ?p = "c_StoragePolicyName (s_Clone (vm_Spec vm)) \<noteq> ''''"
    have "few_started ?p ?u u'" using govmomi.reconcile_few_started [OF c] vm(2) by (simp add: vm_context_def vcenter_available_def)
    then have "few_started ?p w u'" using none_then_few [of w ?u _ u'] wv by (simp add: none_started_def tasks_def new_calls_def vm_context_def)
    then have "few_started ?p w (snd (deferred x (st_TaskRef (vm_Status (in_VM i))) (q, u')))"
      by (rule few_then_none [OF _ quiet_none_started [OF deferred_quiet]])
    then have "few ?p ts" by (simp add: few_started_def tasks_def new_calls_def ts h)
    then show ?thesis using vm(1) unfolding few_def by blast
  qed
qed


definition sample_capi_cluster :: Cluster where
  "sample_capi_cluster = \<lparr>cl_meta = empty_meta, cl_InfrastructureRefIsDefined = True, cl_InfrastructureRefName = ''c'',
     cl_InfrastructureRefKind = ''VSphereCluster'', cl_EndpointIsZero = True, cl_InfrastructureProvisioned = Some True, cl_Conditions = []\<rparr>"

lemma sample_capi_cluster_simps [simp]:
  "cl_meta sample_capi_cluster = empty_meta" "cl_InfrastructureRefIsDefined sample_capi_cluster"
  "cl_InfrastructureRefName sample_capi_cluster = ''c''"
  by (simp_all add: sample_capi_cluster_def)

definition sample_machine :: VSphereMachine where
  "sample_machine = \<lparr>vmach_meta = empty_meta\<lparr>m_Labels := [ClusterNameLabel \<mapsto> ''c'']\<rparr>,
     vmach_Spec = \<lparr>ms_Clone = zero_clone, ms_ProviderID = '''', ms_PowerOffMode = '''',
       ms_GuestSoftPowerOffTimeoutSeconds = 0, ms_NamingTemplate = ''''\<rparr>,
     vmach_Status = \<lparr>mst_Conditions = [], mst_Provisioned = None, mst_Addresses = [], mst_Network = [],
       mst_FailureReason = None, mst_FailureMessage = None\<rparr>\<rparr>"

definition sample_vcluster :: VSphereCluster where
  "sample_vcluster = \<lparr>vc_meta = empty_meta,
     vc_Spec = \<lparr>cs_Server = '''', cs_Thumbprint = '''', cs_ControlPlaneEndpoint = \<lparr>ae_Host = '''', ae_Port = 0\<rparr>,
       cs_IdentityRef = \<lparr>ir_Kind = '''', ir_Name = ''''\<rparr>, cs_ClusterModules = [], cs_DisableClusterModule = None,
       cs_FailureDomainSelector = None\<rparr>,
     vc_Status = \<lparr>cst_Conditions = [], cst_Provisioned = None, cst_FailureDomains = [], cst_VCenterVersion = ''''\<rparr>\<rparr>"

definition sample_owned_vm :: VSphereVM where
  \<comment> \<open>owned by a VSphereMachine and marked for deletion\<close>
  "sample_owned_vm = zero_VSphereVM\<lparr>vm_meta := empty_meta\<lparr>m_Finalizers := [VMFinalizer], m_DeletionTimestamp := Some 0,
     m_OwnerReferences := [\<lparr>or_APIVersion = GroupName, or_Kind = ''VSphereMachine'', or_Name = ''m'', or_UID = '''',
       or_Controller = None, or_BlockOwnerDeletion = None\<rparr>]\<rparr>\<rparr>"

definition sample_k8s :: "ext \<Rightarrow> ext" where
  \<comment> \<open>an API server with that VSphereVM and its owners\<close>
  "sample_k8s x = x\<lparr>x_vm := \<lambda>h. Inr sample_owned_vm, x_bool := \<lambda>h. Inr False, x_paused := \<lambda>h. Inr (False, False),
     x_cluster := \<lambda>h. Inr sample_capi_cluster,
     x_vcluster := \<lambda>h. Inr sample_vcluster, x_machine := \<lambda>h. Inr sample_machine,
     x_capimachine_opt := \<lambda>h. Inr (Some \<lparr>mach_meta = empty_meta, mach_FailureDomain = '''', mach_BootstrapDataSecretName = None\<rparr>),
     x_unit := \<lambda>h. Inr ()\<rparr>"

definition sample_manager :: manager where
  "sample_manager = \<lparr>mgr_Namespace = ''capv'', mgr_Username = ''u'', mgr_Password = ''p'', mgr_NodeAntiAffinity = False\<rparr>"

lemma sample_k8s_fields [simp]:
  "x_vm (sample_k8s x) h = Inr sample_owned_vm" "x_bool (sample_k8s x) h = Inr False" "x_paused (sample_k8s x) h = Inr (False, False)"
  "x_cluster (sample_k8s x) h = Inr sample_capi_cluster"
  "x_vcluster (sample_k8s x) h = Inr sample_vcluster" "x_machine (sample_k8s x) h = Inr sample_machine"
  "x_capimachine_opt (sample_k8s x) h =
     Inr (Some \<lparr>mach_meta = empty_meta, mach_FailureDomain = '''', mach_BootstrapDataSecretName = None\<rparr>)"
  "x_unit (sample_k8s x) h = Inr ()" "x_ParseGroupVersion (sample_k8s x) = x_ParseGroupVersion x"
  "x_ref_opt (sample_k8s x) = x_ref_opt x" "x_ref (sample_k8s x) = x_ref x" "x_string (sample_k8s x) = x_string x"
  "x_task (sample_k8s x) = x_task x" "x_Has (sample_k8s x) = x_Has x" "x_folder (sample_k8s x) = x_folder x"
  "x_SetSummaryCondition (sample_k8s x) = x_SetSummaryCondition x" "x_RemoveFinalizer (sample_k8s x) = x_RemoveFinalizer x"
  "x_taskinfo (sample_k8s x) = x_taskinfo x"
  by (simp_all add: sample_k8s_def)

lemma sample_owned_meta [simp]:
  "vm_meta (vcenter_available vm) = vm_meta vm" "vm_Spec (vcenter_available vm) = vm_Spec vm"
  "st_TaskRef (vm_Status (vcenter_available vm)) = st_TaskRef (vm_Status vm)"
  "m_Labels (vmach_meta sample_machine) = [ClusterNameLabel \<mapsto> ''c'']"
  "m_OwnerReferences (vm_meta sample_owned_vm) = [\<lparr>or_APIVersion = GroupName, or_Kind = ''VSphereMachine'', or_Name = ''m'',
     or_UID = '''', or_Controller = None, or_BlockOwnerDeletion = None\<rparr>]"
  "m_DeletionTimestamp (vm_meta sample_owned_vm) = Some 0"
  by (simp_all add: vcenter_available_def sample_machine_def sample_owned_vm_def)

definition sample_inputs :: vm_inputs where
  "sample_inputs = \<lparr>in_VM = vcenter_available sample_owned_vm, in_Cluster = sample_vcluster,
     in_Machine = \<lparr>mach_meta = empty_meta, mach_FailureDomain = '''', mach_BootstrapDataSecretName = None\<rparr>, in_FailureDomain = None\<rparr>"

lemma sample_session: "retrieveVcenterSession (sample_k8s x) mgr vm w = (Inr (), snd (retrieveVcenterSession (sample_k8s x) mgr vm w))"
  by (simp add: retrieveVcenterSession_def do_call_def sample_vcluster_def identity_ref_IsDefined_def Let_def)

lemma sample_prepare:
  assumes "x_ParseGroupVersion x = (\<lambda>s. Inr (s, ''''))"
  shows "\<exists>v. prepare (sample_k8s x) mgr ns n w = (Inr (Some sample_inputs), v)"
proof -
  obtain u where f: "fetch_vm (sample_k8s x) ns n w = (Inr (Some sample_owned_vm), u)" by (simp add: fetch_vm_def do_call_def)
  obtain v where s: "retrieveVcenterSession (sample_k8s x) mgr sample_owned_vm u = (Inr (), v)" using sample_session by blast
  have "\<exists>v'. fetch_owners (sample_k8s x) (vcenter_available sample_owned_vm) v = (Inr (Some sample_inputs), v')"
    using assms
    by (simp add: fetch_owners_def bindR_def GetOwnerVSphereMachine_def getVSphereMachineByName_def Let_def
        GetVSphereClusterFromVSphereMachine_def label_value_def fetch_failure_domain_def do_call_def sample_inputs_def)
  then show ?thesis by (simp add: prepare_def bindR_def f s)
qed


lemma sample_destroys:
  fixes w :: svc_ctx
  assumes "vm_Spec (ctx_VM w) = vm_Spec zero_VSphereVM" "st_TaskRef (vm_Status (ctx_VM w)) = ''''" "ctx_ClusterModuleInfo w = None"
  shows "\<exists>w'. DestroyVM (sample_k8s sample_found) w = (Inr 0, w') \<and> Change (VM_Destroy sample_ref) \<in> set (hist w') \<and>
    svm_State (svc_vm w') = VirtualMachineStatePending"
  using assms
  by (simp add: DestroyVM_def reconcileInFlightTask_def getTask_def checkAndRetryTask_def task_state_def findVM_def do_call_def
      zero_VSphereVM_def zero_clone_def sample_found_def initial_vm_def destroy_existing_def destroy_powered_off_def
      getPowerState_def reconcileVSphereVMOnTaskCompletion_def)

lemma sample_delete_run:
  "\<exists>r h. vm_Reconcile (sample_k8s sample_found) sample_manager (ReconcileVM (sample_k8s sample_found))
     (DestroyVM (sample_k8s sample_found)) ns n \<lparr>hist = []\<rparr> = Some (r, h) \<and> Change (VM_Destroy sample_ref) \<in> set h"
proof -
  let ?x = "sample_k8s sample_found" and ?t = "st_TaskRef (vm_Status (in_VM sample_inputs))"
  have "x_ParseGroupVersion sample_found = (\<lambda>s. Inr (s, ''''))" by (simp add: sample_found_def)
  then obtain v where p: "prepare ?x sample_manager ns n \<lparr>hist = []\<rparr> = (Inr (Some sample_inputs), v)"
    using sample_prepare by blast
  let ?u = "vm_context sample_inputs (hist v)" and ?ops = "provisioned_false ''Deleting'' SeverityInfo NoMsg ''Deleting'' NoMsg"
  obtain u where d: "DestroyVM ?x (add_cond ?ops ?u) = (Inr 0, u)" "Change (VM_Destroy sample_ref) \<in> set (hist u)"
      "svm_State (svc_vm u) = VirtualMachineStatePending"
    using sample_destroys [of "add_cond ?ops ?u"] by (auto simp: vm_context_def sample_inputs_def sample_owned_vm_def zero_VSphereVM_def)
  have del: "m_DeletionTimestamp (vm_meta (ctx_VM ?u)) \<noteq> None" by (simp add: vm_context_def sample_inputs_def)
  have "vm_reconcile ?x sample_manager (ReconcileVM ?x) (DestroyVM ?x) (in_Cluster sample_inputs) (in_Machine sample_inputs) ?u =
      Some (Inr 0, u)"
    by (simp add: vm_reconcile_def reconcileDelete_def d del sample_manager_def del: not_None_eq)
  then have "vm_Reconcile ?x sample_manager (ReconcileVM ?x) (DestroyVM ?x) ns n \<lparr>hist = []\<rparr> =
      Some (fst (deferred ?x ?t (Inr 0, u)), hist (snd (deferred ?x ?t (Inr 0, u))))"
    by (simp add: vm_Reconcile_def p case_prod_beta)
  moreover have "set (hist u) \<subseteq> set (hist (snd (deferred ?x ?t (Inr 0, u))))"
    using quietD(2) [OF deferred_quiet] by (rule set_mono_prefix)
  ultimately show ?thesis using d(2) by blast
qed

theorem controller_at_most_one_task_witness:
  "\<exists>r h. vm_Reconcile (sample_k8s sample_found) sample_manager (ReconcileVM (sample_k8s sample_found))
     (DestroyVM (sample_k8s sample_found)) ''ns'' ''vm'' \<lparr>hist = []\<rparr> = Some (r, h) \<and> length (filter leaves_task h) = 1"
proof -
  obtain r h where run: "vm_Reconcile (sample_k8s sample_found) sample_manager (ReconcileVM (sample_k8s sample_found))
     (DestroyVM (sample_k8s sample_found)) ''ns'' ''vm'' \<lparr>hist = []\<rparr> = Some (r, h)"
    and c: "Change (VM_Destroy sample_ref) \<in> set h" using sample_delete_run by blast
  have "filter leaves_task h \<noteq> []" using c by (auto simp: filter_empty_conv intro: bexI [OF _ c])
  moreover have "length (filter leaves_task h) \<le> 1"
    using controller_at_most_one_task [OF run refl] by (simp add: sample_owned_vm_def zero_VSphereVM_def zero_clone_def)
  ultimately show ?thesis using run by (auto simp: le_Suc_eq)
qed


section \<open>What the API server is told when vCenter cannot be reached\<close>

text \<open>
  When a reconciliation ends before its deferred patch is registered, because the session cannot be
  created or for any other reason, it returns that error without having written the VSphereVM. The
  condition \<open>VCenterAvailable=False\<close> that it sets for a failed session is lost.
\<close>

lemma session_failure_unreported:
  assumes fetched: "fetch_vm x ns name w = (Inr (Some vm), u)" and failed: "retrieveVcenterSession x mgr vm u = (Inl e, v)"
  shows "vm_Reconcile x mgr rvm dvm ns name w = Some (Inl e, hist v) \<and>
    list_all (\<lambda>c. \<forall>vm. c \<noteq> Put (Patch_VSphereVM vm)) (new_calls w v)"
proof -
  have p: "prepare x mgr ns name w = (Inl e, v)" by (simp add: prepare_def bindR_def fetched failed)
  have "calls_ok preparing w v" using prepare_calls [of w x mgr ns name] p by simp
  then show ?thesis
    by (auto simp: vm_Reconcile_def p calls_ok_new_calls list_all_iff elim!: ballE)
qed

definition sample_down :: ext where
  \<comment> \<open>vCenter is down\<close>
  "sample_down = (sample_k8s sample_found)\<lparr>x_unit := \<lambda>h. case last h of Session_GetOrCreate _ _ _ _ \<Rightarrow> Inl (VimError ''down'') | _ \<Rightarrow> Inr ()\<rparr>"

end
