(* ===== verification/VM_Controller_End.thy ===== *)
theory VM_Controller_End
  imports VM_Controller_Correct
begin

text \<open>When the controller lets a VSphereVM go.\<close>

section \<open>The end of a VSphereVM\<close>

definition claim_released :: "ext \<Rightarrow> string \<Rightarrow> string \<Rightarrow> 'v world_scheme \<Rightarrow> 'w world_scheme \<Rightarrow> bool" where
  \<comment> \<open>the claim was found missing, or free of the finalizer, or was updated without it\<close>
  "claim_released x namespace name w w' \<longleftrightarrow>
     (\<exists>e. answered (x_claim x) (Get (Get_IPAddressClaim namespace name)) (Inl e) w w' \<and> apierrors_IsNotFound e) \<or>
     (\<exists>claim finalizers removed. answered (x_claim x) (Get (Get_IPAddressClaim namespace name)) (Inr claim) w w' \<and>
        x_RemoveFinalizer x (m_Finalizers (ipc_meta claim)) IPAddressClaimFinalizer = (finalizers, removed) \<and>
        (\<not> removed \<or>
         answered (x_unit x) (Put (Update_IPAddressClaim (claim\<lparr>ipc_meta := (ipc_meta claim)\<lparr>m_Finalizers := finalizers\<rparr>\<rparr>)))
           (Inr ()) w w'))"

lemma claim_released_mono:
  "claim_released x ns n u v \<Longrightarrow> prefix (hist w) (hist u) \<Longrightarrow> prefix (hist v) (hist w') \<Longrightarrow> claim_released x ns n w w'"
  unfolding claim_released_def by (blast intro: answered_mono)

lemma released_now:
  fixes w :: "'w world_scheme"
  shows "x_claim x (hist w @ [Get (Get_IPAddressClaim ns n)]) = Inl e \<Longrightarrow> apierrors_IsNotFound e \<Longrightarrow>
      claim_released x ns n w (w\<lparr>hist := hist w @ [Get (Get_IPAddressClaim ns n)]\<rparr>)"
    and "x_claim x (hist w @ [Get (Get_IPAddressClaim ns n)]) = Inr claim \<Longrightarrow>
      x_RemoveFinalizer x (m_Finalizers (ipc_meta claim)) IPAddressClaimFinalizer = (fs, False) \<Longrightarrow>
      claim_released x ns n w (w\<lparr>hist := hist w @ [Get (Get_IPAddressClaim ns n)]\<rparr>)"
    and "x_claim x (hist w @ [Get (Get_IPAddressClaim ns n)]) = Inr claim \<Longrightarrow>
      x_RemoveFinalizer x (m_Finalizers (ipc_meta claim)) IPAddressClaimFinalizer = (fs, True) \<Longrightarrow>
      c = Put (Update_IPAddressClaim (claim\<lparr>ipc_meta := (ipc_meta claim)\<lparr>m_Finalizers := fs\<rparr>\<rparr>)) \<Longrightarrow>
      x_unit x (hist w @ [Get (Get_IPAddressClaim ns n), c]) = Inr () \<Longrightarrow>
      claim_released x ns n w (w\<lparr>hist := hist w @ [Get (Get_IPAddressClaim ns n), c]\<rparr>)"
proof -
  let ?c = "Get (Get_IPAddressClaim ns n)"
  assume "x_claim x (hist w @ [?c]) = Inl e" "apierrors_IsNotFound e"
  then show "claim_released x ns n w (w\<lparr>hist := hist w @ [?c]\<rparr>)"
    by (auto simp: claim_released_def intro!: answered_now)
next
  let ?c = "Get (Get_IPAddressClaim ns n)"
  assume a: "x_claim x (hist w @ [?c]) = Inr claim"
  have get: "answered (x_claim x) ?c (Inr claim) w (w\<lparr>hist := hist w @ ?c # cs\<rparr>)" for cs
    using a by (intro answered_now) simp_all
  { assume "x_RemoveFinalizer x (m_Finalizers (ipc_meta claim)) IPAddressClaimFinalizer = (fs, False)"
    then show "claim_released x ns n w (w\<lparr>hist := hist w @ [?c]\<rparr>)" using get unfolding claim_released_def by blast }
  { assume rf: "x_RemoveFinalizer x (m_Finalizers (ipc_meta claim)) IPAddressClaimFinalizer = (fs, True)"
      and c: "c = Put (Update_IPAddressClaim (claim\<lparr>ipc_meta := (ipc_meta claim)\<lparr>m_Finalizers := fs\<rparr>\<rparr>))"
      and u: "x_unit x (hist w @ [?c, c]) = Inr ()"
    have "answered (x_unit x) c (Inr ()) w (w\<lparr>hist := hist w @ [?c, c]\<rparr>)"
      using u by (auto simp: answered_def intro!: exI [of _ "hist w @ [?c]"])
    then show "claim_released x ns n w (w\<lparr>hist := hist w @ [?c, c]\<rparr>)" using get rf c unfolding claim_released_def by blast }
qed

lemma release_loop_Cons:
  fixes w :: "'w vm_ctx_scheme"
  assumes "release_loop x (name # names) w = (Inr (), w')"
  obtains u h where "release_loop x names u = (Inr (), w')" "u = w\<lparr>hist := hist w @ h\<rparr>"
    "claim_released x (m_Namespace (vm_meta (ctx_VM w))) name w u"
proof -
  let ?c = "Get (Get_IPAddressClaim (m_Namespace (vm_meta (ctx_VM w))) name)"
  show thesis
  proof (cases "x_claim x (hist w @ [?c])")
    case (Inl e)
    then have "apierrors_IsNotFound e" "release_loop x names (w\<lparr>hist := hist w @ [?c]\<rparr>) = (Inr (), w')"
      using assms by (auto simp: do_call_def Let_def split: if_splits)
    then show thesis using that [OF _ refl] released_now(1) [OF Inl] by blast
  next
    case (Inr claim)
    obtain fs removed where rf: "x_RemoveFinalizer x (m_Finalizers (ipc_meta claim)) IPAddressClaimFinalizer = (fs, removed)" by fastforce
    show thesis
    proof (cases removed)
      case True
      let ?p = "Put (Update_IPAddressClaim (claim\<lparr>ipc_meta := (ipc_meta claim)\<lparr>m_Finalizers := fs\<rparr>\<rparr>))"
      have rf': "x_RemoveFinalizer x (m_Finalizers (ipc_meta claim)) IPAddressClaimFinalizer = (fs, True)" using rf True by simp
      have "x_unit x (hist w @ [?c, ?p]) = Inr ()" "release_loop x names (w\<lparr>hist := hist w @ [?c, ?p]\<rparr>) = (Inr (), w')"
        using assms Inr rf True by (auto simp: do_call_def Let_def bindE_def wrapE_def split: sum.splits)
      then show thesis using that [OF _ refl] released_now(3) [OF Inr rf' refl] by blast
    next
      case False
      then have "release_loop x names (w\<lparr>hist := hist w @ [?c]\<rparr>) = (Inr (), w')"
        using assms Inr rf by (auto simp: do_call_def Let_def)
      moreover have "x_RemoveFinalizer x (m_Finalizers (ipc_meta claim)) IPAddressClaimFinalizer = (fs, False)" using rf False by simp
      ultimately show thesis using that [OF _ refl] released_now(2) [OF Inr] by blast
    qed
  qed
qed

lemma release_loop_released:
  fixes w :: "'w vm_ctx_scheme"
  assumes "release_loop x names w = (Inr (), w')" "n \<in> set names"
  shows "claim_released x (m_Namespace (vm_meta (ctx_VM w))) n w w'"
  using assms
proof (induction names arbitrary: w)
  case (Cons name names)
  obtain u h where rest: "release_loop x names u = (Inr (), w')" and u: "u = w\<lparr>hist := hist w @ h\<rparr>"
    and here: "claim_released x (m_Namespace (vm_meta (ctx_VM w))) name w u" by (rule release_loop_Cons [OF Cons.prems(1)])
  have p: "prefix (hist u) (hist w')" using quietD(2) [OF release_loop_quiet [of u x names]] rest by simp
  show ?case
  proof (cases "n = name")
    case True
    then show ?thesis using claim_released_mono [OF here prefix_order.refl p] by simp
  next
    case False
    then have "claim_released x (m_Namespace (vm_meta (ctx_VM u))) n u w'" using Cons.IH [OF rest] Cons.prems(2) by simp
    then have "claim_released x (m_Namespace (vm_meta (ctx_VM w))) n u w'" by (simp add: u)
    then show ?thesis by (rule claim_released_mono) (simp_all add: u)
  qed
qed simp


context virtual_machine_service
begin

lemma normal_keeps_meta:
  assumes "reconcileNormal x reconcileVM w = Some (r, w')"
  shows "vm_meta (ctx_VM w') = vm_meta (ctx_VM w)"
  using assms
proof (cases rule: reconcileNormal_cases)
  case stopped
  then show ?thesis by (simp add: quiet_def keeps_spec_def)
next
  case (served v q u)
  have "vm_meta (ctx_VM u) = vm_meta (ctx_VM w)"
    using served(1) reconcile_grows [OF served(2)] by (simp add: quiet_def grows_def keeps_spec_def)
  moreover from served(3) have "vm_meta (ctx_VM w') = vm_meta (ctx_VM u)"
  proof (cases rule: after_service_cases)
    case stopped
    then show ?thesis by (simp add: quiet_def keeps_spec_def)
  next
    case ready
    then show ?thesis by (intro report_ready_facts(2))
  qed
  ultimately show ?thesis by simp
qed

lemma delete_finalizer:
  assumes "reconcileDelete x destroyVM w = (r, w')" "m_Finalizers (vm_meta (ctx_VM w')) \<noteq> m_Finalizers (vm_meta (ctx_VM w))"
  obtains ops u where "destroyVM (add_cond ops w) = (Inr 0, u)" "svm_State (svc_vm u) = VirtualMachineStateNotFound" "r = Inr 0"
    "prefix (hist u) (hist w')" "tasks w w' = []" "st_TaskRef (vm_status w') = ''''"
    "\<And>name. name \<in> set (map fst (claim_slots (ctx_VM w))) \<Longrightarrow> claim_released x (m_Namespace (vm_meta (ctx_VM w))) name w w'"
  using assms(1)
proof (cases rule: reconcileDelete_cases)
  case (stopped ops q u ops')
  then show thesis using assms(2) destroy_grows [OF stopped(1)] by (simp add: grows_def keeps_spec_def)
next
  case (unreleased ops u)
  then show thesis using assms(2) destroy_grows [OF unreleased(1)] unreleased(3) by (simp add: grows_def quiet_def keeps_spec_def)
next
  case (released ops u v)
  let ?n = "snd (deleteNode x (svm_Name (svc_vm u)) u)"
  note un = deleteNode_quiet [of u x "svm_Name (svc_vm u)"]
  have nv: "quiet ?n v" using release_loop_quiet [of ?n x] released(3) by (simp add: deleteIPAddressClaims_def) (metis snd_conv)
  have uv: "quiet u v" by (rule quiet_trans [OF un nv])
  note g = destroy_grows [OF released(1)] and gone = destroy_gone [OF released(1,2)]
  have hu: "prefix (hist w) (hist u)" and hn: "prefix (hist u) (hist ?n)" and hv: "hist w' = hist v"
    using g quietD(2) [OF un] released(4) by (simp_all add: grows_def remove_vm_finalizer_def)
  have "tasks w u = []" using gone by (simp add: tasks_def new_calls_def)
  then have t: "tasks w w' = []"
    using tasks_then_quiet [OF hu uv] by (simp add: tasks_def new_calls_def hv)
  have ref: "st_TaskRef (vm_status w') = ''''"
    using gone uv released(4) by (simp add: quiet_def remove_vm_finalizer_def)
  have same: "claim_slots (ctx_VM ?n) = claim_slots (ctx_VM w)" "vm_meta (ctx_VM ?n) = vm_meta (ctx_VM w)"
    using g un by (simp_all add: claim_slots_def grows_def quiet_def keeps_spec_def)
  have rel: "claim_released x (m_Namespace (vm_meta (ctx_VM w))) name w w'" if "name \<in> set (map fst (claim_slots (ctx_VM w)))" for name
  proof -
    have "claim_released x (m_Namespace (vm_meta (ctx_VM ?n))) name ?n v"
      using release_loop_released [of x _ ?n v name] released(3) that by (simp add: deleteIPAddressClaims_def same)
    then show ?thesis using claim_released_mono [of x _ name ?n v w w'] prefix_order.trans [OF hu hn] by (simp add: same hv)
  qed
  have "prefix (hist u) (hist w')" using quietD(2) [OF uv] hv by simp
  then show thesis using that released(1,2,5) t ref rel by blast
qed

end


text \<open>
  C2. The controller removes the finalizer of a VSphereVM, so that the object may disappear, only from one that
  is being deleted, after \<open>findVM\<close> reported that the VM does not exist, with no task in flight and none
  started, and after every IPAddressClaim of the VSphereVM was found missing or free of its finalizer, or
  was updated without it.
\<close>

theorem finalizer_released_last:
  fixes w :: "'w svc_ctx_scheme"
  assumes run: "vm_reconcile x mgr (ReconcileVM x) (DestroyVM x) c m w = Some (r, w')"
    and changed: "m_Finalizers (vm_meta (ctx_VM w')) \<noteq> m_Finalizers (vm_meta (ctx_VM w))"
  shows "m_DeletionTimestamp (vm_meta (ctx_VM w)) \<noteq> None \<and> r = Inr 0 \<and> tasks w w' = [] \<and> st_TaskRef (vm_status w') = '''' \<and>
    (\<exists>(v :: 'w svc_ctx_scheme) e. prefix (hist w) (hist v) \<and> fst (findVM x v) = Inl e \<and> (isNotFound e \<or> isFolderNotFound e)) \<and>
    (\<forall>name \<in> set (map fst (claim_slots (ctx_VM w))). claim_released x (m_Namespace (vm_meta (ctx_VM w))) name w w')"
  using run
proof (cases rule: vm_reconcile_cases)
  case stopped
  then show ?thesis using changed by (simp add: quiet_def keeps_spec_def)
next
  case (normal v info)
  then show ?thesis using changed govmomi.normal_keeps_meta [OF normal(3)] by (simp add: quiet_def keeps_spec_def)
next
  case (delete v info)
  let ?v = "v\<lparr>ctx_ClusterModuleInfo := info\<rparr>"
  have same: "vm_meta (ctx_VM v) = vm_meta (ctx_VM w)" "vm_Spec (ctx_VM v) = vm_Spec (ctx_VM w)" "prefix (hist w) (hist v)"
    using quietD(1,2) [OF delete(1)] by (simp_all add: keeps_spec_def)
  have ch: "m_Finalizers (vm_meta (ctx_VM w')) \<noteq> m_Finalizers (vm_meta (ctx_VM ?v))" using changed same(1) by simp
  obtain ops u where d: "DestroyVM x (add_cond ops ?v) = (Inr 0, u)" "svm_State (svc_vm u) = VirtualMachineStateNotFound"
    and r: "r = Inr 0" "tasks ?v w' = []" "st_TaskRef (vm_status w') = ''''"
    and claims: "\<And>name. name \<in> set (map fst (claim_slots (ctx_VM ?v))) \<Longrightarrow>
      claim_released x (m_Namespace (vm_meta (ctx_VM ?v))) name ?v w'" and p: "prefix (hist u) (hist w')"
    by (rule govmomi.delete_finalizer [OF delete(3) ch]) blast
  have vu: "prefix (hist v) (hist u)" using govmomi.destroy_grows [OF d(1)] by (simp add: grows_def)
  have "tasks w w' = tasks v w'" by (rule tasks_quiet_then [OF delete(1) prefix_order.trans [OF vu p]])
  then have t: "tasks w w' = []" using r(2) by (simp add: tasks_def new_calls_def)
  obtain v1 :: "'w svc_ctx_scheme" and e where "prefix (hist v) (hist v1)" "fst (findVM x v1) = Inl e" "isNotFound e \<or> isFolderNotFound e"
    using DestroyVM_gone [OF d] by auto
  then have f: "\<exists>(v :: 'w svc_ctx_scheme) e. prefix (hist w) (hist v) \<and> fst (findVM x v) = Inl e \<and> (isNotFound e \<or> isFolderNotFound e)"
    using prefix_order.trans [OF same(3)] by blast
  have "claim_released x (m_Namespace (vm_meta (ctx_VM w))) name w w'" if "name \<in> set (map fst (claim_slots (ctx_VM w)))" for name
    using claims [of name] that same claim_released_mono [of x _ name ?v w' w w'] by (simp add: claim_slots_def)
  then show ?thesis using delete(2) same(1) r t f by simp
qed

definition sample_last :: svc_ctx where
  \<comment> \<open>a VSphereVM in deletion with an address from a pool\<close>
  "sample_last = sample_svc\<lparr>ctx_VM := zero_VSphereVM\<lparr>
     vm_meta := empty_meta\<lparr>m_Finalizers := [VMFinalizer], m_DeletionTimestamp := Some 0\<rparr>,
     vm_Spec := (vm_Spec zero_VSphereVM)\<lparr>s_Clone := zero_clone\<lparr>c_Network := \<lparr>ns_Devices =
       [empty_device\<lparr>d_AddressesFromPools := [\<lparr>pool_Name = ''p'', pool_Kind = ''Pool'', pool_APIGroup = ''g''\<rparr>]\<rparr>], ns_Routes = []\<rparr>\<rparr>\<rparr>\<rparr>\<rparr>"

lemma sample_last_run:
  "\<exists>w'. vm_reconcile sample_gone sample_manager (ReconcileVM sample_gone) (DestroyVM sample_gone) sample_vcluster m sample_last =
     Some (Inr 0, w') \<and> m_Finalizers (vm_meta (ctx_VM w')) = []"
  by (simp add: vm_reconcile_def sample_manager_def reconcileDelete_def DestroyVM_def run_simps sample_simps sample_gone_def
      sample_last_def deleteNode_def deleteIPAddressClaims_def claim_slots_def apierrors_IsNotFound_def remove_vm_finalizer_def)

theorem finalizer_released_last_witness:
  "\<exists>w'. vm_reconcile sample_gone sample_manager (ReconcileVM sample_gone) (DestroyVM sample_gone) sample_vcluster
       \<lparr>mach_meta = empty_meta, mach_FailureDomain = '''', mach_BootstrapDataSecretName = None\<rparr> sample_last = Some (Inr 0, w') \<and>
     claim_released sample_gone '''' (IPAddressClaimName '''' 0 0) sample_last w'"
proof -
  let ?m = "\<lparr>mach_meta = empty_meta, mach_FailureDomain = '''', mach_BootstrapDataSecretName = None\<rparr>"
  obtain w' where run: "vm_reconcile sample_gone sample_manager (ReconcileVM sample_gone) (DestroyVM sample_gone) sample_vcluster ?m sample_last =
      Some (Inr 0, w')" and fin: "m_Finalizers (vm_meta (ctx_VM w')) = []" using sample_last_run [of ?m] by blast
  have "m_Finalizers (vm_meta (ctx_VM w')) \<noteq> m_Finalizers (vm_meta (ctx_VM sample_last))" by (simp add: fin sample_last_def)
  from finalizer_released_last [OF run this] show ?thesis
    using run by (auto simp: sample_last_def claim_slots_def empty_meta_def)
qed

end
