(* ===== verification/VM_Controller_Ready.thy ===== *)
theory VM_Controller_Ready
  imports VM_Controller_Correct
begin

text \<open>What a VSphereVM that the controller reports as ready carries, over its whole life.\<close>

section \<open>What a ready VSphereVM carries\<close>

text \<open>
  C13. When a reconciliation turns a VSphereVM ready, the object is not being deleted and carries a BIOS UUID, the
  reference of its VM, and at least one address; the addresses are those of the reported network
  status, in order.
\<close>

theorem ready_vm_has_addresses:
  assumes run: "vm_reconcile x mgr (ReconcileVM x) (DestroyVM x) c m w = Some (r, w')"
    and turned: "st_Ready (vm_status w) \<noteq> Some True" "st_Ready (vm_status w') = Some True"
  shows "r = Inr 0 \<and> m_DeletionTimestamp (vm_meta (ctx_VM w)) = None \<and> s_BiosUUID (vm_spec w') \<noteq> '''' \<and>
    st_VMRef (vm_status w') \<noteq> '''' \<and> st_Addresses (vm_status w') \<noteq> [] \<and>
    st_Addresses (vm_status w') = concat (map nst_IPAddrs (st_Network (vm_status w')))"
  using govmomi.reconcile_report [OF run] turned
  by (auto simp: unreported_def same_report_def reported_ready_def split: if_splits)

definition sample_card :: VirtualDevice where
  "sample_card = \<lparr>dev_Key = 4000, dev_ControllerKey = 100, dev_UnitNumber = None, dev_Backing = OtherBacking ''net'',
     dev_kind = VirtualEthernetCard ''00:50:56:00:00:01'' ''generated''\<rparr>"

definition sample_online_net :: "NetworkStatus list" where
  "sample_online_net = [\<lparr>nst_Connected = Some True, nst_IPAddrs = [''10.0.0.1''], nst_MACAddr = ''00:50:56:00:00:01'', nst_NetworkName = ''net''\<rparr>]"

definition sample_online :: ext where
  \<comment> \<open>a powered-on VM with its metadata and an address\<close>
  "sample_online = sample_running\<lparr>
     x_netprops := \<lambda>h. Inr \<lparr>np_Devices = Some [sample_card],
       np_GuestNet = Some [\<lparr>gn_MacAddress = ''00:50:56:00:00:01'', gn_Network = ''net'', gn_Connected = True, gn_IpAddress = [''10.0.0.1'']\<rparr>]\<rparr>,
     x_extraconfig := \<lambda>h. Inr (Some [(guestInfoKeyMetadata,
       StringValue (EncodeToString (GetMachineMetadata '''' zero_VSphereVM Map.empty sample_online_net)))])\<rparr>"

lemma sample_online_status:
  "getNetworkStatus sample_online ref w = (Inr sample_online_net, w\<lparr>hist := hist w @ [Obj (VM_DevicesAndGuestNet ref)]\<rparr>)"
proof -
  have a: "sanitizeIPAddrs [''10.0.0.1''] = [''10.0.0.1'']" by code_simp
  have e: "EqualFold ''00:50:56:00:00:01'' ''00:50:56:00:00:01''" by code_simp
  show ?thesis
    by (simp add: getNetworkStatus_def GetNetworkStatus_def do_call_def sample_online_def sample_card_def nic_status_def
        sample_online_net_def mac_of_def a e)
qed

lemma sample_online_metadata:
  assumes "vm_Spec (ctx_VM w) = vm_Spec zero_VSphereVM" "vm_meta (ctx_VM w) = empty_meta" "svc_ipam w = Map.empty"
    "svm_Network (svc_vm w) = sample_online_net"
  shows "new_metadata w = GetMachineMetadata '''' zero_VSphereVM Map.empty sample_online_net"
  using assms by (simp add: new_metadata_def GetMachineMetadata_def empty_meta_def)

lemma sample_online_run:
  fixes w :: svc_ctx
  assumes spec: "vm_Spec (ctx_VM w) = vm_Spec zero_VSphereVM" "vm_meta (ctx_VM w) = empty_meta" "st_TaskRef (vm_status w) = ''''"
    "ctx_FailureDomain w = None" "ctx_ClusterModuleInfo w = None"
  shows "\<exists>w'. ReconcileVM sample_online w = Some (Inr (), w') \<and> svm_State (svc_vm w') = VirtualMachineStateReady \<and>
    svm_Network (svc_vm w') = sample_online_net \<and> svm_BiosUUID (svc_vm w') = ''poweredOn''"
proof -
  have n: "c_HardwareVersion zero_clone = ''''" "c_PciDevices zero_clone = []" "ns_Devices (c_Network zero_clone) = []"
    "c_StoragePolicyName zero_clone = ''''" "c_TagIDs zero_clone = []" by (simp_all add: zero_clone_def)
  have s: "s_Clone (vm_Spec zero_VSphereVM) = zero_clone" "s_BiosUUID (vm_Spec zero_VSphereVM) = ''''" by (simp_all add: zero_VSphereVM_def)
  have x: "x_ref_opt sample_online h = Inr (Some sample_ref)" "x_string sample_online h = Inr ''poweredOn''"
    "x_extraconfig sample_online h = Inr (Some [(guestInfoKeyMetadata,
       StringValue (EncodeToString (GetMachineMetadata '''' zero_VSphereVM Map.empty sample_online_net)))])"
    "x_ref sample_online h = Inr sample_ref" for h
    by (simp_all add: sample_online_def sample_running_def sample_found_def)
  show ?thesis
    using spec
    by (simp add: ReconcileVM_def reconcileInFlightTask_def getTask_def checkAndRetryTask_def task_state_def findVM_def
        reconcile_existing_seq finish_existing_seq seqO_def reconcileUUID_def reconcileHardwareVersion_def reconcilePCIDevices_def
        reconcileNetworkStatus_def reconcileIPAddresses_def BuildState_no_devices metadata_step_def getMetadata_def metadata_option_def
        reconcileStoragePolicy_def reconcileVMGroupInfo_def reconcileClusterModuleMembership_def reconcilePowerState_def getPowerState_def
        reconcileHostInfo_def reconcileTags_def do_call_def n s x initial_vm_def sample_online_metadata sample_online_status metadata_not_Nil
        reconcileVSphereVMOnTaskCompletion_def)
qed

lemma sample_online_reconcile:
  "\<exists>r w'. vm_reconcile sample_online sample_manager (ReconcileVM sample_online) (DestroyVM sample_online) sample_vcluster m sample_svc = Some (r, w') \<and>
     st_Ready (vm_status w') = Some True"
proof -
  obtain v where c: "reconcileIPAddressClaims sample_online sample_svc = (Inr (), v)"
    by (simp add: reconcileIPAddressClaims_def claim_slots_def claims_condition_def zero_counts_def sample_simps)
  have "quiet sample_svc v" using reconcileIPAddressClaims_quiet [of sample_svc sample_online] c by simp
  then have "vm_Spec (ctx_VM v) = vm_Spec zero_VSphereVM" "vm_meta (ctx_VM v) = empty_meta" "st_TaskRef (vm_status v) = ''''"
      "ctx_FailureDomain v = None" "ctx_ClusterModuleInfo v = None"
    by (simp_all add: quiet_def keeps_spec_def sample_simps)
  then obtain u where u: "ReconcileVM sample_online v = Some (Inr (), u)" "svm_State (svc_vm u) = VirtualMachineStateReady"
      "svm_Network (svc_vm u) = sample_online_net" "svm_BiosUUID (svc_vm u) = ''poweredOn''"
    using sample_online_run by blast
  obtain r w' where w': "report_ready (svc_vm u) u = (r, w')" by fastforce
  have alive: "m_DeletionTimestamp (vm_meta (ctx_VM sample_svc)) = None" "\<not> isWaitingForStaticIPAllocation (ctx_VM sample_svc)"
    by (simp_all add: isWaitingForStaticIPAllocation_def sample_simps empty_meta_def)
  have "vm_reconcile sample_online sample_manager (ReconcileVM sample_online) (DestroyVM sample_online) sample_vcluster m sample_svc = Some (r, w')"
    using c u w' alive by (simp add: vm_reconcile_def reconcileNormal_def after_service_def sample_manager_def)
  moreover have "st_Ready (vm_status w') = Some True"
    using report_ready_facts(8,9) [OF w'] u(3,4) by (auto simp: sample_online_net_def)
  ultimately show ?thesis by blast
qed

theorem ready_vm_has_addresses_witness:
  "\<exists>r w'. vm_reconcile sample_online sample_manager (ReconcileVM sample_online) (DestroyVM sample_online) sample_vcluster
       \<lparr>mach_meta = empty_meta, mach_FailureDomain = '''', mach_BootstrapDataSecretName = None\<rparr> sample_svc = Some (r, w') \<and>
     st_Addresses (vm_status w') \<noteq> [] \<and> s_BiosUUID (vm_spec w') \<noteq> ''''"
proof -
  let ?m = "\<lparr>mach_meta = empty_meta, mach_FailureDomain = '''', mach_BootstrapDataSecretName = None\<rparr>"
  obtain r w' where run: "vm_reconcile sample_online sample_manager (ReconcileVM sample_online) (DestroyVM sample_online)
      sample_vcluster ?m sample_svc = Some (r, w')" and ready: "st_Ready (vm_status w') = Some True"
    using sample_online_reconcile [of ?m] by blast
  have "st_Ready (vm_status sample_svc) \<noteq> Some True" by (simp add: sample_simps)
  from ready_vm_has_addresses [OF run this ready] run show ?thesis by blast
qed


section \<open>The life of a VSphereVM\<close>

text \<open>
  The states of the stored VSphereVM: every reconciliation, with any answers from outside, and every
  edit by others, who write neither the status nor the BIOS UUID.
\<close>

inductive vm_life :: "VSphereVM \<Rightarrow> VSphereVM \<Rightarrow> bool" for v where
  created: "vm_life v v"
| reconciled: "vm_life v (ctx_VM w) \<Longrightarrow> vm_reconcile x mgr (ReconcileVM x) (DestroyVM x) c m w = Some (r, w') \<Longrightarrow>
    vm_life v (ctx_VM (w' :: svc_ctx))"
| edited: "vm_life v v1 \<Longrightarrow> s_BiosUUID (vm_Spec v2) = s_BiosUUID (vm_Spec v1) \<Longrightarrow> vm_Status v2 = vm_Status v1 \<Longrightarrow> vm_life v v2"

text \<open>
  C14. Throughout the life of a VSphereVM that starts without a report, a ready one carries a BIOS UUID and
  the reference of its VM; and a reference, once set, never changes.
\<close>

theorem ready_vm_keeps_identity:
  assumes life: "vm_life v v'"
  shows "(st_Ready (vm_Status v) = None \<longrightarrow> Deref (st_Ready (vm_Status v')) False \<longrightarrow>
      s_BiosUUID (vm_Spec v') \<noteq> '''' \<and> st_VMRef (vm_Status v') \<noteq> '''') \<and>
    (st_VMRef (vm_Status v) \<noteq> '''' \<longrightarrow> st_VMRef (vm_Status v') = st_VMRef (vm_Status v))"
  using life
proof induction
  case created
  then show ?case by auto
next
  case (reconciled w x mgr c m r w')
  then show ?case
    using govmomi.reconcile_report [OF reconciled(2)]
    by (auto simp: unreported_def same_report_def reported_ready_def split: if_splits)
next
  case (edited v1 v2)
  then show ?case by simp
qed


theorem ready_vm_keeps_identity_witness:
  "\<exists>v. vm_life zero_VSphereVM v \<and> st_Ready (vm_Status v) = Some True \<and> s_BiosUUID (vm_Spec v) \<noteq> '''' \<and> st_VMRef (vm_Status v) \<noteq> ''''"
proof -
  let ?m = "\<lparr>mach_meta = empty_meta, mach_FailureDomain = '''', mach_BootstrapDataSecretName = None\<rparr>"
  obtain r w' where run: "vm_reconcile sample_online sample_manager (ReconcileVM sample_online) (DestroyVM sample_online)
      sample_vcluster ?m sample_svc = Some (r, w')" and ready: "st_Ready (vm_status w') = Some True"
    using sample_online_reconcile [of ?m] by blast
  have "ctx_VM sample_svc = zero_VSphereVM" by (simp add: sample_svc_def)
  then have "vm_life zero_VSphereVM (ctx_VM w')" using vm_life.reconciled [OF _ run] vm_life.created by metis
  then show ?thesis using ready_vm_keeps_identity [of zero_VSphereVM "ctx_VM w'"] ready by (auto simp: zero_VSphereVM_def)
qed

end
