(* ===== verification/VM_Claims_Correct.thy ===== *)
theory VM_Claims_Correct
  imports VM_Controller_End
begin

text \<open>The IPAddressClaims that the controller keeps for a VSphereVM.\<close>

section \<open>The claims of a VSphereVM\<close>

definition claim_calls :: "ext \<Rightarrow> VSphereVM \<Rightarrow> string \<times> IPPoolReference \<Rightarrow> IPAddressClaim \<Rightarrow> call list" where
  \<comment> \<open>what is sent for one pool of one device\<close>
  "claim_calls x vm slot claim =
     [Get (Get_IPAddressClaim (m_Namespace (vm_meta vm)) (fst slot)), Capi (CreateOrPatch_Read (m_Namespace (vm_meta vm)) (fst slot)),
      Put (CreateOrPatch_IPAddressClaim (claim_mutate x vm (snd slot) claim))]"

lemma claim_step_ok:
  assumes "claim_step x name pool n w = (m, u)"
  shows "ctx_VM u = ctx_VM w" "set (errList n) \<subseteq> set (errList m)" "totalClaims m = totalClaims n"
    "errList m = [] \<Longrightarrow> \<exists>claim. hist u = hist w @ tl (claim_calls x (ctx_VM w) (name, pool) claim)"
  using assms
  by (auto simp: claim_step_def createOrPatchIPAddressClaim_def do_call_def bindE_def wrapE_def count_claim_def claim_calls_def
      split: sum.splits)

lemma claims_loop_errors: "claims_loop x n slots w = (Inr n', w') \<Longrightarrow> set (errList n) \<subseteq> set (errList n')"
proof (induction slots arbitrary: n w)
  case (Cons slot slots)
  obtain name pool where slot: "slot = (name, pool)" by fastforce
  from Cons.prems [unfolded slot] show ?case
  proof (cases rule: claims_loop_Cons)
    case (next_slot m u)
    then show ?thesis using claim_step_ok(2) [OF next_slot(1)] Cons.IH [OF next_slot(2)] by auto
  qed simp
qed simp

lemma claims_loop_calls:
  assumes "claims_loop x n slots w = (Inr n', w')" "errList n' = []"
  shows "\<exists>claims. length claims = length slots \<and> totalClaims n' = totalClaims n + length slots \<and>
    hist w' = hist w @ concat (map2 (claim_calls x (ctx_VM w)) slots claims)"
  using assms
proof (induction slots arbitrary: n w)
  case (Cons slot slots)
  obtain name pool where slot: "slot = (name, pool)" by fastforce
  let ?c = "Get (Get_IPAddressClaim (m_Namespace (vm_meta (ctx_VM w))) name)"
  from Cons.prems(1) [unfolded slot] show ?case
  proof (cases rule: claims_loop_Cons)
    case (next_slot m u)
    note ok = claim_step_ok [OF next_slot(1)]
    have "errList m = []" using claims_loop_errors [OF next_slot(2)] Cons.prems(2) by simp
    then obtain claim where u: "hist u = (hist w @ [?c]) @ tl (claim_calls x (ctx_VM w) slot claim)"
      using ok(4) by (auto simp: slot)
    obtain claims where c: "length claims = length slots" "totalClaims n' = totalClaims m + length slots"
      "hist w' = hist u @ concat (map2 (claim_calls x (ctx_VM u)) slots claims)"
      using Cons.IH [OF next_slot(2) Cons.prems(2)] by blast
    have "hist w' = hist w @ concat (map2 (claim_calls x (ctx_VM w)) (slot # slots) (claim # claims))"
      using c(3) u ok(1) by (simp add: claim_calls_def slot)
    then show ?thesis using c(1,2) ok(3) by (intro exI [of _ "claim # claims"]) simp
  qed simp
qed simp

lemma claim_names_distinct: "distinct (map fst (claim_slots vm))"
proof -
  let ?n = "\<lambda>d p. IPAddressClaimName (m_Name (vm_meta vm)) d p"
  have row: "map fst (map (\<lambda>(p, pool). (?n d p, pool)) (enumerate 0 pools)) = map (?n d) [0..<length pools]" for d and pools :: "IPPoolReference list"
    by (induction pools rule: rev_induct) (auto simp: enumerate_append_eq)
  have e: "map fst (claim_slots vm) = concat (map (\<lambda>(d, dev). map (?n d) [0..<length (d_AddressesFromPools dev)])
      (enumerate 0 (ns_Devices (c_Network (s_Clone (vm_Spec vm))))))"
    unfolding claim_slots_def map_concat map_map by (intro arg_cong [of _ _ concat] map_cong refl) (auto simp: row [simplified])
  have "distinct (concat (map (\<lambda>(d, dev). map (?n d) [0..<length (d_AddressesFromPools dev)]) (enumerate k devs)))" for k devs
  proof (induction devs arbitrary: k)
    case (Cons dev devs)
    have "?n k p \<notin> set (concat (map (\<lambda>(d, dev). map (?n d) [0..<length (d_AddressesFromPools dev)]) (enumerate (Suc k) devs)))" for p
      by (auto simp: IPAddressClaimName_inject in_set_enumerate_eq)
    then show ?case using Cons.IH [of "Suc k"] by (auto simp: distinct_map inj_on_def IPAddressClaimName_inject in_set_enumerate_eq)
  qed simp
  then show ?thesis by (simp add: e)
qed

text \<open>
  When the claims of a VSphereVM are reconciled without an error, exactly one IPAddressClaim was
  written for every pool of every network device, in order, each under a name of its own and with the
  owner, the finalizer, the cluster label and the pool of \<open>claim_mutate\<close>; nothing else was sent.
\<close>

lemma one_claim_per_pool:
  assumes run: "reconcileIPAddressClaims x w = (Inr (), w')"
  shows "distinct (map fst (claim_slots (ctx_VM w))) \<and>
    (\<exists>claims. length claims = length (claim_slots (ctx_VM w)) \<and>
      new_calls w w' = concat (map2 (claim_calls x (ctx_VM w)) (claim_slots (ctx_VM w)) claims))"
proof -
  obtain n v where l: "claims_loop x zero_counts (claim_slots (ctx_VM w)) w = (Inr n, v)" and c: "claims_condition x n v = (Inr (), w')"
    using run by (auto simp: reconcileIPAddressClaims_def bindE_eq_Inr)
  have e: "errList n = []" "hist w' = hist v" using c by (auto simp: claims_condition_def Let_def split: if_splits option.splits)
  from claims_loop_calls [OF l e(1)] show ?thesis
    using claim_names_distinct [of "ctx_VM w"] e(2) by (auto simp: new_calls_def)
qed

end
