(* ===== verification/Machine_Service.thy ===== *)
theory Machine_Service
  imports Controller_Base Util
begin

text \<open>
  \<open>pkg/services/vimmachine.go\<close>: the service behind the controller of VSphereMachines. A VSphereMachine
  wraps one VSphereVM; the service writes the VSphereVM's spec from the Machine, the VSphereMachine, the
  failure domain and the VSphereCluster, and mirrors what the VSphereVM reports.

  \<^item> The state is \<open>VIMMachineContext\<close> of \<open>pkg/context/machine_context.go\<close>; the type assertions on the
    context always succeed here, because there is one kind of context.
  \<^item> \<open>CreateOrPatch\<close> of controller-runtime reads the object, starts from an empty one with the name if it
    does not exist, runs the mutate function on it and writes it back.
  \<^item> A run-time panic travels like an error.
\<close>

section \<open>The context\<close>

record machine_ctx = world +
  mc_VSphereMachine :: VSphereMachine
  mc_Machine :: Machine
  mc_Cluster :: "Cluster option"
  mc_VSphereCluster :: "VSphereCluster option" \<comment> \<open>\<open>None\<close> before \<open>FetchVSphereCluster\<close>\<close>

type_synonym ('w, 'a) mach_step = "'w machine_ctx_scheme \<Rightarrow> (go_error + 'a) \<times> 'w machine_ctx_scheme"

abbreviation mc_spec :: "'w machine_ctx_scheme \<Rightarrow> VSphereMachineSpec" where
  "mc_spec w \<equiv> vmach_Spec (mc_VSphereMachine w)"

abbreviation mc_status :: "'w machine_ctx_scheme \<Rightarrow> VSphereMachineStatus" where
  "mc_status w \<equiv> vmach_Status (mc_VSphereMachine w)"

abbreviation mc_meta :: "'w machine_ctx_scheme \<Rightarrow> ObjectMeta" where
  "mc_meta w \<equiv> vmach_meta (mc_VSphereMachine w)"

definition upd_mstatus :: "(VSphereMachineStatus \<Rightarrow> VSphereMachineStatus) \<Rightarrow> 'w machine_ctx_scheme \<Rightarrow> 'w machine_ctx_scheme" where
  "upd_mstatus f w = w\<lparr>mc_VSphereMachine := (mc_VSphereMachine w)\<lparr>vmach_Status := f (mc_status w)\<rparr>\<rparr>"

definition add_mcond :: "cond_op list \<Rightarrow> 'w machine_ctx_scheme \<Rightarrow> 'w machine_ctx_scheme" where
  \<comment> \<open>condition operations on the VSphereMachine, in order\<close>
  "add_mcond ops = upd_mstatus (\<lambda>s. s\<lparr>mst_Conditions := mst_Conditions s @ ops\<rparr>)"

definition VSphereMachineVirtualMachineProvisionedCondition :: string where
  "VSphereMachineVirtualMachineProvisionedCondition = ''VirtualMachineProvisioned''"

definition mprovisioned_false :: "string \<Rightarrow> Severity \<Rightarrow> string \<Rightarrow> cond_msg \<Rightarrow> cond_op list" where
  \<comment> \<open>\<open>MarkFalse(VMProvisioned, v1reason, severity, "")\<close> and the condition set to False\<close>
  "mprovisioned_false v1reason severity reason msg =
     [v1beta1_MarkFalse ''VMProvisioned'' v1reason severity NoMsg,
      cond_Set VSphereMachineVirtualMachineProvisionedCondition ConditionFalse reason msg]"

definition mirror_vm :: "VSphereVM \<Rightarrow> cond_op list" where
  "mirror_vm vm =
     [v1beta1_SetMirror ''VMProvisioned'' (st_Conditions (vm_Status vm)),
      cond_SetMirror VSphereMachineVirtualMachineProvisionedCondition VSphereVMVirtualMachineProvisionedCondition
        (st_Conditions (vm_Status vm))]"

section \<open>Names\<close>

definition GenerateVSphereVMName :: "ext \<Rightarrow> string \<Rightarrow> string \<Rightarrow> go_error + string" where
  "GenerateVSphereVMName x machineName template =
     (if template = '''' then Inr machineName
      else case GenerateMachineNameFromTemplate (x_ParseTemplate x) (x_ExecuteTemplate x) machineName template of
             Inl err \<Rightarrow> Inl (Wrapf err ''failed to generate name for VSphereVM'' [])
           | Inr name \<Rightarrow> Inr name)"

definition generateVMObjectName :: "ext \<Rightarrow> VSphereMachineSpec \<Rightarrow> string \<Rightarrow> go_error + string" where
  \<comment> \<open>\<open>name[0:9]\<close> panics on a name that is shorter\<close>
  "generateVMObjectName x spec machineName =
     (case GenerateVSphereVMName x machineName (ms_NamingTemplate spec) of
        Inl err \<Rightarrow> Inl err
      | Inr name \<Rightarrow>
          if c_OS (ms_Clone spec) = Windows \<and> length machineName > 15 then
            (if length name < 9 then Inl (Panic ''slice bounds out of range'')
             else Inr (TrimSuffix (take 9 name) ''-'' @ ''-'' @ drop (length name - 5) name))
          else Inr name)"

section \<open>The failure domain\<close>

definition overrideNetworkDeviceSpecs ::
  "NetworkDeviceSpec list \<Rightarrow> 'a list \<Rightarrow> (NetworkDeviceSpec \<Rightarrow> 'a \<Rightarrow> NetworkDeviceSpec) \<Rightarrow> NetworkDeviceSpec list" where
  "overrideNetworkDeviceSpecs deviceSpecs networks mergeFunc =
     map (\<lambda>(i, d). if i < length networks then mergeFunc d (networks ! i) else d) (enumerate 0 deviceSpecs) @
     map (mergeFunc empty_device) (drop (min (length deviceSpecs) (length networks)) networks)"

definition mergeFailureDomainNetworkName :: "NetworkDeviceSpec \<Rightarrow> string \<Rightarrow> NetworkDeviceSpec" where
  "mergeFailureDomainNetworkName device network = device\<lparr>d_NetworkName := network\<rparr>"

definition mergeNetworkConfigurationInNetworkDeviceSpec ::
  "NetworkDeviceSpec \<Rightarrow> NetworkConfiguration \<Rightarrow> NetworkDeviceSpec" where
  "mergeNetworkConfigurationInNetworkDeviceSpec device nc =
     (let d = (if nc_NetworkName nc \<noteq> '''' then device\<lparr>d_NetworkName := nc_NetworkName nc\<rparr> else device);
          d = (if nc_DHCP4 nc \<noteq> None then d\<lparr>d_DHCP4 := nc_DHCP4 nc\<rparr> else d);
          d = (if nc_DHCP6 nc \<noteq> None then d\<lparr>d_DHCP6 := nc_DHCP6 nc\<rparr> else d);
          d = (if length (nc_Nameservers nc) > 0 then d\<lparr>d_Nameservers := nc_Nameservers nc\<rparr> else d);
          d = (if length (nc_SearchDomains nc) > 0 then d\<lparr>d_SearchDomains := nc_SearchDomains nc\<rparr> else d);
          d = (if nc_DHCP4Overrides nc \<noteq> None then d\<lparr>d_DHCP4Overrides := nc_DHCP4Overrides nc\<rparr> else d);
          d = (if nc_DHCP6Overrides nc \<noteq> None then d\<lparr>d_DHCP6Overrides := nc_DHCP6Overrides nc\<rparr> else d)
      in if length (nc_AddressesFromPools nc) > 0 then d\<lparr>d_AddressesFromPools := nc_AddressesFromPools nc\<rparr> else d)"

definition overrideWithFailureDomainFunc ::
  "VSphereDeploymentZone \<Rightarrow> VSphereFailureDomain \<Rightarrow> VirtualMachineCloneSpec \<Rightarrow> VirtualMachineCloneSpec" where
  "overrideWithFailureDomainFunc zone domain spec =
     (let topology = vfd_Topology domain; placement = dz_PlacementConstraint zone;
          s = spec\<lparr>c_Server := dz_Server zone, c_Datacenter := t_Datacenter topology\<rparr>;
          s = (if plc_Folder placement \<noteq> '''' then s\<lparr>c_Folder := plc_Folder placement\<rparr> else s);
          s = (if plc_ResourcePool placement \<noteq> '''' then s\<lparr>c_ResourcePool := plc_ResourcePool placement\<rparr> else s);
          s = (if t_Datastore topology \<noteq> '''' then s\<lparr>c_Datastore := t_Datastore topology\<rparr> else s);
          s = (if length (t_Networks topology) > 0 then
                 s\<lparr>c_Network := (c_Network s)\<lparr>ns_Devices :=
                   overrideNetworkDeviceSpecs (ns_Devices (c_Network s)) (t_Networks topology) mergeFailureDomainNetworkName\<rparr>\<rparr>
               else s)
      in if length (t_NetworkConfigurations topology) > 0 then
           s\<lparr>c_Network := (c_Network s)\<lparr>ns_Devices :=
             overrideNetworkDeviceSpecs (ns_Devices (c_Network s)) (t_NetworkConfigurations topology)
               mergeNetworkConfigurationInNetworkDeviceSpec\<rparr>\<rparr>
         else s)"

definition generateOverrideFunc ::
  "ext \<Rightarrow> 'w machine_ctx_scheme \<Rightarrow> (VirtualMachineCloneSpec \<Rightarrow> VirtualMachineCloneSpec) option \<times> 'w machine_ctx_scheme" where
  \<comment> \<open>an error of a read is logged, and there is no override\<close>
  "generateOverrideFunc x w =
     (if mach_FailureDomain (mc_Machine w) = '''' then (None, w)
      else
        case do_call (Get (Get_VSphereDeploymentZone (mach_FailureDomain (mc_Machine w)))) (x_zone x) w of
          (Inl _, w) \<Rightarrow> (None, w)
        | (Inr zone, w) \<Rightarrow>
            (case do_call (Get (Get_VSphereFailureDomain (dz_FailureDomain zone))) (x_domain x) w of
               (Inl _, w) \<Rightarrow> (None, w)
             | (Inr domain, w) \<Rightarrow> (Some (overrideWithFailureDomainFunc zone domain), w)))"

section \<open>The VSphereVM of a VSphereMachine\<close>

definition findVSphereVM :: "ext \<Rightarrow> ('w, VSphereVM) mach_step" where
  "findVSphereVM x w =
     (case generateVMObjectName x (mc_spec w) (m_Name (mach_meta (mc_Machine w))) of
        Inl err \<Rightarrow> (Inl err, w)
      | Inr name \<Rightarrow> do_call (Get (Get_VSphereVM (m_Namespace (mc_meta w)) name)) (x_vm x) w)"

definition machine_owner :: "ObjectMeta \<Rightarrow> OwnerReference" where
  "machine_owner m = \<lparr>or_APIVersion = GroupVersion_String, or_Kind = ''VSphereMachine'', or_Name = m_Name m, or_UID = m_UID m,
     or_Controller = None, or_BlockOwnerDeletion = None\<rparr>"

definition vm_labels :: "ObjectMeta \<Rightarrow> (string \<rightharpoonup> string) \<Rightarrow> (string \<rightharpoonup> string)" where
  \<comment> \<open>the labels of the VSphereVM, given those of the Machine\<close>
  "vm_labels machine labels =
     (let ls = labels(ClusterNameLabel \<mapsto> label_value machine ClusterNameLabel) in
      case m_Labels machine MachineControlPlaneLabel of
        None \<Rightarrow> ls
      | Some val \<Rightarrow> ls(MachineControlPlaneLabel \<mapsto> val))"

definition vm_clone_from ::
  "VirtualMachineCloneSpec \<Rightarrow> (VirtualMachineCloneSpec \<Rightarrow> VirtualMachineCloneSpec) option \<Rightarrow> VSphereClusterSpec \<Rightarrow> VirtualMachineCloneSpec" where
  \<comment> \<open>the VSphereMachine's clone spec, overridden by the failure domain; server and thumbprint default to the VSphereCluster's\<close>
  "vm_clone_from machine_spec override cluster =
     (let s = (case override of None \<Rightarrow> machine_spec | Some f \<Rightarrow> f machine_spec);
          s = (if c_Server s = '''' then s\<lparr>c_Server := cs_Server cluster\<rparr> else s)
      in if c_Thumbprint s = '''' then s\<lparr>c_Thumbprint := cs_Thumbprint cluster\<rparr> else s)"

definition vm_mutate :: "ext \<Rightarrow> VSphereVM option \<Rightarrow> VSphereVM \<Rightarrow> ('w, VSphereVM) mach_step" where
  \<comment> \<open>\<open>mutateFn\<close> of \<open>createOrPatchVSphereVM\<close>; \<open>vsphereVM\<close> is the object found before\<close>
  "vm_mutate x vsphereVM vm w =
     (case mach_BootstrapDataSecretName (mc_Machine w) of
        None \<Rightarrow> (Inl (Panic ''nil dereference of DataSecretName''), w)
      | Some secret \<Rightarrow>
          (case mc_VSphereCluster w of
             None \<Rightarrow> (Inl (Panic ''nil dereference of VSphereCluster''), w)
           | Some cluster \<Rightarrow>
               let spec = mc_spec w; meta = vm_meta vm in
               case generateOverrideFunc x w of
                 (override, w) \<Rightarrow>
                   (Inr (vm\<lparr>vm_meta := meta\<lparr>m_OwnerReferences := x_EnsureOwnerRef x (m_OwnerReferences meta) (machine_owner (mc_meta w)),
                                      m_Labels := vm_labels (mach_meta (mc_Machine w)) (m_Labels meta)\<rparr>,
                        vm_Spec := \<lparr>s_Clone = vm_clone_from (ms_Clone spec) override (vc_Spec cluster),
                                    s_BootstrapRefName = secret,
                                    s_BiosUUID = (case vsphereVM of None \<Rightarrow> s_BiosUUID (vm_Spec vm) | Some v \<Rightarrow> s_BiosUUID (vm_Spec v)),
                                    s_PowerOffMode = ms_PowerOffMode spec,
                                    s_GuestSoftPowerOffTimeoutSeconds = ms_GuestSoftPowerOffTimeoutSeconds spec\<rparr>\<rparr>), w)))"

definition createOrPatchVSphereVM :: "ext \<Rightarrow> VSphereVM option \<Rightarrow> ('w, VSphereVM) mach_step" where
  "createOrPatchVSphereVM x vsphereVM w =
     (case generateVMObjectName x (mc_spec w) (m_Name (mach_meta (mc_Machine w))) of
        Inl err \<Rightarrow> (Inl err, w)
      | Inr name \<Rightarrow>
          wrapE ''failed to CreateOrPatch VSphereVM'' []
            (case do_call (Capi (CreateOrPatch_Read (m_Namespace (mc_meta w)) name)) (x_vm x) w of
               (r, w) \<Rightarrow>
                 (case (case r of
                          Inr vm \<Rightarrow> Inr vm
                        | Inl err \<Rightarrow>
                            if apierrors_IsNotFound err
                            then Inr (zero_VSphereVM\<lparr>vm_meta := empty_meta\<lparr>m_Namespace := m_Namespace (mc_meta w), m_Name := name\<rparr>\<rparr>)
                            else Inl err) of
                    Inl err \<Rightarrow> (Inl err, w)
                  | Inr vm \<Rightarrow>
                      bindE (vm_mutate x vsphereVM vm w) (\<lambda>vm w. do_call (Put (CreateOrPatch_VSphereVM vm)) (x_vm x) w))))"

section \<open>Reconciliation\<close>

definition reconcileProviderID :: "VSphereVM \<Rightarrow> ('w, bool) mach_step" where
  "reconcileProviderID vm w =
     (let biosUUID = s_BiosUUID (vm_Spec vm) in
      if biosUUID = '''' then (Inr False, w)
      else
        let providerID = ConvertUUIDToProviderID biosUUID in
        if providerID = '''' then (Inl (Errorf ''failed to reconcile providerID: invalid BIOS UUID %s for %s'' [biosUUID]), w)
        else if ms_ProviderID (mc_spec w) \<noteq> providerID
        then (Inr True, w\<lparr>mc_VSphereMachine := (mc_VSphereMachine w)\<lparr>vmach_Spec := (mc_spec w)\<lparr>ms_ProviderID := providerID\<rparr>\<rparr>\<rparr>)
        else (Inr True, w))"

definition network_errors :: "NetworkStatus list \<Rightarrow> go_error list" where
  \<comment> \<open>\<open>errs\<close>: the error of a member without MAC address is appended twice; a member always survives JSON\<close>
  "network_errors ns =
     concat (map (\<lambda>n. if nst_MACAddr n = '''' then [Errorf ''macAddr is required'' [], Errorf ''macAddr is required'' []] else []) ns)"

definition machine_addresses :: "VSphereVM \<Rightarrow> MachineAddress list" where
  "machine_addresses vm =
     map (\<lambda>addr. \<lparr>ma_Type = MachineExternalIP, ma_Address = addr\<rparr>) (st_Addresses (vm_Status vm)) @
     [\<lparr>ma_Type = MachineInternalDNS, ma_Address = m_Name (vm_meta vm)\<rparr>]"

definition machine_reconcileNetwork :: "VSphereVM \<Rightarrow> ('w, bool) mach_step" where
  \<comment> \<open>\<open>VimMachineService.reconcileNetwork\<close>\<close>
  "machine_reconcileNetwork vm w =
     (let ns = st_Network (vm_Status vm);
          w = upd_mstatus (\<lambda>s. s\<lparr>mst_Network := filter (\<lambda>n. nst_MACAddr n \<noteq> '''') ns, mst_Addresses := machine_addresses vm\<rparr>) w in
      if length (mst_Addresses (mc_status w)) = 0 then
        (case kerrors_NewAggregate (network_errors ns) of
           Some err \<Rightarrow> (Inl err, w)
         | None \<Rightarrow> (Inr False, w))
      else (Inr True, w))"

definition SyncFailureReason :: "ext \<Rightarrow> ('w, unit) mach_step" where
  "SyncFailureReason x w =
     bindE (findVSphereVM x w) (\<lambda>vm w.
     if st_FailureReason (vm_Status vm) \<noteq> None \<or> st_FailureMessage (vm_Status vm) \<noteq> None
     then (Inr (), upd_mstatus (\<lambda>s. s\<lparr>mst_FailureReason := st_FailureReason (vm_Status vm),
                                      mst_FailureMessage := st_FailureMessage (vm_Status vm)\<rparr>) w)
     else (Inr (), w))"

definition machine_report :: "VSphereVM \<Rightarrow> ('w, bool) mach_step" where
  \<comment> \<open>\<open>ReconcileNormal\<close> behind \<open>createOrPatchVSphereVM\<close>; the result is whether to look again\<close>
  "machine_report vm w =
     (if \<not> Deref (st_Ready (vm_Status vm)) False then (Inr True, add_mcond (mirror_vm vm) w)
      else
        case reconcileProviderID vm w of
          (Inl err, w) \<Rightarrow> (Inl (Wrapf err ''unexpected error while reconciling provider ID for %s'' []), w)
        | (Inr False, w) \<Rightarrow> (Inr True, w)
        | (Inr True, w) \<Rightarrow>
            (case machine_reconcileNetwork vm w of
               (Inl err, w) \<Rightarrow> (Inl (Wrapf err ''unexpected error while reconciling network for %s'' []), w)
             | (Inr False, w) \<Rightarrow>
                 (Inr True, add_mcond (mprovisioned_false ''WaitingForNetworkAddresses'' SeverityInfo ''WaitingForNetworkAddress'' NoMsg) w)
             | (Inr True, w) \<Rightarrow> (Inr False, upd_mstatus (\<lambda>s. s\<lparr>mst_Provisioned := Some True\<rparr>) w)))"

definition machine_ReconcileNormal :: "ext \<Rightarrow> ('w, bool) mach_step" where
  \<comment> \<open>\<open>VimMachineService.ReconcileNormal\<close>\<close>
  "machine_ReconcileNormal x w =
     (case findVSphereVM x w of
        (r, w) \<Rightarrow>
          (case (case r of Inl err \<Rightarrow> if apierrors_IsNotFound err then Inr None else Inl err | Inr vm \<Rightarrow> Inr (Some vm)) of
             Inl err \<Rightarrow> (Inl err, w)
           | Inr vsphereVM \<Rightarrow> bindE (createOrPatchVSphereVM x vsphereVM w) machine_report))"

definition machine_ReconcileDelete :: "ext \<Rightarrow> ('w, unit) mach_step" where
  \<comment> \<open>\<open>VimMachineService.ReconcileDelete\<close>\<close>
  "machine_ReconcileDelete x w =
     bindE (findVSphereVM x w) (\<lambda>vm w.
     bindE (if m_DeletionTimestamp (vm_meta vm) = None
            then do_call (Put (Delete_VSphereVM (m_Namespace (vm_meta vm)) (m_Name (vm_meta vm)))) (x_unit x) w
            else (Inr (), w)) (\<lambda>_ w.
     (Inr (), add_mcond (mirror_vm vm) w)))"

definition GetHostInfo :: "ext \<Rightarrow> ('w, string) mach_step" where
  "GetHostInfo x w =
     bindE (findVSphereVM x w) (\<lambda>vm w.
     (Inr (if x_IsTrue x (st_Conditions (vm_Status vm)) VSphereVMVirtualMachineProvisionedCondition
           then st_Host (vm_Status vm) else ''''), w))"

definition GetMachinesInCluster :: "ext \<Rightarrow> string \<Rightarrow> string \<Rightarrow> ('w, VSphereMachine list) k8s_step" where
  "GetMachinesInCluster x namespace clusterName w =
     do_call (Get (List_VSphereMachines namespace [ClusterNameLabel \<mapsto> clusterName])) (x_machines x) w"

definition FetchVSphereCluster :: "ext \<Rightarrow> Cluster \<Rightarrow> ('w, unit) mach_step" where
  "FetchVSphereCluster x cluster w =
     bindE (do_call (Get (Get_VSphereCluster (m_Namespace (mc_meta w)) (cl_InfrastructureRefName cluster))) (x_vcluster x) w) (\<lambda>c w.
     (Inr (), w\<lparr>mc_VSphereCluster := Some c\<rparr>))"

end
