(* ===== verification/Machine_Controller.thy ===== *)
theory Machine_Controller
  imports Machine_Service
begin

text \<open>
  \<open>controllers/vspheremachine_controller.go\<close> in the govmomi mode (\<open>supervisorBased\<close> is false): the
  controller of VSphereMachines on top of the machine service. \<open>Reconcile\<close> is split where the deferred
  function is registered, as in the controller of VSphereVMs.
\<close>

definition machine_Patch :: "ext \<Rightarrow> ('w, unit) mach_step" where
  "machine_Patch x w = do_call (Put (Patch_VSphereMachine (mc_VSphereMachine w))) (x_unit x) w"

definition remove_machine_finalizer :: "ext \<Rightarrow> VSphereMachine \<Rightarrow> VSphereMachine" where
  "remove_machine_finalizer x m =
     m\<lparr>vmach_meta := (vmach_meta m)\<lparr>m_Finalizers := fst (x_RemoveFinalizer x (m_Finalizers (vmach_meta m)) MachineFinalizer)\<rparr>\<rparr>"

section \<open>Deletion\<close>

definition machine_reconcileDelete :: "ext \<Rightarrow> ('w, time) mach_step" where
  "machine_reconcileDelete x w =
     (case machine_ReconcileDelete x (add_mcond (mprovisioned_false ''Deleting'' SeverityInfo ''Deleting'' NoMsg) w) of
        (Inr _, w) \<Rightarrow> (Inr ten_seconds, w)
      | (Inl err, w) \<Rightarrow>
          if is_panic err then (Inl err, w)
          else if apierrors_IsNotFound err
          then (Inr 0, w\<lparr>mc_VSphereMachine := remove_machine_finalizer x (mc_VSphereMachine w)\<rparr>)
          else (Inl err, add_mcond (mprovisioned_false ''DeletionFailed'' SeverityWarning ''Deleting''
                           (Msg ''Please check controller logs for errors'' [])) w))"

section \<open>Normal operation\<close>

definition ESXiHostInfoLabel :: string where
  "ESXiHostInfoLabel = ''node.cluster.x-k8s.io/esxi-host''"

definition patchMachineLabelsWithHostInfo :: "ext \<Rightarrow> ('w, unit) mach_step" where
  "patchMachineLabelsWithHostInfo x w =
     bindE (GetHostInfo x w) (\<lambda>hostInfo w.
     let info = SanitizeHostInfoLabel 63 hostInfo; errs = x_IsValidLabelValue x info in
     if length errs > 0 then (Inl (Errorf ''%s (hostInfo: %s): %s'' (''host info cannot be used as a label value'' # hostInfo # errs)), w)
     else
       bindE (do_call (Capi (NewPatchHelper (mach_meta (mc_Machine w)))) (x_unit x) w) (\<lambda>_ w.
       let machine = mc_Machine w; meta = mach_meta machine;
           machine = machine\<lparr>mach_meta := meta\<lparr>m_Labels := (m_Labels meta)(ESXiHostInfoLabel \<mapsto> info)\<rparr>\<rparr> in
       do_call (Put (Patch_Machine machine)) (x_unit x) (w\<lparr>mc_Machine := machine\<rparr>)))"

definition waits_for_bootstrap :: "ext \<Rightarrow> 'w machine_ctx_scheme \<Rightarrow> cond_op list option" where
  \<comment> \<open>the conditions to set when there is no bootstrap data yet\<close>
  "waits_for_bootstrap x w =
     (if mach_BootstrapDataSecretName (mc_Machine w) \<noteq> None then None
      else if \<not> IsControlPlaneMachine (mc_meta w) \<and>
              \<not> (case mc_Cluster w of None \<Rightarrow> False | Some c \<Rightarrow> x_IsTrue x (cl_Conditions c) ''ControlPlaneInitialized'')
      then Some (mprovisioned_false ''WaitingForControlPlaneAvailable'' SeverityInfo ''WaitingForControlPlaneInitialized'' NoMsg)
      else Some (mprovisioned_false ''WaitingForBootstrapData'' SeverityInfo ''WaitingForBootstrapData'' NoMsg))"

definition mprovisioned_true :: "cond_op list" where
  "mprovisioned_true = [v1beta1_MarkTrue ''VMProvisioned'',
     cond_Set VSphereMachineVirtualMachineProvisionedCondition ConditionTrue ''Provisioned'' NoMsg]"

definition machine_provision :: "ext \<Rightarrow> ('w, time) mach_step" where
  \<comment> \<open>\<open>reconcileNormal\<close> from the call of \<open>ReconcileNormal\<close> of the service\<close>
  "machine_provision x w =
     bindE (machine_ReconcileNormal x w) (\<lambda>requeue w.
     if requeue then (Inr ten_seconds, w)
     else
       bindE (wrapE ''failed to patch Machine with host info label'' [] (patchMachineLabelsWithHostInfo x w)) (\<lambda>_ w.
       (Inr 0, add_mcond mprovisioned_true w)))"

definition machine_reconcileNormal :: "ext \<Rightarrow> ('w, time) mach_step" where
  "machine_reconcileNormal x w =
     (case SyncFailureReason x w of
        (r, w) \<Rightarrow>
          (case (case r of Inl err \<Rightarrow> if apierrors_IsNotFound err then None else Some err | Inr _ \<Rightarrow> None) of
             Some err \<Rightarrow> (Inl err, w)
           | None \<Rightarrow>
               if \<not> (case mc_Cluster w of None \<Rightarrow> False | Some c \<Rightarrow> Deref (cl_InfrastructureProvisioned c) False)
               then (Inr 0, add_mcond (mprovisioned_false ''WaitingForClusterInfrastructure'' SeverityInfo
                               ''WaitingForClusterInfrastructureReady'' NoMsg) w)
               else case waits_for_bootstrap x w of
                      Some ops \<Rightarrow> (Inr 0, add_mcond ops w)
                    | None \<Rightarrow> machine_provision x w))"

section \<open>One reconciliation\<close>

definition without_owner :: "ext \<Rightarrow> VSphereMachine \<Rightarrow> ('w, unit) k8s_step" where
  \<comment> \<open>a VSphereMachine without Machine: nothing to delete, so its finalizer may go\<close>
  "without_owner x m w =
     (if m_DeletionTimestamp (vmach_meta m) \<noteq> None \<and> MachineFinalizer \<in> set (m_Finalizers (vmach_meta m)) then
        bindE (do_call (Capi (NewPatchHelper (vmach_meta m))) (x_unit x) w) (\<lambda>_ w.
        do_call (Put (Patch_VSphereMachine (remove_machine_finalizer x m))) (x_unit x) w)
      else (Inr (), w))"

definition machine_prepare :: "ext \<Rightarrow> string \<Rightarrow> string \<Rightarrow> ('w, (VSphereMachine \<times> Machine \<times> Cluster option) option) k8s_step" where
  "machine_prepare x namespace name w =
     (case do_call (Get (Get_VSphereMachine namespace name)) (x_machine x) w of
        (Inl err, w) \<Rightarrow> if apierrors_IsNotFound err then (Inr None, w) else (Inl err, w)
      | (Inr m, w) \<Rightarrow>
          bindE (wrapE ''failed to get Machine for VSphereMachine'' []
                  (do_call (Capi (GetOwnerMachine (vmach_meta m))) (x_capimachine_opt x) w)) (\<lambda>machine w.
          case machine of
            None \<Rightarrow> bindE (without_owner x m w) (\<lambda>_ w. (Inr None, w))
          | Some machine \<Rightarrow>
              bindE (do_call (Capi (AddOwners machine)) (x_unit x) w) (\<lambda>_ w.
              case do_call (Capi (GetClusterFromMetadata (mach_meta machine))) (x_cluster x) w of
                (c, w) \<Rightarrow>
                  bindR (own_object x (vmach_meta m) MachineFinalizer w) (\<lambda>_ w.
                  (Inr (Some (m, machine, case c of Inl _ \<Rightarrow> None | Inr cluster \<Rightarrow> Some cluster)), w)))))"

definition machine_deferred :: "ext \<Rightarrow> (go_error + time) \<times> 'w machine_ctx_scheme \<Rightarrow> (go_error + time) \<times> 'w machine_ctx_scheme" where
  "machine_deferred x rw =
     (case rw of (r, w) \<Rightarrow>
      let w = add_mcond ((if \<not> x_Has x (mst_Conditions (mc_status w)) VSphereMachineVirtualMachineProvisionedCondition
                          then if Deref (mst_Provisioned (mc_status w)) False
                               then [cond_Set VSphereMachineVirtualMachineProvisionedCondition ConditionTrue ''Provisioned'' NoMsg]
                               else [cond_Set VSphereMachineVirtualMachineProvisionedCondition ConditionFalse ''NotProvisioned'' NoMsg]
                          else []) @ [v1beta1_SetSummary [''VMProvisioned'']]) w in
      case x_SetSummaryCondition x (mst_Conditions (mc_status w)) of
        Some err \<Rightarrow> (aggregate r (Some (Wrapf err ''failed to set %s condition'' [''Ready''])), w)
      | None \<Rightarrow>
          (case machine_Patch x (add_mcond [cond_SetSummary ''Ready'' [VSphereMachineVirtualMachineProvisionedCondition] []] w) of
             (Inl err, w) \<Rightarrow> (aggregate r (Some err), w)
           | (Inr _, w) \<Rightarrow> (r, w)))"

definition drop_cluster_owner :: "ext \<Rightarrow> Cluster \<Rightarrow> VSphereMachine \<Rightarrow> VSphereMachine" where
  "drop_cluster_owner x cluster m =
     m\<lparr>vmach_meta := (vmach_meta m)\<lparr>m_OwnerReferences := x_RemoveOwnerRef x (m_OwnerReferences (vmach_meta m))
         \<lparr>or_APIVersion = GroupVersion_String, or_Kind = cl_InfrastructureRefKind cluster, or_Name = cl_InfrastructureRefName cluster,
          or_UID = '''', or_Controller = None, or_BlockOwnerDeletion = None\<rparr>\<rparr>\<rparr>"

definition machine_reconcile :: "ext \<Rightarrow> ('w, time) mach_step" where
  \<comment> \<open>\<open>Reconcile\<close> behind the registration of the deferred function\<close>
  "machine_reconcile x w =
     (if m_DeletionTimestamp (mc_meta w) \<noteq> None then machine_reconcileDelete x w
      else case mc_Cluster w of
        None \<Rightarrow> (Inr 0, w)
      | Some cluster \<Rightarrow>
          if \<not> cl_InfrastructureRefIsDefined cluster then (Inr 0, w)
          else
            bindE (wrapE ''failed to get VSphereCluster'' []
                    (FetchVSphereCluster x cluster (w\<lparr>mc_VSphereMachine := drop_cluster_owner x cluster (mc_VSphereMachine w)\<rparr>)))
              (\<lambda>_ w. machine_reconcileNormal x w))"

definition machine_context :: "VSphereMachine \<times> Machine \<times> Cluster option \<Rightarrow> call list \<Rightarrow> machine_ctx" where
  "machine_context i h = (case i of (m, machine, cluster) \<Rightarrow>
     \<lparr>hist = h, mc_VSphereMachine = m, mc_Machine = machine, mc_Cluster = cluster, mc_VSphereCluster = None\<rparr>)"

definition machine_Reconcile :: "ext \<Rightarrow> string \<Rightarrow> string \<Rightarrow> world \<Rightarrow> (go_error + time) \<times> call list" where
  \<comment> \<open>\<open>machineReconciler.Reconcile\<close>: its result and all calls made\<close>
  "machine_Reconcile x namespace name w =
     (case machine_prepare x namespace name w of
        (Inl err, w) \<Rightarrow> (Inl err, hist w)
      | (Inr None, w) \<Rightarrow> (Inr 0, hist w)
      | (Inr (Some i), w) \<Rightarrow>
          (case machine_deferred x (machine_reconcile x (machine_context i (hist w))) of (r, w) \<Rightarrow> (r, hist w)))"

definition enqueueClusterToMachineRequests :: "ext \<Rightarrow> ObjectMeta \<Rightarrow> 'w world_scheme \<Rightarrow> (string \<times> string) list \<times> 'w world_scheme" where
  \<comment> \<open>(namespace, name) of the VSphereMachines to reconcile\<close>
  "enqueueClusterToMachineRequests x a w =
     (case GetMachinesInCluster x (m_Namespace a) (m_Name a) w of
        (Inl _, w) \<Rightarrow> ([], w)
      | (Inr ms, w) \<Rightarrow> (map (\<lambda>m. (m_Namespace (vmach_meta m), m_Name (vmach_meta m))) ms, w))"

end
