(* ===== verification/Machine_Correct.thy ===== *)
theory Machine_Correct
  imports Machine_Controller
begin

text \<open>
  Properties of the controller of VSphereMachines: when it writes a VSphereVM and with which spec, what a
  provisioned VSphereMachine carries, and when it lets a VSphereMachine go.
\<close>

section \<open>Frames\<close>

lemma upd_mstatus_simps [simp]:
  "hist (upd_mstatus f w) = hist w" "vmach_meta (mc_VSphereMachine (upd_mstatus f w)) = mc_meta w"
  "vmach_Spec (mc_VSphereMachine (upd_mstatus f w)) = mc_spec w"
  "vmach_Status (mc_VSphereMachine (upd_mstatus f w)) = f (mc_status w)"
  "mc_Machine (upd_mstatus f w) = mc_Machine w" "mc_Cluster (upd_mstatus f w) = mc_Cluster w"
  "mc_VSphereCluster (upd_mstatus f w) = mc_VSphereCluster w"
  by (simp_all add: upd_mstatus_def)

lemma add_mcond_simps [simp]:
  "hist (add_mcond ops w) = hist w" "vmach_meta (mc_VSphereMachine (add_mcond ops w)) = mc_meta w"
  "vmach_Spec (mc_VSphereMachine (add_mcond ops w)) = mc_spec w"
  "vmach_Status (mc_VSphereMachine (add_mcond ops w)) = (mc_status w)\<lparr>mst_Conditions := mst_Conditions (mc_status w) @ ops\<rparr>"
  "mc_Machine (add_mcond ops w) = mc_Machine w" "mc_Cluster (add_mcond ops w) = mc_Cluster w"
  "mc_VSphereCluster (add_mcond ops w) = mc_VSphereCluster w"
  by (simp_all add: add_mcond_def)

text \<open>Reading calls, and the calls that write a VSphereVM.\<close>

fun is_get :: "call \<Rightarrow> bool" where
  "is_get (Get _) = True"
| "is_get _ = False"

fun writes_vm :: "call \<Rightarrow> bool" where
  "writes_vm (Put (CreateOrPatch_VSphereVM _)) = True"
| "writes_vm _ = False"

lemma no_vm_write: "list_all (\<lambda>c. \<not> writes_vm c) cs \<Longrightarrow> Put (CreateOrPatch_VSphereVM vm) \<notin> set cs"
  by (auto simp: list_all_iff)

lemma is_get_quiet: "list_all is_get cs \<Longrightarrow> list_all (\<lambda>c. \<not> writes_vm c) cs"
  by (auto elim!: list.pred_mono_strong is_get.elims)

lemma generateOverrideFunc_reads:
  obtains cs where "snd (generateOverrideFunc x w) = w\<lparr>hist := hist w @ cs\<rparr>" "list_all is_get cs"
proof (cases "x_zone x (hist w @ [Get (Get_VSphereDeploymentZone (mach_FailureDomain (mc_Machine w)))])")
  case (Inl e)
  then show ?thesis using that [of "if mach_FailureDomain (mc_Machine w) = '''' then [] else [Get (Get_VSphereDeploymentZone (mach_FailureDomain (mc_Machine w)))]"]
    by (auto simp: generateOverrideFunc_def do_call_def)
next
  case (Inr z)
  then show ?thesis
    using that [of "if mach_FailureDomain (mc_Machine w) = '''' then [] else [Get (Get_VSphereDeploymentZone (mach_FailureDomain (mc_Machine w))), Get (Get_VSphereFailureDomain (dz_FailureDomain z))]"]
    by (auto simp: generateOverrideFunc_def do_call_def split: sum.splits)
qed

lemma findVSphereVM_eq:
  assumes "findVSphereVM x w = (r, w')"
  obtains (bad_name) e where "generateVMObjectName x (mc_spec w) (m_Name (mach_meta (mc_Machine w))) = Inl e" "r = Inl e" "w' = w"
  | (read) name where "generateVMObjectName x (mc_spec w) (m_Name (mach_meta (mc_Machine w))) = Inr name"
      "w' = w\<lparr>hist := hist w @ [Get (Get_VSphereVM (m_Namespace (mc_meta w)) name)]\<rparr>" "x_vm x (hist w') = r"
  using assms by (auto simp: findVSphereVM_def do_call_eq split: sum.splits)

lemma findVSphereVM_hist:
  assumes "findVSphereVM x w = (r, w')"
  obtains cs where "w' = w\<lparr>hist := hist w @ cs\<rparr>" "list_all is_get cs"
  using assms by (elim findVSphereVM_eq) (use that [of "[]"] that [of "[_]"] in \<open>auto\<close>)


section \<open>Where the spec of a VSphereVM comes from\<close>

text \<open>
  The intended placement of a VM: the failure domain wins over the VSphereMachine, which wins over the
  VSphereCluster; everything that does not concern placement is the VSphereMachine's.
\<close>

definition first_set :: "string \<Rightarrow> string \<Rightarrow> string" where
  "first_set a b = (if a \<noteq> '''' then a else b)"

definition unplaced :: "VirtualMachineCloneSpec \<Rightarrow> VirtualMachineCloneSpec" where
  \<comment> \<open>a clone spec without the fields that say where\<close>
  "unplaced s = s\<lparr>c_Server := '''', c_Thumbprint := '''', c_Datacenter := '''', c_Folder := '''', c_ResourcePool := '''',
     c_Datastore := '''', c_Network := (c_Network s)\<lparr>ns_Devices := []\<rparr>\<rparr>"

definition device_name_at :: "NetworkDeviceSpec list \<Rightarrow> nat \<Rightarrow> string" where
  "device_name_at ds i = (if i < length ds then d_NetworkName (ds ! i) else '''')"

definition network_at :: "Topology \<Rightarrow> NetworkDeviceSpec list \<Rightarrow> nat \<Rightarrow> string" where
  \<comment> \<open>the network of the \<open>i\<close>-th card: network configuration, then the list of networks, then the VSphereMachine's device\<close>
  "network_at t ds i =
     first_set (if i < length (t_NetworkConfigurations t) then nc_NetworkName (t_NetworkConfigurations t ! i) else '''')
       (if i < length (t_Networks t) then t_Networks t ! i else device_name_at ds i)"

definition placed ::
  "(VSphereDeploymentZone \<times> VSphereFailureDomain) option \<Rightarrow> VSphereClusterSpec \<Rightarrow> VirtualMachineCloneSpec \<Rightarrow> VirtualMachineCloneSpec \<Rightarrow> bool" where
  "placed fd cluster m s \<longleftrightarrow>
     unplaced s = unplaced m \<and>
     c_Thumbprint s = first_set (c_Thumbprint m) (cs_Thumbprint cluster) \<and>
     (case fd of
        None \<Rightarrow> c_Server s = first_set (c_Server m) (cs_Server cluster) \<and> c_Datacenter s = c_Datacenter m \<and> c_Folder s = c_Folder m \<and>
          c_ResourcePool s = c_ResourcePool m \<and> c_Datastore s = c_Datastore m \<and> ns_Devices (c_Network s) = ns_Devices (c_Network m)
      | Some (zone, domain) \<Rightarrow>
          let t = vfd_Topology domain; p = dz_PlacementConstraint zone; ds = ns_Devices (c_Network m) in
          c_Server s = first_set (dz_Server zone) (cs_Server cluster) \<and> c_Datacenter s = t_Datacenter t \<and>
          c_Folder s = first_set (plc_Folder p) (c_Folder m) \<and> c_ResourcePool s = first_set (plc_ResourcePool p) (c_ResourcePool m) \<and>
          c_Datastore s = first_set (t_Datastore t) (c_Datastore m) \<and>
          length (ns_Devices (c_Network s)) = max (length ds) (max (length (t_Networks t)) (length (t_NetworkConfigurations t))) \<and>
          (\<forall>i < length (ns_Devices (c_Network s)). d_NetworkName (ns_Devices (c_Network s) ! i) = network_at t ds i))"

lemma length_overrideNetworkDeviceSpecs [simp]:
  "length (overrideNetworkDeviceSpecs ds ns f) = max (length ds) (length ns)"
  by (auto simp: overrideNetworkDeviceSpecs_def)

lemma overrideNetworkDeviceSpecs_nth:
  assumes "i < max (length ds) (length ns)"
  shows "overrideNetworkDeviceSpecs ds ns f ! i =
    (let d = if i < length ds then ds ! i else empty_device in if i < length ns then f d (ns ! i) else d)"
proof (cases "i < length ds")
  case True
  then show ?thesis by (simp add: overrideNetworkDeviceSpecs_def nth_append nth_enumerate_eq)
next
  case False
  then have "i < length ns" "min (length ds) (length ns) = length ds" using assms by auto
  then show ?thesis using False by (simp add: overrideNetworkDeviceSpecs_def nth_append)
qed

lemma device_name_at_override:
  assumes "\<And>d n. d_NetworkName (f d n) = h n (d_NetworkName d)"
  shows "device_name_at (overrideNetworkDeviceSpecs ds ns f) i =
    (if i < length ns then h (ns ! i) (device_name_at ds i) else device_name_at ds i)"
  by (auto simp: device_name_at_def overrideNetworkDeviceSpecs_nth Let_def assms empty_device_def max_def)

lemma merge_names [simp]:
  "d_NetworkName (mergeFailureDomainNetworkName d n) = n"
  "d_NetworkName (mergeNetworkConfigurationInNetworkDeviceSpec d nc) = first_set (nc_NetworkName nc) (d_NetworkName d)"
  by (simp_all add: mergeFailureDomainNetworkName_def mergeNetworkConfigurationInNetworkDeviceSpec_def Let_def first_set_def)

lemmas device_names_override =
  device_name_at_override [of mergeFailureDomainNetworkName "\<lambda>n _. n"]
  device_name_at_override [of mergeNetworkConfigurationInNetworkDeviceSpec "\<lambda>nc. first_set (nc_NetworkName nc)"]

definition placed_devices :: "Topology \<Rightarrow> NetworkDeviceSpec list \<Rightarrow> NetworkDeviceSpec list" where
  "placed_devices t ds =
     overrideNetworkDeviceSpecs (overrideNetworkDeviceSpecs ds (t_Networks t) mergeFailureDomainNetworkName)
       (t_NetworkConfigurations t) mergeNetworkConfigurationInNetworkDeviceSpec"

lemma override_nothing [simp]: "overrideNetworkDeviceSpecs ds [] f = ds"
  by (auto simp: overrideNetworkDeviceSpecs_def split_def)

lemma placed_devices_names:
  "i < length (placed_devices t ds) \<Longrightarrow> d_NetworkName (placed_devices t ds ! i) = network_at t ds i"
  using device_names_override(2) [of "overrideNetworkDeviceSpecs ds (t_Networks t) mergeFailureDomainNetworkName" "t_NetworkConfigurations t" i]
    device_names_override(1) [of ds "t_Networks t" i]
  by (auto simp: placed_devices_def network_at_def device_name_at_def first_set_def split: if_splits)

lemma override_eq:
  "overrideWithFailureDomainFunc zone domain s =
     (let t = vfd_Topology domain; p = dz_PlacementConstraint zone in
      s\<lparr>c_Server := dz_Server zone, c_Datacenter := t_Datacenter t, c_Folder := first_set (plc_Folder p) (c_Folder s),
        c_Datastore := first_set (t_Datastore t) (c_Datastore s), c_ResourcePool := first_set (plc_ResourcePool p) (c_ResourcePool s),
        c_Network := (c_Network s)\<lparr>ns_Devices := placed_devices t (ns_Devices (c_Network s))\<rparr>\<rparr>)"
  by (cases s; cases "c_Network s")
     (simp add: overrideWithFailureDomainFunc_def Let_def first_set_def placed_devices_def)

lemma vm_clone_from_placed:
  "placed fd cluster m (vm_clone_from m (map_option (\<lambda>(z, d). overrideWithFailureDomainFunc z d) fd) cluster)"
proof (cases fd)
  case None
  then show ?thesis by (simp add: placed_def vm_clone_from_def unplaced_def first_set_def Let_def)
next
  case (Some zd)
  obtain z d where zd: "zd = (z, d)" by force
  have len: "length (placed_devices (vfd_Topology d) ds) =
      max (length ds) (max (length (t_Networks (vfd_Topology d))) (length (t_NetworkConfigurations (vfd_Topology d))))" for ds
    by (simp add: placed_devices_def)
  show ?thesis
    using placed_devices_names [of _ "vfd_Topology d" "ns_Devices (c_Network m)"]
    by (auto simp: Some zd placed_def vm_clone_from_def override_eq unplaced_def first_set_def Let_def len)
qed

datatype domain_source =
    No_Domain \<comment> \<open>the Machine has no failure domain\<close>
  | Domain_Read VSphereDeploymentZone VSphereFailureDomain
  | Domain_Unreadable go_error \<comment> \<open>the zone or its failure domain could not be read\<close>

definition failure_domain_answer :: "ext \<Rightarrow> string \<Rightarrow> call list \<Rightarrow> domain_source" where
  \<comment> \<open>what the API server says of the failure domain \<open>name\<close> after the calls \<open>h\<close>\<close>
  "failure_domain_answer x name h =
     (if name = '''' then No_Domain
      else case x_zone x (h @ [Get (Get_VSphereDeploymentZone name)]) of
             Inl e \<Rightarrow> Domain_Unreadable e
           | Inr z \<Rightarrow>
               (case x_domain x (h @ [Get (Get_VSphereDeploymentZone name), Get (Get_VSphereFailureDomain (dz_FailureDomain z))]) of
                  Inl e \<Rightarrow> Domain_Unreadable e
                | Inr d \<Rightarrow> Domain_Read z d))"

fun domain_of :: "domain_source \<Rightarrow> (VSphereDeploymentZone \<times> VSphereFailureDomain) option" where
  "domain_of (Domain_Read z d) = Some (z, d)"
| "domain_of _ = None"

lemma generateOverrideFunc_eq:
  "fst (generateOverrideFunc x w) =
     map_option (\<lambda>(z, d). overrideWithFailureDomainFunc z d) (domain_of (failure_domain_answer x (mach_FailureDomain (mc_Machine w)) (hist w)))"
  by (simp add: generateOverrideFunc_def failure_domain_answer_def do_call_def split: sum.splits)

lemma placed_cases:
  "(let place = (\<lambda>fd. placed fd cl m s) in
    case failure_domain_answer x name h of
      No_Domain \<Rightarrow> name = '''' \<and> place None
    | Domain_Read zone domain \<Rightarrow> place (Some (zone, domain))
    | Domain_Unreadable err \<Rightarrow> name \<noteq> '''' \<and> place None) \<longleftrightarrow> placed (domain_of (failure_domain_answer x name h)) cl m s"
  by (auto simp: failure_domain_answer_def Let_def split: sum.split)

lemma vm_mutate_cases:
  assumes "vm_mutate x v vm0 w = (r, w')"
  obtains (panic) e where "r = Inl e" "w' = w"
  | (ok) vm cs cluster where "r = Inr vm" "w' = w\<lparr>hist := hist w @ cs\<rparr>" "list_all is_get cs" "mc_VSphereCluster w = Some cluster"
      "mach_BootstrapDataSecretName (mc_Machine w) = Some (s_BootstrapRefName (vm_Spec vm))"
      "placed (domain_of (failure_domain_answer x (mach_FailureDomain (mc_Machine w)) (hist w))) (vc_Spec cluster) (ms_Clone (mc_spec w)) (s_Clone (vm_Spec vm))"
      "s_BiosUUID (vm_Spec vm) = s_BiosUUID (vm_Spec (case v of None \<Rightarrow> vm0 | Some u \<Rightarrow> u))"
proof -
  obtain cs where cs: "snd (generateOverrideFunc x w) = w\<lparr>hist := hist w @ cs\<rparr>" "list_all is_get cs"
    by (rule generateOverrideFunc_reads)
  then have gen: "generateOverrideFunc x w =
      (map_option (\<lambda>(z, d). overrideWithFailureDomainFunc z d) (domain_of (failure_domain_answer x (mach_FailureDomain (mc_Machine w)) (hist w))),
       w\<lparr>hist := hist w @ cs\<rparr>)"
    by (simp add: prod_eq_iff generateOverrideFunc_eq)
  show ?thesis
  proof (cases "mach_BootstrapDataSecretName (mc_Machine w) = None \<or> mc_VSphereCluster w = None")
    case True
    then show ?thesis using assms panic by (auto simp: vm_mutate_def split: option.splits)
  next
    case False
    then obtain s c where sc: "mach_BootstrapDataSecretName (mc_Machine w) = Some s" "mc_VSphereCluster w = Some c" by auto
    have "\<exists>vm. r = Inr vm \<and> w' = w\<lparr>hist := hist w @ cs\<rparr> \<and> s_BootstrapRefName (vm_Spec vm) = s \<and>
        s_Clone (vm_Spec vm) = vm_clone_from (ms_Clone (mc_spec w)) (fst (generateOverrideFunc x w)) (vc_Spec c) \<and>
        s_BiosUUID (vm_Spec vm) = s_BiosUUID (vm_Spec (case v of None \<Rightarrow> vm0 | Some u \<Rightarrow> u))"
      using assms by (auto simp: vm_mutate_def gen Let_def sc split: option.splits)
    then show ?thesis using ok cs sc vm_clone_from_placed by (auto simp: generateOverrideFunc_eq)
  qed
qed

lemma createOrPatchVSphereVM_cases:
  assumes "createOrPatchVSphereVM x v w = (r, w')"
  obtains (unwritten) cs e where "r = Inl e" "w' = w\<lparr>hist := hist w @ cs\<rparr>" "list_all (\<lambda>c. \<not> writes_vm c) cs"
  | (written) vm h cluster where "w' = w\<lparr>hist := hist w @ h @ [Put (CreateOrPatch_VSphereVM vm)]\<rparr>" "list_all (\<lambda>c. \<not> writes_vm c) h" "h \<noteq> []"
      "r = (case x_vm x (hist w') of Inl e \<Rightarrow> Inl (Wrapf e ''failed to CreateOrPatch VSphereVM'' []) | Inr u \<Rightarrow> Inr u)"
      "mc_VSphereCluster w = Some cluster"
      "mach_BootstrapDataSecretName (mc_Machine w) = Some (s_BootstrapRefName (vm_Spec vm))"
      "placed (domain_of (failure_domain_answer x (mach_FailureDomain (mc_Machine w)) (hist w @ [hd h]))) (vc_Spec cluster) (ms_Clone (mc_spec w)) (s_Clone (vm_Spec vm))"
proof (cases "generateVMObjectName x (mc_spec w) (m_Name (mach_meta (mc_Machine w)))")
  case (Inl e)
  then show ?thesis using assms unwritten [of e "[]"] by (simp add: createOrPatchVSphereVM_def)
next
  case (Inr name)
  let ?c = "Capi (CreateOrPatch_Read (m_Namespace (mc_meta w)) name)"
  let ?u = "w\<lparr>hist := hist w @ [?c]\<rparr>"
  let ?new = "zero_VSphereVM\<lparr>vm_meta := empty_meta\<lparr>m_Namespace := m_Namespace (mc_meta w), m_Name := name\<rparr>\<rparr>"
  have quiet: "list_all is_get cs \<Longrightarrow> list_all (\<lambda>c. \<not> writes_vm c) (?c # cs)" for cs
    by (simp add: list.pred_mono_strong, erule list.pred_mono_strong) (auto elim!: is_get.elims)
  consider e where "r = Inl e" "w' = ?u"
    | vm0 where "wrapE ''failed to CreateOrPatch VSphereVM'' []
        (bindE (vm_mutate x v vm0 ?u) (\<lambda>vm w. do_call (Put (CreateOrPatch_VSphereVM vm)) (x_vm x) w)) = (r, w')"
    using assms by (auto simp: createOrPatchVSphereVM_def Inr do_call_def [of ?c] split: sum.splits if_splits)
  then show ?thesis
  proof cases
    case 1
    then show ?thesis using unwritten [of e "[?c]"] by simp
  next
    case 2
    obtain q u' where m: "vm_mutate x v vm0 ?u = (q, u')" by force
    from m show ?thesis
    proof (cases rule: vm_mutate_cases)
      case (panic e)
      then show ?thesis using 2 m unwritten [of _ "[?c]"] by auto
    next
      case (ok vm cs cluster)
      then show ?thesis using 2 m quiet [of cs] written [of "?c # cs" vm cluster]
        by (auto simp: do_call_def wrapE_def split: sum.splits)
    qed
  qed
qed

section \<open>The branches of a reconciliation\<close>

lemma SyncFailureReason_frame:
  assumes "SyncFailureReason x w = (r, w')"
  obtains cs where "hist w' = hist w @ cs" "list_all is_get cs" "mc_meta w' = mc_meta w" "mc_spec w' = mc_spec w"
    "mc_Machine w' = mc_Machine w" "mc_Cluster w' = mc_Cluster w" "mc_VSphereCluster w' = mc_VSphereCluster w"
    "mst_Provisioned (mc_status w') = mst_Provisioned (mc_status w)"
proof -
  obtain q u where f: "findVSphereVM x w = (q, u)" by force
  then obtain cs where "u = w\<lparr>hist := hist w @ cs\<rparr>" "list_all is_get cs" by (rule findVSphereVM_hist)
  then show ?thesis using that assms f by (cases q) (auto simp: SyncFailureReason_def split: if_splits)
qed

lemma reconcileProviderID_frame [simp]:
  "hist (snd (reconcileProviderID vm w)) = hist w" "mc_meta (snd (reconcileProviderID vm w)) = mc_meta w"
  "mc_status (snd (reconcileProviderID vm w)) = mc_status w"
  by (simp_all add: reconcileProviderID_def Let_def)

lemma machine_reconcileNetwork_frame [simp]:
  "hist (snd (machine_reconcileNetwork vm w)) = hist w" "mc_meta (snd (machine_reconcileNetwork vm w)) = mc_meta w"
  "mc_spec (snd (machine_reconcileNetwork vm w)) = mc_spec w"
  by (simp_all add: machine_reconcileNetwork_def Let_def split: option.splits)

lemma machine_reconcileNetwork_ok:
  "fst (machine_reconcileNetwork vm w) = Inr True"
  by (simp add: machine_reconcileNetwork_def machine_addresses_def Let_def)

lemma machine_report_frame:
  "hist (snd (machine_report vm w)) = hist w" "mc_meta (snd (machine_report vm w)) = mc_meta w"
proof -
  obtain q u where p: "reconcileProviderID vm w = (q, u)" by force
  obtain q' u' where n: "machine_reconcileNetwork vm u = (q', u')" by force
  have u: "hist u = hist w" "mc_meta u = mc_meta w" "hist u' = hist u" "mc_meta u' = mc_meta u" "q' = Inr True"
    using p n reconcileProviderID_frame [of vm w] machine_reconcileNetwork_frame [of vm u] machine_reconcileNetwork_ok [of vm u] by simp_all
  show "hist (snd (machine_report vm w)) = hist w" "mc_meta (snd (machine_report vm w)) = mc_meta w"
    using u by (auto simp: machine_report_def p n split: sum.splits bool.splits)
qed

lemma patchMachineLabelsWithHostInfo_frame:
  assumes "patchMachineLabelsWithHostInfo x w = (r, w')"
  obtains cs where "hist w' = hist w @ cs" "list_all (\<lambda>c. \<not> writes_vm c) cs" "mc_VSphereMachine w' = mc_VSphereMachine w"
proof -
  obtain q u where f: "findVSphereVM x w = (q, u)" by force
  then obtain cs where "u = w\<lparr>hist := hist w @ cs\<rparr>" "list_all is_get cs" by (rule findVSphereVM_hist)
  moreover have "list_all (\<lambda>c. \<not> writes_vm c) cs" using \<open>list_all is_get cs\<close>
    by (rule is_get_quiet)
  ultimately show ?thesis using that assms f
    by (cases q) (auto simp: patchMachineLabelsWithHostInfo_def GetHostInfo_def Let_def do_call_def bindE_def split: if_splits sum.splits)
qed

definition vm_from_sources :: "ext \<Rightarrow> 'w machine_ctx_scheme \<Rightarrow> call list \<Rightarrow> VSphereVM \<Rightarrow> bool" where
  \<comment> \<open>\<open>vm\<close> has the spec that the sources prescribe, the failure domain being read after the calls \<open>h\<close>\<close>
  "vm_from_sources x w h vm \<longleftrightarrow>
     mach_BootstrapDataSecretName (mc_Machine w) = Some (s_BootstrapRefName (vm_Spec vm)) \<and>
     (\<exists>cluster. mc_VSphereCluster w = Some cluster \<and>
        placed (domain_of (failure_domain_answer x (mach_FailureDomain (mc_Machine w)) h)) (vc_Spec cluster) (ms_Clone (mc_spec w)) (s_Clone (vm_Spec vm)))"

lemma machine_ReconcileNormal_cases:
  assumes "machine_ReconcileNormal x w = (r, w')"
  obtains (unwritten) e cs where "r = Inl e" "w' = w\<lparr>hist := hist w @ cs\<rparr>" "list_all (\<lambda>c. \<not> writes_vm c) cs"
  | (rejected) cs vm h e where "r = Inl e" "w' = w\<lparr>hist := hist w @ cs @ [Put (CreateOrPatch_VSphereVM vm)]\<rparr>"
      "list_all (\<lambda>c. \<not> writes_vm c) cs" "prefix h cs" "vm_from_sources x w (hist w @ h) vm"
  | (written) cs vm h u where "machine_report u (w\<lparr>hist := hist w @ cs @ [Put (CreateOrPatch_VSphereVM vm)]\<rparr>) = (r, w')"
      "list_all (\<lambda>c. \<not> writes_vm c) cs" "prefix h cs" "vm_from_sources x w (hist w @ h) vm"
      "x_vm x (hist w @ cs @ [Put (CreateOrPatch_VSphereVM vm)]) = Inr u"
proof -
  obtain q v where f: "findVSphereVM x w = (q, v)" by force
  then obtain ds where v: "v = w\<lparr>hist := hist w @ ds\<rparr>" and "list_all is_get ds" by (rule findVSphereVM_hist)
  then have ds: "list_all (\<lambda>c. \<not> writes_vm c) ds" by (simp add: is_get_quiet)
  consider e where "r = Inl e" "w' = v" | o' where "bindE (createOrPatchVSphereVM x o' v) machine_report = (r, w')"
    using assms f by (auto simp: machine_ReconcileNormal_def split: sum.splits if_splits)
  then show ?thesis
  proof cases
    case 1
    then show ?thesis using unwritten [of e ds] v ds by simp
  next
    case 2
    obtain p y where c: "createOrPatchVSphereVM x o' v = (p, y)" by force
    from c show ?thesis
    proof (cases rule: createOrPatchVSphereVM_cases)
      case (unwritten cs e)
      then show ?thesis using 2 c that(1) [of e "ds @ cs"] v ds by simp
    next
      case (written vm h cluster)
      have src: "vm_from_sources x w (hist w @ ds @ [hd h]) vm"
        using written v by (auto simp: vm_from_sources_def)
      have h: "hist y = hist w @ (ds @ h) @ [Put (CreateOrPatch_VSphereVM vm)]" "y = w\<lparr>hist := hist y\<rparr>" using written v by simp_all
      have pre: "prefix (ds @ [hd h]) (ds @ h)" using written by (cases h) simp_all
      show ?thesis
      proof (cases "x_vm x (hist y)")
        case (Inl e)
        then show ?thesis using 2 c written h v ds src pre that(2) [of _ "ds @ h" vm "ds @ [hd h]"] by auto
      next
        case (Inr u)
        then show ?thesis using 2 c written h v ds src pre that(3) [of u "ds @ h" vm "ds @ [hd h]"] by simp
      qed
    qed
  qed
qed

lemma machine_provision_cases:
  assumes "machine_provision x w = (r, w')"
  obtains (unwritten) e cs where "r = Inl e" "w' = w\<lparr>hist := hist w @ cs\<rparr>" "list_all (\<lambda>c. \<not> writes_vm c) cs"
  | (written) cs vm h ds where "hist w' = hist w @ cs @ [Put (CreateOrPatch_VSphereVM vm)] @ ds" "mc_meta w' = mc_meta w"
      "list_all (\<lambda>c. \<not> writes_vm c) (cs @ ds)" "prefix h cs" "vm_from_sources x w (hist w @ h) vm"
proof -
  obtain q v where n: "machine_ReconcileNormal x w = (q, v)" by force
  have after: "\<exists>ds. hist w' = hist v @ ds \<and> list_all (\<lambda>c. \<not> writes_vm c) ds \<and> mc_meta w' = mc_meta v"
  proof -
    obtain p y where l: "patchMachineLabelsWithHostInfo x v = (p, y)" by force
    then obtain ds where "hist y = hist v @ ds" "list_all (\<lambda>c. \<not> writes_vm c) ds" "mc_VSphereMachine y = mc_VSphereMachine v"
      by (rule patchMachineLabelsWithHostInfo_frame)
    then show ?thesis using assms by (cases q; cases p) (auto simp: machine_provision_def n l split: if_splits)
  qed
  from n show ?thesis
  proof (cases rule: machine_ReconcileNormal_cases)
    case (unwritten e cs)
    then show ?thesis using assms that(1) [of e cs] by (simp add: machine_provision_def n)
  next
    case (rejected cs vm h e)
    then show ?thesis using assms that(2) [of cs vm "[]" h] by (auto simp: machine_provision_def n)
  next
    case (written cs vm h u)
    then show ?thesis using after machine_report_frame [of u "w\<lparr>hist := hist w @ cs @ [Put (CreateOrPatch_VSphereVM vm)]\<rparr>"] that(2) by auto
  qed
qed

lemma machine_reconcileNormal_cases:
  assumes "machine_reconcileNormal x w = (r, w')"
  obtains (quiet) cs where "hist w' = hist w @ cs" "list_all (\<lambda>c. \<not> writes_vm c) cs" "mc_meta w' = mc_meta w"
      "mst_Provisioned (mc_status w') = mst_Provisioned (mc_status w)"
  | (provision) u cs where "machine_provision x u = (r, w')" "hist u = hist w @ cs" "list_all (\<lambda>c. \<not> writes_vm c) cs" "mc_meta u = mc_meta w"
      "mc_spec u = mc_spec w" "mc_Machine u = mc_Machine w" "mc_Cluster u = mc_Cluster w" "mc_VSphereCluster u = mc_VSphereCluster w"
      "mst_Provisioned (mc_status u) = mst_Provisioned (mc_status w)"
      "\<exists>c. mc_Cluster w = Some c \<and> cl_InfrastructureProvisioned c = Some True"
      "mach_BootstrapDataSecretName (mc_Machine w) \<noteq> None"
proof -
  obtain q v where f: "SyncFailureReason x w = (q, v)" by force
  from f obtain cs where v: "hist v = hist w @ cs" "list_all is_get cs" "mc_meta v = mc_meta w" "mc_spec v = mc_spec w"
    "mc_Machine v = mc_Machine w" "mc_Cluster v = mc_Cluster w" "mc_VSphereCluster v = mc_VSphereCluster w"
    "mst_Provisioned (mc_status v) = mst_Provisioned (mc_status w)" by (rule SyncFailureReason_frame)
  have cs: "list_all (\<lambda>c. \<not> writes_vm c) cs" using v(2) by (rule is_get_quiet)
  consider "hist w' = hist v" "mc_meta w' = mc_meta v" "mst_Provisioned (mc_status w') = mst_Provisioned (mc_status v)"
    | "machine_provision x v = (r, w')" "\<exists>c. mc_Cluster v = Some c \<and> cl_InfrastructureProvisioned c = Some True"
      "mach_BootstrapDataSecretName (mc_Machine v) \<noteq> None"
    using assms by (auto simp: machine_reconcileNormal_def f waits_for_bootstrap_def Deref_def split: sum.splits if_splits option.splits)
  then show ?thesis using that v cs by cases auto
qed

lemma machine_ReconcileDelete_cases:
  assumes "machine_ReconcileDelete x w = (r, w')"
  obtains (unfound) e where "findVSphereVM x w = (Inl e, w')" "r = Inl e"
  | (kept) vm u e where "findVSphereVM x w = (Inr vm, u)" "r = Inl e" "x_unit x (hist w') = Inl e"
      "w' = u\<lparr>hist := hist u @ [Put (Delete_VSphereVM (m_Namespace (vm_meta vm)) (m_Name (vm_meta vm)))]\<rparr>"
  | (going) vm u cs where "findVSphereVM x w = (Inr vm, u)" "r = Inr ()" "w' = add_mcond (mirror_vm vm) (u\<lparr>hist := hist u @ cs\<rparr>)"
      "list_all (\<lambda>c. \<not> writes_vm c) cs"
proof -
  obtain q u where f: "findVSphereVM x w = (q, u)" by force
  show ?thesis
  proof (cases q)
    case (Inl e)
    then show ?thesis using assms f unfound by (simp add: machine_ReconcileDelete_def)
  next
    case (Inr vm)
    let ?d = "Put (Delete_VSphereVM (m_Namespace (vm_meta vm)) (m_Name (vm_meta vm)))"
    show ?thesis
    proof (cases "m_DeletionTimestamp (vm_meta vm) = None")
      case True
      let ?u = "u\<lparr>hist := hist u @ [?d]\<rparr>"
      have eq: "(r, w') = (case x_unit x (hist ?u) of Inl e \<Rightarrow> (Inl e, ?u) | Inr _ \<Rightarrow> (Inr (), add_mcond (mirror_vm vm) ?u))"
        using assms True by (auto simp: machine_ReconcileDelete_def f Inr do_call_def split: sum.splits)
      show ?thesis
      proof (cases "x_unit x (hist ?u)")
        case (Inl e)
        with eq have "r = Inl e" "w' = ?u" by simp_all
        then show ?thesis using Inl f \<open>q = Inr vm\<close> kept [of vm u e] by simp
      next
        case (Inr _)
        with eq have "r = Inr ()" "w' = add_mcond (mirror_vm vm) ?u" by simp_all
        then show ?thesis using f \<open>q = Inr vm\<close> going [of vm u "[?d]"] by simp
      qed
    next
      case False
      then show ?thesis using assms f Inr going [of vm u "[]"] by (auto simp: machine_ReconcileDelete_def)
    qed
  qed
qed

lemma machine_reconcileDelete_result:
  fixes w :: "'w machine_ctx_scheme"
  assumes "machine_reconcileDelete x w = (r, w')"
  obtains q v where "machine_ReconcileDelete x (add_mcond (mprovisioned_false ''Deleting'' SeverityInfo ''Deleting'' NoMsg) w) = (q, v)"
    "hist w' = hist v" "mc_meta w' \<noteq> mc_meta v \<longrightarrow> (\<exists>e. q = Inl e \<and> apierrors_IsNotFound e) \<and> r = Inr 0"
proof -
  obtain q v where d: "machine_ReconcileDelete x (add_mcond (mprovisioned_false ''Deleting'' SeverityInfo ''Deleting'' NoMsg) w) = (q, v)" by force
  have "hist w' = hist v \<and> (mc_meta w' \<noteq> mc_meta v \<longrightarrow> (\<exists>e. q = Inl e \<and> apierrors_IsNotFound e) \<and> r = Inr 0)"
  proof (cases q)
    case (Inl e)
    then show ?thesis using assms by (auto simp: machine_reconcileDelete_def d split: if_splits)
  qed (use assms in \<open>auto simp: machine_reconcileDelete_def d\<close>)
  then show ?thesis using that d by blast
qed

lemma machine_reconcileDelete_quiet:
  assumes "machine_reconcileDelete x w = (r, w')"
  obtains cs where "hist w' = hist w @ cs" "list_all (\<lambda>c. \<not> writes_vm c) cs"
proof -
  let ?w = "add_mcond (mprovisioned_false ''Deleting'' SeverityInfo ''Deleting'' NoMsg) w"
  from assms obtain q v where v: "machine_ReconcileDelete x ?w = (q, v)" "hist w' = hist v" by (rule machine_reconcileDelete_result)
  from v(1) show ?thesis
  proof (cases rule: machine_ReconcileDelete_cases)
    case (unfound e)
    from unfound(1) show ?thesis by (rule findVSphereVM_hist) (use v(2) is_get_quiet that in auto)
  next
    case (kept vm u e)
    from kept(1) show ?thesis by (rule findVSphereVM_hist) (use v(2) is_get_quiet kept that in auto)
  next
    case (going vm u cs)
    from going(1) show ?thesis by (rule findVSphereVM_hist) (use v(2) is_get_quiet going that in auto)
  qed
qed

lemma machine_reconcileDelete_provisioned:
  assumes "machine_reconcileDelete x w = (r, w')"
  shows "mst_Provisioned (mc_status w') = mst_Provisioned (mc_status w)"
proof -
  let ?w = "add_mcond (mprovisioned_false ''Deleting'' SeverityInfo ''Deleting'' NoMsg) w"
  obtain q v where d: "machine_ReconcileDelete x ?w = (q, v)" by force
  then have "mst_Provisioned (mc_status v) = mst_Provisioned (mc_status w)"
    by (cases rule: machine_ReconcileDelete_cases) (auto elim!: findVSphereVM_hist)
  then show ?thesis using assms
    by (cases q) (auto simp: machine_reconcileDelete_def d remove_machine_finalizer_def split: if_splits)
qed

section \<open>Properties\<close>

text \<open>
  C4. The controller writes a VSphereVM only for a VSphereMachine that is not being deleted, whose Cluster has its
  infrastructure and whose bootstrap data exists; the VSphereVM refers to that data. Its clone spec is the one of the VSphereMachine except for the
  placement. If the Machine has no failure domain, the placement is the VSphereMachine's, with the server and the thumbprint of the
  VSphereCluster where the VSphereMachine sets none. If it has one that was read, the datacenter is the failure domain's, the server is the
  zone's (the VSphereCluster's if the zone has none, never the VSphereMachine's), and folder, resource pool, datastore and networks are the ones of the
  zone and its failure domain where these set them and the VSphereMachine's otherwise, as \<open>placed\<close> says. If the zone or its failure domain could not
  be read, the error is dropped and the VSphereVM is placed as if the Machine had no failure domain.
\<close>

theorem vm_written_from_sources:
  assumes "machine_reconcile x w = (r, w')" and "Put (CreateOrPatch_VSphereVM vm) \<in> set (new_calls w w')"
  shows "m_DeletionTimestamp (mc_meta w) = None \<and>
    mach_BootstrapDataSecretName (mc_Machine w) = Some (s_BootstrapRefName (vm_Spec vm)) \<and>
    (\<exists>c cluster h. mc_Cluster w = Some c \<and> cl_InfrastructureProvisioned c = Some True \<and>
       x_vcluster x (hist w @ [Get (Get_VSphereCluster (m_Namespace (mc_meta w)) (cl_InfrastructureRefName c))]) = Inr cluster \<and>
       prefix (hist w @ h) (hist w') \<and>
       (let place = (\<lambda>fd. placed fd (vc_Spec cluster) (ms_Clone (mc_spec w)) (s_Clone (vm_Spec vm))) in
        case failure_domain_answer x (mach_FailureDomain (mc_Machine w)) (hist w @ h) of
          No_Domain \<Rightarrow> mach_FailureDomain (mc_Machine w) = '''' \<and> place None
        | Domain_Read zone domain \<Rightarrow> place (Some (zone, domain))
        | Domain_Unreadable err \<Rightarrow> mach_FailureDomain (mc_Machine w) \<noteq> '''' \<and> place None))"
proof -
  have not_deleted: "m_DeletionTimestamp (mc_meta w) = None"
  proof (rule ccontr)
    assume "m_DeletionTimestamp (mc_meta w) \<noteq> None"
    then have "machine_reconcileDelete x w = (r, w')" using assms(1) by (simp add: machine_reconcile_def)
    then show False by (rule machine_reconcileDelete_quiet) (use assms(2) no_vm_write in \<open>auto simp: new_calls_def\<close>)
  qed
  then obtain c y cluster where c: "mc_Cluster w = Some c" "machine_reconcileNormal x y = (r, w')"
      and cl: "x_vcluster x (hist w @ [Get (Get_VSphereCluster (m_Namespace (mc_meta w)) (cl_InfrastructureRefName c))]) = Inr cluster"
      and y: "\<exists>d. hist y = hist w @ [Get d]" "mc_spec y = mc_spec w" "mc_Machine y = mc_Machine w" "mc_Cluster y = mc_Cluster w"
        "mc_VSphereCluster y = Some cluster"
    using assms by (auto simp: machine_reconcile_def FetchVSphereCluster_def drop_cluster_owner_def do_call_def new_calls_def bindE_def wrapE_def
        split: option.splits if_splits sum.splits)
  from c(2) show ?thesis
  proof (cases rule: machine_reconcileNormal_cases)
    case (quiet cs)
    then show ?thesis using assms(2) y no_vm_write by (auto simp: new_calls_def)
  next
    case (provision u cs)
    from provision(1) show ?thesis
    proof (cases rule: machine_provision_cases)
      case (unwritten e cs')
      then show ?thesis using assms(2) y provision no_vm_write [of _ vm] by (auto simp: new_calls_def)
    next
      case (written cs' vm' h ds)
      then have vm: "vm = vm'" using assms(2) y provision no_vm_write [of _ vm] by (auto simp: new_calls_def)
      obtain d where d: "hist u @ h = hist w @ (Get d # cs @ h)" using y provision by auto
      have "prefix (hist u @ h) (hist w')" using written by (auto simp: prefix_def)
      moreover have "placed (domain_of (failure_domain_answer x (mach_FailureDomain (mc_Machine u)) (hist u @ h))) (vc_Spec cluster) (ms_Clone (mc_spec u)) (s_Clone (vm_Spec vm))"
        and "mach_BootstrapDataSecretName (mc_Machine u) = Some (s_BootstrapRefName (vm_Spec vm))"
        using written(5) provision(8) y(5) by (auto simp: vm vm_from_sources_def)
      ultimately have "prefix (hist w @ (Get d # cs @ h)) (hist w')"
        "placed (domain_of (failure_domain_answer x (mach_FailureDomain (mc_Machine w)) (hist w @ (Get d # cs @ h)))) (vc_Spec cluster)
           (ms_Clone (mc_spec w)) (s_Clone (vm_Spec vm))"
        "mach_BootstrapDataSecretName (mc_Machine w) = Some (s_BootstrapRefName (vm_Spec vm))"
        using y(2,3) provision(5,6) unfolding d by simp_all
      then show ?thesis using not_deleted provision(10) y(4) c(1) cl
        by (intro conjI exI [of _ c] exI [of _ cluster] exI [of _ "Get d # cs @ h"])
          (auto simp: placed_cases)
    qed
  qed
qed

lemma machine_reconcileNormal_meta:
  assumes "machine_reconcileNormal x w = (r, w')"
  shows "mc_meta w' = mc_meta w"
  using assms
proof (cases rule: machine_reconcileNormal_cases)
  case (provision u cs)
  from provision(1) show ?thesis by (cases rule: machine_provision_cases) (use provision in auto)
qed

text \<open>The errors of the template engine are not errors of the API server.\<close>

definition template_errors :: "ext \<Rightarrow> bool" where
  "template_errors x \<longleftrightarrow>
     (\<forall>t e. x_ParseTemplate x t = Inl e \<longrightarrow> \<not> apierrors_IsNotFound e) \<and>
     (\<forall>t n e. x_ExecuteTemplate x t n = Inl e \<longrightarrow> \<not> apierrors_IsNotFound e)"

lemma template_errors_name:
  "template_errors x \<Longrightarrow> generateVMObjectName x spec name = Inl e \<Longrightarrow> \<not> apierrors_IsNotFound e"
  by (auto simp: generateVMObjectName_def GenerateVSphereVMName_def GenerateMachineNameFromTemplate_def template_errors_def
      apierrors_IsNotFound_def split: if_splits sum.splits)

lemma reconcile_releases:
  assumes "template_errors x" and "machine_reconcile x w = (r, w')" and "m_Finalizers (mc_meta w') \<noteq> m_Finalizers (mc_meta w)"
  shows "m_DeletionTimestamp (mc_meta w) \<noteq> None \<and> r = Inr 0 \<and>
    (\<exists>name err. generateVMObjectName x (mc_spec w) (m_Name (mach_meta (mc_Machine w))) = Inr name \<and> apierrors_IsNotFound err \<and>
       (let get = Get (Get_VSphereVM (m_Namespace (mc_meta w)) name) in
        hist w' = hist w @ [get] \<and> x_vm x (hist w') = Inl err \<or>
        (\<exists>vm. x_vm x (hist w @ [get]) = Inr vm \<and> x_unit x (hist w') = Inl err \<and>
           hist w' = hist w @ [get, Put (Delete_VSphereVM (m_Namespace (vm_meta vm)) (m_Name (vm_meta vm)))])))"
proof -
  let ?w = "add_mcond (mprovisioned_false ''Deleting'' SeverityInfo ''Deleting'' NoMsg) w"
  have del: "m_DeletionTimestamp (mc_meta w) \<noteq> None"
  proof
    assume "m_DeletionTimestamp (mc_meta w) = None"
    then show False using assms(2,3) machine_reconcileNormal_meta
      by (fastforce simp: machine_reconcile_def FetchVSphereCluster_def drop_cluster_owner_def do_call_def bindE_def wrapE_def
          split: option.splits if_splits sum.splits)
  qed
  then have "machine_reconcileDelete x w = (r, w')" using assms(2) by (simp add: machine_reconcile_def)
  then obtain q v where v: "machine_ReconcileDelete x ?w = (q, v)" "hist w' = hist v"
    and meta: "mc_meta w' \<noteq> mc_meta v \<longrightarrow> (\<exists>e. q = Inl e \<and> apierrors_IsNotFound e) \<and> r = Inr 0" by (rule machine_reconcileDelete_result)
  have "mc_meta v = mc_meta w"
    using v(1) by (cases rule: machine_ReconcileDelete_cases) (auto elim!: findVSphereVM_hist)
  then obtain e where e: "q = Inl e" "apierrors_IsNotFound e" "r = Inr 0" using meta assms(3) by metis
  from v(1) show ?thesis
  proof (cases rule: machine_ReconcileDelete_cases)
    case (unfound e')
    from unfound(1) show ?thesis by (rule findVSphereVM_eq) (use del e v unfound template_errors_name [OF assms(1)] in \<open>auto simp: Let_def\<close>)
  next
    case (kept vm u e')
    from kept(1) show ?thesis by (rule findVSphereVM_eq) (use del e v kept in \<open>auto simp: Let_def\<close>)
  next
    case (going vm u cs)
    then show ?thesis using e by simp
  qed
qed

text \<open>The only writes of the VSphereMachine are the deferred patch and the one for a VSphereMachine without a Machine.\<close>

fun patches_machine :: "call \<Rightarrow> bool" where
  "patches_machine (Put (Patch_VSphereMachine _)) = True"
| "patches_machine _ = False"

abbreviation no_patch :: "'v world_scheme \<Rightarrow> 'w world_scheme \<Rightarrow> bool" where
  "no_patch \<equiv> calls_ok (\<lambda>c. \<not> patches_machine c)"

lemma no_patch_hist: "hist u = hist w \<Longrightarrow> no_patch u v = no_patch w v" "hist u = hist v \<Longrightarrow> no_patch w u = no_patch w v"
  by (simp_all add: calls_ok_def)

lemma findVSphereVM_no_patch [calls_intros]: "no_patch w (snd (findVSphereVM x w))"
  by (auto simp: findVSphereVM_def split: sum.split intro!: calls_intros)

lemma vm_mutate_no_patch [calls_intros]: "no_patch w (snd (vm_mutate x v vm w))"
proof -
  obtain cs where "snd (generateOverrideFunc x w) = w\<lparr>hist := hist w @ cs\<rparr>" "list_all is_get cs" by (rule generateOverrideFunc_reads)
  moreover from this(2) have "list_all (\<lambda>c. \<not> patches_machine c) cs" by (auto elim!: list.pred_mono_strong is_get.elims)
  ultimately have "no_patch w (snd (generateOverrideFunc x w))" by simp
  then show ?thesis by (auto simp: vm_mutate_def Let_def split: option.split prod.split)
qed

lemma createOrPatchVSphereVM_no_patch [calls_intros]: "no_patch w (snd (createOrPatchVSphereVM x v w))"
proof -
  have "no_patch w (snd (bindE (vm_mutate x v vm (w\<lparr>hist := hist w @ [Capi c]\<rparr>)) (\<lambda>vm w. do_call (Put (CreateOrPatch_VSphereVM vm)) (x_vm x) w)))" for vm c
    by (rule calls_ok_trans [of _ _ "w\<lparr>hist := hist w @ [Capi c]\<rparr>"]) (auto intro!: calls_intros)
  then show ?thesis by (auto simp: createOrPatchVSphereVM_def do_call_def [of "Capi _"] split: sum.split)
qed

lemma machine_ReconcileNormal_no_patch [calls_intros]: "no_patch w (snd (machine_ReconcileNormal x w))"
proof -
  have r: "no_patch v (snd (bindE (createOrPatchVSphereVM x o' v) machine_report))" for o' and v :: "'a machine_ctx_scheme"
    using machine_report_frame(1) by (auto intro!: calls_ok_bindE calls_intros simp: no_patch_hist(2) [OF machine_report_frame(1)])
  obtain q v where f: "findVSphereVM x w = (q, v)" by force
  have "no_patch w v" using findVSphereVM_no_patch [of w x] f by simp
  then show ?thesis using r calls_ok_trans by (auto simp: machine_ReconcileNormal_def f split: sum.split) blast+
qed

lemma patchMachineLabelsWithHostInfo_no_patch [calls_intros]: "no_patch w (snd (patchMachineLabelsWithHostInfo x w))"
proof -
  have "no_patch v (snd (do_call (Put (Patch_Machine m)) f (v\<lparr>mc_Machine := m\<rparr>)))" for v :: "'a machine_ctx_scheme" and m and f :: "call list \<Rightarrow> go_error + unit"
    by (simp add: do_call_def calls_ok_def)
  then show ?thesis by (auto simp: patchMachineLabelsWithHostInfo_def GetHostInfo_def Let_def intro!: calls_intros)
qed

lemma machine_reconcileNormal_no_patch: "no_patch w (snd (machine_reconcileNormal x w))"
proof -
  have p: "no_patch v (snd (machine_provision x v))" for v :: "'a machine_ctx_scheme"
    by (auto simp: machine_provision_def no_patch_hist(2) [OF add_mcond_simps(1)] intro!: calls_intros)
  obtain q v where f: "SyncFailureReason x w = (q, v)" by force
  then obtain cs where "hist v = hist w @ cs" "list_all is_get cs" by (rule SyncFailureReason_frame)
  moreover from this(2) have "list_all (\<lambda>c. \<not> patches_machine c) cs" by (auto elim!: list.pred_mono_strong is_get.elims)
  ultimately have v: "no_patch w v" by (auto simp: calls_ok_def)
  then show ?thesis
    using calls_ok_trans [OF v p] by (auto simp: machine_reconcileNormal_def f no_patch_hist(2) [OF add_mcond_simps(1)] split: option.split)
qed

lemma machine_reconcile_no_patch: "no_patch w (snd (machine_reconcile x w))"
proof (cases "m_DeletionTimestamp (mc_meta w) = None")
  case True
  have f: "no_patch w (snd (FetchVSphereCluster x c (w\<lparr>mc_VSphereMachine := m\<rparr>)))" for c m
    by (simp add: FetchVSphereCluster_def do_call_def bindE_def calls_ok_def split: sum.split)
  show ?thesis using True
    by (auto simp: machine_reconcile_def split: option.split intro!: calls_ok_bindE calls_ok_wrapE f machine_reconcileNormal_no_patch)
next
  case False
  let ?w = "add_mcond (mprovisioned_false ''Deleting'' SeverityInfo ''Deleting'' NoMsg) w"
  have d: "no_patch ?w (snd (machine_ReconcileDelete x ?w))"
    by (auto simp: machine_ReconcileDelete_def no_patch_hist(2) [OF add_mcond_simps(1)] intro!: calls_intros)
  obtain q v where v: "machine_ReconcileDelete x ?w = (q, v)" by force
  have "no_patch w v" using d v by (simp add: no_patch_hist(1) [OF add_mcond_simps(1)])
  then show ?thesis using False v
    by (auto simp: machine_reconcile_def machine_reconcileDelete_def no_patch_hist(2) [OF add_mcond_simps(1)] calls_ok_def split: sum.split)
qed

lemma machine_deferred_patch:
  assumes "machine_deferred x (q, u) = (r, u')"
  obtains "hist u' = hist u" | m' where "hist u' = hist u @ [Put (Patch_VSphereMachine m')]" "vmach_meta m' = mc_meta u"
  using assms by (auto simp: machine_deferred_def Let_def machine_Patch_def do_call_def split: option.splits sum.splits)

lemma machine_prepare_cases:
  assumes "machine_prepare x ns name w = (r, v)"
  obtains (ended) "\<And>i. r \<noteq> Inr (Some i)" "no_patch w v"
  | (orphan) m where "x_machine x (hist w @ [Get (Get_VSphereMachine ns name)]) = Inr m" "\<And>i. r \<noteq> Inr (Some i)"
      "m_DeletionTimestamp (vmach_meta m) \<noteq> None"
      "x_capimachine_opt x (hist w @ [Get (Get_VSphereMachine ns name), Capi (GetOwnerMachine (vmach_meta m))]) = Inr None"
  | (owned) m machine c where "x_machine x (hist w @ [Get (Get_VSphereMachine ns name)]) = Inr m" "r = Inr (Some (m, machine, c))" "no_patch w v"
      "x_capimachine_opt x (hist w @ [Get (Get_VSphereMachine ns name), Capi (GetOwnerMachine (vmach_meta m))]) = Inr (Some machine)"
proof -
  let ?g = "Get (Get_VSphereMachine ns name)"
  consider (unread) e where "x_machine x (hist w @ [?g]) = Inl e"
    | (failed) m e where "x_machine x (hist w @ [?g]) = Inr m" "x_capimachine_opt x (hist w @ [?g, Capi (GetOwnerMachine (vmach_meta m))]) = Inl e"
    | (none) m where "x_machine x (hist w @ [?g]) = Inr m" "x_capimachine_opt x (hist w @ [?g, Capi (GetOwnerMachine (vmach_meta m))]) = Inr None"
    | (some) m machine where "x_machine x (hist w @ [?g]) = Inr m"
        "x_capimachine_opt x (hist w @ [?g, Capi (GetOwnerMachine (vmach_meta m))]) = Inr (Some machine)"
    by (metis old.sum.exhaust option.exhaust)
  then show ?thesis
  proof cases
    case unread
    then show ?thesis using assms by (intro ended) (auto simp: machine_prepare_def do_call_def split: if_splits)
  next
    case (failed m e)
    then show ?thesis using assms by (intro ended) (auto simp: machine_prepare_def do_call_def)
  next
    case (none m)
    have p: "bindE (without_owner x m (w\<lparr>hist := hist w @ [?g, Capi (GetOwnerMachine (vmach_meta m))]\<rparr>)) (\<lambda>_ w. (Inr None, w)) = (r, v)"
      using assms none by (simp add: machine_prepare_def do_call_def)
    show ?thesis
    proof (cases "m_DeletionTimestamp (vmach_meta m) = None")
      case True
      then show ?thesis using p by (intro ended) (auto simp: without_owner_def)
    next
      case False
      then show ?thesis using p none by (intro orphan [of m]) (auto simp: bindE_def split: prod.splits sum.splits)
    qed
  next
    case (some m machine)
    let ?u = "w\<lparr>hist := hist w @ [?g, Capi (GetOwnerMachine (vmach_meta m))]\<rparr>"
    let ?t = "bindE (do_call (Capi (AddOwners machine)) (x_unit x) ?u) (\<lambda>_ w.
        case do_call (Capi (GetClusterFromMetadata (mach_meta machine))) (x_cluster x) w of
          (c, w) \<Rightarrow> bindR (own_object x (vmach_meta m) MachineFinalizer w) (\<lambda>_ w.
            (Inr (Some (m, machine, case c of Inl _ \<Rightarrow> None | Inr cluster \<Rightarrow> Some cluster)), w)))"
    have t: "?t = (r, v)" using assms some by (simp add: machine_prepare_def do_call_def [of ?g] do_call_def [of "Capi (GetOwnerMachine _)"])
    have k: "no_patch u (snd (case do_call (Capi c) f u of (c, w) \<Rightarrow> bindR (own_object x meta fin w) (g c)))"
      if "\<And>c a w. snd (g c a w) = w" for u :: "'a world_scheme" and c and f :: "call list \<Rightarrow> go_error + Cluster"
        and g :: "go_error + Cluster \<Rightarrow> unit \<Rightarrow> 'a world_scheme \<Rightarrow> (go_error + 'b option) \<times> 'a world_scheme" and meta fin
    proof -
      let ?u = "u\<lparr>hist := hist u @ [Capi c]\<rparr>"
      have "no_patch ?u (snd (bindR (own_object x meta fin ?u) (g (f (hist ?u)))))"
        unfolding bindR_def using that by (auto intro!: calls_intros split: option.split)
      then have "no_patch u (snd (bindR (own_object x meta fin ?u) (g (f (hist ?u)))))" by (rule calls_ok_trans [rotated]) simp
      then show ?thesis by (simp add: do_call_def)
    qed
    have "no_patch ?u (snd ?t)" by (auto intro!: calls_ok_bindE calls_ok_do_call k)
    then have "no_patch w v" using t calls_ok_trans [of _ w ?u v] by simp
    moreover have "\<exists>c. i = (m, machine, c)" if "r = Inr (Some i)" for i
      using t that by (auto simp: bindR_def bindE_eq_Inr do_call_def [of "Capi (GetClusterFromMetadata _)"] split: option.splits)
    ultimately consider "\<And>i. r \<noteq> Inr (Some i)" "no_patch w v" | c where "r = Inr (Some (m, machine, c))" "no_patch w v" by blast
    then show ?thesis
    proof cases
      case 1
      then show ?thesis by (rule ended)
    next
      case 2
      then show ?thesis using owned [OF some(1) _ _ some(2)] by blast
    qed
  qed
qed

text \<open>
  C5. A run of the controller writes a VSphereMachine with other finalizers than it was read with, which lets the object disappear, only if the
  VSphereMachine is being deleted, and either the API server said that it has no owner Machine (the code takes this to mean that there is
  nothing to delete, and does not look for a VSphereVM), or the last answer before the write was that the VSphereVM of the machine, read or
  deleted under the name computed for it, does not exist.
\<close>

theorem machine_finalizer_released_last:
  assumes "template_errors x" and run: "machine_Reconcile x ns name w = (r, h)"
    and patch: "Put (Patch_VSphereMachine m') \<in> set (drop (length (hist w)) h)"
    and read: "x_machine x (hist w @ [Get (Get_VSphereMachine ns name)]) = Inr m"
    and released: "m_Finalizers (vmach_meta m') \<noteq> m_Finalizers (vmach_meta m)"
  shows "m_DeletionTimestamp (vmach_meta m) \<noteq> None \<and>
    (let owner = x_capimachine_opt x (hist w @ [Get (Get_VSphereMachine ns name), Capi (GetOwnerMachine (vmach_meta m))]) in
     owner = Inr None \<or>
     (\<exists>machine vmname err h0. owner = Inr (Some machine) \<and> apierrors_IsNotFound err \<and>
        generateVMObjectName x (vmach_Spec m) (m_Name (mach_meta machine)) = Inr vmname \<and>
        (let get = Get (Get_VSphereVM (m_Namespace (vmach_meta m)) vmname) in
         h = h0 @ [get, Put (Patch_VSphereMachine m')] \<and> x_vm x (h0 @ [get]) = Inl err \<or>
         (\<exists>vm del. del = Put (Delete_VSphereVM (m_Namespace (vm_meta vm)) (m_Name (vm_meta vm))) \<and>
            h = h0 @ [get, del, Put (Patch_VSphereMachine m')] \<and> x_vm x (h0 @ [get]) = Inr vm \<and> x_unit x (h0 @ [get, del]) = Inl err))))"
proof -
  obtain p v where p: "machine_prepare x ns name w = (p, v)" by force
  have no: "Put (Patch_VSphereMachine m') \<notin> set (drop (length (hist w)) (hist u))" if "no_patch w u" for u :: "'b world_scheme"
  proof
    assume "Put (Patch_VSphereMachine m') \<in> set (drop (length (hist w)) (hist u))"
    then have "\<not> patches_machine (Put (Patch_VSphereMachine m'))" using that unfolding calls_ok_def list_all_iff by fastforce
    then show False by simp
  qed
  from p show ?thesis
  proof (cases rule: machine_prepare_cases)
    case ended
    then have "h = hist v" using run p by (auto simp: machine_Reconcile_def split: sum.splits option.splits)
    then show ?thesis using patch no ended by blast
  next
    case (orphan m0)
    then show ?thesis using read by simp
  next
    case (owned m0 machine c)
    then have m0: "m0 = m" using read by simp
    let ?w = "machine_context (m, machine, c) (hist v)"
    have ctx: "hist ?w = hist v" "mc_meta ?w = vmach_meta m" "mc_spec ?w = vmach_Spec m" "mc_Machine ?w = machine"
      by (simp_all add: machine_context_def)
    obtain q u where u: "machine_reconcile x ?w = (q, u)" by force
    obtain r' u' where u': "machine_deferred x (q, u) = (r', u')" by force
    have h: "h = hist u'" using run p owned(2) m0 u u' by (simp add: machine_Reconcile_def)
    have "no_patch v u" using machine_reconcile_no_patch [of ?w x] u by (simp add: no_patch_hist(1) [OF ctx(1)])
    with owned(3) have nu: "no_patch w u" by (rule calls_ok_trans)
    have fin: "hist u' = hist u @ [Put (Patch_VSphereMachine m')]" "vmach_meta m' = mc_meta u"
      using u' by (rule machine_deferred_patch; use patch h no [OF nu] calls_ok_prefix [OF nu] in \<open>auto elim!: prefixE\<close>)+
    have "m_Finalizers (mc_meta u) \<noteq> m_Finalizers (mc_meta ?w)" using released fin(2) ctx(2) by simp
    note rel = reconcile_releases [OF assms(1) u this, unfolded ctx]
    then obtain vmname err where n: "generateVMObjectName x (vmach_Spec m) (m_Name (mach_meta machine)) = Inr vmname" "apierrors_IsNotFound err"
      and cases: "(let get = Get (Get_VSphereVM (m_Namespace (vmach_meta m)) vmname) in
        hist u = hist v @ [get] \<and> x_vm x (hist u) = Inl err \<or>
        (\<exists>vm. x_vm x (hist v @ [get]) = Inr vm \<and> x_unit x (hist u) = Inl err \<and>
           hist u = hist v @ [get, Put (Delete_VSphereVM (m_Namespace (vm_meta vm)) (m_Name (vm_meta vm)))]))" by blast
    have del: "m_DeletionTimestamp (vmach_meta m) \<noteq> None" using rel by blast
    let ?get = "Get (Get_VSphereVM (m_Namespace (vmach_meta m)) vmname)"
    have "h = hist v @ [?get, Put (Patch_VSphereMachine m')] \<and> x_vm x (hist v @ [?get]) = Inl err \<or>
         (\<exists>vm del. del = Put (Delete_VSphereVM (m_Namespace (vm_meta vm)) (m_Name (vm_meta vm))) \<and>
            h = hist v @ [?get, del, Put (Patch_VSphereMachine m')] \<and> x_vm x (hist v @ [?get]) = Inr vm \<and> x_unit x (hist v @ [?get, del]) = Inl err)"
      using cases h fin(1) by (auto simp: Let_def)
    with del owned(4) m0 n show ?thesis unfolding Let_def by blast
  qed
qed

section \<open>What a provisioned VSphereMachine reports\<close>

lemma machine_report_provisioned:
  assumes "machine_report vm w = (q, w')" and "mst_Provisioned (mc_status w) \<noteq> Some True" "mst_Provisioned (mc_status w') = Some True"
  shows "q = Inr False" "st_Ready (vm_Status vm) = Some True"
    "ms_ProviderID (mc_spec w') = ConvertUUIDToProviderID (s_BiosUUID (vm_Spec vm))" "ms_ProviderID (mc_spec w') \<noteq> ''''"
    "mst_Addresses (mc_status w') = machine_addresses vm"
    "mst_Network (mc_status w') = filter (\<lambda>n. nst_MACAddr n \<noteq> '''') (st_Network (vm_Status vm))"
  using assms
  by (auto simp: machine_report_def reconcileProviderID_def machine_reconcileNetwork_def machine_addresses_def Deref_def Let_def
      split: if_splits option.splits)

lemma machine_provision_provisioned:
  assumes "machine_provision x w = (r, w')" and "mst_Provisioned (mc_status w) \<noteq> Some True" "mst_Provisioned (mc_status w') = Some True"
  obtains cs v vm where "x_vm x (hist w @ cs @ [Put (CreateOrPatch_VSphereVM v)]) = Inr vm"
    "prefix (hist w @ cs @ [Put (CreateOrPatch_VSphereVM v)]) (hist w')" "st_Ready (vm_Status vm) = Some True"
    "ms_ProviderID (mc_spec w') = ConvertUUIDToProviderID (s_BiosUUID (vm_Spec vm))" "ms_ProviderID (mc_spec w') \<noteq> ''''"
    "mst_Addresses (mc_status w') = machine_addresses vm"
    "mst_Network (mc_status w') = filter (\<lambda>n. nst_MACAddr n \<noteq> '''') (st_Network (vm_Status vm))"
proof -
  obtain q v where n: "machine_ReconcileNormal x w = (q, v)" by force
  obtain p y where l: "patchMachineLabelsWithHostInfo x v = (p, y)" by force
  then obtain ds where ds: "hist y = hist v @ ds" "mc_VSphereMachine y = mc_VSphereMachine v"
    by (rule patchMachineLabelsWithHostInfo_frame)
  have after: "prefix (hist v) (hist w')" "mc_spec w' = mc_spec v" "mst_Provisioned (mc_status w') = mst_Provisioned (mc_status v)"
    "mst_Addresses (mc_status w') = mst_Addresses (mc_status v)" "mst_Network (mc_status w') = mst_Network (mc_status v)"
    using assms(1) ds by (cases q; cases p; auto simp: machine_provision_def n l split: if_splits)+
  from n show ?thesis
  proof (cases rule: machine_ReconcileNormal_cases)
    case (written cs vm h u)
    let ?w = "w\<lparr>hist := hist w @ cs @ [Put (CreateOrPatch_VSphereVM vm)]\<rparr>"
    have "mst_Provisioned (mc_status ?w) \<noteq> Some True" "mst_Provisioned (mc_status v) = Some True" using assms after by simp_all
    note rep = machine_report_provisioned [OF written(1) this]
    have "hist v = hist ?w" using machine_report_frame(1) [of u ?w] written(1) by simp
    then show ?thesis using that [of cs vm u] written(5) rep after by simp
  qed (use assms after in auto)
qed

text \<open>
  C18. When a run of the controller turns a VSphereMachine provisioned, the VSphereVM that the API server returned for the
  write of this run is ready, and the VSphereMachine carries the provider ID of its BIOS UUID, its addresses as external
  IPs followed by its name as internal DNS entry, and the status of its network cards that have a MAC address.
\<close>

theorem provisioned_machine_reports_vm:
  assumes "machine_reconcile x w = (r, w')" and "mst_Provisioned (mc_status w) \<noteq> Some True" "mst_Provisioned (mc_status w') = Some True"
  shows "\<exists>h v vm. prefix (hist w @ h @ [Put (CreateOrPatch_VSphereVM v)]) (hist w') \<and>
    x_vm x (hist w @ h @ [Put (CreateOrPatch_VSphereVM v)]) = Inr vm \<and> st_Ready (vm_Status vm) = Some True \<and>
    ms_ProviderID (mc_spec w') = ConvertUUIDToProviderID (s_BiosUUID (vm_Spec vm)) \<and> ms_ProviderID (mc_spec w') \<noteq> '''' \<and>
    map ma_Address (mst_Addresses (mc_status w')) = st_Addresses (vm_Status vm) @ [m_Name (vm_meta vm)] \<and>
    mst_Network (mc_status w') = filter (\<lambda>n. nst_MACAddr n \<noteq> '''') (st_Network (vm_Status vm))"
proof -
  have "m_DeletionTimestamp (mc_meta w) = None"
  proof (rule ccontr)
    assume "m_DeletionTimestamp (mc_meta w) \<noteq> None"
    then have "machine_reconcileDelete x w = (r, w')" using assms(1) by (simp add: machine_reconcile_def)
    then have "mst_Provisioned (mc_status w') = mst_Provisioned (mc_status w)" by (rule machine_reconcileDelete_provisioned)
    then show False using assms by simp
  qed
  then obtain y d where y: "machine_reconcileNormal x y = (r, w')" "hist y = hist w @ [d]" "mc_status y = mc_status w"
    using assms by (auto simp: machine_reconcile_def FetchVSphereCluster_def drop_cluster_owner_def do_call_def bindE_def wrapE_def
        split: option.splits if_splits sum.splits)
  from y(1) show ?thesis
  proof (cases rule: machine_reconcileNormal_cases)
    case (provision u cs)
    from provision(1) show ?thesis
    proof (rule machine_provision_provisioned, goal_cases)
      case (3 cs' v vm)
      then show ?case using provision(2) y(2)
        by (intro exI [of _ "d # cs @ cs'"] exI [of _ v] exI [of _ vm]) (simp add: machine_addresses_def comp_def)
    qed (use assms y provision in simp_all)
  qed (use assms y in simp)
qed

section \<open>A failure domain that cannot be read\<close>

text \<open>
  When the VSphereDeploymentZone of a Machine cannot be read, for whatever reason, the error is dropped and
  the VSphereVM is written as if the Machine had no failure domain: a VM that does not exist yet is created where the
  VSphereMachine and the VSphereCluster say, outside its failure domain.
\<close>

lemma failure_domain_error_drops_placement:
  assumes "generateVMObjectName x (mc_spec w) (m_Name (mach_meta (mc_Machine w))) = Inr name"
    and "mach_FailureDomain (mc_Machine w) \<noteq> ''''" "mach_BootstrapDataSecretName (mc_Machine w) = Some secret" "mc_VSphereCluster w = Some cluster"
    and "x_vm x (hist w @ [Capi (CreateOrPatch_Read (m_Namespace (mc_meta w)) name)]) = Inl (APINotFound s)"
    and "x_zone x (hist w @ [Capi (CreateOrPatch_Read (m_Namespace (mc_meta w)) name), Get (Get_VSphereDeploymentZone (mach_FailureDomain (mc_Machine w)))]) = Inl err"
  shows "\<exists>vm. hist (snd (createOrPatchVSphereVM x None w)) =
      hist w @ [Capi (CreateOrPatch_Read (m_Namespace (mc_meta w)) name), Get (Get_VSphereDeploymentZone (mach_FailureDomain (mc_Machine w))),
                Put (CreateOrPatch_VSphereVM vm)] \<and>
    placed None (vc_Spec cluster) (ms_Clone (mc_spec w)) (s_Clone (vm_Spec vm))"
  using assms vm_clone_from_placed [of None "vc_Spec cluster" "ms_Clone (mc_spec w)"]
  by (simp add: createOrPatchVSphereVM_def vm_mutate_def generateOverrideFunc_def do_call_def Let_def apierrors_IsNotFound_def)

section \<open>Concrete instances\<close>

definition sample_dz :: VSphereDeploymentZone where
  "sample_dz = \<lparr>dz_meta = empty_meta, dz_Server = ''vc2'', dz_FailureDomain = ''fd'', dz_ControlPlane = None,
     dz_PlacementConstraint = \<lparr>plc_ResourcePool = ''pool'', plc_Folder = ''''\<rparr>, dz_Ready = Some True, dz_Conditions = []\<rparr>"

definition sample_fd :: VSphereFailureDomain where
  "sample_fd = \<lparr>vfd_meta = empty_meta, vfd_Region = \<lparr>fd_Name = ''r'', fd_Type = DatacenterFailureDomain, fd_TagCategory = ''''\<rparr>,
     vfd_Zone = \<lparr>fd_Name = ''z'', fd_Type = ComputeClusterFailureDomain, fd_TagCategory = ''''\<rparr>,
     vfd_Topology = \<lparr>t_Datacenter = ''dc2'', t_ComputeCluster = '''', t_Hosts = \<lparr>h_VMGroupName = '''', h_HostGroupName = ''''\<rparr>,
       t_Networks = [''net''], t_NetworkConfigurations = [], t_Datastore = ''ds''\<rparr>\<rparr>"

definition sample_api :: ext where
  \<comment> \<open>an API server that has the VSphereCluster and the failure domain but no VSphereVM, and stores what is written\<close>
  "sample_api = ext_default\<lparr>
     x_zone := \<lambda>h. Inr sample_dz, x_domain := \<lambda>h. Inr sample_fd,
     x_vm := \<lambda>h. case last h of Put (CreateOrPatch_VSphereVM v) \<Rightarrow> Inr v | _ \<Rightarrow> Inl (APINotFound ''x''),
     x_unit := \<lambda>h. Inr (),
     x_vcluster := \<lambda>h. Inr \<lparr>vc_meta = empty_meta,
       vc_Spec = \<lparr>cs_Server = ''vc1'', cs_Thumbprint = ''t'', cs_ControlPlaneEndpoint = \<lparr>ae_Host = '''', ae_Port = 0\<rparr>,
         cs_IdentityRef = \<lparr>ir_Kind = '''', ir_Name = ''''\<rparr>, cs_ClusterModules = [], cs_DisableClusterModule = None,
         cs_FailureDomainSelector = None\<rparr>,
       vc_Status = \<lparr>cst_Conditions = [], cst_Provisioned = None, cst_FailureDomains = [], cst_VCenterVersion = ''''\<rparr>\<rparr>\<rparr>"

definition sample_vsphere_machine :: VSphereMachine where
  "sample_vsphere_machine = \<lparr>vmach_meta = empty_meta\<lparr>m_Finalizers := [MachineFinalizer]\<rparr>,
     vmach_Spec = \<lparr>ms_Clone = zero_clone, ms_ProviderID = '''', ms_PowerOffMode = '''',
       ms_GuestSoftPowerOffTimeoutSeconds = 0, ms_NamingTemplate = ''''\<rparr>,
     vmach_Status = \<lparr>mst_Conditions = [], mst_Provisioned = None, mst_Addresses = [], mst_Network = [],
       mst_FailureReason = None, mst_FailureMessage = None\<rparr>\<rparr>"

definition sample_mc :: machine_ctx where
  "sample_mc = \<lparr>hist = [], mc_VSphereMachine = sample_vsphere_machine,
     mc_Machine = \<lparr>mach_meta = empty_meta\<lparr>m_Name := ''m''\<rparr>, mach_FailureDomain = ''fd'', mach_BootstrapDataSecretName = Some ''boot''\<rparr>,
     mc_Cluster = Some \<lparr>cl_meta = empty_meta, cl_InfrastructureRefIsDefined = True, cl_InfrastructureRefName = ''c'',
       cl_InfrastructureRefKind = ''VSphereCluster'', cl_EndpointIsZero = True, cl_InfrastructureProvisioned = Some True, cl_Conditions = []\<rparr>,
     mc_VSphereCluster = None\<rparr>"

lemma sample_name: "generateVMObjectName x (mc_spec sample_mc) ''m'' = Inr ''m''"
  by (simp add: generateVMObjectName_def GenerateVSphereVMName_def sample_mc_def sample_vsphere_machine_def)

lemmas machine_eval = machine_reconcile_def machine_reconcileNormal_def machine_reconcileDelete_def machine_ReconcileDelete_def
  SyncFailureReason_def findVSphereVM_def machine_provision_def machine_ReconcileNormal_def createOrPatchVSphereVM_def vm_mutate_def
  generateOverrideFunc_def FetchVSphereCluster_def drop_cluster_owner_def waits_for_bootstrap_def machine_report_def
  generateVMObjectName_def GenerateVSphereVMName_def remove_machine_finalizer_def do_call_def new_calls_def Let_def apierrors_IsNotFound_def
  add_mcond_def upd_mstatus_def Deref_def

lemma sample_writes: "\<exists>vm. Put (CreateOrPatch_VSphereVM vm) \<in> set (new_calls sample_mc (snd (machine_reconcile sample_api sample_mc)))"
  by (simp add: machine_eval sample_api_def sample_mc_def sample_vsphere_machine_def zero_VSphereVM_def empty_meta_def zero_clone_def Windows_def)

lemma sample_domain: "failure_domain_answer sample_api (mach_FailureDomain (mc_Machine sample_mc)) h = Domain_Read sample_dz sample_fd"
  by (simp add: failure_domain_answer_def sample_api_def sample_mc_def)

theorem vm_written_from_sources_witness:
  "\<exists>vm. Put (CreateOrPatch_VSphereVM vm) \<in> set (new_calls sample_mc (snd (machine_reconcile sample_api sample_mc))) \<and>
     s_BootstrapRefName (vm_Spec vm) = ''boot'' \<and> c_Server (s_Clone (vm_Spec vm)) = ''vc2'' \<and> c_Datacenter (s_Clone (vm_Spec vm)) = ''dc2''"
proof -
  obtain vm where vm: "Put (CreateOrPatch_VSphereVM vm) \<in> set (new_calls sample_mc (snd (machine_reconcile sample_api sample_mc)))"
    using sample_writes by blast
  note t = vm_written_from_sources [OF surjective_pairing this, unfolded sample_domain]
  then have "mach_BootstrapDataSecretName (mc_Machine sample_mc) = Some (s_BootstrapRefName (vm_Spec vm))" by blast
  moreover from t obtain cluster :: VSphereCluster where "placed (Some (sample_dz, sample_fd)) (vc_Spec cluster) (ms_Clone (mc_spec sample_mc)) (s_Clone (vm_Spec vm))"
    by auto
  ultimately show ?thesis using vm
    by (auto simp: sample_mc_def placed_def first_set_def sample_dz_def sample_fd_def Let_def)
qed

definition sample_deleted_machine :: VSphereMachine where
  "sample_deleted_machine = sample_vsphere_machine\<lparr>vmach_meta :=
     empty_meta\<lparr>m_Finalizers := [MachineFinalizer], m_DeletionTimestamp := Some 0\<rparr>\<rparr>"

definition sample_api_deleted :: ext where
  \<comment> \<open>an API server with a VSphereMachine in deletion and its Machine, but no VSphereVM\<close>
  "sample_api_deleted = sample_api\<lparr>x_machine := \<lambda>h. Inr sample_deleted_machine,
     x_capimachine_opt := \<lambda>h. Inr (Some (mc_Machine sample_mc)), x_bool := \<lambda>h. Inr False, x_paused := \<lambda>h. Inr (False, False)\<rparr>"

lemma sample_deleted_run:
  "\<exists>m' h0. snd (machine_Reconcile sample_api_deleted ''ns'' ''m'' \<lparr>hist = []\<rparr>) = h0 @ [Put (Patch_VSphereMachine m')] \<and>
     m_Finalizers (vmach_meta m') = []"
  "template_errors sample_api_deleted"
  by (simp_all add: machine_Reconcile_def machine_prepare_def own_object_def bindR_def machine_context_def machine_deferred_def machine_Patch_def
      machine_eval sample_api_deleted_def sample_api_def sample_deleted_machine_def sample_mc_def sample_vsphere_machine_def zero_clone_def
      Windows_def empty_meta_def template_errors_def)

theorem machine_finalizer_released_last_witness:
  "\<exists>h0 m'. snd (machine_Reconcile sample_api_deleted ''ns'' ''m'' \<lparr>hist = []\<rparr>) =
     h0 @ [Get (Get_VSphereVM '''' ''m''), Put (Patch_VSphereMachine m')]"
proof -
  obtain m' h0 where h: "snd (machine_Reconcile sample_api_deleted ''ns'' ''m'' \<lparr>hist = []\<rparr>) = h0 @ [Put (Patch_VSphereMachine m')]"
    and f: "m_Finalizers (vmach_meta m') = []" using sample_deleted_run(1) by blast
  have read: "x_machine sample_api_deleted h = Inr sample_deleted_machine" for h by (simp add: sample_api_deleted_def)
  have del: "x_unit sample_api_deleted h \<noteq> Inl e" "x_capimachine_opt sample_api_deleted h = Inr (Some (mc_Machine sample_mc))" for h e
    by (simp_all add: sample_api_deleted_def sample_api_def)
  have "generateVMObjectName sample_api_deleted (vmach_Spec sample_deleted_machine) (m_Name (mach_meta (mc_Machine sample_mc))) = Inr ''m''"
    using sample_name [of sample_api_deleted] by (simp add: sample_deleted_machine_def sample_mc_def)
  moreover have "m_Namespace (vmach_meta sample_deleted_machine) = ''''" "m_Finalizers (vmach_meta sample_deleted_machine) = [MachineFinalizer]"
    by (simp_all add: sample_deleted_machine_def empty_meta_def)
  moreover have "machine_Reconcile sample_api_deleted ''ns'' ''m'' \<lparr>hist = []\<rparr> =
      (fst (machine_Reconcile sample_api_deleted ''ns'' ''m'' \<lparr>hist = []\<rparr>), h0 @ [Put (Patch_VSphereMachine m')])" by (simp add: h prod_eq_iff)
  ultimately show ?thesis
    using machine_finalizer_released_last [OF sample_deleted_run(2) _ _ read, of "''ns''" "''m''" "\<lparr>hist = []\<rparr>"
        "fst (machine_Reconcile sample_api_deleted ''ns'' ''m'' \<lparr>hist = []\<rparr>)" "h0 @ [Put (Patch_VSphereMachine m')]" m'] h f del
    by (auto simp: Let_def)
qed

definition sample_api_ready :: ext where
  \<comment> \<open>an API server that has a ready VSphereVM\<close>
  "sample_api_ready = sample_api\<lparr>x_vm := \<lambda>h. Inr (zero_VSphereVM\<lparr>
     vm_Spec := (vm_Spec zero_VSphereVM)\<lparr>s_BiosUUID := ''422e4956-ad22-1139-6d72-59cc8f26bc90''\<rparr>,
     vm_Status := (vm_Status zero_VSphereVM)\<lparr>st_Ready := Some True, st_Addresses := [''192.168.0.7'']\<rparr>\<rparr>)\<rparr>"

lemma sample_uuid [simp]: "match_UUIDPattern ''422e4956-ad22-1139-6d72-59cc8f26bc90''"
  by code_simp

lemma sample_ready_run:
  "mst_Provisioned (mc_status sample_mc) \<noteq> Some True"
  "mst_Provisioned (mc_status (snd (machine_reconcile sample_api_ready sample_mc))) = Some True"
  "mst_Addresses (mc_status (snd (machine_reconcile sample_api_ready sample_mc))) =
     [\<lparr>ma_Type = MachineExternalIP, ma_Address = ''192.168.0.7''\<rparr>, \<lparr>ma_Type = MachineInternalDNS, ma_Address = ''''\<rparr>]"
  by (simp_all add: machine_eval sample_api_ready_def sample_api_def sample_mc_def sample_vsphere_machine_def zero_clone_def zero_VSphereVM_def
      Windows_def empty_meta_def reconcileProviderID_def machine_reconcileNetwork_def machine_addresses_def
      patchMachineLabelsWithHostInfo_def GetHostInfo_def ConvertUUIDToProviderID_def ProviderIDPrefix_def)

theorem provisioned_machine_reports_vm_witness:
  "mst_Provisioned (mc_status (snd (machine_reconcile sample_api_ready sample_mc))) = Some True \<and>
   ms_ProviderID (mc_spec (snd (machine_reconcile sample_api_ready sample_mc))) \<noteq> ''''"
  using provisioned_machine_reports_vm [OF surjective_pairing sample_ready_run(1,2)] sample_ready_run(2) by blast

definition sample_api_down :: ext where
  \<comment> \<open>an API server that answers the read of the VSphereDeploymentZone with an error\<close>
  "sample_api_down = sample_api\<lparr>x_zone := \<lambda>h. Inl (APIError ''timeout'')\<rparr>"

end
