(* ===== verification/Cluster_Modules.thy ===== *)
theory Cluster_Modules
  imports Cluster_Module_Provider Controller_Base "HOL-Library.AList" "HOL-Library.Multiset"
    "HOL-Library.List_Lexorder" "HOL-Library.Char_ord"
begin

text \<open>
  The cluster modules of a VSphereCluster, through which vCenter keeps the VMs of a control plane or of a
  MachineDeployment on different hosts: \<open>pkg/clustermodule\<close> and \<open>controllers/clustermodule_reconciler.go\<close>.

  \<^item> The state is \<open>ClusterContext\<close> of \<open>pkg/context/cluster_context.go\<close>.
  \<^item> The Go map of owner objects is an association list; the order in which \<open>range\<close> visits it is the
    argument \<open>visit\<close> of the operations.
  \<^item> \<open>Reconcile\<close> works on the interface \<open>Service\<close> of \<open>pkg/clustermodule/interfaces.go\<close>; its operations are
    arguments.
\<close>

section \<open>The context of a VSphereCluster\<close>

record cluster_ctx = world +
  cc_VSphereCluster :: VSphereCluster
  cc_Cluster :: "Cluster option"

type_synonym ('w, 'a) cluster_step = "'w cluster_ctx_scheme \<Rightarrow> (go_error + 'a) \<times> 'w cluster_ctx_scheme"

abbreviation cc_spec :: "'w cluster_ctx_scheme \<Rightarrow> VSphereClusterSpec" where
  "cc_spec w \<equiv> vc_Spec (cc_VSphereCluster w)"

abbreviation cc_status :: "'w cluster_ctx_scheme \<Rightarrow> VSphereClusterStatus" where
  "cc_status w \<equiv> vc_Status (cc_VSphereCluster w)"

abbreviation cc_meta :: "'w cluster_ctx_scheme \<Rightarrow> ObjectMeta" where
  "cc_meta w \<equiv> vc_meta (cc_VSphereCluster w)"

definition upd_cstatus :: "(VSphereClusterStatus \<Rightarrow> VSphereClusterStatus) \<Rightarrow> 'w cluster_ctx_scheme \<Rightarrow> 'w cluster_ctx_scheme" where
  "upd_cstatus f w = w\<lparr>cc_VSphereCluster := (cc_VSphereCluster w)\<lparr>vc_Status := f (cc_status w)\<rparr>\<rparr>"

definition add_ccond :: "cond_op list \<Rightarrow> 'w cluster_ctx_scheme \<Rightarrow> 'w cluster_ctx_scheme" where
  \<comment> \<open>condition operations on the VSphereCluster, in order\<close>
  "add_ccond ops = upd_cstatus (\<lambda>s. s\<lparr>cst_Conditions := cst_Conditions s @ ops\<rparr>)"

definition set_ClusterModules :: "ClusterModule list \<Rightarrow> 'w cluster_ctx_scheme \<Rightarrow> 'w cluster_ctx_scheme" where
  "set_ClusterModules mods w = w\<lparr>cc_VSphereCluster := (cc_VSphereCluster w)\<lparr>vc_Spec := (cc_spec w)\<lparr>cs_ClusterModules := mods\<rparr>\<rparr>\<rparr>"

section \<open>\<open>pkg/clustermodule/types.go\<close>\<close>

datatype Wrapper =
    kcpWrapper (wrapped: ObjectMeta)
  | mdWrapper (wrapped: ObjectMeta)

fun GetTemplatePath :: "Wrapper \<Rightarrow> string list" where
  "GetTemplatePath (kcpWrapper _) = [''spec'', ''machineTemplate'', ''spec'', ''infrastructureRef'']"
| "GetTemplatePath (mdWrapper _) = [''spec'', ''template'', ''spec'', ''infrastructureRef'']"

fun IsControlPlane :: "Wrapper \<Rightarrow> bool" where
  "IsControlPlane (kcpWrapper _) = True"
| "IsControlPlane (mdWrapper _) = False"

fun wrapper_Kind :: "Wrapper \<Rightarrow> string" where
  \<comment> \<open>\<open>GetObjectKind().GroupVersionKind().Kind\<close>\<close>
  "wrapper_Kind (kcpWrapper _) = ''KubeadmControlPlane''"
| "wrapper_Kind (mdWrapper _) = ''MachineDeployment''"

section \<open>\<open>pkg/clustermodule/util.go\<close>, \<open>error.go\<close>\<close>

definition same_module :: "ClusterModule \<Rightarrow> ClusterModule \<Rightarrow> bool" where
  "same_module a b \<longleftrightarrow> Deref (cm_ControlPlane a) False = Deref (cm_ControlPlane b) False \<and>
     cm_TargetObjectName a = cm_TargetObjectName b \<and> cm_ModuleUUID a = cm_ModuleUUID b"

definition Compare :: "ClusterModule list \<Rightarrow> ClusterModule list \<Rightarrow> bool" where
  \<comment> \<open>\<open>sort_key\<close> is stable, like \<open>sort.SliceStable\<close>\<close>
  "Compare oldMods newMods \<longleftrightarrow>
     length oldMods = length newMods \<and>
     list_all2 same_module (sort_key cm_TargetObjectName oldMods) (sort_key cm_TargetObjectName newMods)"

definition IsClusterCompatible :: "ext \<Rightarrow> VSphereCluster \<Rightarrow> bool" where
  "IsClusterCompatible x c =
     (let version = cst_VCenterVersion (vc_Status c) in
      if version = '''' then False
      else case x_semver_Major x version of Inl _ \<Rightarrow> False | Inr major \<Rightarrow> major \<ge> 7)"

definition errString :: string where
  "errString = ''not a compute cluster''"

definition IsIncompatibleOwnerError :: "go_error \<Rightarrow> bool" where
  \<comment> \<open>\<open>strings.HasSuffix(err.Error(), errString)\<close>; a wrapped error ends with the text of its cause\<close>
  "IsIncompatibleOwnerError e =
     (case root_cause e of
        IncompatibleOwnerError _ \<Rightarrow> True
      | VimError s \<Rightarrow> HasSuffix s errString
      | APIError s \<Rightarrow> HasSuffix s errString
      | _ \<Rightarrow> False)"

section \<open>\<open>pkg/clustermodule/session.go\<close>\<close>

definition fetchSession :: "ext \<Rightarrow> manager \<Rightarrow> string \<Rightarrow> ('w, unit) cluster_step" where
  \<comment> \<open>with \<open>newParams\<close>; the argument is the datacenter, empty when none is set\<close>
  "fetchSession x mgr datacenter w =
     (let c = cc_VSphereCluster w; server = cs_Server (vc_Spec c); thumbprint = cs_Thumbprint (vc_Spec c) in
      if identity_ref_IsDefined (cs_IdentityRef (vc_Spec c)) then
        bindE (wrapE ''failed to get credentials from IdentityRef'' [] (GetCredentials x c (mgr_Namespace mgr) w)) (\<lambda>creds w.
        do_call (Session_GetOrCreate server datacenter (cr_Username creds, cr_Password creds) thumbprint) (x_unit x) w)
      else do_call (Session_GetOrCreate server datacenter (mgr_Username mgr, mgr_Password mgr) thumbprint) (x_unit x) w)"

definition fetchTemplateRef :: "ext \<Rightarrow> Wrapper \<Rightarrow> ('w, string \<times> string) k8s_step" where
  \<comment> \<open>kind and name; a field that does not exist leaves both empty\<close>
  "fetchTemplateRef x input w =
     (let meta = wrapped input in
      bindE (wrapE ''failed to get %s external object %q/%q'' [wrapper_Kind input, m_Namespace meta, m_Name meta]
              (do_call (Get (Get_Unstructured (wrapper_Kind input) (m_Namespace meta) (m_Name meta))) (x_unstructured x) w)) (\<lambda>obj w.
      case obj (GetTemplatePath input) of
        Inl err \<Rightarrow> (Inl err, w)
      | Inr None \<Rightarrow> (Inr ('''', ''''), w)
      | Inr (Some ref) \<Rightarrow> (Inr ref, w)))"

definition fetchMachineTemplate :: "ext \<Rightarrow> Wrapper \<Rightarrow> string \<Rightarrow> ('w, VSphereMachineTemplate) k8s_step" where
  "fetchMachineTemplate x input templateName w =
     do_call (Get (Get_VSphereMachineTemplate (m_Namespace (wrapped input)) templateName)) (x_template x) w"

section \<open>\<open>pkg/clustermodule/service.go\<close>\<close>

definition getComputeClusterResource :: "ext \<Rightarrow> string \<Rightarrow> ('w, moref) k8s_step" where
  "getComputeClusterResource x resourcePool w =
     bindE (do_call (Find (ResourcePoolOrDefault resourcePool)) (x_ref x) w) (\<lambda>rp w.
     bindE (do_call (Svc (Pool_Owner rp)) (x_ref x) w) (\<lambda>cc w.
     bindE (do_call (Svc (Find_InventoryPath cc)) (x_string x) w) (\<lambda>ownerPath w.
     case do_call (Find (ClusterComputeResource ownerPath)) (x_ref x) w of
       (Inl _, w) \<Rightarrow> (Inl (IncompatibleOwnerError (mo_Value cc)), w)
     | (Inr _, w) \<Rightarrow> (Inr cc, w))))"

definition module_Create :: "ext \<Rightarrow> manager \<Rightarrow> Wrapper \<Rightarrow> ('w, string) cluster_step" where
  \<comment> \<open>\<open>service.Create\<close>: the new module, empty when none is to be created\<close>
  "module_Create x mgr wrapper w =
     (let args = [m_Namespace (wrapped wrapper), m_Name (wrapped wrapper)] in
      bindE (wrapE ''error fetching template ref for object %s/%s'' args (fetchTemplateRef x wrapper w)) (\<lambda>(kind, name) w.
      if kind \<noteq> ''VSphereMachineTemplate'' then (Inr '''', w)
      else
        bindE (wrapE ''error fetching machine template for object %s/%s'' args (fetchMachineTemplate x wrapper name w)) (\<lambda>template w.
        let spec = ms_Clone (vmt_Spec template) in
        if c_Server spec \<noteq> cs_Server (cc_spec w) then (Inr '''', w)
        else
          bindE (wrapE ''error fetching session for object %s/%s'' args (fetchSession x mgr (c_Datacenter spec) w)) (\<lambda>_ w.
          bindE (wrapE ''error fetching compute cluster resource'' [] (getComputeClusterResource x (c_ResourcePool spec) w)) (\<lambda>ref w.
          wrapE ''error creating cluster module'' [] (CreateModule x ref w))))))"

definition module_DoesExist :: "ext \<Rightarrow> manager \<Rightarrow> Wrapper \<Rightarrow> string \<Rightarrow> ('w, bool) cluster_step" where
  "module_DoesExist x mgr wrapper moduleUUID w =
     (let args = [m_Namespace (wrapped wrapper), m_Name (wrapped wrapper)] in
      bindE (wrapE ''error fetching template ref for object %s/%s'' args (fetchTemplateRef x wrapper w)) (\<lambda>(kind, name) w.
      bindE (wrapE ''error fetching machine template for object %s/%s'' args (fetchMachineTemplate x wrapper name w)) (\<lambda>template w.
      bindE (wrapE ''error fetching session for object %s/%s'' args (fetchSession x mgr (c_Datacenter (ms_Clone (vmt_Spec template))) w)) (\<lambda>_ w.
      DoesModuleExist x moduleUUID w))))"

definition module_Remove :: "ext \<Rightarrow> manager \<Rightarrow> string \<Rightarrow> ('w, unit) cluster_step" where
  "module_Remove x mgr moduleUUID w = bindE (fetchSession x mgr '''' w) (\<lambda>_ w. DeleteModule x moduleUUID w)"

section \<open>\<open>controllers/clustermodule_reconciler.go\<close>\<close>

definition appendKCPKey :: "string \<Rightarrow> string" where
  "appendKCPKey name = ''kcp'' @ name"

definition fetchMachineOwnerObjects :: "ext \<Rightarrow> ('w, (string \<times> Wrapper) list) cluster_step" where
  "fetchMachineOwnerObjects x w =
     (case m_Labels (cc_meta w) ClusterNameLabel of
        None \<Rightarrow> (Inl (Errorf ''failed to get Cluster name from VSphereCluster: missing cluster name label'' []), w)
      | Some name \<Rightarrow>
          let labels = [ClusterNameLabel \<mapsto> name]; namespace = m_Namespace (cc_meta w) in
          bindE (wrapE ''failed to list KubeadmControlPlane objects'' []
                  (do_call (Get (List_KubeadmControlPlanes namespace labels)) (x_metas x) w)) (\<lambda>kcps w.
          if length kcps > 1 then (Inl (Errorf ''multiple KubeadmControlPlane objects found, expected 1, found %d'' [show_nat (length kcps)]), w)
          else
            let objects = map (\<lambda>kcp. (appendKCPKey (m_Name kcp), kcpWrapper kcp)) (filter (\<lambda>kcp. m_DeletionTimestamp kcp = None) kcps) in
            bindE (wrapE ''failed to list MachineDeployment objects'' []
                    (do_call (Get (List_MachineDeployments namespace labels)) (x_metas x) w)) (\<lambda>mds w.
            (Inr (fold (\<lambda>md. AList.update (m_Name md) (mdWrapper md)) (filter (\<lambda>md. m_DeletionTimestamp md = None) mds) objects), w))))"

definition module_of :: "Wrapper \<Rightarrow> string \<Rightarrow> ClusterModule" where
  "module_of obj uuid = \<lparr>cm_ControlPlane = Some (IsControlPlane obj), cm_TargetObjectName = m_Name (wrapped obj), cm_ModuleUUID = uuid\<rparr>"

definition module_key :: "ClusterModule \<Rightarrow> string" where
  "module_key m = (if Deref (cm_ControlPlane m) False then appendKCPKey (cm_TargetObjectName m) else cm_TargetObjectName m)"

record module_state =
  objectMap :: "(string \<times> Wrapper) list"
  modErrs :: "(string \<times> go_error) list" \<comment> \<open>\<open>clusterModError\<close>\<close>
  clusterModuleSpecs :: "ClusterModule list"

type_synonym 'w remove_fn = "string \<Rightarrow> ('w, unit) cluster_step"
type_synonym 'w exists_fn = "Wrapper \<Rightarrow> string \<Rightarrow> ('w, bool) cluster_step"
type_synonym 'w create_fn = "Wrapper \<Rightarrow> ('w, string) cluster_step"

fun verify_modules ::
  "'w exists_fn \<Rightarrow> 'w remove_fn \<Rightarrow> ClusterModule list \<Rightarrow> module_state \<Rightarrow> 'w cluster_ctx_scheme \<Rightarrow> module_state \<times> 'w cluster_ctx_scheme" where
  \<comment> \<open>the loop over the modules of the spec; the error of a removal is only logged\<close>
  "verify_modules exist remove [] st w = (st, w)"
| "verify_modules exist remove (m # ms) st w =
     (let curr = module_key m; uuid = cm_ModuleUUID m in
      case map_of (objectMap st) curr of
        None \<Rightarrow> verify_modules exist remove ms st (snd (remove uuid w))
      | Some obj \<Rightarrow>
          (case exist obj uuid w of
             (Inl err, w) \<Rightarrow>
               verify_modules exist remove ms
                 (st\<lparr>modErrs := modErrs st @ [(m_Name (wrapped obj), Wrapf err ''failed to check if cluster module %q exists'' [uuid])],
                    clusterModuleSpecs := clusterModuleSpecs st @ [module_of obj uuid],
                    objectMap := AList.delete curr (objectMap st)\<rparr>) w
           | (Inr True, w) \<Rightarrow>
               verify_modules exist remove ms
                 (st\<lparr>clusterModuleSpecs := clusterModuleSpecs st @ [module_of obj uuid], objectMap := AList.delete curr (objectMap st)\<rparr>) w
           | (Inr False, w) \<Rightarrow> verify_modules exist remove ms st w))"

fun create_modules :: "'w create_fn \<Rightarrow> Wrapper list \<Rightarrow> module_state \<Rightarrow> 'w cluster_ctx_scheme \<Rightarrow> module_state \<times> 'w cluster_ctx_scheme" where
  \<comment> \<open>the loop over the objects that are left\<close>
  "create_modules create [] st w = (st, w)"
| "create_modules create (obj # objs) st w =
     (case create obj w of
        (Inl err, w) \<Rightarrow>
          create_modules create objs (st\<lparr>modErrs := modErrs st @ [(m_Name (wrapped obj), Wrapf err ''failed to create cluster module'' [])]\<rparr>) w
      | (Inr uuid, w) \<Rightarrow>
          create_modules create objs
            (if uuid = '''' then st else st\<lparr>clusterModuleSpecs := clusterModuleSpecs st @ [module_of obj uuid]\<rparr>) w)"

definition modules_message :: "(string \<times> go_error) list \<Rightarrow> cond_msg" where
  \<comment> \<open>\<open>generateClusterModuleErrorMessage\<close>\<close>
  "modules_message errs = ErrMsg (Aggregate (map (\<lambda>(name, err). Wrapf err name []) errs))"

definition modules_false :: "string \<Rightarrow> Severity \<Rightarrow> string \<Rightarrow> cond_msg \<Rightarrow> cond_op list" where
  "modules_false v1reason severity reason msg =
     [v1beta1_MarkFalse ''ClusterModulesAvailable'' v1reason severity msg, cond_Set ''ClusterModulesReady'' ConditionFalse reason msg]"

definition modules_condition :: "module_state \<Rightarrow> ('w, unit) cluster_step" where
  \<comment> \<open>the \<open>switch\<close> at the end of \<open>Reconcile\<close>\<close>
  "modules_condition st w =
     (let errs = modErrs st in
      if length errs > 0 then
        (let w = add_ccond (modules_false ''ClusterModuleSetupFailed'' SeverityWarning ''NotReady'' (modules_message errs)) w in
         if list_all (\<lambda>(_, e). IsIncompatibleOwnerError e) errs then (Inr (), w)
         else (Inl (Errorf ''Failed to create cluster modules for: '' (map fst errs)), w))
      else
        (Inr (), add_ccond ((if length (clusterModuleSpecs st) > 0 then [v1beta1_MarkTrue ''ClusterModulesAvailable'']
                             else [v1beta1_Delete ''ClusterModulesAvailable'']) @
                            [cond_Set ''ClusterModulesReady'' ConditionTrue ''Ready'' NoMsg]) w))"

definition modules_Reconcile ::
  "ext \<Rightarrow> ((string \<times> Wrapper) list \<Rightarrow> (string \<times> Wrapper) list) \<Rightarrow> 'w create_fn \<Rightarrow> 'w exists_fn \<Rightarrow> 'w remove_fn \<Rightarrow> ('w, unit) cluster_step" where
  "modules_Reconcile x visit create exist remove w =
     (if \<not> IsClusterCompatible x (cc_VSphereCluster w) then
        (Inr (), add_ccond (modules_false ''VCenterVersionIncompatible'' SeverityInfo ''InvalidVCenterVersion''
                   (Msg ''vCenter version %s does not support cluster modules'' [cst_VCenterVersion (cc_status w)])) w)
      else
        bindE (wrapE ''failed to get Machine owner objects'' [] (fetchMachineOwnerObjects x w)) (\<lambda>objects w.
        case verify_modules exist remove (cs_ClusterModules (cc_spec w)) \<lparr>objectMap = objects, modErrs = [], clusterModuleSpecs = []\<rparr> w of
          (st, w) \<Rightarrow>
            (case create_modules create (map snd (visit (objectMap st))) st w of
               (st, w) \<Rightarrow> modules_condition st (set_ClusterModules (clusterModuleSpecs st) w))))"

section \<open>Events\<close>

definition toAffinityInput :: "ext \<Rightarrow> ObjectMeta \<Rightarrow> 'w world_scheme \<Rightarrow> (string \<times> string) list \<times> 'w world_scheme" where
  \<comment> \<open>(namespace, name) of the VSphereCluster to reconcile for a KubeadmControlPlane or MachineDeployment\<close>
  "toAffinityInput x obj w =
     (case do_call (Capi (GetClusterFromMetadata (empty_meta\<lparr>m_Namespace := m_Namespace obj, m_Labels := m_Labels obj,
              m_OwnerReferences := m_OwnerReferences obj\<rparr>))) (x_cluster x) w of
        (Inl _, w) \<Rightarrow> ([], w)
      | (Inr cluster, w) \<Rightarrow>
          if \<not> cl_InfrastructureRefIsDefined cluster then ([], w)
          else
            case do_call (Get (Get_VSphereCluster (m_Namespace (cl_meta cluster)) (cl_InfrastructureRefName cluster))) (x_vcluster x) w of
              (Inl _, w) \<Rightarrow> ([], w)
            | (Inr c, w) \<Rightarrow> ([(m_Namespace (vc_meta c), m_Name (vc_meta c))], w))"

end
