(* ===== verification/Cluster_Modules_Correct.thy ===== *)
theory Cluster_Modules_Correct
  imports Cluster_Modules
begin

text \<open>
  Properties of the cluster modules of a VSphereCluster. The loops are proved once for every service that keeps the
  contract \<open>cluster_module_service\<close>, which the service of \<open>pkg/clustermodule/service.go\<close> does.
\<close>

section \<open>The contract of the service\<close>

fun creates_module :: "call \<Rightarrow> bool" where
  "creates_module (Change (Manager_CreateModule _)) = True"
| "creates_module _ = False"

definition at_most_creates :: "nat \<Rightarrow> 'v world_scheme \<Rightarrow> 'w world_scheme \<Rightarrow> bool" where
  \<comment> \<open>from \<open>w\<close> to \<open>w'\<close> at most \<open>n\<close> modules were created in vCenter\<close>
  "at_most_creates n w w' \<longleftrightarrow> (\<exists>cs. hist w' = hist w @ cs \<and> length (filter creates_module cs) \<le> n)"

lemma at_most_creates_refl [simp]: "at_most_creates n w w"
  by (simp add: at_most_creates_def)

lemma at_most_creates_trans: "at_most_creates m u v \<Longrightarrow> at_most_creates n v w \<Longrightarrow> at_most_creates (m + n) u w"
  unfolding at_most_creates_def by fastforce

lemmas at_most_creates_0_trans = at_most_creates_trans [where m = 0 and n = 0, simplified]

lemma at_most_creates_mono: "at_most_creates m u v \<Longrightarrow> m \<le> n \<Longrightarrow> at_most_creates n u v"
  unfolding at_most_creates_def by force

lemma calls_ok_at_most_creates: "calls_ok (\<lambda>c. \<not> creates_module c) w w' \<Longrightarrow> at_most_creates 0 w w'"
  by (auto simp: calls_ok_def at_most_creates_def list_all_iff)

locale cluster_module_service =
  fixes create :: "'w create_fn" and exist :: "'w exists_fn" and remove :: "'w remove_fn"
  assumes create_frame: "cc_VSphereCluster (snd (create obj w)) = cc_VSphereCluster w"
    and exist_frame: "cc_VSphereCluster (snd (exist obj u w)) = cc_VSphereCluster w"
    and remove_frame: "cc_VSphereCluster (snd (remove u w)) = cc_VSphereCluster w"
    and create_calls: "at_most_creates (Suc 0) w (snd (create obj w))"
    and exist_calls: "at_most_creates 0 w (snd (exist obj u w))"
    and remove_calls: "at_most_creates 0 w (snd (remove u w))"
begin

lemma verify_modules_frame:
  assumes "verify_modules exist remove ms st w = (st', w')"
  shows "cc_VSphereCluster w' = cc_VSphereCluster w \<and> at_most_creates 0 w w'"
  using assms
proof (induction ms arbitrary: st w)
  case (Cons m ms)
  show ?case
  proof (cases "map_of (objectMap st) (module_key m)")
    case None
    then show ?thesis
      using Cons.IH [of st "snd (remove (cm_ModuleUUID m) w)"] Cons.prems remove_frame
        at_most_creates_0_trans [OF remove_calls]
      by (auto simp: Let_def)
  next
    case (Some obj)
    obtain r v where e: "exist obj (cm_ModuleUUID m) w = (r, v)" by force
    have v: "cc_VSphereCluster v = cc_VSphereCluster w" "at_most_creates 0 w v"
      using exist_frame [of obj "cm_ModuleUUID m" w] exist_calls [of w obj "cm_ModuleUUID m"] e by simp_all
    show ?thesis
      using Cons.prems Cons.IH [of _ v] v at_most_creates_0_trans [OF v(2)] Some e
      by (fastforce simp: Let_def split: sum.splits bool.splits)
  qed
qed simp

lemma create_modules_frame:
  assumes "create_modules create objs st w = (st', w')"
  shows "cc_VSphereCluster w' = cc_VSphereCluster w \<and> at_most_creates (length objs) w w'"
  using assms
proof (induction objs arbitrary: st w)
  case (Cons obj objs)
  obtain r v where e: "create obj w = (r, v)" by force
  have v: "cc_VSphereCluster v = cc_VSphereCluster w" "at_most_creates (Suc 0) w v"
    using create_frame [of obj w] create_calls [of w obj] e by simp_all
  obtain st'' where "create_modules create objs st'' v = (st', w')" using Cons.prems e by (cases r) auto
  then have "cc_VSphereCluster w' = cc_VSphereCluster v \<and> at_most_creates (length objs) v w'" by (rule Cons.IH)
  then show ?case using v at_most_creates_trans [of "Suc 0" w v "length objs" w'] by simp
qed simp

end

section \<open>The service keeps it\<close>

lemma same_but_hist_cluster:
  fixes v v' :: "'w cluster_ctx_scheme"
  assumes "same_but_hist v v'"
  shows "cc_VSphereCluster v' = cc_VSphereCluster v"
proof -
  obtain h where "v' = v\<lparr>hist := h\<rparr>" using assms by (cases v; cases v') (simp add: same_but_hist_def)
  then show ?thesis by simp
qed

lemma fetchSession_frame [frame_intros]: "same_but_hist w (snd (fetchSession x mgr dc w))"
  by (auto simp: fetchSession_def Let_def intro!: frame_intros)

lemma fetchSession_calls [calls_intros]:
  "(\<And>g. P (Get g)) \<Longrightarrow> (\<And>a b c d. P (Session_GetOrCreate a b c d)) \<Longrightarrow> calls_ok P w (snd (fetchSession x mgr dc w))"
  by (auto simp: fetchSession_def Let_def intro!: calls_intros)

lemma fetchTemplateRef_frame [frame_intros]: "same_but_hist w (snd (fetchTemplateRef x o' w))"
  by (auto simp: fetchTemplateRef_def Let_def intro!: frame_intros split: sum.splits option.splits)

lemma fetchTemplateRef_calls [calls_intros]: "(\<And>g. P (Get g)) \<Longrightarrow> calls_ok P w (snd (fetchTemplateRef x o' w))"
  by (auto simp: fetchTemplateRef_def Let_def intro!: calls_intros split: sum.splits option.splits)

lemma fetchMachineTemplate_frame [frame_intros]: "same_but_hist w (snd (fetchMachineTemplate x o' n w))"
  by (auto simp: fetchMachineTemplate_def intro!: frame_intros)

lemma fetchMachineTemplate_calls [calls_intros]: "(\<And>g. P (Get g)) \<Longrightarrow> calls_ok P w (snd (fetchMachineTemplate x o' n w))"
  by (auto simp: fetchMachineTemplate_def intro!: calls_intros)

lemma getComputeClusterResource_frame [frame_intros]: "same_but_hist w (snd (getComputeClusterResource x p w))"
  by (auto simp: getComputeClusterResource_def intro!: frame_intros)

lemma getComputeClusterResource_calls [calls_intros]:
  "(\<And>g. P (Find g)) \<Longrightarrow> (\<And>g. P (Svc g)) \<Longrightarrow> calls_ok P w (snd (getComputeClusterResource x p w))"
  by (auto simp: getComputeClusterResource_def intro!: calls_intros)

lemma DoesModuleExist_frame [frame_intros]: "same_but_hist w (snd (DoesModuleExist x u w))"
  by (auto simp: DoesModuleExist_def intro!: frame_intros)

lemma DoesModuleExist_calls [calls_intros]: "(\<And>g. P (Svc g)) \<Longrightarrow> calls_ok P w (snd (DoesModuleExist x u w))"
  by (auto simp: DoesModuleExist_def intro!: calls_intros)

lemma module_DoesExist_frame: "same_but_hist w (snd (module_DoesExist x mgr obj u w))"
  by (auto simp: module_DoesExist_def Let_def intro!: frame_intros split: prod.splits)

lemma module_DoesExist_calls: "calls_ok (\<lambda>c. \<not> creates_module c) w (snd (module_DoesExist x mgr obj u w))"
  by (auto simp: module_DoesExist_def Let_def intro!: calls_intros split: prod.splits)

lemma module_Remove_frame: "same_but_hist w (snd (module_Remove x mgr u w))"
  by (auto simp: module_Remove_def DeleteModule_def intro!: frame_intros)

lemma module_Remove_calls: "calls_ok (\<lambda>c. \<not> creates_module c) w (snd (module_Remove x mgr u w))"
  by (auto simp: module_Remove_def DeleteModule_def intro!: calls_intros)

lemma CreateModule_frame [frame_intros]: "same_but_hist w (snd (CreateModule x ref w))"
  by (auto simp: CreateModule_def intro!: frame_intros)

lemma module_Create_frame: "same_but_hist w (snd (module_Create x mgr obj w))"
  by (auto simp: module_Create_def Let_def intro!: frame_intros split: prod.splits)

lemma at_most_creates_bindE:
  assumes "calls_ok (\<lambda>c. \<not> creates_module c) w (snd m)" and "\<And>y w'. m = (Inr y, w') \<Longrightarrow> at_most_creates (Suc 0) w' (snd (k y w'))"
  shows "at_most_creates (Suc 0) w (snd (bindE m k))"
proof (cases m)
  case (Pair r v)
  have v: "at_most_creates 0 w v" using assms(1) calls_ok_at_most_creates by (simp add: Pair)
  show ?thesis
  proof (cases r)
    case (Inl e)
    then show ?thesis using v by (simp add: Pair at_most_creates_mono [OF v])
  next
    case (Inr y)
    then show ?thesis using at_most_creates_trans [OF v assms(2) [of y v]] by (simp add: Pair)
  qed
qed

lemma module_Create_calls: "at_most_creates (Suc 0) w (snd (module_Create x mgr obj w))"
  by (auto simp: module_Create_def Let_def CreateModule_def intro!: at_most_creates_bindE calls_intros split: prod.splits)
     (simp add: at_most_creates_def do_call_def)

interpretation vcenter_modules: cluster_module_service "module_Create x mgr" "module_DoesExist x mgr" "module_Remove x mgr"
  by unfold_locales
     (auto intro: same_but_hist_cluster module_Create_frame module_DoesExist_frame module_Remove_frame module_Create_calls
        calls_ok_at_most_creates module_DoesExist_calls module_Remove_calls)

section \<open>What the loops establish\<close>

definition wrapper_key :: "Wrapper \<Rightarrow> string" where
  "wrapper_key obj = (if IsControlPlane obj then appendKCPKey (m_Name (wrapped obj)) else m_Name (wrapped obj))"

lemma module_key_of [simp]: "module_key (module_of obj u) = wrapper_key obj"
  by (simp add: module_key_def module_of_def wrapper_key_def)

lemma uuid_of [simp]: "cm_ModuleUUID (module_of obj u) = u"
  by (simp add: module_of_def)

definition keyed :: "(string \<times> Wrapper) list \<Rightarrow> bool" where
  \<comment> \<open>every object under the key of its module, at most one per key\<close>
  "keyed objs \<longleftrightarrow> distinct (map fst objs) \<and> (\<forall>(k, obj) \<in> set objs. wrapper_key obj = k)"

definition modules_inv :: "ClusterModule list \<Rightarrow> string set \<Rightarrow> module_state \<Rightarrow> bool" where
  "modules_inv old keys st \<longleftrightarrow>
     keyed (objectMap st) \<and> distinct (map module_key (clusterModuleSpecs st)) \<and>
     module_key ` set (clusterModuleSpecs st) \<inter> fst ` set (objectMap st) = {} \<and>
     module_key ` set (clusterModuleSpecs st) \<union> fst ` set (objectMap st) = keys \<and>
     (\<forall>m \<in> set (clusterModuleSpecs st). \<exists>m0 \<in> set old. module_key m0 = module_key m \<and> cm_ModuleUUID m0 = cm_ModuleUUID m)"

lemma keyed_delete: "keyed objs \<Longrightarrow> keyed (AList.delete k objs)"
  by (auto simp: keyed_def AList.delete_eq distinct_map_filter)

lemma modules_inv_keep:
  assumes "modules_inv old keys st" and "map_of (objectMap st) (module_key m) = Some obj" and "m \<in> set old"
  shows "modules_inv old keys (st\<lparr>clusterModuleSpecs := clusterModuleSpecs st @ [module_of obj (cm_ModuleUUID m)],
    objectMap := AList.delete (module_key m) (objectMap st)\<rparr>)"
proof -
  have "(module_key m, obj) \<in> set (objectMap st)" using assms(2) by (rule map_of_SomeD)
  then have key: "wrapper_key obj = module_key m" "module_key m \<in> fst ` set (objectMap st)"
    using assms(1) by (auto simp: modules_inv_def keyed_def intro: rev_image_eqI)
  have del: "fst ` set (AList.delete (module_key m) (objectMap st)) = fst ` set (objectMap st) - {module_key m}"
    by (auto simp: AList.delete_eq)
  show ?thesis using assms key unfolding modules_inv_def
    by (auto simp: keyed_delete del dest: sym)
qed

lemma verify_modules_inv:
  assumes "verify_modules exist remove ms st w = (st', w')" and "modules_inv old keys st" and "set ms \<subseteq> set old"
  shows "modules_inv old keys st'"
  using assms
proof (induction ms arbitrary: st w)
  case (Cons m ms)
  show ?case
  proof (cases "map_of (objectMap st) (module_key m)")
    case None
    then show ?thesis using Cons by (simp add: Let_def)
  next
    case (Some obj)
    let ?st = "\<lambda>es. st\<lparr>modErrs := es, clusterModuleSpecs := clusterModuleSpecs st @ [module_of obj (cm_ModuleUUID m)],
      objectMap := AList.delete (module_key m) (objectMap st)\<rparr>"
    obtain r v where e: "exist obj (cm_ModuleUUID m) w = (r, v)" by force
    have keep: "modules_inv old keys (?st es)" for es
      using modules_inv_keep [of old keys "st\<lparr>modErrs := es\<rparr>" m obj] Cons.prems Some by (simp add: modules_inv_def)
    have rest: "set ms \<subseteq> set old" using Cons.prems(3) by simp
    show ?thesis
    proof (cases r)
      case (Inl err)
      then show ?thesis using Cons.IH [OF _ keep rest] Cons.prems(1) Some e by (simp add: Let_def)
    next
      case (Inr b)
      then show ?thesis
        using Cons.IH [OF _ keep [of "modErrs st"] rest] Cons.IH [OF _ Cons.prems(2) rest] Cons.prems(1) Some e
        by (cases b) (simp_all add: Let_def)
    qed
  qed
qed simp

lemma create_modules_specs:
  assumes "create_modules create objs st w = (st', w')"
  shows "\<exists>created. clusterModuleSpecs st' = clusterModuleSpecs st @ created \<and> objectMap st' = objectMap st \<and>
    subseq (map module_key created) (map wrapper_key objs)"
  using assms
proof (induction objs arbitrary: st w)
  case (Cons obj objs)
  obtain r v where e: "create obj w = (r, v)" by force
  show ?case
  proof (cases "\<exists>uuid. r = Inr uuid \<and> uuid \<noteq> ''''")
    case True
    then obtain uuid where "r = Inr uuid" "uuid \<noteq> ''''" by blast
    then obtain created where "clusterModuleSpecs st' = clusterModuleSpecs st @ module_of obj uuid # created" "objectMap st' = objectMap st"
      "subseq (map module_key created) (map wrapper_key objs)"
      using Cons e by fastforce
    then show ?thesis by (intro exI [of _ "module_of obj uuid # created"]) simp
  next
    case False
    then obtain st'' where "create_modules create objs st'' v = (st', w')" "clusterModuleSpecs st'' = clusterModuleSpecs st" "objectMap st'' = objectMap st"
      using Cons.prems e by (cases r) auto
    then show ?thesis using Cons.IH by fastforce
  qed
qed simp

lemma subseq_distinct: "subseq xs ys \<Longrightarrow> distinct ys \<Longrightarrow> distinct xs"
proof (induction rule: list_emb.induct)
  case (list_emb_Cons2 x y xs ys)
  then show ?case using list_emb_set [of "(=)" xs ys x] by auto
qed auto

lemma subseq_set: "subseq xs ys \<Longrightarrow> set xs \<subseteq> set ys"
  by (auto dest: list_emb_set)

lemma set_AList_update: "set (AList.update k v al) \<subseteq> insert (k, v) (set al)"
  by (induction al) auto

lemma keyed_update: "keyed objs \<Longrightarrow> wrapper_key obj = k \<Longrightarrow> keyed (AList.update k obj objs)"
  using distinct_update [of objs k obj] set_AList_update [of k obj objs] by (fastforce simp: keyed_def)

lemma fetchMachineOwnerObjects_keyed:
  assumes "fetchMachineOwnerObjects x w = (Inr objects, u)"
  shows "keyed objects \<and> u = w\<lparr>hist := hist u\<rparr>"
proof -
  have init: "keyed (map (\<lambda>kcp. (appendKCPKey (m_Name kcp), kcpWrapper kcp)) (filter p kcps))" if "length kcps \<le> 1" for kcps p
    using that by (cases kcps) (auto simp: keyed_def wrapper_key_def)
  have "keyed (fold (\<lambda>md. AList.update (m_Name md) (mdWrapper md)) mds objs)" if "keyed objs" for mds objs
    using that by (induction mds arbitrary: objs) (simp_all add: keyed_update wrapper_key_def)
  with init show ?thesis using assms
    by (auto simp: fetchMachineOwnerObjects_def Let_def bindE_eq_Inr wrapE_eq_Inr do_call_eq not_less split: option.splits if_splits)
qed

lemma modules_Reconcile_cases:
  assumes "IsClusterCompatible x (cc_VSphereCluster w)" and "fetchMachineOwnerObjects x w = (Inr objects, u)"
    and "modules_Reconcile x visit create exist remove w = (r, w')"
  obtains st v st' v' where
    "verify_modules exist remove (cs_ClusterModules (cc_spec w)) \<lparr>objectMap = objects, modErrs = [], clusterModuleSpecs = []\<rparr> u = (st, v)"
    "create_modules create (map snd (visit (objectMap st))) st v = (st', v')"
    "modules_condition st' (set_ClusterModules (clusterModuleSpecs st') v') = (r, w')"
proof -
  obtain h where "u = w\<lparr>hist := h\<rparr>" using fetchMachineOwnerObjects_keyed [OF assms(2)] by blast
  then show ?thesis using assms that by (auto simp: modules_Reconcile_def split: prod.splits)
qed

lemma modules_condition_frame:
  assumes "modules_condition st w = (r, w')"
  shows "hist w' = hist w" "cc_spec w' = cc_spec w"
  using assms by (auto simp: modules_condition_def add_ccond_def upd_cstatus_def Let_def split: if_splits)

lemma modules_inv_length:
  assumes "modules_inv old (fst ` set objects) st" and "keyed objects"
  shows "length objects = length (clusterModuleSpecs st) + length (objectMap st)"
proof -
  have "card (module_key ` set (clusterModuleSpecs st)) = length (clusterModuleSpecs st)"
    "card (fst ` set (objectMap st)) = length (objectMap st)" "card (fst ` set objects) = length objects"
    using assms distinct_card [of "map module_key (clusterModuleSpecs st)"] distinct_card [of "map fst (objectMap st)"]
      distinct_card [of "map fst objects"] by (auto simp: modules_inv_def keyed_def)
  moreover have "card (module_key ` set (clusterModuleSpecs st) \<union> fst ` set (objectMap st)) =
      card (module_key ` set (clusterModuleSpecs st)) + card (fst ` set (objectMap st))"
    by (rule card_Un_disjoint) (use assms in \<open>auto simp: modules_inv_def\<close>)
  ultimately show ?thesis using assms by (simp add: modules_inv_def)
qed

section \<open>Properties\<close>

text \<open>
  C19. Whatever vCenter and the API server answer and in whichever order the owners are visited, reconciling the modules
  leaves at most one module per live KubeadmControlPlane or MachineDeployment. The modules that are kept were in the
  spec before, under the same owner key and with the same UUID, and modules are created only for owners without a
  kept module, at most one each.
\<close>

theorem one_module_per_owner:
  assumes "IsClusterCompatible x (cc_VSphereCluster w)" and "fetchMachineOwnerObjects x w = (Inr objects, u)"
    and "\<And>l. mset (visit l) = mset l"
    and "modules_Reconcile x visit (module_Create x mgr) (module_DoesExist x mgr) (module_Remove x mgr) w = (r, w')"
  shows "\<exists>kept created. cs_ClusterModules (cc_spec w') = kept @ created \<and>
    distinct (map module_key (kept @ created)) \<and> module_key ` set (kept @ created) \<subseteq> fst ` set objects \<and>
    (\<forall>m \<in> set kept. \<exists>m0 \<in> set (cs_ClusterModules (cc_spec w)). module_key m0 = module_key m \<and> cm_ModuleUUID m0 = cm_ModuleUUID m) \<and>
    at_most_creates (length objects - length kept) u w'"
proof -
  obtain st v st' v' where
    ver: "verify_modules (module_DoesExist x mgr) (module_Remove x mgr) (cs_ClusterModules (cc_spec w)) \<lparr>objectMap = objects, modErrs = [], clusterModuleSpecs = []\<rparr> u = (st, v)"
    and cre: "create_modules (module_Create x mgr) (map snd (visit (objectMap st))) st v = (st', v')"
    and con: "modules_condition st' (set_ClusterModules (clusterModuleSpecs st') v') = (r, w')"
    using assms(1,2,4) by (rule modules_Reconcile_cases)
  have "modules_inv (cs_ClusterModules (cc_spec w)) (fst ` set objects) \<lparr>objectMap = objects, modErrs = [], clusterModuleSpecs = []\<rparr>"
    using fetchMachineOwnerObjects_keyed [OF assms(2)] by (simp add: modules_inv_def)
  with ver have inv: "modules_inv (cs_ClusterModules (cc_spec w)) (fst ` set objects) st" by (rule verify_modules_inv) simp
  obtain created where created: "clusterModuleSpecs st' = clusterModuleSpecs st @ created"
    "subseq (map module_key created) (map wrapper_key (map snd (visit (objectMap st))))"
    using create_modules_specs [OF cre] by auto
  have vs: "set (visit (objectMap st)) = set (objectMap st)" "length (visit (objectMap st)) = length (objectMap st)"
    using assms(3) by (metis set_mset_mset, metis size_mset)
  have keys: "map wrapper_key (map snd (visit (objectMap st))) = map fst (visit (objectMap st))"
    using inv vs by (auto simp: modules_inv_def keyed_def)
  have "distinct (map fst (visit (objectMap st)))"
    using inv assms(3) [of "objectMap st"] by (metis keyed_def modules_inv_def mset_eq_imp_distinct_iff mset_map)
  then have dis: "distinct (map module_key created)" "module_key ` set created \<subseteq> fst ` set (objectMap st)"
    using created(2) subseq_distinct subseq_set [OF created(2)] vs unfolding keys by auto
  have union: "fst ` set objects = module_key ` set (clusterModuleSpecs st) \<union> fst ` set (objectMap st)"
    using inv by (simp add: modules_inv_def)
  have len: "length (objectMap st) = length objects - length (clusterModuleSpecs st)"
    using modules_inv_length [OF inv] fetchMachineOwnerObjects_keyed [OF assms(2)] by simp
  have "at_most_creates (length (objectMap st)) u v'"
    using at_most_creates_trans [of 0 u v "length (objectMap st)" v'] vcenter_modules.verify_modules_frame [OF ver]
      vcenter_modules.create_modules_frame [OF cre] vs(2) by simp
  then have "at_most_creates (length objects - length (clusterModuleSpecs st)) u w'"
    using len modules_condition_frame [OF con] by (simp add: at_most_creates_def set_ClusterModules_def)
  moreover have "module_key ` set (clusterModuleSpecs st @ created) \<subseteq> fst ` set objects"
    using dis(2) union by (simp add: image_Un le_supI2)
  moreover have "distinct (map module_key (clusterModuleSpecs st @ created))" using inv dis by (auto simp: modules_inv_def)
  moreover have "cs_ClusterModules (cc_spec w') = clusterModuleSpecs st @ created"
    using created(1) modules_condition_frame [OF con] by (simp add: set_ClusterModules_def)
  moreover have "\<forall>m \<in> set (clusterModuleSpecs st). \<exists>m0 \<in> set (cs_ClusterModules (cc_spec w)).
      module_key m0 = module_key m \<and> cm_ModuleUUID m0 = cm_ModuleUUID m" using inv by (simp add: modules_inv_def)
  ultimately show ?thesis by blast
qed

text \<open>
  When the removal of a module from vCenter fails, for instance because vCenter cannot be reached, the module
  is dropped from the spec all the same and no error is reported: nothing refers to it any more, and it stays in vCenter.
\<close>

lemma failed_module_removal_forgotten:
  assumes "IsClusterCompatible x (cc_VSphereCluster w)" and "fetchMachineOwnerObjects x w = (Inr [], u)"
    and "cs_ClusterModules (cc_spec w) = [m]" and "fst (module_Remove x mgr (cm_ModuleUUID m) u) = Inl err"
    and "visit [] = []"
  shows "\<exists>w'. modules_Reconcile x visit (module_Create x mgr) (module_DoesExist x mgr) (module_Remove x mgr) w = (Inr (), w') \<and>
    cs_ClusterModules (cc_spec w') = []"
proof -
  obtain h where u: "u = w\<lparr>hist := h\<rparr>" using fetchMachineOwnerObjects_keyed [OF assms(2)] by blast
  show ?thesis using assms(1,2,3,5)
    by (simp add: modules_Reconcile_def u modules_condition_def set_ClusterModules_def add_ccond_def upd_cstatus_def Let_def)
qed

text \<open>
  The prefix that keeps a control plane apart from MachineDeployments of the same name does not keep it apart
  from a MachineDeployment whose name is the prefixed one: of the two owners only the MachineDeployment is left, so
  the control plane gets no module of its own.
\<close>

lemma control_plane_key_collision:
  assumes "m_Labels (cc_meta w) ClusterNameLabel = Some c" and "m_DeletionTimestamp kcp = None" "m_DeletionTimestamp md = None"
    and "m_Name md = ''kcp'' @ m_Name kcp"
    and "x_metas x (hist w @ [Get (List_KubeadmControlPlanes (m_Namespace (cc_meta w)) [ClusterNameLabel \<mapsto> c])]) = Inr [kcp]"
    and "x_metas x (hist w @ [Get (List_KubeadmControlPlanes (m_Namespace (cc_meta w)) [ClusterNameLabel \<mapsto> c]),
                              Get (List_MachineDeployments (m_Namespace (cc_meta w)) [ClusterNameLabel \<mapsto> c])]) = Inr [md]"
  shows "fst (fetchMachineOwnerObjects x w) = Inr [(''kcp'' @ m_Name kcp, mdWrapper md)]"
  using assms by (simp add: fetchMachineOwnerObjects_def do_call_def Let_def appendKCPKey_def)

section \<open>Concrete instances\<close>

definition sample_meta :: "string \<Rightarrow> ObjectMeta" where
  "sample_meta name = empty_meta\<lparr>m_Name := name, m_Labels := [ClusterNameLabel \<mapsto> ''c'']\<rparr>"

definition sample_module :: ClusterModule where
  "sample_module = \<lparr>cm_ControlPlane = Some True, cm_TargetObjectName = ''cp'', cm_ModuleUUID = ''m1''\<rparr>"

definition sample_cc :: cluster_ctx where
  "sample_cc = \<lparr>hist = [], cc_VSphereCluster = \<lparr>vc_meta = sample_meta ''c'',
     vc_Spec = \<lparr>cs_Server = ''vc1'', cs_Thumbprint = '''', cs_ControlPlaneEndpoint = \<lparr>ae_Host = '''', ae_Port = 0\<rparr>,
       cs_IdentityRef = \<lparr>ir_Kind = '''', ir_Name = ''''\<rparr>, cs_ClusterModules = [sample_module], cs_DisableClusterModule = None,
       cs_FailureDomainSelector = None\<rparr>,
     vc_Status = \<lparr>cst_Conditions = [], cst_Provisioned = None, cst_FailureDomains = [], cst_VCenterVersion = ''8.0.0''\<rparr>\<rparr>,
     cc_Cluster = None\<rparr>"

definition sample_owners :: "ObjectMeta list \<Rightarrow> ObjectMeta list \<Rightarrow> ext" where
  \<comment> \<open>an API server with these control planes and MachineDeployments, and an unreachable vCenter\<close>
  "sample_owners kcps mds = ext_default\<lparr>x_metas := \<lambda>h. case last h of Get (List_KubeadmControlPlanes _ _) \<Rightarrow> Inr kcps | _ \<Rightarrow> Inr mds\<rparr>"

definition sample_mgr :: manager where
  "sample_mgr = \<lparr>mgr_Namespace = ''capv'', mgr_Username = ''u'', mgr_Password = ''p'', mgr_NodeAntiAffinity = True\<rparr>"

lemma sample_cc_compatible: "IsClusterCompatible (sample_owners kcps mds) (cc_VSphereCluster sample_cc)"
  by (simp add: IsClusterCompatible_def sample_cc_def sample_owners_def)

lemma sample_owners_fetch:
  assumes "length kcps \<le> 1"
  shows "\<exists>objs u. fetchMachineOwnerObjects (sample_owners kcps mds) sample_cc = (Inr objs, u)"
  using assms by (simp add: fetchMachineOwnerObjects_def sample_owners_def sample_cc_def sample_meta_def do_call_def Let_def)

theorem one_module_per_owner_witness:
  "\<exists>kept created. cs_ClusterModules (cc_spec (snd (modules_Reconcile (sample_owners [sample_meta ''cp''] [sample_meta ''md'']) rev
     (module_Create (sample_owners [sample_meta ''cp''] [sample_meta ''md'']) sample_mgr)
     (module_DoesExist (sample_owners [sample_meta ''cp''] [sample_meta ''md'']) sample_mgr)
     (module_Remove (sample_owners [sample_meta ''cp''] [sample_meta ''md'']) sample_mgr) sample_cc))) = kept @ created \<and>
   distinct (map module_key (kept @ created))"
proof -
  obtain objs u where f: "fetchMachineOwnerObjects (sample_owners [sample_meta ''cp''] [sample_meta ''md'']) sample_cc = (Inr objs, u)"
    using sample_owners_fetch [of "[sample_meta ''cp'']" "[sample_meta ''md'']"] by auto
  have "mset (rev l) = mset l" for l :: "(string \<times> Wrapper) list" by simp
  from one_module_per_owner [OF sample_cc_compatible f this surjective_pairing] show ?thesis by blast
qed

definition module_view :: "ClusterModule \<Rightarrow> bool \<times> string \<times> string" where
  "module_view m = (Deref (cm_ControlPlane m) False, cm_TargetObjectName m, cm_ModuleUUID m)"

lemma same_module_view: "same_module a b \<longleftrightarrow> module_view a = module_view b"
  by (auto simp: same_module_def module_view_def)

lemma map_sort_view: "map module_view (sort_key cm_TargetObjectName ms) = sort_key (fst \<circ> snd) (map module_view ms)"
proof -
  have ins: "map module_view (insort_key cm_TargetObjectName m ms) = insort_key (fst \<circ> snd) (module_view m) (map module_view ms)" for m ms
    by (induction ms) (auto simp: module_view_def)
  show ?thesis by (induction ms) (simp_all add: ins comp_def)
qed

lemma sort_key_eq_iff:
  "sort_key f xs = sort_key f ys \<longleftrightarrow> (\<forall>k. filter (\<lambda>x. f x = k) xs = filter (\<lambda>x. f x = k) ys)"
proof
  assume "sort_key f xs = sort_key f ys"
  then show "\<forall>k. filter (\<lambda>x. f x = k) xs = filter (\<lambda>x. f x = k) ys" by (metis sort_key_stable)
next
  assume eq: "\<forall>k. filter (\<lambda>x. f x = k) xs = filter (\<lambda>x. f x = k) ys"
  have "count (mset xs) a = count (mset ys) a" for a
  proof -
    have "count (mset zs) a = count (mset (filter (\<lambda>x. f x = f a) zs)) a" for zs by (simp add: mset_filter)
    then show ?thesis using eq by metis
  qed
  then have "mset (sort_key f ys) = mset xs" by (simp add: multiset_eq_iff)
  moreover have "filter (\<lambda>x. f k = f x) (sort_key f ys) = filter (\<lambda>x. f k = f x) xs" for k
    using eq sort_key_stable [of f "f k" ys] by (simp add: eq_commute [of "f k"])
  ultimately show "sort_key f xs = sort_key f ys" by (intro properties_for_sort_key) simp_all
qed

text \<open>
  C39. \<open>Compare\<close>, which decides whether the VSphereVMs of a cluster are reconciled after a change of its modules, sees two
  lists as equal exactly when they hold, for each target name, the same modules in the same order; the order of modules with
  different names does not matter, and the flag for the control plane counts as false when it is not set. When the target
  names of one list are distinct this is equality of the modules as multisets. (A control plane and a MachineDeployment of
  the same name are two modules of one name; when only these are swapped \<open>Compare\<close> answers that the lists differ.)
\<close>

theorem Compare_same_modules:
  "(Compare oldMods newMods \<longleftrightarrow>
     (\<forall>name. filter (\<lambda>m. fst (snd m) = name) (map module_view oldMods) = filter (\<lambda>m. fst (snd m) = name) (map module_view newMods))) \<and>
   (distinct (map cm_TargetObjectName oldMods) \<longrightarrow>
     (Compare oldMods newMods \<longleftrightarrow> mset (map module_view oldMods) = mset (map module_view newMods)))"
proof -
  have cmp: "Compare oldMods newMods \<longleftrightarrow>
      sort_key (fst \<circ> snd) (map module_view oldMods) = sort_key (fst \<circ> snd) (map module_view newMods)" (is "_ \<longleftrightarrow> ?eq")
    unfolding map_sort_view [symmetric] Compare_def list_all2_conv_all_nth list_eq_iff_nth_eq
    by (auto simp: same_module_view)
  have "?eq \<longleftrightarrow> mset (map module_view oldMods) = mset (map module_view newMods)" if "distinct (map cm_TargetObjectName oldMods)"
  proof
    show "?eq \<Longrightarrow> mset (map module_view oldMods) = mset (map module_view newMods)" by (metis mset_sort)
    have "inj_on (fst \<circ> snd) (set (map module_view oldMods))"
      using that by (auto simp: module_view_def inj_on_def distinct_map)
    then show "mset (map module_view oldMods) = mset (map module_view newMods) \<Longrightarrow> ?eq" by (intro sort_key_inj_key_eq) simp_all
  qed
  then show ?thesis unfolding cmp sort_key_eq_iff comp_apply by blast
qed

theorem Compare_same_modules_witness:
  "Compare [sample_module, sample_module\<lparr>cm_TargetObjectName := ''md''\<rparr>] [sample_module\<lparr>cm_TargetObjectName := ''md''\<rparr>, sample_module] \<and>
   \<not> Compare [sample_module, sample_module\<lparr>cm_ControlPlane := None\<rparr>] [sample_module\<lparr>cm_ControlPlane := None\<rparr>, sample_module]"
  using Compare_same_modules [of "[sample_module, sample_module\<lparr>cm_TargetObjectName := ''md''\<rparr>]"
      "[sample_module\<lparr>cm_TargetObjectName := ''md''\<rparr>, sample_module]"]
    Compare_same_modules [of "[sample_module, sample_module\<lparr>cm_ControlPlane := None\<rparr>]"
      "[sample_module\<lparr>cm_ControlPlane := None\<rparr>, sample_module]"]
  by (simp add: sample_module_def module_view_def)

end
