(* ===== verification/Identity_Controller.thy ===== *)
theory Identity_Controller
  imports Controller_Base
begin

text \<open>
  \<open>controllers/vsphereclusteridentity_controller.go\<close>: a VSphereClusterIdentity claims a secret of the
  controller's namespace by becoming its owner, and is ready once it has. The handling of the secret is the
  same in \<open>controllers/vspherecluster_reconciler.go\<close> for a VSphereCluster that names its secret directly; the
  operations on the secret are shared by both.
\<close>

section \<open>The secret of an identity or a cluster\<close>

definition secret_taken :: "ext \<Rightarrow> ObjectMeta \<Rightarrow> ObjectMeta \<Rightarrow> string \<Rightarrow> bool" where
  \<comment> \<open>the secret has an owner among identities and clusters, and it is not the object\<close>
  "secret_taken x secret obj kind \<longleftrightarrow>
     \<not> x_IsOwnedByObject x (m_OwnerReferences secret) obj kind \<and> IsOwnedByIdentityOrCluster (m_OwnerReferences secret)"

definition owned_secret :: "ext \<Rightarrow> ObjectMeta \<Rightarrow> ObjectMeta \<Rightarrow> string \<Rightarrow> ObjectMeta" where
  \<comment> \<open>the secret with the object as owner and with the finalizer\<close>
  "owned_secret x secret obj kind =
     secret\<lparr>m_OwnerReferences := x_EnsureOwnerRef x (m_OwnerReferences secret)
              \<lparr>or_APIVersion = GroupVersion_String, or_Kind = kind, or_Name = m_Name obj, or_UID = m_UID obj,
               or_Controller = None, or_BlockOwnerDeletion = None\<rparr>,
            m_Finalizers := (if SecretIdentitySetFinalizer \<in> set (m_Finalizers secret) then m_Finalizers secret
                             else x_AddFinalizer x (m_Finalizers secret) SecretIdentitySetFinalizer)\<rparr>"

definition delete_secret :: "ext \<Rightarrow> string \<Rightarrow> string \<Rightarrow> ('w, unit) k8s_step" where
  \<comment> \<open>remove the finalizer of the secret and delete it; a secret that does not exist is fine\<close>
  "delete_secret x namespace name w =
     (case do_call (Get (Get_Secret namespace name)) (x_meta x) w of
        (Inl err, w) \<Rightarrow> if apierrors_IsNotFound err then (Inr (), w) else (Inl err, w)
      | (Inr secret, w) \<Rightarrow>
          (case x_RemoveFinalizer x (m_Finalizers secret) SecretIdentitySetFinalizer of
             (finalizers, removed) \<Rightarrow>
               bindE (if removed
                      then wrapE ''failed to update Secret %s'' [] (do_call (Put (Update_Secret (secret\<lparr>m_Finalizers := finalizers\<rparr>))) (x_unit x) w)
                      else (Inr (), w)) (\<lambda>_ w.
               if m_DeletionTimestamp secret = None
               then wrapE ''failed to delete Secret %s'' [] (do_call (Put (Delete_Secret (m_Namespace secret) (m_Name secret))) (x_unit x) w)
               else (Inr (), w))))"

section \<open>The controller\<close>

record identity_ctx = world +
  id_Identity :: VSphereClusterIdentity

type_synonym ('w, 'a) identity_step = "'w identity_ctx_scheme \<Rightarrow> (go_error + 'a) \<times> 'w identity_ctx_scheme"

definition add_icond :: "cond_op list \<Rightarrow> 'w identity_ctx_scheme \<Rightarrow> 'w identity_ctx_scheme" where
  "add_icond ops w = w\<lparr>id_Identity := (id_Identity w)\<lparr>ci_Conditions := ci_Conditions (id_Identity w) @ ops\<rparr>\<rparr>"

definition set_iready :: "bool \<Rightarrow> 'w identity_ctx_scheme \<Rightarrow> 'w identity_ctx_scheme" where
  "set_iready b w = w\<lparr>id_Identity := (id_Identity w)\<lparr>ci_Ready := Some b\<rparr>\<rparr>"

definition credentials_false :: "string \<Rightarrow> Severity \<Rightarrow> string \<Rightarrow> cond_msg \<Rightarrow> cond_op list" where
  "credentials_false v1reason severity reason msg =
     [v1beta1_MarkFalse ''CredentialsAvailable'' v1reason severity msg, cond_Set ''Available'' ConditionFalse reason msg]"

definition remove_identity_finalizer :: "ext \<Rightarrow> 'w identity_ctx_scheme \<Rightarrow> 'w identity_ctx_scheme" where
  "remove_identity_finalizer x w =
     (let i = id_Identity w; m = ci_meta i in
      w\<lparr>id_Identity := i\<lparr>ci_meta := m\<lparr>m_Finalizers := fst (x_RemoveFinalizer x (m_Finalizers m) VSphereClusterIdentityFinalizer)\<rparr>\<rparr>\<rparr>)"

definition identity_reconcileDelete :: "ext \<Rightarrow> manager \<Rightarrow> ('w, unit) identity_step" where
  "identity_reconcileDelete x mgr w =
     bindE (delete_secret x (mgr_Namespace mgr) (ci_SecretName (id_Identity w))
              (add_icond [cond_Set ''Available'' ConditionFalse ''Deleting'' NoMsg] w)) (\<lambda>_ w.
     (Inr (), remove_identity_finalizer x w))"

definition identity_reconcileNormal :: "ext \<Rightarrow> manager \<Rightarrow> ('w, unit) identity_step" where
  \<comment> \<open>\<open>Reconcile\<close> from the read of the secret\<close>
  "identity_reconcileNormal x mgr w =
     (case do_call (Get (Get_Secret (mgr_Namespace mgr) (ci_SecretName (id_Identity w)))) (x_meta x) w of
        (Inl err, w) \<Rightarrow>
          (Inl (Wrapf err ''failed to get Secret %s'' []),
           add_icond (credentials_false ''SecretNotAvailable'' SeverityWarning ''SecretNotAvailable'' (ErrMsg err)) w)
      | (Inr secret, w) \<Rightarrow>
          if secret_taken x secret (ci_meta (id_Identity w)) ''VSphereClusterIdentity'' then
            (Inl (Errorf ''secret being used by another Cluster/VSphereIdentity'' []),
             set_iready False (add_icond (credentials_false ''SecretInUse'' SeverityError ''SecretAlreadyInUse''
               (Msg ''secret being used by another Cluster/VSphereIdentity'' [])) w))
          else
            (case do_call (Put (Update_Secret (owned_secret x secret (ci_meta (id_Identity w)) ''VSphereClusterIdentity''))) (x_unit x) w of
               (Inl err, w) \<Rightarrow>
                 (Inl err, add_icond (credentials_false ''SecretOwnerReferenceFailed'' SeverityWarning ''SettingSecretOwnerReferenceFailed'' (ErrMsg err)) w)
             | (Inr _, w) \<Rightarrow>
                 (Inr (), set_iready True (add_icond [v1beta1_MarkTrue ''CredentialsAvailable'',
                   cond_Set ''Available'' ConditionTrue ''Available'' NoMsg] w))))"

definition identity_reconcile :: "ext \<Rightarrow> manager \<Rightarrow> ('w, unit) identity_step" where
  \<comment> \<open>\<open>Reconcile\<close> behind the registration of the deferred function\<close>
  "identity_reconcile x mgr w =
     (if m_DeletionTimestamp (ci_meta (id_Identity w)) \<noteq> None then identity_reconcileDelete x mgr w
      else identity_reconcileNormal x mgr w)"

definition identity_prepare :: "ext \<Rightarrow> string \<Rightarrow> ('w, VSphereClusterIdentity option) k8s_step" where
  "identity_prepare x name w =
     (case do_call (Get (Get_VSphereClusterIdentity name)) (x_identity x) w of
        (Inl err, w) \<Rightarrow> if apierrors_IsNotFound err then (Inr None, w) else (Inl err, w)
      | (Inr i, w) \<Rightarrow> bindR (own_object x (ci_meta i) VSphereClusterIdentityFinalizer w) (\<lambda>_ w. (Inr (Some i), w)))"

definition identity_deferred :: "ext \<Rightarrow> (go_error + unit) \<times> 'w identity_ctx_scheme \<Rightarrow> (go_error + time) \<times> 'w identity_ctx_scheme" where
  "identity_deferred x rw =
     (case rw of (r, w) \<Rightarrow>
      let w = add_icond [v1beta1_SetSummary [''CredentialsAvailable'']] w; r = map_sum id (\<lambda>_. 0) r in
      case do_call (Put (Patch_VSphereClusterIdentity (id_Identity w))) (x_unit x) w of
        (Inl err, w) \<Rightarrow> (aggregate r (Some err), w)
      | (Inr _, w) \<Rightarrow> (r, w))"

definition identity_Reconcile :: "ext \<Rightarrow> manager \<Rightarrow> string \<Rightarrow> world \<Rightarrow> (go_error + time) \<times> call list" where
  "identity_Reconcile x mgr name w =
     (case identity_prepare x name w of
        (Inl err, w) \<Rightarrow> (Inl err, hist w)
      | (Inr None, w) \<Rightarrow> (Inr 0, hist w)
      | (Inr (Some i), w) \<Rightarrow>
          (case identity_deferred x (identity_reconcile x mgr \<lparr>hist = hist w, id_Identity = i\<rparr>) of (r, w) \<Rightarrow> (r, hist w)))"

end
