(* ===== verification/Cluster_Controller.thy ===== *)
theory Cluster_Controller
  imports Cluster_Modules Machine_Service Identity_Controller
begin

text \<open>
  \<open>controllers/vspherecluster_reconciler.go\<close> (the govmomi mode): the controller of VSphereClusters. It collects
  the failure domains of the cluster from the VSphereDeploymentZones, claims the secret with the credentials,
  checks that vCenter can be reached and keeps the cluster modules; a deleted cluster waits for its machines.
  The state is the context of \<open>Cluster_Modules\<close>.
\<close>

section \<open>Failure domains\<close>

definition zone_failure_domain :: "VSphereDeploymentZone \<Rightarrow> FailureDomainStatus" where
  "zone_failure_domain zone = \<lparr>fds_Name = m_Name (dz_meta zone), fds_ControlPlane = dz_ControlPlane zone\<rparr>"

fun zones_loop ::
  "string \<Rightarrow> VSphereDeploymentZone list \<Rightarrow> nat \<times> nat \<times> FailureDomainStatus list \<Rightarrow> nat \<times> nat \<times> FailureDomainStatus list" where
  \<comment> \<open>\<open>readyNotReported\<close>, \<open>notReady\<close> and \<open>failureDomains\<close>\<close>
  "zones_loop server [] acc = acc"
| "zones_loop server (zone # zones) (readyNotReported, notReady, failureDomains) =
     (if dz_Server zone \<noteq> server then zones_loop server zones (readyNotReported, notReady, failureDomains)
      else case dz_Ready zone of
             None \<Rightarrow> zones_loop server zones (Suc readyNotReported, notReady, failureDomains @ [zone_failure_domain zone])
           | Some True \<Rightarrow> zones_loop server zones (readyNotReported, notReady, failureDomains @ [zone_failure_domain zone])
           | Some False \<Rightarrow> zones_loop server zones (readyNotReported, Suc notReady, failureDomains))"

definition failure_domains_false :: "string \<Rightarrow> string \<Rightarrow> string \<Rightarrow> cond_op list" where
  "failure_domains_false v1reason v1msg msg =
     [v1beta1_MarkFalse ''FailureDomainsAvailable'' v1reason SeverityInfo (Msg v1msg []),
      cond_Set ''FailureDomainsReady'' ConditionFalse ''NotReady'' (Msg msg [])]"

definition reconcileDeploymentZones :: "ext \<Rightarrow> ('w, bool) cluster_step" where
  \<comment> \<open>\<open>slices.SortFunc\<close> orders by name; the names of listed zones are distinct, so the order is determined\<close>
  "reconcileDeploymentZones x w =
     (case cs_FailureDomainSelector (cc_spec w) of
        None \<Rightarrow> (Inr True, w)
      | Some (Inl err) \<Rightarrow> (Inl (Wrapf err ''zone label selector is misconfigured'' []), w)
      | Some (Inr selector) \<Rightarrow>
          bindE (wrapE ''unable to list VSphereDeploymentZones'' []
                  (do_call (Get (List_VSphereDeploymentZones (Some selector))) (x_zones x) w)) (\<lambda>zones w.
          case zones_loop (cs_Server (cc_spec w)) zones (0, 0, []) of
            (readyNotReported, notReady, failureDomains) \<Rightarrow>
              let w = upd_cstatus (\<lambda>s. s\<lparr>cst_FailureDomains := sort_key fds_Name failureDomains\<rparr>) w in
              if readyNotReported > 0 then
                (Inr False, add_ccond (failure_domains_false ''WaitingForFailureDomainStatus'' ''waiting for failure domains to report ready status''
                   ''Waiting for failure domains to report ready status'') w)
              else if length failureDomains > 0 then
                (Inr True, add_ccond
                   (if notReady > 0 then failure_domains_false ''FailureDomainsSkipped'' ''one or more failure domains are not ready''
                                           ''One or more failure domains are not ready''
                    else [v1beta1_MarkTrue ''FailureDomainsAvailable'', cond_Set ''FailureDomainsReady'' ConditionTrue ''Ready'' NoMsg]) w)
              else (Inr True, add_ccond [v1beta1_Delete ''FailureDomainsAvailable''] w)))"

section \<open>vCenter\<close>

definition reconcileIdentitySecret :: "ext \<Rightarrow> ('w, unit) cluster_step" where
  "reconcileIdentitySecret x w =
     (if \<not> IsSecretIdentity (cc_VSphereCluster w) then (Inr (), w)
      else
        bindE (do_call (Get (Get_Secret (m_Namespace (cc_meta w)) (ir_Name (cs_IdentityRef (cc_spec w))))) (x_meta x) w) (\<lambda>secret w.
        if secret_taken x secret (cc_meta w) ''VSphereCluster'' then
          (Inl (Errorf ''another cluster has set the OwnerRef for Secret %s/%s'' [m_Namespace secret, m_Name secret]), w)
        else
          bindE (do_call (Capi (NewPatchHelper secret)) (x_unit x) w) (\<lambda>_ w.
          do_call (Put (Patch_Secret (owned_secret x secret (cc_meta w) ''VSphereCluster''))) (x_unit x) w)))"

definition reconcileVCenterConnectivity :: "ext \<Rightarrow> manager \<Rightarrow> ('w, unit) cluster_step" where
  "reconcileVCenterConnectivity x mgr w =
     (let server = cs_Server (cc_spec w); thumbprint = cs_Thumbprint (cc_spec w) in
      if identity_ref_IsDefined (cs_IdentityRef (cc_spec w)) then
        bindE (wrapE ''failed to get credentials from IdentityRef'' [] (GetCredentials x (cc_VSphereCluster w) (mgr_Namespace mgr) w)) (\<lambda>creds w.
        do_call (Session_GetOrCreate server '''' (cr_Username creds, cr_Password creds) thumbprint) (x_unit x) w)
      else do_call (Session_GetOrCreate server '''' (mgr_Username mgr, mgr_Password mgr) thumbprint) (x_unit x) w)"

definition session_GetVersion :: "ext \<Rightarrow> 'w world_scheme \<Rightarrow> go_error + string" where
  \<comment> \<open>\<open>Session.GetVersion\<close> of \<open>pkg/session/session.go\<close>\<close>
  "session_GetVersion x w =
     (let svcVersion = x_About_Version x (hist w) in
      case x_semver_Major x svcVersion of
        Inl err \<Rightarrow> Inl (Wrapf err ''failed to parse version %q'' [svcVersion])
      | Inr major \<Rightarrow> if major \<ge> 6 then Inr svcVersion else Inl (Errorf ''version %q lower than 6'' [svcVersion]))"

definition reconcileVCenterVersion :: "ext \<Rightarrow> ('w, unit) cluster_step" where
  "reconcileVCenterVersion x w =
     (case session_GetVersion x w of
        Inl err \<Rightarrow> (Inl (Wrapf err ''invalid vCenter version'' []), w)
      | Inr version \<Rightarrow> (Inr (), upd_cstatus (\<lambda>s. s\<lparr>cst_VCenterVersion := version\<rparr>) w))"

type_synonym visit_order = "(string \<times> Wrapper) list \<Rightarrow> (string \<times> Wrapper) list"

definition reconcileClusterModules :: "ext \<Rightarrow> manager \<Rightarrow> visit_order \<Rightarrow> ('w, unit) cluster_step" where
  "reconcileClusterModules x mgr visit w =
     (if mgr_NodeAntiAffinity mgr \<and> \<not> Deref (cs_DisableClusterModule (cc_spec w)) False
      then modules_Reconcile x visit (module_Create x mgr) (module_DoesExist x mgr) (module_Remove x mgr) w
      else (Inr (), w))"

section \<open>Normal operation\<close>

definition vcenter_false :: "go_error \<Rightarrow> cond_op list" where
  "vcenter_false err =
     [v1beta1_MarkFalse ''VCenterAvailable'' ''VCenterUnreachable'' SeverityError (ErrMsg err),
      cond_Set ''VCenterAvailable'' ConditionFalse ''VCenterUnreachable'' (ErrMsg err)]"

definition reconcile_version_and_modules :: "ext \<Rightarrow> manager \<Rightarrow> visit_order \<Rightarrow> ('w, unit) cluster_step" where
  \<comment> \<open>an invalid version does not end the run; with an empty version and no error \<open>err.Error()\<close> panics\<close>
  "reconcile_version_and_modules x mgr visit w =
     (case reconcileVCenterVersion x w of
        (r, w) \<Rightarrow>
          (case (case r of
                   Inl err \<Rightarrow> Inr (add_ccond (modules_false ''MissingVCenterVersion'' SeverityWarning ''InvalidVCenterVersion'' (ErrMsg err)) w)
                 | Inr _ \<Rightarrow> if cst_VCenterVersion (cc_status w) = '''' then Inl (Panic ''nil dereference of err'') else Inr w) of
             Inl panic \<Rightarrow> (Inl panic, w)
           | Inr w \<Rightarrow>
               (case reconcileClusterModules x mgr visit w of
                  (Inl err, w) \<Rightarrow>
                    (Inl err, add_ccond (modules_false ''ClusterModuleSetupFailed'' SeverityWarning ''NotReady'' (ErrMsg err)) w)
                | (Inr _, w) \<Rightarrow> (Inr (), upd_cstatus (\<lambda>s. s\<lparr>cst_Provisioned := Some True\<rparr>) w))))"

definition reconcile_vcenter :: "ext \<Rightarrow> manager \<Rightarrow> ('w, unit) cluster_step" where
  \<comment> \<open>the identity secret and the connection\<close>
  "reconcile_vcenter x mgr w =
     (case reconcileIdentitySecret x w of
        (Inl err, w) \<Rightarrow> (Inl err, add_ccond (vcenter_false err) w)
      | (Inr _, w) \<Rightarrow>
          (case reconcileVCenterConnectivity x mgr w of
             (Inl err, w) \<Rightarrow> (Inl (Wrapf err ''unexpected error while probing vcenter for %s'' []), add_ccond (vcenter_false err) w)
           | (Inr _, w) \<Rightarrow>
               (Inr (), add_ccond [v1beta1_MarkTrue ''VCenterAvailable'', cond_Set ''VCenterAvailable'' ConditionTrue ''Available'' NoMsg] w)))"

definition cluster_reconcileNormal :: "ext \<Rightarrow> manager \<Rightarrow> visit_order \<Rightarrow> ('w, time) cluster_step" where
  "cluster_reconcileNormal x mgr visit w =
     (case reconcileDeploymentZones x w of
        (Inl err, w) \<Rightarrow> (Inl err, add_ccond [cond_Set ''FailureDomainsReady'' ConditionFalse ''NotReady'' (ErrMsg err)] w)
      | (Inr ok, w) \<Rightarrow>
          if \<not> ok then (Inr ten_seconds, w)
          else
            bindE (reconcile_vcenter x mgr w) (\<lambda>_ w.
            bindE (reconcile_version_and_modules x mgr visit w) (\<lambda>_ w. (Inr 0, w))))"

section \<open>Deletion\<close>

definition remove_cluster_finalizer :: "ext \<Rightarrow> 'w cluster_ctx_scheme \<Rightarrow> 'w cluster_ctx_scheme" where
  "remove_cluster_finalizer x w =
     (let c = cc_VSphereCluster w; m = vc_meta c in
      w\<lparr>cc_VSphereCluster := c\<lparr>vc_meta := m\<lparr>m_Finalizers := fst (x_RemoveFinalizer x (m_Finalizers m) ClusterFinalizer)\<rparr>\<rparr>\<rparr>)"

definition cluster_machines :: "ext \<Rightarrow> ('w, VSphereMachine list) cluster_step" where
  \<comment> \<open>none are looked for without an owner Cluster\<close>
  "cluster_machines x w =
     (case cc_Cluster w of
        None \<Rightarrow> (Inr [], w)
      | Some cluster \<Rightarrow>
          wrapE ''unable to list VSphereMachines part of VSphereCluster %s/%s'' [m_Namespace (cc_meta w), m_Name (cc_meta w)]
            (GetMachinesInCluster x (m_Namespace (cl_meta cluster)) (m_Name (cl_meta cluster)) w))"

definition cluster_reconcileDelete :: "ext \<Rightarrow> manager \<Rightarrow> visit_order \<Rightarrow> ('w, time) cluster_step" where
  "cluster_reconcileDelete x mgr visit w =
     bindE (cluster_machines x (add_ccond [cond_Set ''VCenterAvailable'' ConditionFalse ''Deleting'' NoMsg,
              cond_Set ''ClusterModulesReady'' ConditionFalse ''Deleting'' NoMsg,
              cond_Set ''FailureDomainsReady'' ConditionFalse ''Deleting'' NoMsg] w)) (\<lambda>vsphereMachines w.
     if length vsphereMachines > 0 then (Inr ten_seconds, w)
     else
       bindE (reconcileClusterModules x mgr visit w) (\<lambda>_ w.
       bindE (if IsSecretIdentity (cc_VSphereCluster w)
              then delete_secret x (m_Namespace (cc_meta w)) (ir_Name (cs_IdentityRef (cc_spec w))) w
              else (Inr (), w)) (\<lambda>_ w.
       (Inr 0, remove_cluster_finalizer x w))))"

section \<open>One reconciliation\<close>

definition cluster_patch :: "ext \<Rightarrow> ('w, unit) cluster_step" where
  "cluster_patch x w =
     (let w = add_ccond [v1beta1_SetSummary [''VCenterAvailable'']] w in
      case x_SetSummaryCondition x (cst_Conditions (cc_status w)) of
        Some err \<Rightarrow> (Inl (Wrapf err ''failed to set %s condition'' [''Ready'']), w)
      | None \<Rightarrow>
          let w = add_ccond [cond_SetSummary ''Ready'' [''VCenterAvailable'', ''FailureDomainsReady'', ''ClusterModulesReady'']
                               [''FailureDomainsReady'', ''ClusterModulesReady'']] w in
          do_call (Put (Patch_VSphereCluster (cc_VSphereCluster w))) (x_unit x) w)"

definition cluster_deferred :: "ext \<Rightarrow> (go_error + time) \<times> 'w cluster_ctx_scheme \<Rightarrow> (go_error + time) \<times> 'w cluster_ctx_scheme" where
  "cluster_deferred x rw =
     (case rw of (r, w) \<Rightarrow> (case cluster_patch x w of (Inl err, w) \<Rightarrow> (aggregate r (Some err), w) | (Inr _, w) \<Rightarrow> (r, w)))"

definition cluster_reconcile :: "ext \<Rightarrow> manager \<Rightarrow> visit_order \<Rightarrow> ('w, time) cluster_step" where
  \<comment> \<open>\<open>Reconcile\<close> behind the registration of the deferred function\<close>
  "cluster_reconcile x mgr visit w =
     (if m_DeletionTimestamp (cc_meta w) \<noteq> None then cluster_reconcileDelete x mgr visit w
      else if cc_Cluster w = None then (Inr 0, w)
      else cluster_reconcileNormal x mgr visit w)"

definition cluster_prepare :: "ext \<Rightarrow> string \<Rightarrow> string \<Rightarrow> ('w, (VSphereCluster \<times> Cluster option) option) k8s_step" where
  "cluster_prepare x namespace name w =
     (case do_call (Get (Get_VSphereCluster namespace name)) (x_vcluster x) w of
        (Inl err, w) \<Rightarrow> if apierrors_IsNotFound err then (Inr None, w) else (Inl err, w)
      | (Inr c, w) \<Rightarrow>
          bindE (do_call (Capi (GetOwnerCluster (vc_meta c))) (x_cluster_opt x) w) (\<lambda>cluster w.
          bindR (own_object x (vc_meta c) ClusterFinalizer w) (\<lambda>_ w. (Inr (Some (c, cluster)), w))))"

definition cluster_Reconcile :: "ext \<Rightarrow> manager \<Rightarrow> visit_order \<Rightarrow> string \<Rightarrow> string \<Rightarrow> world \<Rightarrow> (go_error + time) \<times> call list" where
  \<comment> \<open>\<open>clusterReconciler.Reconcile\<close>: its result and all calls made\<close>
  "cluster_Reconcile x mgr visit namespace name w =
     (case cluster_prepare x namespace name w of
        (Inl err, w) \<Rightarrow> (Inl err, hist w)
      | (Inr None, w) \<Rightarrow> (Inr 0, hist w)
      | (Inr (Some (c, cluster)), w) \<Rightarrow>
          (case cluster_deferred x (cluster_reconcile x mgr visit \<lparr>hist = hist w, cc_VSphereCluster = c, cc_Cluster = cluster\<rparr>) of
             (r, w) \<Rightarrow> (r, hist w)))"

section \<open>Events\<close>

definition controlPlaneMachineToCluster :: "ext \<Rightarrow> VSphereMachine \<Rightarrow> 'w world_scheme \<Rightarrow> (string \<times> string) list \<times> 'w world_scheme" where
  \<comment> \<open>(namespace, name) of the VSphereCluster to reconcile\<close>
  "controlPlaneMachineToCluster x m w =
     (if \<not> IsControlPlaneMachine (vmach_meta m) \<or> length (mst_Addresses (vmach_Status m)) = 0 \<or>
         GetMachinePreferredIPAddress (mst_Addresses (vmach_Status m)) = None then ([], w)
      else case do_call (Capi (GetClusterFromMetadata (vmach_meta m))) (x_cluster x) w of
             (Inl _, w) \<Rightarrow> ([], w)
           | (Inr cluster, w) \<Rightarrow>
               if x_IsTrue x (cl_Conditions cluster) ''ControlPlaneInitialized'' \<or> \<not> cl_EndpointIsZero cluster \<or>
                  \<not> cl_InfrastructureRefIsDefined cluster then ([], w)
               else
                 let key = (m_Namespace (vmach_meta m), cl_InfrastructureRefName cluster) in
                 case do_call (Get (Get_VSphereCluster (fst key) (snd key))) (x_vcluster x) w of
                   (Inl _, w) \<Rightarrow> ([], w)
                 | (Inr c, w) \<Rightarrow>
                     let endpoint = cs_ControlPlaneEndpoint (vc_Spec c) in
                     (if ae_Host endpoint \<noteq> '''' \<and> ae_Port endpoint \<noteq> 0 then [] else [key], w))"

definition deploymentZoneToCluster :: "ext \<Rightarrow> VSphereDeploymentZone \<Rightarrow> 'w world_scheme \<Rightarrow> (string \<times> string) list \<times> 'w world_scheme" where
  "deploymentZoneToCluster x zone w =
     (case do_call (Get List_VSphereClusters) (x_vclusters x) w of
        (Inl _, w) \<Rightarrow> ([], w)
      | (Inr clusters, w) \<Rightarrow>
          (map (\<lambda>c. (m_Namespace (vc_meta c), m_Name (vc_meta c))) (filter (\<lambda>c. dz_Server zone = cs_Server (vc_Spec c)) clusters), w))"

end
