(* ===== verification/Cluster_Correct.thy ===== *)
theory Cluster_Correct
  imports Cluster_Controller Cluster_Modules_Correct
begin

text \<open>
  Properties of the controllers of VSphereClusters and VSphereClusterIdentities: failure domains, deletion,
  readiness, and who may hold and delete a secret.
\<close>

section \<open>Failure domains\<close>

definition eligible :: "string \<Rightarrow> VSphereDeploymentZone \<Rightarrow> bool" where
  \<comment> \<open>a zone of the cluster's vCenter that is not reported as not ready\<close>
  "eligible server zone \<longleftrightarrow> dz_Server zone = server \<and> dz_Ready zone \<noteq> Some False"

definition unreported :: "string \<Rightarrow> VSphereDeploymentZone \<Rightarrow> bool" where
  "unreported server zone \<longleftrightarrow> dz_Server zone = server \<and> dz_Ready zone = None"

lemma zones_loop_spec:
  "zones_loop server zones (a, b, fds) =
     (a + length (filter (unreported server) zones),
      b + length (filter (\<lambda>z. dz_Server z = server \<and> dz_Ready z = Some False) zones),
      fds @ map zone_failure_domain (filter (eligible server) zones))"
  by (induction zones arbitrary: a b fds) (auto simp: unreported_def eligible_def split: option.split bool.split)

lemma sort_key_mset_eq:
  assumes "mset xs = mset ys" and "distinct (map f xs)"
  shows "sort_key f xs = sort_key f ys"
  using assms by (intro sort_key_inj_key_eq) (simp_all add: distinct_map)

lemma mset_distinct_map: "mset xs = mset ys \<Longrightarrow> distinct (map f xs) \<Longrightarrow> distinct (map f ys)"
  by (metis mset_eq_imp_distinct_iff mset_map)

definition zone_name :: "VSphereDeploymentZone \<Rightarrow> string" where
  "zone_name z = m_Name (dz_meta z)"

lemma distinct_failure_domains:
  assumes "distinct (map zone_name zones)"
  shows "distinct (map fds_Name (map zone_failure_domain (filter p zones)))"
proof -
  have "fds_Name \<circ> zone_failure_domain = zone_name" by (auto simp: zone_failure_domain_def zone_name_def)
  then show ?thesis using assms by (simp add: distinct_map_filter)
qed

lemma reconcileDeploymentZones_eval:
  assumes "cs_FailureDomainSelector (cc_spec w) = Some (Inr sel)"
    and "x_zones x (hist w @ [Get (List_VSphereDeploymentZones (Some sel))]) = Inr zones"
  shows "cst_FailureDomains (cc_status (snd (reconcileDeploymentZones x w))) =
      sort_key fds_Name (map zone_failure_domain (filter (eligible (cs_Server (cc_spec w))) zones))"
    and "fst (reconcileDeploymentZones x w) = Inr (filter (unreported (cs_Server (cc_spec w))) zones = [])"
  using assms by (simp_all add: reconcileDeploymentZones_def do_call_def zones_loop_spec upd_cstatus_def add_ccond_def Let_def)

text \<open>
  C16. The failure domains of a VSphereCluster are exactly the zones of its vCenter that its selector lists and that are not
  reported as not ready, each once and sorted by name, so that they do not depend on the order in which the API server
  lists the zones; the run goes on exactly when every zone of this vCenter has reported. (Zones are cluster-scoped, so
  the API server lists each name once.)
\<close>

theorem failure_domains_exact:
  assumes "cs_FailureDomainSelector (cc_spec w) = Some (Inr sel)"
    and "x_zones x (hist w @ [Get (List_VSphereDeploymentZones (Some sel))]) = Inr zones" "distinct (map zone_name zones)"
    and "x_zones y (hist w @ [Get (List_VSphereDeploymentZones (Some sel))]) = Inr zones'" "mset zones' = mset zones"
    and "reconcileDeploymentZones x w = (r, w')"
  shows "sorted (map fds_Name (cst_FailureDomains (cc_status w'))) \<and> distinct (map fds_Name (cst_FailureDomains (cc_status w'))) \<and>
    set (cst_FailureDomains (cc_status w')) = zone_failure_domain ` {z \<in> set zones. eligible (cs_Server (cc_spec w)) z} \<and>
    (r = Inr True \<longleftrightarrow> (\<forall>z \<in> set zones. dz_Server z = cs_Server (cc_spec w) \<longrightarrow> dz_Ready z \<noteq> None)) \<and>
    cst_FailureDomains (cc_status (snd (reconcileDeploymentZones y w))) = cst_FailureDomains (cc_status w')"
proof -
  let ?ds = "map zone_failure_domain (filter (eligible (cs_Server (cc_spec w))) zones)"
  let ?ds' = "map zone_failure_domain (filter (eligible (cs_Server (cc_spec w))) zones')"
  note eval = reconcileDeploymentZones_eval [OF assms(1,2)] and eval' = reconcileDeploymentZones_eval [OF assms(1,4)]
  have w': "cst_FailureDomains (cc_status w') = sort_key fds_Name ?ds" using eval(1) assms(6) by simp
  have d: "distinct (map fds_Name ?ds)" using assms(3) by (rule distinct_failure_domains)
  have "mset ?ds' = mset ?ds" using assms(5) by simp
  then have "sort_key fds_Name ?ds' = sort_key fds_Name ?ds" using d by (metis sort_key_mset_eq)
  moreover have "distinct (map fds_Name (sort_key fds_Name ?ds))" using mset_distinct_map [OF _ d] by (metis mset_sort)
  moreover have "r = Inr (filter (unreported (cs_Server (cc_spec w))) zones = [])" using eval(2) assms(6) by simp
  ultimately show ?thesis using w' eval'(1) by (auto simp: filter_empty_conv unreported_def)
qed

section \<open>What the steps leave alone\<close>

text \<open>From \<open>w\<close> to \<open>w'\<close> calls were made, and the fields that the rest of the run reads stayed as they were.\<close>

definition cluster_frame :: "'w cluster_ctx_scheme \<Rightarrow> 'w cluster_ctx_scheme \<Rightarrow> bool" where
  "cluster_frame w w' \<longleftrightarrow> prefix (hist w) (hist w') \<and> cc_meta w' = cc_meta w \<and> cs_IdentityRef (cc_spec w') = cs_IdentityRef (cc_spec w) \<and>
     cs_Server (cc_spec w') = cs_Server (cc_spec w) \<and> cs_Thumbprint (cc_spec w') = cs_Thumbprint (cc_spec w) \<and>
     cst_Provisioned (cc_status w') = cst_Provisioned (cc_status w)"

lemma cluster_frame_refl [simp, intro]: "cluster_frame w w"
  by (simp add: cluster_frame_def)

lemma cluster_frame_trans [trans]: "cluster_frame u v \<Longrightarrow> cluster_frame v w \<Longrightarrow> cluster_frame u w"
  by (auto simp: cluster_frame_def intro: prefix_order.trans)

lemma cluster_frame_cond [simp]: "cluster_frame w (add_ccond ops w') \<longleftrightarrow> cluster_frame w w'"
  by (simp add: cluster_frame_def add_ccond_def upd_cstatus_def)

lemma cluster_frame_from_cond [simp]: "cluster_frame (add_ccond ops w) w' \<longleftrightarrow> cluster_frame w w'"
  by (simp add: cluster_frame_def add_ccond_def upd_cstatus_def)

lemma cluster_frame_same: "cc_VSphereCluster w' = cc_VSphereCluster w \<Longrightarrow> prefix (hist w) (hist w') \<Longrightarrow> cluster_frame w w'"
  by (simp add: cluster_frame_def)

lemma cluster_frame_call [simp]: "cluster_frame w (w\<lparr>hist := hist w @ cs\<rparr>)"
  by (rule cluster_frame_same) simp_all

lemma cluster_frame_intro: "same_but_hist w w' \<Longrightarrow> calls_ok P w w' \<Longrightarrow> cluster_frame w w'"
  by (rule cluster_frame_same) (simp_all add: same_but_hist_cluster calls_ok_prefix)

lemma fetchMachineOwnerObjects_frame: "cluster_frame w (snd (fetchMachineOwnerObjects x w))"
  by (rule cluster_frame_intro [where P = "\<lambda>_. True"])
     (auto simp: fetchMachineOwnerObjects_def Let_def intro!: frame_intros calls_intros split: option.splits)

lemma at_most_creates_prefix: "at_most_creates n w w' \<Longrightarrow> prefix (hist w) (hist w')"
  by (auto simp: at_most_creates_def)

lemma modules_condition_cluster_frame: "cluster_frame w (snd (modules_condition st w))"
  by (simp add: modules_condition_def Let_def)

lemma modules_Reconcile_frame:
  "cluster_frame w (snd (modules_Reconcile x visit (module_Create x mgr) (module_DoesExist x mgr) (module_Remove x mgr) w))"
proof (cases "IsClusterCompatible x (cc_VSphereCluster w)")
  case True
  obtain f u where f: "fetchMachineOwnerObjects x w = (f, u)" by force
  have u: "cluster_frame w u" using fetchMachineOwnerObjects_frame [of w x] f by simp
  show ?thesis
  proof (cases f)
    case (Inr objects)
    obtain st v where ver: "verify_modules (module_DoesExist x mgr) (module_Remove x mgr) (cs_ClusterModules (cc_spec u))
        \<lparr>objectMap = objects, modErrs = [], clusterModuleSpecs = []\<rparr> u = (st, v)" by force
    obtain st' v' where cre: "create_modules (module_Create x mgr) (map snd (visit (objectMap st))) st v = (st', v')" by force
    have v: "cluster_frame u v" using vcenter_modules.verify_modules_frame [OF ver] by (auto intro: cluster_frame_same at_most_creates_prefix)
    have "cluster_frame v v'" using vcenter_modules.create_modules_frame [OF cre] by (auto intro: cluster_frame_same at_most_creates_prefix)
    also have "cluster_frame v' (set_ClusterModules (clusterModuleSpecs st') v')" by (simp add: cluster_frame_def set_ClusterModules_def)
    also have "cluster_frame \<dots> (snd (modules_condition st' (set_ClusterModules (clusterModuleSpecs st') v')))"
      by (rule modules_condition_cluster_frame)
    finally show ?thesis using True f Inr ver cre cluster_frame_trans [OF u cluster_frame_trans [OF v]]
      by (simp add: modules_Reconcile_def)
  qed (use True f u in \<open>simp add: modules_Reconcile_def\<close>)
qed (simp add: modules_Reconcile_def)

lemma reconcileClusterModules_frame: "cluster_frame w (snd (reconcileClusterModules x mgr visit w))"
  by (simp add: reconcileClusterModules_def modules_Reconcile_frame)

section \<open>The secret of a deleted object\<close>

definition secret_released :: "ext \<Rightarrow> string \<Rightarrow> string \<Rightarrow> call list \<Rightarrow> call list \<Rightarrow> bool" where
  \<comment> \<open>between the two histories the secret was found missing, found in deletion, or deleted\<close>
  "secret_released x namespace name h h' \<longleftrightarrow>
     (let get = h @ [Get (Get_Secret namespace name)] in
      (\<exists>err. x_meta x get = Inl err \<and> apierrors_IsNotFound err \<and> h' = get) \<or>
      (\<exists>secret. x_meta x get = Inr secret \<and>
        (m_DeletionTimestamp secret \<noteq> None \<and> prefix get h' \<or>
         prefix get h' \<and> last h' = Put (Delete_Secret (m_Namespace secret) (m_Name secret)) \<and> x_unit x h' = Inr ())))"

lemma delete_secret_released:
  assumes "delete_secret x namespace name w = (Inr u, w')"
  shows "secret_released x namespace name (hist w) (hist w')" and "same_but_hist w w'"
  using assms
  by (auto simp: delete_secret_def secret_released_def Let_def do_call_def bindE_eq_Inr wrapE_eq_Inr
      split: sum.splits prod.splits if_splits)

lemma delete_secret_frame: "cluster_frame w (snd (delete_secret x namespace name w))"
  by (rule cluster_frame_intro [where P = "\<lambda>_. True"])
     (auto simp: delete_secret_def do_call_def calls_ok_def same_but_hist_def bindE_def wrapE_def split: sum.splits prod.splits)

section \<open>Deletion of a VSphereCluster\<close>

lemma reconcileDeploymentZones_frame: "cluster_frame w (snd (reconcileDeploymentZones x w))"
  by (auto simp: reconcileDeploymentZones_def do_call_def bindE_def wrapE_def cluster_frame_def add_ccond_def upd_cstatus_def Let_def
      split: option.splits sum.splits prod.splits)

lemma reconcileIdentitySecret_frame: "cluster_frame w (snd (reconcileIdentitySecret x w))"
  by (rule cluster_frame_intro [where P = "\<lambda>_. True"])
     (auto simp: reconcileIdentitySecret_def Let_def intro!: frame_intros calls_intros)

lemma reconcileVCenterConnectivity_frame: "cluster_frame w (snd (reconcileVCenterConnectivity x mgr w))"
  by (rule cluster_frame_intro [where P = "\<lambda>_. True"])
     (auto simp: reconcileVCenterConnectivity_def Let_def intro!: frame_intros calls_intros)

lemma reconcile_vcenter_frame: "cluster_frame w (snd (reconcile_vcenter x mgr w))"
proof -
  obtain r u where s: "reconcileIdentitySecret x w = (r, u)" by force
  then have u: "cluster_frame w u" using reconcileIdentitySecret_frame [of w x] by simp
  then have "cluster_frame w (snd (reconcileVCenterConnectivity x mgr u))"
    using reconcileVCenterConnectivity_frame by (rule cluster_frame_trans)
  then show ?thesis using s u by (auto simp: reconcile_vcenter_def split: sum.splits prod.splits)
qed

lemma reconcileVCenterVersion_frame: "cluster_frame w (snd (reconcileVCenterVersion x w))"
  by (simp add: reconcileVCenterVersion_def cluster_frame_def upd_cstatus_def split: sum.split)

lemma reconcile_version_and_modules_cases:
  assumes "reconcile_version_and_modules x mgr visit w = (r, w')"
  obtains (panic) msg where "r = Inl (Panic msg)" "cluster_frame w w'"
  | (failed) err where "r = Inl err" "cluster_frame w w'"
  | (provisioned) v where "r = Inr ()" "cluster_frame w v" "w' = upd_cstatus (\<lambda>s. s\<lparr>cst_Provisioned := Some True\<rparr>) v"
proof -
  obtain r1 u where v: "reconcileVCenterVersion x w = (r1, u)" by force
  then have u: "cluster_frame w u" using reconcileVCenterVersion_frame [of w x] by simp
  have mods: "cluster_frame u' (snd (reconcileClusterModules x mgr visit u'))" for u'
    by (rule reconcileClusterModules_frame)
  consider (p) msg where "(r, w') = (Inl (Panic msg), u)"
    | (m) u' where "cluster_frame w u'" "(r, w') = (case reconcileClusterModules x mgr visit u' of
        (Inl err, w) \<Rightarrow> (Inl err, add_ccond (modules_false ''ClusterModuleSetupFailed'' SeverityWarning ''NotReady'' (ErrMsg err)) w)
      | (Inr _, w) \<Rightarrow> (Inr (), upd_cstatus (\<lambda>s. s\<lparr>cst_Provisioned := Some True\<rparr>) w))"
  proof (cases r1)
    case (Inl err)
    show ?thesis
      by (rule that(2) [of "add_ccond (modules_false ''MissingVCenterVersion'' SeverityWarning ''InvalidVCenterVersion'' (ErrMsg err)) u"])
         (use assms v u Inl in \<open>simp_all add: reconcile_version_and_modules_def\<close>)
  next
    case (Inr _)
    show ?thesis
    proof (cases "cst_VCenterVersion (cc_status u) = []")
      case True
      show ?thesis by (rule that(1) [of "''nil dereference of err''"]) (use True assms v Inr in \<open>simp add: reconcile_version_and_modules_def\<close>)
    next
      case False
      then show ?thesis using that(2) [OF u] assms v Inr by (simp add: reconcile_version_and_modules_def)
    qed
  qed
  then show ?thesis
  proof cases
    case m
    obtain rm v where rm: "reconcileClusterModules x mgr visit u' = (rm, v)" by force
    then have "cluster_frame w v" using cluster_frame_trans [OF m(1) mods [of u']] by simp
    then show ?thesis using m(2) rm failed provisioned by (cases rm) auto
  qed (use panic u in auto)
qed

lemma cluster_reconcileNormal_meta: "cc_meta (snd (cluster_reconcileNormal x mgr visit w)) = cc_meta w"
proof -
  obtain rz z where z: "reconcileDeploymentZones x w = (rz, z)" by force
  obtain rv v where v: "reconcile_vcenter x mgr z = (rv, v)" by force
  obtain rm m where m: "reconcile_version_and_modules x mgr visit v = (rm, m)" by force
  have "cc_meta z = cc_meta w" using reconcileDeploymentZones_frame [of w x] z by (simp add: cluster_frame_def)
  moreover have "cc_meta v = cc_meta z" using reconcile_vcenter_frame [of z x mgr] v by (simp add: cluster_frame_def)
  moreover have "cc_meta m = cc_meta v"
    using m by (cases rule: reconcile_version_and_modules_cases) (simp_all add: cluster_frame_def upd_cstatus_def)
  ultimately show ?thesis using z v m
    by (cases rz; cases rv; cases rm) (auto simp: cluster_reconcileNormal_def add_ccond_def upd_cstatus_def)
qed

lemma cluster_machines_empty:
  assumes "cluster_machines x w = (Inr ms, w')"
  shows "cc_VSphereCluster w' = cc_VSphereCluster w"
    and "hist w' = hist w @ (case cc_Cluster w of None \<Rightarrow> []
           | Some c \<Rightarrow> [Get (List_VSphereMachines (m_Namespace (cl_meta c)) [ClusterNameLabel \<mapsto> m_Name (cl_meta c)])])"
    and "cc_Cluster w \<noteq> None \<Longrightarrow> x_machines x (hist w') = Inr ms"
  using assms by (auto simp: cluster_machines_def GetMachinesInCluster_def do_call_def wrapE_eq_Inr split: option.splits)

text \<open>
  C6. The finalizer of a VSphereCluster is removed only in deletion. When the run knows the owner Cluster, it goes only after the API
  server listed no VSphereMachine of that Cluster any more; without an owner Cluster the code lists nothing and the statement says nothing
  about machines. When the VSphereCluster names a secret, with or without an owner, the finalizer goes only after this secret was found missing, found in
  deletion, or the API server accepted the request to delete it (the secret itself may still exist). The run then ends without an error and
  is not repeated.
\<close>

theorem cluster_finalizer_released_last:
  assumes "cluster_reconcile x mgr visit w = (r, w')" and "m_Finalizers (cc_meta w') \<noteq> m_Finalizers (cc_meta w)"
  shows "m_DeletionTimestamp (cc_meta w) \<noteq> None \<and> r = Inr 0 \<and>
    (\<forall>c. cc_Cluster w = Some c \<longrightarrow>
      (let list = hist w @ [Get (List_VSphereMachines (m_Namespace (cl_meta c)) [ClusterNameLabel \<mapsto> m_Name (cl_meta c)])] in
       x_machines x list = Inr [] \<and> prefix list (hist w'))) \<and>
    (IsSecretIdentity (cc_VSphereCluster w) \<longrightarrow>
      (\<exists>h. prefix (hist w) h \<and> secret_released x (m_Namespace (cc_meta w)) (ir_Name (cs_IdentityRef (cc_spec w))) h (hist w')))"
proof -
  have del: "m_DeletionTimestamp (cc_meta w) \<noteq> None"
    using assms cluster_reconcileNormal_meta [of x mgr visit w] by (auto simp: cluster_reconcile_def split: if_splits)
  let ?w = "add_ccond [cond_Set ''VCenterAvailable'' ConditionFalse ''Deleting'' NoMsg,
              cond_Set ''ClusterModulesReady'' ConditionFalse ''Deleting'' NoMsg,
              cond_Set ''FailureDomainsReady'' ConditionFalse ''Deleting'' NoMsg] w"
  have fw: "cc_meta ?w = cc_meta w" "cc_spec ?w = cc_spec w" "hist ?w = hist w" "cc_Cluster ?w = cc_Cluster w"
    by (simp_all add: add_ccond_def upd_cstatus_def)
  obtain rm v where m: "cluster_machines x ?w = (rm, v)" by force
  obtain rc u where c: "reconcileClusterModules x mgr visit v = (rc, u)" by force
  obtain rs s where s: "(if IsSecretIdentity (cc_VSphereCluster u)
      then delete_secret x (m_Namespace (cc_meta u)) (ir_Name (cs_IdentityRef (cc_spec u))) u else (Inr (), u)) = (rs, s)" by force
  have vf: "cc_meta v = cc_meta w" using m
    by (auto simp: cluster_machines_def GetMachinesInCluster_def do_call_def wrapE_def fw split: option.splits sum.splits prod.splits)
  have uf: "cluster_frame v u" using reconcileClusterModules_frame [of v x mgr visit] c by simp
  have sf: "cluster_frame u s" using s delete_secret_frame [of u x] by (metis cluster_frame_refl snd_conv)
  have keep: "m_Finalizers (cc_meta v) = m_Finalizers (cc_meta w)" "m_Finalizers (cc_meta u) = m_Finalizers (cc_meta w)"
    "m_Finalizers (cc_meta s) = m_Finalizers (cc_meta w)" using vf uf sf by (simp_all add: cluster_frame_def)
  have eq: "(r, w') = bindE (rm, v) (\<lambda>ms w. if length ms > 0 then (Inr ten_seconds, w) else
      bindE (reconcileClusterModules x mgr visit w) (\<lambda>_ w.
      bindE (if IsSecretIdentity (cc_VSphereCluster w) then delete_secret x (m_Namespace (cc_meta w)) (ir_Name (cs_IdentityRef (cc_spec w))) w else (Inr (), w))
        (\<lambda>_ w. (Inr 0, remove_cluster_finalizer x w))))"
    using assms(1) del m by (simp add: cluster_reconcile_def cluster_reconcileDelete_def)
  have rm: "rm = Inr []" using eq keep assms(2) by (cases rm) (auto split: if_splits)
  have rc: "\<exists>a. rc = Inr a" using eq keep assms(2) c by (cases rc) (auto simp: rm)
  then have eq: "(r, w') = bindE (rs, s) (\<lambda>_ w. (Inr 0, remove_cluster_finalizer x w))" using eq c s by (auto simp: rm)
  then have rs: "rs = Inr ()" and r: "r = Inr 0" and w': "w' = remove_cluster_finalizer x s"
    using keep assms(2) by (cases rs; simp)+
  have v: "cc_VSphereCluster v = cc_VSphereCluster ?w" and vm: "cc_Cluster ?w \<noteq> None \<Longrightarrow> x_machines x (hist v) = Inr []"
    using cluster_machines_empty [OF m [unfolded rm]] by simp_all
  note vh = cluster_machines_empty(2) [OF m [unfolded rm]]
  have hs: "hist w' = hist s" by (simp add: w' remove_cluster_finalizer_def Let_def)
  have "prefix (hist w) (hist v)" using vh by (simp add: fw)
  then have pre: "prefix (hist v) (hist w')" "prefix (hist w) (hist u)"
    using uf sf prefix_order.trans [of "hist v" "hist u"] prefix_order.trans [of "hist w" "hist v"]
    by (simp_all add: hs cluster_frame_def)
  have same: "cs_IdentityRef (cc_spec u) = cs_IdentityRef (cc_spec w)" "cc_meta u = cc_meta w"
    using uf v vf by (simp_all add: cluster_frame_def fw)
  have "IsSecretIdentity (cc_VSphereCluster w) \<Longrightarrow>
      secret_released x (m_Namespace (cc_meta w)) (ir_Name (cs_IdentityRef (cc_spec w))) (hist u) (hist w')"
    using s rs same delete_secret_released(1) by (auto simp: IsSecretIdentity_def hs)
  then show ?thesis using del r pre vm vh by (auto simp: Let_def fw)
qed

section \<open>A provisioned VSphereCluster\<close>

lemma provisioned_bindE:
  assumes "cst_Provisioned (cc_status (snd m)) = p"
    and "\<And>y v. m = (Inr y, v) \<Longrightarrow> cst_Provisioned (cc_status v) = p \<Longrightarrow> cst_Provisioned (cc_status (snd (k y v))) = p"
  shows "cst_Provisioned (cc_status (snd (bindE m k))) = p"
  using assms by (cases m; cases "fst m") auto

lemma cluster_frame_provisioned: "cluster_frame w w' \<Longrightarrow> cst_Provisioned (cc_status w') = cst_Provisioned (cc_status w)"
  by (simp add: cluster_frame_def)

lemma cluster_machines_frame: "cluster_frame w (snd (cluster_machines x w))"
  by (auto simp: cluster_machines_def GetMachinesInCluster_def do_call_def wrapE_def cluster_frame_def split: option.splits sum.splits prod.splits)

lemma cluster_reconcileDelete_provisioned:
  "cst_Provisioned (cc_status (snd (cluster_reconcileDelete x mgr visit w))) = cst_Provisioned (cc_status w)"
  unfolding cluster_reconcileDelete_def
  by (auto intro!: provisioned_bindE simp: remove_cluster_finalizer_def Let_def add_ccond_def upd_cstatus_def
      cluster_frame_provisioned [OF cluster_machines_frame] cluster_frame_provisioned [OF reconcileClusterModules_frame]
      cluster_frame_provisioned [OF delete_secret_frame])

lemma reconcileVCenterConnectivity_session:
  assumes "reconcileVCenterConnectivity x mgr w = (Inr u, w')"
  shows "\<exists>h cred. hist w' = hist w @ h @ [Session_GetOrCreate (cs_Server (cc_spec w)) '''' cred (cs_Thumbprint (cc_spec w))] \<and> x_unit x (hist w') = Inr ()"
proof (cases "identity_ref_IsDefined (cs_IdentityRef (cc_spec w))")
  case True
  obtain rc v where c: "GetCredentials x (cc_VSphereCluster w) (mgr_Namespace mgr) w = (rc, v)" by force
  have "calls_ok (\<lambda>_. True) w v" using GetCredentials_calls [of "\<lambda>_. True" w x "cc_VSphereCluster w" "mgr_Namespace mgr"] c by simp
  then obtain h where "hist v = hist w @ h" by (auto simp: calls_ok_def)
  moreover from this obtain creds where "rc = Inr creds" using assms True c by (cases rc) (simp_all add: reconcileVCenterConnectivity_def)
  ultimately show ?thesis using assms True c by (auto simp: reconcileVCenterConnectivity_def do_call_def Let_def)
qed (use assms in \<open>auto simp: reconcileVCenterConnectivity_def do_call_def Let_def\<close>)

lemma reconcile_vcenter_session:
  assumes "reconcile_vcenter x mgr w = (Inr u, w')"
  shows "\<exists>h cred. hist w' = hist w @ h @ [Session_GetOrCreate (cs_Server (cc_spec w)) '''' cred (cs_Thumbprint (cc_spec w))] \<and> x_unit x (hist w') = Inr ()"
proof -
  obtain a v b where s: "reconcileIdentitySecret x w = (Inr a, v)" and c: "reconcileVCenterConnectivity x mgr v = (Inr b, w') \<or>
      (\<exists>v'. reconcileVCenterConnectivity x mgr v = (Inr b, v') \<and> hist w' = hist v')"
    using assms by (auto simp: reconcile_vcenter_def add_ccond_def upd_cstatus_def split: prod.splits sum.splits)
  have f: "cluster_frame w v" using reconcileIdentitySecret_frame [of w x] s by simp
  then obtain h0 where "hist v = hist w @ h0" by (auto simp: cluster_frame_def prefix_def)
  then show ?thesis using c f reconcileVCenterConnectivity_session [of x mgr v b] by (auto simp: cluster_frame_def)
qed

text \<open>
  A run turns a VSphereCluster provisioned only when the cluster is not being deleted and has its Cluster, every failure
  domain of its vCenter has reported, and a session with its vCenter, with the thumbprint of its spec, was created in
  this very run; the run then ends without an error.
\<close>

lemma provisioned_cluster_checked:
  assumes "cluster_reconcile x mgr visit w = (r, w')"
    and "cst_Provisioned (cc_status w) \<noteq> Some True" "cst_Provisioned (cc_status w') = Some True"
  shows "m_DeletionTimestamp (cc_meta w) = None \<and> cc_Cluster w \<noteq> None \<and> r = Inr 0 \<and> fst (reconcileDeploymentZones x w) = Inr True \<and>
    (\<exists>h cred. let session = hist w @ h @ [Session_GetOrCreate (cs_Server (cc_spec w)) '''' cred (cs_Thumbprint (cc_spec w))] in
       prefix session (hist w') \<and> x_unit x session = Inr ())"
proof -
  have del: "m_DeletionTimestamp (cc_meta w) = None \<and> cc_Cluster w \<noteq> None"
    using assms cluster_reconcileDelete_provisioned [of x mgr visit w] by (auto simp: cluster_reconcile_def split: if_splits)
  obtain rz z where z: "reconcileDeploymentZones x w = (rz, z)" by force
  obtain rv v where v: "reconcile_vcenter x mgr z = (rv, v)" by force
  obtain rm m where m: "reconcile_version_and_modules x mgr visit v = (rm, m)" by force
  have zf: "cluster_frame w z" using reconcileDeploymentZones_frame [of w x] z by simp
  have vf: "cluster_frame z v" using reconcile_vcenter_frame [of z x mgr] v by simp
  have eq: "(r, w') = (case rz of Inl err \<Rightarrow> (Inl err, add_ccond [cond_Set ''FailureDomainsReady'' ConditionFalse ''NotReady'' (ErrMsg err)] z)
    | Inr ok \<Rightarrow> if \<not> ok then (Inr ten_seconds, z) else bindE (rv, v) (\<lambda>_ w. bindE (reconcile_version_and_modules x mgr visit w) (\<lambda>_ w. (Inr 0, w))))"
    using assms(1) del z v by (auto simp: cluster_reconcile_def cluster_reconcileNormal_def split: sum.splits)
  have not: "cst_Provisioned (cc_status z) \<noteq> Some True" "cst_Provisioned (cc_status v) \<noteq> Some True"
    using assms(2) zf vf by (simp_all add: cluster_frame_def)
  have rz: "rz = Inr True" using eq not assms(3) by (cases rz) (auto simp: add_ccond_def upd_cstatus_def split: if_splits)
  have "\<exists>u. rv = Inr u" using eq not assms(3) by (cases rv) (auto simp: rz)
  then obtain u where rv: "rv = Inr u" by blast
  have eqm: "(r, w') = bindE (rm, m) (\<lambda>_ w. (Inr 0, w))" using eq m by (simp add: rz rv)
  have "r = Inr 0 \<and> cluster_frame v (w'\<lparr>cc_VSphereCluster := cc_VSphereCluster v\<rparr>) \<and> prefix (hist v) (hist w')"
    using m
  proof (cases rule: reconcile_version_and_modules_cases)
    case (provisioned v')
    then show ?thesis using eqm by (auto simp: cluster_frame_def upd_cstatus_def)
  qed (use eqm not(2) assms(3) in \<open>auto simp: cluster_frame_def\<close>)
  moreover obtain h0 where "hist z = hist w @ h0" using zf by (auto simp: cluster_frame_def prefix_def)
  moreover obtain h cred where "hist v = hist z @ h @ [Session_GetOrCreate (cs_Server (cc_spec z)) '''' cred (cs_Thumbprint (cc_spec z))]"
    "x_unit x (hist v) = Inr ()" using reconcile_vcenter_session [OF v [unfolded rv]] by blast
  ultimately have "prefix (hist w @ (h0 @ h) @ [Session_GetOrCreate (cs_Server (cc_spec w)) '''' cred (cs_Thumbprint (cc_spec w))]) (hist w') \<and>
      x_unit x (hist w @ (h0 @ h) @ [Session_GetOrCreate (cs_Server (cc_spec w)) '''' cred (cs_Thumbprint (cc_spec w))]) = Inr () \<and> r = Inr 0"
    using zf by (simp add: cluster_frame_def)
  then show ?thesis using del z rz unfolding Let_def by (metis fst_conv)
qed

section \<open>Who holds a secret\<close>

text \<open>
  What Cluster API documents of \<open>EnsureOwnerRef\<close> and \<open>IsOwnedByObject\<close>: the first adds at most the reference given, the
  second is true only if there is a reference with the group, the kind and the name of the object.
\<close>

definition owner_laws :: "ext \<Rightarrow> bool" where
  "owner_laws x \<longleftrightarrow> (\<forall>rs r. set (x_EnsureOwnerRef x rs r) \<subseteq> insert r (set rs)) \<and>
     (\<forall>rs m k. x_IsOwnedByObject x rs m k \<longrightarrow>
        (\<exists>r \<in> set rs. sublist (GroupName @ ''/'') (or_APIVersion r) \<and> or_Kind r = k \<and> or_Name r = m_Name m))"

definition is_claimant :: "OwnerReference \<Rightarrow> bool" where
  "is_claimant r \<longleftrightarrow> sublist (GroupName @ ''/'') (or_APIVersion r) \<and> (or_Kind r = ''VSphereCluster'' \<or> or_Kind r = ''VSphereClusterIdentity'')"

definition claimants :: "ObjectMeta \<Rightarrow> (string \<times> string) set" where
  \<comment> \<open>kind and name of the identities and clusters that own a secret\<close>
  "claimants secret = (\<lambda>r. (or_Kind r, or_Name r)) ` {r \<in> set (m_OwnerReferences secret). is_claimant r}"

definition at_most_one :: "'a set \<Rightarrow> bool" where
  "at_most_one A \<longleftrightarrow> (\<forall>a \<in> A. \<forall>b \<in> A. a = b)"

lemma unowned_no_claimants: "\<not> IsOwnedByIdentityOrCluster (m_OwnerReferences secret) \<Longrightarrow> claimants secret = {}"
  by (simp add: IsOwnedByIdentityOrCluster_def claimants_def list_ex_iff is_claimant_def)

lemma owned_secret_claimants:
  assumes "owner_laws x"
  shows "claimants (owned_secret x secret obj kind) \<subseteq> insert (kind, m_Name obj) (claimants secret)"
proof
  fix c
  assume "c \<in> claimants (owned_secret x secret obj kind)"
  then obtain r where r: "is_claimant r" "c = (or_Kind r, or_Name r)" "r \<in> set (m_OwnerReferences (owned_secret x secret obj kind))"
    by (auto simp: claimants_def)
  have "set (x_EnsureOwnerRef x rs q) \<subseteq> insert q (set rs)" for rs q using assms by (simp add: owner_laws_def)
  then have "r \<in> set (m_OwnerReferences secret) \<or> or_Kind r = kind \<and> or_Name r = m_Name obj"
    using subsetD [OF _ r(3) [unfolded owned_secret_def, simplified]] by fastforce
  then show "c \<in> insert (kind, m_Name obj) (claimants secret)" using r by (auto simp: claimants_def)
qed

lemma owned_is_claimant:
  assumes "owner_laws x" and "x_IsOwnedByObject x (m_OwnerReferences secret) obj kind"
    and "kind = ''VSphereCluster'' \<or> kind = ''VSphereClusterIdentity''"
  shows "(kind, m_Name obj) \<in> claimants secret"
proof -
  obtain r where "r \<in> set (m_OwnerReferences secret)" "sublist (GroupName @ ''/'') (or_APIVersion r)" "or_Kind r = kind" "or_Name r = m_Name obj"
    using assms(1,2) unfolding owner_laws_def by blast
  then show ?thesis using assms(3) by (auto simp: claimants_def is_claimant_def intro!: rev_image_eqI [of r])
qed

lemma claim_keeps_one_claimant:
  assumes "owner_laws x" and "at_most_one (claimants secret)" and "\<not> secret_taken x secret obj kind"
    and "kind = ''VSphereCluster'' \<or> kind = ''VSphereClusterIdentity''"
  shows "at_most_one (claimants (owned_secret x secret obj kind))"
proof (cases "x_IsOwnedByObject x (m_OwnerReferences secret) obj kind")
  case True
  then have "(kind, m_Name obj) \<in> claimants secret" by (rule owned_is_claimant [OF assms(1) _ assms(4)])
  then have "claimants (owned_secret x secret obj kind) \<subseteq> claimants secret"
    using owned_secret_claimants [OF assms(1), of secret obj kind] by blast
  then show ?thesis using assms(2) unfolding at_most_one_def by blast
next
  case False
  then have "claimants secret = {}" using assms(3) unowned_no_claimants by (simp add: secret_taken_def)
  then show ?thesis using owned_secret_claimants [OF assms(1), of secret obj kind] by (auto simp: at_most_one_def)
qed

text \<open>
  The life of one secret: identities and clusters reconcile one after the other, each reading the secret as the API
  server has it, and what they write is stored.
\<close>

inductive secret_life :: "ObjectMeta \<Rightarrow> ObjectMeta \<Rightarrow> bool" where
  start: "secret_life s s"
| identity: "secret_life s0 s \<Longrightarrow> owner_laws x \<Longrightarrow> identity_reconcile x mgr (w :: identity_ctx) = (r, w') \<Longrightarrow> m_DeletionTimestamp (ci_meta (id_Identity w)) = None \<Longrightarrow>
    x_meta x (hist w @ [Get (Get_Secret (mgr_Namespace mgr) (ci_SecretName (id_Identity w)))]) = Inr s \<Longrightarrow>
    Put (Update_Secret s') \<in> set (new_calls w w') \<Longrightarrow> secret_life s0 s'"
| cluster: "secret_life s0 s \<Longrightarrow> owner_laws x \<Longrightarrow> reconcileIdentitySecret x (v :: cluster_ctx) = (r', v') \<Longrightarrow>
    x_meta x (hist v @ [Get (Get_Secret (m_Namespace (cc_meta v)) (ir_Name (cs_IdentityRef (cc_spec v))))]) = Inr s \<Longrightarrow>
    Put (Patch_Secret s') \<in> set (new_calls v v') \<Longrightarrow> secret_life s0 s'"

lemma identity_writes_own_secret:
  assumes "identity_reconcile x mgr w = (r, w')" and "m_DeletionTimestamp (ci_meta (id_Identity w)) = None"
    and "x_meta x (hist w @ [Get (Get_Secret (mgr_Namespace mgr) (ci_SecretName (id_Identity w)))]) = Inr s"
    and "Put (Update_Secret s') \<in> set (new_calls w w')"
  shows "\<not> secret_taken x s (ci_meta (id_Identity w)) ''VSphereClusterIdentity'' \<and>
    s' = owned_secret x s (ci_meta (id_Identity w)) ''VSphereClusterIdentity''"
  using assms
  by (auto simp: identity_reconcile_def identity_reconcileNormal_def do_call_def new_calls_def add_icond_def set_iready_def
      split: if_splits sum.splits)

lemma cluster_writes_own_secret:
  assumes "reconcileIdentitySecret x w = (r, w')"
    and "x_meta x (hist w @ [Get (Get_Secret (m_Namespace (cc_meta w)) (ir_Name (cs_IdentityRef (cc_spec w))))]) = Inr s"
    and "Put (Patch_Secret s') \<in> set (new_calls w w')"
  shows "\<not> secret_taken x s (cc_meta w) ''VSphereCluster'' \<and> s' = owned_secret x s (cc_meta w) ''VSphereCluster''"
  using assms
  by (auto simp: reconcileIdentitySecret_def do_call_def new_calls_def bindE_def split: if_splits sum.splits)

text \<open>
  C8. A secret is held by at most one VSphereClusterIdentity or VSphereCluster: whichever of them reconcile, in whatever
  order, a secret that starts with at most one such owner never gets a second one.
\<close>

theorem secret_has_one_claimant:
  assumes "secret_life s0 s" and "at_most_one (claimants s0)"
  shows "at_most_one (claimants s)"
  using assms
proof (induction rule: secret_life.induct)
  case (identity s0 s x mgr w r w' s')
  have "\<not> secret_taken x s (ci_meta (id_Identity w)) ''VSphereClusterIdentity'' \<and>
      s' = owned_secret x s (ci_meta (id_Identity w)) ''VSphereClusterIdentity''"
    using identity.hyps(3-6) by (rule identity_writes_own_secret)
  then show ?case using claim_keeps_one_claimant [OF identity.hyps(2) identity.IH [OF identity.prems]] by simp
next
  case (cluster s0 s x v r' v' s')
  have "\<not> secret_taken x s (cc_meta v) ''VSphereCluster'' \<and> s' = owned_secret x s (cc_meta v) ''VSphereCluster''"
    using cluster.hyps(3-5) by (rule cluster_writes_own_secret)
  then show ?case using claim_keeps_one_claimant [OF cluster.hyps(2) cluster.IH [OF cluster.prems]] by simp
qed

text \<open>
  C35 (a defect). Deleting a VSphereClusterIdentity deletes the secret it names without asking who owns it: an identity that
  was refused because the secret belongs to another identity or cluster takes the finalizer off that secret and deletes
  it, and the credentials of the owner are gone.
\<close>

theorem foreign_secret_deleted:
  assumes "m_DeletionTimestamp (ci_meta (id_Identity w)) \<noteq> None"
    and "x_meta x (hist w @ [Get (Get_Secret (mgr_Namespace mgr) (ci_SecretName (id_Identity w)))]) = Inr secret"
    and "secret_taken x secret (ci_meta (id_Identity w)) ''VSphereClusterIdentity''" "m_DeletionTimestamp secret = None"
    and "x_RemoveFinalizer x (m_Finalizers secret) SecretIdentitySetFinalizer = (fs, True)" "\<And>h. x_unit x h = Inr ()"
  shows "\<exists>w'. identity_reconcile x mgr w = (Inr (), w') \<and>
    new_calls w w' = [Get (Get_Secret (mgr_Namespace mgr) (ci_SecretName (id_Identity w))), Put (Update_Secret (secret\<lparr>m_Finalizers := fs\<rparr>)),
      Put (Delete_Secret (m_Namespace secret) (m_Name secret))]"
  using assms
  by (simp add: identity_reconcile_def identity_reconcileDelete_def delete_secret_def do_call_def add_icond_def new_calls_def
      remove_identity_finalizer_def Let_def)

section \<open>Concrete instances\<close>

definition sample_zone :: "string \<Rightarrow> bool option \<Rightarrow> VSphereDeploymentZone" where
  "sample_zone name ready = \<lparr>dz_meta = empty_meta\<lparr>m_Name := name\<rparr>, dz_Server = ''vc'', dz_FailureDomain = name, dz_ControlPlane = None,
     dz_PlacementConstraint = \<lparr>plc_ResourcePool = '''', plc_Folder = ''''\<rparr>, dz_Ready = ready, dz_Conditions = []\<rparr>"

definition sample_vcluster :: VSphereCluster where
  "sample_vcluster = \<lparr>vc_meta = empty_meta\<lparr>m_Finalizers := [ClusterFinalizer]\<rparr>,
     vc_Spec = \<lparr>cs_Server = ''vc'', cs_Thumbprint = '''', cs_ControlPlaneEndpoint = \<lparr>ae_Host = '''', ae_Port = 0\<rparr>,
       cs_IdentityRef = \<lparr>ir_Kind = '''', ir_Name = ''''\<rparr>, cs_ClusterModules = [], cs_DisableClusterModule = Some True,
       cs_FailureDomainSelector = Some (Inr (\<lambda>_. True))\<rparr>,
     vc_Status = \<lparr>cst_Conditions = [], cst_Provisioned = None, cst_FailureDomains = [], cst_VCenterVersion = ''''\<rparr>\<rparr>"

definition sample_capi :: Cluster where
  "sample_capi = \<lparr>cl_meta = empty_meta, cl_InfrastructureRefIsDefined = True, cl_InfrastructureRefName = ''c'', cl_InfrastructureRefKind = ''VSphereCluster'',
     cl_EndpointIsZero = True, cl_InfrastructureProvisioned = None, cl_Conditions = []\<rparr>"

definition sample_cluster :: cluster_ctx where
  "sample_cluster = \<lparr>hist = [], cc_VSphereCluster = sample_vcluster, cc_Cluster = Some sample_capi\<rparr>"

definition sample_cluster_deleted :: cluster_ctx where
  "sample_cluster_deleted = sample_cluster\<lparr>cc_VSphereCluster := sample_vcluster\<lparr>vc_meta := empty_meta\<lparr>m_Finalizers := [ClusterFinalizer],
     m_DeletionTimestamp := Some 0\<rparr>\<rparr>\<rparr>"

definition sample_cluster_api :: "VSphereDeploymentZone list \<Rightarrow> ext" where
  \<comment> \<open>an API server and a vCenter on which everything succeeds; the cluster has no machines\<close>
  "sample_cluster_api zones = ext_default\<lparr>x_zones := \<lambda>h. Inr zones, x_unit := \<lambda>h. Inr (), x_machines := \<lambda>h. Inr []\<rparr>"

theorem failure_domains_exact_witness:
  "sorted (map fds_Name (cst_FailureDomains (cc_status (snd (reconcileDeploymentZones
     (sample_cluster_api [sample_zone ''b'' (Some True), sample_zone ''a'' (Some True)]) sample_cluster))))) \<and>
   cst_FailureDomains (cc_status (snd (reconcileDeploymentZones (sample_cluster_api [sample_zone ''a'' (Some True), sample_zone ''b'' (Some True)]) sample_cluster))) =
   cst_FailureDomains (cc_status (snd (reconcileDeploymentZones (sample_cluster_api [sample_zone ''b'' (Some True), sample_zone ''a'' (Some True)]) sample_cluster)))"
  using failure_domains_exact [of sample_cluster "\<lambda>_. True" "sample_cluster_api [sample_zone ''b'' (Some True), sample_zone ''a'' (Some True)]"
      "[sample_zone ''b'' (Some True), sample_zone ''a'' (Some True)]" "sample_cluster_api [sample_zone ''a'' (Some True), sample_zone ''b'' (Some True)]"
      "[sample_zone ''a'' (Some True), sample_zone ''b'' (Some True)]", OF _ _ _ _ _ surjective_pairing]
  by (simp add: sample_cluster_def sample_vcluster_def sample_cluster_api_def zone_name_def sample_zone_def)

lemmas cluster_eval = cluster_reconcile_def cluster_reconcileDelete_def cluster_machines_def GetMachinesInCluster_def reconcileClusterModules_def
  remove_cluster_finalizer_def cluster_reconcileNormal_def reconcile_vcenter_def reconcileIdentitySecret_def reconcileVCenterConnectivity_def
  reconcile_version_and_modules_def reconcileVCenterVersion_def session_GetVersion_def add_ccond_def upd_cstatus_def do_call_def Let_def
  IsSecretIdentity_def identity_ref_IsDefined_def sample_cluster_api_def sample_cluster_def sample_cluster_deleted_def sample_vcluster_def empty_meta_def

lemma sample_cluster_runs:
  "m_Finalizers (cc_meta (snd (cluster_reconcile (sample_cluster_api []) sample_mgr id sample_cluster_deleted))) \<noteq> m_Finalizers (cc_meta sample_cluster_deleted)"
  "cst_Provisioned (cc_status sample_cluster) \<noteq> Some True"
  "cst_Provisioned (cc_status (snd (cluster_reconcile (sample_cluster_api []) sample_mgr id sample_cluster))) = Some True"
  by (simp_all add: cluster_eval reconcileDeploymentZones_def)

theorem cluster_finalizer_released_last_witness:
  "fst (cluster_reconcile (sample_cluster_api []) sample_mgr id sample_cluster_deleted) = Inr 0 \<and>
   m_DeletionTimestamp (cc_meta sample_cluster_deleted) \<noteq> None"
  using cluster_finalizer_released_last [OF surjective_pairing sample_cluster_runs(1)] by simp

definition sample_identity :: "string \<Rightarrow> time option \<Rightarrow> identity_ctx" where
  "sample_identity name deleted = \<lparr>hist = [], id_Identity = \<lparr>ci_meta = empty_meta\<lparr>m_Name := name, m_DeletionTimestamp := deleted\<rparr>, ci_SecretName = ''s'',
     ci_AllowedNamespaces = None, ci_Ready = None, ci_Conditions = []\<rparr>\<rparr>"

definition sample_secret_api :: "ObjectMeta \<Rightarrow> ext" where
  \<comment> \<open>an API server that has the secret\<close>
  "sample_secret_api secret = ext_default\<lparr>x_meta := \<lambda>h. Inr secret, x_unit := \<lambda>h. Inr (),
     x_IsOwnedByObject := \<lambda>rs m k. list_ex (\<lambda>r. or_APIVersion r = GroupVersion_String \<and> or_Kind r = k \<and> or_Name r = m_Name m) rs\<rparr>"

lemma sublist_group_version: "sublist (GroupName @ ''/'') GroupVersion_String"
proof -
  have "GroupVersion_String = [] @ (GroupName @ ''/'') @ ''v1beta2''" by (simp add: GroupVersion_String_def GroupName_def)
  then show ?thesis unfolding sublist_def by blast
qed

lemma sample_owner_laws: "owner_laws (sample_secret_api s)"
proof -
  have "(\<exists>r \<in> set rs. sublist (GroupName @ ''/'') (or_APIVersion r) \<and> or_Kind r = k \<and> or_Name r = m_Name m)"
    if "list_ex (\<lambda>r. or_APIVersion r = GroupVersion_String \<and> or_Kind r = k \<and> or_Name r = m_Name m) rs" for rs m k
    using that by (auto simp: list_ex_iff intro!: bexI sublist_group_version)
  then show ?thesis by (auto simp: owner_laws_def sample_secret_api_def)
qed

definition sample_claimed :: ObjectMeta where
  \<comment> \<open>an empty secret after the identity \<open>a\<close> has claimed it\<close>
  "sample_claimed = owned_secret (sample_secret_api empty_meta) empty_meta (empty_meta\<lparr>m_Name := ''a''\<rparr>) ''VSphereClusterIdentity''"

lemma sample_claim: "secret_life empty_meta sample_claimed"
proof (rule secret_life.identity [OF secret_life.start sample_owner_laws surjective_pairing])
  let ?w = "sample_identity ''a'' None"
  have "\<not> secret_taken (sample_secret_api empty_meta) empty_meta m k" for m k
    by (simp add: secret_taken_def IsOwnedByIdentityOrCluster_def empty_meta_def)
  moreover have "x_meta (sample_secret_api empty_meta) h = Inr empty_meta" "x_unit (sample_secret_api empty_meta) h = Inr ()" for h
    by (simp_all add: sample_secret_api_def)
  moreover have "ci_meta (id_Identity ?w) = empty_meta\<lparr>m_Name := ''a''\<rparr>" "m_DeletionTimestamp (empty_meta\<lparr>m_Name := ''a''\<rparr>) = None" "hist ?w = []"
    by (simp_all add: sample_identity_def empty_meta_def)
  ultimately show "Put (Update_Secret sample_claimed) \<in> set (new_calls ?w
      (snd (identity_reconcile (sample_secret_api empty_meta) sample_mgr ?w)))"
    by (simp add: identity_reconcile_def identity_reconcileNormal_def do_call_def new_calls_def add_icond_def set_iready_def sample_claimed_def)
qed (simp_all add: sample_identity_def sample_secret_api_def empty_meta_def)

theorem secret_has_one_claimant_witness: "at_most_one (claimants sample_claimed)"
  by (rule secret_has_one_claimant [OF sample_claim]) (simp add: at_most_one_def claimants_def empty_meta_def)

theorem foreign_secret_deleted_witness:
  "\<exists>w'. identity_reconcile (sample_secret_api sample_claimed) sample_mgr (sample_identity ''b'' (Some 0)) = (Inr (), w') \<and>
     Put (Delete_Secret '''' '''') \<in> set (new_calls (sample_identity ''b'' (Some 0)) w')"
proof -
  have owners: "m_OwnerReferences sample_claimed = [\<lparr>or_APIVersion = GroupVersion_String, or_Kind = ''VSphereClusterIdentity'', or_Name = ''a'', or_UID = '''',
      or_Controller = None, or_BlockOwnerDeletion = None\<rparr>]"
    by (simp add: sample_claimed_def owned_secret_def sample_secret_api_def empty_meta_def)
  have "secret_taken (sample_secret_api sample_claimed) sample_claimed (ci_meta (id_Identity (sample_identity ''b'' (Some 0)))) ''VSphereClusterIdentity''"
    unfolding secret_taken_def IsOwnedByIdentityOrCluster_def owners using sublist_group_version
    by (simp add: sample_secret_api_def sample_identity_def)
  then show ?thesis
    using foreign_secret_deleted [of "sample_identity ''b'' (Some 0)" "sample_secret_api sample_claimed" sample_mgr sample_claimed "[]"]
    by (auto simp: sample_identity_def sample_secret_api_def sample_claimed_def owned_secret_def empty_meta_def)
qed

end
