(* ===== verification/Zone_Controller.thy ===== *)
theory Zone_Controller
  imports Controller_Base Cluster_Module_Provider Util
begin

text \<open>
  Deployment zones and failure domains: \<open>controllers/vspheredeploymentzone_controller.go\<close>,
  \<open>controllers/vspheredeploymentzone_controller_domain.go\<close>, \<open>pkg/taggable\<close>, \<open>pkg/services/govmomi/find/object.go\<close>
  and \<open>pkg/services/govmomi/cluster/rule.go\<close>. A VSphereDeploymentZone is ready once its vCenter can be reached, its
  resource pool and folder exist, and the region, the zone and the topology of its VSphereFailureDomain are what
  vCenter has.

  The state is \<open>VSphereDeploymentZoneContext\<close> of \<open>pkg/context/vspheredeploymentzone_context.go\<close>. The read of the
  configuration of a compute cluster is one call, of which the code uses the groups or the rules. A panic is not
  wrapped and no handler of errors sees it.
\<close>

section \<open>The context\<close>

record zone_ctx = world +
  zc_Zone :: VSphereDeploymentZone

type_synonym ('w, 'a) zone_step = "'w zone_ctx_scheme \<Rightarrow> (go_error + 'a) \<times> 'w zone_ctx_scheme"

definition add_zcond :: "cond_op list \<Rightarrow> 'w zone_ctx_scheme \<Rightarrow> 'w zone_ctx_scheme" where
  "add_zcond ops w = w\<lparr>zc_Zone := (zc_Zone w)\<lparr>dz_Conditions := dz_Conditions (zc_Zone w) @ ops\<rparr>\<rparr>"

definition set_zready :: "bool \<Rightarrow> 'w zone_ctx_scheme \<Rightarrow> 'w zone_ctx_scheme" where
  "set_zready b w = w\<lparr>zc_Zone := (zc_Zone w)\<lparr>dz_Ready := Some b\<rparr>\<rparr>"

definition onFail :: "(go_error + 'a) \<times> 's \<Rightarrow> (go_error \<Rightarrow> 's \<Rightarrow> go_error \<times> 's) \<Rightarrow> (go_error + 'a) \<times> 's" where
  \<comment> \<open>\<open>if err != nil { ...; return err' }\<close>; a panic passes\<close>
  "onFail m f = (case m of (Inr a, w) \<Rightarrow> (Inr a, w) | (Inl err, w) \<Rightarrow> if is_panic err then (Inl err, w) else map_prod Inl id (f err w))"

definition wrapP :: "string \<Rightarrow> string list \<Rightarrow> (go_error + 'a) \<times> 's \<Rightarrow> (go_error + 'a) \<times> 's" where
  "wrapP msg args m = onFail m (\<lambda>err w. (Wrapf err msg args, w))"

definition zone_false :: "string \<Rightarrow> string \<Rightarrow> cond_msg \<Rightarrow> string \<Rightarrow> string \<Rightarrow> cond_msg \<Rightarrow> cond_op list" where
  "zone_false v1type v1reason v1msg type reason msg =
     [v1beta1_MarkFalse v1type v1reason SeverityError v1msg, cond_Set type ConditionFalse reason msg]"

definition domain_false :: "string \<Rightarrow> string \<Rightarrow> cond_msg \<Rightarrow> cond_op list" where
  "domain_false v1reason reason msg = zone_false ''VSphereFailureDomainValidated'' v1reason msg ''FailureDomainValidated'' reason msg"

section \<open>Objects of vCenter and their tags\<close>

definition find_ObjectFunc :: "ext \<Rightarrow> FailureDomainType \<Rightarrow> Topology \<Rightarrow> ('w, moref list) k8s_step" where
  \<comment> \<open>\<open>ObjectFunc\<close> and the call of its result; for any other type the function is nil\<close>
  "find_ObjectFunc x failureDomainType topology w =
     (if failureDomainType = ComputeClusterFailureDomain then
        bindE (do_call (Find (ClusterComputeResource (t_ComputeCluster topology))) (x_ref x) w) (\<lambda>ref w. (Inr [ref], w))
      else if failureDomainType = DatacenterFailureDomain then
        bindE (do_call (Find (Finder_Datacenter (t_Datacenter topology))) (x_ref x) w) (\<lambda>ref w. (Inr [ref], w))
      else if failureDomainType = HostGroupFailureDomain then
        bindE (do_call (Find (ClusterComputeResource (t_ComputeCluster topology))) (x_ref x) w) (\<lambda>ccr w.
        bindE (do_call (Svc (Ccr_Configuration ccr)) (x_groups x) w) (\<lambda>groups w.
        (Inr (ListHostsFromGroup (h_HostGroupName (t_Hosts topology)) groups), w)))
      else (Inl (Panic ''nil function''), w))"

definition taggable_GetObjects :: "ext \<Rightarrow> VSphereFailureDomain \<Rightarrow> FailureDomainType \<Rightarrow> ('w, moref list) k8s_step" where
  "taggable_GetObjects x failureDomain fdType w =
     bindE (find_ObjectFunc x fdType (vfd_Topology failureDomain) w) (\<lambda>objRefs w.
     if length objRefs = 0 then (Inl (Errorf ''unable to find taggable object'' []), w) else (Inr objRefs, w))"

definition HasTag :: "ext \<Rightarrow> moref \<Rightarrow> string \<Rightarrow> ('w, bool) k8s_step" where
  \<comment> \<open>the answer is the names of the attached tags\<close>
  "HasTag x ref tagName w = bindE (do_call (Svc (GetAttachedTags ref)) (x_strings x) w) (\<lambda>tags w. (Inr (tagName \<in> set tags), w))"

fun tags_loop :: "ext \<Rightarrow> string \<Rightarrow> moref list \<Rightarrow> ('w, unit) k8s_step" where
  "tags_loop x tagName [] w = (Inr (), w)"
| "tags_loop x tagName (obj # objs) w =
     bindE (wrapE ''failed to verify if object %s has tag %s'' [moref_String obj, tagName] (HasTag x obj tagName w)) (\<lambda>hasTag w.
     if \<not> hasTag then (Inl (Errorf ''object %s does not have tag %s'' [moref_String obj, tagName]), w)
     else tags_loop x tagName objs w)"

definition verifyFailureDomain :: "ext \<Rightarrow> VSphereFailureDomain \<Rightarrow> FailureDomain \<Rightarrow> ('w, unit) k8s_step" where
  "verifyFailureDomain x domain fd w =
     bindE (wrapE ''failed to verify tag %s and category %s'' [fd_Name fd, fd_TagCategory fd]
             (do_call (Svc (GetTagForCategory (fd_Name fd) (fd_TagCategory fd))) (x_string x) w)) (\<lambda>_ w.
     bindE (wrapP ''failed to get objects of type %s'' [fd_Type fd] (taggable_GetObjects x domain (fd_Type fd) w)) (\<lambda>objects w.
     tags_loop x (fd_Name fd) objects w))"

section \<open>Affinity rules\<close>

fun find_rule :: "string \<Rightarrow> string \<Rightarrow> cluster_rule list \<Rightarrow> cluster_rule option" where
  "find_rule hostGroupName vmGroupName [] = None"
| "find_rule hostGroupName vmGroupName (ClusterVmHostRuleInfo host vm enabled mandatory # rules) =
     (if host = hostGroupName \<and> vm = vmGroupName then Some (ClusterVmHostRuleInfo host vm enabled mandatory)
      else find_rule hostGroupName vmGroupName rules)"
| "find_rule hostGroupName vmGroupName (OtherRule # rules) = find_rule hostGroupName vmGroupName rules"

definition listRules :: "ext \<Rightarrow> string \<Rightarrow> ('w, cluster_rule list) k8s_step" where
  "listRules x clusterName w =
     bindE (do_call (Find (ClusterComputeResource clusterName)) (x_ref x) w) (\<lambda>ccr w.
     do_call (Svc (Ccr_Configuration ccr)) (x_rules x) w)"

definition VerifyAffinityRule :: "ext \<Rightarrow> string \<Rightarrow> string \<Rightarrow> string \<Rightarrow> ('w, cluster_rule) k8s_step" where
  "VerifyAffinityRule x clusterName hostGroupName vmGroupName w =
     bindE (wrapE ''unable to list rules for compute cluster %s'' [clusterName] (listRules x clusterName w)) (\<lambda>rules w.
     case find_rule hostGroupName vmGroupName rules of
       Some rule \<Rightarrow> (Inr rule, w)
     | None \<Rightarrow> (Inl (Errorf ''no matching affinity rule found/exists'' []), w))"

fun rule_IsMandatory :: "cluster_rule \<Rightarrow> bool" where
  "rule_IsMandatory (ClusterVmHostRuleInfo _ _ _ mandatory) = Deref mandatory False"
| "rule_IsMandatory OtherRule = False"

fun rule_Disabled :: "cluster_rule \<Rightarrow> bool" where
  "rule_Disabled (ClusterVmHostRuleInfo _ _ enabled _) = (case enabled of None \<Rightarrow> True | Some b \<Rightarrow> \<not> b)"
| "rule_Disabled OtherRule = True"

section \<open>The failure domain\<close>

fun networks_loop :: "ext \<Rightarrow> string list \<Rightarrow> ('w, unit) zone_step" where
  "networks_loop x [] w = (Inr (), w)"
| "networks_loop x (network # networks) w =
     bindE (onFail (do_call (Find (Finder_Network network)) (x_ref x) w) (\<lambda>err w.
             (Wrapf err ''unable to find network %s'' [network],
              add_zcond (domain_false ''NetworkNotFound'' ''NetworkNotFound'' (Msg ''network %s is not found'' [network])) w)))
       (\<lambda>_ w. networks_loop x networks w)"

definition reconcileTopology :: "ext \<Rightarrow> VSphereFailureDomain \<Rightarrow> ('w, unit) zone_step" where
  \<comment> \<open>whether the rule is disabled is only logged\<close>
  "reconcileTopology x domain w =
     (let topology = vfd_Topology domain; datastore = t_Datastore topology; hosts = t_Hosts topology in
      bindE (if datastore \<noteq> '''' then
               onFail (bindE (do_call (Find (Finder_Datastore datastore)) (x_ref x) w) (\<lambda>_ w. (Inr (), w))) (\<lambda>err w.
                 (Wrapf err ''unable to find datastore %s'' [datastore],
                  add_zcond (domain_false ''DatastoreNotFound'' ''DatastoreNotFound'' (Msg ''datastore %s is misconfigured'' [datastore])) w))
             else (Inr (), w)) (\<lambda>_ w.
      bindE (networks_loop x (t_Networks topology) w) (\<lambda>_ w.
      bindE (networks_loop x (map nc_NetworkName (t_NetworkConfigurations topology)) w) (\<lambda>_ w.
      if hosts_IsDefined hosts then
        bindE (onFail (VerifyAffinityRule x (t_ComputeCluster topology) (h_HostGroupName hosts) (h_VMGroupName hosts) w) (\<lambda>err w.
                (err, add_zcond (zone_false ''VSphereFailureDomainValidated'' ''HostsMisconfigured'' (Msg ''vm host affinity does not exist'' [])
                        ''FailureDomainValidated'' ''HostsMisconfigured'' (Msg ''vm host affinity rule does not exist'' [])) w)))
          (\<lambda>rule w. (Inr (), w))
      else (Inr (), w)))))"

definition reconcileComputeCluster :: "ext \<Rightarrow> VSphereFailureDomain \<Rightarrow> ('w, unit) zone_step" where
  "reconcileComputeCluster x domain w =
     (let computeCluster = t_ComputeCluster (vfd_Topology domain); resourcePool = plc_ResourcePool (dz_PlacementConstraint (zc_Zone w)) in
      if computeCluster = '''' then (Inr (), w)
      else
        bindE (onFail (do_call (Find (ClusterComputeResource computeCluster)) (x_ref x) w) (\<lambda>err w.
                (Wrapf err ''compute cluster not found'' [],
                 add_zcond (domain_false ''ComputeClusterNotFound'' ''ComputeClusterNotFound'' (Msg ''compute cluster %s not found'' [computeCluster])) w))) (\<lambda>ccr w.
        if resourcePool = '''' then (Inr (), w)
        else
          bindE (wrapE ''unable to find resource pool'' [] (do_call (Find (Finder_ResourcePool resourcePool)) (x_ref x) w)) (\<lambda>rp w.
          bindE (onFail (do_call (Svc (Pool_Owner rp)) (x_ref x) w) (\<lambda>err w.
                  (Wrapf err ''unable to find owner compute resource'' [],
                   add_zcond (domain_false ''ComputeClusterNotFound'' ''ComputeClusterNotFound'' (Msg ''resource pool owner not found'' [])) w))) (\<lambda>ref w.
          if ref \<noteq> ccr then
            (Inl (Errorf ''compute cluster %s does not own resource pool %s'' [computeCluster, resourcePool]),
             add_zcond (domain_false ''ResourcePoolNotFound'' ''ResourcePoolNotFound'' (Msg ''resource pool is not owned by compute cluster'' [])) w)
          else (Inr (), w)))))"

definition updateOwnerReferences :: "ext \<Rightarrow> VSphereFailureDomain \<Rightarrow> OwnerReference list \<Rightarrow> ('w, VSphereFailureDomain) k8s_step" where
  \<comment> \<open>the object with its new owners\<close>
  "updateOwnerReferences x domain owners w =
     bindE (do_call (Capi (NewPatchHelper (vfd_meta domain))) (x_unit x) w) (\<lambda>_ w.
     let domain = domain\<lparr>vfd_meta := (vfd_meta domain)\<lparr>m_OwnerReferences := owners\<rparr>\<rparr> in
     bindE (wrapE ''failed to update OwnerReferences'' [] (do_call (Put (Patch_VSphereFailureDomain domain)) (x_unit x) w)) (\<lambda>_ w. (Inr domain, w)))"

definition zone_owner :: "ObjectMeta \<Rightarrow> string \<Rightarrow> OwnerReference" where
  "zone_owner m uid = \<lparr>or_APIVersion = GroupVersion_String, or_Kind = ''VSphereDeploymentZone'', or_Name = m_Name m, or_UID = uid,
     or_Controller = None, or_BlockOwnerDeletion = None\<rparr>"

definition reconcileFailureDomain :: "ext \<Rightarrow> VSphereFailureDomain \<Rightarrow> ('w, unit) zone_step" where
  "reconcileFailureDomain x domain w =
     bindE (onFail (verifyFailureDomain x domain (vfd_Region domain) w) (\<lambda>err w.
             (Wrapf err ''failed to reconcile failure domain: region is not configured correctly'' [],
              add_zcond (domain_false ''FailureDomainRegionMisconfigured'' ''RegionMisconfigured'' (ErrMsg err)) w))) (\<lambda>_ w.
     bindE (onFail (verifyFailureDomain x domain (vfd_Zone domain) w) (\<lambda>err w.
             (Wrapf err ''failed to reconcile failure domain: zone is not configured correctly'' [],
              add_zcond (domain_false ''FailureDomainZoneMisconfigured'' ''ZoneMisconfigured'' (ErrMsg err)) w))) (\<lambda>_ w.
     bindE (if t_ComputeCluster (vfd_Topology domain) \<noteq> ''''
            then wrapE ''failed to reconcile failure domain: compute cluster %s is not configured correctly'' [t_ComputeCluster (vfd_Topology domain)]
                   (reconcileComputeCluster x domain w)
            else (Inr (), w)) (\<lambda>_ w.
     bindE (wrapE ''failed to reconcile failure domain: topology is not configured correctly'' [] (reconcileTopology x domain w)) (\<lambda>_ w.
     bindE (onFail (updateOwnerReferences x domain
                     (x_EnsureOwnerRef x (m_OwnerReferences (vfd_meta domain)) (zone_owner (dz_meta (zc_Zone w)) (m_UID (dz_meta (zc_Zone w))))) w) (\<lambda>err w.
             (err, add_zcond [cond_Set ''FailureDomainValidated'' ConditionFalse ''ValidationFailed''
                     (Msg ''failed to update owner references of failure domain'' [])] w))) (\<lambda>_ w.
     (Inr (), add_zcond [v1beta1_MarkTrue ''VSphereFailureDomainValidated'', cond_Set ''FailureDomainValidated'' ConditionTrue ''Validated'' NoMsg] w))))))"

section \<open>The zone\<close>

definition reconcilePlacementConstraint :: "ext \<Rightarrow> ('w, unit) zone_step" where
  "reconcilePlacementConstraint x w =
     (let resourcePool = plc_ResourcePool (dz_PlacementConstraint (zc_Zone w)); folder = plc_Folder (dz_PlacementConstraint (zc_Zone w)) in
      bindE (if resourcePool \<noteq> '''' then
               onFail (bindE (do_call (Find (Finder_ResourcePool resourcePool)) (x_ref x) w) (\<lambda>_ w. (Inr (), w))) (\<lambda>err w.
                 (Wrapf err ''failed to reconcile placement contraint: unable to find resource pool %s'' [resourcePool],
                  add_zcond (zone_false ''PlacementConstraintMet'' ''ResourcePoolNotFound'' (Msg ''resource pool %s is misconfigured'' [resourcePool])
                    ''PlacementConstraintReady'' ''ResourcePoolNotFound'' (Msg ''resource pool %s is misconfigured'' [resourcePool])) w))
             else (Inr (), w)) (\<lambda>_ w.
      bindE (if folder \<noteq> '''' then
               onFail (bindE (do_call (Find (Finder_Folder folder)) (x_ref x) w) (\<lambda>_ w. (Inr (), w))) (\<lambda>err w.
                 (Wrapf err ''failed to reconcile placement contraint: unable to find folder %s'' [folder],
                  add_zcond (zone_false ''PlacementConstraintMet'' ''FolderNotFound'' (Msg ''folder %s is misconfigured'' [folder])
                    ''PlacementConstraintReady'' ''FolderNotFound'' (Msg ''folder %s is misconfigured'' [folder])) w))
             else (Inr (), w)) (\<lambda>_ w.
      (Inr (), add_zcond [v1beta1_MarkTrue ''PlacementConstraintMet'', cond_Set ''PlacementConstraintReady'' ConditionTrue ''Ready'' NoMsg] w))))"

fun credentials_loop ::
  "ext \<Rightarrow> manager \<Rightarrow> string \<Rightarrow> VSphereCluster list \<Rightarrow> (string \<times> string) \<times> string \<Rightarrow> 'w world_scheme \<Rightarrow> ((string \<times> string) \<times> string) \<times> 'w world_scheme" where
  \<comment> \<open>user and thumbprint of the session; the thumbprint is replaced before the credentials are read\<close>
  "credentials_loop x mgr server [] params w = (params, w)"
| "credentials_loop x mgr server (c # cs) (user, thumbprint) w =
     (if server \<noteq> cs_Server (vc_Spec c) \<or> \<not> identity_ref_IsDefined (cs_IdentityRef (vc_Spec c)) then credentials_loop x mgr server cs (user, thumbprint) w
      else case GetCredentials x c (mgr_Namespace mgr) w of
             (Inl _, w) \<Rightarrow> credentials_loop x mgr server cs (user, cs_Thumbprint (vc_Spec c)) w
           | (Inr creds, w) \<Rightarrow> (((cr_Username creds, cr_Password creds), cs_Thumbprint (vc_Spec c)), w))"

definition getVCenterSession :: "ext \<Rightarrow> manager \<Rightarrow> string \<Rightarrow> ('w, unit) zone_step" where
  "getVCenterSession x mgr datacenter w =
     bindE (wrapE ''failed to list VSphereClusters'' [] (do_call (Get List_VSphereClusters) (x_vclusters x) w)) (\<lambda>clusters w.
     case credentials_loop x mgr (dz_Server (zc_Zone w)) clusters ((mgr_Username mgr, mgr_Password mgr), '''') w of
       ((user, thumbprint), w) \<Rightarrow> do_call (Session_GetOrCreate (dz_Server (zc_Zone w)) datacenter user thumbprint) (x_unit x) w)"

definition zone_reconcileNormal :: "ext \<Rightarrow> manager \<Rightarrow> ('w, unit) zone_step" where
  "zone_reconcileNormal x mgr w =
     bindE (wrapE ''failed to get VSphereFailureDomain %s'' [dz_FailureDomain (zc_Zone w)]
             (do_call (Get (Get_VSphereFailureDomain (dz_FailureDomain (zc_Zone w)))) (x_domain x) w)) (\<lambda>domain w.
     bindE (onFail (getVCenterSession x mgr (t_Datacenter (vfd_Topology domain)) w) (\<lambda>err w.
             (err, set_zready False (add_zcond (zone_false ''VCenterAvailable'' ''VCenterUnreachable'' (ErrMsg err)
                     ''VCenterAvailable'' ''VCenterUnreachable'' (ErrMsg err)) w)))) (\<lambda>_ w.
     let w = add_zcond [v1beta1_MarkTrue ''VCenterAvailable'', cond_Set ''VCenterAvailable'' ConditionTrue ''Available'' NoMsg] w in
     bindE (onFail (reconcilePlacementConstraint x w) (\<lambda>err w. (err, set_zready False w))) (\<lambda>_ w.
     bindE (onFail (reconcileFailureDomain x domain w) (\<lambda>err w. (err, set_zready False w))) (\<lambda>_ w.
     (Inr (), set_zready True w)))))"

definition remove_zone_finalizer :: "ext \<Rightarrow> 'w zone_ctx_scheme \<Rightarrow> 'w zone_ctx_scheme" where
  "remove_zone_finalizer x w =
     (let z = zc_Zone w; m = dz_meta z in
      w\<lparr>zc_Zone := z\<lparr>dz_meta := m\<lparr>m_Finalizers := fst (x_RemoveFinalizer x (m_Finalizers m) DeploymentZoneFinalizer)\<rparr>\<rparr>\<rparr>)"

definition machines_using :: "ext \<Rightarrow> string \<Rightarrow> Machine list \<Rightarrow> Machine list" where
  \<comment> \<open>\<open>collections.ActiveMachines\<close> are those that are not being deleted\<close>
  "machines_using x zone machines =
     filter (\<lambda>m. m_DeletionTimestamp (mach_meta m) = None \<and> mach_FailureDomain m = zone) (x_FromMachineList x machines)"

definition release_failure_domain :: "ext \<Rightarrow> VSphereFailureDomain \<Rightarrow> ('w, unit) zone_step" where
  \<comment> \<open>give up the ownership of the failure domain, and delete it if there is no other owner\<close>
  "release_failure_domain x domain w =
     bindE (updateOwnerReferences x domain
             (x_RemoveOwnerRef x (m_OwnerReferences (vfd_meta domain)) (zone_owner (dz_meta (zc_Zone w)) '''')) w) (\<lambda>domain w.
     if length (m_OwnerReferences (vfd_meta domain)) = 0 \<and> m_DeletionTimestamp (vfd_meta domain) = None then
       (case do_call (Put (Delete_VSphereFailureDomain (m_Name (vfd_meta domain)))) (x_unit x) w of
          (Inl err, w) \<Rightarrow> if apierrors_IsNotFound err then (Inr (), w)
                         else (Inl (Wrapf err ''failed to delete VSphereFailureDomain %s'' [m_Name (vfd_meta domain)]), w)
        | (Inr _, w) \<Rightarrow> (Inr (), w))
     else (Inr (), w))"

definition zone_reconcileDelete :: "ext \<Rightarrow> ('w, unit) zone_step" where
  "zone_reconcileDelete x w =
     bindE (wrapE ''failed to list Machines'' [] (do_call (Get List_Machines) (x_capimachines x)
             (add_zcond [cond_Set ''VCenterAvailable'' ConditionFalse ''Deleting'' NoMsg,
                cond_Set ''PlacementConstraintReady'' ConditionFalse ''Deleting'' NoMsg,
                cond_Set ''FailureDomainValidated'' ConditionFalse ''Deleting'' NoMsg] w))) (\<lambda>machines w.
     let users = machines_using x (m_Name (dz_meta (zc_Zone w))) machines in
     if length users > 0 then
       (Inl (Errorf ''blocking VSphereDeploymentZone deletion: currently in use by Machines %s''
               [MachinesAsString (map (\<lambda>m. (m_Namespace (mach_meta m), m_Name (mach_meta m))) (x_SortedByCreationTimestamp x users))]), w)
     else
       case do_call (Get (Get_VSphereFailureDomain (dz_FailureDomain (zc_Zone w)))) (x_domain x) w of
         (Inl err, w) \<Rightarrow> if apierrors_IsNotFound err then (Inr (), remove_zone_finalizer x w)
                        else (Inl (Wrapf err ''failed to get VSphereFailureDomain'' []), w)
       | (Inr domain, w) \<Rightarrow> bindE (release_failure_domain x domain w) (\<lambda>_ w. (Inr (), remove_zone_finalizer x w)))"

section \<open>One reconciliation\<close>

definition zone_patch :: "ext \<Rightarrow> ('w, unit) zone_step" where
  "zone_patch x w =
     (let w = add_zcond [v1beta1_SetSummary [''VCenterAvailable'', ''VSphereFailureDomainValidated'', ''PlacementConstraintMet'']] w in
      case x_SetSummaryCondition x (dz_Conditions (zc_Zone w)) of
        Some err \<Rightarrow> (Inl (Wrapf err ''failed to set %s condition'' [''Ready'']), w)
      | None \<Rightarrow>
          let w = add_zcond [cond_SetSummary ''Ready'' [''PlacementConstraintReady'', ''VCenterAvailable'', ''FailureDomainValidated''] []] w in
          do_call (Put (Patch_VSphereDeploymentZone (zc_Zone w))) (x_unit x) w)"

definition zone_reconcile :: "ext \<Rightarrow> manager \<Rightarrow> ('w, unit) zone_step" where
  \<comment> \<open>\<open>Reconcile\<close> behind the registration of the deferred function\<close>
  "zone_reconcile x mgr w =
     (if m_DeletionTimestamp (dz_meta (zc_Zone w)) \<noteq> None then zone_reconcileDelete x w else zone_reconcileNormal x mgr w)"

definition zone_deferred :: "ext \<Rightarrow> (go_error + unit) \<times> 'w zone_ctx_scheme \<Rightarrow> (go_error + time) \<times> 'w zone_ctx_scheme" where
  "zone_deferred x rw =
     (case rw of (r, w) \<Rightarrow>
      let r = map_sum id (\<lambda>_. 0) r in
      case zone_patch x w of (Inl err, w) \<Rightarrow> (aggregate r (Some err), w) | (Inr _, w) \<Rightarrow> (r, w))"

definition zone_prepare :: "ext \<Rightarrow> string \<Rightarrow> ('w, VSphereDeploymentZone option) k8s_step" where
  "zone_prepare x name w =
     (case do_call (Get (Get_VSphereDeploymentZone name)) (x_zone x) w of
        (Inl err, w) \<Rightarrow> if apierrors_IsNotFound err then (Inr None, w) else (Inl err, w)
      | (Inr z, w) \<Rightarrow> bindR (own_object x (dz_meta z) DeploymentZoneFinalizer w) (\<lambda>_ w. (Inr (Some z), w)))"

definition zone_Reconcile :: "ext \<Rightarrow> manager \<Rightarrow> string \<Rightarrow> world \<Rightarrow> (go_error + time) \<times> call list" where
  "zone_Reconcile x mgr name w =
     (case zone_prepare x name w of
        (Inl err, w) \<Rightarrow> (Inl err, hist w)
      | (Inr None, w) \<Rightarrow> (Inr 0, hist w)
      | (Inr (Some z), w) \<Rightarrow>
          (case zone_deferred x (zone_reconcile x mgr \<lparr>hist = hist w, zc_Zone = z\<rparr>) of (r, w) \<Rightarrow> (r, hist w)))"

definition failureDomainsToDeploymentZones :: "ext \<Rightarrow> ObjectMeta \<Rightarrow> 'w world_scheme \<Rightarrow> string list \<times> 'w world_scheme" where
  \<comment> \<open>the names of the VSphereDeploymentZones to reconcile\<close>
  "failureDomainsToDeploymentZones x domain w =
     (case do_call (Get (List_VSphereDeploymentZones None)) (x_zones x) w of
        (Inl _, w) \<Rightarrow> ([], w)
      | (Inr zones, w) \<Rightarrow> (map (\<lambda>z. m_Name (dz_meta z)) (filter (\<lambda>z. dz_FailureDomain z = m_Name domain) zones), w))"

end
