(* ===== verification/Zone_Correct.thy ===== *)
theory Zone_Correct
  imports Zone_Controller
begin

text \<open>
  Properties of deployment zones: what a ready zone rests on, and when its finalizer goes.
\<close>

section \<open>Answers of a run\<close>

text \<open>
  \<open>confirmed f h h' c v\<close>: the run that started with history \<open>h\<close> and ended with \<open>h'\<close> made the call \<open>c\<close>, and the answer
  was \<open>v\<close>.
\<close>

definition confirmed :: "'a answer \<Rightarrow> call list \<Rightarrow> call list \<Rightarrow> call \<Rightarrow> 'a \<Rightarrow> bool" where
  "confirmed f h h' c v \<longleftrightarrow> (\<exists>p. prefix h p \<and> prefix (p @ [c]) h' \<and> f (p @ [c]) = Inr v)"

lemma confirmed_mono: "confirmed f h h' c v \<Longrightarrow> prefix h' h'' \<Longrightarrow> confirmed f h h'' c v"
  unfolding confirmed_def by (meson prefix_order.trans)

lemma confirmed_call: "do_call c f w = (Inr v, w') \<Longrightarrow> prefix h (hist w) \<Longrightarrow> confirmed f h (hist w') c v"
  by (auto simp: confirmed_def do_call_eq)

lemma prefix_call: "do_call c f w = (r, w') \<Longrightarrow> prefix (hist w) (hist w')"
  by (auto simp: do_call_eq)

lemma prefix_call_from: "do_call c f w = (r, w') \<Longrightarrow> prefix h (hist w) \<Longrightarrow> prefix h (hist w')"
  by (auto simp: do_call_eq)

lemma confirmed_then_call: "do_call c f w = (Inr v, s) \<Longrightarrow> do_call d g s = (r, w') \<Longrightarrow> prefix h (hist w) \<Longrightarrow> confirmed f h (hist w') c v"
  by (rule confirmed_mono [OF confirmed_call prefix_call])

lemma onFail_eq_Inr: "onFail m f = (Inr a, w) \<longleftrightarrow> m = (Inr a, w)"
  by (cases m; cases "fst m") (auto simp: onFail_def map_prod_def split: prod.splits)

lemma wrapP_eq_Inr: "wrapP msg args m = (Inr a, w) \<longleftrightarrow> m = (Inr a, w)"
  by (simp add: wrapP_def onFail_eq_Inr)

lemmas succeed = bindE_eq_Inr wrapE_eq_Inr onFail_eq_Inr wrapP_eq_Inr

section \<open>What a ready zone rests on\<close>

definition found :: "ext \<Rightarrow> call list \<Rightarrow> call list \<Rightarrow> finder_call \<Rightarrow> bool" where
  "found x h h' c \<longleftrightarrow> (\<exists>ref. confirmed (x_ref x) h h' (Find c) ref)"

definition domain_objects :: "ext \<Rightarrow> call list \<Rightarrow> call list \<Rightarrow> Topology \<Rightarrow> FailureDomainType \<Rightarrow> moref list \<Rightarrow> bool" where
  \<comment> \<open>the objects of vCenter that a failure domain of this type stands for\<close>
  "domain_objects x h h' topology type objs \<longleftrightarrow>
     (type = ComputeClusterFailureDomain \<and> (\<exists>ref. objs = [ref] \<and> confirmed (x_ref x) h h' (Find (ClusterComputeResource (t_ComputeCluster topology))) ref)) \<or>
     (type = DatacenterFailureDomain \<and> (\<exists>ref. objs = [ref] \<and> confirmed (x_ref x) h h' (Find (Finder_Datacenter (t_Datacenter topology))) ref)) \<or>
     (type = HostGroupFailureDomain \<and> (\<exists>ccr groups. confirmed (x_ref x) h h' (Find (ClusterComputeResource (t_ComputeCluster topology))) ccr \<and>
        confirmed (x_groups x) h h' (Svc (Ccr_Configuration ccr)) groups \<and> objs = ListHostsFromGroup (h_HostGroupName (t_Hosts topology)) groups))"

definition domain_tagged :: "ext \<Rightarrow> call list \<Rightarrow> call list \<Rightarrow> Topology \<Rightarrow> FailureDomain \<Rightarrow> bool" where
  \<comment> \<open>the tag exists in its category, and every object of the domain carries a tag of this name\<close>
  "domain_tagged x h h' topology fd \<longleftrightarrow>
     (\<exists>t. confirmed (x_string x) h h' (Svc (GetTagForCategory (fd_Name fd) (fd_TagCategory fd))) t) \<and>
     (\<exists>objs. objs \<noteq> [] \<and> domain_objects x h h' topology (fd_Type fd) objs \<and>
        (\<forall>obj \<in> set objs. \<exists>tags. confirmed (x_strings x) h h' (Svc (GetAttachedTags obj)) tags \<and> fd_Name fd \<in> set tags))"

definition cluster_owns_pool :: "ext \<Rightarrow> call list \<Rightarrow> call list \<Rightarrow> string \<Rightarrow> string \<Rightarrow> bool" where
  "cluster_owns_pool x h h' computeCluster resourcePool \<longleftrightarrow>
     (\<exists>ccr. confirmed (x_ref x) h h' (Find (ClusterComputeResource computeCluster)) ccr \<and>
        (resourcePool \<noteq> '''' \<longrightarrow> (\<exists>rp. confirmed (x_ref x) h h' (Find (Finder_ResourcePool resourcePool)) rp \<and>
            confirmed (x_ref x) h h' (Svc (Pool_Owner rp)) ccr)))"

definition topology_verified :: "ext \<Rightarrow> call list \<Rightarrow> call list \<Rightarrow> Topology \<Rightarrow> bool" where
  "topology_verified x h h' t \<longleftrightarrow>
     (t_Datastore t \<noteq> '''' \<longrightarrow> found x h h' (Finder_Datastore (t_Datastore t))) \<and>
     (\<forall>n \<in> set (t_Networks t) \<union> nc_NetworkName ` set (t_NetworkConfigurations t). found x h h' (Finder_Network n)) \<and>
     (hosts_IsDefined (t_Hosts t) \<longrightarrow>
        (\<exists>ccr rules. confirmed (x_ref x) h h' (Find (ClusterComputeResource (t_ComputeCluster t))) ccr \<and>
           confirmed (x_rules x) h h' (Svc (Ccr_Configuration ccr)) rules \<and>
           find_rule (h_HostGroupName (t_Hosts t)) (h_VMGroupName (t_Hosts t)) rules \<noteq> None))"

definition zone_verified :: "ext \<Rightarrow> call list \<Rightarrow> call list \<Rightarrow> VSphereDeploymentZone \<Rightarrow> VSphereFailureDomain \<Rightarrow> bool" where
  "zone_verified x h h' zone domain \<longleftrightarrow>
     (let t = vfd_Topology domain; p = dz_PlacementConstraint zone in
      (\<exists>user thumbprint. confirmed (x_unit x) h h' (Session_GetOrCreate (dz_Server zone) (t_Datacenter t) user thumbprint) ()) \<and>
      (plc_ResourcePool p \<noteq> '''' \<longrightarrow> found x h h' (Finder_ResourcePool (plc_ResourcePool p))) \<and>
      (plc_Folder p \<noteq> '''' \<longrightarrow> found x h h' (Finder_Folder (plc_Folder p))) \<and>
      domain_tagged x h h' t (vfd_Region domain) \<and> domain_tagged x h h' t (vfd_Zone domain) \<and>
      (t_ComputeCluster t \<noteq> '''' \<longrightarrow> cluster_owns_pool x h h' (t_ComputeCluster t) (plc_ResourcePool p)) \<and>
      topology_verified x h h' t)"

section \<open>Each step confirms its part\<close>

lemma found_mono: "found x h h' c \<Longrightarrow> prefix h' h'' \<Longrightarrow> found x h h'' c"
  unfolding found_def by (blast intro: confirmed_mono)

lemma domain_tagged_mono:
  assumes "domain_tagged x h h' t fd" and "prefix h' h''"
  shows "domain_tagged x h h'' t fd"
  using assms(1) unfolding domain_tagged_def domain_objects_def by (fast intro: confirmed_mono [OF _ assms(2)])

lemma cluster_owns_pool_mono: "cluster_owns_pool x h h' c p \<Longrightarrow> prefix h' h'' \<Longrightarrow> cluster_owns_pool x h h'' c p"
  unfolding cluster_owns_pool_def by (blast intro: confirmed_mono)

lemma find_ObjectFunc_confirmed:
  assumes "find_ObjectFunc x type t w = (Inr objs, w')" and "prefix h (hist w)"
  shows "prefix h (hist w') \<and> domain_objects x h (hist w') t type objs"
proof -
  consider (cluster) ref where "type = ComputeClusterFailureDomain" "objs = [ref]" "do_call (Find (ClusterComputeResource (t_ComputeCluster t))) (x_ref x) w = (Inr ref, w')"
    | (datacenter) ref where "type = DatacenterFailureDomain" "objs = [ref]" "do_call (Find (Finder_Datacenter (t_Datacenter t))) (x_ref x) w = (Inr ref, w')"
    | (hosts) ccr s groups where "type = HostGroupFailureDomain" "do_call (Find (ClusterComputeResource (t_ComputeCluster t))) (x_ref x) w = (Inr ccr, s)"
        "do_call (Svc (Ccr_Configuration ccr)) (x_groups x) s = (Inr groups, w')" "objs = ListHostsFromGroup (h_HostGroupName (t_Hosts t)) groups"
    using assms(1) by (auto simp: find_ObjectFunc_def succeed split: if_splits)
  then show ?thesis
  proof cases
    case hosts
    have s: "prefix h (hist s)" using hosts(2) assms(2) by (rule prefix_call_from)
    have "confirmed (x_groups x) h (hist w') (Svc (Ccr_Configuration ccr)) groups" using hosts(3) s by (rule confirmed_call)
    then show ?thesis using hosts confirmed_then_call [OF hosts(2,3) assms(2)] prefix_call_from [OF hosts(3) s]
      by (auto simp: domain_objects_def)
  qed (use assms(2) in \<open>auto simp: domain_objects_def dest: confirmed_call prefix_call_from\<close>)
qed

lemma tags_loop_confirmed:
  assumes "tags_loop x tag objs w = (Inr u, w')" and "prefix h (hist w)"
  shows "prefix h (hist w') \<and> prefix (hist w) (hist w') \<and>
    (\<forall>obj \<in> set objs. \<exists>tags. confirmed (x_strings x) h (hist w') (Svc (GetAttachedTags obj)) tags \<and> tag \<in> set tags)"
  using assms
proof (induction objs arbitrary: w)
  case (Cons obj objs)
  then obtain tags s where c: "do_call (Svc (GetAttachedTags obj)) (x_strings x) w = (Inr tags, s)" "tag \<in> set tags"
    and rest: "tags_loop x tag objs s = (Inr u, w')" by (auto simp: HasTag_def succeed split: if_splits)
  have "prefix h (hist s)" using c(1) Cons.prems(2) by (rule prefix_call_from)
  note IH = Cons.IH [OF rest this]
  have "confirmed (x_strings x) h (hist w') (Svc (GetAttachedTags obj)) tags"
    using confirmed_mono [OF confirmed_call [OF c(1) Cons.prems(2)]] IH by blast
  then show ?case using IH c prefix_order.trans [OF prefix_call [OF c(1)]] by auto
qed simp

lemma verifyFailureDomain_confirmed:
  assumes "verifyFailureDomain x domain fd w = (Inr u, w')" and "prefix h (hist w)"
  shows "prefix h (hist w') \<and> domain_tagged x h (hist w') (vfd_Topology domain) fd"
proof -
  obtain t s1 objs s2 where c: "do_call (Svc (GetTagForCategory (fd_Name fd) (fd_TagCategory fd))) (x_string x) w = (Inr t, s1)"
    and o: "find_ObjectFunc x (fd_Type fd) (vfd_Topology domain) s1 = (Inr objs, s2)" "objs \<noteq> []"
    and l: "tags_loop x (fd_Name fd) objs s2 = (Inr u, w')"
    using assms(1) by (auto simp: verifyFailureDomain_def taggable_GetObjects_def succeed split: if_splits)
  have s1: "prefix h (hist s1)" using c assms(2) by (rule prefix_call_from)
  have s2: "prefix h (hist s2)" "domain_objects x h (hist s2) (vfd_Topology domain) (fd_Type fd) objs"
    using find_ObjectFunc_confirmed [OF o(1) s1] by simp_all
  note w' = tags_loop_confirmed [OF l s2(1)]
  have "prefix (hist s1) (hist s2)" using find_ObjectFunc_confirmed [OF o(1) prefix_order.refl] by simp
  then have "confirmed (x_string x) h (hist w') (Svc (GetTagForCategory (fd_Name fd) (fd_TagCategory fd))) t"
    using confirmed_mono [OF confirmed_call [OF c assms(2)]] w' prefix_order.trans by blast
  moreover have "domain_objects x h (hist w') (vfd_Topology domain) (fd_Type fd) objs"
    using s2(2) w' unfolding domain_objects_def by (fast intro: confirmed_mono)
  ultimately show ?thesis using w' o(2) unfolding domain_tagged_def by blast
qed

lemma networks_loop_confirmed:
  assumes "networks_loop x ns w = (Inr u, w')" and "prefix h (hist w)"
  shows "prefix h (hist w') \<and> prefix (hist w) (hist w') \<and> zc_Zone w' = zc_Zone w \<and> (\<forall>n \<in> set ns. found x h (hist w') (Finder_Network n))"
  using assms
proof (induction ns arbitrary: w)
  case (Cons n ns)
  then obtain ref s where c: "do_call (Find (Finder_Network n)) (x_ref x) w = (Inr ref, s)" and rest: "networks_loop x ns s = (Inr u, w')"
    by (auto simp: succeed)
  have "prefix h (hist s)" using c Cons.prems(2) by (rule prefix_call_from)
  note IH = Cons.IH [OF rest this]
  moreover have "found x h (hist w') (Finder_Network n)"
    using confirmed_mono [OF confirmed_call [OF c Cons.prems(2)]] IH unfolding found_def by blast
  ultimately show ?case using c prefix_order.trans [OF prefix_call [OF c]] by (auto simp: do_call_eq)
qed simp

lemma verify_rule_confirmed:
  assumes "VerifyAffinityRule x cc hg vg w = (Inr rule, w')" and "prefix h (hist w)"
  shows "prefix h (hist w') \<and> prefix (hist w) (hist w') \<and> (\<exists>ccr rules. confirmed (x_ref x) h (hist w') (Find (ClusterComputeResource cc)) ccr \<and>
    confirmed (x_rules x) h (hist w') (Svc (Ccr_Configuration ccr)) rules \<and> find_rule hg vg rules \<noteq> None)"
proof -
  obtain ccr s rules where c: "do_call (Find (ClusterComputeResource cc)) (x_ref x) w = (Inr ccr, s)"
    "do_call (Svc (Ccr_Configuration ccr)) (x_rules x) s = (Inr rules, w')" and r: "find_rule hg vg rules = Some rule"
    using assms(1) by (auto simp: VerifyAffinityRule_def listRules_def succeed split: option.splits)
  have s: "prefix h (hist s)" using c(1) assms(2) by (rule prefix_call_from)
  have "confirmed (x_rules x) h (hist w') (Svc (Ccr_Configuration ccr)) rules" using c(2) s by (rule confirmed_call)
  then show ?thesis using confirmed_then_call [OF c assms(2)] prefix_call_from [OF c(2) s] r
      prefix_call_from [OF c(2) prefix_call [OF c(1)]] by blast
qed

lemma VerifyAffinityRule_frame: "same_but_hist w (snd (VerifyAffinityRule x cc hg vg w))"
  by (auto simp: VerifyAffinityRule_def listRules_def intro!: frame_intros split: option.splits)

lemma same_but_hist_zone:
  fixes v v' :: "'w zone_ctx_scheme"
  assumes "same_but_hist v v'"
  shows "zc_Zone v' = zc_Zone v"
proof -
  obtain h where "v' = v\<lparr>hist := h\<rparr>" using assms by (cases v; cases v') (simp add: same_but_hist_def)
  then show ?thesis by simp
qed

lemma reconcileTopology_confirmed:
  assumes "reconcileTopology x domain w = (Inr u, w')" and "prefix h (hist w)"
  shows "prefix h (hist w') \<and> prefix (hist w) (hist w') \<and> zc_Zone w' = zc_Zone w \<and> topology_verified x h (hist w') (vfd_Topology domain)"
proof -
  let ?t = "vfd_Topology domain"
  obtain s1 s2 s3 where d: "t_Datastore ?t \<noteq> '''' \<longrightarrow> (\<exists>ref. do_call (Find (Finder_Datastore (t_Datastore ?t))) (x_ref x) w = (Inr ref, s1))"
      "t_Datastore ?t = '''' \<longrightarrow> s1 = w"
    and n: "networks_loop x (t_Networks ?t) s1 = (Inr (), s2)" "networks_loop x (map nc_NetworkName (t_NetworkConfigurations ?t)) s2 = (Inr (), s3)"
    and r: "hosts_IsDefined (t_Hosts ?t) \<longrightarrow> (\<exists>rule. VerifyAffinityRule x (t_ComputeCluster ?t) (h_HostGroupName (t_Hosts ?t)) (h_VMGroupName (t_Hosts ?t)) s3 = (Inr rule, w'))"
      "\<not> hosts_IsDefined (t_Hosts ?t) \<longrightarrow> w' = s3"
    using assms(1) by (auto simp: reconcileTopology_def Let_def succeed split: if_splits)
  have s1: "prefix h (hist s1)" "prefix (hist w) (hist s1)" "zc_Zone s1 = zc_Zone w" "t_Datastore ?t \<noteq> '''' \<longrightarrow> found x h (hist s1) (Finder_Datastore (t_Datastore ?t))"
    using d assms(2) by (cases "t_Datastore ?t = ''''"; auto simp: found_def do_call_eq confirmed_def)+
  note s2 = networks_loop_confirmed [OF n(1) s1(1)]
  note s3 = networks_loop_confirmed [OF n(2) conjunct1 [OF s2]]
  have w': "prefix h (hist w')" "prefix (hist s3) (hist w')" "zc_Zone w' = zc_Zone s3"
    "hosts_IsDefined (t_Hosts ?t) \<longrightarrow> (\<exists>ccr rules. confirmed (x_ref x) h (hist w') (Find (ClusterComputeResource (t_ComputeCluster ?t))) ccr \<and>
       confirmed (x_rules x) h (hist w') (Svc (Ccr_Configuration ccr)) rules \<and> find_rule (h_HostGroupName (t_Hosts ?t)) (h_VMGroupName (t_Hosts ?t)) rules \<noteq> None)"
    using r s3 verify_rule_confirmed [of x "t_ComputeCluster ?t" "h_HostGroupName (t_Hosts ?t)" "h_VMGroupName (t_Hosts ?t)" s3 _ w' h]
      same_but_hist_zone [OF VerifyAffinityRule_frame [of s3 x "t_ComputeCluster ?t" "h_HostGroupName (t_Hosts ?t)" "h_VMGroupName (t_Hosts ?t)"]]
    by (cases "hosts_IsDefined (t_Hosts ?t)"; auto)+
  have chain: "prefix (hist s1) (hist w')" "prefix (hist s2) (hist w')" using s2 s3 w'(2) prefix_order.trans by blast+
  show ?thesis using s1 s2 s3 w' chain prefix_order.trans [OF s1(2) chain(1)] unfolding topology_verified_def
    by (auto intro: found_mono)
qed

lemma reconcileComputeCluster_confirmed:
  assumes "reconcileComputeCluster x domain w = (Inr u, w')" and "prefix h (hist w)" and "t_ComputeCluster (vfd_Topology domain) \<noteq> ''''"
  shows "prefix h (hist w') \<and> prefix (hist w) (hist w') \<and> zc_Zone w' = zc_Zone w \<and>
    cluster_owns_pool x h (hist w') (t_ComputeCluster (vfd_Topology domain)) (plc_ResourcePool (dz_PlacementConstraint (zc_Zone w)))"
proof -
  let ?cc = "t_ComputeCluster (vfd_Topology domain)" and ?p = "plc_ResourcePool (dz_PlacementConstraint (zc_Zone w))"
  obtain ccr s where c: "do_call (Find (ClusterComputeResource ?cc)) (x_ref x) w = (Inr ccr, s)"
    and p: "?p \<noteq> '''' \<longrightarrow> (\<exists>rp s'. do_call (Find (Finder_ResourcePool ?p)) (x_ref x) s = (Inr rp, s') \<and> do_call (Svc (Pool_Owner rp)) (x_ref x) s' = (Inr ccr, w'))"
      "?p = '''' \<longrightarrow> w' = s"
    using assms(1,3) by (auto simp: reconcileComputeCluster_def Let_def succeed split: if_splits)
  have s: "prefix h (hist s)" using c assms(2) by (rule prefix_call_from)
  show ?thesis
  proof (cases "?p = ''''")
    case True
    then show ?thesis using c p s confirmed_call [OF c assms(2)] prefix_call [OF c] by (auto simp: cluster_owns_pool_def do_call_eq)
  next
    case False
    then obtain rp s' where r: "do_call (Find (Finder_ResourcePool ?p)) (x_ref x) s = (Inr rp, s')" "do_call (Svc (Pool_Owner rp)) (x_ref x) s' = (Inr ccr, w')"
      using p by blast
    have s': "prefix h (hist s')" using r(1) s by (rule prefix_call_from)
    have "confirmed (x_ref x) h (hist w') (Find (ClusterComputeResource ?cc)) ccr"
      using confirmed_mono [OF confirmed_call [OF c assms(2)]] prefix_order.trans [OF prefix_call [OF r(1)] prefix_call [OF r(2)]] by blast
    moreover have "confirmed (x_ref x) h (hist w') (Svc (Pool_Owner rp)) ccr" using r(2) s' by (rule confirmed_call)
    moreover have "zc_Zone w' = zc_Zone w" using c r by (auto simp: do_call_eq)
    ultimately show ?thesis using confirmed_then_call [OF r s] prefix_call_from [OF r(2) s'] c r
      by (auto simp: cluster_owns_pool_def do_call_eq)
  qed
qed

lemma snd_wrapP [simp]: "snd (wrapP msg args m) = snd m"
  by (cases m; cases "fst m") (auto simp: wrapP_def onFail_def)

lemma find_ObjectFunc_frame [frame_intros]: "same_but_hist w (snd (find_ObjectFunc x type t w))"
  by (auto simp: find_ObjectFunc_def intro!: frame_intros)

lemma tags_loop_frame [frame_intros]: "same_but_hist w (snd (tags_loop x tag objs w))"
  by (induction objs arbitrary: w) (auto simp: HasTag_def intro!: frame_intros)

lemma taggable_GetObjects_frame [frame_intros]: "same_but_hist w (snd (taggable_GetObjects x domain type w))"
  by (auto simp: taggable_GetObjects_def intro!: frame_intros)

lemma same_but_hist_wrapP [frame_intros]: "same_but_hist w (snd m) \<Longrightarrow> same_but_hist w (snd (wrapP msg args m))"
  by simp

lemma verifyFailureDomain_frame: "same_but_hist w (snd (verifyFailureDomain x domain fd w))"
  unfolding verifyFailureDomain_def by (auto simp del: snd_wrapP intro!: frame_intros)

lemma verifyFailureDomain_zone:
  fixes w :: "'w zone_ctx_scheme"
  assumes "verifyFailureDomain x domain fd w = (r, w')"
  shows "zc_Zone w' = zc_Zone w"
  using same_but_hist_zone [OF verifyFailureDomain_frame [of w x domain fd]] assms by simp

definition same_spec :: "VSphereDeploymentZone \<Rightarrow> VSphereDeploymentZone \<Rightarrow> bool" where
  "same_spec z z' \<longleftrightarrow> dz_meta z' = dz_meta z \<and> dz_Server z' = dz_Server z \<and> dz_FailureDomain z' = dz_FailureDomain z \<and>
     dz_PlacementConstraint z' = dz_PlacementConstraint z"

lemma same_spec_refl [simp]: "same_spec z z"
  by (simp add: same_spec_def)

lemma zone_writes [simp]:
  "hist (add_zcond ops w) = hist w" "hist (set_zready b w) = hist w"
  "same_spec z (zc_Zone (add_zcond ops w)) \<longleftrightarrow> same_spec z (zc_Zone w)" "same_spec z (zc_Zone (set_zready b w)) \<longleftrightarrow> same_spec z (zc_Zone w)"
  "dz_Ready (zc_Zone (add_zcond ops w)) = dz_Ready (zc_Zone w)" "dz_Ready (zc_Zone (set_zready b w)) = Some b"
  "dz_Server (zc_Zone (add_zcond ops w)) = dz_Server (zc_Zone w)" "dz_PlacementConstraint (zc_Zone (add_zcond ops w)) = dz_PlacementConstraint (zc_Zone w)"
  by (simp_all add: add_zcond_def set_zready_def same_spec_def)

lemma updateOwnerReferences_prefix:
  "updateOwnerReferences x domain os w = (r, w') \<Longrightarrow> prefix (hist w) (hist w')"
  by (auto simp: updateOwnerReferences_def do_call_def bindE_def wrapE_def Let_def split: sum.splits)

lemma reconcileFailureDomain_confirmed:
  assumes "reconcileFailureDomain x domain w = (Inr u, w')" and "prefix h (hist w)"
  shows "prefix h (hist w') \<and> prefix (hist w) (hist w') \<and>
    domain_tagged x h (hist w') (vfd_Topology domain) (vfd_Region domain) \<and> domain_tagged x h (hist w') (vfd_Topology domain) (vfd_Zone domain) \<and>
    (t_ComputeCluster (vfd_Topology domain) \<noteq> '''' \<longrightarrow>
       cluster_owns_pool x h (hist w') (t_ComputeCluster (vfd_Topology domain)) (plc_ResourcePool (dz_PlacementConstraint (zc_Zone w)))) \<and>
    topology_verified x h (hist w') (vfd_Topology domain)"
proof -
  let ?t = "vfd_Topology domain"
  obtain s1 s2 s3 s4 s5 d ops where a: "verifyFailureDomain x domain (vfd_Region domain) w = (Inr (), s1)"
    and b: "verifyFailureDomain x domain (vfd_Zone domain) s1 = (Inr (), s2)"
    and c0: "(if t_ComputeCluster ?t \<noteq> '''' then wrapE ''failed to reconcile failure domain: compute cluster %s is not configured correctly'' [t_ComputeCluster ?t]
        (reconcileComputeCluster x domain s2) else (Inr (), s2)) = (Inr (), s3)"
    and t: "reconcileTopology x domain s3 = (Inr (), s4)"
    and o: "updateOwnerReferences x domain (x_EnsureOwnerRef x (m_OwnerReferences (vfd_meta domain))
        (zone_owner (dz_meta (zc_Zone s4)) (m_UID (dz_meta (zc_Zone s4))))) s4 = (Inr d, s5)" and w': "add_zcond ops s5 = w'"
    using assms(1) unfolding reconcileFailureDomain_def succeed by auto
  have c: "t_ComputeCluster ?t \<noteq> '''' \<longrightarrow> reconcileComputeCluster x domain s2 = (Inr (), s3)" "t_ComputeCluster ?t = '''' \<longrightarrow> s3 = s2"
    using c0 by (auto simp: succeed split: if_splits)
  note s1 = verifyFailureDomain_confirmed [OF a assms(2)] and s1w = verifyFailureDomain_confirmed [OF a prefix_order.refl]
  note s2 = verifyFailureDomain_confirmed [OF b conjunct1 [OF s1]] and s2w = verifyFailureDomain_confirmed [OF b prefix_order.refl]
  have z: "zc_Zone s2 = zc_Zone w" using verifyFailureDomain_zone [OF a] verifyFailureDomain_zone [OF b] by simp
  have s3: "prefix h (hist s3)" "prefix (hist s2) (hist s3)"
    "t_ComputeCluster ?t \<noteq> '''' \<longrightarrow> cluster_owns_pool x h (hist s3) (t_ComputeCluster ?t) (plc_ResourcePool (dz_PlacementConstraint (zc_Zone w)))"
    using c s2 reconcileComputeCluster_confirmed [of x domain s2 "()" s3 h] z by (cases "t_ComputeCluster ?t = ''''"; simp)+
  note s4 = reconcileTopology_confirmed [OF t s3(1)]
  have e: "prefix (hist s4) (hist w')" using updateOwnerReferences_prefix [OF o] w' by auto
  have p3: "prefix (hist s3) (hist w')" using s4 e prefix_order.trans by blast
  have p2: "prefix (hist s2) (hist w')" using s3(2) p3 by (rule prefix_order.trans)
  have p1: "prefix (hist s1) (hist w')" using s2w p2 prefix_order.trans by blast
  have p0: "prefix (hist w) (hist w')" using s1w p1 prefix_order.trans by blast
  have "topology_verified x h (hist w') ?t"
    using s4 e unfolding topology_verified_def by (blast intro: found_mono confirmed_mono)
  then show ?thesis using p0 s3(3) cluster_owns_pool_mono [OF _ p3] domain_tagged_mono [OF conjunct2 [OF s1] p1]
      domain_tagged_mono [OF conjunct2 [OF s2] p2] prefix_order.trans [OF assms(2) p0] by blast
qed

lemma optional_find:
  assumes "(if n \<noteq> '''' then onFail (bindE (do_call (Find c) (x_ref x) w) (\<lambda>_ w. (Inr (), w))) f else (Inr (), w)) = (Inr u, s)"
    and "prefix h (hist w)"
  shows "prefix h (hist s) \<and> prefix (hist w) (hist s) \<and> zc_Zone s = zc_Zone w \<and> (n \<noteq> '''' \<longrightarrow> found x h (hist s) c)"
proof (cases "n = ''''")
  case False
  then obtain ref where c: "do_call (Find c) (x_ref x) w = (Inr ref, s)" using assms(1) by (auto simp: succeed)
  then show ?thesis using confirmed_call [OF c assms(2)] prefix_call_from [OF c assms(2)] prefix_call [OF c]
    by (auto simp: found_def do_call_eq)
qed (use assms in simp)

lemma reconcilePlacementConstraint_confirmed:
  assumes "reconcilePlacementConstraint x w = (Inr u, w')" and "prefix h (hist w)"
  shows "prefix h (hist w') \<and> prefix (hist w) (hist w') \<and> same_spec (zc_Zone w) (zc_Zone w') \<and>
    (plc_ResourcePool (dz_PlacementConstraint (zc_Zone w)) \<noteq> '''' \<longrightarrow> found x h (hist w') (Finder_ResourcePool (plc_ResourcePool (dz_PlacementConstraint (zc_Zone w))))) \<and>
    (plc_Folder (dz_PlacementConstraint (zc_Zone w)) \<noteq> '''' \<longrightarrow> found x h (hist w') (Finder_Folder (plc_Folder (dz_PlacementConstraint (zc_Zone w)))))"
proof -
  let ?p = "plc_ResourcePool (dz_PlacementConstraint (zc_Zone w))" and ?f = "plc_Folder (dz_PlacementConstraint (zc_Zone w))"
  obtain s1 s2 f1 f2 ops where a: "(if ?p \<noteq> '''' then onFail (bindE (do_call (Find (Finder_ResourcePool ?p)) (x_ref x) w) (\<lambda>_ w. (Inr (), w))) f1 else (Inr (), w)) = (Inr (), s1)"
    and b: "(if ?f \<noteq> '''' then onFail (bindE (do_call (Find (Finder_Folder ?f)) (x_ref x) s1) (\<lambda>_ w. (Inr (), w))) f2 else (Inr (), s1)) = (Inr (), s2)"
    and w': "add_zcond ops s2 = w'"
    using assms(1) unfolding reconcilePlacementConstraint_def Let_def bindE_eq_Inr [of "if _ then _ else _"] by (elim exE conjE) simp
  note s1 = optional_find [OF a assms(2)]
  note s2 = optional_find [OF b conjunct1 [OF s1]]
  have "same_spec (zc_Zone w) (zc_Zone w')" using s1 s2 by (simp flip: w')
  moreover have "hist w' = hist s2" by (simp flip: w')
  ultimately show ?thesis using s1 s2 found_mono [of x h "hist s1" _ "hist s2"] prefix_order.trans [of "hist w" "hist s1" "hist s2"] by simp
qed

lemma credentials_loop_calls: "calls_ok (\<lambda>_. True) w (snd (credentials_loop x mgr server cs params w))"
proof (induction cs arbitrary: params w)
  case (Cons c cs)
  obtain r v where g: "GetCredentials x c (mgr_Namespace mgr) w = (r, v)" by force
  have "calls_ok (\<lambda>_. True) w v" using GetCredentials_calls [of "\<lambda>_. True" w x c "mgr_Namespace mgr"] g by simp
  then show ?case using Cons.IH by (cases params; cases r) (auto simp: g intro: calls_ok_trans)
qed simp

lemma credentials_loop_frame: "same_but_hist w (snd (credentials_loop x mgr server cs params w))"
proof (induction cs arbitrary: params w)
  case (Cons c cs)
  obtain r v where g: "GetCredentials x c (mgr_Namespace mgr) w = (r, v)" by force
  have "same_but_hist w v" using GetCredentials_frame [of w x c "mgr_Namespace mgr"] g by simp
  then show ?case using Cons.IH by (cases params; cases r) (auto simp: g intro: same_but_hist_trans)
qed simp

lemma getVCenterSession_zone: "zc_Zone (snd (getVCenterSession x mgr dc w)) = zc_Zone w"
proof -
  obtain r s where l: "do_call (Get List_VSphereClusters) (x_vclusters x) w = (r, s)" by force
  show ?thesis
  proof (cases r)
    case (Inr clusters)
    have "zc_Zone (snd (credentials_loop x mgr (dz_Server (zc_Zone s)) clusters ((mgr_Username mgr, mgr_Password mgr), '''') s)) = zc_Zone s"
      by (rule same_but_hist_zone [OF credentials_loop_frame])
    then show ?thesis using l Inr by (auto simp: getVCenterSession_def do_call_def split: prod.splits)
  qed (use l in \<open>auto simp: getVCenterSession_def do_call_def\<close>)
qed

lemma getVCenterSession_confirmed:
  assumes "getVCenterSession x mgr dc w = (Inr u, w')" and "prefix h (hist w)"
  shows "prefix h (hist w') \<and> prefix (hist w) (hist w') \<and>
    (\<exists>user thumbprint. confirmed (x_unit x) h (hist w') (Session_GetOrCreate (dz_Server (zc_Zone w)) dc user thumbprint) ())"
proof -
  obtain clusters s where l: "do_call (Get List_VSphereClusters) (x_vclusters x) w = (Inr clusters, s)"
    using assms(1) by (auto simp: getVCenterSession_def succeed)
  obtain user thumbprint v where c:
    "credentials_loop x mgr (dz_Server (zc_Zone s)) clusters ((mgr_Username mgr, mgr_Password mgr), '''') s = ((user, thumbprint), v)"
    by (metis surj_pair)
  have d: "do_call (Session_GetOrCreate (dz_Server (zc_Zone v)) dc user thumbprint) (x_unit x) v = (Inr (), w')"
    using assms(1) l c by (simp add: getVCenterSession_def)
  have v: "prefix (hist s) (hist v)" "zc_Zone v = zc_Zone s"
    using calls_ok_prefix [OF credentials_loop_calls [of s x mgr "dz_Server (zc_Zone s)" clusters "((mgr_Username mgr, mgr_Password mgr), '''')"]]
      same_but_hist_zone [OF credentials_loop_frame [of s x mgr "dz_Server (zc_Zone s)" clusters "((mgr_Username mgr, mgr_Password mgr), '''')"]] c by simp_all
  have s: "zc_Zone s = zc_Zone w" "prefix (hist w) (hist v)" using l v prefix_order.trans [OF prefix_call [OF l]] by (auto simp: do_call_eq)
  then have hv: "prefix h (hist v)" using assms(2) prefix_order.trans by blast
  have "confirmed (x_unit x) h (hist w') (Session_GetOrCreate (dz_Server (zc_Zone w)) dc user thumbprint) ()"
    using confirmed_call [OF d hv] v s by simp
  then show ?thesis using prefix_call_from [OF d hv] prefix_call_from [OF d s(2)] by blast
qed

text \<open>No step but the last one makes a zone ready.\<close>

definition ready_kept :: "VSphereDeploymentZone \<Rightarrow> 'w zone_ctx_scheme \<Rightarrow> bool" where
  "ready_kept z w \<longleftrightarrow> dz_Ready (zc_Zone w) = dz_Ready z \<and> same_spec z (zc_Zone w)"

named_theorems ready_intros \<open>introduction rules for \<open>ready_kept\<close>\<close>

lemma ready_bindE [ready_intros]:
  assumes "ready_kept b (snd m)" and "\<And>y v. m = (Inr y, v) \<Longrightarrow> ready_kept b v \<Longrightarrow> ready_kept b (snd (k y v))"
  shows "ready_kept b (snd (bindE m k))"
  using assms by (cases m; cases "fst m") auto

lemma ready_onFail [ready_intros]:
  assumes "ready_kept b (snd m)" and "\<And>e v. m = (Inl e, v) \<Longrightarrow> ready_kept b v \<Longrightarrow> ready_kept b (snd (f e v))"
  shows "ready_kept b (snd (onFail m f))"
  using assms by (cases m; cases "fst m") (auto simp: onFail_def)

lemma ready_simps [simp]:
  "ready_kept b (snd (do_call c f w)) \<longleftrightarrow> ready_kept b w" "ready_kept b (add_zcond ops w) \<longleftrightarrow> ready_kept b w"
  "ready_kept b (snd (wrapE s as m)) \<longleftrightarrow> ready_kept b (snd m)"
  by (simp_all add: ready_kept_def do_call_def)

lemma ready_frame: "same_but_hist w w' \<Longrightarrow> ready_kept b w \<Longrightarrow> ready_kept b w'"
  by (simp add: ready_kept_def same_but_hist_zone)

lemma reconcilePlacementConstraint_ready: "ready_kept b w \<Longrightarrow> ready_kept b (snd (reconcilePlacementConstraint x w))"
  by (auto simp: reconcilePlacementConstraint_def Let_def intro!: ready_intros)

lemma networks_loop_ready: "ready_kept b w \<Longrightarrow> ready_kept b (snd (networks_loop x ns w))"
  by (induction ns arbitrary: w) (auto intro!: ready_intros)

lemma reconcileTopology_ready: "ready_kept b w \<Longrightarrow> ready_kept b (snd (reconcileTopology x domain w))"
  by (auto simp: reconcileTopology_def Let_def intro!: ready_intros networks_loop_ready ready_frame [OF VerifyAffinityRule_frame])

lemma reconcileComputeCluster_ready: "ready_kept b w \<Longrightarrow> ready_kept b (snd (reconcileComputeCluster x domain w))"
  by (auto simp: reconcileComputeCluster_def Let_def intro!: ready_intros)

lemma updateOwnerReferences_frame: "same_but_hist w (snd (updateOwnerReferences x domain os w))"
  by (auto simp: updateOwnerReferences_def Let_def intro!: frame_intros)

lemma reconcileFailureDomain_ready: "ready_kept b w \<Longrightarrow> ready_kept b (snd (reconcileFailureDomain x domain w))"
  by (auto simp: reconcileFailureDomain_def intro!: ready_intros reconcileTopology_ready reconcileComputeCluster_ready
      ready_frame [OF verifyFailureDomain_frame] ready_frame [OF updateOwnerReferences_frame])

section \<open>Properties\<close>

lemma zone_reconcileNormal_cases:
  assumes "zone_reconcileNormal x mgr w = (r, w')" and "dz_Ready (zc_Zone w) \<noteq> Some True" "dz_Ready (zc_Zone w') = Some True"
  obtains domain s1 s2 s3 s4 where
    "do_call (Get (Get_VSphereFailureDomain (dz_FailureDomain (zc_Zone w)))) (x_domain x) w = (Inr domain, s1)"
    "getVCenterSession x mgr (t_Datacenter (vfd_Topology domain)) s1 = (Inr (), s2)"
    "reconcilePlacementConstraint x (add_zcond [v1beta1_MarkTrue ''VCenterAvailable'', cond_Set ''VCenterAvailable'' ConditionTrue ''Available'' NoMsg] s2) = (Inr (), s3)"
    "reconcileFailureDomain x domain s3 = (Inr (), s4)" "r = Inr ()" "w' = set_zready True s4"
proof -
  let ?b = "zc_Zone w" and ?ops = "[v1beta1_MarkTrue ''VCenterAvailable'', cond_Set ''VCenterAvailable'' ConditionTrue ''Available'' NoMsg]"
  obtain rd s1 where d: "do_call (Get (Get_VSphereFailureDomain (dz_FailureDomain (zc_Zone w)))) (x_domain x) w = (rd, s1)" by force
  have k1: "ready_kept ?b s1" using d by (auto simp: ready_kept_def do_call_eq)
  obtain domain where rd: "rd = Inr domain" using assms d k1 by (cases rd) (auto simp: zone_reconcileNormal_def ready_kept_def)
  obtain rs s2 where s: "getVCenterSession x mgr (t_Datacenter (vfd_Topology domain)) s1 = (rs, s2)" by force
  have k2: "ready_kept ?b s2" using getVCenterSession_zone [of x mgr "t_Datacenter (vfd_Topology domain)" s1] s k1 by (simp add: ready_kept_def)
  have rs: "rs = Inr ()" using assms d rd s k2
    by (cases rs) (auto simp: zone_reconcileNormal_def ready_kept_def onFail_def split: if_splits)
  obtain rp s3 where p: "reconcilePlacementConstraint x (add_zcond ?ops s2) = (rp, s3)" by force
  have k3: "ready_kept ?b s3" using reconcilePlacementConstraint_ready [of ?b "add_zcond ?ops s2" x] p k2 by simp
  have rp: "rp = Inr ()" using assms d rd s rs p k3
    by (cases rp) (auto simp: zone_reconcileNormal_def ready_kept_def onFail_def Let_def split: if_splits)
  obtain rf s4 where f: "reconcileFailureDomain x domain s3 = (rf, s4)" by force
  have k4: "ready_kept ?b s4" using reconcileFailureDomain_ready [OF k3, of x domain] f by simp
  have rf: "rf = Inr ()" using assms d rd s rs p rp f k4
    by (cases rf) (auto simp: zone_reconcileNormal_def ready_kept_def onFail_def Let_def split: if_splits)
  show thesis
    by (rule that [OF d [unfolded rd] s [unfolded rs] p [unfolded rp] f [unfolded rf]])
       (use assms(1) d rd s rs p rp f rf in \<open>simp_all add: zone_reconcileNormal_def onFail_def Let_def\<close>)
qed

lemma zone_reconcileDelete_ready:
  assumes "zone_reconcileDelete x w = (r, w')"
  shows "dz_Ready (zc_Zone w') = dz_Ready (zc_Zone w)"
  using assms
  by (auto simp: zone_reconcileDelete_def release_failure_domain_def updateOwnerReferences_def remove_zone_finalizer_def do_call_def bindE_def wrapE_def
      Let_def add_zcond_def split: sum.splits if_splits)

text \<open>
  C12. A run makes a VSphereDeploymentZone ready only if, in this very run, the failure domain was read, a session with the
  zone's vCenter was created, and vCenter confirmed everything the zone names: its resource pool and folder, the tags of
  region and zone on all their objects, the compute cluster and that it owns the resource pool, the datastore, every
  network, and the affinity rule between the host group and the VM group.
\<close>

theorem ready_zone_verified:
  assumes "zone_reconcile x mgr w = (r, w')" and "dz_Ready (zc_Zone w) \<noteq> Some True" "dz_Ready (zc_Zone w') = Some True"
  shows "m_DeletionTimestamp (dz_meta (zc_Zone w)) = None \<and> r = Inr () \<and>
    (\<exists>domain. confirmed (x_domain x) (hist w) (hist w') (Get (Get_VSphereFailureDomain (dz_FailureDomain (zc_Zone w)))) domain \<and>
       zone_verified x (hist w) (hist w') (zc_Zone w) domain)"
proof -
  let ?h = "hist w" and ?ops = "[v1beta1_MarkTrue ''VCenterAvailable'', cond_Set ''VCenterAvailable'' ConditionTrue ''Available'' NoMsg]"
  have normal: "m_DeletionTimestamp (dz_meta (zc_Zone w)) = None" "zone_reconcileNormal x mgr w = (r, w')"
    using assms zone_reconcileDelete_ready [of x w r w'] by (auto simp: zone_reconcile_def split: if_splits)
  obtain domain s1 s2 s3 s4 where d: "do_call (Get (Get_VSphereFailureDomain (dz_FailureDomain (zc_Zone w)))) (x_domain x) w = (Inr domain, s1)"
    and s: "getVCenterSession x mgr (t_Datacenter (vfd_Topology domain)) s1 = (Inr (), s2)"
    and p: "reconcilePlacementConstraint x (add_zcond ?ops s2) = (Inr (), s3)" and f: "reconcileFailureDomain x domain s3 = (Inr (), s4)"
    and r: "r = Inr ()" and w': "w' = set_zready True s4"
    using normal(2) assms(2,3) by (rule zone_reconcileNormal_cases)
  have z1: "zc_Zone s1 = zc_Zone w" and h1: "prefix ?h (hist s1)" using d by (auto simp: do_call_eq)
  have z2: "zc_Zone s2 = zc_Zone w" using getVCenterSession_zone [of x mgr "t_Datacenter (vfd_Topology domain)" s1] s z1 by simp
  note c2 = getVCenterSession_confirmed [OF s h1]
  have h2: "prefix ?h (hist (add_zcond ?ops s2))" using c2 by simp
  note c3 = reconcilePlacementConstraint_confirmed [OF p h2]
  note c4 = reconcileFailureDomain_confirmed [OF f conjunct1 [OF c3]]
  have e: "hist w' = hist s4" by (simp add: w')
  have p34: "prefix (hist s3) (hist w')" using c4 e by simp
  then have p24: "prefix (hist s2) (hist w')" using c3 prefix_order.trans by auto
  then have p14: "prefix (hist s1) (hist w')" using c2 prefix_order.trans by blast
  have spec: "dz_PlacementConstraint (zc_Zone s3) = dz_PlacementConstraint (zc_Zone w)" using c3 z2 by (simp add: same_spec_def)
  have "confirmed (x_domain x) ?h (hist w') (Get (Get_VSphereFailureDomain (dz_FailureDomain (zc_Zone w)))) domain"
    using confirmed_mono [OF confirmed_call [OF d prefix_order.refl] p14] .
  moreover obtain user thumbprint where
    "confirmed (x_unit x) ?h (hist s2) (Session_GetOrCreate (dz_Server (zc_Zone w)) (t_Datacenter (vfd_Topology domain)) user thumbprint) ()"
    using c2 z1 by auto
  then have "\<exists>user thumbprint. confirmed (x_unit x) ?h (hist w') (Session_GetOrCreate (dz_Server (zc_Zone w)) (t_Datacenter (vfd_Topology domain)) user thumbprint) ()"
    by (intro exI) (rule confirmed_mono [OF _ p24])
  moreover have "(plc_ResourcePool (dz_PlacementConstraint (zc_Zone w)) \<noteq> '''' \<longrightarrow> found x ?h (hist w') (Finder_ResourcePool (plc_ResourcePool (dz_PlacementConstraint (zc_Zone w))))) \<and>
      (plc_Folder (dz_PlacementConstraint (zc_Zone w)) \<noteq> '''' \<longrightarrow> found x ?h (hist w') (Finder_Folder (plc_Folder (dz_PlacementConstraint (zc_Zone w)))))"
    using c3 z2 found_mono [OF _ p34] by simp
  ultimately have "zone_verified x ?h (hist w') (zc_Zone w) domain" using c4 by (simp add: zone_verified_def Let_def e spec)
  then show ?thesis using normal(1) r
      \<open>confirmed (x_domain x) ?h (hist w') (Get (Get_VSphereFailureDomain (dz_FailureDomain (zc_Zone w)))) domain\<close> by blast
qed

lemma same_spec_trans: "same_spec a b \<Longrightarrow> same_spec b c \<Longrightarrow> same_spec a c"
  by (simp add: same_spec_def)

lemma spec_bindE:
  assumes "same_spec z (zc_Zone (snd m))" and "\<And>y v. m = (Inr y, v) \<Longrightarrow> same_spec z (zc_Zone v) \<Longrightarrow> same_spec z (zc_Zone (snd (k y v)))"
  shows "same_spec z (zc_Zone (snd (bindE m k)))"
  using assms by (cases m; cases "fst m") auto

lemma spec_onFail:
  assumes "same_spec z (zc_Zone (snd m))" and "\<And>e v. m = (Inl e, v) \<Longrightarrow> same_spec z (zc_Zone v) \<Longrightarrow> same_spec z (zc_Zone (snd (f e v)))"
  shows "same_spec z (zc_Zone (snd (onFail m f)))"
  using assms by (cases m; cases "fst m") (auto simp: onFail_def)

lemma spec_step:
  assumes "\<And>z w. ready_kept z w \<Longrightarrow> ready_kept z (snd (f w))" and "same_spec z (zc_Zone w)"
  shows "same_spec z (zc_Zone (snd (f w)))"
  using assms(1) [of "zc_Zone w" w] assms(2) by (auto simp: ready_kept_def intro: same_spec_trans)

lemma reconcilePlacementConstraint_spec: "same_spec z (zc_Zone w) \<Longrightarrow> same_spec z (zc_Zone (snd (reconcilePlacementConstraint x w)))"
  by (rule spec_step) (rule reconcilePlacementConstraint_ready)

lemma reconcileFailureDomain_spec: "same_spec z (zc_Zone w) \<Longrightarrow> same_spec z (zc_Zone (snd (reconcileFailureDomain x domain w)))"
  by (rule spec_step) (rule reconcileFailureDomain_ready)

lemma zone_reconcileNormal_spec: "same_spec (zc_Zone w) (zc_Zone (snd (zone_reconcileNormal x mgr w)))"
  unfolding zone_reconcileNormal_def Let_def
  by (intro spec_bindE spec_onFail)
     (simp_all add: getVCenterSession_zone reconcilePlacementConstraint_spec reconcileFailureDomain_spec do_call_def)

lemma updateOwnerReferences_confirmed:
  assumes "updateOwnerReferences x domain os w = (Inr d, w')"
  shows "d = domain\<lparr>vfd_meta := (vfd_meta domain)\<lparr>m_OwnerReferences := os\<rparr>\<rparr> \<and>
    confirmed (x_unit x) (hist w) (hist w') (Put (Patch_VSphereFailureDomain d)) ()"
proof -
  obtain s where n: "do_call (Capi (NewPatchHelper (vfd_meta domain))) (x_unit x) w = (Inr (), s)"
    and p: "do_call (Put (Patch_VSphereFailureDomain (domain\<lparr>vfd_meta := (vfd_meta domain)\<lparr>m_OwnerReferences := os\<rparr>\<rparr>))) (x_unit x) s = (Inr (), w')"
    and d: "d = domain\<lparr>vfd_meta := (vfd_meta domain)\<lparr>m_OwnerReferences := os\<rparr>\<rparr>"
    using assms by (auto simp: updateOwnerReferences_def Let_def succeed)
  show ?thesis using confirmed_call [OF p prefix_call [OF n]] d by simp
qed

lemma release_failure_domain_confirmed:
  assumes "release_failure_domain x domain w = (Inr u, w')"
  shows "\<exists>d. m_OwnerReferences (vfd_meta d) = x_RemoveOwnerRef x (m_OwnerReferences (vfd_meta domain)) (zone_owner (dz_meta (zc_Zone w)) '''') \<and>
    m_DeletionTimestamp (vfd_meta d) = m_DeletionTimestamp (vfd_meta domain) \<and>
    confirmed (x_unit x) (hist w) (hist w') (Put (Patch_VSphereFailureDomain d)) () \<and>
    (m_OwnerReferences (vfd_meta d) = [] \<and> m_DeletionTimestamp (vfd_meta d) = None \<longrightarrow>
       last (hist w') = Put (Delete_VSphereFailureDomain (m_Name (vfd_meta domain))))"
proof -
  obtain d s where o: "updateOwnerReferences x domain (x_RemoveOwnerRef x (m_OwnerReferences (vfd_meta domain)) (zone_owner (dz_meta (zc_Zone w)) '''')) w = (Inr d, s)"
    using assms by (auto simp: release_failure_domain_def succeed)
  note d = updateOwnerReferences_confirmed [OF o]
  have pre: "prefix (hist s) (hist w')" and del: "m_OwnerReferences (vfd_meta d) = [] \<and> m_DeletionTimestamp (vfd_meta d) = None \<longrightarrow>
      last (hist w') = Put (Delete_VSphereFailureDomain (m_Name (vfd_meta d)))"
    using assms o by (auto simp: release_failure_domain_def do_call_def split: sum.splits if_splits)
  have "confirmed (x_unit x) (hist w) (hist w') (Put (Patch_VSphereFailureDomain d)) ()" by (rule confirmed_mono [OF conjunct2 [OF d] pre])
  then show ?thesis using d del by (intro exI [of _ d]) simp
qed

lemma zone_frame: "zc_Zone (snd (release_failure_domain x domain w)) = zc_Zone w"
  by (rule same_but_hist_zone)
     (auto simp: release_failure_domain_def intro!: frame_intros updateOwnerReferences_frame)

text \<open>
  The finalizer of a VSphereDeploymentZone is removed only in deletion, after the Machines were listed and none of the
  active ones in the collection built from the list is in this zone, and after the failure domain was found missing, or
  its ownership was given up and, when that was the last owner, its deletion was requested.
\<close>

lemma zone_finalizer_released_last:
  assumes "zone_reconcile x mgr w = (r, w')" and "m_Finalizers (dz_meta (zc_Zone w')) \<noteq> m_Finalizers (dz_meta (zc_Zone w))"
  shows "m_DeletionTimestamp (dz_meta (zc_Zone w)) \<noteq> None \<and> r = Inr () \<and>
    (\<exists>machines. x_capimachines x (hist w @ [Get List_Machines]) = Inr machines \<and> machines_using x (m_Name (dz_meta (zc_Zone w))) machines = []) \<and>
    (let get = hist w @ [Get List_Machines, Get (Get_VSphereFailureDomain (dz_FailureDomain (zc_Zone w)))] in
     (\<exists>err. x_domain x get = Inl err \<and> apierrors_IsNotFound err \<and> hist w' = get) \<or>
     (\<exists>domain d. x_domain x get = Inr domain \<and>
        m_OwnerReferences (vfd_meta d) = x_RemoveOwnerRef x (m_OwnerReferences (vfd_meta domain)) (zone_owner (dz_meta (zc_Zone w)) '''') \<and>
        m_DeletionTimestamp (vfd_meta d) = m_DeletionTimestamp (vfd_meta domain) \<and>
        confirmed (x_unit x) get (hist w') (Put (Patch_VSphereFailureDomain d)) () \<and>
        (m_OwnerReferences (vfd_meta d) = [] \<and> m_DeletionTimestamp (vfd_meta d) = None \<longrightarrow>
           last (hist w') = Put (Delete_VSphereFailureDomain (m_Name (vfd_meta domain))))))"
proof -
  have del: "m_DeletionTimestamp (dz_meta (zc_Zone w)) \<noteq> None" "zone_reconcileDelete x w = (r, w')"
    using assms zone_reconcileNormal_spec [of w x mgr] by (auto simp: zone_reconcile_def same_spec_def split: if_splits)
  let ?list = "hist w @ [Get List_Machines]" and ?get = "hist w @ [Get List_Machines, Get (Get_VSphereFailureDomain (dz_FailureDomain (zc_Zone w)))]"
  obtain machines where m: "x_capimachines x ?list = Inr machines" "machines_using x (m_Name (dz_meta (zc_Zone w))) machines = []"
    using del(2) assms(2) by (auto simp: zone_reconcileDelete_def do_call_def add_zcond_def Let_def bindE_def wrapE_def split: sum.splits if_splits)
  define v where "v = (add_zcond [cond_Set ''VCenterAvailable'' ConditionFalse ''Deleting'' NoMsg, cond_Set ''PlacementConstraintReady'' ConditionFalse ''Deleting'' NoMsg,
      cond_Set ''FailureDomainValidated'' ConditionFalse ''Deleting'' NoMsg] w)\<lparr>hist := ?get\<rparr>"
  have v: "hist v = ?get" and eq: "(r, w') = (case x_domain x ?get of Inl err \<Rightarrow> if apierrors_IsNotFound err then (Inr (), remove_zone_finalizer x v)
        else (Inl (Wrapf err ''failed to get VSphereFailureDomain'' []), v)
      | Inr domain \<Rightarrow> bindE (release_failure_domain x domain v) (\<lambda>_ w. (Inr (), remove_zone_finalizer x w)))"
    using del(2) m by (cases "x_domain x ?get"; simp add: v_def zone_reconcileDelete_def do_call_def add_zcond_def Let_def split: if_splits)+
  have fin: "m_Finalizers (dz_meta (zc_Zone v)) = m_Finalizers (dz_meta (zc_Zone w))" and meta: "dz_meta (zc_Zone v) = dz_meta (zc_Zone w)"
    by (simp_all add: v_def add_zcond_def)
  show ?thesis
  proof (cases "x_domain x ?get")
    case (Inl err)
    then show ?thesis using eq assms(2) fin del(1) m v by (auto simp: Let_def remove_zone_finalizer_def split: if_splits)
  next
    case (Inr domain)
    obtain rr s where rel: "release_failure_domain x domain v = (rr, s)" by force
    have "zc_Zone s = zc_Zone v" using zone_frame [of x domain v] rel by simp
    then have rr: "rr = Inr ()" using eq assms(2) fin Inr rel by (cases rr) auto
    then have e: "r = Inr ()" "hist w' = hist s" using eq Inr rel by (simp_all add: remove_zone_finalizer_def Let_def)
    show ?thesis using release_failure_domain_confirmed [OF rel [unfolded rr]] del(1) m e Inr by (auto simp: Let_def v meta)
  qed
qed

text \<open>
  The collection the controller builds from the listed Machines has one member per name, although Machines live
  in namespaces: an active Machine in the zone is overlooked when a Machine of another namespace has its name, and the
  zone is given up while it is in use.
\<close>

lemma zone_deleted_while_in_use:
  assumes "\<And>m n. m_Name (mach_meta m) = m_Name (mach_meta n) \<Longrightarrow> x_FromMachineList x [m, n] = [n]"
    and "m_Name (mach_meta user) = m_Name (mach_meta other)" "mach_FailureDomain user = m_Name (dz_meta (zc_Zone w))" "mach_FailureDomain other \<noteq> m_Name (dz_meta (zc_Zone w))"
    and "m_DeletionTimestamp (mach_meta user) = None" "m_DeletionTimestamp (dz_meta (zc_Zone w)) \<noteq> None"
    and "x_capimachines x (hist w @ [Get List_Machines]) = Inr [user, other]"
    and "x_domain x (hist w @ [Get List_Machines, Get (Get_VSphereFailureDomain (dz_FailureDomain (zc_Zone w)))]) = Inl (APINotFound s)"
  shows "\<exists>w'. zone_reconcile x mgr w = (Inr (), w') \<and>
    m_Finalizers (dz_meta (zc_Zone w')) = fst (x_RemoveFinalizer x (m_Finalizers (dz_meta (zc_Zone w))) DeploymentZoneFinalizer)"
  using assms
  by (simp add: zone_reconcile_def zone_reconcileDelete_def machines_using_def do_call_def add_zcond_def Let_def apierrors_IsNotFound_def
      remove_zone_finalizer_def)

section \<open>Concrete instances\<close>

definition zone_manager :: manager where
  "zone_manager = \<lparr>mgr_Namespace = ''capv'', mgr_Username = ''u'', mgr_Password = ''p'', mgr_NodeAntiAffinity = False\<rparr>"

definition sample_dz :: "time option \<Rightarrow> zone_ctx" where
  "sample_dz deleted = \<lparr>hist = [], zc_Zone = \<lparr>dz_meta = empty_meta\<lparr>m_Name := ''zone-a'', m_Finalizers := [DeploymentZoneFinalizer], m_DeletionTimestamp := deleted\<rparr>,
     dz_Server = ''vc'', dz_FailureDomain = ''fd-a'', dz_ControlPlane = None,
     dz_PlacementConstraint = \<lparr>plc_ResourcePool = ''rp'', plc_Folder = ''''\<rparr>, dz_Ready = None, dz_Conditions = []\<rparr>\<rparr>"

definition sample_domain :: VSphereFailureDomain where
  "sample_domain = \<lparr>vfd_meta = empty_meta\<lparr>m_Name := ''fd-a''\<rparr>,
     vfd_Region = \<lparr>fd_Name = ''r'', fd_Type = DatacenterFailureDomain, fd_TagCategory = ''region''\<rparr>,
     vfd_Zone = \<lparr>fd_Name = ''z'', fd_Type = ComputeClusterFailureDomain, fd_TagCategory = ''zone''\<rparr>,
     vfd_Topology = \<lparr>t_Datacenter = ''dc'', t_ComputeCluster = ''cc'', t_Hosts = \<lparr>h_VMGroupName = '''', h_HostGroupName = ''''\<rparr>,
       t_Networks = [''net''], t_NetworkConfigurations = [], t_Datastore = ''ds''\<rparr>\<rparr>"

definition sample_zone_api :: ext where
  \<comment> \<open>an API server that has the failure domain and a vCenter that has all that it names\<close>
  "sample_zone_api = ext_default\<lparr>x_domain := \<lambda>h. Inr sample_domain, x_unit := \<lambda>h. Inr (), x_vclusters := \<lambda>h. Inr [], x_string := \<lambda>h. Inr ''t'',
     x_ref := \<lambda>h. Inr \<lparr>mo_Type = ''X'', mo_Value = ''1''\<rparr>, x_strings := \<lambda>h. Inr [''r'', ''z'']\<rparr>"

lemmas zone_eval = zone_reconcile_def zone_reconcileNormal_def getVCenterSession_def reconcilePlacementConstraint_def reconcileFailureDomain_def
  verifyFailureDomain_def taggable_GetObjects_def find_ObjectFunc_def HasTag_def reconcileComputeCluster_def reconcileTopology_def updateOwnerReferences_def
  onFail_def wrapP_def do_call_def Let_def

lemma sample_zone_run:
  "dz_Ready (zc_Zone (sample_dz None)) \<noteq> Some True"
  "dz_Ready (zc_Zone (snd (zone_reconcile sample_zone_api zone_manager (sample_dz None)))) = Some True"
  by (simp_all add: zone_eval sample_dz_def sample_zone_api_def sample_domain_def empty_meta_def add_zcond_def set_zready_def hosts_IsDefined_def
      ComputeClusterFailureDomain_def DatacenterFailureDomain_def HostGroupFailureDomain_def)

theorem ready_zone_verified_witness:
  "\<exists>domain. zone_verified sample_zone_api [] (hist (snd (zone_reconcile sample_zone_api zone_manager (sample_dz None)))) (zc_Zone (sample_dz None)) domain"
  using ready_zone_verified [OF surjective_pairing sample_zone_run] by (auto simp: sample_dz_def)

definition sample_zone_machine :: "string \<Rightarrow> string \<Rightarrow> Machine" where
  "sample_zone_machine namespace zone = \<lparr>mach_meta = empty_meta\<lparr>m_Name := ''m'', m_Namespace := namespace\<rparr>, mach_FailureDomain = zone, mach_BootstrapDataSecretName = None\<rparr>"

definition sample_delete_api :: "Machine list \<Rightarrow> ext" where
  \<comment> \<open>an API server with these Machines and no failure domain; collections have one member per name\<close>
  "sample_delete_api machines = ext_default\<lparr>x_capimachines := \<lambda>h. Inr machines, x_domain := \<lambda>h. Inl (APINotFound ''fd-a''),
     x_FromMachineList := \<lambda>ms. rev (fold (\<lambda>m acc. m # filter (\<lambda>n. m_Name (mach_meta n) \<noteq> m_Name (mach_meta m)) acc) ms [])\<rparr>"

lemma sample_zone_deleted: "m_Finalizers (dz_meta (zc_Zone (snd (zone_reconcile (sample_delete_api []) zone_manager (sample_dz (Some 0)))))) \<noteq>
    m_Finalizers (dz_meta (zc_Zone (sample_dz (Some 0))))"
  by (simp add: zone_reconcile_def zone_reconcileDelete_def machines_using_def remove_zone_finalizer_def sample_delete_api_def do_call_def Let_def
      add_zcond_def apierrors_IsNotFound_def sample_dz_def)

end
