(* ===== verification/Go_Sha256.thy ===== *)
theory Go_Sha256
  imports Go_Strings "HOL-Library.Word"
begin

text \<open>
  Go's \<open>crypto/sha256\<close> (FIPS 180-4), used by \<open>pkg/session\<close> to put a password into the key of a
  cached session, and the verb \<open>%x\<close> of \<open>fmt\<close> on a byte slice. A byte slice is a list of
  bytes as natural numbers below 256; the compression function works on \<open>32 word\<close>s, whose
  addition wraps as \<open>uint32\<close> does in Go.
\<close>

unbundle bit_operations_syntax

section \<open>Bytes\<close>

definition bytes_of :: "string \<Rightarrow> nat list" where
  \<comment> \<open>\<open>[]byte(s)\<close>\<close>
  "bytes_of s = map of_char s"

definition hex_digit :: "nat \<Rightarrow> char" where
  "hex_digit n = (if n < 10 then char_of (48 + n) else char_of (87 + n))"

definition hex_bytes :: "nat list \<Rightarrow> string" where
  \<comment> \<open>\<open>fmt.Sprintf("%x", bs)\<close>\<close>
  "hex_bytes bs = concat (map (\<lambda>b. [hex_digit (b div 16), hex_digit (b mod 16)]) bs)"

fun be_bytes :: "nat \<Rightarrow> nat \<Rightarrow> nat list" where
  \<comment> \<open>the \<open>k\<close> low bytes of \<open>n\<close>, most significant first\<close>
  "be_bytes 0 n = []"
| "be_bytes (Suc k) n = be_bytes k (n div 256) @ [n mod 256]"

fun be_words :: "nat list \<Rightarrow> 32 word list" where
  "be_words (a # b # c # d # bs) = of_nat (((a * 256 + b) * 256 + c) * 256 + d) # be_words bs"
| "be_words _ = []"

section \<open>The compression function\<close>

text \<open>The first 32 bits of the fractional parts of the cube roots of the first 64 primes, in decimal.\<close>

definition sha_K :: "32 word list" where
  "sha_K =
    [1116352408, 1899447441, 3049323471, 3921009573, 961987163, 1508970993, 2453635748,
     2870763221, 3624381080, 310598401, 607225278, 1426881987, 1925078388, 2162078206,
     2614888103, 3248222580, 3835390401, 4022224774, 264347078, 604807628, 770255983,
     1249150122, 1555081692, 1996064986, 2554220882, 2821834349, 2952996808, 3210313671,
     3336571891, 3584528711, 113926993, 338241895, 666307205, 773529912, 1294757372,
     1396182291, 1695183700, 1986661051, 2177026350, 2456956037, 2730485921, 2820302411,
     3259730800, 3345764771, 3516065817, 3600352804, 4094571909, 275423344, 430227734,
     506948616, 659060556, 883997877, 958139571, 1322822218, 1537002063, 1747873779,
     1955562222, 2024104815, 2227730452, 2361852424, 2428436474, 2756734187, 3204031479,
     3329325298]"

definition sha_init :: "32 word list" where
  "sha_init = [1779033703, 3144134277, 1013904242, 2773480762, 1359893119, 2600822924, 528734635, 1541459225]"

definition sha_extend :: "32 word list \<Rightarrow> 32 word list" where
  \<comment> \<open>one more word of the message schedule\<close>
  "sha_extend ws =
     (let n = length ws; v1 = ws ! (n - 2); v2 = ws ! (n - 15);
          t1 = word_rotr 17 v1 XOR word_rotr 19 v1 XOR drop_bit 10 v1;
          t2 = word_rotr 7 v2 XOR word_rotr 18 v2 XOR drop_bit 3 v2
      in ws @ [t1 + ws ! (n - 7) + t2 + ws ! (n - 16)])"

fun sha_round :: "32 word list \<Rightarrow> 32 word \<times> 32 word \<Rightarrow> 32 word list" where
  "sha_round [a, b, c, d, e, f, g, h] (k, w) =
     (let t1 = h + (word_rotr 6 e XOR word_rotr 11 e XOR word_rotr 25 e) + ((e AND f) XOR (NOT e AND g)) + k + w;
          t2 = (word_rotr 2 a XOR word_rotr 13 a XOR word_rotr 22 a) + ((a AND b) XOR (a AND c) XOR (b AND c))
      in [t1 + t2, a, b, c, d + t1, e, f, g])"
| "sha_round s kw = s"

definition sha_block :: "32 word list \<Rightarrow> 32 word list \<Rightarrow> 32 word list" where
  "sha_block s block = map2 (+) s (foldl sha_round s (zip sha_K ((sha_extend ^^ 48) block)))"

fun sha_blocks :: "32 word list \<Rightarrow> 32 word list \<Rightarrow> 32 word list" where
  "sha_blocks s ws = (if ws = [] then s else sha_blocks (sha_block s (take 16 ws)) (drop 16 ws))"

declare sha_blocks.simps [simp del]

definition sha_pad :: "nat list \<Rightarrow> nat list" where
  "sha_pad bs = (let n = length bs in bs @ 128 # replicate ((119 - n mod 64) mod 64) 0 @ be_bytes 8 (n * 8))"

definition sha256 :: "nat list \<Rightarrow> nat list" where
  \<comment> \<open>\<open>h := sha256.New(); h.Write(bs); h.Sum(nil)\<close>\<close>
  "sha256 bs = concat (map (\<lambda>w. be_bytes 4 (unat w)) (sha_blocks sha_init (be_words (sha_pad bs))))"

section \<open>The padding fills whole blocks, the digest has 32 bytes\<close>

lemma length_be_bytes [simp]: "length (be_bytes k n) = k"
  by (induction k arbitrary: n) auto

lemma sha_pad_blocks: "64 dvd length (sha_pad bs)"
proof -
  define q r where "q = length bs div 64" and "r = length bs mod 64"
  have n: "length bs = 64 * q + r" and "r < 64" by (simp_all add: q_def r_def)
  then have "r + 9 + (119 - r) mod 64 \<in> {64, 128}"
    by (cases "r \<le> 55") (auto simp: mod_if)
  then have "64 dvd r + 9 + (119 - r) mod 64" by (elim insertE emptyE) (simp_all only: dvd_refl, simp)
  then have "64 dvd 64 * q + (r + 9 + (119 - r) mod 64)" by (rule dvd_add [OF dvd_triv_left])
  moreover have "length (sha_pad bs) = 64 * q + (r + 9 + (119 - r) mod 64)"
    using \<open>r < 64\<close> by (simp add: sha_pad_def Let_def n)
  ultimately show ?thesis by simp
qed

lemma length_sha_round: "length s = 8 \<Longrightarrow> length (sha_round s kw) = 8"
  by (cases "(s, kw)" rule: sha_round.cases) (auto simp: Let_def)

lemma length_sha_extend: "length ((sha_extend ^^ k) ws) = length ws + k"
  by (induction k) (auto simp: sha_extend_def Let_def)

lemma length_sha_block: "length s = 8 \<Longrightarrow> length (sha_block s b) = 8"
  using foldl_invariant [where I = "\<lambda>s. length s = 8" and f = sha_round and a = s] length_sha_round
  by (simp add: sha_block_def)

lemma length_sha_blocks: "length s = 8 \<Longrightarrow> length (sha_blocks s ws) = 8"
  by (induction s ws rule: sha_blocks.induct) (subst sha_blocks.simps, simp add: length_sha_block)

lemma length_sha256: "length (sha256 bs) = 32"
  using length_sha_blocks [of sha_init "be_words (sha_pad bs)"]
  by (simp add: sha256_def length_concat sha_init_def comp_def sum_list_triv)

lemma of_char_hex_digit: "n < 16 \<Longrightarrow> of_char (hex_digit n) = (if n < 10 then 48 + n else 87 + n)"
  by (simp add: hex_digit_def)

lemma hex_digit_inject: "m < 16 \<Longrightarrow> n < 16 \<Longrightarrow> hex_digit m = hex_digit n \<longleftrightarrow> m = n"
proof
  assume b: "m < 16" "n < 16" and "hex_digit m = hex_digit n"
  then have "(if m < 10 then 48 + m else 87 + m) = (if n < 10 then 48 + n else 87 + n)"
    using of_char_hex_digit by metis
  then show "m = n" using b by (simp split: if_splits)
qed simp

lemma hex_digit_not_hash: "n < 16 \<Longrightarrow> hex_digit n \<noteq> CHR ''#''"
proof
  assume "n < 16" and "hex_digit n = CHR ''#''"
  then have "(if n < 10 then 48 + n else 87 + n) = of_char (CHR ''#'')" using of_char_hex_digit by metis
  then show False by (simp split: if_splits)
qed

lemma hash_sign_notin_hex: "\<forall>b \<in> set bs. b < 256 \<Longrightarrow> CHR ''#'' \<notin> set (hex_bytes bs)"
proof (induction bs)
  case (Cons b bs)
  then have "b div 16 < 16" "b mod 16 < 16" by (simp_all add: less_mult_imp_div_less)
  with Cons show ?case
    using hex_digit_not_hash [of "b div 16"] hex_digit_not_hash [of "b mod 16"] by (auto simp: hex_bytes_def)
qed (simp add: hex_bytes_def)

lemma hex_bytes_inject:
  "\<forall>b \<in> set bs. b < 256 \<Longrightarrow> \<forall>b \<in> set cs. b < 256 \<Longrightarrow> hex_bytes bs = hex_bytes cs \<longleftrightarrow> bs = cs"
proof (induction bs arbitrary: cs)
  case Nil
  then show ?case by (cases cs) (auto simp: hex_bytes_def)
next
  case (Cons b bs)
  show ?case
  proof (cases cs)
    case Nil
    then show ?thesis by (simp add: hex_bytes_def)
  next
    case (Cons c ds)
    have "b div 16 = c div 16 \<Longrightarrow> b mod 16 = c mod 16 \<Longrightarrow> b = c" by (metis div_mult_mod_eq)
    moreover have "b div 16 < 16" "c div 16 < 16" using Cons Cons.prems by (simp_all add: less_mult_imp_div_less)
    moreover have "hex_bytes bs = hex_bytes ds \<longleftrightarrow> bs = ds" using Cons Cons.prems Cons.IH [of ds] by simp
    ultimately show ?thesis using Cons
      by (auto simp: hex_bytes_def hex_digit_inject)
  qed
qed

lemma be_bytes_bound: "b \<in> set (be_bytes k n) \<Longrightarrow> b < 256"
  by (induction k arbitrary: n) auto

lemma sha256_bytes: "\<forall>b \<in> set (sha256 bs). b < 256"
  by (auto simp: sha256_def dest: be_bytes_bound)

end
