(* ===== verification/Session.thy ===== *)
theory Session
  imports Go_Netip Go_Sha256
begin

text \<open>
  The cache of vCenter sessions, \<open>pkg/session/session.go\<close>.

  A session is a pair of logins at one vCenter: a SOAP login (\<open>govmomi.Client\<close>) and a REST login (the
  \<open>tags.Manager\<close>). Clients are objects behind pointers; here a client is its number in the order of
  creation, and the REST client made from it has the same number. The package's variable
  \<open>sessionCache\<close> is a field of the state. \<open>GetOrCreate\<close> runs under \<open>sessionMU\<close>, so its
  runs are sequential. As in theory \<open>Vim\<close>, the requests made are recorded and an answer is any
  function of the requests so far; \<open>soap.ParseURL\<close> of govmomi is a parameter.
\<close>

section \<open>Data\<close>

record Userinfo =
  ui_Username :: string
  ui_Password :: string

record URL =
  url_Host :: string
  url_User :: "Userinfo option"

record Params =
  pa_server :: string
  pa_datacenter :: string
  pa_userinfo :: "Userinfo option"
  pa_thumbprint :: string

record Session =
  se_Client :: "nat option" \<comment> \<open>\<open>None\<close>: the embedded client is nil\<close>
  se_TagManager :: nat
  se_datacenter :: "string option" \<comment> \<open>the reference of the datacenter, of which the finder is told too\<close>

datatype session_call =
    Vim_NewClient nat URL "string option" \<comment> \<open>the client, the URL, the thumbprint of the host if it is checked\<close>
  | Vim_Login nat "Userinfo option"
  | Vim_UserSession nat
  | Vim_Logout nat
  | Rest_Login nat "Userinfo option"
  | Rest_Session nat
  | Rest_Logout nat
  | Session_Datacenter nat string
  | Session_FindByUuid nat "string option" string bool \<comment> \<open>client, datacenter, UUID, whether it is the instance UUID\<close>

record session_ext =
  s_ParseURL :: "string \<Rightarrow> go_error + URL option" \<comment> \<open>\<open>soap.ParseURL\<close>\<close>
  s_unit :: "session_call list \<Rightarrow> go_error + unit"
  s_active :: "session_call list \<Rightarrow> go_error + bool" \<comment> \<open>whether the session returned is not nil\<close>
  s_ref :: "session_call list \<Rightarrow> go_error + string"
  s_ref_opt :: "session_call list \<Rightarrow> go_error + string option"

record session_state =
  s_hist :: "session_call list"
  s_clients :: nat \<comment> \<open>how many clients were created\<close>
  sessionCache :: "string \<rightharpoonup> Session"

definition s_call :: "session_call \<Rightarrow> (session_call list \<Rightarrow> 'r) \<Rightarrow> session_state \<Rightarrow> 'r \<times> session_state" where
  "s_call c f s = (f (s_hist s @ [c]), s\<lparr>s_hist := s_hist s @ [c]\<rparr>)"

section \<open>Parameters\<close>

definition NewParams :: Params where
  "NewParams = \<lparr>pa_server = '''', pa_datacenter = '''', pa_userinfo = None, pa_thumbprint = ''''\<rparr>"

definition WithServer :: "Params \<Rightarrow> string \<Rightarrow> Params" where
  "WithServer p server = p\<lparr>pa_server := server\<rparr>"

definition WithDatacenter :: "Params \<Rightarrow> string \<Rightarrow> Params" where
  "WithDatacenter p datacenter = p\<lparr>pa_datacenter := datacenter\<rparr>"

definition WithUserInfo :: "Params \<Rightarrow> string \<Rightarrow> string \<Rightarrow> Params" where
  "WithUserInfo p username password = p\<lparr>pa_userinfo := Some \<lparr>ui_Username = username, ui_Password = password\<rparr>\<rparr>"

definition WithThumbprint :: "Params \<Rightarrow> string \<Rightarrow> Params" where
  "WithThumbprint p thumbprint = p\<lparr>pa_thumbprint := thumbprint\<rparr>"

text \<open>\<open>Username\<close> and \<open>Password\<close> of \<open>net/url\<close> answer the empty string for a nil user.\<close>

definition Username :: "Userinfo option \<Rightarrow> string" where
  "Username u = (case u of None \<Rightarrow> '''' | Some i \<Rightarrow> ui_Username i)"

definition Password :: "Userinfo option \<Rightarrow> string" where
  "Password u = (case u of None \<Rightarrow> '''' | Some i \<Rightarrow> ui_Password i)"

definition sessionKey :: "Params \<Rightarrow> string" where
  "sessionKey p = pa_server p @ ''#'' @ pa_datacenter p @ ''#'' @ Username (pa_userinfo p) @ ''#'' @
     hex_bytes (sha256 (bytes_of (Password (pa_userinfo p))))"

definition urlSafeServer :: "string \<Rightarrow> string" where
  "urlSafeServer server = (case ParseAddr server of Some ip \<Rightarrow> if Is6 ip then ''['' @ server @ '']'' else server | None \<Rightarrow> server)"

section \<open>Logging in\<close>

definition newClient :: "session_ext \<Rightarrow> URL \<Rightarrow> string \<Rightarrow> session_state \<Rightarrow> (go_error + nat) \<times> session_state" where
  "newClient x url thumbprint s =
     (let insecure = thumbprint = ''''; c = s_clients s; s = s\<lparr>s_clients := Suc c\<rparr> in
      bindE (wrapE ''failed to create client'' []
        (s_call (Vim_NewClient c url (if insecure then None else Some thumbprint)) (s_unit x) s)) (\<lambda>_ s.
      bindE (wrapE ''failed to create client: failed to login'' [] (s_call (Vim_Login c (url_User url)) (s_unit x) s)) (\<lambda>_ s.
      returnE c s)))"

definition newManager :: "session_ext \<Rightarrow> nat \<Rightarrow> Userinfo option \<Rightarrow> session_state \<Rightarrow> (go_error + nat) \<times> session_state" where
  "newManager x client user s =
     bindE (wrapE ''failed to create tags manager: failed to login REST client'' [] (s_call (Rest_Login client user) (s_unit x) s)) (\<lambda>_ s.
     returnE client s)"

section \<open>\<open>GetOrCreate\<close>\<close>

text \<open>The branch on a cached session: \<open>True\<close> if it is active, otherwise both logins are given back. Errors are only logged.\<close>

definition check_cached :: "session_ext \<Rightarrow> nat \<Rightarrow> nat \<Rightarrow> session_state \<Rightarrow> bool \<times> session_state" where
  "check_cached x client manager s =
     (let (userSession, s) = s_call (Vim_UserSession client) (s_active x) s;
          (tagManagerSession, s) = s_call (Rest_Session manager) (s_active x) s
      in if userSession = Inr True \<and> tagManagerSession = Inr True then (True, s)
         else let (_, s) = s_call (Rest_Logout manager) (s_unit x) s;
                  (_, s) = s_call (Vim_Logout client) (s_unit x) s
              in (False, s))"

definition complete_session :: "session_ext \<Rightarrow> Params \<Rightarrow> nat \<Rightarrow> session_state \<Rightarrow> (go_error + Session) \<times> session_state" where
  \<comment> \<open>the part of \<open>GetOrCreate\<close> after the client has logged in\<close>
  "complete_session x p client s =
     (case newManager x client (pa_userinfo p) s of
        (Inl e, s) \<Rightarrow>
          let (_, s) = s_call (Vim_Logout client) (s_unit x) s
          in failE (Wrapf e ''failed to create vCenter session: failed to create tags manager'' []) s
      | (Inr manager, s) \<Rightarrow>
          let session = \<lparr>se_Client = Some client, se_TagManager = manager, se_datacenter = None\<rparr>;
              store = (\<lambda>session s. returnE session (s\<lparr>sessionCache := (sessionCache s)(sessionKey p \<mapsto> session)\<rparr>))
          in if pa_datacenter p \<noteq> '''' then
               (case s_call (Session_Datacenter client (pa_datacenter p)) (s_ref x) s of
                  (Inl e, s) \<Rightarrow>
                    let (_, s) = s_call (Rest_Logout manager) (s_unit x) s;
                        (_, s) = s_call (Vim_Logout client) (s_unit x) s
                    in failE (Wrapf e ''failed to create vCenter session: failed to find datacenter %q'' [pa_datacenter p]) s
                | (Inr dc, s) \<Rightarrow> store (session\<lparr>se_datacenter := Some dc\<rparr>) s)
             else store session s)"

definition create_session :: "session_ext \<Rightarrow> Params \<Rightarrow> session_state \<Rightarrow> (go_error + Session) \<times> session_state" where
  \<comment> \<open>the part of \<open>GetOrCreate\<close> after the look into the cache\<close>
  "create_session x p s =
     (case s_ParseURL x (urlSafeServer (pa_server p)) of
        Inl e \<Rightarrow> failE (Wrapf e ''failed to create vCenter session: error parsing vSphere URL %q'' [pa_server p]) s
      | Inr None \<Rightarrow> failE (Errorf ''failed to create vCenter session: error parsing vSphere URL %q: URL is nil'' [pa_server p]) s
      | Inr (Some url) \<Rightarrow>
          bindE (wrapE ''failed to create vCenter session'' [] (newClient x (url\<lparr>url_User := pa_userinfo p\<rparr>) (pa_thumbprint p) s)) (\<lambda>client s.
          complete_session x p client s))"

definition GetOrCreate :: "session_ext \<Rightarrow> Params \<Rightarrow> session_state \<Rightarrow> (go_error + Session) \<times> session_state" where
  "GetOrCreate x p s =
     (case sessionCache s (sessionKey p) of
        None \<Rightarrow> create_session x p s
      | Some session \<Rightarrow>
          (case se_Client session of
             None \<Rightarrow> failE (Panic ''nil pointer dereference'') s
           | Some client \<Rightarrow>
               let (active, s) = check_cached x client (se_TagManager session) s
               in if active then returnE session s else create_session x p s))"

section \<open>\<open>Clear\<close> and the search by UUID\<close>

text \<open>
  \<open>Range\<close> of \<open>sync.Map\<close> visits the entries in no particular order: the keys it visits are an argument.
  A stored session always has a client.
\<close>

definition Clear_entry :: "session_ext \<Rightarrow> session_state \<Rightarrow> string \<Rightarrow> session_state" where
  "Clear_entry x s k =
     (case sessionCache s k of
        None \<Rightarrow> s
      | Some session \<Rightarrow>
          (case se_Client session of None \<Rightarrow> s | Some client \<Rightarrow> snd (s_call (Vim_Logout client) (s_unit x) s)))"

definition Clear :: "session_ext \<Rightarrow> string list \<Rightarrow> session_state \<Rightarrow> session_state" where
  "Clear x keys s = foldl (Clear_entry x) s keys"

definition findByUUID :: "session_ext \<Rightarrow> Session \<Rightarrow> string \<Rightarrow> bool \<Rightarrow> session_state \<Rightarrow> (go_error + string option) \<times> session_state" where
  "findByUUID x session uuid findByInstanceUUID s =
     (case se_Client session of
        None \<Rightarrow> failE (Errorf ''vSphere client is not initialized'' []) s
      | Some client \<Rightarrow> wrapE ''error finding object by uuid %q'' [uuid]
          (s_call (Session_FindByUuid client (se_datacenter session) uuid findByInstanceUUID) (s_ref_opt x) s))"

definition session_FindByBIOSUUID :: "session_ext \<Rightarrow> Session \<Rightarrow> string \<Rightarrow> session_state \<Rightarrow> (go_error + string option) \<times> session_state" where
  "session_FindByBIOSUUID x session uuid = findByUUID x session uuid False"

definition session_FindByInstanceUUID :: "session_ext \<Rightarrow> Session \<Rightarrow> string \<Rightarrow> session_state \<Rightarrow> (go_error + string option) \<times> session_state" where
  "session_FindByInstanceUUID x session uuid = findByUUID x session uuid True"

end
