(* ===== verification/Session_Correct.thy ===== *)
theory Session_Correct
  imports Session
begin

text \<open>
  The session cache of \<open>pkg/session/session.go\<close>: which logins at vCenter are open after any
  sequence of its operations, whose session a caller gets, and what \<open>Clear\<close> leaves.
\<close>

section \<open>Open logins\<close>

datatype login = VimLogin nat | RestLogin nat

text \<open>
  From the list of requests and their answers: the logins that succeeded and that no successful logout has
  ended since, and the logins for which vCenter answered a logout with an error.
\<close>

fun login_effect :: "bool \<Rightarrow> session_call \<Rightarrow> login set \<Rightarrow> login set" where
  "login_effect ok (Vim_Login c u) L = (if ok then insert (VimLogin c) L else L)"
| "login_effect ok (Rest_Login c u) L = (if ok then insert (RestLogin c) L else L)"
| "login_effect ok (Vim_Logout c) L = (if ok then L - {VimLogin c} else L)"
| "login_effect ok (Rest_Logout c) L = (if ok then L - {RestLogin c} else L)"
| "login_effect ok _ L = L"

fun logout_refused :: "bool \<Rightarrow> session_call \<Rightarrow> login set" where
  "logout_refused ok (Vim_Logout c) = (if ok then {} else {VimLogin c})"
| "logout_refused ok (Rest_Logout c) = (if ok then {} else {RestLogin c})"
| "logout_refused ok _ = {}"

fun open_rev :: "session_ext \<Rightarrow> session_call list \<Rightarrow> login set" where
  "open_rev x [] = {}"
| "open_rev x (c # r) = login_effect (s_unit x (rev (c # r)) = Inr ()) c (open_rev x r)"

fun refused_rev :: "session_ext \<Rightarrow> session_call list \<Rightarrow> login set" where
  "refused_rev x [] = {}"
| "refused_rev x (c # r) = logout_refused (s_unit x (rev (c # r)) = Inr ()) c \<union> refused_rev x r"

definition refused_logouts :: "session_ext \<Rightarrow> session_state \<Rightarrow> login set" where
  \<comment> \<open>the logins for which a logout failed\<close>
  "refused_logouts x s = refused_rev x (rev (s_hist s))"

definition open_logins :: "session_ext \<Rightarrow> session_state \<Rightarrow> login set" where
  "open_logins x s = open_rev x (rev (s_hist s))"

definition held_by :: "Session \<Rightarrow> login set" where
  "held_by session = (case se_Client session of None \<Rightarrow> {} | Some c \<Rightarrow> {VimLogin c}) \<union> {RestLogin (se_TagManager session)}"

definition held_logins :: "session_state \<Rightarrow> login set" where
  "held_logins s = (\<Union>session \<in> ran (sessionCache s). held_by session)"

definition kept_logins :: "session_ext \<Rightarrow> session_state \<Rightarrow> login set" where
  \<comment> \<open>the open logins that nobody tried to end in vain\<close>
  "kept_logins x s = open_logins x s - refused_logouts x s"

lemma open_logins_update [simp]:
  "open_logins x (s\<lparr>sessionCache := m\<rparr>) = open_logins x s"
  "open_logins x (s\<lparr>s_clients := n\<rparr>) = open_logins x s"
  by (simp_all add: open_logins_def)

lemma refused_logouts_update [simp]:
  "refused_logouts x (s\<lparr>sessionCache := m\<rparr>) = refused_logouts x s"
  "refused_logouts x (s\<lparr>s_clients := n\<rparr>) = refused_logouts x s"
  by (simp_all add: refused_logouts_def)

lemmas login_defs = kept_logins_def open_logins_def refused_logouts_def

lemma s_call_eq: "s_call c f s = (r, s') \<longleftrightarrow> f (s_hist s @ [c]) = r \<and> s' = s\<lparr>s_hist := s_hist s @ [c]\<rparr>"
  by (auto simp: s_call_def)

lemmas session_simps = s_call_eq returnE_def failE_def bindE_eq_Inl bindE_eq_Inr wrapE_eq_Inl wrapE_eq_Inr

section \<open>What an operation does to the cache and to the open logins\<close>

lemma newClient_Inl:
  assumes "newClient x url t s = (Inl e, s')"
  shows "sessionCache s' = sessionCache s \<and> kept_logins x s' = kept_logins x s \<and> (\<exists>q. s_hist s' = s_hist s @ q)"
  using assms by (auto simp: newClient_def Let_def session_simps login_defs)

lemma newClient_Inr:
  assumes "newClient x url t s = (Inr c, s')"
  shows "sessionCache s' = sessionCache s \<and> open_logins x s' = insert (VimLogin c) (open_logins x s) \<and>
      refused_logouts x s' = refused_logouts x s \<and> s_hist s' = s_hist s @ [Vim_NewClient c url (if t = '''' then None else Some t), Vim_Login c (url_User url)]"
  using assms by (auto simp: newClient_def Let_def session_simps login_defs)

lemma newManager_Inl:
  assumes "newManager x c u s = (Inl e, s')"
  shows "sessionCache s' = sessionCache s \<and> s_unit x (s_hist s @ [Rest_Login c u]) \<noteq> Inr () \<and>
      s_hist s' = s_hist s @ [Rest_Login c u]"
  using assms by (auto simp: newManager_def session_simps open_logins_def)

lemma newManager_Inr:
  assumes "newManager x c u s = (Inr m, s')"
  shows "sessionCache s' = sessionCache s \<and> s_unit x (s_hist s @ [Rest_Login c u]) = Inr () \<and>
      s_hist s' = s_hist s @ [Rest_Login c u] \<and> m = c"
  using assms by (auto simp: newManager_def session_simps open_logins_def)

lemma complete_session_Inl:
  assumes "complete_session x p c s = (Inl e, s')"
  shows "sessionCache s' = sessionCache s \<and> kept_logins x s' \<subseteq> kept_logins x s - {VimLogin c} \<and>
      (\<exists>q. s_hist s' = s_hist s @ q)"
proof (cases "newManager x c (pa_userinfo p) s")
  case (Pair r t)
  show ?thesis
  proof (cases r)
    case (Inl d)
    with Pair have m: "newManager x c (pa_userinfo p) s = (Inl d, t)" by simp
    from newManager_Inl [OF m] assms show ?thesis
      by (auto simp: m complete_session_def session_simps s_call_def Let_def login_defs split: if_splits)
  next
    case (Inr m)
    with Pair have n: "newManager x c (pa_userinfo p) s = (Inr m, t)" by simp
    from newManager_Inr [OF n] assms show ?thesis
      by (auto simp: n complete_session_def session_simps s_call_def Let_def login_defs split: sum.splits if_splits)
  qed
qed

text \<open>A session that a run of \<open>GetOrCreate\<close> with the parameters \<open>p\<close> makes, from the requests of that run.\<close>

definition made_for :: "session_ext \<Rightarrow> Params \<Rightarrow> Session \<Rightarrow> session_call list \<Rightarrow> bool" where
  "made_for x p session h \<longleftrightarrow> (\<exists>c url q.
     s_ParseURL x (urlSafeServer (pa_server p)) = Inr (Some url) \<and> se_Client session = Some c \<and> se_TagManager session = c \<and>
     h = [Vim_NewClient c (url\<lparr>url_User := pa_userinfo p\<rparr>) (if pa_thumbprint p = '''' then None else Some (pa_thumbprint p)),
          Vim_Login c (pa_userinfo p), Rest_Login c (pa_userinfo p)] @ q \<and>
     (pa_datacenter p = '''' \<and> q = [] \<and> se_datacenter session = None \<or>
      pa_datacenter p \<noteq> '''' \<and> q = [Session_Datacenter c (pa_datacenter p)] \<and> se_datacenter session \<noteq> None))"

lemma complete_session_Inr:
  assumes "complete_session x p c s = (Inr session, s')"
  shows "sessionCache s' = (sessionCache s)(sessionKey p \<mapsto> session) \<and> open_logins x s' = insert (RestLogin c) (open_logins x s) \<and>
      refused_logouts x s' = refused_logouts x s \<and> se_Client session = Some c \<and> se_TagManager session = c \<and>
      (\<exists>q. s_hist s' = s_hist s @ Rest_Login c (pa_userinfo p) # q \<and>
        (pa_datacenter p = '''' \<and> q = [] \<and> se_datacenter session = None \<or>
         pa_datacenter p \<noteq> '''' \<and> q = [Session_Datacenter c (pa_datacenter p)] \<and> se_datacenter session \<noteq> None))"
proof (cases "newManager x c (pa_userinfo p) s")
  case (Pair r t)
  show ?thesis
  proof (cases r)
    case (Inl d)
    with Pair have m: "newManager x c (pa_userinfo p) s = (Inl d, t)" by simp
    from newManager_Inl [OF m] assms show ?thesis
      by (auto simp: m complete_session_def session_simps s_call_def Let_def login_defs split: if_splits)
  next
    case (Inr m)
    with Pair have n: "newManager x c (pa_userinfo p) s = (Inr m, t)" by simp
    from newManager_Inr [OF n] assms show ?thesis
      by (auto simp: n complete_session_def session_simps s_call_def Let_def login_defs split: sum.splits if_splits)
  qed
qed

lemma create_session_Inl:
  assumes "create_session x p s = (Inl e, s')"
  shows "sessionCache s' = sessionCache s \<and> kept_logins x s' \<subseteq> kept_logins x s \<and> (\<exists>q. s_hist s' = s_hist s @ q)"
  using assms
  by (auto simp: create_session_def session_simps kept_logins_def [of _ s] split: sum.splits option.splits
      dest!: newClient_Inl newClient_Inr complete_session_Inl) (auto simp: kept_logins_def)

lemma create_session_Inr:
  assumes "create_session x p s = (Inr session, s')"
  shows "sessionCache s' = (sessionCache s)(sessionKey p \<mapsto> session) \<and> open_logins x s' = held_by session \<union> open_logins x s \<and>
     refused_logouts x s' = refused_logouts x s \<and> (\<exists>h. s_hist s' = s_hist s @ h \<and> made_for x p session h)"
  using assms
  by (auto simp: create_session_def session_simps held_by_def made_for_def split: sum.splits option.splits
      dest!: newClient_Inr complete_session_Inr)

lemma check_cached_result:
  assumes "check_cached x c m s = (active, s')"
  shows "sessionCache s' = sessionCache s \<and>
    (active \<and> kept_logins x s' = kept_logins x s \<and> s_hist s' = s_hist s @ [Vim_UserSession c, Rest_Session m] \<and>
       s_active x (s_hist s @ [Vim_UserSession c]) = Inr True \<and> s_active x (s_hist s @ [Vim_UserSession c, Rest_Session m]) = Inr True \<or>
     \<not> active \<and> kept_logins x s' = kept_logins x s - {VimLogin c, RestLogin m} \<and>
       s_hist s' = s_hist s @ [Vim_UserSession c, Rest_Session m, Rest_Logout m, Vim_Logout c])"
  using assms by (auto simp: check_cached_def s_call_def Let_def login_defs split: if_splits)

lemma Clear_entry_state: "sessionCache (Clear_entry x s k) = sessionCache s" "s_clients (Clear_entry x s k) = s_clients s"
  by (simp_all add: Clear_entry_def s_call_def split: option.split)

lemma kept_logins_Clear_entry:
  "kept_logins x (Clear_entry x s k) =
     kept_logins x s - (case sessionCache s k of None \<Rightarrow> {} | Some session \<Rightarrow> VimLogin ` set_option (se_Client session))"
  by (auto simp: Clear_entry_def s_call_def login_defs split: option.split if_splits)

lemma Clear_state: "sessionCache (Clear x keys s) = sessionCache s"
  unfolding Clear_def by (induction keys arbitrary: s) (simp_all add: Clear_entry_state)

lemma kept_logins_Clear:
  "kept_logins x (Clear x keys s) =
     kept_logins x s - (\<Union>k \<in> set keys. case sessionCache s k of None \<Rightarrow> {} | Some session \<Rightarrow> VimLogin ` set_option (se_Client session))"
  unfolding Clear_def
  by (induction keys arbitrary: s) (simp_all add: Clear_entry_state kept_logins_Clear_entry Diff_eq Int_assoc)

section \<open>The life of the cache\<close>

text \<open>Everything the process does with the package: sessions are asked for, VMs are searched, the cache is cleared.\<close>

inductive session_life :: "session_ext \<Rightarrow> session_state \<Rightarrow> bool" for x where
  start: "session_life x \<lparr>s_hist = [], s_clients = 0, sessionCache = Map.empty\<rparr>"
| get: "session_life x s \<Longrightarrow> session_life x (snd (GetOrCreate x p s))"
| clear: "session_life x s \<Longrightarrow> session_life x (Clear x keys s)"
| search: "session_life x s \<Longrightarrow> session_life x (snd (findByUUID x session uuid b s))"

definition session_inv :: "session_ext \<Rightarrow> session_state \<Rightarrow> bool" where
  "session_inv x s \<longleftrightarrow> kept_logins x s \<subseteq> held_logins s \<and>
     (\<forall>k session. sessionCache s k = Some session \<longrightarrow> se_Client session = Some (se_TagManager session))"

lemma held_logins_iff: "l \<in> held_logins s \<longleftrightarrow> (\<exists>k session. sessionCache s k = Some session \<and> l \<in> held_by session)"
  by (auto simp: held_logins_def ran_def)

lemma held_logins_stored:
  assumes "sessionCache s' = (sessionCache s)(k \<mapsto> session)"
  shows "held_by session \<union> (held_logins s - \<Union> (held_by ` set_option (sessionCache s k))) \<subseteq> held_logins s'"
proof
  fix l
  assume l: "l \<in> held_by session \<union> (held_logins s - \<Union> (held_by ` set_option (sessionCache s k)))"
  show "l \<in> held_logins s'"
  proof (cases "l \<in> held_by session")
    case True
    with assms show ?thesis unfolding held_logins_iff by (intro exI [of _ k] exI [of _ session]) simp
  next
    case False
    with l obtain k' session' where k': "sessionCache s k' = Some session'" "l \<in> held_by session'" by (auto simp: held_logins_iff)
    with l False have "k' \<noteq> k" by auto
    with k' assms show ?thesis unfolding held_logins_iff by (intro exI [of _ k'] exI [of _ session']) simp
  qed
qed

lemma create_session_inv_Inl:
  assumes "session_inv x s" and "sessionCache t = sessionCache s" and "kept_logins x t \<subseteq> kept_logins x s"
    and "create_session x p t = (Inl e, s')"
  shows "session_inv x s'"
  using create_session_Inl [OF assms(4)] assms(1-3) by (auto simp: session_inv_def held_logins_def)

lemma made_for_client: "made_for x p session h \<Longrightarrow> se_Client session = Some (se_TagManager session)"
  by (auto simp: made_for_def)

lemma GetOrCreate_cases:
  assumes "session_inv x s" and "GetOrCreate x p s = (r, s')"
  obtains
    (hit) session c where "sessionCache s (sessionKey p) = Some session" "se_Client session = Some c" "check_cached x c c s = (True, s')"
      "r = Inr session"
  | (miss) "sessionCache s (sessionKey p) = None" "create_session x p s = (r, s')"
  | (stale) session c t where "sessionCache s (sessionKey p) = Some session" "se_Client session = Some c" "se_TagManager session = c"
      "check_cached x c c s = (False, t)" "create_session x p t = (r, s')"
proof (cases "sessionCache s (sessionKey p)")
  case None
  with assms(2) show ?thesis using miss by (simp add: GetOrCreate_def)
next
  case (Some session)
  with assms(1) have c: "se_Client session = Some (se_TagManager session)" by (simp add: session_inv_def)
  obtain b t where t: "check_cached x (se_TagManager session) (se_TagManager session) s = (b, t)" by fastforce
  show ?thesis
  proof (cases b)
    case True
    with Some c t assms(2) show ?thesis by (intro hit [OF Some c]) (auto simp: GetOrCreate_def returnE_def)
  next
    case False
    with Some c t assms(2) show ?thesis by (intro stale [OF Some c refl]) (auto simp: GetOrCreate_def)
  qed
qed

lemma GetOrCreate_inv:
  assumes inv: "session_inv x s" and run: "GetOrCreate x p s = (r, s')"
  shows "session_inv x s'"
  using inv run
proof (cases rule: GetOrCreate_cases)
  case (hit session c)
  then show ?thesis using inv check_cached_result [of x c c s True s'] by (simp add: session_inv_def held_logins_def)
next
  case miss
  show ?thesis
  proof (cases r)
    case (Inl e)
    with miss inv show ?thesis by (auto intro: create_session_inv_Inl)
  next
    case (Inr session)
    note res = create_session_Inr [OF miss(2) [unfolded Inr]]
    have "held_by session \<union> held_logins s \<subseteq> held_logins s'"
      using held_logins_stored [of s' s "sessionKey p" session] res miss(1) by simp
    with res inv show ?thesis by (auto simp: session_inv_def kept_logins_def dest: made_for_client)
  qed
next
  case (stale old c t)
  note chk = check_cached_result [OF stale(4)]
  show ?thesis
  proof (cases r)
    case (Inl e)
    have "sessionCache t = sessionCache s" "kept_logins x t \<subseteq> kept_logins x s" using chk by blast+
    then show ?thesis using create_session_inv_Inl [OF inv _ _ stale(5) [unfolded Inl]] by blast
  next
    case (Inr session)
    note res = create_session_Inr [OF stale(5) [unfolded Inr]]
    have old: "held_by old = {VimLogin c, RestLogin c}" using stale(2,3) by (auto simp: held_by_def)
    have "held_logins t = held_logins s" using chk by (simp add: held_logins_def)
    then have "held_by session \<union> (held_logins s - {VimLogin c, RestLogin c}) \<subseteq> held_logins s'"
      using held_logins_stored [of s' t "sessionKey p" session] res stale(1) chk old by simp
    moreover have "kept_logins x t = kept_logins x s - {VimLogin c, RestLogin c}" using chk by blast
    then have "kept_logins x t \<subseteq> held_logins s - {VimLogin c, RestLogin c}" using inv unfolding session_inv_def by blast
    ultimately have "kept_logins x s' \<subseteq> held_logins s'" using res by (auto simp: kept_logins_def)
    moreover have "sessionCache s' = (sessionCache s)(sessionKey p \<mapsto> session)" "se_Client session = Some (se_TagManager session)"
      using res chk made_for_client by auto
    ultimately show ?thesis using inv by (auto simp: session_inv_def)
  qed
qed

lemma session_life_inv: "session_life x s \<Longrightarrow> session_inv x s"
proof (induction rule: session_life.induct)
  case start
  then show ?case by (simp add: session_inv_def login_defs)
next
  case (get s p)
  then show ?case using GetOrCreate_inv by (metis prod.collapse)
next
  case (clear s keys)
  then show ?case by (auto simp: session_inv_def Clear_state kept_logins_Clear held_logins_def)
next
  case (search s session uuid b)
  then show ?case
    by (auto simp: session_inv_def findByUUID_def failE_def s_call_def login_defs held_logins_def split: option.split)
qed

section \<open>Whose session it is\<close>

definition no_hash :: "Params \<Rightarrow> bool" where
  "no_hash p \<longleftrightarrow> CHR ''#'' \<notin> set (pa_server p) \<and> CHR ''#'' \<notin> set (pa_datacenter p) \<and> CHR ''#'' \<notin> set (Username (pa_userinfo p))"

lemma split_first_unique:
  "xs @ c # ys = xs' @ c # ys' \<Longrightarrow> c \<notin> set xs \<Longrightarrow> c \<notin> set xs' \<Longrightarrow> xs = xs' \<and> ys = ys'"
  by (auto simp: append_eq_append_conv2 append_eq_Cons_conv Cons_eq_append_conv)

lemma count_list_append: "count_list (xs @ ys) c = count_list xs c + count_list ys c"
  by (induction xs) auto

lemma count_hash_sessionKey:
  "count_list (sessionKey p) (CHR ''#'') =
     3 + count_list (pa_server p) (CHR ''#'') + count_list (pa_datacenter p) (CHR ''#'') + count_list (Username (pa_userinfo p)) (CHR ''#'')"
proof -
  have "count_list (hex_bytes (sha256 (bytes_of (Password (pa_userinfo p))))) (CHR ''#'') = 0"
    using hash_sign_notin_hex [OF sha256_bytes] by (simp add: count_list_0_iff)
  then show ?thesis by (simp add: sessionKey_def count_list_append)
qed

lemma sessionKey_inject:
  assumes "sessionKey p' = sessionKey p" and "no_hash p"
  shows "pa_server p' = pa_server p \<and> pa_datacenter p' = pa_datacenter p \<and> Username (pa_userinfo p') = Username (pa_userinfo p) \<and>
    sha256 (bytes_of (Password (pa_userinfo p'))) = sha256 (bytes_of (Password (pa_userinfo p)))"
proof -
  have "no_hash p'"
    using count_hash_sessionKey [of p] count_hash_sessionKey [of p'] assms by (simp add: no_hash_def count_list_0_iff)
  note n = this [unfolded no_hash_def] assms(2) [unfolded no_hash_def]
  note key = assms(1) [unfolded sessionKey_def]
  from key have 1: "pa_server p' = pa_server p"
    and k2: "pa_datacenter p' @ CHR ''#'' # Username (pa_userinfo p') @ CHR ''#'' # hex_bytes (sha256 (bytes_of (Password (pa_userinfo p')))) =
      pa_datacenter p @ CHR ''#'' # Username (pa_userinfo p) @ CHR ''#'' # hex_bytes (sha256 (bytes_of (Password (pa_userinfo p))))"
    using split_first_unique [of "pa_server p'" "CHR ''#''" _ "pa_server p"] n by auto
  from k2 have 2: "pa_datacenter p' = pa_datacenter p"
    and k3: "Username (pa_userinfo p') @ CHR ''#'' # hex_bytes (sha256 (bytes_of (Password (pa_userinfo p')))) =
      Username (pa_userinfo p) @ CHR ''#'' # hex_bytes (sha256 (bytes_of (Password (pa_userinfo p))))"
    using split_first_unique [of "pa_datacenter p'" "CHR ''#''" _ "pa_datacenter p"] n by auto
  from k3 have 3: "Username (pa_userinfo p') = Username (pa_userinfo p)"
    and "hex_bytes (sha256 (bytes_of (Password (pa_userinfo p')))) = hex_bytes (sha256 (bytes_of (Password (pa_userinfo p))))"
    using split_first_unique [of "Username (pa_userinfo p')" "CHR ''#''" _ "Username (pa_userinfo p)"] n by auto
  then have "sha256 (bytes_of (Password (pa_userinfo p'))) = sha256 (bytes_of (Password (pa_userinfo p)))"
    using hex_bytes_inject [OF sha256_bytes sha256_bytes] by simp
  with 1 2 3 show ?thesis by simp
qed

definition cache_origin :: "session_ext \<Rightarrow> session_state \<Rightarrow> bool" where
  "cache_origin x s \<longleftrightarrow> (\<forall>k session. sessionCache s k = Some session \<longrightarrow>
     (\<exists>p h. sessionKey p = k \<and> sublist h (s_hist s) \<and> made_for x p session h))"

lemma cache_origin_mono:
  "cache_origin x s \<Longrightarrow> sessionCache s' = sessionCache s \<Longrightarrow> s_hist s' = s_hist s @ q \<Longrightarrow> cache_origin x s'"
  unfolding cache_origin_def by (metis sublist_append)

lemma cache_origin_create:
  assumes "cache_origin x s" and "create_session x p s = (r, s')"
  shows "cache_origin x s'"
proof (cases r)
  case (Inl e)
  with assms create_session_Inl [of x p s e s'] show ?thesis using cache_origin_mono by blast
next
  case (Inr session)
  note res = create_session_Inr [OF assms(2) [unfolded Inr]]
  show ?thesis
    unfolding cache_origin_def
  proof (intro allI impI)
    fix k new
    assume k: "sessionCache s' k = Some new"
    obtain h where h: "s_hist s' = s_hist s @ h" "made_for x p session h" using res by blast
    show "\<exists>p h. sessionKey p = k \<and> sublist h (s_hist s') \<and> made_for x p new h"
    proof (cases "k = sessionKey p")
      case True
      with k res have "new = session" by simp
      with h True show ?thesis by (metis sublist_append_leftI sublist_order.order_refl)
    next
      case False
      with k res have "sessionCache s k = Some new" by simp
      then obtain p' h' where "sessionKey p' = k" "sublist h' (s_hist s)" "made_for x p' new h'"
        using assms(1) unfolding cache_origin_def by blast
      then show ?thesis using h(1) by (metis sublist_append_rightI sublist_order.order_trans)
    qed
  qed
qed

lemma cache_origin_run:
  assumes "session_inv x s" and "cache_origin x s" and "GetOrCreate x p s = (r, s')"
  shows "cache_origin x s'"
  using assms(1,3)
proof (cases rule: GetOrCreate_cases)
  case (hit session c)
  from check_cached_result [OF hit(3)] assms(2) show ?thesis using cache_origin_mono by blast
next
  case miss
  from cache_origin_create [OF assms(2) miss(2)] show ?thesis .
next
  case (stale old c t)
  from check_cached_result [OF stale(4)] assms(2) have "cache_origin x t" using cache_origin_mono by blast
  from cache_origin_create [OF this stale(5)] show ?thesis .
qed

lemma session_life_origin: "session_life x s \<Longrightarrow> cache_origin x s"
proof (induction rule: session_life.induct)
  case start
  then show ?case by (simp add: cache_origin_def)
next
  case (get s p)
  then show ?case using cache_origin_run session_life_inv by (metis prod.collapse)
next
  case (clear s keys)
  have "\<exists>q. s_hist (Clear x keys s) = s_hist s @ q"
    unfolding Clear_def
  proof (induction keys arbitrary: s)
    case (Cons k ks)
    have "s_hist (Clear_entry x s k) \<in> {s_hist s, s_hist s @ [Vim_Logout (the (se_Client (the (sessionCache s k))))]}"
      by (simp add: Clear_entry_def s_call_def split: option.split)
    then obtain q where "s_hist (Clear_entry x s k) = s_hist s @ q" by (elim insertE) auto
    then show ?case using Cons.IH [of "Clear_entry x s k"] by auto
  qed simp
  with clear show ?case using cache_origin_mono Clear_state by blast
next
  case (search s session uuid b)
  then show ?case
    by (auto simp: findByUUID_def failE_def s_call_def intro: cache_origin_mono split: option.split)
qed

section \<open>Properties\<close>

text \<open>What a caller may rely on: the session's logins are open, or vCenter has just confirmed both.\<close>

definition usable :: "session_ext \<Rightarrow> Session \<Rightarrow> session_state \<Rightarrow> bool" where
  "usable x session s \<longleftrightarrow> held_by session \<subseteq> open_logins x s \<or>
     (\<exists>c h. se_Client session = Some c \<and> s_hist s = h @ [Vim_UserSession c, Rest_Session c] \<and>
        s_active x (h @ [Vim_UserSession c]) = Inr True \<and> s_active x (s_hist s) = Inr True)"

lemma GetOrCreate_Inr:
  assumes "session_inv x s" and "GetOrCreate x p s = (Inr session, s')"
  shows "sessionCache s' (sessionKey p) = Some session \<and> usable x session s'"
  using assms
proof (cases rule: GetOrCreate_cases)
  case (hit old c)
  from check_cached_result [OF hit(3)] hit(1,2,4) show ?thesis by (auto simp: usable_def)
next
  case miss
  from create_session_Inr [OF miss(2)] show ?thesis by (auto simp: usable_def)
next
  case (stale old c t)
  from create_session_Inr [OF stale(5)] show ?thesis by (auto simp: usable_def)
qed

text \<open>An outside where everything succeeds, for the witnesses.\<close>

definition sample_vc :: session_ext where
  "sample_vc = \<lparr>s_ParseURL = \<lambda>u. Inr (Some \<lparr>url_Host = u, url_User = None\<rparr>), s_unit = \<lambda>h. Inr (), s_active = \<lambda>h. Inr True,
     s_ref = \<lambda>h. Inr ''datacenter-2'', s_ref_opt = \<lambda>h. Inr None\<rparr>"

definition sample_params :: Params where
  "sample_params = WithThumbprint (WithUserInfo (WithDatacenter (WithServer NewParams ''vc'') ''dc0'') ''admin'' ''secret'') ''AA:BB''"

definition sample_cold :: session_state where
  "sample_cold = \<lparr>s_hist = [], s_clients = 0, sessionCache = Map.empty\<rparr>"

definition sample_session :: Session where
  "sample_session = \<lparr>se_Client = Some 0, se_TagManager = 0, se_datacenter = Some ''datacenter-2''\<rparr>"

definition sample_warm :: session_state where
  "sample_warm = snd (GetOrCreate sample_vc sample_params sample_cold)"

lemmas sample_simps = sample_vc_def sample_params_def sample_cold_def sample_session_def NewParams_def WithServer_def
  WithDatacenter_def WithUserInfo_def WithThumbprint_def

lemma sample_create: "GetOrCreate sample_vc sample_params sample_cold = (Inr sample_session, sample_warm)"
  by (simp add: sample_warm_def prod_eq_iff)
    (simp add: GetOrCreate_def create_session_def complete_session_def newClient_def newManager_def sample_simps
      s_call_def returnE_def Let_def)

lemma sample_warm_cache: "sessionCache sample_warm = [sessionKey sample_params \<mapsto> sample_session]"
  using create_session_Inr [of sample_vc sample_params sample_cold sample_session sample_warm] sample_create
  by (simp add: GetOrCreate_def sample_cold_def)

lemma sample_cold_life: "session_life x sample_cold"
  unfolding sample_cold_def by (rule session_life.start)

definition sample_vc_broken :: session_ext where
  \<comment> \<open>the same, but the sessions are never active and a REST logout fails\<close>
  "sample_vc_broken = sample_vc\<lparr>s_active := \<lambda>h. Inr False,
     s_unit := \<lambda>h. case last h of Rest_Logout _ \<Rightarrow> Inl (VimError ''unavailable'') | _ \<Rightarrow> Inr ()\<rparr>"

definition sample_replaced :: session_state where
  \<comment> \<open>a session was created, found inactive and replaced\<close>
  "sample_replaced = snd (GetOrCreate sample_vc_broken sample_params (snd (GetOrCreate sample_vc_broken sample_params sample_cold)))"

lemma sample_replaced_life: "session_life sample_vc_broken sample_replaced"
  unfolding sample_replaced_def by (intro session_life.get sample_cold_life)

lemma sample_replaced_logins:
  "open_logins sample_vc_broken sample_replaced = {VimLogin 1, RestLogin 1, RestLogin 0}"
  "refused_logouts sample_vc_broken sample_replaced = {RestLogin 0}"
  by (auto simp: sample_replaced_def GetOrCreate_def check_cached_def create_session_def complete_session_def newClient_def newManager_def
      sample_vc_broken_def sample_simps s_call_def returnE_def Let_def login_defs)

text \<open>
  C9. No login is lost by the cache: after any sequence of calls of \<open>GetOrCreate\<close> (whatever fails in them),
  searches and \<open>Clear\<close>, every login at vCenter that succeeded and that no successful logout has ended
  belongs to a session in the cache, where a later call finds it, or is one for which vCenter answered a logout with
  an error. In particular a session that is replaced because it expired has been asked to log out on both APIs, and a call that
  fails half-way tries to take back the logins it made. (A failed logout is only logged, so such a login stays open at
  vCenter without a session.)
\<close>

theorem session_logins_not_leaked:
  assumes "session_life x s"
  shows "open_logins x s \<subseteq> held_logins s \<union> refused_logouts x s"
  using session_life_inv [OF assms] by (auto simp: session_inv_def kept_logins_def)

theorem session_logins_not_leaked_witness:
  "{VimLogin 1, RestLogin 1, RestLogin 0} \<subseteq> held_logins sample_replaced \<union> {RestLogin 0}"
  using session_logins_not_leaked [OF sample_replaced_life] unfolding sample_replaced_logins .

lemma sample_collision: "sessionKey (WithDatacenter (WithServer p ''a#b'') ''c'') = sessionKey (WithDatacenter (WithServer p ''a'') ''b#c'')"
  by (simp add: sessionKey_def WithDatacenter_def WithServer_def)

text \<open>
  C23. A caller of \<open>GetOrCreate\<close> gets a session that a call with the same cache key made, by exactly the requests that
  such a session takes; and it can be used: its two logins are open, or vCenter has just confirmed
  both. When none of the server, the datacenter and the user name of the caller contains \<open>#\<close>, the separator of the key,
  the session was made for the same server, datacenter and user and a password with the same digest; with \<open>#\<close> in a name the keys
  of different parameters can be equal (\<open>sample_collision\<close>).
\<close>

theorem session_matches_request:
  assumes "session_life x s" and "GetOrCreate x p s = (Inr session, s')"
  shows "usable x session s' \<and>
    (\<exists>p' h. sublist h (s_hist s') \<and> made_for x p' session h \<and> sessionKey p' = sessionKey p \<and>
      (no_hash p \<longrightarrow>
        pa_server p' = pa_server p \<and> pa_datacenter p' = pa_datacenter p \<and> Username (pa_userinfo p') = Username (pa_userinfo p) \<and>
        sha256 (bytes_of (Password (pa_userinfo p'))) = sha256 (bytes_of (Password (pa_userinfo p)))))"
proof -
  note inv = session_life_inv [OF assms(1)]
  note res = GetOrCreate_Inr [OF inv assms(2)]
  from cache_origin_run [OF inv session_life_origin [OF assms(1)] assms(2)] res
  obtain p' h where "sessionKey p' = sessionKey p" "sublist h (s_hist s')" "made_for x p' session h"
    unfolding cache_origin_def by blast
  with sessionKey_inject [of p' p] res show ?thesis by blast
qed

theorem session_matches_request_witness:
  "\<exists>p' h. sublist h (s_hist sample_warm) \<and> made_for sample_vc p' sample_session h \<and> pa_server p' = ''vc'' \<and> pa_datacenter p' = ''dc0''"
proof -
  have "no_hash sample_params" by (simp add: no_hash_def sample_simps Username_def)
  with session_matches_request [OF sample_cold_life sample_create] show ?thesis
    by (auto simp: sample_simps)
qed

text \<open>
  A session is reused without a new login, and the certificate is not looked at: once a call has
  returned a session, a call with the same server, datacenter, user and password but any other
  thumbprint returns the same session as long as vCenter confirms it, with two requests. The key of the cache leaves the
  thumbprint out, so a thumbprint that is corrected, or set for the first time, has no effect while the session lives.
\<close>

lemma session_reused_for_any_thumbprint:
  assumes "session_life x s" and "GetOrCreate x p s = (Inr session, s')" and "se_Client session = Some c"
    and "s_active x (s_hist s' @ [Vim_UserSession c]) = Inr True"
    and "s_active x (s_hist s' @ [Vim_UserSession c, Rest_Session c]) = Inr True"
  shows "GetOrCreate x (WithThumbprint p thumbprint) s' =
    (Inr session, s'\<lparr>s_hist := s_hist s' @ [Vim_UserSession c, Rest_Session c]\<rparr>)"
proof -
  note inv = session_life_inv [OF assms(1)]
  note res = GetOrCreate_Inr [OF inv assms(2)]
  have "se_TagManager session = c"
    using GetOrCreate_inv [OF inv assms(2)] res assms(3) by (auto simp: session_inv_def)
  moreover have "sessionKey (WithThumbprint p thumbprint) = sessionKey p" by (simp add: sessionKey_def WithThumbprint_def)
  ultimately show ?thesis
    using res assms(3-5) by (simp add: GetOrCreate_def check_cached_def s_call_def Let_def returnE_def)
qed

text \<open>
  What \<open>Clear\<close> leaves: after it has visited every entry of the cache, no SOAP login is open except those whose
  logout failed, but every REST login that was open still is. (The comment says that it destroys all the cached sessions; it
  calls only the \<open>Logout\<close> of the embedded SOAP client.)
\<close>

lemma clear_leaves_rest_logins:
  assumes "session_life x s" and "set keys = dom (sessionCache s)"
  shows "kept_logins x (Clear x keys s) = {l \<in> kept_logins x s. \<exists>c. l = RestLogin c}"
proof -
  let ?out = "\<Union>k \<in> set keys. case sessionCache s k of None \<Rightarrow> {} | Some session \<Rightarrow> VimLogin ` set_option (se_Client session)"
  have rest: "RestLogin c \<notin> ?out" for c by (auto split: option.splits)
  have "VimLogin c \<in> ?out" if "VimLogin c \<in> kept_logins x s" for c
  proof -
    from that session_life_inv [OF assms(1)] have "VimLogin c \<in> held_logins s" by (auto simp: session_inv_def)
    then obtain k session where k: "sessionCache s k = Some session" "VimLogin c \<in> held_by session" by (auto simp: held_logins_iff)
    moreover from k have "se_Client session = Some c" by (auto simp: held_by_def split: option.splits)
    ultimately show ?thesis using assms(2) by (intro UN_I [of k]) auto
  qed
  then have "l \<in> kept_logins x s - ?out \<longleftrightarrow> l \<in> kept_logins x s \<and> (\<exists>c. l = RestLogin c)" for l
    using rest by (cases l) blast+
  then show ?thesis unfolding kept_logins_Clear by blast
qed

end
