(* ===== verification/Webhooks.thy ===== *)
theory Webhooks
  imports Machine_Service Go_Netip "HOL-Library.AList"
begin

text \<open>
  The admission webhooks of the govmomi mode (\<open>internal/webhooks\<close>): what is filled in and what is
  refused when an object is created or updated.

  A \<open>field.Error\<close> keeps its kind, its path and its message; the offending value is left out, it is
  only printed. \<open>runtime.DefaultUnstructuredConverter.ToUnstructured\<close> of apimachinery, which turns an object
  into nested maps of its JSON keys, is a parameter, as are \<open>topology.IsDryRunRequest\<close> of Cluster API, the
  request in the context and \<open>validation.IsDNS1123Subdomain\<close> of apimachinery.
\<close>

section \<open>Results\<close>

datatype field_error =
    field_Invalid "string list" string
  | field_Forbidden "string list" string
  | field_Required "string list" string

datatype admission =
    Allowed
  | NewInvalid string "field_error list" \<comment> \<open>\<open>apierrors.NewInvalid\<close>: name, errors\<close>
  | FieldDenied field_error
  | NewInternalError go_error
  | NewBadRequest go_error
  | WebhookPanic string

definition AggregateObjErrors :: "string \<Rightarrow> field_error list \<Rightarrow> admission" where
  "AggregateObjErrors name allErrs = (if allErrs = [] then Allowed else NewInvalid name allErrs)"

text \<open>
  Values of \<open>interface{}\<close> as \<open>ToUnstructured\<close> makes them. A \<open>map[string]interface{}\<close> is the list of its
  entries in the order of the keys, each key once, so that \<open>reflect.DeepEqual\<close> is equality.
\<close>

datatype 'v json = JObj "(string \<times> 'v json) list" | JVal 'v

type_synonym 'v json_map = "(string \<times> 'v json) list"

section \<open>Checks that several webhooks share\<close>

definition index_path :: "string \<Rightarrow> nat \<Rightarrow> string" where
  "index_path s i = s @ ''['' @ show_nat i @ '']''"

definition ip_errors :: "NetworkDeviceSpec list \<Rightarrow> field_error list" where
  \<comment> \<open>the loops over \<open>spec.Network.Devices\<close> and their \<open>IPAddrs\<close>\<close>
  "ip_errors devices = concat (map (\<lambda>(i, device).
     concat (map (\<lambda>(j, ip). case ParseCIDR ip of Some _ \<Rightarrow> []
         | None \<Rightarrow> [field_Invalid [''spec'', ''network'', index_path ''devices'' i, index_path ''ipAddrs'' j]
                     ''ip addresses should be in the CIDR format''])
       (enumerate 0 (d_IPAddrs device)))) (enumerate 0 devices))"

definition timeout_errors :: "string list \<Rightarrow> int \<Rightarrow> VirtualMachinePowerOpMode \<Rightarrow> field_error list" where
  "timeout_errors path timeout mode =
     (if timeout \<noteq> 0 \<and> mode \<noteq> VirtualMachinePowerOpModeTrySoft
      then [field_Invalid path ''should not be set in templates unless the powerOffMode is trySoft''] else [])"

definition validatePCIDevices :: "PCIDeviceSpec list \<Rightarrow> field_error list" where
  "validatePCIDevices devices = concat (map (\<lambda>(i, device).
     if pci_VGPUProfile device \<noteq> '''' \<and> pci_DeviceID device = None \<and> pci_VendorID device = None then []
     else if pci_VGPUProfile device = '''' \<and> pci_DeviceID device \<noteq> None \<and> pci_VendorID device \<noteq> None then []
     else [field_Invalid [''spec'', ''template'', ''spec'', index_path ''pciDevices'' i]
             ''should have either deviceId + vendorId or vGPUProfile set'']) (enumerate 0 devices))"

fun deleteSpecKeys :: "'v json_map \<Rightarrow> string list \<Rightarrow> 'v json_map" where
  "deleteSpecKeys spec [] = spec"
| "deleteSpecKeys spec (key # keys) = deleteSpecKeys (filter (\<lambda>(k, _). k \<noteq> key) spec) keys"

section \<open>\<open>VSphereVM\<close>\<close>

definition VSphereVM_Default :: "VSphereVM \<Rightarrow> VSphereVM" where
  "VSphereVM_Default vm =
     (if c_OS (s_Clone (vm_Spec vm)) = '''' then vm\<lparr>vm_Spec := (vm_Spec vm)\<lparr>s_Clone := (s_Clone (vm_Spec vm))\<lparr>c_OS := Linux\<rparr>\<rparr>\<rparr> else vm)"

definition VSphereVM_ValidateCreate :: "VSphereVM \<Rightarrow> admission" where
  "VSphereVM_ValidateCreate vm =
     (let spec = vm_Spec vm; name = m_Name (vm_meta vm) in
      AggregateObjErrors name
        (ip_errors (ns_Devices (c_Network (s_Clone spec))) @
         (if c_OS (s_Clone spec) = Windows \<and> length name > 15
          then [field_Invalid [''name''] ''name has to be less than 16 characters for Windows VM''] else []) @
         timeout_errors [''spec'', ''guestSoftPowerOffTimeout''] (s_GuestSoftPowerOffTimeoutSeconds spec) (s_PowerOffMode spec)))"

text \<open>
  The part of the two \<open>ValidateUpdate\<close> functions that works on the unstructured objects: the type
  assertions, the removal of the keys that may change, and the comparison.
\<close>

definition specs_differ :: "string list \<Rightarrow> 'v json_map \<Rightarrow> 'v json_map \<Rightarrow> string + bool" where
  "specs_differ keys oldObj newObj =
     (case (map_of newObj ''spec'', map_of oldObj ''spec'') of
        (Some (JObj newSpec), Some (JObj oldSpec)) \<Rightarrow>
          let oldSpec = deleteSpecKeys oldSpec keys; newSpec = deleteSpecKeys newSpec keys in
          (case (map_of newSpec ''network'', map_of oldSpec ''network'') of
             (Some (JObj newNetwork), Some (JObj oldNetwork)) \<Rightarrow>
               Inr (AList.update ''network'' (JObj (deleteSpecKeys oldNetwork [''devices''])) oldSpec \<noteq>
                    AList.update ''network'' (JObj (deleteSpecKeys newNetwork [''devices''])) newSpec)
           | _ \<Rightarrow> Inl ''interface conversion'')
      | _ \<Rightarrow> Inl ''interface conversion'')"

definition VSphereVM_keys :: "VSphereVM \<Rightarrow> string list" where
  "VSphereVM_keys old = [''bootstrapRef'', ''thumbprint'', ''powerOffMode'', ''guestSoftPowerOffTimeoutSeconds''] @
     (if c_OS (s_Clone (vm_Spec old)) = '''' then [''os''] else []) @ (if s_BiosUUID (vm_Spec old) = '''' then [''biosUUID''] else [])"

definition VSphereVM_ValidateUpdate :: "(VSphereVM \<Rightarrow> go_error + 'v json_map) \<Rightarrow> VSphereVM \<Rightarrow> VSphereVM \<Rightarrow> admission" where
  "VSphereVM_ValidateUpdate toUnstructured old new =
     (let allErrs = timeout_errors [''spec'', ''guestSoftPowerOffTimeout''] (s_GuestSoftPowerOffTimeoutSeconds (vm_Spec new))
            (s_PowerOffMode (vm_Spec new)) in
      case toUnstructured new of
        Inl err \<Rightarrow> NewInternalError (Wrapf err ''failed to convert new VSphereVM to unstructured object'' [])
      | Inr newVSphereVM \<Rightarrow>
          (case toUnstructured old of
             Inl err \<Rightarrow> NewInternalError (Wrapf err ''failed to convert old VSphereVM to unstructured object'' [])
           | Inr oldVSphereVM \<Rightarrow>
               (case specs_differ (VSphereVM_keys old) oldVSphereVM newVSphereVM of
                  Inl p \<Rightarrow> WebhookPanic p
                | Inr differ \<Rightarrow> AggregateObjErrors (m_Name (vm_meta new))
                    (allErrs @ (if differ then [field_Forbidden [''spec''] ''cannot be modified''] else [])))))"

section \<open>\<open>VSphereMachine\<close>\<close>

definition VSphereMachine_Default :: "VSphereMachine \<Rightarrow> VSphereMachine" where
  "VSphereMachine_Default m =
     (if c_Datacenter (ms_Clone (vmach_Spec m)) = ''''
      then m\<lparr>vmach_Spec := (vmach_Spec m)\<lparr>ms_Clone := (ms_Clone (vmach_Spec m))\<lparr>c_Datacenter := ''*''\<rparr>\<rparr>\<rparr> else m)"

definition VSphereMachine_ValidateCreate :: "VSphereMachine \<Rightarrow> admission" where
  "VSphereMachine_ValidateCreate m =
     (let spec = vmach_Spec m in
      AggregateObjErrors (m_Name (vmach_meta m))
        (ip_errors (ns_Devices (c_Network (ms_Clone spec))) @
         timeout_errors [''spec'', ''guestSoftPowerOffTimeout''] (ms_GuestSoftPowerOffTimeoutSeconds spec) (ms_PowerOffMode spec) @
         validatePCIDevices (c_PciDevices (ms_Clone spec))))"

definition VSphereMachine_keys :: "string list" where
  "VSphereMachine_keys = [''providerID'', ''powerOffMode'', ''guestSoftPowerOffTimeoutSeconds'']"

definition VSphereMachine_ValidateUpdate ::
  "(VSphereMachine \<Rightarrow> go_error + 'v json_map) \<Rightarrow> VSphereMachine \<Rightarrow> VSphereMachine \<Rightarrow> admission" where
  "VSphereMachine_ValidateUpdate toUnstructured old new =
     (let spec = vmach_Spec new;
          allErrs = timeout_errors [''spec'', ''guestSoftPowerOffTimeout''] (ms_GuestSoftPowerOffTimeoutSeconds spec) (ms_PowerOffMode spec) in
      case toUnstructured new of
        Inl err \<Rightarrow> NewInternalError (Wrapf err ''failed to convert new VSphereMachine to unstructured object'' [])
      | Inr newVSphereMachine \<Rightarrow>
          (case toUnstructured old of
             Inl err \<Rightarrow> NewInternalError (Wrapf err ''failed to convert old VSphereMachine to unstructured object'' [])
           | Inr oldVSphereMachine \<Rightarrow>
               (case specs_differ VSphereMachine_keys oldVSphereMachine newVSphereMachine of
                  Inl p \<Rightarrow> WebhookPanic p
                | Inr differ \<Rightarrow> AggregateObjErrors (m_Name (vmach_meta new))
                    (allErrs @ ip_errors (ns_Devices (c_Network (ms_Clone spec))) @
                     (if differ then [field_Forbidden [''spec''] ''cannot be modified''] else [])))))"

section \<open>\<open>VSphereMachineTemplate\<close>\<close>

definition VSphereMachineTemplate_Default ::
  "(go_error + 'r) \<Rightarrow> ('r \<Rightarrow> VSphereMachineTemplate \<Rightarrow> bool) \<Rightarrow> VSphereMachineTemplate \<Rightarrow> admission \<times> VSphereMachineTemplate" where
  "VSphereMachineTemplate_Default request isDryRunRequest c =
     (case request of
        Inl err \<Rightarrow> (NewBadRequest (Wrapf err ''expected an admission.Request inside context: %v'' []), c)
      | Inr req \<Rightarrow>
          (Allowed,
           if isDryRunRequest req c \<and> ms_PowerOffMode (vmt_Spec c) = ''''
           then c\<lparr>vmt_Spec := (vmt_Spec c)\<lparr>ms_PowerOffMode := VirtualMachinePowerOpModeHard\<rparr>\<rparr> else c))"

text \<open>The regular expression \<open>^vmx-[1-9][0-9]?$\<close>.\<close>

definition hardware_version_ok :: "string \<Rightarrow> bool" where
  "hardware_version_ok s \<longleftrightarrow> take 4 s = ''vmx-'' \<and>
     (case drop 4 s of
        [a] \<Rightarrow> is_digit a \<and> a \<noteq> CHR ''0''
      | [a, b] \<Rightarrow> is_digit a \<and> a \<noteq> CHR ''0'' \<and> is_digit b
      | _ \<Rightarrow> False)"

definition validateVSphereVMNamingTemplate :: "ext \<Rightarrow> (string \<Rightarrow> string list) \<Rightarrow> VSphereMachineTemplate \<Rightarrow> field_error list" where
  "validateVSphereVMNamingTemplate x isDNS1123Subdomain t =
     (let template = ms_NamingTemplate (vmt_Spec t); path = [''spec'', ''template'', ''spec'', ''namingStrategy'', ''template''] in
      if template \<noteq> '''' then
        (case GenerateVSphereVMName x ''machine'' template of
           Inl err \<Rightarrow> [field_Invalid path ''invalid VSphereVM name template: %v'']
         | Inr name \<Rightarrow> map (\<lambda>err. field_Invalid path
             ''invalid VSphereVM name template, generated name is not a valid Kubernetes object name: %v'') (isDNS1123Subdomain name))
      else [])"

definition VSphereMachineTemplate_ValidateCreate ::
  "ext \<Rightarrow> (string \<Rightarrow> string list) \<Rightarrow> VSphereMachineTemplate \<Rightarrow> admission" where
  "VSphereMachineTemplate_ValidateCreate x isDNS1123Subdomain t =
     (let spec = vmt_Spec t; path = (\<lambda>s. [''spec'', ''template'', ''spec'', s]) in
      AggregateObjErrors (m_Name (vmt_meta t))
        ((if ms_ProviderID spec \<noteq> '''' then [field_Forbidden (path ''providerID'') ''cannot be set in templates''] else []) @
         map (\<lambda>_. field_Forbidden [''spec'', ''template'', ''spec'', ''network'', ''devices'', ''ipAddrs''] ''cannot be set in templates'')
           (filter (\<lambda>device. d_IPAddrs device \<noteq> []) (ns_Devices (c_Network (ms_Clone spec)))) @
         (if c_HardwareVersion (ms_Clone spec) \<noteq> '''' \<and> \<not> hardware_version_ok (c_HardwareVersion (ms_Clone spec))
          then [field_Invalid (path ''hardwareVersion'') ''should be a valid VM hardware version, example vmx-17''] else []) @
         timeout_errors (path ''guestSoftPowerOffTimeout'') (ms_GuestSoftPowerOffTimeoutSeconds spec) (ms_PowerOffMode spec) @
         validatePCIDevices (c_PciDevices (ms_Clone spec)) @
         validateVSphereVMNamingTemplate x isDNS1123Subdomain t))"

definition VSphereMachineTemplate_ValidateUpdate ::
  "ext \<Rightarrow> (string \<Rightarrow> string list) \<Rightarrow> (go_error + 'r) \<Rightarrow> ('r \<Rightarrow> VSphereMachineTemplate \<Rightarrow> bool) \<Rightarrow>
     VSphereMachineTemplate \<Rightarrow> VSphereMachineTemplate \<Rightarrow> admission" where
  "VSphereMachineTemplate_ValidateUpdate x isDNS1123Subdomain request isDryRunRequest old new =
     (case request of
        Inl err \<Rightarrow> NewBadRequest (Wrapf err ''expected a admission.Request inside context: %v'' [])
      | Inr req \<Rightarrow>
          AggregateObjErrors (m_Name (vmt_meta new))
            ((if \<not> isDryRunRequest req new \<and> vmt_Spec new \<noteq> vmt_Spec old
              then [field_Invalid [''spec'', ''template'', ''spec'']
                ''VSphereMachineTemplate spec.template.spec field is immutable. Please create a new resource instead.''] else []) @
             validateVSphereVMNamingTemplate x isDNS1123Subdomain new))"

section \<open>\<open>VSphereFailureDomain\<close>, \<open>VSphereDeploymentZone\<close>\<close>

definition VSphereFailureDomain_ValidateCreate :: "VSphereFailureDomain \<Rightarrow> admission" where
  "VSphereFailureDomain_ValidateCreate fd =
     (let region = fd_Type (vfd_Region fd); zone = fd_Type (vfd_Zone fd); topology = vfd_Topology fd;
          forbid = (\<lambda>b path msg. if b then [field_Forbidden path msg] else []) in
      AggregateObjErrors (m_Name (vfd_meta fd))
        (forbid (t_ComputeCluster topology = '''' \<and> hosts_IsDefined (t_Hosts topology))
           [''spec'', ''Topology'', ''ComputeCluster''] ''cannot be empty if Hosts is not empty'' @
         forbid (region = HostGroupFailureDomain) [''spec'', ''Region'', ''Type'']
           ''region's Failure Domain type cannot be %s'' @
         forbid (zone = HostGroupFailureDomain \<and> \<not> hosts_IsDefined (t_Hosts topology)) [''spec'', ''Topology'', ''Hosts'']
           ''cannot be nil if zone's Failure Domain type is %s'' @
         forbid (region = ComputeClusterFailureDomain \<and> t_ComputeCluster topology = '''') [''spec'', ''Topology'', ''ComputeCluster'']
           ''cannot be nil if region's Failure Domain type is %s'' @
         forbid (zone = ComputeClusterFailureDomain \<and> t_ComputeCluster topology = '''') [''spec'', ''Topology'', ''ComputeCluster'']
           ''cannot be nil if zone's Failure Domain type is %s'' @
         forbid (t_NetworkConfigurations topology \<noteq> [] \<and> t_Networks topology \<noteq> []) [''spec'', ''topology'', ''networks'']
           ''cannot be set if spec.topology.networkConfigurations is already set'' @
         concat (map (\<lambda>(i, networkConfig).
           if nc_NetworkName networkConfig = ''''
           then [field_Required [''spec'', ''topology'', index_path ''networkConfigurations'' i, ''networkName''] ''cannot be empty''] else [])
           (enumerate 0 (t_NetworkConfigurations topology)))))"

definition VSphereFailureDomain_ValidateUpdate :: "VSphereFailureDomain \<Rightarrow> VSphereFailureDomain \<Rightarrow> admission" where
  "VSphereFailureDomain_ValidateUpdate old new =
     (if (vfd_Region new, vfd_Zone new, vfd_Topology new) \<noteq> (vfd_Region old, vfd_Zone old, vfd_Topology old)
      then FieldDenied (field_Forbidden [''spec''] ''VSphereFailureDomainSpec is immutable'') else Allowed)"

definition VSphereDeploymentZone_Default :: "VSphereDeploymentZone \<Rightarrow> VSphereDeploymentZone" where
  "VSphereDeploymentZone_Default z = (if dz_ControlPlane z = None then z\<lparr>dz_ControlPlane := Some True\<rparr> else z)"

text \<open>
  \<open>Spec.Template.Spec\<close> of a \<open>VSphereClusterTemplate\<close> is compared as a whole; the type stands for the struct,
  because \<open>VSphereClusterSpec\<close> of this development keeps only the meaning of its label selector.
\<close>

definition VSphereClusterTemplate_ValidateUpdate :: "'spec \<Rightarrow> 'spec \<Rightarrow> admission" where
  "VSphereClusterTemplate_ValidateUpdate old new =
     (if new \<noteq> old then FieldDenied (field_Forbidden [''spec'', ''template'', ''spec''] ''VSphereClusterTemplate spec is immutable'')
      else Allowed)"

end
