(* ===== verification/Webhooks_Correct.thy ===== *)
theory Webhooks_Correct
  imports Webhooks Util
begin

text \<open>
  What the webhooks let through: which fields of a VSphereVM can change after its creation, which
  hardware versions a template may name, and which addresses are checked.
\<close>

section \<open>Comparing unstructured objects\<close>

lemma deleteSpecKeys_filter: "deleteSpecKeys m keys = filter (\<lambda>(k, _). k \<notin> set keys) m"
  by (induction keys arbitrary: m) (auto simp: filter_filter intro!: filter_cong)

lemma map_of_deleteSpecKeys: "map_of (deleteSpecKeys m keys) k = (if k \<in> set keys then None else map_of m k)"
  unfolding deleteSpecKeys_filter by (induction m) auto

lemma specs_same:
  assumes "specs_differ keys old new = Inr False"
  obtains a b m n where "map_of old ''spec'' = Some (JObj a)" "map_of new ''spec'' = Some (JObj b)"
    and "map_of a ''network'' = Some (JObj m)" "map_of b ''network'' = Some (JObj n)"
    and "\<forall>k. k \<notin> set keys \<longrightarrow> k \<noteq> ''network'' \<longrightarrow> map_of a k = map_of b k"
    and "map_of m ''routes'' = map_of n ''routes''"
proof -
  from assms obtain a b m n where
    ab: "map_of old ''spec'' = Some (JObj a)" "map_of new ''spec'' = Some (JObj b)"
    and mn: "map_of (deleteSpecKeys a keys) ''network'' = Some (JObj m)" "map_of (deleteSpecKeys b keys) ''network'' = Some (JObj n)"
    and eq: "AList.update ''network'' (JObj (deleteSpecKeys m [''devices''])) (deleteSpecKeys a keys) =
      AList.update ''network'' (JObj (deleteSpecKeys n [''devices''])) (deleteSpecKeys b keys)"
    by (auto simp: specs_differ_def Let_def split: option.splits json.splits)
  have ev: "map_of (AList.update ''network'' (JObj (deleteSpecKeys m [''devices''])) (deleteSpecKeys a keys)) k =
      map_of (AList.update ''network'' (JObj (deleteSpecKeys n [''devices''])) (deleteSpecKeys b keys)) k" for k
    by (simp only: eq)
  have "map_of a k = map_of b k" if "k \<notin> set keys" "k \<noteq> ''network''" for k
    using ev [of k] that by (simp add: update_conv map_of_deleteSpecKeys)
  moreover have "deleteSpecKeys m [''devices''] = deleteSpecKeys n [''devices'']"
    using ev [of "''network''"] by (simp add: update_conv)
  then have "map_of m ''routes'' = map_of n ''routes''"
    using map_of_deleteSpecKeys [of m "[''devices'']" "''routes''"] map_of_deleteSpecKeys [of n "[''devices'']" "''routes''"] by simp
  moreover have "map_of a ''network'' = Some (JObj m)" "map_of b ''network'' = Some (JObj n)"
    using mn by (simp_all add: map_of_deleteSpecKeys split: if_splits)
  ultimately show ?thesis using that ab by blast
qed

section \<open>The JSON form of a VSphereVM\<close>

text \<open>
  The documented behaviour of the converter that the webhook relies on: the spec of an object is a map
  with a key for every field, named as the struct tag says, and equal values under a key mean
  equal fields. A map of the source has no order, and a nil map is not told from an empty one.
\<close>

definition same :: "('a \<Rightarrow> 'b) \<Rightarrow> 'a \<Rightarrow> 'a \<Rightarrow> bool" where
  "same f s t \<longleftrightarrow> f s = f t"

definition clone_fields :: "(string \<times> (VirtualMachineCloneSpec \<Rightarrow> VirtualMachineCloneSpec \<Rightarrow> bool)) list" where
  "clone_fields =
    [(''template'', same c_Template), (''cloneMode'', same c_CloneMode), (''snapshot'', same c_Snapshot), (''server'', same c_Server),
     (''thumbprint'', same c_Thumbprint), (''datacenter'', same c_Datacenter), (''folder'', same c_Folder), (''datastore'', same c_Datastore),
     (''storagePolicyName'', same c_StoragePolicyName), (''resourcePool'', same c_ResourcePool), (''numCPUs'', same c_NumCPUs),
     (''numCoresPerSocket'', same c_NumCoresPerSocket), (''resources'', same c_Resources), (''memoryMiB'', same c_MemoryMiB),
     (''diskGiB'', same c_DiskGiB), (''additionalDisksGiB'', same c_AdditionalDisksGiB),
     (''customVMXKeys'', same (\<lambda>c. map_of (Deref (c_CustomVMXKeys c) []))), (''tagIDs'', same c_TagIDs), (''pciDevices'', same c_PciDevices),
     (''os'', same c_OS), (''hardwareVersion'', same c_HardwareVersion), (''dataDisks'', same c_DataDisks), (''nestedHV'', same c_NestedHV),
     (''ftEncryptionMode'', same c_FtEncryptionMode), (''migrateEncryption'', same c_MigrateEncryption), (''cryptoKeyID'', same c_CryptoKeyID),
     (''cryptoProfile'', same c_CryptoProfile)]"

definition vm_fields :: "(string \<times> (VSphereVMSpec \<Rightarrow> VSphereVMSpec \<Rightarrow> bool)) list" where
  "vm_fields = map (\<lambda>(k, eq). (k, \<lambda>s t. eq (s_Clone s) (s_Clone t))) clone_fields @
    [(''bootstrapRef'', same s_BootstrapRefName), (''biosUUID'', same s_BiosUUID), (''powerOffMode'', same s_PowerOffMode),
     (''guestSoftPowerOffTimeoutSeconds'', same s_GuestSoftPowerOffTimeoutSeconds)]"

definition faithful_json :: "('o \<Rightarrow> 's) \<Rightarrow> ('s \<Rightarrow> VirtualMachineCloneSpec) \<Rightarrow> (string \<times> ('s \<Rightarrow> 's \<Rightarrow> bool)) list \<Rightarrow>
    ('o \<Rightarrow> go_error + 'v json_map) \<Rightarrow> bool" where
  "faithful_json spec clone fs toUnstructured \<longleftrightarrow>
     (\<forall>old new mo mn a b. toUnstructured old = Inr mo \<longrightarrow> toUnstructured new = Inr mn \<longrightarrow>
        map_of mo ''spec'' = Some (JObj a) \<longrightarrow> map_of mn ''spec'' = Some (JObj b) \<longrightarrow>
        (\<forall>(k, eq) \<in> set fs. map_of a k = map_of b k \<longrightarrow> eq (spec old) (spec new)) \<and>
        (\<forall>m n. map_of a ''network'' = Some (JObj m) \<longrightarrow> map_of b ''network'' = Some (JObj n) \<longrightarrow>
           map_of m ''routes'' = map_of n ''routes'' \<longrightarrow>
           ns_Routes (c_Network (clone (spec old))) = ns_Routes (c_Network (clone (spec new)))))"

lemma AggregateObjErrors_Allowed: "AggregateObjErrors name errs = Allowed \<longleftrightarrow> errs = []"
  by (simp add: AggregateObjErrors_def)

lemma VSphereVM_update_accepted:
  assumes "VSphereVM_ValidateUpdate conv old new = Allowed"
  obtains mo mn where "conv old = Inr mo" "conv new = Inr mn" "specs_differ (VSphereVM_keys old) mo mn = Inr False"
  using assms
  by (auto simp: VSphereVM_ValidateUpdate_def Let_def AggregateObjErrors_Allowed split: sum.splits if_splits)

definition unchanged :: "string list \<Rightarrow> (string \<times> ('s \<Rightarrow> 's \<Rightarrow> bool)) list \<Rightarrow> 's \<Rightarrow> 's \<Rightarrow> bool" where
  "unchanged keys fs s t \<longleftrightarrow> list_all (\<lambda>(k, eq). k \<in> set keys \<or> eq s t) fs"

lemma faithful_unchanged:
  assumes "faithful_json spec clone fs conv" and "conv old = Inr mo" "conv new = Inr mn" and "specs_differ keys mo mn = Inr False"
    and "''network'' \<notin> fst ` set fs"
  shows "unchanged keys fs (spec old) (spec new) \<and> ns_Routes (c_Network (clone (spec old))) = ns_Routes (c_Network (clone (spec new)))"
proof -
  obtain a b m n where
    ab: "map_of mo ''spec'' = Some (JObj a)" "map_of mn ''spec'' = Some (JObj b)"
    and net: "map_of a ''network'' = Some (JObj m)" "map_of b ''network'' = Some (JObj n)"
    and same: "\<forall>k. k \<notin> set keys \<longrightarrow> k \<noteq> ''network'' \<longrightarrow> map_of a k = map_of b k"
    and routes: "map_of m ''routes'' = map_of n ''routes''"
    by (rule specs_same [OF assms(4)]) blast
  note f = assms(1) [unfolded faithful_json_def, rule_format, OF assms(2,3) ab]
  have "eq (spec old) (spec new)" if "(k, eq) \<in> set fs" "k \<notin> set keys" for k eq
  proof -
    have "k \<noteq> ''network''" using that(1) assms(5) by force
    from bspec [OF conjunct1 [OF f] that(1)] same [rule_format, OF that(2) this] show ?thesis by simp
  qed
  then have "unchanged keys fs (spec old) (spec new)" by (auto simp: unchanged_def list_all_iff)
  with conjunct2 [OF f, rule_format, OF net routes] show ?thesis by simp
qed

text \<open>What an update may change of a spec: everything but these fields comes from the stored object.\<close>

definition updated_spec :: "VSphereVMSpec \<Rightarrow> VSphereVMSpec \<Rightarrow> VSphereVMSpec" where
  "updated_spec s t =
     s\<lparr>s_Clone := (s_Clone s)\<lparr>
         c_Thumbprint := c_Thumbprint (s_Clone t),
         c_OS := if c_OS (s_Clone s) = '''' then c_OS (s_Clone t) else c_OS (s_Clone s),
         c_Network := (c_Network (s_Clone s))\<lparr>ns_Devices := ns_Devices (c_Network (s_Clone t))\<rparr>,
         c_CustomVMXKeys := c_CustomVMXKeys (s_Clone t)\<rparr>,
       s_BootstrapRefName := s_BootstrapRefName t,
       s_BiosUUID := if s_BiosUUID s = '''' then s_BiosUUID t else s_BiosUUID s,
       s_PowerOffMode := s_PowerOffMode t,
       s_GuestSoftPowerOffTimeoutSeconds := s_GuestSoftPowerOffTimeoutSeconds t\<rparr>"

lemma unchanged_updated_spec:
  assumes "unchanged (VSphereVM_keys old) vm_fields (vm_Spec old) t" and "ns_Routes (c_Network (s_Clone (vm_Spec old))) = ns_Routes (c_Network (s_Clone t))"
  shows "t = updated_spec (vm_Spec old) t \<and>
    map_of (Deref (c_CustomVMXKeys (s_Clone t)) []) = map_of (Deref (c_CustomVMXKeys (s_Clone (vm_Spec old))) [])"
proof -
  note u = assms(1) [unfolded unchanged_def vm_fields_def clone_fields_def VSphereVM_keys_def same_def, simplified]
  have "(c_Network (s_Clone (vm_Spec old)))\<lparr>ns_Devices := ns_Devices (c_Network (s_Clone t))\<rparr> = c_Network (s_Clone t)"
    using assms(2) by (simp add: NetworkSpec.equality)
  with u have c: "s_Clone (updated_spec (vm_Spec old) t) = s_Clone t"
    by (intro VirtualMachineCloneSpec.equality) (auto simp: updated_spec_def)
  have "updated_spec (vm_Spec old) t = t"
    by (rule VSphereVMSpec.equality) (use u c in \<open>auto simp: updated_spec_def\<close>)
  with u show ?thesis by simp
qed

section \<open>A converter\<close>

text \<open>A converter for the fields of the model, which shows that the documented behaviour is possible.\<close>

datatype leaf =
    LStr string | LInt int | LIntOpt "int option" | LBool "bool option" | LInts "int list" | LStrs "string list"
  | LMap "string \<rightharpoonup> string" | LRes VirtualMachineResources | LPCI "PCIDeviceSpec list" | LDisks "VSphereDisk list"
  | LDevices "NetworkDeviceSpec list" | LRoutes "NetworkRouteSpec list"

definition network_json :: "NetworkSpec \<Rightarrow> leaf json" where
  "network_json n = JObj [(''devices'', JVal (LDevices (ns_Devices n))), (''routes'', JVal (LRoutes (ns_Routes n)))]"

definition spec_json :: "VSphereVMSpec \<Rightarrow> leaf json_map" where
  "spec_json s = (let c = s_Clone s in
    [(''additionalDisksGiB'', JVal (LInts (c_AdditionalDisksGiB c))), (''biosUUID'', JVal (LStr (s_BiosUUID s))),
     (''bootstrapRef'', JVal (LStr (s_BootstrapRefName s))), (''cloneMode'', JVal (LStr (c_CloneMode c))),
     (''cryptoKeyID'', JVal (LStr (c_CryptoKeyID c))), (''cryptoProfile'', JVal (LStr (c_CryptoProfile c))),
     (''customVMXKeys'', JVal (LMap (map_of (Deref (c_CustomVMXKeys c) [])))), (''dataDisks'', JVal (LDisks (c_DataDisks c))),
     (''datacenter'', JVal (LStr (c_Datacenter c))), (''datastore'', JVal (LStr (c_Datastore c))), (''diskGiB'', JVal (LInt (c_DiskGiB c))),
     (''folder'', JVal (LStr (c_Folder c))), (''ftEncryptionMode'', JVal (LStr (c_FtEncryptionMode c))),
     (''guestSoftPowerOffTimeoutSeconds'', JVal (LInt (s_GuestSoftPowerOffTimeoutSeconds s))),
     (''hardwareVersion'', JVal (LStr (c_HardwareVersion c))), (''memoryMiB'', JVal (LInt (c_MemoryMiB c))),
     (''migrateEncryption'', JVal (LStr (c_MigrateEncryption c))), (''nestedHV'', JVal (LBool (c_NestedHV c))),
     (''network'', network_json (c_Network c)), (''numCPUs'', JVal (LInt (c_NumCPUs c))),
     (''numCoresPerSocket'', JVal (LIntOpt (c_NumCoresPerSocket c))), (''os'', JVal (LStr (c_OS c))),
     (''pciDevices'', JVal (LPCI (c_PciDevices c))), (''powerOffMode'', JVal (LStr (s_PowerOffMode s))),
     (''resourcePool'', JVal (LStr (c_ResourcePool c))), (''resources'', JVal (LRes (c_Resources c))),
     (''server'', JVal (LStr (c_Server c))), (''snapshot'', JVal (LStr (c_Snapshot c))),
     (''storagePolicyName'', JVal (LStr (c_StoragePolicyName c))), (''tagIDs'', JVal (LStrs (c_TagIDs c))),
     (''template'', JVal (LStr (c_Template c))), (''thumbprint'', JVal (LStr (c_Thumbprint c)))])"

definition vm_json :: "VSphereVM \<Rightarrow> go_error + leaf json_map" where
  "vm_json vm = Inr [(''spec'', JObj (spec_json (vm_Spec vm)))]"

lemma vm_json_faithful: "faithful_json vm_Spec s_Clone vm_fields vm_json"
  by (simp add: faithful_json_def vm_json_def spec_json_def network_json_def vm_fields_def clone_fields_def same_def Let_def)

section \<open>Hardware versions\<close>

lemma Atoi_digits:
  assumes "ds \<noteq> []" and "list_all is_digit ds" and "int (digits_val ds) \<le> max_int64"
  shows "Atoi ds = Some (int (digits_val ds))"
proof -
  obtain c cs where ds: "ds = c # cs" using assms(1) by (cases ds) auto
  with assms(2) have "c \<noteq> CHR ''-''" "c \<noteq> CHR ''+''" using digit_not_sign [of c] by auto
  with assms ds show ?thesis by (simp add: Atoi_def min_int64_def)
qed

lemma digit_val_positive:
  assumes "is_digit c" and "c \<noteq> CHR ''0''"
  shows "0 < digit_val c"
proof -
  have "of_char c \<noteq> (of_char (CHR ''0'') :: nat)" using assms(2) of_char_eq_iff by blast
  with assms(1) show ?thesis by (simp add: is_digit_def digit_val_def)
qed

lemma hardware_version_digits:
  assumes "hardware_version_ok v"
  obtains ds where "v = ''vmx-'' @ ds" "ds \<noteq> []" "list_all is_digit ds" "1 \<le> digits_val ds" "digits_val ds \<le> 99"
proof -
  have v: "v = ''vmx-'' @ drop 4 v" using assms by (metis append_take_drop_id hardware_version_ok_def)
  have ok: "case drop 4 v of [a] \<Rightarrow> is_digit a \<and> a \<noteq> CHR ''0'' | [a, b] \<Rightarrow> is_digit a \<and> a \<noteq> CHR ''0'' \<and> is_digit b | _ \<Rightarrow> False"
    using assms by (simp add: hardware_version_ok_def)
  then consider (one) a where "drop 4 v = [a]" "is_digit a" "a \<noteq> CHR ''0''"
    | (two) a b where "drop 4 v = [a, b]" "is_digit a" "a \<noteq> CHR ''0''" "is_digit b"
    by (auto split: list.splits)
  then show ?thesis
  proof cases
    case one
    then show ?thesis
      using that [OF v] digit_val_positive [OF one(2,3)] digit_val_less [OF one(2)] by (simp add: digits_val_def)
  next
    case two
    then show ?thesis
      using that [OF v] digit_val_positive [OF two(2,3)] digit_val_less [OF two(2)] digit_val_less [OF two(4)]
      by (simp add: digits_val_def)
  qed
qed

section \<open>Properties\<close>

text \<open>
  C17. What an accepted update of a VSphereVM can change: the bootstrap reference, the thumbprint, the network devices, the power-off
  mode and its timeout; the operating system and the BIOS UUID only while they are not set. Every
  other field of the spec keeps its value (the advanced VMX options as a map). In particular the UUID by which the
  controllers find the VM in vCenter, the template, the server and the placement are fixed once set.
  (Hypothesis: the converter of apimachinery puts every field under the key its struct tag names.)
\<close>

theorem vm_update_changes_only:
  assumes "faithful_json vm_Spec s_Clone vm_fields toUnstructured" and "VSphereVM_ValidateUpdate toUnstructured old new = Allowed"
  shows "vm_Spec new = updated_spec (vm_Spec old) (vm_Spec new) \<and>
    map_of (Deref (c_CustomVMXKeys (s_Clone (vm_Spec new))) []) = map_of (Deref (c_CustomVMXKeys (s_Clone (vm_Spec old))) [])"
proof -
  obtain mo mn where "toUnstructured old = Inr mo" "toUnstructured new = Inr mn" "specs_differ (VSphereVM_keys old) mo mn = Inr False"
    by (rule VSphereVM_update_accepted [OF assms(2)])
  moreover have "''network'' \<notin> fst ` set vm_fields" by (simp add: vm_fields_def clone_fields_def)
  ultimately show ?thesis
    using faithful_unchanged [OF assms(1)] unchanged_updated_spec [of old "vm_Spec new"] by blast
qed

definition with_uuid :: "string \<Rightarrow> VSphereVM \<Rightarrow> VSphereVM" where
  "with_uuid u vm = vm\<lparr>vm_Spec := (vm_Spec vm)\<lparr>s_BiosUUID := u\<rparr>\<rparr>"

theorem vm_update_changes_only_witness:
  "vm_Spec (with_uuid ''42'' zero_VSphereVM) = updated_spec (vm_Spec zero_VSphereVM) (vm_Spec (with_uuid ''42'' zero_VSphereVM)) \<and>
   VSphereVM_ValidateUpdate vm_json (with_uuid ''42'' zero_VSphereVM) (with_uuid ''43'' zero_VSphereVM) \<noteq> Allowed"
proof -
  have "VSphereVM_ValidateUpdate vm_json zero_VSphereVM (with_uuid ''42'' zero_VSphereVM) = Allowed"
    by (simp add: VSphereVM_ValidateUpdate_def vm_json_def spec_json_def network_json_def specs_differ_def VSphereVM_keys_def
        zero_VSphereVM_def zero_clone_def with_uuid_def timeout_errors_def AggregateObjErrors_def)
  from vm_update_changes_only [OF vm_json_faithful this]
    vm_update_changes_only [OF vm_json_faithful, of "with_uuid ''42'' zero_VSphereVM" "with_uuid ''43'' zero_VSphereVM"]
  show ?thesis by (auto simp: updated_spec_def with_uuid_def zero_VSphereVM_def)
qed

text \<open>
  C33. A hardware version that the webhook of templates accepts is one the VM service can compare: it is \<open>vmx-\<close> and
  a number from 1 to 99, so that the comparison with the version of a VM never fails to parse it.
\<close>

theorem accepted_hardware_version_parses:
  assumes "VSphereMachineTemplate_ValidateCreate x isDNS1123Subdomain t = Allowed"
    and "c_HardwareVersion (ms_Clone (vmt_Spec t)) \<noteq> ''''"
  shows "\<exists>n. 1 \<le> n \<and> n \<le> 99 \<and> ParseHardwareVersion (c_HardwareVersion (ms_Clone (vmt_Spec t))) = Some n \<and>
    (\<forall>m \<ge> 0. m \<le> max_int64 \<longrightarrow> LessThan (''vmx-'' @ show_nat (nat m)) (c_HardwareVersion (ms_Clone (vmt_Spec t))) = Some (m < n))"
proof -
  define v where "v = c_HardwareVersion (ms_Clone (vmt_Spec t))"
  from assms have "hardware_version_ok v"
    by (auto simp: VSphereMachineTemplate_ValidateCreate_def AggregateObjErrors_Allowed v_def Let_def split: if_splits)
  then obtain ds where ds: "v = ''vmx-'' @ ds" "ds \<noteq> []" "list_all is_digit ds" "1 \<le> digits_val ds" "digits_val ds \<le> 99"
    by (rule hardware_version_digits)
  then have parse: "ParseHardwareVersion v = Some (int (digits_val ds))"
    using Atoi_digits [of ds] by (simp add: ParseHardwareVersion_def TrimPrefix_def max_int64_def)
  moreover have "LessThan (''vmx-'' @ show_nat (nat m)) v = Some (m < int (digits_val ds))" if "0 \<le> m" "m \<le> max_int64" for m
    using that parse Atoi_show_nat [of "nat m"] by (simp only: LessThan_def ParseHardwareVersion_def TrimPrefix_append) simp
  ultimately show ?thesis using ds(4,5) unfolding v_def by (intro exI [of _ "int (digits_val ds)"]) auto
qed

definition sample_template :: VSphereMachineTemplate where
  "sample_template = \<lparr>vmt_meta = empty_meta, vmt_Spec = \<lparr>ms_Clone = zero_clone\<lparr>c_HardwareVersion := ''vmx-17''\<rparr>, ms_ProviderID = '''',
     ms_PowerOffMode = '''', ms_GuestSoftPowerOffTimeoutSeconds = 0, ms_NamingTemplate = ''''\<rparr>\<rparr>"

theorem accepted_hardware_version_parses_witness:
  "\<exists>n \<le> 99. 1 \<le> n \<and> ParseHardwareVersion ''vmx-17'' = Some n"
proof -
  have "VSphereMachineTemplate_ValidateCreate ext_default (\<lambda>s. []) sample_template = Allowed"
    by (simp add: VSphereMachineTemplate_ValidateCreate_def sample_template_def zero_clone_def hardware_version_ok_def is_digit_def
        timeout_errors_def validatePCIDevices_def validateVSphereVMNamingTemplate_def AggregateObjErrors_def)
  from accepted_hardware_version_parses [OF this] show ?thesis by (auto simp: sample_template_def)
qed

definition net_entries :: "NetworkSpec \<Rightarrow> leaf json_map" where
  "net_entries n = [(''devices'', JVal (LDevices (ns_Devices n))), (''routes'', JVal (LRoutes (ns_Routes n)))]"

lemma filter_update: "P k \<Longrightarrow> filter (\<lambda>(k, _). P k) (AList.update k v m) = AList.update k v (filter (\<lambda>(k, _). P k) m)"
  by (induction m) auto

lemma specs_differ_network:
  assumes "''network'' \<notin> set keys" and "map_of a ''network'' = Some (JObj m)"
    and "deleteSpecKeys n [''devices''] = deleteSpecKeys m [''devices'']"
  shows "specs_differ keys [(''spec'', JObj a)] [(''spec'', JObj (AList.update ''network'' (JObj n) a))] = Inr False"
  using assms
  by (simp add: specs_differ_def Let_def deleteSpecKeys_filter [of _ keys] filter_update update_conv
      map_of_deleteSpecKeys [unfolded deleteSpecKeys_filter])

definition with_devices :: "NetworkDeviceSpec list \<Rightarrow> VSphereVM \<Rightarrow> VSphereVM" where
  "with_devices ds vm = vm\<lparr>vm_Spec := (vm_Spec vm)\<lparr>s_Clone := (s_Clone (vm_Spec vm))\<lparr>c_Network :=
     (c_Network (s_Clone (vm_Spec vm)))\<lparr>ns_Devices := ds\<rparr>\<rparr>\<rparr>\<rparr>"

lemma ball_enumerate: "(\<forall>p \<in> set (enumerate n xs). P (snd p)) \<longleftrightarrow> (\<forall>y \<in> set xs. P y)"
proof -
  have "(\<forall>p \<in> set (enumerate n xs). P (snd p)) \<longleftrightarrow> (\<forall>y \<in> snd ` set (enumerate n xs). P y)" by simp
  also have "snd ` set (enumerate n xs) = set xs" by (metis image_set map_snd_enumerate)
  finally show ?thesis .
qed

lemma ip_errors_iff: "ip_errors ds = [] \<longleftrightarrow> (\<forall>d \<in> set ds. \<forall>ip \<in> set (d_IPAddrs d). ParseCIDR ip \<noteq> None)"
proof -
  have "ip_errors ds = [] \<longleftrightarrow>
      (\<forall>p \<in> set (enumerate 0 ds). \<forall>q \<in> set (enumerate 0 (d_IPAddrs (snd p))). ParseCIDR (snd q) \<noteq> None)"
    by (simp add: ip_errors_def case_prod_unfold concat_eq_Nil_conv split: option.split)
  also have "\<dots> \<longleftrightarrow> (\<forall>d \<in> set ds. \<forall>q \<in> set (enumerate 0 (d_IPAddrs d)). ParseCIDR (snd q) \<noteq> None)"
    by (rule ball_enumerate [where P = "\<lambda>d. \<forall>q \<in> set (enumerate 0 (d_IPAddrs d)). ParseCIDR (snd q) \<noteq> None"])
  finally show ?thesis by (simp only: ball_enumerate [where P = "\<lambda>ip. ParseCIDR ip \<noteq> None"])
qed

text \<open>
  The addresses of a VSphereVM are checked when it is created but not when it is updated: with a converter as above, an update
  that changes nothing but the network devices is accepted whatever their addresses are, while the creation of the same
  object is refused unless every address is in CIDR format. (\<open>ValidateUpdate\<close> of a VSphereMachine does check them.)
\<close>

lemma vm_update_skips_address_check:
  assumes "VSphereVM_ValidateCreate old = Allowed"
  shows "VSphereVM_ValidateUpdate vm_json old (with_devices ds old) = Allowed \<and>
    (VSphereVM_ValidateCreate (with_devices ds old) = Allowed \<longleftrightarrow> (\<forall>d \<in> set ds. \<forall>ip \<in> set (d_IPAddrs d). ParseCIDR ip \<noteq> None))"
proof -
  note ok = assms [unfolded VSphereVM_ValidateCreate_def Let_def AggregateObjErrors_Allowed]
  have "specs_differ (VSphereVM_keys old) [(''spec'', JObj (spec_json (vm_Spec old)))] [(''spec'', JObj (spec_json (vm_Spec (with_devices ds old))))] =
      Inr False"
  proof -
    have n: "map_of (spec_json (vm_Spec vm)) ''network'' = Some (JObj (net_entries (c_Network (s_Clone (vm_Spec vm)))))" for vm
      by (simp add: spec_json_def network_json_def net_entries_def Let_def)
    have "spec_json (vm_Spec (with_devices ds old)) =
        AList.update ''network'' (JObj (net_entries ((c_Network (s_Clone (vm_Spec old)))\<lparr>ns_Devices := ds\<rparr>))) (spec_json (vm_Spec old))"
      by (simp add: spec_json_def network_json_def net_entries_def with_devices_def Let_def)
    moreover have "''network'' \<notin> set (VSphereVM_keys old)" by (simp add: VSphereVM_keys_def)
    moreover have "deleteSpecKeys (net_entries ((c_Network (s_Clone (vm_Spec old)))\<lparr>ns_Devices := ds\<rparr>)) [''devices''] =
        deleteSpecKeys (net_entries (c_Network (s_Clone (vm_Spec old)))) [''devices'']"
      by (simp add: net_entries_def)
    ultimately show ?thesis using specs_differ_network [OF _ n] by metis
  qed
  moreover have "timeout_errors path (s_GuestSoftPowerOffTimeoutSeconds (vm_Spec old)) (s_PowerOffMode (vm_Spec old)) = []" for path
    using ok by (simp add: timeout_errors_def split: if_splits)
  ultimately have "VSphereVM_ValidateUpdate vm_json old (with_devices ds old) = Allowed"
    by (simp add: VSphereVM_ValidateUpdate_def vm_json_def AggregateObjErrors_def with_devices_def)
  moreover have "VSphereVM_ValidateCreate (with_devices ds old) = Allowed \<longleftrightarrow> ip_errors ds = []"
    using ok by (simp add: VSphereVM_ValidateCreate_def AggregateObjErrors_Allowed with_devices_def)
  ultimately show ?thesis by (simp add: ip_errors_iff)
qed

end
