(* ===== verification/Supervisor_Types.thy ===== *)
theory Supervisor_Types
  imports Owners Util "HOL-Library.AList" "HOL-Library.List_Lexorder" "HOL-Library.Char_ord"
begin

text \<open>
  The data of the supervisor mode: the API types of \<open>api/supervisor/v1beta2\<close> and the types of VM operator as
  \<open>pkg/conversion/api/vmoperator/hub\<close> mirrors them, one record per struct with the fields the program reads or writes; and
  the outside of that mode, in the same style as theory \<open>Vim\<close>.
\<close>

section \<open>\<open>api/supervisor/v1beta2\<close>\<close>

record SVolume =
  vo_Name :: string
  vo_Capacity :: "(string \<times> Quantity) list"
  vo_StorageClass :: string

record RouteSpec =
  ro_To :: string
  ro_Via :: string

record InterfaceSpec =
  if_NetworkKind :: string
  if_NetworkName :: string
  if_NetworkAPIVersion :: string
  if_MTU :: int
  if_Routes :: "RouteSpec list"

record VLANSpec =
  vl_Name :: string
  vl_ID :: "int option"
  vl_Link :: string

record SNetworkSpec =
  sn_Primary :: InterfaceSpec
  sn_Secondary :: "(string \<times> InterfaceSpec) list"
  sn_VLANs :: "VLANSpec list"

record SMachineSpec =
  sp_ProviderID :: string
  sp_ImageName :: string
  sp_ClassName :: string
  sp_StorageClass :: string
  sp_Volumes :: "SVolume list"
  sp_Network :: SNetworkSpec
  sp_PowerOffMode :: VirtualMachinePowerOpMode
  sp_MinHardwareVersion :: string
  sp_NamingTemplate :: string
  sp_Policies :: "(string \<times> string) list" \<comment> \<open>name and kind\<close>

datatype VSphereMachinePhase =
    PhaseUnset
  | PhaseNotFound
  | PhaseCreated
  | PhasePoweredOn
  | PhasePending
  | PhaseReady
  | PhaseDeleting
  | PhaseError

text \<open>The network of a VM, in the status of a \<open>VirtualMachine\<close> of VM operator and of a \<open>VSphereMachine\<close>.\<close>

record HubDHCPOptions =
  hdo_Config :: "(string \<times> string) list"
  hdo_Enabled :: bool

record HubIPAddr =
  hia_Address :: string
  hia_Lifetime :: "time option"
  hia_Origin :: string
  hia_State :: string

record HubIPStatus =
  hip_AutoConfigurationEnabled :: "bool option"
  hip_DHCP :: "(HubDHCPOptions \<times> HubDHCPOptions) option" \<comment> \<open>IP4, IP6\<close>
  hip_Addresses :: "HubIPAddr list"
  hip_MACAddr :: string

record HubDNS =
  hdn_DHCP :: bool
  hdn_DomainName :: string
  hdn_HostName :: string
  hdn_Nameservers :: "string list"
  hdn_SearchDomains :: "string list"

record HubInterfaceStatus =
  hi_Name :: string
  hi_DeviceKey :: int
  hi_IP :: "HubIPStatus option"
  hi_DNS :: "HubDNS option"

record HubNetworkStatus =
  hn_Interfaces :: "HubInterfaceStatus list"
  hn_PrimaryIP4 :: string
  hn_PrimaryIP6 :: string

record SDHCPOptions =
  sdo_Config :: "(string \<times> string) list"
  sdo_Enabled :: "bool option"

record SIPStatus =
  sip_AutoConfigurationEnabled :: "bool option"
  sip_DHCP4 :: SDHCPOptions
  sip_DHCP6 :: SDHCPOptions
  sip_Addresses :: "HubIPAddr list" \<comment> \<open>the two structs have the same fields\<close>
  sip_MACAddr :: string

record SDNS =
  sdn_DHCP :: "bool option"
  sdn_DomainName :: string
  sdn_HostName :: string
  sdn_Nameservers :: "string list"
  sdn_SearchDomains :: "string list"

record SInterfaceStatus =
  sis_Name :: string
  sis_DeviceKey :: int
  sis_IP :: SIPStatus
  sis_DNS :: SDNS

record SMachineStatus =
  ss_Conditions :: "cond_op list"
  ss_Provisioned :: "bool option"
  ss_Addresses :: "MachineAddress list"
  ss_FailureDomain :: string
  ss_BiosUUID :: string
  ss_Phase :: VSphereMachinePhase
  ss_Interfaces :: "SInterfaceStatus list"

record SVSphereMachine =
  sv_meta :: ObjectMeta
  sv_Spec :: SMachineSpec
  sv_Status :: SMachineStatus

record SVSphereCluster =
  sc_meta :: ObjectMeta
  sc_Endpoint :: APIEndpoint \<comment> \<open>\<open>Spec.ControlPlaneEndpoint\<close>\<close>
  sc_CreateSubnetSet :: "bool option" \<comment> \<open>\<open>Spec.Network.NSXVPC\<close>\<close>
  sc_Provider :: string
  sc_Selector :: "string option" \<comment> \<open>\<open>Spec.FailureDomains.ControlPlane.Selector\<close>, a label selector in its text form\<close>
  sc_Provisioned :: "bool option"
  sc_FailureDomains :: "(string \<times> bool option) list" \<comment> \<open>\<open>Status.FailureDomains\<close>: name and \<open>ControlPlane\<close>\<close>
  sc_Conditions :: "cond_op list"

definition endpoint_IsZero :: "APIEndpoint \<Rightarrow> bool" where
  "endpoint_IsZero e \<longleftrightarrow> ae_Host e = '''' \<and> ae_Port e = 0"

section \<open>VM operator\<close>

record Condition =
  co_Type :: string
  co_Status :: ConditionStatus
  co_Reason :: string
  co_Message :: string

datatype label_term =
    MatchLabel string string
  | MatchIn string "string list"

record VMAffinityTerm =
  at_LabelSelector :: label_term
  at_TopologyKey :: string

record AffinitySpec =
  af_Required :: "VMAffinityTerm list" \<comment> \<open>\<open>VMAffinity\<close>\<close>
  af_Anti :: "VMAffinityTerm list" \<comment> \<open>\<open>VMAntiAffinity\<close>\<close>

record HubVolume =
  hvo_Name :: string
  hvo_ClaimName :: "string option" \<comment> \<open>of the \<open>PersistentVolumeClaim\<close>, if there is one\<close>
  hvo_ReadOnly :: bool

record HubInterface =
  hif_Name :: string
  hif_Network :: "(string \<times> string \<times> string) option" \<comment> \<open>kind, API version, name\<close>
  hif_MTU :: "int option"
  hif_Routes :: "RouteSpec list"
  hif_Gateway4 :: string
  hif_Gateway6 :: string
  hif_IPAMModes :: "string list"

record HubNetworkSpec =
  hns_Interfaces :: "HubInterface list"
  hns_VLANs :: "(string \<times> int \<times> string) list" \<comment> \<open>name, ID, link\<close>

record HubVMSpec =
  hs_ImageName :: string
  hs_ClassName :: string
  hs_Affinity :: "AffinitySpec option"
  hs_StorageClass :: string
  hs_CloudInit :: "(string \<times> string) option option"
    \<comment> \<open>\<open>Bootstrap\<close> and its \<open>CloudInit\<close>: name and key of the secret\<close>
  hs_Network :: "HubNetworkSpec option"
  hs_PowerState :: string
  hs_PowerOffMode :: string
  hs_Volumes :: "HubVolume list"
  hs_ReadinessProbe :: "int option" \<comment> \<open>port of the TCP socket\<close>
  hs_ResourcePolicyName :: "string option" \<comment> \<open>\<open>None\<close>: \<open>Reserved\<close> is nil\<close>
  hs_MinHardwareVersion :: int
  hs_GroupName :: string
  hs_Policies :: "(string \<times> string) list"

record HubVMStatus =
  hst_NodeName :: string
  hst_PowerState :: string
  hst_Conditions :: "Condition list"
  hst_Network :: "HubNetworkStatus option"
  hst_BiosUUID :: string
  hst_Zone :: string

record HubVM =
  hv_meta :: ObjectMeta
  hv_CreationTimestamp :: "time option"
  hv_Spec :: HubVMSpec
  hv_Status :: HubVMStatus

definition VirtualMachinePowerStateOn :: string where "VirtualMachinePowerStateOn = ''PoweredOn''"
definition HubPowerOpModeHard :: string where "HubPowerOpModeHard = ''Hard''"
definition HubPowerOpModeSoft :: string where "HubPowerOpModeSoft = ''Soft''"
definition HubPowerOpModeTrySoft :: string where "HubPowerOpModeTrySoft = ''TrySoft''"

record GroupMemberStatus =
  gm_Name :: string
  gm_Zone :: string \<comment> \<open>\<open>Placement.Zone\<close>; empty if there is no placement\<close>
  gm_Conditions :: "Condition list"

record HubVMGroup =
  vg_meta :: ObjectMeta
  vg_BootOrder :: "(string \<times> string) list list" \<comment> \<open>the members (name, kind) of each group; the delays are never set\<close>
  vg_Members :: "GroupMemberStatus list" \<comment> \<open>\<open>Status.Members\<close>\<close>

record VMServicePort =
  vp_Name :: string
  vp_Protocol :: string
  vp_Port :: int
  vp_TargetPort :: int

record VMService =
  vs_meta :: ObjectMeta
  vs_Type :: string
  vs_Ports :: "VMServicePort list"
  vs_Selector :: "(string \<times> string) list"
  vs_IPFamilyPolicy :: "string option"
  vs_IPFamilies :: "string list"
  vs_Ingress :: "string list" \<comment> \<open>the addresses of \<open>Status.LoadBalancer.Ingress\<close>\<close>

record ResourcePolicy =
  rp_meta :: ObjectMeta
  rp_ResourcePool :: string
  rp_Folder :: string
  rp_ClusterModuleGroups :: "string list"

section \<open>Networks and zones\<close>

record VirtualNetwork = \<comment> \<open>of NCP\<close>
  vn_meta :: ObjectMeta
  vn_WhitelistSourceRanges :: string
  vn_Conditions :: "Condition list"

datatype SubnetAddresses = IPAddressTypeUnset | IPAddressTypeIPv4 | IPAddressTypeIPv6 | IPAddressTypeIPv4IPv6

record SubnetSet = \<comment> \<open>of NSX operator\<close>
  sb_meta :: ObjectMeta
  sb_IPAddressType :: SubnetAddresses
  sb_Conditions :: "Condition list"

record Zone =
  zo_meta :: ObjectMeta

section \<open>Cluster API\<close>

record SupMachine = Machine +
  mach_Version :: string

record SupCluster = Cluster +
  cl_ControlPlaneInitialized :: "bool option"
  cl_Endpoint :: APIEndpoint \<comment> \<open>\<open>cl_EndpointIsZero\<close> is its \<open>IsZero\<close>; this mode reads the fields\<close>
  cl_Network :: ClusterNetwork
  cl_ControlPlaneRef :: "string option" \<comment> \<open>the name, if the reference is defined\<close>

record KCP =
  kcp_DeletionTimestamp :: "time option"
  kcp_Generation :: int
  kcp_ObservedGeneration :: int
  kcp_ConditionGenerations :: "int list" \<comment> \<open>\<open>ObservedGeneration\<close> of each condition\<close>
  kcp_CertSANs :: "string list"

record MachineDeployment =
  md_meta :: ObjectMeta
  md_Replicas :: "int option"
  md_FailureDomain :: string \<comment> \<open>\<open>Spec.Template.Spec.FailureDomain\<close>\<close>

definition MachineDeploymentNameLabel :: string where
  "MachineDeploymentNameLabel = ''cluster.x-k8s.io/deployment-name''"
definition LabelTopologyZone :: string where "LabelTopologyZone = ''topology.kubernetes.io/zone''"
definition LabelHostname :: string where "LabelHostname = ''kubernetes.io/hostname''"

section \<open>Machine integers and JSON\<close>

definition int32 :: "int \<Rightarrow> int" where
  \<comment> \<open>the conversion to \<open>int32\<close>, and the wrap-around of its arithmetic\<close>
  "int32 n = (n + 2 ^ 31) mod 2 ^ 32 - 2 ^ 31"

lemma int32_id: "- (2 ^ 31) \<le> n \<Longrightarrow> n < 2 ^ 31 \<Longrightarrow> int32 n = n"
  by (simp add: int32_def)

lemma int32_bounds: "- (2 ^ 31) \<le> int32 n \<and> int32 n < 2 ^ 31"
proof -
  have "0 \<le> (n + 2 ^ 31) mod 2 ^ 32" "(n + 2 ^ 31) mod 2 ^ 32 < (2 ^ 32 :: int)" by simp_all
  then show ?thesis unfolding int32_def by auto
qed

text \<open>\<open>json.Marshal\<close> on a string of ASCII characters.\<close>

definition json_char :: "char \<Rightarrow> string" where
  "json_char c = (let n = (of_char c :: nat); hex = (\<lambda>k. if k < 10 then char_of (48 + k) else char_of (87 + k)) in
     if c = CHR 0x22 then [CHR 0x5C, CHR 0x22]
     else if c = CHR 0x5C then [CHR 0x5C, CHR 0x5C]
     else if n = 8 then [CHR 0x5C, CHR ''b'']
     else if n = 12 then [CHR 0x5C, CHR ''f'']
     else if n = 10 then [CHR 0x5C, CHR ''n'']
     else if n = 13 then [CHR 0x5C, CHR ''r'']
     else if n = 9 then [CHR 0x5C, CHR ''t'']
     else if n < 32 \<or> c = CHR ''<'' \<or> c = CHR ''>'' \<or> c = CHR ''&'' then [CHR 0x5C, CHR ''u'', CHR ''0'', CHR ''0'', hex (n div 16), hex (n mod 16)]
     else [c])"

definition json_string :: "string \<Rightarrow> string" where
  "json_string s = [CHR 0x22] @ concat (map json_char s) @ [CHR 0x22]"

section \<open>Feature gates\<close>

record gates =
  NodeAutoPlacement :: bool
  InfrastructurePolicies :: bool
  IPv6DualStack :: bool
  VLANSubinterface :: bool
  NamespaceScopedZones :: bool

section \<open>The outside\<close>

record PVC =
  pvc_Name :: string
  pvc_Namespace :: string
  pvc_Requests :: "(string \<times> Quantity) list"
  pvc_StorageClassName :: string
  pvc_Annotations :: "string \<rightharpoonup> string"

datatype (plugins only: size) sup_call =
    SGet_VM string string
  | SGet_VMGroup string string
  | SGet_Cluster string string
  | SGet_VSphereMachine string string
  | SList_MachineDeployments string string
  | SList_VSphereMachines string string
  | SList_DeploymentMachines string string \<comment> \<open>the VSphereMachines of a cluster that carry a deployment label\<close>
  | SList_Zones string
  | SList_VMs string string string \<comment> \<open>namespace, label key, label value\<close>
  | SCreate_VM HubVM
  | SMergeFrom_VM HubVM \<comment> \<open>\<open>conversionclient.MergeFrom\<close>\<close>
  | SPatch_VM HubVM HubVM
  | SDelete_VM string string
  | SCreateOrPatch_PVC PVC
  | SCreate_VMGroup HubVMGroup
  | SMergeFrom_VMGroup HubVMGroup
  | SPatch_VMGroup HubVMGroup HubVMGroup
  | SGet_VSphereCluster string string
  | SList_Networks string string \<comment> \<open>of net operator: namespace, label\<close>
  | SGet_ConfigMap string string
  | SGet_Namespace string
  | SGet_VNet string string
  | SCreate_VNet VirtualNetwork
  | SPatch_VNet VirtualNetwork VirtualNetwork
  | SGet_SubnetSet string string
  | SCreate_SubnetSet SubnetSet
  | SPatch_SubnetSet SubnetSet SubnetSet
  | SGet_VMService string string
  | SCreate_VMService VMService
  | SMergeFrom_VMService VMService
  | SPatch_VMService VMService VMService
  | SGet_KCP string string
  | SGet_ResourcePolicy string string
  | SCreate_ResourcePolicy ResourcePolicy
  | SMergeFrom_ResourcePolicy ResourcePolicy
  | SPatch_ResourcePolicy ResourcePolicy ResourcePolicy
  | SList_ControlPlaneMachines string string
  | SList_AvailabilityZones
  | SList_VSphereClusters string
  | SGet_OwnerCluster ObjectMeta
  | SEnsureFinalizer ObjectMeta string
  | SNewPatchHelper ObjectMeta
  | SEnsurePaused ObjectMeta
  | SPatch_VSphereCluster SVSphereCluster
  | SGet_OwnerMachine ObjectMeta
  | SAddOwners SupMachine
  | SGet_ClusterFromMetadata ObjectMeta
  | SPatch_VSphereMachine SVSphereMachine
  | SPatch_Machine SupMachine

type_synonym 'a sup_answer = "sup_call list \<Rightarrow> go_error + 'a"

record sup_objects =
  y_unit :: "unit sup_answer"
  y_vm :: "HubVM sup_answer"
  y_vms :: "HubVM list sup_answer"
  y_group :: "HubVMGroup sup_answer"
  y_cluster :: "SupCluster sup_answer"
  y_machine :: "SVSphereMachine sup_answer"
  y_machines :: "SVSphereMachine list sup_answer"
  y_deployments :: "MachineDeployment list sup_answer"
  y_zones :: "Zone list sup_answer"

record sup_answers = sup_objects +
  y_names :: "string list sup_answer" \<comment> \<open>names of objects of which only the name is read\<close>
  y_bool :: "bool sup_answer"
  y_paused :: "(bool \<times> bool) sup_answer"
  y_vcluster :: "SVSphereCluster sup_answer"
  y_vclusters :: "SVSphereCluster list sup_answer"
  y_owner :: "SupCluster option sup_answer"
  y_ownermachine :: "SupMachine option sup_answer"
  y_cpmachines :: "SupMachine list sup_answer"
  y_strings :: "(string \<rightharpoonup> string) option sup_answer" \<comment> \<open>data of a config map, annotations of a namespace; \<open>None\<close> is nil\<close>
  y_vnet :: "VirtualNetwork sup_answer"
  y_subnetset :: "SubnetSet sup_answer"
  y_service :: "VMService sup_answer"
  y_kcp :: "KCP sup_answer"
  y_policy :: "ResourcePolicy sup_answer"

text \<open>Pure functions of third-party packages.\<close>

record sup_functions = sup_answers +
  y_ParseTemplate :: "string \<Rightarrow> go_error + string"
  y_ExecuteTemplate :: "string \<Rightarrow> string \<Rightarrow> go_error + string"
  y_FindStatusCondition :: "Condition list \<Rightarrow> string \<Rightarrow> Condition option" \<comment> \<open>\<open>meta.FindStatusCondition\<close>, \<open>conditions.Get\<close>\<close>
  y_IsStatusConditionTrue :: "Condition list \<Rightarrow> string \<Rightarrow> bool" \<comment> \<open>\<open>meta.IsStatusConditionTrue\<close>, \<open>conditions.IsTrue\<close>\<close>
  y_ClusterIsTrue :: "cond_op list \<Rightarrow> string \<Rightarrow> bool" \<comment> \<open>\<open>conditions.IsTrue\<close> on a Cluster\<close>
  y_SetControllerReference :: "ObjectMeta \<Rightarrow> ObjectMeta \<Rightarrow> go_error + ObjectMeta" \<comment> \<open>owner, object; the object with its owner\<close>

record sup_ext = sup_functions +
  y_SetOwnerReference :: "ObjectMeta \<Rightarrow> ObjectMeta \<Rightarrow> go_error + ObjectMeta" \<comment> \<open>as above, not as the controller\<close>
  y_semver_Parse :: "string \<Rightarrow> go_error + string"
  y_semver_LT :: "string \<Rightarrow> string \<Rightarrow> bool"
  y_Selector :: "string \<Rightarrow> go_error + ((string \<rightharpoonup> string) \<Rightarrow> bool)" \<comment> \<open>\<open>metav1.LabelSelectorAsSelector\<close> and \<open>Matches\<close>\<close>
  y_v1beta1_Has :: "cond_op list \<Rightarrow> string \<Rightarrow> bool" \<comment> \<open>\<open>deprecatedv1beta1conditions.Get\<close> is not nil\<close>
  y_SetSummaryCondition :: "cond_op list \<Rightarrow> go_error option"
  y_RemoveFinalizer :: "string list \<Rightarrow> string \<Rightarrow> string list"
  y_Has :: "cond_op list \<Rightarrow> string \<Rightarrow> bool" \<comment> \<open>\<open>conditions.Get\<close> is not nil\<close>
  y_IsValidLabelValue :: "string \<Rightarrow> string list"
  y_RemoveOwnerRef :: "OwnerReference list \<Rightarrow> OwnerReference \<Rightarrow> OwnerReference list"
  y_GroupVersion :: "string \<Rightarrow> string" \<comment> \<open>\<open>SchemeGroupVersion\<close> of a package\<close>
  y_EnsureOwnerRef :: "OwnerReference list \<Rightarrow> OwnerReference \<Rightarrow> OwnerReference list"

record sup_world =
  shist :: "sup_call list"

definition sup_do :: "sup_call \<Rightarrow> (sup_call list \<Rightarrow> 'r) \<Rightarrow> 'w sup_world_scheme \<Rightarrow> 'r \<times> 'w sup_world_scheme" where
  "sup_do c f w = (f (shist w @ [c]), w\<lparr>shist := shist w @ [c]\<rparr>)"

lemma sup_do_eq: "sup_do c f w = (r, w') \<longleftrightarrow> f (shist w @ [c]) = r \<and> w' = w\<lparr>shist := shist w @ [c]\<rparr>"
  by (auto simp: sup_do_def)

text \<open>\<open>sanswered f h h' c r\<close>: in a run that took the history from \<open>h\<close> to \<open>h'\<close> the call \<open>c\<close> was made and answered \<open>r\<close>.\<close>

definition sanswered :: "(sup_call list \<Rightarrow> 'r) \<Rightarrow> sup_call list \<Rightarrow> sup_call list \<Rightarrow> sup_call \<Rightarrow> 'r \<Rightarrow> bool" where
  "sanswered f h h' c r \<longleftrightarrow> (\<exists>k. prefix (h @ k @ [c]) h' \<and> f (h @ k @ [c]) = r)"

lemma sanswered_do: "sup_do c f w = (r, w') \<Longrightarrow> sanswered f (shist w) (shist w') c r"
  unfolding sanswered_def by (rule exI [of _ "[]"]) (auto simp: sup_do_def)

lemma sanswered_mono: "sanswered f h h' c r \<Longrightarrow> prefix h0 h \<Longrightarrow> prefix h' h1 \<Longrightarrow> sanswered f h0 h1 c r"
proof -
  assume "sanswered f h h' c r" "prefix h0 h" "prefix h' h1"
  moreover from this obtain u where "h = h0 @ u" by (auto elim: prefixE)
  ultimately obtain k where "prefix (h0 @ (u @ k) @ [c]) h'" "f (h0 @ (u @ k) @ [c]) = r" by (auto simp: sanswered_def)
  then have "prefix (h0 @ (u @ k) @ [c]) h1" "f (h0 @ (u @ k) @ [c]) = r" using \<open>prefix h' h1\<close> prefix_order.trans by blast+
  then show ?thesis unfolding sanswered_def by blast
qed

end
