(* ===== verification/Vmop_Machine.thy ===== *)
theory Vmop_Machine
  imports Supervisor_Types Machine_Service
begin

text \<open>
  The machines of the supervisor mode, \<open>pkg/services/vmoperator/vmopmachine.go\<close>: the VSphereMachine of a Machine is
  backed by a \<open>VirtualMachine\<close> of VM operator.

  The state is \<open>SupervisorMachineContext\<close> of \<open>pkg/context/vmware/machine_context.go\<close>. The hooks \<open>VMModifiers\<close>
  are an argument; they work in place on the object they get, as the one hook of the program does. The feature gates are an argument.
  The two listings that only count VMs for the debug log are left out with the log.
\<close>

record sup_mbase = sup_world +
  xm_VSphereMachine :: SVSphereMachine
  xm_Machine :: SupMachine

record sup_machine = sup_mbase +
  xm_Cluster :: SupCluster
  xm_VSphereCluster :: SVSphereCluster
  xm_ConfigureControlPlaneVMReadinessProbe :: bool

type_synonym 'a sup_step = "sup_machine \<Rightarrow> (go_error + 'a) \<times> sup_machine"
type_synonym VMModifier = "HubVM \<Rightarrow> HubVM sup_step"

abbreviation xm_spec :: "'w sup_mbase_scheme \<Rightarrow> SMachineSpec" where
  "xm_spec w \<equiv> sv_Spec (xm_VSphereMachine w)"

abbreviation xm_status :: "'w sup_mbase_scheme \<Rightarrow> SMachineStatus" where
  "xm_status w \<equiv> sv_Status (xm_VSphereMachine w)"

definition upd_xstatus :: "(SMachineStatus \<Rightarrow> SMachineStatus) \<Rightarrow> 'w sup_mbase_scheme \<Rightarrow> 'w sup_mbase_scheme" where
  "upd_xstatus f w = w\<lparr>xm_VSphereMachine := (xm_VSphereMachine w)\<lparr>sv_Status := f (xm_status w)\<rparr>\<rparr>"

definition set_Phase :: "VSphereMachinePhase \<Rightarrow> 'w sup_mbase_scheme \<Rightarrow> 'w sup_mbase_scheme" where
  "set_Phase p = upd_xstatus (\<lambda>s. s\<lparr>ss_Phase := p\<rparr>)"

definition add_xcond :: "cond_op list \<Rightarrow> 'w sup_mbase_scheme \<Rightarrow> 'w sup_mbase_scheme" where
  "add_xcond ops = upd_xstatus (\<lambda>s. s\<lparr>ss_Conditions := ss_Conditions s @ ops\<rparr>)"

section \<open>Names\<close>

definition GenerateVirtualMachineName :: "sup_ext \<Rightarrow> string \<Rightarrow> string \<Rightarrow> go_error + string" where
  "GenerateVirtualMachineName y machineName template =
     (if template = '''' then Inr machineName
      else case GenerateMachineNameFromTemplate (y_ParseTemplate y) (y_ExecuteTemplate y) machineName template of
             Inl err \<Rightarrow> Inl (Wrapf err ''failed to generate name for VirtualMachine'' [])
           | Inr name \<Rightarrow> Inr name)"

definition virtualMachineObjectKey :: "sup_ext \<Rightarrow> string \<Rightarrow> string \<Rightarrow> string \<Rightarrow> go_error + (string \<times> string)" where
  \<comment> \<open>namespace and name\<close>
  "virtualMachineObjectKey y machineName machineNamespace template =
     (case GenerateVirtualMachineName y machineName template of Inl err \<Rightarrow> Inl err | Inr name \<Rightarrow> Inr (machineNamespace, name))"

abbreviation vm_key :: "sup_ext \<Rightarrow> 'w sup_mbase_scheme \<Rightarrow> go_error + (string \<times> string)" where
  "vm_key y w \<equiv> virtualMachineObjectKey y (m_Name (mach_meta (xm_Machine w))) (m_Namespace (mach_meta (xm_Machine w)))
     (sp_NamingTemplate (xm_spec w))"

section \<open>Labels, annotations, volumes\<close>

definition ClusterSelectorKey :: string where "ClusterSelectorKey = ''capv.vmware.com/cluster.name''"
definition legacyClusterSelectorKey :: string where "legacyClusterSelectorKey = ''capw.vmware.com/cluster.name''"
definition nodeSelectorKey :: string where "nodeSelectorKey = ''capv.vmware.com/cluster.role''"
definition legacyNodeSelectorKey :: string where "legacyNodeSelectorKey = ''capw.vmware.com/cluster.role''"
definition defaultAPIBindPort :: int where "defaultAPIBindPort = 6443"
definition ZoneAnnotationPrefix :: string where "ZoneAnnotationPrefix = ''zone.vmware.infrastructure.cluster.x-k8s.io''"

definition clusterRoleVMLabels :: "string \<Rightarrow> bool \<Rightarrow> (string \<times> string) list" where
  "clusterRoleVMLabels cluster controlPlane =
     [(ClusterSelectorKey, cluster), (legacyClusterSelectorKey, cluster)] @
     (if controlPlane then [(nodeSelectorKey, ''controlplane''), (legacyNodeSelectorKey, ''controlplane'')]
      else [(nodeSelectorKey, ''node''), (legacyNodeSelectorKey, ''node'')])"

record affinityInfo =
  ai_affinitySpec :: AffinitySpec
  ai_vmGroupName :: string
  ai_failureDomain :: string

definition getTopologyLabels :: "sup_machine \<Rightarrow> string \<Rightarrow> (string \<times> string) list" where
  "getTopologyLabels w failureDomain =
     (if mach_FailureDomain (xm_Machine w) \<noteq> '''' then [(LabelTopologyZone, mach_FailureDomain (xm_Machine w))]
      else if failureDomain \<noteq> '''' then [(LabelTopologyZone, failureDomain)]
      else [])"

definition put_all :: "(string \<times> string) list \<Rightarrow> (string \<rightharpoonup> string) \<Rightarrow> (string \<rightharpoonup> string)" where
  \<comment> \<open>\<open>for k, v := range new { m[k] = v }\<close>, for a map whose keys are distinct\<close>
  "put_all new m = foldl (\<lambda>m (k, v). m(k \<mapsto> v)) m new"

definition getVMLabels :: "sup_machine \<Rightarrow> (string \<rightharpoonup> string) \<Rightarrow> affinityInfo option \<Rightarrow> (string \<rightharpoonup> string)" where
  "getVMLabels w vmLabels affInfo =
     (let cluster = m_Name (cl_meta (xm_Cluster w)); machine = mach_meta (xm_Machine w);
          failureDomain = (case affInfo of Some ai \<Rightarrow> ai_failureDomain ai | None \<Rightarrow> '''');
          vmLabels = put_all (clusterRoleVMLabels cluster (IsControlPlaneMachine machine)) vmLabels;
          vmLabels = put_all (getTopologyLabels w failureDomain) vmLabels;
          vmLabels = vmLabels(ClusterNameLabel \<mapsto> cluster)
      in if \<not> IsControlPlaneMachine machine
         then vmLabels(MachineDeploymentNameLabel \<mapsto> Deref (m_Labels machine MachineDeploymentNameLabel) '''')
         else vmLabels)"

definition getMachineDeploymentNameForCluster :: "string \<Rightarrow> string" where
  "getMachineDeploymentNameForCluster cluster = cluster @ ''-workers-0''"

definition addResourcePolicyAnnotations :: "sup_machine \<Rightarrow> (string \<rightharpoonup> string) \<Rightarrow> (string \<rightharpoonup> string)" where
  "addResourcePolicyAnnotations w annotations =
     (if IsControlPlaneMachine (mach_meta (xm_Machine w))
      then annotations(''vsphere-tag'' \<mapsto> ''CtrlVmVmAATag'', ''vsphere-cluster-module-group'' \<mapsto> ''control-plane-group'')
      else annotations(''vsphere-tag'' \<mapsto> ''WorkerVmVmAATag'',
        ''vsphere-cluster-module-group'' \<mapsto> getMachineDeploymentNameForCluster (m_Name (cl_meta (xm_Cluster w)))))"

definition volumeName :: "SVSphereMachine \<Rightarrow> SVolume \<Rightarrow> string" where
  "volumeName machine volume = m_Name (sv_meta machine) @ ''-'' @ vo_Name volume"

definition addVolume :: "HubVM \<Rightarrow> string \<Rightarrow> HubVM" where
  "addVolume vm name =
     (if list_ex (\<lambda>v. hvo_ClaimName v = Some name) (hs_Volumes (hv_Spec vm)) then vm
      else vm\<lparr>hv_Spec := (hv_Spec vm)\<lparr>hs_Volumes := hs_Volumes (hv_Spec vm) @
        [\<lparr>hvo_Name = name, hvo_ClaimName = Some name, hvo_ReadOnly = False\<rparr>]\<rparr>\<rparr>)"

definition volume_claim :: "sup_machine \<Rightarrow> SVolume \<Rightarrow> PVC" where
  "volume_claim w volume =
     (let zone = mach_FailureDomain (xm_Machine w); zonal = length (sc_FailureDomains (xm_VSphereCluster w)) > 1 in
      \<lparr>pvc_Name = volumeName (xm_VSphereMachine w) volume, pvc_Namespace = m_Namespace (sv_meta (xm_VSphereMachine w)),
       pvc_Requests = vo_Capacity volume,
       pvc_StorageClassName = (if vo_StorageClass volume = '''' then sp_StorageClass (xm_spec w) else vo_StorageClass volume),
       pvc_Annotations = (if zonal \<and> zone \<noteq> ''''
         then [''csi.vsphere.volume-requested-topology'' \<mapsto> ''[{'' @ json_string LabelTopologyZone @ '':'' @ json_string zone @ ''}]'']
         else Map.empty)\<rparr>)"

fun addVolumes :: "sup_ext \<Rightarrow> SVolume list \<Rightarrow> HubVM \<Rightarrow> HubVM sup_step" where
  "addVolumes y [] vm w = (Inr vm, w)"
| "addVolumes y (volume # volumes) vm w =
     (let pvc = volume_claim w volume in
      bindE (wrapE ''failed to create volume %s/%s'' [pvc_Namespace pvc, pvc_Name pvc] (sup_do (SCreateOrPatch_PVC pvc) (y_unit y) w)) (\<lambda>_ w.
      addVolumes y volumes (addVolume vm (pvc_Name pvc)) w))"

definition getPolicies :: "gates \<Rightarrow> sup_machine \<Rightarrow> (string \<times> string) list" where
  "getPolicies g w = (if \<not> InfrastructurePolicies g then [] else sp_Policies (xm_spec w))"

section \<open>The VirtualMachine\<close>

definition hub_PowerOffMode :: "VirtualMachinePowerOpMode \<Rightarrow> go_error + string" where
  "hub_PowerOffMode mode =
     (if mode = VirtualMachinePowerOpModeHard \<or> mode = '''' then Inr HubPowerOpModeHard
      else if mode = VirtualMachinePowerOpModeSoft then Inr HubPowerOpModeSoft
      else if mode = VirtualMachinePowerOpModeTrySoft then Inr HubPowerOpModeTrySoft
      else Inl (Errorf ''unable to map PowerOffMode %q to vm-operator equivalent'' [mode]))"

definition if_empty :: "string \<Rightarrow> string \<Rightarrow> string" where
  "if_empty old new = (if old = '''' then new else old)"

text \<open>The fields that \<open>reconcileVMOperatorVM\<close> sets before the volumes, in the order of the source.\<close>

definition desired_spec :: "sup_machine \<Rightarrow> int \<Rightarrow> string \<Rightarrow> HubVMSpec \<Rightarrow> HubVMSpec" where
  "desired_spec w minHardwareVersion powerOffMode spec =
     (let dataSecretName = (case mach_BootstrapDataSecretName (xm_Machine w) of Some dsn \<Rightarrow> dsn | None \<Rightarrow> '''') in
      spec\<lparr>hs_ImageName := if_empty (hs_ImageName spec) (sp_ImageName (xm_spec w)),
           hs_ClassName := if_empty (hs_ClassName spec) (sp_ClassName (xm_spec w)),
           hs_StorageClass := if_empty (hs_StorageClass spec) (sp_StorageClass (xm_spec w)),
           hs_PowerState := VirtualMachinePowerStateOn,
           hs_ResourcePolicyName := Some (if_empty (Deref (hs_ResourcePolicyName spec) '''') (m_Name (cl_meta (xm_Cluster w)))),
           hs_CloudInit := Some (Some (dataSecretName, ''user-data'')),
           hs_PowerOffMode := powerOffMode,
           hs_MinHardwareVersion := (if hs_MinHardwareVersion spec = 0 then minHardwareVersion else hs_MinHardwareVersion spec),
           hs_ReadinessProbe := (if xm_ConfigureControlPlaneVMReadinessProbe w \<and> IsControlPlaneMachine (mach_meta (xm_Machine w)) \<and>
               Deref (cl_ControlPlaneInitialized (xm_Cluster w)) False
             then Some defaultAPIBindPort else hs_ReadinessProbe spec)\<rparr>)"

fun apply_modifiers :: "VMModifier list \<Rightarrow> HubVM \<Rightarrow> HubVM sup_step" where
  "apply_modifiers [] vm w = (Inr vm, w)"
| "apply_modifiers (f # fs) vm w = bindE (f vm w) (apply_modifiers fs)"

definition set_affinity :: "affinityInfo option \<Rightarrow> HubVM \<Rightarrow> HubVM" where
  "set_affinity affInfo vm =
     (case affInfo of
        None \<Rightarrow> vm
      | Some ai \<Rightarrow>
          vm\<lparr>hv_Spec := (hv_Spec vm)\<lparr>
            hs_Affinity := (if hv_CreationTimestamp vm = None then Some (ai_affinitySpec ai) else hs_Affinity (hv_Spec vm)),
            hs_GroupName := if_empty (hs_GroupName (hv_Spec vm)) (ai_vmGroupName ai)\<rparr>\<rparr>)"

definition write_vm :: "sup_ext \<Rightarrow> bool \<Rightarrow> HubVM \<Rightarrow> HubVM \<Rightarrow> HubVM sup_step" where
  \<comment> \<open>the end of \<open>reconcileVMOperatorVM\<close>: create, patch, or nothing; the object then holds the answer of the server\<close>
  "write_vm y vmExists originalVM vm w =
     (if \<not> vmExists then sup_do (SCreate_VM vm) (y_vm y) w
      else if originalVM \<noteq> vm then
        bindE (wrapE ''failed to create patch for VirtualMachine object'' [] (sup_do (SMergeFrom_VM originalVM) (y_unit y) w)) (\<lambda>_ w.
        wrapE ''failed to patch VirtualMachine object'' [] (sup_do (SPatch_VM originalVM vm) (y_vm y) w))
      else (Inr vm, w))"

definition desired_vm :: "int \<Rightarrow> string \<Rightarrow> affinityInfo option \<Rightarrow> sup_machine \<Rightarrow> HubVM \<Rightarrow> HubVM" where
  \<comment> \<open>from the specification to the annotations\<close>
  "desired_vm minHardwareVersion powerOffMode affInfo w vm =
     vm\<lparr>hv_Spec := desired_spec w minHardwareVersion powerOffMode (hv_Spec vm),
        hv_meta := (hv_meta vm)\<lparr>m_Labels := getVMLabels w (m_Labels (hv_meta vm)) affInfo,
          m_Annotations := addResourcePolicyAnnotations w (m_Annotations (hv_meta vm))\<rparr>\<rparr>"

definition minimum_hardware :: "string \<Rightarrow> go_error + int" where
  "minimum_hardware version =
     (if version = '''' then Inr 0
      else case ParseHardwareVersion version of None \<Rightarrow> Inl (Errorf ''strconv.Atoi'' []) | Some hwVersion \<Rightarrow> Inr (int32 hwVersion))"

definition complete_vm :: "sup_ext \<Rightarrow> gates \<Rightarrow> VMModifier list \<Rightarrow> affinityInfo option \<Rightarrow> int \<Rightarrow> string \<Rightarrow> HubVM \<Rightarrow> HubVM sup_step" where
  \<comment> \<open>\<open>reconcileVMOperatorVM\<close> from the specification to the owner reference\<close>
  "complete_vm y g mods affInfo minHardwareVersion powerOffMode vm w =
     bindE (addVolumes y (sp_Volumes (xm_spec w)) (desired_vm minHardwareVersion powerOffMode affInfo w vm) w) (\<lambda>vm w.
     let vm = (if hv_CreationTimestamp vm = None then vm\<lparr>hv_Spec := (hv_Spec vm)\<lparr>hs_Policies := getPolicies g w\<rparr>\<rparr> else vm) in
     bindE (apply_modifiers mods vm w) (\<lambda>vm w.
     let vm = set_affinity affInfo vm in
     (case y_SetControllerReference y (sv_meta (xm_VSphereMachine w)) (hv_meta vm) of
        Inl e \<Rightarrow> (Inl (Wrapf e ''failed to mark %s %s/%s as owner of %s %s/%s'' []), w)
      | Inr m \<Rightarrow> (Inr (vm\<lparr>hv_meta := m\<rparr>), w))))"

definition reconcileVMOperatorVM ::
  "sup_ext \<Rightarrow> gates \<Rightarrow> VMModifier list \<Rightarrow> HubVM \<Rightarrow> affinityInfo option \<Rightarrow> HubVM sup_step" where
  "reconcileVMOperatorVM y g mods vm affInfo w =
     (if mach_Version (xm_Machine w) = '''' then (Inl (Errorf ''missing kubernetes version for %s %s/%s'' []), w)
      else case minimum_hardware (sp_MinHardwareVersion (xm_spec w)) of
        Inl e \<Rightarrow> (Inl e, w)
      | Inr minHardwareVersion \<Rightarrow>
          let write = (\<lambda>vmExists vm w.
                case hub_PowerOffMode (sp_PowerOffMode (xm_spec w)) of
                  Inl e \<Rightarrow> (Inl e, w)
                | Inr powerOffMode \<Rightarrow>
                    bindE (complete_vm y g mods affInfo minHardwareVersion powerOffMode vm w) (\<lambda>vm' w. write_vm y vmExists vm vm' w))
          in (case sup_do (SGet_VM (m_Namespace (hv_meta vm)) (m_Name (hv_meta vm))) (y_vm y) w of
                (Inl e, w) \<Rightarrow> if \<not> apierrors_IsNotFound e then (Inl e, w) else write False vm w
              | (Inr vm, w) \<Rightarrow> write True vm w))"

section \<open>The network\<close>

definition convertKeyValueSlice :: "(string \<times> string) list \<Rightarrow> (string \<times> string) list" where
  "convertKeyValueSlice pairs = map (\<lambda>(k, v). (k, v)) pairs"

definition zero_sdhcp :: SDHCPOptions where "zero_sdhcp = \<lparr>sdo_Config = [], sdo_Enabled = None\<rparr>"

definition sdhcp :: "HubDHCPOptions \<Rightarrow> SDHCPOptions" where
  "sdhcp o4 = \<lparr>sdo_Config = convertKeyValueSlice (hdo_Config o4), sdo_Enabled = Some (hdo_Enabled o4)\<rparr>"

definition iface_status :: "HubInterfaceStatus \<Rightarrow> SInterfaceStatus" where
  "iface_status vmIface =
     \<lparr>sis_Name = hi_Name vmIface, sis_DeviceKey = hi_DeviceKey vmIface,
      sis_IP = (case hi_IP vmIface of
          None \<Rightarrow> \<lparr>sip_AutoConfigurationEnabled = None, sip_DHCP4 = zero_sdhcp, sip_DHCP6 = zero_sdhcp, sip_Addresses = [], sip_MACAddr = ''''\<rparr>
        | Some ip \<Rightarrow> \<lparr>sip_AutoConfigurationEnabled = hip_AutoConfigurationEnabled ip,
            sip_DHCP4 = (case hip_DHCP ip of None \<Rightarrow> zero_sdhcp | Some (a, b) \<Rightarrow> sdhcp a),
            sip_DHCP6 = (case hip_DHCP ip of None \<Rightarrow> zero_sdhcp | Some (a, b) \<Rightarrow> sdhcp b),
            sip_Addresses = hip_Addresses ip, sip_MACAddr = hip_MACAddr ip\<rparr>),
      sis_DNS = (case hi_DNS vmIface of
          None \<Rightarrow> \<lparr>sdn_DHCP = None, sdn_DomainName = '''', sdn_HostName = '''', sdn_Nameservers = [], sdn_SearchDomains = []\<rparr>
        | Some dns \<Rightarrow> \<lparr>sdn_DHCP = Some (hdn_DHCP dns), sdn_DomainName = hdn_DomainName dns, sdn_HostName = hdn_HostName dns,
            sdn_Nameservers = hdn_Nameservers dns, sdn_SearchDomains = hdn_SearchDomains dns\<rparr>)\<rparr>"

definition vmop_reconcileNetwork :: "HubNetworkStatus \<Rightarrow> sup_machine \<Rightarrow> bool \<times> sup_machine" where
  \<comment> \<open>on a VM whose \<open>Status.Network\<close> is set, as its caller has checked\<close>
  "vmop_reconcileNetwork network w =
     (let w = upd_xstatus (\<lambda>s. s\<lparr>ss_Interfaces := map iface_status (hn_Interfaces network)\<rparr>) w in
      if hn_PrimaryIP4 network = '''' \<and> hn_PrimaryIP6 network = '''' then (False, w)
      else let ipAddr = (if hn_PrimaryIP4 network = '''' then hn_PrimaryIP6 network else hn_PrimaryIP4 network)
           in (True, upd_xstatus (\<lambda>s. s\<lparr>ss_Addresses := [\<lparr>ma_Type = MachineInternalIP, ma_Address = ipAddr\<rparr>]\<rparr>) w))"

section \<open>\<open>ReconcileNormal\<close>\<close>

definition checkVirtualMachineGroupMembership :: "HubVMGroup \<Rightarrow> string \<Rightarrow> bool" where
  "checkVirtualMachineGroupMembership vmg name =
     (case vg_BootOrder vmg of [] \<Rightarrow> False | members # _ \<Rightarrow> list_ex (\<lambda>(n, kind). n = name) members)"

definition waiting_for_group :: "cond_msg \<Rightarrow> cond_op list" where
  "waiting_for_group msg =
     [cond_Set VSphereMachineVirtualMachineProvisionedCondition ConditionFalse ''WaitingForVirtualMachineGroup'' msg]"

definition otherMDNames :: "string \<Rightarrow> MachineDeployment list \<Rightarrow> string list" where
  "otherMDNames mdName mds =
     sort (map (\<lambda>md. m_Name (md_meta md)) (filter (\<lambda>md. md_FailureDomain md = '''' \<and> m_Name (md_meta md) \<noteq> mdName) mds))"

definition affinity_spec :: "string \<Rightarrow> string list \<Rightarrow> AffinitySpec" where
  "affinity_spec mdName others =
     \<lparr>af_Required = [\<lparr>at_LabelSelector = MatchLabel MachineDeploymentNameLabel mdName, at_TopologyKey = LabelTopologyZone\<rparr>],
      af_Anti = [\<lparr>at_LabelSelector = MatchLabel MachineDeploymentNameLabel mdName, at_TopologyKey = LabelHostname\<rparr>] @
        (if others \<noteq> [] then [\<lparr>at_LabelSelector = MatchIn MachineDeploymentNameLabel others, at_TopologyKey = LabelTopologyZone\<rparr>] else [])\<rparr>"

text \<open>
  The block on \<open>NodeAutoPlacement\<close>. \<open>Inr None\<close>: the VM has to wait for its group, the run ends with a requeue.
\<close>

definition group_affinity :: "sup_ext \<Rightarrow> gates \<Rightarrow> string \<Rightarrow> affinityInfo option option sup_step" where
  "group_affinity y g vmName w =
     (if \<not> (NodeAutoPlacement g \<and> \<not> IsControlPlaneMachine (sv_meta (xm_VSphereMachine w))) then (Inr (Some None), w)
      else
        let ns = m_Namespace (cl_meta (xm_Cluster w)); cluster = m_Name (cl_meta (xm_Cluster w)) in
        case sup_do (SGet_VMGroup ns cluster) (y_group y) w of
          (Inl e, w) \<Rightarrow>
            if \<not> apierrors_IsNotFound e then (Inl e, w)
            else (Inr None, add_xcond (waiting_for_group (Msg ''Waiting for VSphereMachine's VirtualMachineGroup %s to exist'' [ns, cluster])) w)
        | (Inr vmg, w) \<Rightarrow>
            if \<not> checkVirtualMachineGroupMembership vmg vmName
            then (Inr None, add_xcond (waiting_for_group (Msg ''Waiting for VirtualMachineGroup %s to have %s as a member'' [cluster, vmName])) w)
            else
              let mdName = Deref (m_Labels (mach_meta (xm_Machine w)) MachineDeploymentNameLabel) '''';
                  fd = Deref (m_Annotations (vg_meta vmg) (ZoneAnnotationPrefix @ ''/'' @ mdName)) '''' in
              bindE (sup_do (SList_MachineDeployments ns cluster) (y_deployments y) w) (\<lambda>mds w.
              (Inr (Some (Some \<lparr>ai_affinitySpec = affinity_spec mdName (otherMDNames mdName mds), ai_vmGroupName = m_Name (vg_meta vmg),
                                ai_failureDomain = fd\<rparr>)), w)))"

definition zero_hub_vm :: "string \<Rightarrow> string \<Rightarrow> HubVM" where
  \<comment> \<open>an object with a name only\<close>
  "zero_hub_vm ns name =
     \<lparr>hv_meta = empty_meta\<lparr>m_Name := name, m_Namespace := ns\<rparr>, hv_CreationTimestamp = None,
      hv_Spec = \<lparr>hs_ImageName = '''', hs_ClassName = '''', hs_Affinity = None, hs_StorageClass = '''', hs_CloudInit = None, hs_Network = None,
        hs_PowerState = '''', hs_PowerOffMode = '''', hs_Volumes = [], hs_ReadinessProbe = None, hs_ResourcePolicyName = None,
        hs_MinHardwareVersion = 0, hs_GroupName = '''', hs_Policies = []\<rparr>,
      hv_Status = \<lparr>hst_NodeName = '''', hst_PowerState = '''', hst_Conditions = [], hst_Network = None, hst_BiosUUID = '''', hst_Zone = ''''\<rparr>\<rparr>"

definition prerequisites :: "string list" where
  "prerequisites = [''VirtualMachineClassReady'', ''VirtualMachineImageReady'', ''VirtualMachineConditionVMSetResourcePolicyReady'',
     ''VirtualMachineBootstrapReady'', ''VirtualMachineStorageReady'', ''VirtualMachineNetworkReady'', ''VirtualMachineConditionPlacementReady'']"

fun failed_prerequisite :: "sup_ext \<Rightarrow> Condition list \<Rightarrow> string list \<Rightarrow> (string \<times> Condition) option" where
  "failed_prerequisite y cs [] = None"
| "failed_prerequisite y cs (t # ts) =
     (case y_FindStatusCondition y cs t of
        Some c \<Rightarrow> if co_Status c = ConditionFalse then Some (t, c) else failed_prerequisite y cs ts
      | None \<Rightarrow> failed_prerequisite y cs ts)"

definition vm_waits :: "string \<Rightarrow> string \<Rightarrow> cond_op list" where
  \<comment> \<open>the two conditions with severity Info and no message\<close>
  "vm_waits v1reason reason = mprovisioned_false v1reason SeverityInfo reason NoMsg"

text \<open>The part of \<open>ReconcileNormal\<close> that reads the VirtualMachine, after it has been written. \<open>True\<close> asks for a requeue.\<close>

definition observe_vm :: "sup_ext \<Rightarrow> HubVM \<Rightarrow> bool sup_step" where
  "observe_vm y vm w =
     (let status = hv_Status vm; w = set_Phase PhasePending w in
      if \<not> y_IsStatusConditionTrue y (hst_Conditions status) ''VirtualMachineCreated'' then
        (case failed_prerequisite y (hst_Conditions status) prerequisites of
           Some (t, c) \<Rightarrow>
             (Inl (Errorf ''vm prerequisites check failed for condition %s: %s'' [t, m_Name (hv_meta vm)]),
              add_xcond [v1beta1_MarkFalse ''VMProvisioned'' (co_Reason c) SeverityError (Msg ''%s'' [co_Message c]),
                cond_Set VSphereMachineVirtualMachineProvisionedCondition ConditionFalse (co_Reason c) (Msg (co_Message c) [])] w)
         | None \<Rightarrow> (Inr True, add_xcond (vm_waits ''VMProvisionStarted'' ''Provisioning'') w))
      else
        let w = set_Phase PhaseCreated w in
        if hst_PowerState status \<noteq> VirtualMachinePowerStateOn then (Inr True, add_xcond (vm_waits ''PoweringOn'' ''PoweringOn'') w)
        else
          let w = set_Phase PhasePoweredOn w in
          case hst_Network status of
            None \<Rightarrow> (Inr True, add_xcond (vm_waits ''WaitingForNetworkAddress'' ''WaitingForNetworkAddress'') w)
          | Some network \<Rightarrow>
              if hn_PrimaryIP4 network = '''' \<and> hn_PrimaryIP6 network = ''''
              then (Inr True, add_xcond (vm_waits ''WaitingForNetworkAddress'' ''WaitingForNetworkAddress'') w)
              else if hst_BiosUUID status = '''' then (Inr True, add_xcond (vm_waits ''WaitingForBIOSUUID'' ''WaitingForBIOSUUID'') w)
              else
                let (ok, w) = vmop_reconcileNetwork network (set_Phase PhaseReady w) in
                if \<not> ok then (Inr True, w)
                else
                  let w = w\<lparr>xm_VSphereMachine := (xm_VSphereMachine w)\<lparr>sv_Spec := (xm_spec w)\<lparr>sp_ProviderID := ''vsphere://'' @ hst_BiosUUID status\<rparr>\<rparr>\<rparr>;
                      w = upd_xstatus (\<lambda>s. s\<lparr>ss_BiosUUID := hst_BiosUUID status, ss_FailureDomain := hst_Zone status, ss_Provisioned := Some True\<rparr>) w
                  in (Inr False, add_xcond [v1beta1_MarkTrue ''VMProvisioned'',
                        cond_Set VSphereMachineVirtualMachineProvisionedCondition ConditionTrue ''Provisioned'' NoMsg] w))"

definition creation_failed :: "go_error \<Rightarrow> cond_op list" where
  "creation_failed e =
     [v1beta1_MarkFalse ''VMProvisioned'' ''VMCreationFailed'' SeverityWarning (Msg ''failed to create or update VirtualMachine: %v'' []),
      cond_Set VSphereMachineVirtualMachineProvisionedCondition ConditionFalse ''NotProvisioned'' (ErrMsg e)]"

definition vmop_ReconcileNormal :: "sup_ext \<Rightarrow> gates \<Rightarrow> VMModifier list \<Rightarrow> bool sup_step" where
  "vmop_ReconcileNormal y g mods w =
     (let w = set_Phase PhasePending w in
      case vm_key y w of
        Inl e \<Rightarrow> (Inl e, w)
      | Inr (ns, name) \<Rightarrow>
          bindE (group_affinity y g name w) (\<lambda>group w.
          case group of
            None \<Rightarrow> (Inr True, w)
          | Some affInfo \<Rightarrow>
              let reconcile = (\<lambda>vm w. case reconcileVMOperatorVM y g mods vm affInfo w of
                    (Inl e, w) \<Rightarrow> (Inl e, if is_panic e then w else add_xcond (creation_failed e) w)
                  | (Inr vm, w) \<Rightarrow> observe_vm y vm w)
              in (case sup_do (SGet_VM ns name) (y_vm y) w of
                    (Inl e, w) \<Rightarrow> if \<not> apierrors_IsNotFound e then (Inl e, w) else reconcile (zero_hub_vm ns name) w
                  | (Inr vm, w) \<Rightarrow> reconcile vm w)))"

section \<open>Deletion and the other operations\<close>

definition vmop_ReconcileDelete :: "sup_ext \<Rightarrow> 'w sup_mbase_scheme \<Rightarrow> (go_error + unit) \<times> 'w sup_mbase_scheme" where
  "vmop_ReconcileDelete y w =
     (case vm_key y w of
        Inl e \<Rightarrow> (Inl e, w)
      | Inr (ns, name) \<Rightarrow>
          let failed = (\<lambda>e w. (Inl e, set_Phase (if apierrors_IsNotFound e then PhaseNotFound else PhaseError) w)) in
          (case sup_do (SGet_VM ns name) (y_vm y) w of
             (Inl e, w) \<Rightarrow> failed e w
           | (Inr vm, w) \<Rightarrow>
               if m_DeletionTimestamp (hv_meta vm) \<noteq> None then (Inr (), set_Phase PhaseDeleting w)
               else (case sup_do (SDelete_VM ns name) (y_unit y) w of
                       (Inl e, w) \<Rightarrow> failed e w
                     | (Inr _, w) \<Rightarrow> (Inr (), set_Phase PhaseDeleting w))))"

definition vmop_SyncFailureReason :: "unit sup_step" where
  "vmop_SyncFailureReason w = (Inr (), w)"

definition vmop_GetHostInfo :: "sup_ext \<Rightarrow> string sup_step" where
  "vmop_GetHostInfo y w =
     (case vm_key y w of
        Inl e \<Rightarrow> (Inl e, w)
      | Inr (ns, name) \<Rightarrow> bindE (sup_do (SGet_VM ns name) (y_vm y) w) (\<lambda>vm w. (Inr (hst_NodeName (hv_Status vm)), w)))"

definition vmop_GetMachinesInCluster :: "sup_ext \<Rightarrow> string \<Rightarrow> string \<Rightarrow> 'w sup_world_scheme \<Rightarrow> (go_error + SVSphereMachine list) \<times> 'w sup_world_scheme" where
  "vmop_GetMachinesInCluster y ns cluster w = sup_do (SList_VSphereMachines ns cluster) (y_machines y) w"

definition vmop_FetchVSphereMachine :: "sup_ext \<Rightarrow> string \<Rightarrow> string \<Rightarrow> 'w sup_world_scheme \<Rightarrow> (go_error + SVSphereMachine) \<times> 'w sup_world_scheme" where
  "vmop_FetchVSphereMachine y ns name w = sup_do (SGet_VSphereMachine ns name) (y_machine y) w"

definition vmop_FetchVSphereCluster :: "sup_ext \<Rightarrow> SupCluster \<Rightarrow> unit sup_step" where
  \<comment> \<open>after an error the source leaves an empty object, which its caller does not use\<close>
  "vmop_FetchVSphereCluster y cluster w =
     bindE (sup_do (SGet_VSphereCluster (m_Namespace (sv_meta (xm_VSphereMachine w))) (cl_InfrastructureRefName cluster)) (y_vcluster y) w) (\<lambda>c w.
     (Inr (), w\<lparr>xm_VSphereCluster := c\<rparr>))"

definition getVirtualMachinesInCluster :: "sup_ext \<Rightarrow> HubVM list sup_step" where
  "getVirtualMachinesInCluster y w =
     (let ns = m_Namespace (cl_meta (xm_Cluster w)); cluster = m_Name (cl_meta (xm_Cluster w)) in
      bindE (wrapE ''error getting virtualmachines in cluster %s/%s'' [ns, cluster]
        (sup_do (SList_VMs ns ClusterSelectorKey cluster) (y_vms y) w)) (\<lambda>vms w.
      if vms = [] then wrapE ''error getting virtualmachines in cluster %s/%s using legacy labels'' [ns, cluster]
        (sup_do (SList_VMs ns legacyClusterSelectorKey cluster) (y_vms y) w)
      else (Inr vms, w)))"

end
