(* ===== verification/VM_Group.thy ===== *)
theory VM_Group
  imports Vmop_Machine
begin

text \<open>
  The \<open>VirtualMachineGroup\<close> of a cluster in the supervisor mode, \<open>controllers/vmware/virtualmachinegroup_reconciler.go\<close>: the
  group holds the worker VMs, and its annotations keep the zone that was decided for each MachineDeployment.

  The Go maps from VM names to deployments and from deployments to zones are association lists with distinct keys.
\<close>

section \<open>The data a group is computed from\<close>

definition memberNames :: "HubVMGroup \<Rightarrow> string list" where
  "memberNames vmg = (case vg_BootOrder vmg of [] \<Rightarrow> [] | members # _ \<Rightarrow> map fst members)"

definition zone_key :: "string \<Rightarrow> string" where
  "zone_key md = ZoneAnnotationPrefix @ ''/'' @ md"

abbreviation live :: "ObjectMeta \<Rightarrow> bool" where
  "live m \<equiv> m_DeletionTimestamp m = None"

definition deployment_of :: "SVSphereMachine \<Rightarrow> string" where
  "deployment_of m = Deref (m_Labels (sv_meta m) MachineDeploymentNameLabel) ''''"

fun getVirtualMachineNameToMachineDeploymentMapping ::
  "sup_ext \<Rightarrow> SVSphereMachine list \<Rightarrow> (string \<times> string) list \<Rightarrow> go_error + (string \<times> string) list" where
  "getVirtualMachineNameToMachineDeploymentMapping y [] acc = Inr acc"
| "getVirtualMachineNameToMachineDeploymentMapping y (m # ms) acc =
     (if \<not> live (sv_meta m) then getVirtualMachineNameToMachineDeploymentMapping y ms acc
      else case GenerateVirtualMachineName y (m_Name (sv_meta m)) (sp_NamingTemplate (sv_Spec m)) of
        Inl e \<Rightarrow> Inl e
      | Inr name \<Rightarrow>
          getVirtualMachineNameToMachineDeploymentMapping y ms
            (if deployment_of m \<noteq> '''' then AList.update name (deployment_of m) acc else acc))"

section \<open>When a group is created\<close>

fun count_machines :: "string list \<Rightarrow> SVSphereMachine list \<Rightarrow> int \<Rightarrow> int option" where
  \<comment> \<open>\<open>None\<close>: a machine of one of the deployments is being deleted\<close>
  "count_machines mdNames [] n = Some n"
| "count_machines mdNames (m # ms) n =
     (if deployment_of m \<notin> set mdNames then count_machines mdNames ms n
      else if \<not> live (sv_meta m) then None
      else count_machines mdNames ms (int32 (n + 1)))"

definition expected_count :: "MachineDeployment list \<Rightarrow> int" where
  "expected_count mds = foldl (\<lambda>n md. int32 (n + Deref (md_Replicas md) 0)) 0 (filter (\<lambda>md. live (md_meta md)) mds)"

definition shouldCreateVirtualMachineGroup :: "MachineDeployment list \<Rightarrow> SVSphereMachine list \<Rightarrow> bool" where
  "shouldCreateVirtualMachineGroup mds machines =
     (let expected = expected_count mds; mdNames = map (\<lambda>md. m_Name (md_meta md)) (filter (\<lambda>md. live (md_meta md)) mds) in
      if expected = 0 then False
      else case count_machines mdNames machines 0 of
        None \<Rightarrow> False
      | Some current \<Rightarrow> \<not> current < expected)"

section \<open>The zone of a MachineDeployment\<close>

fun placed_zone :: "sup_ext \<Rightarrow> (string \<times> string) list \<Rightarrow> string \<Rightarrow> GroupMemberStatus list \<Rightarrow> string option" where
  \<comment> \<open>the loop over \<open>Status.Members\<close>\<close>
  "placed_zone y names md [] = None"
| "placed_zone y names md (member # members) =
     (if Deref (map_of names (gm_Name member)) '''' \<noteq> md then placed_zone y names md members
      else if \<not> y_IsStatusConditionTrue y (gm_Conditions member) ''PlacementReady'' then placed_zone y names md members
      else if gm_Zone member \<noteq> '''' then Some (gm_Zone member)
      else case y_FindStatusCondition y (gm_Conditions member) ''PlacementReady'' of
        Some c \<Rightarrow> if co_Reason c = ''AlreadyPlaced'' \<and> co_Message c \<noteq> '''' then Some (co_Message c) else placed_zone y names md members
      | None \<Rightarrow> placed_zone y names md members)"

definition vmgHasMDVM :: "(string \<times> string) list \<Rightarrow> string \<Rightarrow> HubVMGroup \<Rightarrow> bool" where
  "vmgHasMDVM names md vmg \<longleftrightarrow> list_ex (\<lambda>n. Deref (map_of names n) '''' = md) (memberNames vmg)"

definition place_deployment ::
  "sup_ext \<Rightarrow> string \<Rightarrow> HubVMGroup option \<Rightarrow> (string \<times> string) list \<Rightarrow> (string \<times> string) list \<Rightarrow> MachineDeployment \<Rightarrow> (string \<times> string) list" where
  \<comment> \<open>the body of the loop over the MachineDeployments\<close>
  "place_deployment y singleZoneName existing names zones md =
     (let name = m_Name (md_meta md) in
      if \<not> live (md_meta md) then zones
      else if md_FailureDomain md \<noteq> '''' then AList.update name (md_FailureDomain md) zones
      else case existing of
        None \<Rightarrow> if singleZoneName \<noteq> '''' then AList.update name singleZoneName zones else zones
      | Some vmg \<Rightarrow>
          let failureDomain = Deref (m_Annotations (vg_meta vmg) (zone_key name)) '''' in
          if failureDomain \<noteq> '''' then AList.update name failureDomain zones
          else
            let zones = (case placed_zone y names name (vg_Members vmg) of Some z \<Rightarrow> AList.update name z zones | None \<Rightarrow> zones) in
            if map_of zones name = None \<and> singleZoneName \<noteq> '''' \<and> \<not> vmgHasMDVM names name vmg
            then AList.update name singleZoneName zones else zones)"

definition getMachineDeploymentToFailureDomainMapping ::
  "sup_ext \<Rightarrow> MachineDeployment list \<Rightarrow> string \<Rightarrow> HubVMGroup option \<Rightarrow> (string \<times> string) list \<Rightarrow> (string \<times> string) list" where
  "getMachineDeploymentToFailureDomainMapping y mds singleZoneName existing names =
     foldl (place_deployment y singleZoneName existing names) [] mds"

section \<open>The desired group\<close>

definition desired_members ::
  "HubVMGroup option \<Rightarrow> (string \<times> string) list \<Rightarrow> (string \<times> string) list \<Rightarrow> (string \<times> string) list" where
  \<comment> \<open>the members, from the names of the VMs in order\<close>
  "desired_members existing names zones =
     map (\<lambda>n. (n, ''VirtualMachine''))
       (filter (\<lambda>n. case existing of None \<Rightarrow> True
                   | Some vmg \<Rightarrow> n \<in> set (memberNames vmg) \<or> map_of zones (Deref (map_of names n) '''') \<noteq> None)
         (sort (map fst names)))"

definition computeVirtualMachineGroup ::
  "sup_ext \<Rightarrow> ObjectMeta \<Rightarrow> MachineDeployment list \<Rightarrow> SVSphereMachine list \<Rightarrow> string \<Rightarrow> HubVMGroup option \<Rightarrow> go_error + HubVMGroup" where
  "computeVirtualMachineGroup y cluster mds machines singleZoneName existing =
     (let vmg = (case existing of
            None \<Rightarrow> \<lparr>vg_meta = empty_meta\<lparr>m_Name := m_Name cluster, m_Namespace := m_Namespace cluster\<rparr>, vg_BootOrder = [], vg_Members = []\<rparr>
          | Some v \<Rightarrow> v\<lparr>vg_meta := (vg_meta v)\<lparr>m_Annotations :=
              (\<lambda>k. if HasPrefix k (ZoneAnnotationPrefix @ ''/'') then None else m_Annotations (vg_meta v) k)\<rparr>\<rparr>);
          m = vg_meta vmg;
          m = m\<lparr>m_Labels := (m_Labels m)(ClusterNameLabel \<mapsto> m_Name cluster),
                m_OwnerReferences := y_EnsureOwnerRef y (m_OwnerReferences m)
                  \<lparr>or_APIVersion = ''cluster.x-k8s.io/v1beta2'', or_Kind = ''Cluster'', or_Name = m_Name cluster, or_UID = m_UID cluster,
                   or_Controller = Some True, or_BlockOwnerDeletion = None\<rparr>\<rparr>
      in case getVirtualMachineNameToMachineDeploymentMapping y machines [] of
           Inl e \<Rightarrow> Inl e
         | Inr names \<Rightarrow>
             let zones = getMachineDeploymentToFailureDomainMapping y mds singleZoneName existing names in
             Inr (vmg\<lparr>vg_meta := m\<lparr>m_Annotations := put_all (map (\<lambda>(md, z). (zone_key md, z)) zones) (m_Annotations m)\<rparr>,
                      vg_BootOrder := [desired_members existing names zones]\<rparr>))"

section \<open>The controller\<close>

type_synonym 'a group_step = "sup_world \<Rightarrow> (go_error + 'a) \<times> sup_world"

definition getVirtualMachineGroup :: "sup_ext \<Rightarrow> ObjectMeta \<Rightarrow> HubVMGroup option group_step" where
  "getVirtualMachineGroup y cluster w =
     (case sup_do (SGet_VMGroup (m_Namespace cluster) (m_Name cluster)) (y_group y) w of
        (Inl e, w) \<Rightarrow> if \<not> apierrors_IsNotFound e then (Inl (Wrapf e ''failed to get VirtualMachineGroup %s'' []), w) else (Inr None, w)
      | (Inr vmg, w) \<Rightarrow> (Inr (Some vmg), w))"

definition getVSphereMachines :: "sup_ext \<Rightarrow> ObjectMeta \<Rightarrow> SVSphereMachine list group_step" where
  "getVSphereMachines y cluster w =
     wrapE ''failed to get VSphereMachines'' [] (sup_do (SList_DeploymentMachines (m_Namespace cluster) (m_Name cluster)) (y_machines y) w)"

definition getMachineDeployments :: "sup_ext \<Rightarrow> ObjectMeta \<Rightarrow> MachineDeployment list group_step" where
  "getMachineDeployments y cluster w =
     wrapE ''failed to list MachineDeployments'' [] (sup_do (SList_MachineDeployments (m_Namespace cluster) (m_Name cluster)) (y_deployments y) w)"

definition single_zone :: "Zone list \<Rightarrow> string" where
  "single_zone zones = (case zones of [zone] \<Rightarrow> m_Name (zo_meta zone) | _ \<Rightarrow> '''')"

definition getSingleZoneName :: "sup_ext \<Rightarrow> ObjectMeta \<Rightarrow> string group_step" where
  "getSingleZoneName y cluster w =
     bindE (sup_do (SList_Zones (m_Namespace cluster)) (y_zones y) w) (\<lambda>zones w.
     (Inr (single_zone zones), w))"

definition group_reconcileNormal :: "sup_ext \<Rightarrow> ObjectMeta \<Rightarrow> unit group_step" where
  "group_reconcileNormal y cluster w =
     bindE (getVirtualMachineGroup y cluster w) (\<lambda>currentVMG w.
     bindE (getVSphereMachines y cluster w) (\<lambda>machines w.
     bindE (getMachineDeployments y cluster w) (\<lambda>mds w.
     bindE (getSingleZoneName y cluster w) (\<lambda>singleZoneName w.
     case currentVMG of
       None \<Rightarrow>
         if \<not> shouldCreateVirtualMachineGroup mds machines then (Inr (), w)
         else (case computeVirtualMachineGroup y cluster mds machines singleZoneName None of
                 Inl e \<Rightarrow> (Inl e, w)
               | Inr newVMG \<Rightarrow> wrapE ''failed to create new VMG'' [] (sup_do (SCreate_VMGroup newVMG) (y_unit y) w))
     | Some current \<Rightarrow>
         (case computeVirtualMachineGroup y cluster mds machines singleZoneName (Some current) of
            Inl e \<Rightarrow> (Inl e, w)
          | Inr updatedVMG \<Rightarrow>
              bindE (wrapE ''failed to create patch for VirtualMachineGroup object'' [] (sup_do (SMergeFrom_VMGroup current) (y_unit y) w)) (\<lambda>_ w.
              wrapE ''failed to patch VirtualMachineGroup object'' [] (sup_do (SPatch_VMGroup current updatedVMG) (y_unit y) w)))))))"

definition group_Reconcile :: "sup_ext \<Rightarrow> string \<Rightarrow> string \<Rightarrow> unit group_step" where
  "group_Reconcile y ns name w =
     (case sup_do (SGet_Cluster ns name) (y_cluster y) w of
        (Inl e, w) \<Rightarrow> if apierrors_IsNotFound e then (Inr (), w) else (Inl e, w)
      | (Inr cluster, w) \<Rightarrow>
          if \<not> live (cl_meta cluster) then (Inr (), w)
          else if \<not> y_ClusterIsTrue y (cl_Conditions cluster) ''ControlPlaneInitialized'' then (Inr (), w)
          else group_reconcileNormal y (cl_meta cluster) w)"

end
