(* ===== verification/VM_Group_Correct.thy ===== *)
theory VM_Group_Correct
  imports VM_Group
begin

text \<open>
  What the controller of VirtualMachineGroups keeps: a placement decision that was recorded for a MachineDeployment is never changed
  by it, only VMs of placed deployments join a group, and a deployment that comes late to a cluster with several zones is never placed.
\<close>

section \<open>Maps as lists\<close>

lemma put_all_distinct:
  "distinct (map fst new) \<Longrightarrow> put_all new m k = (case map_of new k of Some v \<Rightarrow> Some v | None \<Rightarrow> m k)"
proof (induction new arbitrary: m)
  case Nil
  then show ?case by (simp add: put_all_def)
next
  case (Cons kv new)
  obtain a b where kv: "kv = (a, b)" by (cases kv)
  have "put_all (kv # new) m = put_all new (m(a \<mapsto> b))" by (simp add: put_all_def kv)
  moreover have "map_of new a = None" using Cons.prems by (simp add: kv map_of_eq_None_iff)
  ultimately show ?case using Cons by (simp add: kv split: option.split)
qed

lemma zone_key_eq [simp]: "zone_key a = zone_key b \<longleftrightarrow> a = b"
  by (simp add: zone_key_def)

lemma zone_keys_distinct: "distinct (map fst zones) \<Longrightarrow> distinct (map fst (map (\<lambda>(md, z). (zone_key md, z)) zones))"
  by (induction zones) (auto simp: image_iff)

lemma map_of_zone_keys [simp]: "map_of (map (\<lambda>(md, z). (zone_key md, z)) zones) (zone_key n) = map_of zones n"
  by (induction zones) auto

lemma update_keys_image: "fst ` set (AList.update k v al) = insert k (fst ` set al)"
  by (induction al) auto

section \<open>The zone of a deployment\<close>

definition zone_decision ::
  "sup_ext \<Rightarrow> string \<Rightarrow> HubVMGroup option \<Rightarrow> (string \<times> string) list \<Rightarrow> MachineDeployment \<Rightarrow> string option" where
  \<comment> \<open>the rules of \<open>getMachineDeploymentToFailureDomainMapping\<close> as a function of one deployment\<close>
  "zone_decision y singleZoneName existing names md =
     (if \<not> live (md_meta md) then None
      else if md_FailureDomain md \<noteq> '''' then Some (md_FailureDomain md)
      else case existing of
        None \<Rightarrow> if singleZoneName \<noteq> '''' then Some singleZoneName else None
      | Some vmg \<Rightarrow>
          if Deref (m_Annotations (vg_meta vmg) (zone_key (m_Name (md_meta md)))) '''' \<noteq> ''''
          then m_Annotations (vg_meta vmg) (zone_key (m_Name (md_meta md)))
          else case placed_zone y names (m_Name (md_meta md)) (vg_Members vmg) of
            Some z \<Rightarrow> Some z
          | None \<Rightarrow> if singleZoneName \<noteq> '''' \<and> \<not> vmgHasMDVM names (m_Name (md_meta md)) vmg then Some singleZoneName else None)"

lemma Deref_nonempty: "Deref x '''' \<noteq> '''' \<Longrightarrow> x = Some (Deref x '''')"
  by (cases x) auto

lemma place_deployment_eq:
  assumes "map_of zones (m_Name (md_meta md)) = None"
  shows "place_deployment y s existing names zones md =
    (case zone_decision y s existing names md of None \<Rightarrow> zones | Some z \<Rightarrow> AList.update (m_Name (md_meta md)) z zones)"
proof (cases existing)
  case None
  then show ?thesis by (simp add: place_deployment_def zone_decision_def Let_def)
next
  case (Some vmg)
  let ?a = "m_Annotations (vg_meta vmg) (zone_key (m_Name (md_meta md)))"
  show ?thesis
  proof (cases "Deref ?a '''' = ''''")
    case True
    then show ?thesis using assms Some
      by (auto simp: place_deployment_def zone_decision_def Let_def update_conv' split: option.split)
  next
    case False
    then show ?thesis using Some Deref_nonempty [OF False]
      by (auto simp: place_deployment_def zone_decision_def Let_def split: option.split)
  qed
qed

lemma place_deployment_map_of:
  assumes "map_of zones (m_Name (md_meta md)) = None"
  shows "map_of (place_deployment y s existing names zones md) = (map_of zones)(m_Name (md_meta md) := zone_decision y s existing names md)"
  using assms by (auto simp: place_deployment_eq update_conv' fun_eq_iff split: option.split)

lemma place_deployment_distinct:
  "distinct (map fst zones) \<Longrightarrow> distinct (map fst (place_deployment y s existing names zones md))"
  by (auto simp: place_deployment_def Let_def distinct_update split: option.split)

lemma placements_distinct:
  "distinct (map fst zones) \<Longrightarrow> distinct (map fst (foldl (place_deployment y s existing names) zones mds))"
  by (induction mds arbitrary: zones) (simp_all add: place_deployment_distinct)

lemma placements_map_of:
  assumes "distinct (map (\<lambda>md. m_Name (md_meta md)) mds)" "\<forall>md\<in>set mds. map_of zones (m_Name (md_meta md)) = None"
  shows "(\<forall>md\<in>set mds. map_of (foldl (place_deployment y s existing names) zones mds) (m_Name (md_meta md)) = zone_decision y s existing names md) \<and>
    (\<forall>n. n \<notin> (\<lambda>md. m_Name (md_meta md)) ` set mds \<longrightarrow> map_of (foldl (place_deployment y s existing names) zones mds) n = map_of zones n)"
  using assms
proof (induction mds arbitrary: zones)
  case Nil
  then show ?case by simp
next
  case (Cons md mds)
  let ?z = "place_deployment y s existing names zones md"
  have z: "map_of ?z = (map_of zones)(m_Name (md_meta md) := zone_decision y s existing names md)"
    using Cons.prems by (intro place_deployment_map_of) simp
  have "\<forall>d\<in>set mds. map_of ?z (m_Name (md_meta d)) = None"
    using Cons.prems by (fastforce simp: z image_iff)
  from Cons.IH [OF _ this] Cons.prems(1) show ?case by (simp add: z)
qed

lemmas mapping_of_deployment =
  placements_map_of [of mds "[]" for mds, simplified, folded getMachineDeploymentToFailureDomainMapping_def]

lemma mapping_distinct: "distinct (map fst (getMachineDeploymentToFailureDomainMapping y mds s existing names))"
  unfolding getMachineDeploymentToFailureDomainMapping_def by (rule placements_distinct) simp

section \<open>The names of the VMs\<close>

lemma name_mapping_distinct:
  "getVirtualMachineNameToMachineDeploymentMapping y ms acc = Inr names \<Longrightarrow> distinct (map fst acc) \<Longrightarrow> distinct (map fst names)"
  by (induction y ms acc rule: getVirtualMachineNameToMachineDeploymentMapping.induct)
    (auto simp: distinct_update split: sum.splits if_splits)

definition vm_of :: "sup_ext \<Rightarrow> SVSphereMachine \<Rightarrow> string \<Rightarrow> string \<Rightarrow> bool" where
  \<comment> \<open>a machine that is not being deleted, the name of its VM and its deployment\<close>
  "vm_of y m v d \<longleftrightarrow> live (sv_meta m) \<and> d \<noteq> '''' \<and> deployment_of m = d \<and>
     GenerateVirtualMachineName y (m_Name (sv_meta m)) (sp_NamingTemplate (sv_Spec m)) = Inr v"

lemma name_mapping_sound:
  "getVirtualMachineNameToMachineDeploymentMapping y ms acc = Inr names \<Longrightarrow> map_of names v = Some d \<Longrightarrow>
    map_of acc v = Some d \<or> (\<exists>m\<in>set ms. vm_of y m v d)"
proof (induction y ms acc rule: getVirtualMachineNameToMachineDeploymentMapping.induct)
  case (1 y acc)
  then show ?case by simp
next
  case (2 y m ms acc)
  show ?case
  proof (cases "live (sv_meta m)")
    case False
    then show ?thesis using 2 by auto
  next
    case True
    then obtain name where name: "GenerateVirtualMachineName y (m_Name (sv_meta m)) (sp_NamingTemplate (sv_Spec m)) = Inr name"
      using "2.prems" by (auto split: sum.splits)
    let ?acc = "if deployment_of m \<noteq> '''' then AList.update name (deployment_of m) acc else acc"
    have "getVirtualMachineNameToMachineDeploymentMapping y ms ?acc = Inr names" using "2.prems"(1) True name by simp
    then have "map_of ?acc v = Some d \<or> (\<exists>m\<in>set ms. vm_of y m v d)" using "2.IH"(2) True name "2.prems"(2) by simp
    then show ?thesis
      using True name by (cases "deployment_of m = ''''") (auto simp: vm_of_def update_conv' split: if_splits)
  qed
qed

lemma name_mapping_complete:
  "getVirtualMachineNameToMachineDeploymentMapping y ms acc = Inr names \<Longrightarrow>
    (v \<in> fst ` set names \<longleftrightarrow> v \<in> fst ` set acc \<or> (\<exists>m\<in>set ms. \<exists>d. vm_of y m v d))"
proof (induction y ms acc rule: getVirtualMachineNameToMachineDeploymentMapping.induct)
  case (1 y acc)
  then show ?case by simp
next
  case (2 y m ms acc)
  show ?case
  proof (cases "live (sv_meta m)")
    case False
    then show ?thesis using 2 by (auto simp: vm_of_def)
  next
    case True
    then obtain name where name: "GenerateVirtualMachineName y (m_Name (sv_meta m)) (sp_NamingTemplate (sv_Spec m)) = Inr name"
      using "2.prems" by (auto split: sum.splits)
    let ?acc = "if deployment_of m \<noteq> '''' then AList.update name (deployment_of m) acc else acc"
    have "getVirtualMachineNameToMachineDeploymentMapping y ms ?acc = Inr names" using "2.prems"(1) True name by simp
    then have "v \<in> fst ` set names \<longleftrightarrow> v \<in> fst ` set ?acc \<or> (\<exists>m\<in>set ms. \<exists>d. vm_of y m v d)" using "2.IH"(2) True name by simp
    then show ?thesis
      using True name by (cases "deployment_of m = ''''") (auto simp: vm_of_def update_keys_image)
  qed
qed

section \<open>The computed group\<close>

lemma computed_group:
  assumes "computeVirtualMachineGroup y c mds machines s existing = Inr g"
  obtains names where "getVirtualMachineNameToMachineDeploymentMapping y machines [] = Inr names"
    "\<And>n. m_Annotations (vg_meta g) (zone_key n) = map_of (getMachineDeploymentToFailureDomainMapping y mds s existing names) n"
    "vg_BootOrder g = [desired_members existing names (getMachineDeploymentToFailureDomainMapping y mds s existing names)]"
    "vg_Members g = (case existing of None \<Rightarrow> [] | Some v \<Rightarrow> vg_Members v)"
proof -
  obtain names where names: "getVirtualMachineNameToMachineDeploymentMapping y machines [] = Inr names"
    using assms by (auto simp: computeVirtualMachineGroup_def Let_def split: sum.splits)
  let ?z = "getMachineDeploymentToFailureDomainMapping y mds s existing names"
  note put = put_all_distinct [OF zone_keys_distinct [OF mapping_distinct]]
  have base: "HasPrefix (zone_key n) (ZoneAnnotationPrefix @ ''/'')" for n by (simp add: zone_key_def HasPrefix_def)
  show thesis
  proof (rule that [OF names])
    show "m_Annotations (vg_meta g) (zone_key n) = map_of ?z n" for n
      using assms names base by (cases existing) (auto simp: computeVirtualMachineGroup_def Let_def put empty_meta_def split: option.split)
    show "vg_BootOrder g = [desired_members existing names ?z]" "vg_Members g = (case existing of None \<Rightarrow> [] | Some v \<Rightarrow> vg_Members v)"
      using assms names by (auto simp: computeVirtualMachineGroup_def Let_def split: option.splits)
  qed
qed

lemma desired_memberNames:
  assumes "vg_BootOrder g = [desired_members existing names zones]"
  shows "memberNames g = filter (\<lambda>n. case existing of None \<Rightarrow> True
    | Some vmg \<Rightarrow> n \<in> set (memberNames vmg) \<or> map_of zones (Deref (map_of names n) '''') \<noteq> None) (sort (map fst names))"
  using assms by (simp add: memberNames_def desired_members_def comp_def)

lemma membership: "checkVirtualMachineGroupMembership g v \<longleftrightarrow> v \<in> set (memberNames g)"
  by (force simp: checkVirtualMachineGroupMembership_def memberNames_def list_ex_iff image_iff split: list.split)

section \<open>The runs of the controller\<close>

lemmas group_run_defs = group_Reconcile_def group_reconcileNormal_def getVirtualMachineGroup_def getVSphereMachines_def
  getMachineDeployments_def getSingleZoneName_def sup_do_def bindE_def wrapE_def

text \<open>The calls that a run makes before it writes, and that what it writes is computed from the answers.\<close>

definition group_reads :: "string \<Rightarrow> string \<Rightarrow> ObjectMeta \<Rightarrow> sup_call list" where
  "group_reads ns name c = [SGet_Cluster ns name, SGet_VMGroup (m_Namespace c) (m_Name c), SList_DeploymentMachines (m_Namespace c) (m_Name c),
     SList_MachineDeployments (m_Namespace c) (m_Name c), SList_Zones (m_Namespace c)]"

lemma group_patch_computed:
  assumes "group_Reconcile y ns name \<lparr>shist = []\<rparr> = (r, w)" "SPatch_VMGroup a b \<in> set (shist w)"
  obtains c machines mds zones where "shist w = group_reads ns name c @ [SMergeFrom_VMGroup a, SPatch_VMGroup a b]"
    "y_group y (take 2 (shist w)) = Inr a" "y_machines y (take 3 (shist w)) = Inr machines" "y_deployments y (take 4 (shist w)) = Inr mds"
    "y_zones y (take 5 (shist w)) = Inr zones" "computeVirtualMachineGroup y c mds machines (single_zone zones) (Some a) = Inr b"
  using assms by (auto simp: group_run_defs group_reads_def split: sum.splits if_splits option.splits prod.splits)

lemma group_create_computed:
  assumes "group_Reconcile y ns name \<lparr>shist = []\<rparr> = (r, w)" "SCreate_VMGroup b \<in> set (shist w)"
  obtains c machines mds zones e where "shist w = group_reads ns name c @ [SCreate_VMGroup b]"
    "y_group y (take 2 (shist w)) = Inl e" "apierrors_IsNotFound e" "y_machines y (take 3 (shist w)) = Inr machines"
    "y_deployments y (take 4 (shist w)) = Inr mds" "y_zones y (take 5 (shist w)) = Inr zones" "shouldCreateVirtualMachineGroup mds machines"
    "computeVirtualMachineGroup y c mds machines (single_zone zones) None = Inr b"
  using assms by (auto simp: group_run_defs group_reads_def split: sum.splits if_splits option.splits prod.splits)

text \<open>
  The life of a stored group: the controller runs, with any answers that satisfy \<open>R\<close>, and what it patches is stored (the patch
  carries an optimistic lock, so the group it computed from is the stored one); VM operator writes the status, within \<open>Q\<close>.
\<close>

inductive group_life :: "(sup_ext \<Rightarrow> bool) \<Rightarrow> (HubVMGroup \<Rightarrow> GroupMemberStatus list \<Rightarrow> bool) \<Rightarrow> HubVMGroup \<Rightarrow> HubVMGroup \<Rightarrow> bool"
  for R Q g0 where
  life_start: "group_life R Q g0 g0"
| life_run: "group_life R Q g0 g'"
    if "group_life R Q g0 g" "R y" "group_Reconcile y ns name \<lparr>shist = []\<rparr> = (r, w)" "SPatch_VMGroup g g' \<in> set (shist w)"
| life_status: "group_life R Q g0 (g\<lparr>vg_Members := members\<rparr>)" if "group_life R Q g0 g" "Q g members"

definition recorded_zone :: "HubVMGroup \<Rightarrow> string \<Rightarrow> string" where
  "recorded_zone g md = Deref (m_Annotations (vg_meta g) (zone_key md)) ''''"

definition lists_deployment :: "string \<Rightarrow> sup_ext \<Rightarrow> bool" where
  \<comment> \<open>every listing has deployments of distinct names, one of them \<open>n\<close>, live and without a failure domain of its own\<close>
  "lists_deployment n y \<longleftrightarrow> (\<forall>h mds. y_deployments y h = Inr mds \<longrightarrow> distinct (map (\<lambda>md. m_Name (md_meta md)) mds) \<and>
     (\<exists>md\<in>set mds. m_Name (md_meta md) = n \<and> live (md_meta md) \<and> md_FailureDomain md = ''''))"

lemma patched_zone:
  assumes "group_Reconcile y ns name \<lparr>shist = []\<rparr> = (r, w)" "SPatch_VMGroup a b \<in> set (shist w)" "lists_deployment n y"
  obtains names h1 machines h3 zones md where "y_machines y h1 = Inr machines" "y_zones y h3 = Inr zones"
    "getVirtualMachineNameToMachineDeploymentMapping y machines [] = Inr names"
    "m_Name (md_meta md) = n" "live (md_meta md)" "md_FailureDomain md = ''''"
    "m_Annotations (vg_meta b) (zone_key n) = zone_decision y (single_zone zones) (Some a) names md"
    "set (memberNames b) \<subseteq> {v. map_of names v \<noteq> None \<and>
      (v \<in> set (memberNames a) \<or> m_Annotations (vg_meta b) (zone_key (Deref (map_of names v) '''')) \<noteq> None)}"
    "vg_Members b = vg_Members a"
proof -
  from group_patch_computed [OF assms(1,2)] obtain c machines mds zones where
    run: "y_machines y (take 3 (shist w)) = Inr machines" "y_deployments y (take 4 (shist w)) = Inr mds" "y_zones y (take 5 (shist w)) = Inr zones"
    "computeVirtualMachineGroup y c mds machines (single_zone zones) (Some a) = Inr b" .
  obtain names where names: "getVirtualMachineNameToMachineDeploymentMapping y machines [] = Inr names"
    and ann: "\<And>k. m_Annotations (vg_meta b) (zone_key k) =
      map_of (getMachineDeploymentToFailureDomainMapping y mds (single_zone zones) (Some a) names) k"
    and boot: "vg_BootOrder b = [desired_members (Some a) names
      (getMachineDeploymentToFailureDomainMapping y mds (single_zone zones) (Some a) names)]"
    and status: "vg_Members b = (case Some a of None \<Rightarrow> [] | Some v \<Rightarrow> vg_Members v)" using computed_group [OF run(4)] by blast
  from assms(3) run(2) obtain md where md: "md \<in> set mds" "m_Name (md_meta md) = n" "live (md_meta md)" "md_FailureDomain md = ''''"
    and distinct: "distinct (map (\<lambda>md. m_Name (md_meta md)) mds)" by (auto simp: lists_deployment_def)
  show thesis
  proof (rule that [OF run(1,3) names md(2,3,4)])
    show "m_Annotations (vg_meta b) (zone_key n) = zone_decision y (single_zone zones) (Some a) names md"
      using mapping_of_deployment [OF distinct] md by (auto simp: ann)
    show "set (memberNames b) \<subseteq> {v. map_of names v \<noteq> None \<and>
      (v \<in> set (memberNames a) \<or> m_Annotations (vg_meta b) (zone_key (Deref (map_of names v) '''')) \<noteq> None)}"
      by (auto simp: desired_memberNames [OF boot] ann dest: weak_map_of_SomeI)
  qed (simp add: status)
qed

section \<open>Placement decisions\<close>

lemma decision_kept:
  assumes "recorded_zone g n \<noteq> ''''" "m_Name (md_meta md) = n" "live (md_meta md)" "md_FailureDomain md = ''''"
  shows "zone_decision y s (Some g) names md = m_Annotations (vg_meta g) (zone_key n)"
  using assms by (simp add: zone_decision_def recorded_zone_def)

text \<open>
  C10. The placement decision for a MachineDeployment is permanent: once a group carries a zone for it, the group carries the same zone
  after any number of runs of the controller and any changes of the status, as long as the deployment lives and is not
  given a failure domain of its own.
\<close>

theorem placement_decision_kept:
  assumes "group_life (lists_deployment n) (\<lambda>_ _. True) g g'" and "recorded_zone g n \<noteq> ''''"
  shows "recorded_zone g' n = recorded_zone g n"
  using assms(1)
proof induction
  case life_start
  then show ?case by simp
next
  case (life_run g1 y ns name r w g2)
  from patched_zone [OF life_run.hyps(3,4,2)] obtain s names md where
    "m_Name (md_meta md) = n" "live (md_meta md)" "md_FailureDomain md = ''''"
    "m_Annotations (vg_meta g2) (zone_key n) = zone_decision y s (Some g1) names md" by metis
  moreover have "recorded_zone g1 n \<noteq> ''''" using life_run.IH assms(2) by simp
  ultimately have "m_Annotations (vg_meta g2) (zone_key n) = m_Annotations (vg_meta g1) (zone_key n)" using decision_kept by metis
  then show ?case using life_run.IH by (simp add: recorded_zone_def)
next
  case (life_status g1 members)
  then show ?case by (simp add: recorded_zone_def)
qed

section \<open>Deployments that come late\<close>

definition several_zones :: "sup_ext \<Rightarrow> bool" where
  "several_zones y \<longleftrightarrow> (\<forall>h zones. y_zones y h = Inr zones \<longrightarrow> length zones \<noteq> 1)"

definition deployment_names :: "(string \<Rightarrow> string) \<Rightarrow> sup_ext \<Rightarrow> bool" where
  \<comment> \<open>\<open>own\<close> maps each VM to its deployment\<close>
  "deployment_names own y \<longleftrightarrow> (\<forall>h ms m v d. y_machines y h = Inr ms \<longrightarrow> m \<in> set ms \<longrightarrow> vm_of y m v d \<longrightarrow> own v = d)"

definition reports_members :: "HubVMGroup \<Rightarrow> GroupMemberStatus list \<Rightarrow> bool" where
  "reports_members g members \<longleftrightarrow> gm_Name ` set members \<subseteq> set (memberNames g)"

definition unplaced :: "(string \<Rightarrow> string) \<Rightarrow> string \<Rightarrow> HubVMGroup \<Rightarrow> bool" where
  \<comment> \<open>the group knows no zone and no VM of the deployment\<close>
  "unplaced own n g \<longleftrightarrow> recorded_zone g n = '''' \<and> (\<forall>v\<in>set (memberNames g). own v \<noteq> n) \<and> (\<forall>m\<in>set (vg_Members g). own (gm_Name m) \<noteq> n)"

lemma placed_zone_None: "\<forall>m\<in>set ms. Deref (map_of names (gm_Name m)) '''' \<noteq> n \<Longrightarrow> placed_zone y names n ms = None"
  by (induction ms) auto

lemma single_zone_empty: "length zones \<noteq> 1 \<Longrightarrow> single_zone zones = ''''"
  by (auto simp: single_zone_def split: list.split)

lemma owner_of_name:
  assumes "deployment_names own y" "y_machines y h = Inr machines" "getVirtualMachineNameToMachineDeploymentMapping y machines [] = Inr names"
    and "own v \<noteq> n" "n \<noteq> ''''"
  shows "Deref (map_of names v) '''' \<noteq> n"
proof (cases "map_of names v")
  case None
  then show ?thesis using assms(5) by simp
next
  case (Some d)
  with name_mapping_sound [OF assms(3)] obtain m where "m \<in> set machines" "vm_of y m v d" by auto
  then have "own v = d" using assms(1,2) by (auto simp: deployment_names_def)
  then show ?thesis using Some assms(4) by simp
qed

lemma unplaced_kept:
  assumes "unplaced own n a" "n \<noteq> ''''" "lists_deployment n y" "several_zones y" "deployment_names own y"
    and "group_Reconcile y ns name \<lparr>shist = []\<rparr> = (r, w)" "SPatch_VMGroup a b \<in> set (shist w)"
  shows "unplaced own n b"
proof -
  from patched_zone [OF assms(6,7,3)] obtain names h1 machines h3 zones md where
    run: "y_machines y h1 = Inr machines" "y_zones y h3 = Inr zones" "getVirtualMachineNameToMachineDeploymentMapping y machines [] = Inr names"
    and md: "m_Name (md_meta md) = n" "live (md_meta md)" "md_FailureDomain md = ''''"
    and ann: "m_Annotations (vg_meta b) (zone_key n) = zone_decision y (single_zone zones) (Some a) names md"
    and members: "set (memberNames b) \<subseteq> {v. map_of names v \<noteq> None \<and>
      (v \<in> set (memberNames a) \<or> m_Annotations (vg_meta b) (zone_key (Deref (map_of names v) '''')) \<noteq> None)}"
    and status: "vg_Members b = vg_Members a" .
  note owner = owner_of_name [OF assms(5) run(1,3) _ assms(2)]
  have "placed_zone y names n (vg_Members a) = None"
    using assms(1) owner by (intro placed_zone_None) (auto simp: unplaced_def)
  moreover have "single_zone zones = ''''"
    using assms(4) run(2) by (intro single_zone_empty) (simp add: several_zones_def)
  ultimately have none: "m_Annotations (vg_meta b) (zone_key n) = None"
    using ann md assms(1) by (simp add: zone_decision_def unplaced_def recorded_zone_def)
  have "own v \<noteq> n" if v: "v \<in> set (memberNames b)" for v
  proof
    assume n: "own v = n"
    with members v assms(1) have "m_Annotations (vg_meta b) (zone_key (Deref (map_of names v) '''')) \<noteq> None"
      by (auto simp: unplaced_def)
    then have "Deref (map_of names v) '''' \<noteq> n" using none by auto
    moreover have "own v = Deref (map_of names v) '''' \<or> map_of names v = None"
      using name_mapping_sound [OF run(3), of v] assms(5) run(1) by (cases "map_of names v") (auto simp: deployment_names_def)
    moreover have "map_of names v \<noteq> None" using v members by auto
    ultimately show False using n by auto
  qed
  then show ?thesis using none status assms(1) by (simp add: unplaced_def recorded_zone_def)
qed

text \<open>
  C36. A MachineDeployment that is added to a cluster with several zones after the group was created, without a failure domain of its own,
  is never placed: the group gets no zone for it and none of its VMs, whatever the runs and VM operator's reports about
  the members are; so every machine of it waits for its membership forever.
\<close>

theorem late_deployment_never_joins:
  assumes "group_life (\<lambda>y. lists_deployment n y \<and> several_zones y \<and> deployment_names own y) reports_members g g'"
    and "unplaced own n g" "n \<noteq> ''''" "own v = n"
  shows "recorded_zone g' n = '''' \<and> \<not> checkVirtualMachineGroupMembership g' v"
proof -
  from assms(1) have "unplaced own n g'"
  proof induction
    case life_start
    then show ?case by (rule assms(2))
  next
    case (life_run g1 y ns name r w g2)
    then show ?case using unplaced_kept assms(3) by metis
  next
    case (life_status g1 members)
    then show ?case by (auto simp: unplaced_def recorded_zone_def reports_members_def memberNames_def image_subset_iff)
  qed
  then show ?thesis using assms(4) by (auto simp: unplaced_def membership)
qed

section \<open>The first batch\<close>

lemma count_machines_length:
  assumes "count_machines names ms n = Some c" "0 \<le> n" "n + int (length ms) < 2 ^ 31"
  shows "c = n + int (length (filter (\<lambda>m. deployment_of m \<in> set names) ms)) \<and>
    (\<forall>m\<in>set ms. deployment_of m \<in> set names \<longrightarrow> live (sv_meta m))"
  using assms
proof (induction ms arbitrary: n)
  case Nil
  then show ?case by simp
next
  case (Cons m ms)
  show ?case
  proof (cases "deployment_of m \<in> set names")
    case True
    then have "count_machines names ms (n + 1) = Some c" "live (sv_meta m)"
      using Cons.prems by (auto simp: int32_id split: if_splits)
    with Cons.IH [of "n + 1"] Cons.prems True show ?thesis by auto
  next
    case False
    with Cons.IH [of n] Cons.prems show ?thesis by auto
  qed
qed

text \<open>
  C28. A run creates a group only when the API server answered in this run that there is none, every machine of a live MachineDeployment is live, and at
  least as many machines exist as the deployments want replicas together; its members are exactly the VMs of the live
  machines of any deployment, in order and without repetition.
\<close>

theorem initial_batch:
  assumes "group_Reconcile y ns name \<lparr>shist = []\<rparr> = (r, w)" and "SCreate_VMGroup g \<in> set (shist w)"
    and small: "\<forall>h machines. y_machines y h = Inr machines \<longrightarrow> length machines < 2 ^ 31"
  shows "\<exists>c machines mds e. shist w = group_reads ns name c @ [SCreate_VMGroup g] \<and> y_group y (take 2 (shist w)) = Inl e \<and> apierrors_IsNotFound e \<and>
    y_machines y (take 3 (shist w)) = Inr machines \<and> y_deployments y (take 4 (shist w)) = Inr mds \<and>
    (let names = map (\<lambda>md. m_Name (md_meta md)) (filter (\<lambda>md. live (md_meta md)) mds) in
     (\<forall>m\<in>set machines. deployment_of m \<in> set names \<longrightarrow> live (sv_meta m)) \<and>
     expected_count mds \<noteq> 0 \<and> expected_count mds \<le> int (length (filter (\<lambda>m. deployment_of m \<in> set names) machines))) \<and>
    sorted (memberNames g) \<and> distinct (memberNames g) \<and> set (memberNames g) = {v. \<exists>m\<in>set machines. \<exists>d. vm_of y m v d}"
proof -
  from group_create_computed [OF assms(1,2)] obtain c machines mds zones e where
    run: "y_machines y (take 3 (shist w)) = Inr machines" "y_deployments y (take 4 (shist w)) = Inr mds" "y_group y (take 2 (shist w)) = Inl e"
    "apierrors_IsNotFound e" "shouldCreateVirtualMachineGroup mds machines"
    "computeVirtualMachineGroup y c mds machines (single_zone zones) None = Inr g" "shist w = group_reads ns name c @ [SCreate_VMGroup g]" .
  obtain names zs where names: "getVirtualMachineNameToMachineDeploymentMapping y machines [] = Inr names"
    and boot: "vg_BootOrder g = [desired_members None names zs]" using computed_group [OF run(6)] by blast
  have members: "memberNames g = sort (map fst names)" by (simp add: desired_memberNames [OF boot])
  let ?names = "map (\<lambda>md. m_Name (md_meta md)) (filter (\<lambda>md. live (md_meta md)) mds)"
  obtain n where n: "expected_count mds \<noteq> 0" "count_machines ?names machines 0 = Some n" "expected_count mds \<le> n"
    using run(5) by (auto simp: shouldCreateVirtualMachineGroup_def Let_def split: option.splits if_splits)
  have "0 + int (length machines) < 2 ^ 31" using small run(1) by fastforce
  note count = count_machines_length [OF n(2) order_refl this]
  then have "expected_count mds \<le> int (length (filter (\<lambda>m. deployment_of m \<in> set ?names) machines))" using n(3) by linarith
  moreover note count
  moreover
  have "set (memberNames g) = {v. \<exists>m\<in>set machines. \<exists>d. vm_of y m v d}"
    using name_mapping_complete [OF names] by (simp add: members set_eq_iff)
  moreover have "distinct (memberNames g)" using name_mapping_distinct [OF names] by (simp add: members)
  moreover have "sorted (memberNames g)" by (simp add: members)
  ultimately show ?thesis unfolding Let_def using run(1-4,7) n(1) by blast
qed

text \<open>
  C29. The members of an existing group after a run are, in order and without repetition, the VMs of the live machines that are members
  already or whose deployment has a zone recorded on the group; every zone on the group belongs to a live deployment that was listed.
\<close>

theorem group_members_exact:
  assumes "group_Reconcile y ns name \<lparr>shist = []\<rparr> = (r, w)" and "SPatch_VMGroup a b \<in> set (shist w)"
    and distinct: "\<forall>h mds. y_deployments y h = Inr mds \<longrightarrow> distinct (map (\<lambda>md. m_Name (md_meta md)) mds)"
  shows "\<exists>c machines names mds. shist w = group_reads ns name c @ [SMergeFrom_VMGroup a, SPatch_VMGroup a b] \<and> y_group y (take 2 (shist w)) = Inr a \<and>
    y_machines y (take 3 (shist w)) = Inr machines \<and> y_deployments y (take 4 (shist w)) = Inr mds \<and>
    getVirtualMachineNameToMachineDeploymentMapping y machines [] = Inr names \<and>
    sorted (memberNames b) \<and> distinct (memberNames b) \<and>
    set (memberNames b) = {v. (\<exists>m\<in>set machines. \<exists>d. vm_of y m v d) \<and>
      (v \<in> set (memberNames a) \<or> m_Annotations (vg_meta b) (zone_key (Deref (map_of names v) '''')) \<noteq> None)} \<and>
    (\<forall>d. m_Annotations (vg_meta b) (zone_key d) \<noteq> None \<longrightarrow> (\<exists>md\<in>set mds. m_Name (md_meta md) = d \<and> live (md_meta md)))"
proof -
  from group_patch_computed [OF assms(1,2)] obtain c machines mds zones where
    run: "y_machines y (take 3 (shist w)) = Inr machines" "y_deployments y (take 4 (shist w)) = Inr mds" "y_zones y (take 5 (shist w)) = Inr zones"
    "computeVirtualMachineGroup y c mds machines (single_zone zones) (Some a) = Inr b"
    "shist w = group_reads ns name c @ [SMergeFrom_VMGroup a, SPatch_VMGroup a b]" "y_group y (take 2 (shist w)) = Inr a" .
  let ?s = "single_zone zones"
  obtain names where names: "getVirtualMachineNameToMachineDeploymentMapping y machines [] = Inr names"
    and ann: "\<And>k. m_Annotations (vg_meta b) (zone_key k) = map_of (getMachineDeploymentToFailureDomainMapping y mds ?s (Some a) names) k"
    and boot: "vg_BootOrder b = [desired_members (Some a) names (getMachineDeploymentToFailureDomainMapping y mds ?s (Some a) names)]"
    using computed_group [OF run(4)] by blast
  have d: "distinct (map (\<lambda>md. m_Name (md_meta md)) mds)" using distinct run(2) by blast
  have "\<exists>md\<in>set mds. m_Name (md_meta md) = k \<and> live (md_meta md)" if k: "m_Annotations (vg_meta b) (zone_key k) \<noteq> None" for k
  proof (cases "k \<in> (\<lambda>md. m_Name (md_meta md)) ` set mds")
    case True
    then obtain md where md: "md \<in> set mds" "m_Name (md_meta md) = k" by auto
    then have "zone_decision y ?s (Some a) names md \<noteq> None" using mapping_of_deployment [OF d] k ann by metis
    then have "live (md_meta md)" by (auto simp: zone_decision_def split: if_splits)
    then show ?thesis using md by blast
  next
    case False
    then show ?thesis using mapping_of_deployment [OF d] k ann by metis
  qed
  moreover have "sorted (memberNames b)" "distinct (memberNames b)"
    using name_mapping_distinct [OF names] by (simp_all add: desired_memberNames [OF boot] sorted_wrt_filter)
  moreover have "set (memberNames b) = {v. (\<exists>m\<in>set machines. \<exists>d. vm_of y m v d) \<and>
      (v \<in> set (memberNames a) \<or> m_Annotations (vg_meta b) (zone_key (Deref (map_of names v) '''')) \<noteq> None)}"
    using name_mapping_complete [OF names] by (simp add: desired_memberNames [OF boot] ann set_eq_iff)
  ultimately show ?thesis using run(1,2,5,6) names by blast
qed

section \<open>An example\<close>

definition sample_machine :: "string \<Rightarrow> string \<Rightarrow> SVSphereMachine" where
  "sample_machine name md =
     \<lparr>sv_meta = empty_meta\<lparr>m_Name := name, m_Namespace := ''ns'', m_Labels := [MachineDeploymentNameLabel \<mapsto> md]\<rparr>,
      sv_Spec = \<lparr>sp_ProviderID = '''', sp_ImageName = ''image'', sp_ClassName = ''small'', sp_StorageClass = ''gold'', sp_Volumes = [],
        sp_Network = \<lparr>sn_Primary = \<lparr>if_NetworkKind = '''', if_NetworkName = '''', if_NetworkAPIVersion = '''', if_MTU = 0, if_Routes = []\<rparr>,
          sn_Secondary = [], sn_VLANs = []\<rparr>,
        sp_PowerOffMode = '''', sp_MinHardwareVersion = '''', sp_NamingTemplate = '''', sp_Policies = []\<rparr>,
      sv_Status = \<lparr>ss_Conditions = [], ss_Provisioned = None, ss_Addresses = [], ss_FailureDomain = '''', ss_BiosUUID = '''',
        ss_Phase = PhaseUnset, ss_Interfaces = []\<rparr>\<rparr>"

definition sample_deployment :: "string \<Rightarrow> MachineDeployment" where
  "sample_deployment name = \<lparr>md_meta = empty_meta\<lparr>m_Name := name\<rparr>, md_Replicas = Some 1, md_FailureDomain = ''''\<rparr>"

definition sample_cluster_meta :: ObjectMeta where
  "sample_cluster_meta = empty_meta\<lparr>m_Name := ''c1'', m_Namespace := ''ns''\<rparr>"

definition sample_sup_cluster :: SupCluster where
  "sample_sup_cluster = \<lparr>cl_meta = sample_cluster_meta, cl_InfrastructureRefIsDefined = True, cl_InfrastructureRefName = ''c1'',
     cl_InfrastructureRefKind = ''VSphereCluster'', cl_EndpointIsZero = False, cl_InfrastructureProvisioned = Some True, cl_Conditions = [],
     cl_ControlPlaneInitialized = Some True, cl_Endpoint = \<lparr>ae_Host = ''10.0.0.1'', ae_Port = 6443\<rparr>,
     cl_Network = \<lparr>cn_Pods = [''192.168.0.0/16''], cn_Services = []\<rparr>, cl_ControlPlaneRef = Some ''c1-kcp''\<rparr>"

definition sample_zones :: "Zone list" where
  "sample_zones = [\<lparr>zo_meta = empty_meta\<lparr>m_Name := ''z1''\<rparr>\<rparr>, \<lparr>zo_meta = empty_meta\<lparr>m_Name := ''z2''\<rparr>\<rparr>]"

definition sample_sup :: "(go_error + HubVMGroup) \<Rightarrow> SVSphereMachine list \<Rightarrow> sup_ext" where
  "sample_sup answer machines =
     \<lparr>y_unit = \<lambda>_. Inr (), y_vm = \<lambda>_. Inl (APINotFound ''''), y_vms = \<lambda>_. Inr [], y_group = \<lambda>_. answer,
      y_cluster = \<lambda>_. Inr sample_sup_cluster,
      y_machine = \<lambda>_. Inl (APINotFound ''''), y_machines = \<lambda>_. Inr machines,
      y_deployments = \<lambda>_. Inr [sample_deployment ''md-a'', sample_deployment ''md-b''], y_zones = \<lambda>_. Inr sample_zones, y_names = \<lambda>_. Inr [],
      y_bool = \<lambda>_. Inr False, y_paused = \<lambda>_. Inr (False, False), y_vcluster = \<lambda>_. Inl (APINotFound ''''), y_vclusters = \<lambda>_. Inr [],
      y_owner = \<lambda>_. Inr None, y_ownermachine = \<lambda>_. Inr None, y_cpmachines = \<lambda>_. Inr [], y_strings = \<lambda>_. Inr None, y_vnet = \<lambda>_. Inl (APINotFound ''''),
      y_subnetset = \<lambda>_. Inl (APINotFound ''''), y_service = \<lambda>_. Inl (APINotFound ''''), y_kcp = \<lambda>_. Inl (APINotFound ''''),
      y_policy = \<lambda>_. Inl (APINotFound ''''),
      y_ParseTemplate = \<lambda>t. Inr t, y_ExecuteTemplate = \<lambda>t n. Inr n,
      y_FindStatusCondition = \<lambda>cs t. find (\<lambda>c. co_Type c = t) cs,
      y_IsStatusConditionTrue = \<lambda>cs t. list_ex (\<lambda>c. co_Type c = t \<and> co_Status c = ConditionTrue) cs,
      y_ClusterIsTrue = \<lambda>_ _. True, y_SetControllerReference = \<lambda>_ m. Inr m,
      y_SetOwnerReference = \<lambda>_ m. Inr m, y_semver_Parse = \<lambda>v. Inr v, y_semver_LT = \<lambda>_ _. False, y_Selector = \<lambda>_. Inr (\<lambda>_. True),
      y_v1beta1_Has = \<lambda>_ _. False, y_SetSummaryCondition = \<lambda>_. None,
      y_RemoveFinalizer = \<lambda>fs f. removeAll f fs, y_Has = \<lambda>_ _. False, y_IsValidLabelValue = \<lambda>_. [],
      y_RemoveOwnerRef = \<lambda>refs _. refs, y_GroupVersion = \<lambda>_. ''v1'', y_EnsureOwnerRef = \<lambda>refs ref. refs @ [ref]\<rparr>"

definition sample_group :: HubVMGroup where
  "sample_group = \<lparr>vg_meta = empty_meta\<lparr>m_Name := ''c1'', m_Namespace := ''ns'', m_Annotations := [zone_key ''md-a'' \<mapsto> ''z1'']\<rparr>,
     vg_BootOrder = [[(''m1'', ''VirtualMachine'')]], vg_Members = []\<rparr>"

definition sample_machines :: "SVSphereMachine list" where
  "sample_machines = [sample_machine ''m1'' ''md-a'', sample_machine ''m2'' ''md-b'']"

definition sample_run :: "(go_error + unit) \<times> sup_world" where
  "sample_run = group_Reconcile (sample_sup (Inr sample_group) sample_machines) ''ns'' ''c1'' \<lparr>shist = []\<rparr>"

definition sample_updated :: HubVMGroup where
  "sample_updated = projr (computeVirtualMachineGroup (sample_sup (Inr sample_group) sample_machines) sample_cluster_meta
     [sample_deployment ''md-a'', sample_deployment ''md-b''] sample_machines '''' (Some sample_group))"

lemmas sample_group_simps = sample_machine_def sample_deployment_def sample_cluster_meta_def sample_sup_def sample_group_def sample_machines_def
  empty_meta_def

lemma sample_computed:
  "computeVirtualMachineGroup (sample_sup (Inr sample_group) sample_machines) sample_cluster_meta
     [sample_deployment ''md-a'', sample_deployment ''md-b''] sample_machines '''' (Some sample_group) = Inr sample_updated"
  by (simp add: sample_updated_def computeVirtualMachineGroup_def Let_def sample_machines_def sample_machine_def empty_meta_def
    GenerateVirtualMachineName_def deployment_of_def)

lemma sample_sup_sel [simp]:
  "y_deployments (sample_sup g ms) h = Inr [sample_deployment ''md-a'', sample_deployment ''md-b'']"
  "y_machines (sample_sup g ms) h = Inr ms" "y_zones (sample_sup g ms) h = Inr sample_zones"
  "y_group (sample_sup g ms) h = g" "y_unit (sample_sup g ms) h = Inr ()" "y_cluster (sample_sup g ms) h = Inr sample_sup_cluster"
  "y_ClusterIsTrue (sample_sup g ms) = (\<lambda>_ _. True)"
  by (simp_all add: sample_sup_def)

lemma sample_live [simp]: "single_zone sample_zones = ''''" "live sample_cluster_meta" "cl_meta sample_sup_cluster = sample_cluster_meta"
  by (simp_all add: sample_sup_cluster_def sample_cluster_meta_def empty_meta_def single_zone_def sample_zones_def)

lemma sample_run_patches: "SPatch_VMGroup sample_group sample_updated \<in> set (shist (snd sample_run))"
  using sample_computed by (simp add: sample_run_def group_run_defs)

lemma sample_life: "R (sample_sup (Inr sample_group) sample_machines) \<Longrightarrow> group_life R Q sample_group sample_updated"
  by (rule life_run [OF life_start, where w = "snd sample_run" and r = "fst sample_run" and ns = "''ns''" and name = "''c1''"])
    (auto simp: sample_run_patches simp flip: sample_run_def)

theorem placement_decision_kept_witness: "recorded_zone sample_updated ''md-a'' = ''z1''"
proof -
  have "lists_deployment ''md-a'' (sample_sup (Inr sample_group) sample_machines)"
    by (simp add: lists_deployment_def sample_deployment_def empty_meta_def)
  moreover have "recorded_zone sample_group ''md-a'' = ''z1''" by (simp add: recorded_zone_def sample_group_def empty_meta_def)
  ultimately show ?thesis using placement_decision_kept [OF sample_life, of "''md-a''"] by simp
qed

theorem late_deployment_never_joins_witness: "\<not> checkVirtualMachineGroupMembership sample_updated ''m2''"
proof -
  let ?own = "\<lambda>v. if v = ''m1'' then ''md-a'' else ''md-b''"
  let ?y = "sample_sup (Inr sample_group) sample_machines"
  have "lists_deployment ''md-b'' ?y"
    by (simp add: lists_deployment_def sample_deployment_def empty_meta_def)
  moreover have "several_zones ?y" by (simp add: several_zones_def sample_zones_def)
  moreover have "deployment_names ?own ?y"
    by (auto simp: deployment_names_def vm_of_def sample_machines_def sample_machine_def empty_meta_def deployment_of_def GenerateVirtualMachineName_def)
  moreover have "unplaced ?own ''md-b'' sample_group"
    by (simp add: unplaced_def recorded_zone_def sample_group_def memberNames_def empty_meta_def)
  ultimately show ?thesis using late_deployment_never_joins [OF sample_life, of "''md-b''" ?own "''m2''"] by simp
qed

theorem group_members_exact_witness: "set (memberNames sample_updated) \<subseteq> {''m1'', ''m2''}"
proof -
  let ?y = "sample_sup (Inr sample_group) sample_machines"
  have "distinct (map (\<lambda>md. m_Name (md_meta md)) [sample_deployment ''md-a'', sample_deployment ''md-b''])"
    by (simp add: sample_deployment_def empty_meta_def)
  then have "set (memberNames sample_updated) \<subseteq> {v. \<exists>m\<in>set sample_machines. \<exists>d. vm_of ?y m v d}"
    using group_members_exact [OF _ sample_run_patches, of ?y "''ns''" "''c1''" "fst sample_run"]
    by (simp flip: sample_run_def) blast
  also have "\<dots> \<subseteq> {''m1'', ''m2''}"
    by (auto simp: vm_of_def sample_machines_def sample_machine_def empty_meta_def GenerateVirtualMachineName_def)
  finally show ?thesis .
qed

text \<open>The batch is counted over all deployments: a group is created with two machines of \<open>md-a\<close> and none of \<open>md-b\<close>.\<close>

definition first_machines :: "SVSphereMachine list" where
  "first_machines = [sample_machine ''m1'' ''md-a'', sample_machine ''m3'' ''md-a'']"

theorem initial_batch_witness:
  "\<exists>g. SCreate_VMGroup g \<in> set (shist (snd (group_Reconcile (sample_sup (Inl (APINotFound [])) first_machines) ''ns'' ''c1'' \<lparr>shist = []\<rparr>))) \<and>
    set (memberNames g) = {''m1'', ''m3''} \<and> (\<forall>m\<in>set first_machines. deployment_of m \<noteq> ''md-b'')"
proof -
  let ?y = "sample_sup (Inl (APINotFound [])) first_machines"
  let ?run = "group_Reconcile ?y ''ns'' ''c1'' \<lparr>shist = []\<rparr>"
  have "shouldCreateVirtualMachineGroup [sample_deployment ''md-a'', sample_deployment ''md-b''] first_machines"
    by (simp add: shouldCreateVirtualMachineGroup_def Let_def expected_count_def sample_deployment_def empty_meta_def first_machines_def
      sample_machine_def deployment_of_def int32_def)
  moreover obtain g where "computeVirtualMachineGroup ?y sample_cluster_meta [sample_deployment ''md-a'', sample_deployment ''md-b'']
      first_machines '''' None = Inr g"
    by (simp add: computeVirtualMachineGroup_def Let_def first_machines_def sample_machine_def empty_meta_def
      GenerateVirtualMachineName_def deployment_of_def)
  ultimately have created: "SCreate_VMGroup g \<in> set (shist (snd ?run))" by (simp add: group_run_defs apierrors_IsNotFound_def)
  have vms: "(\<exists>m\<in>set first_machines. \<exists>d. vm_of ?y m v d) \<longleftrightarrow> v = ''m1'' \<or> v = ''m3''" for v
    by (auto simp: vm_of_def first_machines_def sample_machine_def empty_meta_def GenerateVirtualMachineName_def deployment_of_def)
  have "length first_machines < 2 ^ 31" by (simp add: first_machines_def)
  then have "set (memberNames g) = {v. \<exists>m\<in>set first_machines. \<exists>d. vm_of ?y m v d}"
    using initial_batch [OF _ created, of ?y "''ns''" "''c1''" "fst ?run"] by simp
  then have "set (memberNames g) = {''m1'', ''m3''}" unfolding vms by blast
  moreover have "\<forall>m\<in>set first_machines. deployment_of m \<noteq> ''md-b''"
    by (simp add: first_machines_def sample_machine_def empty_meta_def deployment_of_def)
  ultimately show ?thesis using created by blast
qed

end
