(* ===== verification/Sup_Network.thy ===== *)
theory Sup_Network
  imports Supervisor_Types
begin

text \<open>
  The network providers of the supervisor mode, \<open>pkg/services/network\<close>, and how a cluster gets its provider,
  \<open>pkg/manager/network.go\<close> and \<open>network_factory.go\<close>.

  A provider is a value of a datatype, the interface \<open>services.NetworkProvider\<close> is a function per method. \<open>ConfigureVirtualMachine\<close>
  works on the network specification of the VM, the only part of it that a provider touches.
\<close>

record sup_vcluster = sup_world +
  cx_VSphereCluster :: SVSphereCluster

record sup_cluster = sup_vcluster +
  cx_Cluster :: SupCluster

type_synonym 'a supc_step = "sup_cluster \<Rightarrow> (go_error + 'a) \<times> sup_cluster"

definition add_scond :: "cond_op list \<Rightarrow> 'w sup_vcluster_scheme \<Rightarrow> 'w sup_vcluster_scheme" where
  "add_scond ops w = w\<lparr>cx_VSphereCluster := (cx_VSphereCluster w)\<lparr>sc_Conditions := sc_Conditions (cx_VSphereCluster w) @ ops\<rparr>\<rparr>"

section \<open>Names and conditions\<close>

definition VPCNetworkProviderName :: string where "VPCNetworkProviderName = ''VPC''"
definition NSXTier1NetworkProviderName :: string where "NSXTier1NetworkProviderName = ''NSXTier1''"
definition VSphereDistributedNetworkProviderName :: string where "VSphereDistributedNetworkProviderName = ''VSphereDistributed''"
definition DummyLBNetworkProviderName :: string where "DummyLBNetworkProviderName = ''DummyLBNetworkProvider''"
definition DummyNetworkProviderName :: string where "DummyNetworkProviderName = ''DummyNetworkProvider''"
definition NSXTVNetSelectorKey :: string where "NSXTVNetSelectorKey = ''ncp.vmware.com/virtual-network-name''"
definition CAPVDefaultNetworkLabel :: string where "CAPVDefaultNetworkLabel = ''capv.vmware.com/is-default-network''"
definition legacyDefaultNetworkLabel :: string where "legacyDefaultNetworkLabel = ''capw.vmware.com/is-default-network''"
definition NetOpNetworkNameAnnotation :: string where "NetOpNetworkNameAnnotation = ''netoperator.vmware.com/network-name''"
definition AnnotationEnableEndpointHealthCheckKey :: string where
  "AnnotationEnableEndpointHealthCheckKey = ''lb.iaas.vmware.com/enable-endpoint-health-check''"
definition PrimaryInterfaceName :: string where "PrimaryInterfaceName = ''eth0''"

text \<open>Kind and API version; the versions are constants of the packages of the network operators.\<close>

definition NetworkGVKNetOperator :: "sup_ext \<Rightarrow> string \<times> string" where "NetworkGVKNetOperator y = (''Network'', y_GroupVersion y ''netopv1'')"
definition NetworkGVKNSXT :: "sup_ext \<Rightarrow> string \<times> string" where "NetworkGVKNSXT y = (''VirtualNetwork'', y_GroupVersion y ''ncpv1'')"
definition NetworkGVKNSXTVPCSubnetSet :: "sup_ext \<Rightarrow> string \<times> string" where
  "NetworkGVKNSXTVPCSubnetSet y = (''SubnetSet'', y_GroupVersion y ''nsxvpcv1'')"

definition network_ready :: "cond_op list" where
  "network_ready = [v1beta1_MarkTrue ''ClusterNetworkReady'', cond_Set ''NetworkReady'' ConditionTrue ''Ready'' NoMsg]"

definition network_failed :: "cond_msg \<Rightarrow> cond_op list" where
  "network_failed msg =
     [v1beta1_MarkFalse ''ClusterNetworkReady'' ''ClusterNetworkProvisionFailed'' SeverityWarning msg,
      cond_Set ''NetworkReady'' ConditionFalse ''NotReady'' msg]"

section \<open>Interfaces of a VM\<close>

definition zero_interface :: InterfaceSpec where
  "zero_interface = \<lparr>if_NetworkKind = '''', if_NetworkName = '''', if_NetworkAPIVersion = '''', if_MTU = 0, if_Routes = []\<rparr>"

definition interface_IsDefined :: "InterfaceSpec \<Rightarrow> bool" where
  "interface_IsDefined i \<longleftrightarrow> i \<noteq> zero_interface"

definition mtu_of :: "int \<Rightarrow> int option" where
  "mtu_of mtu = (if mtu \<noteq> 0 then Some mtu else None)"

definition setVMSecondaryInterfaces :: "SVSphereMachine \<Rightarrow> string list \<Rightarrow> HubNetworkSpec \<Rightarrow> HubNetworkSpec" where
  "setVMSecondaryInterfaces machine ipamModes net =
     net\<lparr>hns_Interfaces := hns_Interfaces net @
       map (\<lambda>(name, i). \<lparr>hif_Name = name, hif_Network = Some (if_NetworkKind i, if_NetworkAPIVersion i, if_NetworkName i),
              hif_MTU = mtu_of (if_MTU i), hif_Routes = if_Routes i, hif_Gateway4 = ''None'', hif_Gateway6 = ''None'', hif_IPAMModes = ipamModes\<rparr>)
         (sn_Secondary (sp_Network (sv_Spec machine)))\<rparr>"

definition setVLANs :: "gates \<Rightarrow> SVSphereMachine \<Rightarrow> HubNetworkSpec \<Rightarrow> go_error + HubNetworkSpec" where
  "setVLANs g machine net =
     (let vlans = sn_VLANs (sp_Network (sv_Spec machine)) in
      if vlans = [] then Inr net
      else if \<not> VLANSubinterface g
      then Inl (Errorf ''invalid configuration: VLANs cannot be used as feature gate VLANSubinterface is not enabled'' [])
      else Inr (net\<lparr>hns_VLANs := hns_VLANs net @ map (\<lambda>v. (vl_Name v, Deref (vl_ID v) 0, vl_Link v)) vlans\<rparr>))"

definition empty_network :: HubNetworkSpec where "empty_network = \<lparr>hns_Interfaces = [], hns_VLANs = []\<rparr>"

definition plain_interface :: "string \<Rightarrow> string \<times> string \<Rightarrow> string \<Rightarrow> string list \<Rightarrow> HubInterface" where
  "plain_interface name gvk network ipamModes =
     \<lparr>hif_Name = name, hif_Network = Some (fst gvk, snd gvk, network), hif_MTU = None, hif_Routes = [], hif_Gateway4 = '''', hif_Gateway6 = '''',
      hif_IPAMModes = ipamModes\<rparr>"

section \<open>\<open>netop_provider.go\<close>\<close>

definition getDefaultClusterNetworkWithLabel :: "sup_ext \<Rightarrow> string \<Rightarrow> string \<Rightarrow> 'w sup_world_scheme \<Rightarrow> (go_error + string) \<times> 'w sup_world_scheme" where
  "getDefaultClusterNetworkWithLabel y namespace label w =
     bindE (sup_do (SList_Networks namespace label) (y_names y) w) (\<lambda>items w.
     (case items of
        [] \<Rightarrow> Inl (Errorf ''no default network found with label %s'' [label])
      | [network] \<Rightarrow> Inr network
      | _ \<Rightarrow> Inl (Errorf ''more than one network found with label %s: %d'' [label]), w))"

definition getClusterNetwork :: "sup_ext \<Rightarrow> SupCluster \<Rightarrow> 'w sup_world_scheme \<Rightarrow> (go_error + string) \<times> 'w sup_world_scheme" where
  \<comment> \<open>\<open>getDefaultClusterNetwork\<close>: its name\<close>
  "getClusterNetwork y cluster w =
     (case getDefaultClusterNetworkWithLabel y (m_Namespace (cl_meta cluster)) CAPVDefaultNetworkLabel w of
        (Inr network, w) \<Rightarrow> (Inr network, w)
      | (Inl _, w) \<Rightarrow> getDefaultClusterNetworkWithLabel y (m_Namespace (cl_meta cluster)) legacyDefaultNetworkLabel w)"

definition netop_ConfigureVirtualMachine ::
  "sup_ext \<Rightarrow> SupCluster \<Rightarrow> SVSphereMachine \<Rightarrow> 'w sup_world_scheme \<Rightarrow> (go_error + HubNetworkSpec) \<times> 'w sup_world_scheme" where
  "netop_ConfigureVirtualMachine y cluster machine w =
     bindE (getClusterNetwork y cluster w) (\<lambda>network w.
     (Inr (setVMSecondaryInterfaces machine []
       (empty_network\<lparr>hns_Interfaces := [plain_interface PrimaryInterfaceName (NetworkGVKNetOperator y) network []]\<rparr>)), w))"

section \<open>\<open>nsxt_provider.go\<close>\<close>

definition GetNSXTVirtualNetworkName :: "string \<Rightarrow> string" where
  "GetNSXTVirtualNetworkName clusterName = clusterName @ ''-vnet''"

text \<open>
  The loops of \<open>verifyNSXTVirtualNetworkStatus\<close> and \<open>verifyNsxtVpcSubnetSetStatus\<close> over the conditions of a network object: \<open>Inl\<close> is the
  first Ready condition that is not true, \<open>Inr\<close> tells whether there was one.
\<close>

fun ready_loop :: "bool \<Rightarrow> Condition list \<Rightarrow> Condition + bool" where
  "ready_loop hasReady [] = Inr hasReady"
| "ready_loop hasReady (c # cs) =
     (if co_Type c \<noteq> ''Ready'' then ready_loop hasReady cs
      else if co_Status c \<noteq> ConditionTrue then Inl c
      else ready_loop True cs)"

fun status_text :: "ConditionStatus \<Rightarrow> string" where
  \<comment> \<open>the text of a condition status\<close>
  "status_text ConditionTrue = ''True''"
| "status_text ConditionFalse = ''False''"
| "status_text ConditionUnknown = ''Unknown''"

definition verify_status :: "string \<Rightarrow> string \<Rightarrow> Condition list \<Rightarrow> unit supc_step" where
  \<comment> \<open>\<open>noun\<close>: how the messages name the object\<close>
  "verify_status noun missing conditions w =
     (let meta = sc_meta (cx_VSphereCluster w); cluster = m_Namespace meta @ ''/'' @ m_Name meta in
      case ready_loop False conditions of
        Inl c \<Rightarrow> (Inl (Errorf (noun @ '' ready status is: '%s' in cluster %s. reason: %s, message: %s'')
                    [status_text (co_Status c), cluster, co_Reason c, co_Message c]),
                  add_scond (network_failed (Msg (co_Message c) [])) w)
      | Inr False \<Rightarrow> (Inl (Errorf (noun @ '' ready status in cluster %s has not been set'') [cluster]), add_scond (network_failed (Msg missing [])) w)
      | Inr True \<Rightarrow> (Inr (), add_scond network_ready w))"

definition verifyNSXTVirtualNetworkStatus :: "VirtualNetwork \<Rightarrow> unit supc_step" where
  "verifyNSXTVirtualNetworkStatus vnet = verify_status ''virtual network'' ''No Ready status for virtual network'' (vn_Conditions vnet)"

definition whitelist :: "sup_ext \<Rightarrow> string \<Rightarrow> VirtualNetwork \<Rightarrow> VirtualNetwork supc_step" where
  \<comment> \<open>the firewall part of \<open>ProvisionClusterNetwork\<close>\<close>
  "whitelist y disableFW vnet w =
     (if disableFW \<noteq> ''true'' \<and> vn_WhitelistSourceRanges vnet = '''' then
        bindE (wrapE ''failed to check if NCP supports firewall rules enforcement on GC T1 router'' []
          (case sup_do (SGet_ConfigMap ''vmware-system-nsx'' ''nsx-ncp-version-config'') (y_strings y) w of
             (answer, w) \<Rightarrow>
               (NCPSupportFW (y_semver_Parse y) (y_semver_LT y) ''3.0.1'' ''3.1.0''
                  (case answer of Inl e \<Rightarrow> Inl e | Inr data \<Rightarrow> Inr (Deref data Map.empty)), w))) (\<lambda>supportFW w.
        if supportFW then
          bindE (wrapE ''failed to get Snat IP for kube-system'' []
            (case sup_do (SGet_Namespace ''kube-system'') (y_strings y) w of (answer, w) \<Rightarrow> (GetNamespaceNetSnatIP answer, w))) (\<lambda>ip w.
          (Inr (vnet\<lparr>vn_WhitelistSourceRanges := ip @ ''/32''\<rparr>), w))
        else (Inr vnet, w))
      else (Inr vnet, w))"

definition provision_failed :: "go_error \<Rightarrow> sup_cluster \<Rightarrow> (go_error + 'a) \<times> sup_cluster" where
  "provision_failed e w = (Inl (Wrapf e ''Failed to provision network'' []), add_scond (network_failed (ErrMsg e)) w)"

definition nsxt_ProvisionClusterNetwork :: "sup_ext \<Rightarrow> string \<Rightarrow> unit supc_step" where
  "nsxt_ProvisionClusterNetwork y disableFW w =
     (let cluster = sc_meta (cx_VSphereCluster w); ns = m_Namespace cluster; name = GetNSXTVirtualNetworkName (m_Name cluster);
          provision = (\<lambda>vnetExists originalVNET w.
            bindE (whitelist y disableFW originalVNET w) (\<lambda>vnet w.
            case y_SetOwnerReference y cluster (vn_meta vnet) of
              Inl e \<Rightarrow> (Inl (Wrapf e ''error setting %s/%s as owner of %s/%s'' []), w)
            | Inr m \<Rightarrow>
                let vnet = vnet\<lparr>vn_meta := m\<rparr> in
                (case (if \<not> vnetExists then sup_do (SCreate_VNet vnet) (y_vnet y) w
                       else if originalVNET \<noteq> vnet then sup_do (SPatch_VNet originalVNET vnet) (y_vnet y) w
                       else (Inr vnet, w)) of
                   (Inl e, w) \<Rightarrow> provision_failed e w
                 | (Inr vnet, w) \<Rightarrow> verifyNSXTVirtualNetworkStatus vnet w)))
      in case sup_do (SGet_VNet ns name) (y_vnet y) w of
           (Inl e, w) \<Rightarrow>
             if \<not> apierrors_IsNotFound e then (Inl e, w)
             else provision False \<lparr>vn_meta = empty_meta\<lparr>m_Name := name, m_Namespace := ns\<rparr>, vn_WhitelistSourceRanges = '''', vn_Conditions = []\<rparr> w
         | (Inr vnet, w) \<Rightarrow> provision True vnet w)"

fun has_nsxt_interface :: "string \<times> string \<Rightarrow> string \<Rightarrow> HubInterface list \<Rightarrow> go_error + bool" where
  \<comment> \<open>the loop dereferences the network of every interface up to the first match\<close>
  "has_nsxt_interface gvk name [] = Inr False"
| "has_nsxt_interface gvk name (i # is) =
     (case hif_Network i of
        None \<Rightarrow> Inl (Panic ''nil pointer dereference'')
      | Some (kind, apiVersion, network) \<Rightarrow>
          if (kind, apiVersion) = gvk \<and> network = name then Inr True else has_nsxt_interface gvk name is)"

definition nsxt_ConfigureVirtualMachine :: "sup_ext \<Rightarrow> SVSphereCluster \<Rightarrow> HubNetworkSpec option \<Rightarrow> go_error + HubNetworkSpec" where
  "nsxt_ConfigureVirtualMachine y cluster network =
     (let name = GetNSXTVirtualNetworkName (m_Name (sc_meta cluster)); net = Deref network empty_network in
      case has_nsxt_interface (NetworkGVKNSXT y) name (hns_Interfaces net) of
        Inl e \<Rightarrow> Inl e
      | Inr True \<Rightarrow> Inr net
      | Inr False \<Rightarrow> Inr (net\<lparr>hns_Interfaces := hns_Interfaces net @
          [plain_interface (''eth'' @ show_nat (length (hns_Interfaces net))) (NetworkGVKNSXT y) name []]\<rparr>))"

section \<open>\<open>nsxt_vpc_provider.go\<close>\<close>

definition createSubnetSet :: "SVSphereCluster \<Rightarrow> bool" where
  "createSubnetSet cluster = Deref (sc_CreateSubnetSet cluster) True"

definition verifyNsxtVpcSubnetSetStatus :: "SubnetSet \<Rightarrow> unit supc_step" where
  "verifyNsxtVpcSubnetSetStatus subnetset = verify_status ''subnetset'' ''No Ready status for SubnetSet'' (sb_Conditions subnetset)"

definition address_type :: "ClusterIPFamily \<Rightarrow> SubnetAddresses" where
  "address_type ipFamily =
     (case ipFamily of IPv4SingleStack \<Rightarrow> IPAddressTypeIPv4 | IPv6SingleStack \<Rightarrow> IPAddressTypeIPv6
      | DualStackIPv4Primary \<Rightarrow> IPAddressTypeIPv4IPv6 | DualStackIPv6Primary \<Rightarrow> IPAddressTypeIPv4IPv6)"

definition cluster_family :: "SupCluster \<Rightarrow> go_error + ClusterIPFamily" where
  \<comment> \<open>\<open>infrautilv1.DetermineClusterIPFamily\<close> with the wrapping of its callers here\<close>
  "cluster_family cluster =
     (case DetermineClusterIPFamily (Some (cl_Network cluster)) of
        Inl e \<Rightarrow> Inl (Wrapf e ''failed to determine cluster IP family'' [])
      | Inr f \<Rightarrow> Inr f)"

definition vpc_ProvisionClusterNetwork :: "sup_ext \<Rightarrow> gates \<Rightarrow> unit supc_step" where
  "vpc_ProvisionClusterNetwork y g w =
     (let cluster = sc_meta (cx_VSphereCluster w); ns = m_Namespace cluster; name = m_Name cluster;
          provision = (\<lambda>subnetSetExists originalSubnetSet w.
            case y_SetOwnerReference y cluster (sb_meta originalSubnetSet) of
              Inl e \<Rightarrow> (Inl (Wrapf e ''error setting %s as owner of %s'' []), w)
            | Inr m \<Rightarrow>
                let subnetset = originalSubnetSet\<lparr>sb_meta := m\<rparr> in
                (case (if \<not> subnetSetExists then sup_do (SCreate_SubnetSet subnetset) (y_subnetset y) w
                       else if originalSubnetSet \<noteq> subnetset then sup_do (SPatch_SubnetSet originalSubnetSet subnetset) (y_subnetset y) w
                       else (Inr subnetset, w)) of
                   (Inl e, w) \<Rightarrow> provision_failed e w
                 | (Inr subnetset, w) \<Rightarrow> verifyNsxtVpcSubnetSetStatus subnetset w))
      in if \<not> createSubnetSet (cx_VSphereCluster w) then (Inr (), add_scond network_ready w)
         else case (if IPv6DualStack g then (case cluster_family (cx_Cluster w) of Inl e \<Rightarrow> Inl e | Inr f \<Rightarrow> Inr (address_type f)) else Inr IPAddressTypeUnset) of
           Inl e \<Rightarrow> (Inl e, w)
         | Inr ipAddressType \<Rightarrow>
             (case sup_do (SGet_SubnetSet ns name) (y_subnetset y) w of
                (Inl e, w) \<Rightarrow>
                  if \<not> apierrors_IsNotFound e then (Inl e, w)
                  else provision False \<lparr>sb_meta = empty_meta\<lparr>m_Name := name, m_Namespace := ns\<rparr>, sb_IPAddressType = ipAddressType, sb_Conditions = []\<rparr> w
              | (Inr subnetset, w) \<Rightarrow> provision True subnetset w))"

definition getIPAMModes :: "gates \<Rightarrow> SupCluster \<Rightarrow> go_error + string list" where
  "getIPAMModes g cluster =
     (if \<not> IPv6DualStack g then Inr []
      else case cluster_family cluster of
        Inl e \<Rightarrow> Inl e
      | Inr f \<Rightarrow> Inr (case f of IPv4SingleStack \<Rightarrow> [''IPv4''] | IPv6SingleStack \<Rightarrow> [''IPv6'']
          | DualStackIPv4Primary \<Rightarrow> [''IPv4'', ''IPv6''] | DualStackIPv6Primary \<Rightarrow> [''IPv4'', ''IPv6'']))"

definition vpc_ConfigureVirtualMachine :: "sup_ext \<Rightarrow> gates \<Rightarrow> SupCluster \<Rightarrow> SVSphereCluster \<Rightarrow> SVSphereMachine \<Rightarrow> go_error + HubNetworkSpec" where
  "vpc_ConfigureVirtualMachine y g cluster vcluster machine =
     (let primary = sn_Primary (sp_Network (sv_Spec machine)) in
      case getIPAMModes g cluster of
        Inl e \<Rightarrow> Inl e
      | Inr ipamModes \<Rightarrow>
          (case (if createSubnetSet vcluster then
                   if interface_IsDefined primary then Inl (Errorf ''primary interface can not be configured when createSubnetSet is true'' [])
                   else Inr (plain_interface PrimaryInterfaceName (NetworkGVKNSXTVPCSubnetSet y) (m_Name (sc_meta vcluster)) ipamModes)
                 else if \<not> interface_IsDefined primary then Inl (Errorf ''primary interface must be configured when createSubnetSet is false'' [])
                 else Inr \<lparr>hif_Name = PrimaryInterfaceName, hif_Network = Some (if_NetworkKind primary, if_NetworkAPIVersion primary, if_NetworkName primary),
                   hif_MTU = mtu_of (if_MTU primary), hif_Routes = if_Routes primary, hif_Gateway4 = '''', hif_Gateway6 = '''', hif_IPAMModes = ipamModes\<rparr>) of
             Inl e \<Rightarrow> Inl e
           | Inr i \<Rightarrow> setVLANs g machine (setVMSecondaryInterfaces machine ipamModes (empty_network\<lparr>hns_Interfaces := [i]\<rparr>))))"

section \<open>The interface\<close>

datatype NetworkProvider =
    NetOp
  | Nsxt string \<comment> \<open>\<open>disableFW\<close>\<close>
  | NsxtVPC
  | Dummy
  | DummyLB

fun np_Name :: "NetworkProvider \<Rightarrow> string" where
  "np_Name NetOp = VSphereDistributedNetworkProviderName"
| "np_Name (Nsxt _) = NSXTier1NetworkProviderName"
| "np_Name NsxtVPC = VPCNetworkProviderName"
| "np_Name Dummy = DummyNetworkProviderName"
| "np_Name DummyLB = DummyLBNetworkProviderName"

definition SupportsIPv6DualStack :: "gates \<Rightarrow> NetworkProvider \<Rightarrow> bool" where
  "SupportsIPv6DualStack g np \<longleftrightarrow> np = NsxtVPC \<and> IPv6DualStack g"

definition HasLoadBalancer :: "NetworkProvider \<Rightarrow> bool" where
  "HasLoadBalancer np \<longleftrightarrow> np \<noteq> Dummy"

definition SupportsVMReadinessProbe :: "NetworkProvider \<Rightarrow> bool" where
  "SupportsVMReadinessProbe np \<longleftrightarrow> np \<noteq> NsxtVPC"

fun ProvisionClusterNetwork :: "sup_ext \<Rightarrow> gates \<Rightarrow> NetworkProvider \<Rightarrow> unit supc_step" where
  "ProvisionClusterNetwork y g NetOp w = (Inr (), add_scond network_ready w)"
| "ProvisionClusterNetwork y g (Nsxt disableFW) w = nsxt_ProvisionClusterNetwork y disableFW w"
| "ProvisionClusterNetwork y g NsxtVPC w = vpc_ProvisionClusterNetwork y g w"
| "ProvisionClusterNetwork y g Dummy w = (Inr (), add_scond [cond_Set ''NetworkReady'' ConditionTrue ''Ready'' NoMsg] w)"
| "ProvisionClusterNetwork y g DummyLB w = (Inr (), add_scond [cond_Set ''NetworkReady'' ConditionTrue ''Ready'' NoMsg] w)"

fun GetClusterNetworkName :: "sup_ext \<Rightarrow> NetworkProvider \<Rightarrow> string supc_step" where
  "GetClusterNetworkName y NetOp w = getClusterNetwork y (cx_Cluster w) w"
| "GetClusterNetworkName y (Nsxt _) w =
     (let m = sc_meta (cx_VSphereCluster w); name = GetNSXTVirtualNetworkName (m_Name m) in
      bindE (sup_do (SGet_VNet (m_Namespace m) name) (y_vnet y) w) (\<lambda>_ w. (Inr name, w)))"
| "GetClusterNetworkName y NsxtVPC w =
     (let m = sc_meta (cx_VSphereCluster w) in
      bindE (sup_do (SGet_SubnetSet (m_Namespace m) (m_Name m)) (y_subnetset y) w) (\<lambda>_ w. (Inr (m_Name m), w)))"
| "GetClusterNetworkName y Dummy w = (Inr '''', w)"
| "GetClusterNetworkName y DummyLB w = (Inr '''', w)"

fun GetVMServiceAnnotations :: "sup_ext \<Rightarrow> NetworkProvider \<Rightarrow> (string \<rightharpoonup> string) supc_step" where
  "GetVMServiceAnnotations y NetOp w = bindE (GetClusterNetworkName y NetOp w) (\<lambda>name w. (Inr [NetOpNetworkNameAnnotation \<mapsto> name], w))"
| "GetVMServiceAnnotations y (Nsxt d) w = bindE (GetClusterNetworkName y (Nsxt d) w) (\<lambda>name w. (Inr [NSXTVNetSelectorKey \<mapsto> name], w))"
| "GetVMServiceAnnotations y NsxtVPC w = (Inr [AnnotationEnableEndpointHealthCheckKey \<mapsto> ''''], w)"
| "GetVMServiceAnnotations y Dummy w = (Inr Map.empty, w)"
| "GetVMServiceAnnotations y DummyLB w = (Inr Map.empty, w)"

fun ConfigureVirtualMachine ::
  "sup_ext \<Rightarrow> gates \<Rightarrow> NetworkProvider \<Rightarrow> SupCluster \<Rightarrow> SVSphereCluster \<Rightarrow> SVSphereMachine \<Rightarrow> HubNetworkSpec option \<Rightarrow>
   'w sup_world_scheme \<Rightarrow> (go_error + HubNetworkSpec option) \<times> 'w sup_world_scheme" where
  "ConfigureVirtualMachine y g NetOp cluster vcluster machine net w =
     bindE (netop_ConfigureVirtualMachine y cluster machine w) (\<lambda>net w. (Inr (Some net), w))"
| "ConfigureVirtualMachine y g (Nsxt _) cluster vcluster machine net w = (map_sum id Some (nsxt_ConfigureVirtualMachine y vcluster net), w)"
| "ConfigureVirtualMachine y g NsxtVPC cluster vcluster machine net w = (map_sum id Some (vpc_ConfigureVirtualMachine y g cluster vcluster machine), w)"
| "ConfigureVirtualMachine y g Dummy cluster vcluster machine net w = (Inr net, w)"
| "ConfigureVirtualMachine y g DummyLB cluster vcluster machine net w = (Inr net, w)"

section \<open>The choice of a provider\<close>

definition ConvertNetworkProviderName :: "string \<Rightarrow> string" where
  "ConvertNetworkProviderName name =
     (if name = ''NSX'' then NSXTier1NetworkProviderName
      else if name = ''NSX-VPC'' then VPCNetworkProviderName
      else if name = ''vsphere-network'' then VSphereDistributedNetworkProviderName
      else name)"

definition GetNetworkProvider :: "string \<Rightarrow> NetworkProvider" where
  "GetNetworkProvider networkProvider =
     (if networkProvider = VPCNetworkProviderName then NsxtVPC
      else if networkProvider = NSXTier1NetworkProviderName then Nsxt ''false''
      else if networkProvider = VSphereDistributedNetworkProviderName then NetOp
      else if networkProvider = DummyLBNetworkProviderName then DummyLB
      else Dummy)"

datatype NetworkProviderFactory = PerCluster | Static NetworkProvider

definition ErrNetworkProviderEmpty :: go_error where
  "ErrNetworkProviderEmpty = Errorf ''network provider is empty, wait for a valid value'' []"

definition ErrNoOwningCluster :: go_error where
  "ErrNoOwningCluster = Errorf ''missing %q label, cannot resolve the owning Cluster'' [ClusterNameLabel]"

definition registry :: "(string \<times> NetworkProvider) list" where
  "registry = map (\<lambda>name. (name, GetNetworkProvider name))
     [VSphereDistributedNetworkProviderName, NSXTier1NetworkProviderName, VPCNetworkProviderName]"

fun ForCluster :: "NetworkProviderFactory \<Rightarrow> SVSphereCluster \<Rightarrow> go_error + NetworkProvider" where
  "ForCluster PerCluster cluster =
     (if sc_Provider cluster = '''' then Inl ErrNetworkProviderEmpty
      else case map_of registry (sc_Provider cluster) of
        None \<Rightarrow> Inl (Errorf ''unknown network provider %q'' [sc_Provider cluster])
      | Some np \<Rightarrow> Inr np)"
| "ForCluster (Static np) cluster = Inr np"

definition getVSphereClusterForObject :: "sup_ext \<Rightarrow> ObjectMeta \<Rightarrow> 'w sup_world_scheme \<Rightarrow> (go_error + SVSphereCluster) \<times> 'w sup_world_scheme" where
  "getVSphereClusterForObject y obj w =
     (let clusterName = Deref (m_Labels obj ClusterNameLabel) '''' in
      if clusterName = '''' then (Inl ErrNoOwningCluster, w)
      else
        bindE (wrapE ''failed to get Cluster %s: %w'' [m_Namespace obj, clusterName] (sup_do (SGet_Cluster (m_Namespace obj) clusterName) (y_cluster y) w)) (\<lambda>cluster w.
        if \<not> cl_InfrastructureRefIsDefined cluster then (Inl (Errorf ''Cluster %s does not have a spec.infrastructureRef set'' []), w)
        else wrapE ''failed to get VSphereCluster %s: %w'' [m_Namespace (cl_meta cluster), cl_InfrastructureRefName cluster]
          (sup_do (SGet_VSphereCluster (m_Namespace (cl_meta cluster)) (cl_InfrastructureRefName cluster)) (y_vcluster y) w)))"

fun ForObject :: "sup_ext \<Rightarrow> NetworkProviderFactory \<Rightarrow> ObjectMeta \<Rightarrow> 'w sup_world_scheme \<Rightarrow> (go_error + NetworkProvider) \<times> 'w sup_world_scheme" where
  "ForObject y PerCluster obj w = bindE (getVSphereClusterForObject y obj w) (\<lambda>cluster w. (ForCluster PerCluster cluster, w))"
| "ForObject y (Static np) obj w = (Inr np, w)"

end
