(* ===== verification/Sup_Machine.thy ===== *)
theory Sup_Machine
  imports Vmop_Machine Sup_Network Machine_Controller
begin

text \<open>
  \<open>controllers/vspheremachine_controller.go\<close> in the supervisor mode (\<open>supervisorBased\<close> is true): the controller of VSphereMachines on top
  of theory \<open>Vmop_Machine\<close>, with the network of the VM configured by the provider of its cluster.
\<close>

section \<open>Deletion\<close>

type_synonym 'w supm_result = "(go_error + time) \<times> 'w sup_mbase_scheme"

definition remove_sup_finalizer :: "sup_ext \<Rightarrow> SVSphereMachine \<Rightarrow> SVSphereMachine" where
  "remove_sup_finalizer y m =
     m\<lparr>sv_meta := (sv_meta m)\<lparr>m_Finalizers := y_RemoveFinalizer y (m_Finalizers (sv_meta m)) MachineFinalizer\<rparr>\<rparr>"

definition supm_reconcileDelete :: "sup_ext \<Rightarrow> 'w sup_mbase_scheme \<Rightarrow> 'w supm_result" where
  "supm_reconcileDelete y w =
     (case vmop_ReconcileDelete y (add_xcond (mprovisioned_false ''Deleting'' SeverityInfo ''Deleting'' NoMsg) w) of
        (Inr _, w) \<Rightarrow> (Inr ten_seconds, w)
      | (Inl e, w) \<Rightarrow>
          if apierrors_IsNotFound e then (Inr 0, w\<lparr>xm_VSphereMachine := remove_sup_finalizer y (xm_VSphereMachine w)\<rparr>)
          else (Inl e, add_xcond (mprovisioned_false ''DeletionFailed'' SeverityWarning ''Deleting'' (Msg ''Please check controller logs for errors'' [])) w))"

section \<open>Normal operation\<close>

definition network_modifier :: "sup_ext \<Rightarrow> gates \<Rightarrow> NetworkProvider \<Rightarrow> VMModifier" where
  \<comment> \<open>the hook of \<open>setVMModifiers\<close>\<close>
  "network_modifier y g np vm w =
     (case ConfigureVirtualMachine y g np (xm_Cluster w) (xm_VSphereCluster w) (xm_VSphereMachine w) (hs_Network (hv_Spec vm)) w of
        (Inl e, w) \<Rightarrow> (Inl (if is_panic e then e else Errorf ''failed to configure machine network: %+v'' []), w)
      | (Inr net, w) \<Rightarrow> (Inr (vm\<lparr>hv_Spec := (hv_Spec vm)\<lparr>hs_Network := net\<rparr>\<rparr>), w))"

definition sup_patchMachineLabels :: "sup_ext \<Rightarrow> unit sup_step" where
  \<comment> \<open>\<open>patchMachineLabelsWithHostInfo\<close>\<close>
  "sup_patchMachineLabels y w =
     bindE (vmop_GetHostInfo y w) (\<lambda>hostInfo w.
     let info = SanitizeHostInfoLabel 63 hostInfo; errs = y_IsValidLabelValue y info in
     if length errs > 0 then (Inl (Errorf ''%s (hostInfo: %s): %s'' (''host info cannot be used as a label value'' # hostInfo # errs)), w)
     else
       bindE (sup_do (SNewPatchHelper (mach_meta (xm_Machine w))) (y_unit y) w) (\<lambda>_ w.
       let machine = xm_Machine w; meta = mach_meta machine;
           machine = machine\<lparr>mach_meta := meta\<lparr>m_Labels := (m_Labels meta)(ESXiHostInfoLabel \<mapsto> info)\<rparr>\<rparr> in
       sup_do (SPatch_Machine machine) (y_unit y) (w\<lparr>xm_Machine := machine\<rparr>)))"

definition sup_waits_for_bootstrap :: "sup_ext \<Rightarrow> sup_machine \<Rightarrow> cond_op list option" where
  "sup_waits_for_bootstrap y w =
     (if mach_BootstrapDataSecretName (xm_Machine w) \<noteq> None then None
      else if \<not> IsControlPlaneMachine (sv_meta (xm_VSphereMachine w)) \<and> \<not> y_ClusterIsTrue y (cl_Conditions (xm_Cluster w)) ''ControlPlaneInitialized''
      then Some (mprovisioned_false ''WaitingForControlPlaneAvailable'' SeverityInfo ''WaitingForControlPlaneInitialized'' NoMsg)
      else Some (mprovisioned_false ''WaitingForBootstrapData'' SeverityInfo ''WaitingForBootstrapData'' NoMsg))"

definition supm_reconcileNormal :: "sup_ext \<Rightarrow> gates \<Rightarrow> NetworkProvider \<Rightarrow> time sup_step" where
  "supm_reconcileNormal y g np w =
     bindE (vmop_SyncFailureReason w) (\<lambda>_ w.
     case sup_waits_for_bootstrap y w of
       Some ops \<Rightarrow> (Inr 0, add_xcond ops w)
     | None \<Rightarrow>
         bindE (vmop_ReconcileNormal y g [network_modifier y g np] w) (\<lambda>requeue w.
         if requeue then (Inr ten_seconds, w)
         else
           bindE (wrapE ''failed to patch Machine with host info label'' [] (sup_patchMachineLabels y w)) (\<lambda>_ w.
           (Inr 0, add_xcond mprovisioned_true w))))"

section \<open>One reconciliation\<close>

definition sup_GroupVersion :: string where "sup_GroupVersion = ''vmware.infrastructure.cluster.x-k8s.io/v1beta2''"

definition sup_drop_cluster_owner :: "sup_ext \<Rightarrow> SupCluster \<Rightarrow> SVSphereMachine \<Rightarrow> SVSphereMachine" where
  "sup_drop_cluster_owner y cluster m =
     m\<lparr>sv_meta := (sv_meta m)\<lparr>m_OwnerReferences := y_RemoveOwnerRef y (m_OwnerReferences (sv_meta m))
         \<lparr>or_APIVersion = sup_GroupVersion, or_Kind = cl_InfrastructureRefKind cluster, or_Name = cl_InfrastructureRefName cluster,
          or_UID = '''', or_Controller = None, or_BlockOwnerDeletion = None\<rparr>\<rparr>\<rparr>"

definition zero_scluster :: SVSphereCluster where
  "zero_scluster = \<lparr>sc_meta = empty_meta, sc_Endpoint = \<lparr>ae_Host = '''', ae_Port = 0\<rparr>, sc_CreateSubnetSet = None, sc_Provider = '''', sc_Selector = None,
     sc_Provisioned = None, sc_FailureDomains = [], sc_Conditions = []\<rparr>"

definition supm_reconcile :: "sup_ext \<Rightarrow> gates \<Rightarrow> NetworkProviderFactory \<Rightarrow> SupCluster \<Rightarrow> sup_mbase \<Rightarrow> (go_error + time) \<times> sup_machine" where
  \<comment> \<open>\<open>Reconcile\<close> behind the checks of the Cluster\<close>
  "supm_reconcile y g factory cluster b =
     bindE (wrapE ''failed to get VSphereCluster'' [] (vmop_FetchVSphereCluster y cluster
       \<lparr>shist = shist b, xm_VSphereMachine = sup_drop_cluster_owner y cluster (xm_VSphereMachine b), xm_Machine = xm_Machine b, xm_Cluster = cluster,
        xm_VSphereCluster = zero_scluster, xm_ConfigureControlPlaneVMReadinessProbe = False\<rparr>)) (\<lambda>_ w.
     case ForCluster factory (xm_VSphereCluster w) of
       Inl e \<Rightarrow> if errors_Is e ErrNetworkProviderEmpty then (Inr ten_seconds, w)
                else (Inl (Wrapf e ''failed to resolve network provider for VSphereCluster %s'' []), w)
     | Inr np \<Rightarrow> supm_reconcileNormal y g np (w\<lparr>xm_ConfigureControlPlaneVMReadinessProbe := SupportsVMReadinessProbe np\<rparr>))"

definition supm_deferred :: "sup_ext \<Rightarrow> 'w supm_result \<Rightarrow> (go_error + time) \<times> sup_call list" where
  \<comment> \<open>the result and all calls made\<close>
  "supm_deferred y rw =
     (case rw of (r, w) \<Rightarrow>
      let w = add_xcond ((if \<not> y_Has y (ss_Conditions (xm_status w)) VSphereMachineVirtualMachineProvisionedCondition
                          then if Deref (ss_Provisioned (xm_status w)) False
                               then [cond_Set VSphereMachineVirtualMachineProvisionedCondition ConditionTrue ''Provisioned'' NoMsg]
                               else [cond_Set VSphereMachineVirtualMachineProvisionedCondition ConditionFalse ''NotProvisioned'' NoMsg]
                          else []) @ [v1beta1_SetSummary [''VMProvisioned'']]) w in
      case y_SetSummaryCondition y (ss_Conditions (xm_status w)) of
        Some e \<Rightarrow> (aggregate r (Some (Wrapf e ''failed to set %s condition'' [''Ready''])), shist w)
      | None \<Rightarrow>
          let w = add_xcond [cond_SetSummary ''Ready'' [VSphereMachineVirtualMachineProvisionedCondition] []] w in
          (case sup_do (SPatch_VSphereMachine (xm_VSphereMachine w)) (y_unit y) w of
             (Inl e, w) \<Rightarrow> (aggregate r (Some e), shist w)
           | (Inr _, w) \<Rightarrow> (r, shist w)))"

definition sup_own_machine :: "sup_ext \<Rightarrow> ObjectMeta \<Rightarrow> sup_world \<Rightarrow> (go_error + unit option) \<times> sup_world" where
  \<comment> \<open>finalizer, patch helper, pause\<close>
  "sup_own_machine y meta w =
     bindE (sup_do (SEnsureFinalizer meta MachineFinalizer) (y_bool y) w) (\<lambda>added w.
     if added then (Inr None, w)
     else bindE (sup_do (SNewPatchHelper meta) (y_unit y) w) (\<lambda>_ w.
          bindE (sup_do (SEnsurePaused meta) (y_paused y) w) (\<lambda>(isPaused, requeue) w.
          (Inr (if isPaused \<or> requeue then None else Some ()), w))))"

definition sup_without_owner :: "sup_ext \<Rightarrow> SVSphereMachine \<Rightarrow> sup_world \<Rightarrow> (go_error + unit) \<times> sup_world" where
  "sup_without_owner y m w =
     (if m_DeletionTimestamp (sv_meta m) \<noteq> None \<and> MachineFinalizer \<in> set (m_Finalizers (sv_meta m)) then
        bindE (sup_do (SNewPatchHelper (sv_meta m)) (y_unit y) w) (\<lambda>_ w.
        sup_do (SPatch_VSphereMachine (remove_sup_finalizer y m)) (y_unit y) w)
      else (Inr (), w))"

definition supm_prepare :: "sup_ext \<Rightarrow> string \<Rightarrow> string \<Rightarrow> sup_world \<Rightarrow> (go_error + (SVSphereMachine \<times> SupMachine \<times> SupCluster option) option) \<times> sup_world" where
  "supm_prepare y ns name w =
     (case vmop_FetchVSphereMachine y ns name w of
        (Inl e, w) \<Rightarrow> if apierrors_IsNotFound e then (Inr None, w) else (Inl e, w)
      | (Inr m, w) \<Rightarrow>
          bindE (wrapE ''failed to get Machine for VSphereMachine'' [] (sup_do (SGet_OwnerMachine (sv_meta m)) (y_ownermachine y) w)) (\<lambda>machine w.
          case machine of
            None \<Rightarrow> bindE (sup_without_owner y m w) (\<lambda>_ w. (Inr None, w))
          | Some machine \<Rightarrow>
              bindE (sup_do (SAddOwners machine) (y_unit y) w) (\<lambda>_ w.
              case sup_do (SGet_ClusterFromMetadata (mach_meta machine)) (y_cluster y) w of
                (c, w) \<Rightarrow>
                  bindR (sup_own_machine y (sv_meta m) w) (\<lambda>_ w.
                  (Inr (Some (m, machine, case c of Inl _ \<Rightarrow> None | Inr cluster \<Rightarrow> Some cluster)), w)))))"

definition supm_Reconcile :: "sup_ext \<Rightarrow> gates \<Rightarrow> NetworkProviderFactory \<Rightarrow> string \<Rightarrow> string \<Rightarrow> sup_world \<Rightarrow> (go_error + time) \<times> sup_call list" where
  "supm_Reconcile y g factory ns name w =
     (case supm_prepare y ns name w of
        (Inl e, w) \<Rightarrow> (Inl e, shist w)
      | (Inr None, w) \<Rightarrow> (Inr 0, shist w)
      | (Inr (Some (m, machine, cluster)), w) \<Rightarrow>
          let b = \<lparr>shist = shist w, xm_VSphereMachine = m, xm_Machine = machine\<rparr> in
          if m_DeletionTimestamp (sv_meta m) \<noteq> None then supm_deferred y (supm_reconcileDelete y b)
          else (case cluster of
                  None \<Rightarrow> supm_deferred y (Inr 0, b)
                | Some c \<Rightarrow>
                    if \<not> cl_InfrastructureRefIsDefined c then supm_deferred y (Inr 0, b)
                    else supm_deferred y (supm_reconcile y g factory c b)))"

end
