(* ===== verification/Sup_Machine_Correct.thy ===== *)
theory Sup_Machine_Correct
  imports Sup_Machine VM_Group_Correct
begin

text \<open>
  Theorems on the machines of the supervisor mode: which VirtualMachines are created and how a VM settles, and what a
  provisioned VSphereMachine says. The contract of the hook that configures the network is the locale \<open>vm_modifier\<close>, interpreted on
  the hook of the controller.
\<close>

section \<open>The calls of an operation\<close>

definition sup_ok :: "(sup_call \<Rightarrow> bool) \<Rightarrow> 'v sup_world_scheme \<Rightarrow> 'w sup_world_scheme \<Rightarrow> bool" where
  \<comment> \<open>every call between two states is allowed\<close>
  "sup_ok P w w' \<longleftrightarrow> (\<exists>cs. shist w' = shist w @ cs \<and> list_all P cs)"

named_theorems sup_intros \<open>rules that bound the calls of an operation\<close>

lemma sup_ok_refl [sup_intros, simp]: "sup_ok P w w"
  by (simp add: sup_ok_def)

lemma sup_ok_same: "shist w' = shist w \<Longrightarrow> sup_ok P w w'"
  by (simp add: sup_ok_def)

lemma sup_ok_trans: "sup_ok P w w1 \<Longrightarrow> sup_ok P w1 w2 \<Longrightarrow> sup_ok P w w2"
  by (auto simp: sup_ok_def)

lemma sup_ok_mono: "sup_ok P w w' \<Longrightarrow> (\<And>c. P c \<Longrightarrow> Q c) \<Longrightarrow> sup_ok Q w w'"
  unfolding sup_ok_def by (auto simp: list_all_iff)

lemma sup_ok_do [sup_intros]: "P c \<Longrightarrow> sup_ok P w (snd (sup_do c f w))"
  by (simp add: sup_ok_def sup_do_def)

lemma sup_ok_do_updated: "P c \<Longrightarrow> shist w1 = shist w \<Longrightarrow> sup_ok P w (snd (sup_do c f w1))"
  by (simp add: sup_ok_def sup_do_def)

lemma sup_ok_wrapE [sup_intros]: "sup_ok P w (snd m) \<Longrightarrow> sup_ok P w (snd (wrapE msg args m))"
  by simp

lemma sup_ok_bindE [sup_intros]:
  assumes "sup_ok P w (snd m)" and "\<And>a w'. m = (Inr a, w') \<Longrightarrow> sup_ok P w' (snd (k a w'))"
  shows "sup_ok P w (snd (bindE m k))"
  using assms by (cases m; cases "fst m") (auto simp: bindE_def intro: sup_ok_trans)

lemma sup_ok_case [sup_intros]:
  assumes "sup_ok P w (snd m)" and "\<And>e w'. m = (Inl e, w') \<Longrightarrow> sup_ok P w' (snd (f e w'))"
    and "\<And>a w'. m = (Inr a, w') \<Longrightarrow> sup_ok P w' (snd (g a w'))"
  shows "sup_ok P w (snd (case m of (Inl e, w) \<Rightarrow> f e w | (Inr a, w) \<Rightarrow> g a w))"
  using assms by (cases m; cases "fst m") (auto intro: sup_ok_trans)

lemma sup_ok_start: "shist w1 = shist w \<Longrightarrow> sup_ok P w1 w' \<Longrightarrow> sup_ok P w w'"
  by (simp add: sup_ok_def)

lemma sup_ok_status [simp]: "shist (upd_xstatus f w) = shist w" "shist (set_Phase p w) = shist w" "shist (add_xcond ops w) = shist w"
  by (simp_all add: upd_xstatus_def set_Phase_def add_xcond_def)

lemma sup_ok_status_right [simp]: "sup_ok P w (upd_xstatus f w') = sup_ok P w w'" "sup_ok P w (set_Phase p w') = sup_ok P w w'"
  "sup_ok P w (add_xcond ops w') = sup_ok P w w'"
  by (simp_all add: sup_ok_def)

lemma sup_ok_prefix: "sup_ok P w w' \<Longrightarrow> prefix (shist w) (shist w')"
  by (auto simp: sup_ok_def)

definition is_create :: "sup_call \<Rightarrow> bool" where
  "is_create c \<longleftrightarrow> (\<exists>vm. c = SCreate_VM vm)"

section \<open>The network\<close>

lemma getDefaultClusterNetworkWithLabel_ok [sup_intros]:
  "(\<And>ns l. P (SList_Networks ns l)) \<Longrightarrow> sup_ok P w (snd (getDefaultClusterNetworkWithLabel y ns l w))"
  by (auto simp: getDefaultClusterNetworkWithLabel_def intro!: sup_intros)

lemma ConfigureVirtualMachine_ok [sup_intros]:
  "(\<And>ns l. P (SList_Networks ns l)) \<Longrightarrow> sup_ok P w (snd (ConfigureVirtualMachine y g np c vc m net w))"
  by (cases np) (auto simp: netop_ConfigureVirtualMachine_def getClusterNetwork_def intro!: sup_intros)

lemma getDefaultClusterNetworkWithLabel_frame: "\<exists>h. snd (getDefaultClusterNetworkWithLabel y ns l w) = w\<lparr>shist := h\<rparr>"
  by (auto simp: getDefaultClusterNetworkWithLabel_def bindE_def sup_do_def split: sum.split)

lemma ConfigureVirtualMachine_frame: "\<exists>h. snd (ConfigureVirtualMachine y g np c vc m net w) = w\<lparr>shist := h\<rparr>"
proof (cases np)
  case NetOp
  obtain r1 h1 where 1: "getDefaultClusterNetworkWithLabel y (m_Namespace (cl_meta c)) CAPVDefaultNetworkLabel w = (r1, w\<lparr>shist := h1\<rparr>)"
    using getDefaultClusterNetworkWithLabel_frame by (metis surjective_pairing)
  obtain r2 h2 where 2: "getDefaultClusterNetworkWithLabel y (m_Namespace (cl_meta c)) legacyDefaultNetworkLabel (w\<lparr>shist := h1\<rparr>) = (r2, w\<lparr>shist := h2\<rparr>)"
    using getDefaultClusterNetworkWithLabel_frame [of y _ _ "w\<lparr>shist := h1\<rparr>"] by (metis (no_types, lifting) surjective_pairing sup_world.update_convs(1) sup_world.surjective)
  show ?thesis using NetOp 1 2
    by (auto simp: netop_ConfigureVirtualMachine_def getClusterNetwork_def bindE_def split: sum.split)
qed (auto intro: exI [of _ "shist w"])

section \<open>The contract of a hook\<close>

text \<open>
  A hook reads only, leaves the machine alone, changes nothing of the VM but its network, and changes nothing when it runs again and
  gets the same answers.
\<close>

definition reads_only :: "sup_call \<Rightarrow> bool" where
  "reads_only c \<longleftrightarrow> (\<exists>ns l. c = SList_Networks ns l)"

locale vm_modifier =
  fixes f :: VMModifier
  assumes modifier_calls: "sup_ok reads_only w (snd (f vm w))"
    and modifier_frame: "\<exists>h. snd (f vm w) = w\<lparr>shist := h\<rparr>"
    and modifier_network: "f vm w = (Inr vm', w') \<Longrightarrow> \<exists>net. vm' = vm\<lparr>hv_Spec := (hv_Spec vm)\<lparr>hs_Network := net\<rparr>\<rparr>"
begin

lemma modifier_keeps:
  assumes "apply_modifiers [f] vm w = (Inr vm', w')"
  shows "hv_meta vm' = hv_meta vm" "hv_CreationTimestamp vm' = hv_CreationTimestamp vm" "hv_Status vm' = hv_Status vm"
    "\<exists>net. hv_Spec vm' = (hv_Spec vm)\<lparr>hs_Network := net\<rparr>" "\<exists>h. w' = w\<lparr>shist := h\<rparr>"
proof -
  have run: "f vm w = (Inr vm', w')"
    using assms by (auto simp: bindE_def split: prod.splits sum.splits)
  then obtain net where "vm' = vm\<lparr>hv_Spec := (hv_Spec vm)\<lparr>hs_Network := net\<rparr>\<rparr>" using modifier_network by blast
  then show "hv_meta vm' = hv_meta vm" "hv_CreationTimestamp vm' = hv_CreationTimestamp vm" "hv_Status vm' = hv_Status vm"
    "\<exists>net. hv_Spec vm' = (hv_Spec vm)\<lparr>hs_Network := net\<rparr>" by auto
  show "\<exists>h. w' = w\<lparr>shist := h\<rparr>" using modifier_frame [of vm w] run by simp
qed

lemma modifier_allowed: "(\<And>ns l. P (SList_Networks ns l)) \<Longrightarrow> sup_ok P w (snd (apply_modifiers [f] vm w))"
proof -
  assume P: "\<And>ns l. P (SList_Networks ns l)"
  have "sup_ok P w (snd (f vm w))"
    by (rule sup_ok_mono [OF modifier_calls]) (auto simp: reads_only_def P)
  then show ?thesis by (auto intro!: sup_intros)
qed

end

interpretation nm: vm_modifier "network_modifier y g np" for y g np
proof
  show "sup_ok reads_only w (snd (network_modifier y g np vm w))" for w vm
    unfolding network_modifier_def by (rule sup_ok_case) (auto simp: reads_only_def intro!: sup_intros)
  show "\<exists>h. snd (network_modifier y g np vm w) = w\<lparr>shist := h\<rparr>" for w vm
  proof -
    obtain r h where "ConfigureVirtualMachine y g np (xm_Cluster w) (xm_VSphereCluster w) (xm_VSphereMachine w) (hs_Network (hv_Spec vm)) w = (r, w\<lparr>shist := h\<rparr>)"
      using ConfigureVirtualMachine_frame by (metis surjective_pairing)
    then show ?thesis by (auto simp: network_modifier_def split: sum.split)
  qed
  show "\<exists>net. vm' = vm\<lparr>hv_Spec := (hv_Spec vm)\<lparr>hs_Network := net\<rparr>\<rparr>" if "network_modifier y g np vm w = (Inr vm', w')" for vm w vm' w'
    using that by (auto simp: network_modifier_def split: prod.splits sum.splits)
qed

section \<open>Volumes\<close>

lemma addVolumes_result:
  "addVolumes y vs vm w = (Inr vm', w') \<Longrightarrow>
    vm' = foldl (\<lambda>vm v. addVolume vm (volumeName (xm_VSphereMachine w) v)) vm vs \<and> (\<exists>h. w' = w\<lparr>shist := h\<rparr>)"
proof (induction y vs vm w rule: addVolumes.induct)
  case (1 y vm w)
  then show ?case by (auto intro: exI [of _ "shist w"])
next
  case (2 y volume volumes vm w)
  let ?pvc = "volume_claim w volume"
  let ?w = "w\<lparr>shist := shist w @ [SCreateOrPatch_PVC ?pvc]\<rparr>"
  have "addVolumes y volumes (addVolume vm (pvc_Name ?pvc)) ?w = (Inr vm', w')"
    using "2.prems" by (auto simp: Let_def bindE_def wrapE_def sup_do_def split: sum.splits)
  moreover have "pvc_Name ?pvc = volumeName (xm_VSphereMachine w) volume" by (simp add: volume_claim_def Let_def)
  ultimately show ?case using "2.IH" [OF refl, of ?w] by auto
qed

lemma addVolumes_ok [sup_intros]: "(\<And>pvc. P (SCreateOrPatch_PVC pvc)) \<Longrightarrow> sup_ok P w (snd (addVolumes y vs vm w))"
  by (induction y vs vm w rule: addVolumes.induct) (auto simp: Let_def intro!: sup_intros)

definition has_volume :: "HubVM \<Rightarrow> string \<Rightarrow> bool" where
  "has_volume vm n \<longleftrightarrow> list_ex (\<lambda>v. hvo_ClaimName v = Some n) (hs_Volumes (hv_Spec vm))"

lemma addVolume_has: "has_volume (addVolume vm n) m \<longleftrightarrow> has_volume vm m \<or> m = n"
  by (auto simp: addVolume_def has_volume_def)

lemma addVolume_id: "has_volume vm n \<Longrightarrow> addVolume vm n = vm"
  by (simp add: addVolume_def has_volume_def)

lemma addVolumes_has: "has_volume (foldl (\<lambda>vm v. addVolume vm (f v)) vm vs) m \<longleftrightarrow> has_volume vm m \<or> m \<in> f ` set vs"
  by (induction vs arbitrary: vm) (auto simp: addVolume_has)

lemma addVolumes_id: "\<forall>v\<in>set vs. has_volume vm (f v) \<Longrightarrow> foldl (\<lambda>vm v. addVolume vm (f v)) vm vs = vm"
  by (induction vs) (simp_all add: addVolume_id)

lemma addVolume_keeps [simp]: "hv_meta (addVolume vm n) = hv_meta vm" "hv_CreationTimestamp (addVolume vm n) = hv_CreationTimestamp vm"
  "hv_Status (addVolume vm n) = hv_Status vm"
  by (simp_all add: addVolume_def)

section \<open>Labels of a VM\<close>

definition keeps_meta :: "sup_ext \<Rightarrow> bool" where
  \<comment> \<open>setting a controller reference changes the owner references only\<close>
  "keeps_meta y \<longleftrightarrow> (\<forall>ow m m'. y_SetControllerReference y ow m = Inr m' \<longrightarrow> (\<exists>refs. m' = m\<lparr>m_OwnerReferences := refs\<rparr>))"

definition wanted_zone :: "sup_machine \<Rightarrow> affinityInfo option \<Rightarrow> string" where
  \<comment> \<open>the failure domain of the Machine, else the zone of its deployment\<close>
  "wanted_zone w affInfo = if_empty (mach_FailureDomain (xm_Machine w)) (case affInfo of Some ai \<Rightarrow> ai_failureDomain ai | None \<Rightarrow> '''')"

lemma label_keys_distinct [simp]:
  "LabelTopologyZone \<noteq> ClusterNameLabel" "LabelTopologyZone \<noteq> MachineDeploymentNameLabel" "LabelTopologyZone \<noteq> ClusterSelectorKey"
  "LabelTopologyZone \<noteq> legacyClusterSelectorKey" "LabelTopologyZone \<noteq> nodeSelectorKey" "LabelTopologyZone \<noteq> legacyNodeSelectorKey"
  by (simp_all add: LabelTopologyZone_def ClusterNameLabel_def MachineDeploymentNameLabel_def ClusterSelectorKey_def legacyClusterSelectorKey_def
    nodeSelectorKey_def legacyNodeSelectorKey_def)

lemma zone_label:
  "getVMLabels w labels affInfo LabelTopologyZone = (if wanted_zone w affInfo = '''' then labels LabelTopologyZone else Some (wanted_zone w affInfo))"
  by (auto simp: getVMLabels_def Let_def put_all_def clusterRoleVMLabels_def getTopologyLabels_def wanted_zone_def if_empty_def split: option.split)

lemma put_all_twice: "distinct (map fst new) \<Longrightarrow> put_all new (put_all new m) = put_all new m"
  by (simp add: fun_eq_iff put_all_distinct split: option.split)

section \<open>The written VM\<close>

definition volume_names :: "sup_machine \<Rightarrow> string list" where
  "volume_names w = map (volumeName (xm_VSphereMachine w)) (sp_Volumes (xm_spec w))"

lemma set_affinity_keeps [simp]: "hv_meta (set_affinity a vm) = hv_meta vm" "hv_CreationTimestamp (set_affinity a vm) = hv_CreationTimestamp vm"
  "hv_Status (set_affinity a vm) = hv_Status vm"
  by (simp_all add: set_affinity_def split: option.split)

lemma foldl_addVolume_keeps [simp]:
  "hv_meta (foldl (\<lambda>vm v. addVolume vm (f v)) vm vs) = hv_meta vm"
  "hv_CreationTimestamp (foldl (\<lambda>vm v. addVolume vm (f v)) vm vs) = hv_CreationTimestamp vm"
  by (induction vs arbitrary: vm) simp_all

lemma complete_vm_meta:
  assumes "complete_vm y g [network_modifier y g' np] affInfo hw mode vm w = (Inr vm', w')" and "keeps_meta y"
  shows "m_Name (hv_meta vm') = m_Name (hv_meta vm)" "m_Labels (hv_meta vm') = getVMLabels w (m_Labels (hv_meta vm)) affInfo"
proof -
  from assms(1) obtain vm1 w1 where 1: "addVolumes y (sp_Volumes (xm_spec w)) (desired_vm hw mode affInfo w vm) w = (Inr vm1, w1)"
    by (auto simp: complete_vm_def bindE_eq_Inr)
  then have meta1: "hv_meta vm1 = hv_meta (desired_vm hw mode affInfo w vm)" using addVolumes_result [OF 1] by simp
  let ?vm1 = "if hv_CreationTimestamp vm1 = None then vm1\<lparr>hv_Spec := (hv_Spec vm1)\<lparr>hs_Policies := getPolicies g w1\<rparr>\<rparr> else vm1"
  from assms(1) 1 obtain vm2 w2 where 2: "apply_modifiers [network_modifier y g' np] ?vm1 w1 = (Inr vm2, w2)"
    by (auto simp: complete_vm_def bindE_eq_Inr Let_def)
  have meta2: "hv_meta vm2 = hv_meta vm1" using nm.modifier_keeps(1) [OF 2] by auto
  from assms(1) 1 2 obtain m where "y_SetControllerReference y (sv_meta (xm_VSphereMachine w2)) (hv_meta vm2) = Inr m" "hv_meta vm' = m"
    by (auto simp: complete_vm_def bindE_eq_Inr Let_def split: sum.splits)
  then obtain refs where "hv_meta vm' = (hv_meta vm2)\<lparr>m_OwnerReferences := refs\<rparr>" using assms(2) unfolding keeps_meta_def by blast
  then show "m_Name (hv_meta vm') = m_Name (hv_meta vm)" "m_Labels (hv_meta vm') = getVMLabels w (m_Labels (hv_meta vm)) affInfo"
    using meta1 meta2 by (simp_all add: desired_vm_def)
qed

section \<open>Which VMs are created\<close>

lemma complete_vm_ok [sup_intros]:
  assumes "\<And>ns l. P (SList_Networks ns l)" "\<And>pvc. P (SCreateOrPatch_PVC pvc)"
  shows "sup_ok P w (snd (complete_vm y g [network_modifier y g' np] affInfo hw mode vm w))"
  unfolding complete_vm_def Let_def
  by (intro sup_ok_bindE addVolumes_ok assms nm.modifier_allowed) (auto split: sum.split)

lemma getVMLabels_shist [simp]: "getVMLabels (w\<lparr>shist := h\<rparr>) = getVMLabels w" "getVMLabels (set_Phase p w) = getVMLabels w"
  by (simp_all add: getVMLabels_def getTopologyLabels_def set_Phase_def upd_xstatus_def fun_eq_iff Let_def)

lemma write_vm_ok:
  assumes "\<not> exists \<Longrightarrow> P (SCreate_VM vm)" "P (SMergeFrom_VM old)" "P (SPatch_VM old vm)"
  shows "sup_ok P w (snd (write_vm y exists old vm w))"
  unfolding write_vm_def using assms by (auto intro!: sup_intros)

definition creates_only :: "(HubVM \<Rightarrow> bool) \<Rightarrow> sup_call \<Rightarrow> bool" where
  "creates_only Q c \<longleftrightarrow> (\<forall>vm. c = SCreate_VM vm \<longrightarrow> Q vm)"

lemma creates_only_other [simp]: "creates_only Q (SGet_VM ns n)" "creates_only Q (SGet_VMGroup ns n)" "creates_only Q (SList_Networks ns n)"
  "creates_only Q (SCreateOrPatch_PVC p)" "creates_only Q (SMergeFrom_VM a)" "creates_only Q (SPatch_VM a b)" "creates_only Q (SCreate_VM v) = Q v"
  "creates_only Q (SList_MachineDeployments ns n)" "creates_only Q (SNewPatchHelper m)" "creates_only Q (SPatch_Machine mm)"
  by (simp_all add: creates_only_def)

lemma reconcileVM_creates:
  assumes "keeps_meta y"
    and Q: "\<And>vm'. m_Name (hv_meta vm') = m_Name (hv_meta vm) \<Longrightarrow> m_Labels (hv_meta vm') = getVMLabels w (m_Labels (hv_meta vm)) affInfo \<Longrightarrow> Q vm'"
  shows "sup_ok (creates_only Q) w (snd (reconcileVMOperatorVM y g [network_modifier y g' np] vm affInfo w))"
proof -
  let ?c = "\<lambda>exists vm hw mode w. bindE (complete_vm y g [network_modifier y g' np] affInfo hw mode vm w) (\<lambda>vm' w. write_vm y exists vm vm' w)"
  have new: "sup_ok (creates_only Q) w1 (snd (?c False vm hw mode w1))" if w1: "w1 = w\<lparr>shist := h\<rparr>" for hw mode w1 h
  proof (intro sup_ok_bindE complete_vm_ok write_vm_ok)
    fix vm' w2 assume "complete_vm y g [network_modifier y g' np] affInfo hw mode vm w1 = (Inr vm', w2)"
    from complete_vm_meta [OF this assms(1)] show "creates_only Q (SCreate_VM vm')" using Q w1 by simp
  qed simp_all
  have old: "sup_ok (creates_only Q) w1 (snd (?c True vm1 hw mode w1))" for hw mode vm1 w1
    by (intro sup_ok_bindE complete_vm_ok write_vm_ok) simp_all
  show ?thesis
    unfolding reconcileVMOperatorVM_def Let_def
    by (auto simp: sup_do_eq intro!: sup_ok_case sup_ok_do new old split: sum.split)
qed

lemma group_affinity_ok [sup_intros]: "sup_ok (creates_only Q) w (snd (group_affinity y g name w))"
  by (auto simp: group_affinity_def Let_def intro!: sup_intros)

definition group_read :: "sup_machine \<Rightarrow> sup_call list" where
  \<comment> \<open>the history after the first call of a run for a worker: the group of its cluster\<close>
  "group_read w = shist w @ [SGet_VMGroup (m_Namespace (cl_meta (xm_Cluster w))) (m_Name (cl_meta (xm_Cluster w)))]"

lemma group_read_Phase [simp]: "group_read (set_Phase p w) = group_read w"
  by (simp add: group_read_def set_Phase_def upd_xstatus_def)

lemma group_affinity_reads:
  assumes "NodeAutoPlacement g" "\<not> IsControlPlaneMachine (sv_meta (xm_VSphereMachine w))"
  shows "sup_ok (\<lambda>_. True) (w\<lparr>shist := group_read w\<rparr>) (snd (group_affinity y g name w))"
  using assms by (auto simp: group_affinity_def group_read_def Let_def sup_do_def bindE_def sup_ok_def split: sum.split)

lemma group_affinity_member:
  assumes "group_affinity y g name w = (Inr (Some affInfo), w')" "NodeAutoPlacement g" "\<not> IsControlPlaneMachine (sv_meta (xm_VSphereMachine w))"
  obtains vmg where "y_group y (group_read w) = Inr vmg" "checkVirtualMachineGroupMembership vmg name"
    "wanted_zone w affInfo = if_empty (mach_FailureDomain (xm_Machine w))
      (recorded_zone vmg (Deref (m_Labels (mach_meta (xm_Machine w)) MachineDeploymentNameLabel) ''''))" "w' = w\<lparr>shist := shist w'\<rparr>"
proof -
  from assms obtain vmg where "y_group y (group_read w) = Inr vmg"
    "checkVirtualMachineGroupMembership vmg name"
    "wanted_zone w affInfo = if_empty (mach_FailureDomain (xm_Machine w))
      (recorded_zone vmg (Deref (m_Labels (mach_meta (xm_Machine w)) MachineDeploymentNameLabel) ''''))" "w' = w\<lparr>shist := shist w'\<rparr>"
    by (auto simp: group_affinity_def group_read_def Let_def sup_do_def bindE_def wanted_zone_def recorded_zone_def zone_key_def split: sum.splits if_splits)
  then show thesis using that by blast
qed

lemma observe_vm_hist [simp]: "shist (snd (observe_vm y vm w)) = shist w"
  by (simp add: observe_vm_def vmop_reconcileNetwork_def Let_def split: option.split prod.split)

definition answers_named :: "sup_ext \<Rightarrow> bool" where
  \<comment> \<open>a read returns the object that was asked for\<close>
  "answers_named y \<longleftrightarrow> (\<forall>h ns name vm. y_vm y (h @ [SGet_VM ns name]) = Inr vm \<longrightarrow> m_Name (hv_meta vm) = name)"

definition member_vm :: "sup_ext \<Rightarrow> sup_machine \<Rightarrow> HubVM \<Rightarrow> bool" where
  \<comment> \<open>the group that was read lists the VM, and its zone is set on the VM\<close>
  "member_vm y w vm \<longleftrightarrow> (\<exists>vmg. y_group y (group_read w) = Inr vmg \<and> checkVirtualMachineGroupMembership vmg (m_Name (hv_meta vm)) \<and>
     (let zone = if_empty (mach_FailureDomain (xm_Machine w))
        (recorded_zone vmg (Deref (m_Labels (mach_meta (xm_Machine w)) MachineDeploymentNameLabel) ''''))
      in zone \<noteq> '''' \<longrightarrow> m_Labels (hv_meta vm) LabelTopologyZone = Some zone))"

lemma ReconcileNormal_creates:
  assumes "NodeAutoPlacement g" "\<not> IsControlPlaneMachine (sv_meta (xm_VSphereMachine w))" "keeps_meta y" "answers_named y"
  shows "sup_ok (creates_only (member_vm y w)) w (snd (vmop_ReconcileNormal y g [network_modifier y g' np] w))"
proof -
  let ?w = "set_Phase PhasePending w" and ?P = "creates_only (member_vm y w)"
  have same: "xm_Machine ?w = xm_Machine w" "sv_meta (xm_VSphereMachine ?w) = sv_meta (xm_VSphereMachine w)"
    by (simp_all add: set_Phase_def upd_xstatus_def)
  have run: "sup_ok ?P w2 (snd (case reconcileVMOperatorVM y g [network_modifier y g' np] vm affInfo w2 of
      (Inl e, w) \<Rightarrow> (Inl e, if is_panic e then w else add_xcond (creation_failed e) w) | (Inr vm, w) \<Rightarrow> observe_vm y vm w))"
    if aff: "group_affinity y g name ?w = (Inr (Some affInfo), w1)" and w2: "w2 = w1\<lparr>shist := shist w2\<rparr>" and name: "m_Name (hv_meta vm) = name"
    for name affInfo w1 w2 vm
  proof (rule sup_ok_case)
    from group_affinity_member [OF aff assms(1)] assms(2) same obtain vmg where
      vmg: "y_group y (group_read w) = Inr vmg" "checkVirtualMachineGroupMembership vmg name"
      "wanted_zone ?w affInfo = if_empty (mach_FailureDomain (xm_Machine w))
        (recorded_zone vmg (Deref (m_Labels (mach_meta (xm_Machine w)) MachineDeploymentNameLabel) ''''))" "w1 = ?w\<lparr>shist := shist w1\<rparr>"
      by (metis group_read_Phase)
    have labels: "getVMLabels w2 = getVMLabels ?w" using vmg(4) w2 by (metis getVMLabels_shist(1))
    show "sup_ok ?P w2 (snd (reconcileVMOperatorVM y g [network_modifier y g' np] vm affInfo w2))"
    proof (rule reconcileVM_creates [OF assms(3)])
      fix vm' :: HubVM assume vm': "m_Name (hv_meta vm') = m_Name (hv_meta vm)" "m_Labels (hv_meta vm') = getVMLabels w2 (m_Labels (hv_meta vm)) affInfo"
      have "m_Labels (hv_meta vm') LabelTopologyZone = Some (wanted_zone ?w affInfo)" if "wanted_zone ?w affInfo \<noteq> ''''"
        using that by (simp only: vm'(2) labels zone_label if_False)
      then show "member_vm y w vm'" unfolding member_vm_def Let_def using vmg(1-3) vm'(1) name by auto
    qed
  qed (auto simp: sup_ok_same)
  have "sup_ok ?P ?w (snd (vmop_ReconcileNormal y g [network_modifier y g' np] w))"
    unfolding vmop_ReconcileNormal_def Let_def
    using assms(4) by (auto simp: sup_do_eq answers_named_def zero_hub_vm_def intro!: sup_ok_bindE group_affinity_ok sup_ok_case sup_ok_do
      elim!: run split: sum.split option.split)
  then show ?thesis by (rule sup_ok_start [rotated]) simp
qed

lemma ReconcileNormal_reads_group:
  assumes "NodeAutoPlacement g" "\<not> IsControlPlaneMachine (sv_meta (xm_VSphereMachine w))" "keeps_meta y"
  shows "(\<exists>e. vmop_ReconcileNormal y g [network_modifier y g' np] w = (Inl e, set_Phase PhasePending w)) \<or>
    prefix (group_read w) (shist (snd (vmop_ReconcileNormal y g [network_modifier y g' np] w)))"
proof (cases "vm_key y (set_Phase PhasePending w)")
  case (Inl e)
  then show ?thesis by (simp add: vmop_ReconcileNormal_def Let_def)
next
  case (Inr k)
  let ?w = "set_Phase PhasePending w" and ?T = "creates_only (\<lambda>_. True)"
  have all: "?T c" for c by (simp add: creates_only_def)
  have "\<not> IsControlPlaneMachine (sv_meta (xm_VSphereMachine ?w))" using assms(2) by (simp add: set_Phase_def upd_xstatus_def)
  from sup_ok_mono [OF group_affinity_reads [OF assms(1) this]] all
  have first: "sup_ok ?T (?w\<lparr>shist := group_read w\<rparr>) (snd (group_affinity y g name ?w))" for name by simp
  have run: "sup_ok ?T w2 (snd (case reconcileVMOperatorVM y g [network_modifier y g' np] vm affInfo w2 of
      (Inl e, w) \<Rightarrow> (Inl e, if is_panic e then w else add_xcond (creation_failed e) w) | (Inr vm, w) \<Rightarrow> observe_vm y vm w))" for vm affInfo w2
    by (rule sup_ok_case) (auto simp: sup_ok_same intro: reconcileVM_creates [OF assms(3)])
  have "sup_ok ?T (?w\<lparr>shist := group_read w\<rparr>) (snd (vmop_ReconcileNormal y g [network_modifier y g' np] w))"
    using Inr unfolding vmop_ReconcileNormal_def Let_def
    by (cases k) (auto intro!: sup_ok_bindE first sup_ok_case sup_ok_do run all split: option.split)
  from sup_ok_prefix [OF this] show ?thesis by simp
qed

lemma sup_ok_new: "sup_ok P w w' \<Longrightarrow> c \<in> set (drop (length (shist w)) (shist w')) \<Longrightarrow> P c"
  by (auto simp: sup_ok_def list_all_iff)

lemma GetHostInfo_ok: "sup_ok (creates_only Q) w (snd (vmop_GetHostInfo y w))"
  by (auto simp: vmop_GetHostInfo_def intro!: sup_intros split: sum.split)

lemma patchMachineLabels_ok: "sup_ok (creates_only Q) w (snd (sup_patchMachineLabels y w))"
  unfolding sup_patchMachineLabels_def Let_def
  by (auto intro!: sup_ok_bindE GetHostInfo_ok sup_ok_do_updated)

lemma reconcileNormal_reads_group:
  assumes "NodeAutoPlacement g" "\<not> IsControlPlaneMachine (sv_meta (xm_VSphereMachine w))" "keeps_meta y" "supm_reconcileNormal y g np w = (r, w')"
  shows "shist w' = shist w \<or> prefix (group_read w) (shist w')"
proof (cases "sup_waits_for_bootstrap y w")
  case (Some ops)
  then show ?thesis using assms(4) by (auto simp: supm_reconcileNormal_def vmop_SyncFailureReason_def)
next
  case None
  obtain r1 w1 where 1: "vmop_ReconcileNormal y g [network_modifier y g np] w = (r1, w1)" by fastforce
  have "(\<exists>e. r1 = Inl e \<and> shist w1 = shist w) \<or> prefix (group_read w) (shist w1)"
    using ReconcileNormal_reads_group [OF assms(1-3), of g np] 1 by auto
  moreover have "w' = w1 \<or> (r1 = Inr False \<and> prefix (shist w1) (shist w'))"
  proof (cases "r1 = Inr False")
    case True
    then have "sup_ok (creates_only (\<lambda>_. True)) w1 w'"
      using assms(4) None 1 patchMachineLabels_ok [of "\<lambda>_. True" w1 y]
      by (auto simp: supm_reconcileNormal_def vmop_SyncFailureReason_def bindE_def wrapE_def split: sum.splits prod.splits)
    then show ?thesis using True sup_ok_prefix by blast
  next
    case False
    then show ?thesis using assms(4) None 1
      by (auto simp: supm_reconcileNormal_def vmop_SyncFailureReason_def bindE_def split: sum.splits)
  qed
  ultimately show ?thesis by (auto intro: prefix_order.trans)
qed

text \<open>
  C11. With node auto placement, the VirtualMachine of a worker is created only in a run whose first call read the VirtualMachineGroup of the
  cluster, and only if that group lists it; and
  the VM carries the failure domain of its Machine, or else the zone that the group records for its deployment.
\<close>

theorem worker_created_only_in_group:
  assumes "NodeAutoPlacement g" "\<not> IsControlPlaneMachine (sv_meta (xm_VSphereMachine w))" "keeps_meta y" "answers_named y"
    and "supm_reconcileNormal y g np w = (r, w')" "SCreate_VM vm \<in> set (drop (length (shist w)) (shist w'))"
  shows "\<exists>vmg. prefix (group_read w) (shist w') \<and> y_group y (group_read w) = Inr vmg \<and> m_Name (hv_meta vm) \<in> set (memberNames vmg) \<and>
    (let zone = if_empty (mach_FailureDomain (xm_Machine w))
       (recorded_zone vmg (Deref (m_Labels (mach_meta (xm_Machine w)) MachineDeploymentNameLabel) ''''))
     in zone \<noteq> '''' \<longrightarrow> m_Labels (hv_meta vm) LabelTopologyZone = Some zone)"
proof -
  have "sup_ok (creates_only (member_vm y w)) w (snd (supm_reconcileNormal y g np w))"
    unfolding supm_reconcileNormal_def vmop_SyncFailureReason_def
    by (auto intro!: sup_ok_bindE ReconcileNormal_creates assms sup_ok_wrapE patchMachineLabels_ok split: option.split)
  then have "creates_only (member_vm y w) (SCreate_VM vm)" using assms(5,6) sup_ok_new by fastforce
  moreover have "shist w' \<noteq> shist w" using assms(6) by auto
  then have "prefix (group_read w) (shist w')" using reconcileNormal_reads_group [OF assms(1-3,5)] by blast
  ultimately show ?thesis by (simp add: member_vm_def membership)
qed

section \<open>What a run leaves alone\<close>

definition sup_same :: "'w sup_world_scheme \<Rightarrow> 'w sup_world_scheme \<Rightarrow> bool" where
  \<comment> \<open>only the history differs\<close>
  "sup_same w w' \<longleftrightarrow> w' = w\<lparr>shist := shist w'\<rparr>"

named_theorems same_intros \<open>rules for operations that only make calls\<close>

lemma sup_same_refl [same_intros, simp]: "sup_same w w"
  by (simp add: sup_same_def)

lemma sup_same_trans: "sup_same w w1 \<Longrightarrow> sup_same w1 w2 \<Longrightarrow> sup_same w w2"
  unfolding sup_same_def by (metis (no_types, lifting) sup_world.surjective sup_world.update_convs(1))

lemma sup_same_do [same_intros]: "sup_same w (snd (sup_do c f w))"
  by (simp add: sup_same_def sup_do_def)

lemma sup_same_wrapE [same_intros]: "sup_same w (snd m) \<Longrightarrow> sup_same w (snd (wrapE msg args m))"
  by simp

lemma sup_same_bindE [same_intros]:
  assumes "sup_same w (snd m)" and "\<And>a w'. m = (Inr a, w') \<Longrightarrow> sup_same w' (snd (k a w'))"
  shows "sup_same w (snd (bindE m k))"
  using assms by (cases m; cases "fst m") (auto simp: bindE_def intro: sup_same_trans)

lemma sup_same_case [same_intros]:
  assumes "sup_same w (snd m)" and "\<And>e w'. m = (Inl e, w') \<Longrightarrow> sup_same w' (snd (f e w'))"
    and "\<And>a w'. m = (Inr a, w') \<Longrightarrow> sup_same w' (snd (g a w'))"
  shows "sup_same w (snd (case m of (Inl e, w) \<Rightarrow> f e w | (Inr a, w) \<Rightarrow> g a w))"
  using assms by (cases m; cases "fst m") (auto intro: sup_same_trans)

lemma sup_same_modifier [same_intros]: "sup_same w (snd (apply_modifiers [network_modifier y g np] vm w))"
proof -
  obtain h where "snd (network_modifier y g np vm w) = w\<lparr>shist := h\<rparr>" using nm.modifier_frame by blast
  then have "sup_same w (snd (network_modifier y g np vm w))" by (simp add: sup_same_def)
  then show ?thesis by (auto intro!: same_intros)
qed

lemma sup_same_addVolumes [same_intros]: "sup_same w (snd (addVolumes y vs vm w))"
  by (induction y vs vm w rule: addVolumes.induct) (auto simp: Let_def intro!: same_intros)

lemma sup_same_reconcileVM: "sup_same w (snd (reconcileVMOperatorVM y g [network_modifier y g' np] vm affInfo w))"
proof -
  have complete: "sup_same w (snd (complete_vm y g [network_modifier y g' np] affInfo hw mode vm w))" for hw mode vm w
    unfolding complete_vm_def Let_def by (intro sup_same_bindE sup_same_addVolumes sup_same_modifier) (auto split: sum.split)
  have wr: "sup_same w (snd (write_vm y ex old vm w))" for ex old vm w
    unfolding write_vm_def by (auto intro!: same_intros)
  show ?thesis unfolding reconcileVMOperatorVM_def Let_def
    by (auto intro!: sup_same_case sup_same_bindE sup_same_do complete wr split: sum.split)
qed

section \<open>A provisioned machine\<close>

definition ready_vm :: "sup_ext \<Rightarrow> HubVM \<Rightarrow> SVSphereMachine \<Rightarrow> bool" where
  \<comment> \<open>the VM runs, has an address and an identity, and the machine reports them\<close>
  "ready_vm y vm m \<longleftrightarrow>
     y_IsStatusConditionTrue y (hst_Conditions (hv_Status vm)) ''VirtualMachineCreated'' \<and> hst_PowerState (hv_Status vm) = VirtualMachinePowerStateOn \<and>
     hst_BiosUUID (hv_Status vm) \<noteq> '''' \<and> sp_ProviderID (sv_Spec m) = ''vsphere://'' @ hst_BiosUUID (hv_Status vm) \<and>
     ss_BiosUUID (sv_Status m) = hst_BiosUUID (hv_Status vm) \<and> ss_FailureDomain (sv_Status m) = hst_Zone (hv_Status vm) \<and>
     (\<exists>network ip. hst_Network (hv_Status vm) = Some network \<and> ip \<noteq> '''' \<and> ip \<in> {hn_PrimaryIP4 network, hn_PrimaryIP6 network} \<and>
       ss_Addresses (sv_Status m) = [\<lparr>ma_Type = MachineInternalIP, ma_Address = ip\<rparr>])"

lemma upd_xstatus_sel [simp]: "xm_status (upd_xstatus f w) = f (xm_status w)" "xm_spec (upd_xstatus f w) = xm_spec w"
  "sv_meta (xm_VSphereMachine (upd_xstatus f w)) = sv_meta (xm_VSphereMachine w)" "xm_Machine (upd_xstatus f w) = xm_Machine w"
  by (simp_all add: upd_xstatus_def)

lemma primary_address:
  "\<not> (hn_PrimaryIP4 n = '''' \<and> hn_PrimaryIP6 n = '''') \<Longrightarrow>
    (if hn_PrimaryIP4 n = '''' then hn_PrimaryIP6 n else hn_PrimaryIP4 n) \<noteq> ''''"
  by simp

lemma observe_vm_cases:
  assumes "observe_vm y vm w = (r, w')"
  shows "(r \<noteq> Inr False \<and> ss_Provisioned (xm_status w') = ss_Provisioned (xm_status w) \<and> xm_spec w' = xm_spec w) \<or>
    (r = Inr False \<and> ready_vm y vm (xm_VSphereMachine w') \<and> ss_Provisioned (xm_status w') = Some True \<and> ss_Phase (xm_status w') = PhaseReady)"
proof (cases "y_IsStatusConditionTrue y (hst_Conditions (hv_Status vm)) ''VirtualMachineCreated'' \<and> hst_PowerState (hv_Status vm) = VirtualMachinePowerStateOn
    \<and> hst_Network (hv_Status vm) \<noteq> None")
  case False
  then show ?thesis using assms
    by (auto simp: observe_vm_def Let_def set_Phase_def add_xcond_def split: option.splits if_splits)
next
  case True
  then obtain n where n: "hst_Network (hv_Status vm) = Some n" by blast
  let ?ip = "if hn_PrimaryIP4 n = '''' then hn_PrimaryIP6 n else hn_PrimaryIP4 n"
  show ?thesis
  proof (cases "(hn_PrimaryIP4 n = '''' \<and> hn_PrimaryIP6 n = '''') \<or> hst_BiosUUID (hv_Status vm) = ''''")
    case wait: True
    then show ?thesis using assms True n
      by (auto simp: observe_vm_def Let_def set_Phase_def add_xcond_def split: if_splits)
  next
    case ok: False
    have r: "r = fst (observe_vm y vm w)" and w': "w' = snd (observe_vm y vm w)" using assms by simp_all
    have "?ip \<noteq> ''''" using ok by auto
    moreover have "?ip \<in> {hn_PrimaryIP4 n, hn_PrimaryIP6 n}" by simp
    moreover have "r = Inr False" "ss_Addresses (xm_status w') = [\<lparr>ma_Type = MachineInternalIP, ma_Address = ?ip\<rparr>]"
      "sp_ProviderID (xm_spec w') = ''vsphere://'' @ hst_BiosUUID (hv_Status vm)" "ss_BiosUUID (xm_status w') = hst_BiosUUID (hv_Status vm)"
      "ss_FailureDomain (xm_status w') = hst_Zone (hv_Status vm)" "ss_Provisioned (xm_status w') = Some True" "ss_Phase (xm_status w') = PhaseReady"
      using True n ok unfolding r w'
      by (cases "hn_PrimaryIP4 n = ''''"; simp add: observe_vm_def Let_def set_Phase_def add_xcond_def vmop_reconcileNetwork_def)+
    ultimately show ?thesis using True n ok unfolding ready_vm_def by blast
  qed
qed

definition returns_vm :: "sup_call \<Rightarrow> bool" where
  "returns_vm c \<longleftrightarrow> (\<exists>ns n. c = SGet_VM ns n) \<or> (\<exists>vm. c = SCreate_VM vm) \<or> (\<exists>old vm. c = SPatch_VM old vm)"

definition vm_answered :: "sup_ext \<Rightarrow> sup_call list \<Rightarrow> sup_call list \<Rightarrow> HubVM \<Rightarrow> bool" where
  \<comment> \<open>the API server returned the VM in the run between two histories\<close>
  "vm_answered y h h' vm \<longleftrightarrow> (\<exists>c. returns_vm c \<and> sanswered (y_vm y) h h' c (Inr vm))"

lemma vm_answered_mono: "vm_answered y h h' vm \<Longrightarrow> prefix h0 h \<Longrightarrow> prefix h' h1 \<Longrightarrow> vm_answered y h0 h1 vm"
  unfolding vm_answered_def by (elim exE conjE, intro exI conjI, assumption, erule sanswered_mono, assumption+)

lemma vm_answered_do: "returns_vm c \<Longrightarrow> sup_do c (y_vm y) w = (Inr vm, w') \<Longrightarrow> vm_answered y (shist w) (shist w') vm"
  unfolding vm_answered_def by (intro exI conjI, assumption, erule sanswered_do)

lemma write_vm_answer:
  assumes "write_vm y ex old vm w = (Inr vm', w')"
  shows "vm_answered y (shist w) (shist w') vm' \<or> (ex \<and> vm' = old \<and> w' = w)"
proof (cases "ex \<and> old = vm")
  case True
  then show ?thesis using assms by (simp add: write_vm_def)
next
  case False
  let ?w1 = "w\<lparr>shist := shist w @ [SMergeFrom_VM old]\<rparr>"
  have "sup_do (SCreate_VM vm) (y_vm y) w = (Inr vm', w') \<or> sup_do (SPatch_VM old vm) (y_vm y) ?w1 = (Inr vm', w')"
    using assms False by (auto simp: write_vm_def sup_do_def bindE_def wrapE_def split: if_splits sum.splits)
  then have "vm_answered y (shist w) (shist w') vm' \<or> vm_answered y (shist ?w1) (shist w') vm'"
    using vm_answered_do by (metis returns_vm_def)
  then show ?thesis using vm_answered_mono [of y "shist ?w1" "shist w'" vm' "shist w" "shist w'"] by auto
qed

lemma write_vm_prefix: "prefix (shist w) (shist (snd (write_vm y ex old vm w)))"
  by (rule sup_ok_prefix [of "\<lambda>_. True"]) (rule write_vm_ok; simp)

lemma reconcileVM_answer:
  assumes "reconcileVMOperatorVM y g [network_modifier y g' np] vm affInfo w = (Inr vm', w')"
  shows "vm_answered y (shist w) (shist w') vm'"
proof -
  let ?c = "SGet_VM (m_Namespace (hv_meta vm)) (m_Name (hv_meta vm))"
  let ?w0 = "w\<lparr>shist := shist w @ [?c]\<rparr>"
  obtain ex old hw mode new w1 where
    c: "complete_vm y g [network_modifier y g' np] affInfo hw mode old ?w0 = (Inr new, w1)"
    and wr: "write_vm y ex old new w1 = (Inr vm', w')" and old: "ex \<longrightarrow> y_vm y (shist ?w0) = Inr old"
    using assms unfolding reconcileVMOperatorVM_def Let_def
    by (auto simp: sup_do_def bindE_eq_Inr split: if_splits sum.splits)
  have p: "prefix (shist ?w0) (shist w1)"
    using sup_ok_prefix [OF complete_vm_ok [of "\<lambda>_. True"], of ?w0 y g g' np affInfo hw mode old] c by simp
  from write_vm_answer [OF wr] show ?thesis
  proof
    assume "vm_answered y (shist w1) (shist w') vm'"
    then show ?thesis by (rule vm_answered_mono) (use p in \<open>auto elim: prefixE\<close>)
  next
    assume o: "ex \<and> vm' = old \<and> w' = w1"
    have "vm_answered y (shist w) (shist ?w0) vm'"
      by (rule vm_answered_do [where c = ?c and w' = ?w0]) (use o old in \<open>auto simp: returns_vm_def sup_do_def\<close>)
    then show ?thesis by (rule vm_answered_mono) (use p o in auto)
  qed
qed

definition outcome :: "sup_ext \<Rightarrow> sup_call list \<Rightarrow> sup_call list \<Rightarrow> go_error + bool \<Rightarrow> SVSphereMachine \<Rightarrow> SVSphereMachine \<Rightarrow> bool" where
  \<comment> \<open>the history and the machine before and after a run with the given result\<close>
  "outcome y h h' r m m' \<longleftrightarrow>
     (if r = Inr False then (\<exists>vm. vm_answered y h h' vm \<and> ready_vm y vm m') \<and> ss_Provisioned (sv_Status m') = Some True
      else ss_Provisioned (sv_Status m') = ss_Provisioned (sv_Status m) \<and> sp_ProviderID (sv_Spec m') = sp_ProviderID (sv_Spec m))"

lemma outcome_waits:
  "r \<noteq> Inr False \<Longrightarrow> ss_Provisioned (sv_Status m') = ss_Provisioned (sv_Status m) \<Longrightarrow> sv_Spec m' = sv_Spec m \<Longrightarrow> outcome y h h' r m m'"
  by (simp add: outcome_def)

lemma reconcile_and_observe:
  assumes "(case reconcileVMOperatorVM y g [network_modifier y g np] vm affInfo w of
      (Inl e, w) \<Rightarrow> (Inl e, if is_panic e then w else add_xcond (creation_failed e) w) | (Inr vm, w) \<Rightarrow> observe_vm y vm w) = (r, w')"
  shows "outcome y (shist w) (shist w') r (xm_VSphereMachine w) (xm_VSphereMachine w')"
proof -
  obtain r1 w1 where 1: "reconcileVMOperatorVM y g [network_modifier y g np] vm affInfo w = (r1, w1)" by fastforce
  then have "sup_same w w1" using sup_same_reconcileVM [of w] by (metis snd_conv)
  then obtain h where "w1 = w\<lparr>shist := h\<rparr>" unfolding sup_same_def by blast
  then have w1: "xm_VSphereMachine w1 = xm_VSphereMachine w" by simp
  show ?thesis
  proof (cases r1)
    case (Inl e)
    then have "r = Inl e" "w' = w1 \<or> w' = add_xcond (creation_failed e) w1" using assms 1 by auto
    then show ?thesis using w1 by (intro outcome_waits) (auto simp: add_xcond_def)
  next
    case (Inr vm1)
    then have "observe_vm y vm1 w1 = (r, w')" using assms 1 by simp
    from observe_vm_cases [OF this] show ?thesis
    proof
      assume "r \<noteq> Inr False \<and> ss_Provisioned (xm_status w') = ss_Provisioned (xm_status w1) \<and> xm_spec w' = xm_spec w1"
      then show ?thesis using w1 by (intro outcome_waits) simp_all
    next
      assume "r = Inr False \<and> ready_vm y vm1 (xm_VSphereMachine w') \<and> ss_Provisioned (xm_status w') = Some True \<and> ss_Phase (xm_status w') = PhaseReady"
      moreover have "vm_answered y (shist w) (shist w1) vm1" using reconcileVM_answer 1 Inr by blast
      moreover have "shist w' = shist w1" using \<open>observe_vm y vm1 w1 = (r, w')\<close> observe_vm_hist by (metis snd_conv)
      ultimately show ?thesis unfolding outcome_def by auto
    qed
  qed
qed

lemma group_affinity_machine:
  assumes "group_affinity y g name w = (a, w')"
  shows "ss_Provisioned (xm_status w') = ss_Provisioned (xm_status w) \<and> xm_spec w' = xm_spec w"
  using assms by (auto simp: group_affinity_def Let_def sup_do_def bindE_def add_xcond_def split: if_splits sum.splits)

lemma outcome_from:
  "outcome y h1 h' r m1 m' \<Longrightarrow> prefix h h1 \<Longrightarrow> ss_Provisioned (sv_Status m1) = ss_Provisioned (sv_Status m) \<Longrightarrow> sv_Spec m1 = sv_Spec m \<Longrightarrow>
    outcome y h h' r m m'"
  by (auto simp: outcome_def) (meson vm_answered_mono prefix_order.refl)

lemma ReconcileNormal_outcome:
  assumes "vmop_ReconcileNormal y g [network_modifier y g np] w = (r, w')"
  shows "outcome y (shist w) (shist w') r (xm_VSphereMachine (set_Phase PhasePending w)) (xm_VSphereMachine w')"
proof (cases "vm_key y (set_Phase PhasePending w)")
  case (Inl e)
  then show ?thesis using assms by (intro outcome_waits) (auto simp: vmop_ReconcileNormal_def Let_def)
next
  case (Inr k)
  let ?w = "set_Phase PhasePending w"
  obtain ns name where k: "vm_key y ?w = Inr (ns, name)" using Inr by (cases k) simp
  obtain a w1 where a: "group_affinity y g name ?w = (a, w1)" by fastforce
  note m1 = group_affinity_machine [OF a]
  have p1: "prefix (shist w) (shist w1)" using sup_ok_prefix [OF group_affinity_ok [of "\<lambda>_. True" ?w y g name]] a by simp
  show ?thesis
  proof (cases "\<exists>ai. a = Inr (Some ai)")
    case False
    then have "w' = w1" "r \<noteq> Inr False" using assms k a
      by (auto simp: vmop_ReconcileNormal_def Let_def bindE_def split: sum.splits option.splits)
    then show ?thesis using m1 by (intro outcome_waits) simp_all
  next
    case True
    then obtain ai where ai: "a = Inr (Some ai)" by blast
    let ?w2 = "w1\<lparr>shist := shist w1 @ [SGet_VM ns name]\<rparr>"
    show ?thesis
    proof (cases "\<exists>e. y_vm y (shist ?w2) = Inl e \<and> \<not> apierrors_IsNotFound e")
      case True
      then have "w' = ?w2" "r \<noteq> Inr False" using assms k a ai by (auto simp: vmop_ReconcileNormal_def Let_def bindE_def sup_do_def)
      then show ?thesis using m1 by (intro outcome_waits) simp_all
    next
      case False
      then have "\<exists>vm. (case reconcileVMOperatorVM y g [network_modifier y g np] vm ai ?w2 of
          (Inl e, w) \<Rightarrow> (Inl e, if is_panic e then w else add_xcond (creation_failed e) w) | (Inr vm, w) \<Rightarrow> observe_vm y vm w) = (r, w')"
        using assms k a ai by (cases "y_vm y (shist ?w2)") (auto simp: vmop_ReconcileNormal_def Let_def bindE_def sup_do_def)
      then have "outcome y (shist ?w2) (shist w') r (xm_VSphereMachine ?w2) (xm_VSphereMachine w')" using reconcile_and_observe by blast
      then show ?thesis by (rule outcome_from) (use m1 p1 in simp_all)
    qed
  qed
qed

text \<open>
  C26. The service reports a VSphereMachine as provisioned only when the API server returned, in the same run, a VirtualMachine that is created, powered on and
  has a BIOS UUID and a primary address; provider ID, UUID, zone and address of the machine are then those of the VM. In every other
  outcome of a run the provider ID and the provisioned flag are what they were.
\<close>

theorem provisioned_matches_vm:
  assumes "vmop_ReconcileNormal y g [network_modifier y g np] w = (r, w')"
  shows "if r = Inr False then (\<exists>vm. vm_answered y (shist w) (shist w') vm \<and> ready_vm y vm (xm_VSphereMachine w')) \<and> ss_Provisioned (xm_status w') = Some True
    else ss_Provisioned (xm_status w') = ss_Provisioned (xm_status w) \<and> sp_ProviderID (xm_spec w') = sp_ProviderID (xm_spec w)"
  using ReconcileNormal_outcome [OF assms] by (simp add: outcome_def set_Phase_def)

section \<open>A VM settles\<close>

text \<open>The network of a VM is configured once: the second time nothing changes.\<close>

definition same_networks :: "sup_ext \<Rightarrow> bool" where
  \<comment> \<open>a listing of networks depends on the namespace and the label only: the networks do not change between two runs\<close>
  "same_networks y \<longleftrightarrow> (\<forall>h h' ns l. y_names y (h @ [SList_Networks ns l]) = y_names y (h' @ [SList_Networks ns l]))"

lemma has_nsxt_append: "has_nsxt_interface gvk n is = Inr False \<Longrightarrow> has_nsxt_interface gvk n (is @ [plain_interface nm gvk n modes]) = Inr True"
  by (induction "is") (auto simp: plain_interface_def split: option.splits if_splits)

lemma nsxt_configure_twice:
  assumes "nsxt_ConfigureVirtualMachine y c net = Inr net'"
  shows "nsxt_ConfigureVirtualMachine y c (Some net') = Inr net'"
proof (cases "has_nsxt_interface (NetworkGVKNSXT y) (GetNSXTVirtualNetworkName (m_Name (sc_meta c))) (hns_Interfaces (Deref net empty_network))")
  case (Inl e)
  then show ?thesis using assms by (simp add: nsxt_ConfigureVirtualMachine_def Let_def)
next
  case (Inr b)
  then show ?thesis using assms by (cases b) (auto simp: nsxt_ConfigureVirtualMachine_def Let_def has_nsxt_append)
qed

lemma netop_configure_same:
  assumes "same_networks y"
  shows "fst (netop_ConfigureVirtualMachine y c m w) = fst (netop_ConfigureVirtualMachine y c m w')"
proof -
  have l: "fst (getDefaultClusterNetworkWithLabel y ns l w1) = fst (getDefaultClusterNetworkWithLabel y ns l w2)"
    for ns l and w1 :: "'a sup_world_scheme" and w2 :: "'b sup_world_scheme"
  proof -
    have "y_names y (shist w1 @ [SList_Networks ns l]) = y_names y (shist w2 @ [SList_Networks ns l])"
      using assms unfolding same_networks_def by blast
    then show ?thesis by (simp add: getDefaultClusterNetworkWithLabel_def bindE_def sup_do_def split: sum.split)
  qed
  have "fst (getClusterNetwork y c w) = fst (getClusterNetwork y c w')"
    using l [of "m_Namespace (cl_meta c)" CAPVDefaultNetworkLabel w w'] l [of "m_Namespace (cl_meta c)" legacyDefaultNetworkLabel]
    by (auto simp: getClusterNetwork_def split: prod.splits sum.splits)
  then show ?thesis by (auto simp: netop_ConfigureVirtualMachine_def bindE_def split: prod.splits sum.splits)
qed

lemma configure_twice:
  assumes "fst (ConfigureVirtualMachine y g np c vc m net w) = Inr net'" and "same_networks y"
  shows "fst (ConfigureVirtualMachine y g np c vc m net' w') = Inr net'"
proof (cases np)
  case NetOp
  then show ?thesis using assms netop_configure_same [OF assms(2), of c m w w']
    by (auto simp: bindE_def split: prod.splits sum.splits)
next
  case (Nsxt d)
  then show ?thesis using assms(1) by (cases "nsxt_ConfigureVirtualMachine y vc net") (auto simp: nsxt_configure_twice)
qed (use assms(1) in auto)

text \<open>The specification is a fixed point, and the fields it does not set commute with it.\<close>

lemma desired_spec_twice [simp]: "desired_spec w hw mode (desired_spec w hw mode s) = desired_spec w hw mode s"
  by (simp add: desired_spec_def if_empty_def Let_def)

lemma desired_spec_commutes:
  "desired_spec w hw mode (s\<lparr>hs_Volumes := vs\<rparr>) = (desired_spec w hw mode s)\<lparr>hs_Volumes := vs\<rparr>"
  "desired_spec w hw mode (s\<lparr>hs_Policies := p\<rparr>) = (desired_spec w hw mode s)\<lparr>hs_Policies := p\<rparr>"
  "desired_spec w hw mode (s\<lparr>hs_Network := n\<rparr>) = (desired_spec w hw mode s)\<lparr>hs_Network := n\<rparr>"
  "desired_spec w hw mode (s\<lparr>hs_Affinity := a, hs_GroupName := grp\<rparr>) = (desired_spec w hw mode s)\<lparr>hs_Affinity := a, hs_GroupName := grp\<rparr>"
  by (simp_all add: desired_spec_def Let_def)

lemma labels_twice: "getVMLabels w (getVMLabels w l a) a = getVMLabels w l a"
proof -
  have d: "distinct (map fst (clusterRoleVMLabels c cp))" for c cp
    by (simp add: clusterRoleVMLabels_def ClusterSelectorKey_def legacyClusterSelectorKey_def nodeSelectorKey_def legacyNodeSelectorKey_def)
  have t: "distinct (map fst (getTopologyLabels w fd))" for fd by (simp add: getTopologyLabels_def)
  show ?thesis
    by (auto simp: getVMLabels_def Let_def fun_eq_iff put_all_distinct [OF d] put_all_distinct [OF t] split: option.split)
qed

lemma annotations_twice: "addResourcePolicyAnnotations w (addResourcePolicyAnnotations w a) = addResourcePolicyAnnotations w a"
  by (auto simp: addResourcePolicyAnnotations_def)

lemma foldl_addVolume_spec:
  "\<exists>vs'. hv_Spec (foldl (\<lambda>vm v. addVolume vm (f v)) vm vs) = (hv_Spec vm)\<lparr>hs_Volumes := vs'\<rparr>"
proof (induction vs arbitrary: vm)
  case Nil
  then show ?case by (auto intro: exI [of _ "hs_Volumes (hv_Spec vm)"])
next
  case (Cons v vs)
  obtain vs1 where "hv_Spec (addVolume vm (f v)) = (hv_Spec vm)\<lparr>hs_Volumes := vs1\<rparr>"
    by (cases "has_volume vm (f v)") (auto simp: addVolume_def has_volume_def intro: that [of "hs_Volumes (hv_Spec vm)"])
  then show ?case using Cons.IH [of "addVolume vm (f v)"] by auto
qed

definition settled :: "sup_ext \<Rightarrow> gates \<Rightarrow> NetworkProvider \<Rightarrow> affinityInfo option \<Rightarrow> int \<Rightarrow> string \<Rightarrow> sup_machine \<Rightarrow> HubVM \<Rightarrow> bool" where
  \<comment> \<open>nothing is left to change on the VM\<close>
  "settled y g np affInfo hw mode w s \<longleftrightarrow>
     hv_CreationTimestamp s \<noteq> None \<and> desired_vm hw mode affInfo w s = s \<and> (\<forall>n\<in>set (volume_names w). has_volume s n) \<and>
     (\<forall>h. fst (ConfigureVirtualMachine y g np (xm_Cluster w) (xm_VSphereCluster w) (xm_VSphereMachine w) (hs_Network (hv_Spec s)) (w\<lparr>shist := h\<rparr>)) =
       Inr (hs_Network (hv_Spec s))) \<and>
     set_affinity affInfo s = s \<and> y_SetControllerReference y (sv_meta (xm_VSphereMachine w)) (hv_meta s) = Inr (hv_meta s)"

lemma settled_complete:
  assumes "settled y g np affInfo hw mode w s" and "complete_vm y g [network_modifier y g np] affInfo hw mode s w = (Inr s', w')"
  shows "s' = s"
proof -
  have d: "desired_vm hw mode affInfo w s = s" "hv_CreationTimestamp s \<noteq> None" "set_affinity affInfo s = s"
    "y_SetControllerReference y (sv_meta (xm_VSphereMachine w)) (hv_meta s) = Inr (hv_meta s)" using assms(1) by (auto simp: settled_def)
  from assms(2) obtain vm1 w1 where 1: "addVolumes y (sp_Volumes (xm_spec w)) s w = (Inr vm1, w1)"
    by (auto simp: complete_vm_def bindE_eq_Inr d)
  have "\<forall>v\<in>set (sp_Volumes (xm_spec w)). has_volume s (volumeName (xm_VSphereMachine w) v)"
    using assms(1) by (auto simp: settled_def volume_names_def)
  then have vm1: "vm1 = s" using addVolumes_result [OF 1] by (simp add: addVolumes_id)
  obtain h where w1: "w1 = w\<lparr>shist := h\<rparr>" using addVolumes_result [OF 1] by blast
  obtain vm2 w2 where 2: "network_modifier y g np s w1 = (Inr vm2, w2)"
    using assms(2) 1 vm1 d by (auto simp: complete_vm_def bindE_eq_Inr Let_def)
  have "fst (ConfigureVirtualMachine y g np (xm_Cluster w1) (xm_VSphereCluster w1) (xm_VSphereMachine w1) (hs_Network (hv_Spec s)) w1) = Inr (hs_Network (hv_Spec s))"
    using assms(1) w1 by (simp add: settled_def)
  then have vm2: "vm2 = s" using 2 by (auto simp: network_modifier_def split: prod.splits sum.splits)
  obtain h' where "w2 = w1\<lparr>shist := h'\<rparr>" using nm.modifier_frame [of y g np s w1] 2 by auto
  then have m2: "xm_VSphereMachine w2 = xm_VSphereMachine w" using w1 by simp
  show ?thesis using assms(2) 1 2 vm1 vm2 d m2 by (auto simp: complete_vm_def bindE_def Let_def split: sum.splits)
qed

definition owner_once :: "sup_ext \<Rightarrow> bool" where
  \<comment> \<open>setting the same controller reference again changes nothing\<close>
  "owner_once y \<longleftrightarrow> (\<forall>ow m m'. y_SetControllerReference y ow m = Inr m' \<longrightarrow> y_SetControllerReference y ow m' = Inr m')"

lemma complete_vm_form:
  assumes "complete_vm y g [network_modifier y g np] affInfo hw mode vm w = (Inr vm', w')"
  obtains vm1 pol net m h where
    "vm1 = foldl (\<lambda>vm v. addVolume vm (volumeName (xm_VSphereMachine w) v)) (desired_vm hw mode affInfo w vm) (sp_Volumes (xm_spec w))"
    "vm' = (set_affinity affInfo (vm1\<lparr>hv_Spec := (hv_Spec vm1)\<lparr>hs_Policies := pol, hs_Network := net\<rparr>\<rparr>))\<lparr>hv_meta := m\<rparr>"
    "fst (ConfigureVirtualMachine y g np (xm_Cluster w) (xm_VSphereCluster w) (xm_VSphereMachine w) (hs_Network (hv_Spec vm1)) (w\<lparr>shist := h\<rparr>)) = Inr net"
    "y_SetControllerReference y (sv_meta (xm_VSphereMachine w)) (hv_meta vm1) = Inr m"
proof -
  from assms obtain vm1 w1 where 1: "addVolumes y (sp_Volumes (xm_spec w)) (desired_vm hw mode affInfo w vm) w = (Inr vm1, w1)"
    by (auto simp: complete_vm_def bindE_eq_Inr)
  obtain h where w1: "w1 = w\<lparr>shist := h\<rparr>" using addVolumes_result [OF 1] by blast
  define vp where "vp = (if hv_CreationTimestamp vm1 = None then vm1\<lparr>hv_Spec := (hv_Spec vm1)\<lparr>hs_Policies := getPolicies g w1\<rparr>\<rparr> else vm1)"
  have vp: "hs_Network (hv_Spec vp) = hs_Network (hv_Spec vm1)" "hv_meta vp = hv_meta vm1" by (simp_all add: vp_def)
  obtain vm2 w2 where 2: "network_modifier y g np vp w1 = (Inr vm2, w2)"
    using assms 1 by (auto simp: complete_vm_def bindE_eq_Inr Let_def vp_def)
  then obtain net where net: "fst (ConfigureVirtualMachine y g np (xm_Cluster w1) (xm_VSphereCluster w1) (xm_VSphereMachine w1) (hs_Network (hv_Spec vp)) w1) = Inr net"
    "vm2 = vp\<lparr>hv_Spec := (hv_Spec vp)\<lparr>hs_Network := net\<rparr>\<rparr>"
    by (auto simp: network_modifier_def split: prod.splits sum.splits)
  obtain h' where "w2 = w1\<lparr>shist := h'\<rparr>" using nm.modifier_frame [of y g np vp w1] 2 by auto
  then have m2: "xm_VSphereMachine w2 = xm_VSphereMachine w" using w1 by simp
  have "hv_meta vm2 = hv_meta vm1" using net(2) vp by simp
  moreover have "complete_vm y g [network_modifier y g np] affInfo hw mode vm w =
      bindE (apply_modifiers [network_modifier y g np] vp w1) (\<lambda>vm w. let vm = set_affinity affInfo vm in
        (case y_SetControllerReference y (sv_meta (xm_VSphereMachine w)) (hv_meta vm) of
           Inl e \<Rightarrow> (Inl (Wrapf e ''failed to mark %s %s/%s as owner of %s %s/%s'' []), w)
         | Inr m \<Rightarrow> (Inr (vm\<lparr>hv_meta := m\<rparr>), w)))"
    by (simp add: complete_vm_def 1 Let_def vp_def)
  ultimately obtain m where m: "y_SetControllerReference y (sv_meta (xm_VSphereMachine w)) (hv_meta vm1) = Inr m" "vm' = (set_affinity affInfo vm2)\<lparr>hv_meta := m\<rparr>"
    using assms 2 m2 by (auto simp: bindE_def Let_def split: sum.splits)
  have "vm2 = vm1\<lparr>hv_Spec := (hv_Spec vm1)\<lparr>hs_Policies := hs_Policies (hv_Spec vp), hs_Network := net\<rparr>\<rparr>"
    using net(2) by (auto simp: vp_def)
  then show thesis using that addVolumes_result [OF 1] m net(1) vp(1) w1 by simp
qed

lemma set_affinity_spec:
  "\<exists>a grp. hv_Spec (set_affinity affInfo vm) = (hv_Spec vm)\<lparr>hs_Affinity := a, hs_GroupName := grp\<rparr>"
proof -
  let ?s = "hv_Spec (set_affinity affInfo vm)"
  have "?s = (hv_Spec vm)\<lparr>hs_Affinity := hs_Affinity ?s, hs_GroupName := hs_GroupName ?s\<rparr>" by (cases affInfo) (simp_all add: set_affinity_def)
  then show ?thesis by blast
qed

lemma set_affinity_settled:
  "set_affinity affInfo ((set_affinity affInfo vm)\<lparr>hv_meta := m, hv_CreationTimestamp := Some t\<rparr>) =
    (set_affinity affInfo vm)\<lparr>hv_meta := m, hv_CreationTimestamp := Some t\<rparr>"
  by (cases affInfo) (simp_all add: set_affinity_def if_empty_def)

lemma complete_settles:
  assumes "complete_vm y g [network_modifier y g np] affInfo hw mode vm w = (Inr vm', w')" "same_networks y" "keeps_meta y" "owner_once y"
  shows "settled y g np affInfo hw mode w (vm'\<lparr>hv_CreationTimestamp := Some t\<rparr>)"
proof -
  from complete_vm_form [OF assms(1)] obtain vm1 pol net m h where
    vm1: "vm1 = foldl (\<lambda>vm v. addVolume vm (volumeName (xm_VSphereMachine w) v)) (desired_vm hw mode affInfo w vm) (sp_Volumes (xm_spec w))"
    and vm': "vm' = (set_affinity affInfo (vm1\<lparr>hv_Spec := (hv_Spec vm1)\<lparr>hs_Policies := pol, hs_Network := net\<rparr>\<rparr>))\<lparr>hv_meta := m\<rparr>"
    and net: "fst (ConfigureVirtualMachine y g np (xm_Cluster w) (xm_VSphereCluster w) (xm_VSphereMachine w) (hs_Network (hv_Spec vm1)) (w\<lparr>shist := h\<rparr>)) = Inr net"
    and m: "y_SetControllerReference y (sv_meta (xm_VSphereMachine w)) (hv_meta vm1) = Inr m" .
  let ?s = "vm'\<lparr>hv_CreationTimestamp := Some t\<rparr>"
  obtain vs where "hv_Spec vm1 = (hv_Spec (desired_vm hw mode affInfo w vm))\<lparr>hs_Volumes := vs\<rparr>"
    using foldl_addVolume_spec [of "volumeName (xm_VSphereMachine w)" "desired_vm hw mode affInfo w vm" "sp_Volumes (xm_spec w)"] unfolding vm1 by blast
  then have spec1: "hv_Spec vm1 = (desired_spec w hw mode (hv_Spec vm))\<lparr>hs_Volumes := vs\<rparr>" by (simp add: desired_vm_def)
  obtain a grp where sa: "hv_Spec vm' = (hv_Spec vm1)\<lparr>hs_Policies := pol, hs_Network := net, hs_Affinity := a, hs_GroupName := grp\<rparr>"
    using set_affinity_spec [of affInfo "vm1\<lparr>hv_Spec := (hv_Spec vm1)\<lparr>hs_Policies := pol, hs_Network := net\<rparr>\<rparr>"] unfolding vm' by auto
  have spec: "desired_spec w hw mode (hv_Spec vm') = hv_Spec vm'" unfolding sa spec1 by (simp only: desired_spec_commutes desired_spec_twice)
  obtain refs where refs: "m = (hv_meta vm1)\<lparr>m_OwnerReferences := refs\<rparr>" using assms(3) m unfolding keeps_meta_def by blast
  have meta1: "hv_meta vm1 = hv_meta (desired_vm hw mode affInfo w vm)" unfolding vm1 by simp
  have "desired_vm hw mode affInfo w ?s = ?s"
    using spec by (simp add: desired_vm_def vm' refs meta1 labels_twice annotations_twice)
  moreover have "\<forall>n\<in>set (volume_names w). has_volume ?s n"
  proof
    fix n assume "n \<in> set (volume_names w)"
    then have "has_volume vm1 n" unfolding vm1 by (auto simp: addVolumes_has volume_names_def)
    then show "has_volume ?s n" by (simp add: has_volume_def sa)
  qed
  moreover have "hs_Network (hv_Spec ?s) = net" by (simp add: sa)
  moreover have "set_affinity affInfo ?s = ?s" unfolding vm' using set_affinity_settled by simp
  moreover have "hv_meta ?s = m" by (simp add: vm')
  ultimately show ?thesis
    unfolding settled_def using configure_twice [OF net assms(2)] m assms(4) by (auto simp: owner_once_def)
qed

lemma desired_spec_shist: "desired_spec (w\<lparr>shist := h\<rparr>) hw mode s = desired_spec w hw mode s"
  by (simp add: desired_spec_def Let_def)

lemma annotations_shist: "addResourcePolicyAnnotations (w\<lparr>shist := h\<rparr>) a = addResourcePolicyAnnotations w a"
  by (simp add: addResourcePolicyAnnotations_def)

lemma settled_shist [simp]: "settled y g np affInfo hw mode (w\<lparr>shist := h\<rparr>) s = settled y g np affInfo hw mode w s"
  by (simp add: settled_def desired_vm_def desired_spec_shist annotations_shist volume_names_def)

definition writes_vm :: "sup_call \<Rightarrow> bool" where
  "writes_vm c \<longleftrightarrow> (\<exists>vm. c = SCreate_VM vm) \<or> (\<exists>a b. c = SPatch_VM a b)"

text \<open>
  C24. A VirtualMachine settles: when the object that a run computed is what the API server stores, the next run for the same
  machine writes nothing, provided that nothing it depends on has changed in between: the machine, the networks found under
  each label (also the one found by the legacy label), the placement in the VM group; and provided that setting a controller reference
  changes the owner references only, and setting the same one a second time changes nothing. So the controller does not rewrite the VM forever.
\<close>

theorem vm_write_settles:
  assumes "complete_vm y g [network_modifier y g np] affInfo hw mode vm w = (Inr vm', w')"
    and "same_networks y" "keeps_meta y" "owner_once y"
    and stored: "\<forall>h ns n. y_vm y (h @ [SGet_VM ns n]) = Inr (vm'\<lparr>hv_CreationTimestamp := Some t\<rparr>)"
    and "minimum_hardware (sp_MinHardwareVersion (xm_spec w)) = Inr hw" "hub_PowerOffMode (sp_PowerOffMode (xm_spec w)) = Inr mode"
    and "reconcileVMOperatorVM y g [network_modifier y g np] old affInfo (w\<lparr>shist := h\<rparr>) = (r, w2)"
  shows "\<forall>c\<in>set (drop (length h) (shist w2)). \<not> writes_vm c"
proof -
  let ?s = "vm'\<lparr>hv_CreationTimestamp := Some t\<rparr>"
  have settled: "settled y g np affInfo hw mode (w\<lparr>shist := h1\<rparr>) ?s" for h1
    using complete_settles [OF assms(1-4)] by simp
  have "sup_ok (\<lambda>c. \<not> writes_vm c) (w\<lparr>shist := h\<rparr>) (snd (reconcileVMOperatorVM y g [network_modifier y g np] old affInfo (w\<lparr>shist := h\<rparr>)))"
    unfolding reconcileVMOperatorVM_def Let_def
    using assms(6,7) stored
    by (auto simp: sup_do_eq writes_vm_def write_vm_def intro!: sup_ok_case sup_ok_do sup_ok_bindE complete_vm_ok
      dest!: settled_complete [OF settled] split: sum.split)
  then show ?thesis using sup_ok_new [of _ "w\<lparr>shist := h\<rparr>" w2] assms(8) by auto
qed

section \<open>An example\<close>

definition sample_gates :: gates where
  "sample_gates = \<lparr>NodeAutoPlacement = True, InfrastructurePolicies = False, IPv6DualStack = False, VLANSubinterface = False, NamespaceScopedZones = True\<rparr>"

definition sample_worker :: sup_machine where
  "sample_worker = \<lparr>shist = [], xm_VSphereMachine = sample_machine ''m1'' ''md-a'',
     xm_Machine = \<lparr>mach_meta = empty_meta\<lparr>m_Name := ''m1'', m_Namespace := ''ns'', m_Labels := [MachineDeploymentNameLabel \<mapsto> ''md-a'']\<rparr>,
       mach_FailureDomain = '''', mach_BootstrapDataSecretName = Some ''m1-data'', mach_Version = ''v1.34.0''\<rparr>,
     xm_Cluster = sample_sup_cluster, xm_VSphereCluster = zero_scluster, xm_ConfigureControlPlaneVMReadinessProbe = True\<rparr>"

definition sample_y :: "(go_error + HubVM) \<Rightarrow> sup_ext" where
  "sample_y vm = (sample_sup (Inr sample_group) sample_machines)\<lparr>y_vm := \<lambda>_. vm\<rparr>"

lemma sample_y_sel [simp]: "y_vm (sample_y vm) h = vm" "y_group (sample_y vm) h = Inr sample_group" "y_unit (sample_y vm) h = Inr ()"
  "y_deployments (sample_y vm) h = Inr [sample_deployment ''md-a'', sample_deployment ''md-b'']"
  "y_SetControllerReference (sample_y vm) = (\<lambda>_ m. Inr m)" "y_names (sample_y vm) = (\<lambda>_. Inr [])"
  "y_IsStatusConditionTrue (sample_y vm) = (\<lambda>cs t. list_ex (\<lambda>c. co_Type c = t \<and> co_Status c = ConditionTrue) cs)"
  by (simp_all add: sample_y_def sample_sup_def)

lemma sample_hypotheses: "keeps_meta (sample_y vm)" "owner_once (sample_y vm)" "same_networks (sample_y vm)"
  by (auto simp: keeps_meta_def owner_once_def same_networks_def) (metis ObjectMeta.surjective ObjectMeta.update_convs(7))

lemma sample_complete:
  assumes "sp_Volumes (xm_spec w) = []"
  shows "complete_vm (sample_y a) sample_gates [network_modifier (sample_y a) sample_gates Dummy] affInfo hw mode vm w =
    (Inr (set_affinity affInfo (let v = desired_vm hw mode affInfo w vm in
       if hv_CreationTimestamp v = None then v\<lparr>hv_Spec := (hv_Spec v)\<lparr>hs_Policies := []\<rparr>\<rparr> else v)), w)"
  using assms by (simp add: complete_vm_def network_modifier_def Let_def getPolicies_def sample_gates_def)

lemma sample_volumes: "sp_Volumes (xm_spec (sample_worker\<lparr>shist := h\<rparr>)) = []"
  by (simp add: sample_worker_def sample_machine_def)

lemma sample_worker_sel [simp]: "mach_Version (xm_Machine sample_worker) \<noteq> ''''" "sp_MinHardwareVersion (xm_spec sample_worker) = ''''"
  "sp_PowerOffMode (xm_spec sample_worker) = ''''" "sp_NamingTemplate (xm_spec sample_worker) = ''''" "shist sample_worker = []"
  "m_Name (mach_meta (xm_Machine sample_worker)) = ''m1''" "mach_BootstrapDataSecretName (xm_Machine sample_worker) = Some ''m1-data''"
  "mach_FailureDomain (xm_Machine sample_worker) = ''''" "m_Labels (mach_meta (xm_Machine sample_worker)) MachineDeploymentNameLabel = Some ''md-a''"
  by (simp_all add: sample_worker_def sample_machine_def empty_meta_def)

lemma sample_not_cp [simp]: "\<not> IsControlPlaneMachine (sv_meta (xm_VSphereMachine sample_worker))"
  by (simp add: sample_worker_def sample_machine_def empty_meta_def IsControlPlaneMachine_def MachineDeploymentNameLabel_def MachineControlPlaneLabel_def)

definition sample_netop :: "(go_error + HubVM) \<Rightarrow> sup_ext" where
  \<comment> \<open>with one network, which has the legacy label only\<close>
  "sample_netop vm = (sample_y vm)\<lparr>y_names := \<lambda>h. case last h of
     SList_Networks _ l \<Rightarrow> Inr (if l = legacyDefaultNetworkLabel then [''net-1''] else []) | _ \<Rightarrow> Inr []\<rparr>"

lemma sample_netop_sel [simp]: "y_vm (sample_netop vm) h = vm" "y_SetControllerReference (sample_netop vm) = (\<lambda>_ m. Inr m)"
  "y_names (sample_netop vm) (h @ [SList_Networks ns l]) = Inr (if l = legacyDefaultNetworkLabel then [''net-1''] else [])"
  by (simp_all add: sample_netop_def)

lemma sample_netop_hypotheses: "same_networks (sample_netop vm)" "keeps_meta (sample_netop vm)" "owner_once (sample_netop vm)"
  using sample_hypotheses [of vm] by (simp_all add: same_networks_def keeps_meta_def owner_once_def)

definition sample_net :: "SVSphereMachine \<Rightarrow> HubNetworkSpec" where
  "sample_net m = setVMSecondaryInterfaces m [] (empty_network\<lparr>hns_Interfaces :=
     [plain_interface PrimaryInterfaceName (NetworkGVKNetOperator (sample_y (Inl (APINotFound [])))) ''net-1'' []]\<rparr>)"

lemma sample_netop_network:
  "\<exists>h. netop_ConfigureVirtualMachine (sample_netop a) c m w = (Inr (sample_net m), w\<lparr>shist := h\<rparr>)"
proof -
  have "NetworkGVKNetOperator (sample_netop a) = NetworkGVKNetOperator (sample_y (Inl (APINotFound [])))"
    by (simp add: NetworkGVKNetOperator_def sample_netop_def sample_y_def)
  then show ?thesis
    by (simp add: netop_ConfigureVirtualMachine_def getClusterNetwork_def getDefaultClusterNetworkWithLabel_def sup_do_def sample_net_def
        CAPVDefaultNetworkLabel_def legacyDefaultNetworkLabel_def) (rule exI, rule refl)
qed

definition sample_vm :: HubVM where
  "sample_vm = (let v = desired_vm 0 HubPowerOpModeHard None sample_worker (zero_hub_vm ''ns'' ''m1'') in
     v\<lparr>hv_Spec := (hv_Spec v)\<lparr>hs_Policies := [], hs_Network := Some (sample_net (xm_VSphereMachine sample_worker))\<rparr>\<rparr>)"

lemma sample_netop_complete:
  "\<exists>w'. complete_vm (sample_netop a) sample_gates [network_modifier (sample_netop a) sample_gates NetOp] None 0 HubPowerOpModeHard
     (zero_hub_vm ''ns'' ''m1'') sample_worker = (Inr sample_vm, w')"
proof -
  let ?v = "desired_vm 0 HubPowerOpModeHard None sample_worker (zero_hub_vm ''ns'' ''m1'')"
  have v: "sp_Volumes (xm_spec sample_worker) = []" using sample_volumes [of "[]"] by simp
  have t: "hv_CreationTimestamp ?v = None" by (simp add: desired_vm_def zero_hub_vm_def)
  obtain h where n: "netop_ConfigureVirtualMachine (sample_netop a) (xm_Cluster sample_worker) (xm_VSphereMachine sample_worker) sample_worker =
      (Inr (sample_net (xm_VSphereMachine sample_worker)), sample_worker\<lparr>shist := h\<rparr>)" using sample_netop_network by blast
  show ?thesis using t
    by (simp add: complete_vm_def v network_modifier_def n getPolicies_def sample_gates_def Let_def sample_vm_def set_affinity_def)
qed

theorem vm_write_settles_witness:
  "filter writes_vm (shist (snd (reconcileVMOperatorVM (sample_netop (Inr (sample_vm\<lparr>hv_CreationTimestamp := Some 1\<rparr>))) sample_gates
      [network_modifier (sample_netop (Inr (sample_vm\<lparr>hv_CreationTimestamp := Some 1\<rparr>))) sample_gates NetOp]
      (zero_hub_vm ''ns'' ''m1'') None sample_worker))) = [] \<and>
   hs_Network (hv_Spec sample_vm) = Some (sample_net (xm_VSphereMachine sample_worker))"
proof -
  let ?s = "sample_vm\<lparr>hv_CreationTimestamp := Some 1\<rparr>"
  let ?run = "reconcileVMOperatorVM (sample_netop (Inr ?s)) sample_gates [network_modifier (sample_netop (Inr ?s)) sample_gates NetOp]
      (zero_hub_vm ''ns'' ''m1'') None sample_worker"
  obtain w' where c: "complete_vm (sample_netop (Inr ?s)) sample_gates [network_modifier (sample_netop (Inr ?s)) sample_gates NetOp] None 0
      HubPowerOpModeHard (zero_hub_vm ''ns'' ''m1'') sample_worker = (Inr sample_vm, w')" using sample_netop_complete by blast
  obtain r w2 where run: "?run = (r, w2)" by fastforce
  have w: "sample_worker\<lparr>shist := []\<rparr> = sample_worker" by (simp add: sample_worker_def)
  have "\<forall>c\<in>set (drop (length ([] :: sup_call list)) (shist w2)). \<not> writes_vm c"
  proof (rule vm_write_settles [OF c sample_netop_hypotheses])
    show "\<forall>h ns n. y_vm (sample_netop (Inr ?s)) (h @ [SGet_VM ns n]) = Inr ?s" by simp
    show "minimum_hardware (sp_MinHardwareVersion (xm_spec sample_worker)) = Inr 0" by (simp add: minimum_hardware_def)
    show "hub_PowerOffMode (sp_PowerOffMode (xm_spec sample_worker)) = Inr HubPowerOpModeHard" by (simp add: hub_PowerOffMode_def)
    show "reconcileVMOperatorVM (sample_netop (Inr ?s)) sample_gates [network_modifier (sample_netop (Inr ?s)) sample_gates NetOp]
      (zero_hub_vm ''ns'' ''m1'') None (sample_worker\<lparr>shist := []\<rparr>) = (r, w2)" unfolding w by (rule run)
  qed
  then show ?thesis unfolding run by (simp add: sample_vm_def Let_def filter_empty_conv)
qed

definition sample_running :: HubVM where
  "sample_running = (zero_hub_vm ''ns'' ''m1'')\<lparr>hv_CreationTimestamp := Some 1,
     hv_Status := \<lparr>hst_NodeName = ''esx-1'', hst_PowerState = VirtualMachinePowerStateOn,
       hst_Conditions = [\<lparr>co_Type = ''VirtualMachineCreated'', co_Status = ConditionTrue, co_Reason = '''', co_Message = ''''\<rparr>],
       hst_Network = Some \<lparr>hn_Interfaces = [], hn_PrimaryIP4 = ''10.1.0.5'', hn_PrimaryIP6 = ''''\<rparr>, hst_BiosUUID = ''4c4c'', hst_Zone = ''z1''\<rparr>\<rparr>"

lemma sample_group_affinity:
  "\<exists>ai h. group_affinity (sample_y a) sample_gates ''m1'' (set_Phase PhasePending sample_worker) =
    (Inr (Some ai), (set_Phase PhasePending sample_worker)\<lparr>shist := h\<rparr>)"
  by (simp add: group_affinity_def Let_def sup_do_def sample_gates_def checkVirtualMachineGroupMembership_def sample_group_def set_Phase_def)
    (rule exI, rule refl)

lemma sample_key: "vm_key (sample_y a) (set_Phase PhasePending sample_worker) = Inr (''ns'', ''m1'')"
  by (simp add: virtualMachineObjectKey_def GenerateVirtualMachineName_def set_Phase_def)
    (simp add: sample_worker_def)

lemma sample_reconcileVM:
  assumes "w = (set_Phase PhasePending sample_worker)\<lparr>shist := h\<rparr>"
  shows "\<exists>vm'. reconcileVMOperatorVM (sample_y (Inl (APINotFound []))) sample_gates [network_modifier (sample_y (Inl (APINotFound []))) sample_gates Dummy] vm ai w =
      (Inl (APINotFound []), w\<lparr>shist := h @ [SGet_VM (m_Namespace (hv_meta vm)) (m_Name (hv_meta vm)), SCreate_VM vm']\<rparr>)"
    and "\<exists>w'. reconcileVMOperatorVM (sample_y (Inr sample_running)) sample_gates [network_modifier (sample_y (Inr sample_running)) sample_gates Dummy] vm ai w =
      (Inr sample_running, w') \<and> xm_VSphereMachine w' = xm_VSphereMachine w"
proof -
  have w: "mach_Version (xm_Machine w) \<noteq> ''''" "sp_MinHardwareVersion (xm_spec w) = ''''" "sp_PowerOffMode (xm_spec w) = ''''" "shist w = h"
    "sp_Volumes (xm_spec w) = []" using assms sample_volumes [of "[]"] by (simp_all add: set_Phase_def)
  show "\<exists>vm'. reconcileVMOperatorVM (sample_y (Inl (APINotFound []))) sample_gates [network_modifier (sample_y (Inl (APINotFound []))) sample_gates Dummy] vm ai w =
      (Inl (APINotFound []), w\<lparr>shist := h @ [SGet_VM (m_Namespace (hv_meta vm)) (m_Name (hv_meta vm)), SCreate_VM vm']\<rparr>)"
    using w by (simp add: reconcileVMOperatorVM_def minimum_hardware_def hub_PowerOffMode_def sup_do_def apierrors_IsNotFound_def sample_complete write_vm_def)
      (rule exI, rule refl)
  show "\<exists>w'. reconcileVMOperatorVM (sample_y (Inr sample_running)) sample_gates [network_modifier (sample_y (Inr sample_running)) sample_gates Dummy] vm ai w =
      (Inr sample_running, w') \<and> xm_VSphereMachine w' = xm_VSphereMachine w"
    using w by (simp add: reconcileVMOperatorVM_def minimum_hardware_def hub_PowerOffMode_def sup_do_def sample_complete write_vm_def Let_def)
qed

lemma sample_created:
  "\<exists>vm. SCreate_VM vm \<in> set (shist (snd (supm_reconcileNormal (sample_y (Inl (APINotFound []))) sample_gates Dummy sample_worker)))"
proof -
  let ?y = "sample_y (Inl (APINotFound []))"
  obtain ai h where ai: "group_affinity ?y sample_gates ''m1'' (set_Phase PhasePending sample_worker) =
    (Inr (Some ai), (set_Phase PhasePending sample_worker)\<lparr>shist := h\<rparr>)" using sample_group_affinity by blast
  obtain vm' where vm': "reconcileVMOperatorVM ?y sample_gates [network_modifier ?y sample_gates Dummy] (zero_hub_vm ''ns'' ''m1'') ai
      ((set_Phase PhasePending sample_worker)\<lparr>shist := h @ [SGet_VM ''ns'' ''m1'']\<rparr>) =
    (Inl (APINotFound []), (set_Phase PhasePending sample_worker)\<lparr>shist := (h @ [SGet_VM ''ns'' ''m1'']) @ [SGet_VM ''ns'' ''m1'', SCreate_VM vm']\<rparr>)"
    using sample_reconcileVM(1) [OF refl, where h = "h @ [SGet_VM ''ns'' ''m1'']" and vm = "zero_hub_vm ''ns'' ''m1''" and ai = ai] by (auto simp: zero_hub_vm_def)
  have "SCreate_VM vm' \<in> set (shist (snd (supm_reconcileNormal ?y sample_gates Dummy sample_worker)))"
    by (simp add: supm_reconcileNormal_def vmop_SyncFailureReason_def sup_waits_for_bootstrap_def vmop_ReconcileNormal_def sample_key ai sup_do_def
      apierrors_IsNotFound_def vm')
  then show ?thesis by blast
qed

theorem worker_created_only_in_group_witness:
  "\<exists>vm. SCreate_VM vm \<in> set (shist (snd (supm_reconcileNormal (sample_y (Inl (APINotFound []))) sample_gates Dummy sample_worker))) \<and>
    m_Name (hv_meta vm) = ''m1'' \<and> m_Labels (hv_meta vm) LabelTopologyZone = Some ''z1''"
proof -
  let ?y = "sample_y (Inl (APINotFound []))"
  obtain vm where vm: "SCreate_VM vm \<in> set (shist (snd (supm_reconcileNormal ?y sample_gates Dummy sample_worker)))" using sample_created by blast
  have "answers_named ?y" by (simp add: answers_named_def)
  moreover have "NodeAutoPlacement sample_gates" by (simp add: sample_gates_def)
  moreover have "SCreate_VM vm \<in> set (drop (length (shist sample_worker)) (shist (snd (supm_reconcileNormal ?y sample_gates Dummy sample_worker))))"
    using vm by simp
  ultimately obtain vmg where vmg: "vmg = sample_group" "m_Name (hv_meta vm) \<in> set (memberNames vmg)"
    "let zone = if_empty '''' (recorded_zone vmg ''md-a'') in zone \<noteq> '''' \<longrightarrow> m_Labels (hv_meta vm) LabelTopologyZone = Some zone"
    using worker_created_only_in_group [OF _ sample_not_cp sample_hypotheses(1) _ surjective_pairing, of sample_gates] by fastforce
  then show ?thesis
    using vm by (auto simp: sample_group_def memberNames_def recorded_zone_def if_empty_def empty_meta_def)
qed

theorem provisioned_matches_vm_witness:
  "let w' = snd (vmop_ReconcileNormal (sample_y (Inr sample_running)) sample_gates [network_modifier (sample_y (Inr sample_running)) sample_gates Dummy] sample_worker)
   in ss_Provisioned (xm_status w') = Some True \<and> sp_ProviderID (xm_spec w') = ''vsphere://4c4c''"
proof -
  let ?y = "sample_y (Inr sample_running)"
  obtain ai h where ai: "group_affinity ?y sample_gates ''m1'' (set_Phase PhasePending sample_worker) =
    (Inr (Some ai), (set_Phase PhasePending sample_worker)\<lparr>shist := h\<rparr>)" using sample_group_affinity by blast
  obtain w1 where w1: "reconcileVMOperatorVM ?y sample_gates [network_modifier ?y sample_gates Dummy] sample_running ai
      ((set_Phase PhasePending sample_worker)\<lparr>shist := h @ [SGet_VM ''ns'' ''m1'']\<rparr>) = (Inr sample_running, w1)"
    using sample_reconcileVM(2) [OF refl, where h = "h @ [SGet_VM ''ns'' ''m1'']" and vm = sample_running and ai = ai] by blast
  have "fst (vmop_ReconcileNormal ?y sample_gates [network_modifier ?y sample_gates Dummy] sample_worker) = Inr False"
    by (simp add: vmop_ReconcileNormal_def sample_key ai sup_do_def w1)
      (simp add: observe_vm_def sample_running_def Let_def vmop_reconcileNetwork_def)
  with provisioned_matches_vm [OF surjective_pairing, of ?y sample_gates Dummy sample_worker] obtain h h' vm where
    "vm_answered ?y h h' vm" and ready: "ready_vm ?y vm (xm_VSphereMachine (snd (vmop_ReconcileNormal ?y sample_gates [network_modifier ?y sample_gates Dummy] sample_worker)))"
    and flag: "ss_Provisioned (xm_status (snd (vmop_ReconcileNormal ?y sample_gates [network_modifier ?y sample_gates Dummy] sample_worker))) = Some True"
    by auto
  then have "vm = sample_running" by (auto simp: vm_answered_def sanswered_def)
  with ready flag show ?thesis by (simp add: ready_vm_def Let_def sample_running_def)
qed

end
