(* ===== verification/Sup_Cluster.thy ===== *)
theory Sup_Cluster
  imports Sup_Network Vmop_Machine
begin

text \<open>
  Clusters of the supervisor mode: the control plane endpoint (\<open>pkg/services/vmoperator/control_plane_endpoint.go\<close>), the resource policy
  (\<open>resource_policy.go\<close>) and the controller of VSphereClusters (\<open>controllers/vmware/vspherecluster_reconciler.go\<close>).
\<close>

section \<open>Addresses of the load balancer\<close>

fun vips_loop :: "string \<Rightarrow> string \<Rightarrow> string list \<Rightarrow> go_error + (string \<times> string)" where
  \<comment> \<open>the loop of \<open>getVMServiceVIPs\<close> over the ingresses\<close>
  "vips_loop ipv4 ipv6 [] = Inr (ipv4, ipv6)"
| "vips_loop ipv4 ipv6 (ingress # rest) =
     (if ingress = '''' then vips_loop ipv4 ipv6 rest
      else case ParseIP ingress of
        None \<Rightarrow> Inl (Errorf ''invalid load balancer ingress IP address %q for VirtualMachineService %s'' [ingress])
      | Some ip \<Rightarrow>
          if To4 ip \<noteq> None then vips_loop (if ipv4 = '''' then ingress else ipv4) ipv6 rest
          else vips_loop ipv4 (if ipv6 = '''' then ingress else ipv6) rest)"

definition VirtualMachineServiceTypeLoadBalancer :: string where "VirtualMachineServiceTypeLoadBalancer = ''LoadBalancer''"

definition getVMServiceVIPs :: "VMService \<Rightarrow> go_error + (string \<times> string)" where
  "getVMServiceVIPs vmService =
     (if vs_Type vmService \<noteq> VirtualMachineServiceTypeLoadBalancer then Inl (Errorf ''VirtualMachineService %s does not have load balancer'' [])
      else case vips_loop '''' '''' (vs_Ingress vmService) of
        Inl e \<Rightarrow> Inl e
      | Inr (ipv4, ipv6) \<Rightarrow>
          if ipv4 = '''' \<and> ipv6 = '''' then Inl (Errorf ''VirtualMachineService %s LoadBalancer does not have any Ingresses'' [])
          else Inr (ipv4, ipv6))"

definition getAndValidateVIPs :: "VMService \<Rightarrow> ClusterIPFamily \<Rightarrow> go_error + (string \<times> string list)" where
  \<comment> \<open>the primary address and all required ones\<close>
  "getAndValidateVIPs vmService topology =
     (case getVMServiceVIPs vmService of
        Inl e \<Rightarrow> Inl e
      | Inr (ipv4VIP, ipv6VIP) \<Rightarrow>
          (case topology of
             IPv4SingleStack \<Rightarrow>
               if ipv4VIP = '''' then Inl (Errorf ''VirtualMachineService %s does not yet have IPv4 VIP assigned'' []) else Inr (ipv4VIP, [ipv4VIP])
           | IPv6SingleStack \<Rightarrow>
               if ipv6VIP = '''' then Inl (Errorf ''VirtualMachineService %s does not yet have IPv6 VIP assigned'' []) else Inr (ipv6VIP, [ipv6VIP])
           | DualStackIPv4Primary \<Rightarrow>
               if ipv4VIP = '''' \<or> ipv6VIP = ''''
               then Inl (Errorf ''VirtualMachineService %s must have both IPv4 and IPv6 ingress for dual stack cluster (have IPv4: %v, IPv6: %v)'' [])
               else Inr (ipv4VIP, [ipv4VIP, ipv6VIP])
           | DualStackIPv6Primary \<Rightarrow>
               if ipv4VIP = '''' \<or> ipv6VIP = ''''
               then Inl (Errorf ''VirtualMachineService %s must have both IPv4 and IPv6 ingress for dual stack cluster (have IPv4: %v, IPv6: %v)'' [])
               else Inr (ipv6VIP, [ipv6VIP, ipv4VIP])))"

fun service_port :: "VMServicePort list \<Rightarrow> int" where
  \<comment> \<open>the loop of \<open>getAPIEndpointFromVIP\<close>\<close>
  "service_port [] = -1"
| "service_port (p # ps) = (if vp_Name p = ''apiserver'' \<and> vp_Protocol p = ''TCP'' then vp_Port p else service_port ps)"

definition getAPIEndpointFromVIP :: "VMService \<Rightarrow> string \<Rightarrow> go_error + APIEndpoint" where
  "getAPIEndpointFromVIP vmService vip =
     (let port = service_port (vs_Ports vmService) in
      if port = -1 then Inl (Errorf ''VirtualMachineService does not have port entry for %q'' [''apiserver''])
      else Inr \<lparr>ae_Host = vip, ae_Port = port\<rparr>)"

section \<open>The service of the control plane\<close>

definition getIPFamilyConfig :: "ClusterIPFamily \<Rightarrow> string option \<times> string list" where
  "getIPFamilyConfig ipFamily =
     (case ipFamily of
        IPv4SingleStack \<Rightarrow> (Some ''SingleStack'', [''IPv4''])
      | IPv6SingleStack \<Rightarrow> (Some ''SingleStack'', [''IPv6''])
      | DualStackIPv4Primary \<Rightarrow> (Some ''RequireDualStack'', [''IPv4'', ''IPv6''])
      | DualStackIPv6Primary \<Rightarrow> (Some ''RequireDualStack'', [''IPv6'', ''IPv4'']))"

definition controlPlaneVMServiceName :: "string \<Rightarrow> string" where
  "controlPlaneVMServiceName clusterName = clusterName"

definition legacyControlPlaneVMServiceName :: "string \<Rightarrow> string" where
  "legacyControlPlaneVMServiceName clusterName = clusterName @ ''-control-plane-service''"

definition check_service :: "sup_cluster \<Rightarrow> VMService \<Rightarrow> go_error + VMService" where
  \<comment> \<open>the end of \<open>getVMControlPlaneService\<close>: owner and deletion\<close>
  "check_service w vmService =
     (if list_ex (\<lambda>ref. or_Kind ref = ''VSphereCluster'' \<and> or_UID ref \<noteq> m_UID (sc_meta (cx_VSphereCluster w))) (m_OwnerReferences (vs_meta vmService))
      then Inl (Errorf ''VirtualMachineService %s exists but is owned by a different VSphereCluster instance %s'' [])
      else if m_DeletionTimestamp (vs_meta vmService) \<noteq> None then Inl (Errorf ''VirtualMachineService %s exists but is being deleted'' [])
      else Inr vmService)"

definition getVMControlPlaneService :: "sup_ext \<Rightarrow> VMService supc_step" where
  \<comment> \<open>errors other than a plain NotFound are formatted anew, so they hide their cause\<close>
  "getVMControlPlaneService y w =
     (let ns = m_Namespace (cl_meta (cx_Cluster w)); name = m_Name (cl_meta (cx_Cluster w)) in
      case sup_do (SGet_VMService ns (controlPlaneVMServiceName name)) (y_service y) w of
        (Inr vmService, w) \<Rightarrow> (check_service w vmService, w)
      | (Inl e, w) \<Rightarrow>
          if \<not> apierrors_IsNotFound e then (Inl (Errorf ''failed to get VirtualMachineService %s: %v'' [controlPlaneVMServiceName name]), w)
          else (case sup_do (SGet_VMService ns (legacyControlPlaneVMServiceName name)) (y_service y) w of
                  (Inr vmService, w) \<Rightarrow> (check_service w vmService, w)
                | (Inl fallbackErr, w) \<Rightarrow>
                    if \<not> apierrors_IsNotFound fallbackErr
                    then (Inl (Errorf ''failed to get VirtualMachineService %s: %v'' [legacyControlPlaneVMServiceName name]), w)
                    else (Inl e, w)))"

definition desired_service :: "SupCluster \<Rightarrow> (string \<rightharpoonup> string) \<Rightarrow> bool \<Rightarrow> ClusterIPFamily \<Rightarrow> VMService \<Rightarrow> VMService" where
  \<comment> \<open>annotations and specification; the merged annotations are overwritten by the given ones\<close>
  "desired_service cluster annotations ipv6DualStackSupported ipFamily vmService =
     vmService\<lparr>vs_meta := (vs_meta vmService)\<lparr>m_Annotations := annotations\<rparr>,
       vs_Type := VirtualMachineServiceTypeLoadBalancer,
       vs_Ports := [\<lparr>vp_Name = ''apiserver'', vp_Protocol = ''TCP'', vp_Port = defaultAPIBindPort, vp_TargetPort = defaultAPIBindPort\<rparr>],
       vs_Selector := clusterRoleVMLabels (m_Name (cl_meta cluster)) True,
       vs_IPFamilyPolicy := (if ipv6DualStackSupported then fst (getIPFamilyConfig ipFamily) else None),
       vs_IPFamilies := (if ipv6DualStackSupported then snd (getIPFamilyConfig ipFamily) else [])\<rparr>"

definition createVMControlPlaneService ::
  "sup_ext \<Rightarrow> (string \<rightharpoonup> string) \<Rightarrow> bool \<Rightarrow> ClusterIPFamily \<Rightarrow> VMService supc_step" where
  "createVMControlPlaneService y annotations ipv6DualStackSupported ipFamily w =
     (let cluster = cx_Cluster w; ns = m_Namespace (cl_meta cluster); name = controlPlaneVMServiceName (m_Name (cl_meta cluster));
          write = (\<lambda>vmServiceExists originalVMService w.
            let vmService = desired_service cluster annotations ipv6DualStackSupported ipFamily originalVMService in
            case y_SetOwnerReference y (sc_meta (cx_VSphereCluster w)) (vs_meta vmService) of
              Inl e \<Rightarrow> (Inl (Wrapf e ''error setting %s/%s as owner of %s/%s'' []), w)
            | Inr m \<Rightarrow>
                let vmService = vmService\<lparr>vs_meta := m\<rparr> in
                if \<not> vmServiceExists then wrapE ''failed to create VirtualMachineService %s'' [] (sup_do (SCreate_VMService vmService) (y_service y) w)
                else if originalVMService \<noteq> vmService then
                  bindE (wrapE ''failed to create patch for VirtualMachineService object'' [] (sup_do (SMergeFrom_VMService originalVMService) (y_unit y) w)) (\<lambda>_ w.
                  wrapE ''failed to patch VirtualMachineService object'' [] (sup_do (SPatch_VMService originalVMService vmService) (y_service y) w))
                else (Inr vmService, w))
      in case sup_do (SGet_VMService ns name) (y_service y) w of
           (Inl e, w) \<Rightarrow>
             if \<not> apierrors_IsNotFound e then (Inl e, w)
             else write False \<lparr>vs_meta = empty_meta\<lparr>m_Name := name, m_Namespace := ns\<rparr>, vs_Type = '''', vs_Ports = [], vs_Selector = [],
               vs_IPFamilyPolicy = None, vs_IPFamilies = [], vs_Ingress = []\<rparr> w
         | (Inr vmService, w) \<Rightarrow> write True vmService w)"

section \<open>Dual stack\<close>

definition kcp_ready :: "KCP \<Rightarrow> string list \<Rightarrow> go_error option" where
  "kcp_ready kcp requiredIPs =
     (if kcp_DeletionTimestamp kcp \<noteq> None then None
      else if \<not> (kcp_ObservedGeneration kcp = kcp_Generation kcp \<or> list_ex (\<lambda>n. n = kcp_Generation kcp) (kcp_ConditionGenerations kcp))
      then Some (Errorf ''KubeadmControlPlane %s has not yet observed the current generation %d (observed: %d, no condition has observed the current generation)'' [])
      else case find (\<lambda>ip. ip \<notin> set (kcp_CertSANs kcp)) requiredIPs of
        Some ip \<Rightarrow> Some (Errorf ''KubeadmControlPlane %s certSANs does not contain %q yet; the runtime extension might not have set the IPs yet'' [ip])
      | None \<Rightarrow> None)"

definition ensureKCPReadyForControlPlaneEndpoint :: "sup_ext \<Rightarrow> string list \<Rightarrow> unit supc_step" where
  "ensureKCPReadyForControlPlaneEndpoint y requiredIPs w =
     (let ns = m_Namespace (cl_meta (cx_Cluster w)) in
      if length requiredIPs \<le> 1 then (Inr (), w)
      else case cl_ControlPlaneRef (cx_Cluster w) of
        None \<Rightarrow> (Inl (Errorf ''ControlPlaneRef is not defined for Cluster %s'' []), w)
      | Some name \<Rightarrow>
          bindE (wrapE ''failed to get KubeadmControlPlane %s'' [ns, name] (sup_do (SGet_KCP ns name) (y_kcp y) w)) (\<lambda>kcp w.
          (case kcp_ready kcp requiredIPs of Some e \<Rightarrow> Inl e | None \<Rightarrow> Inr (), w)))"

section \<open>The endpoint\<close>

definition lb_condition :: "string \<Rightarrow> Severity \<Rightarrow> string \<Rightarrow> go_error \<Rightarrow> cond_op list" where
  "lb_condition v1reason sev reason e =
     [v1beta1_MarkFalse ''LoadBalancerReady'' v1reason sev (ErrMsg e), cond_Set ''LoadBalancerReady'' ConditionFalse reason (ErrMsg e)]"

definition lb_failed :: "go_error \<Rightarrow> sup_cluster \<Rightarrow> (go_error + 'a) \<times> sup_cluster" where
  "lb_failed e w = (Inl e, add_scond (lb_condition ''LoadBalancerCreationFailed'' SeverityWarning ''NotReady'' e) w)"

definition is_dual :: "ClusterIPFamily \<Rightarrow> bool" where
  "is_dual f \<longleftrightarrow> f = DualStackIPv4Primary \<or> f = DualStackIPv6Primary"

definition control_plane_service :: "sup_ext \<Rightarrow> NetworkProvider \<Rightarrow> bool \<Rightarrow> ClusterIPFamily \<Rightarrow> VMService supc_step" where
  \<comment> \<open>the existing VirtualMachineService, or a new one\<close>
  "control_plane_service y np ipv6DualStackSupported ipFamily w =
     (case getVMControlPlaneService y w of
        (Inr vmService, w) \<Rightarrow> (Inr vmService, w)
      | (Inl e, w) \<Rightarrow>
          if \<not> apierrors_IsNotFound e then lb_failed (Wrapf e ''failed to check if VirtualMachineService exists'' []) w
          else (case GetVMServiceAnnotations y np w of
                  (Inl e, w) \<Rightarrow> lb_failed (Wrapf e ''failed to get provider VirtualMachineService annotations'' []) w
                | (Inr annotations, w) \<Rightarrow>
                    (case createVMControlPlaneService y annotations ipv6DualStackSupported ipFamily w of
                       (Inl e, w) \<Rightarrow> lb_failed (Wrapf e ''failed to create VirtualMachineService'' []) w
                     | (Inr vmService, w) \<Rightarrow> (Inr vmService, w))))"

definition endpoint_of_service :: "sup_ext \<Rightarrow> ClusterIPFamily \<Rightarrow> VMService \<Rightarrow> APIEndpoint option supc_step" where
  "endpoint_of_service y ipFamily vmService w =
     (case getAndValidateVIPs vmService ipFamily of
        Inl e \<Rightarrow> (Inl e, add_scond (lb_condition ''WaitingForLoadBalancerIP'' SeverityInfo ''WaitingForIP'' e) w)
      | Inr (primaryVIP, requiredVIPs) \<Rightarrow>
          (case (if is_dual ipFamily then ensureKCPReadyForControlPlaneEndpoint y requiredVIPs w else (Inr (), w)) of
             (Inl e, w) \<Rightarrow>
               (Inr None, add_scond (lb_condition ''WaitingForKubeadmControlPlaneSpecReady'' SeverityInfo ''WaitingForKubeadmControlPlaneSpecReady'' e) w)
           | (Inr _, w) \<Rightarrow>
               (case getAPIEndpointFromVIP vmService primaryVIP of
                  Inl e \<Rightarrow>
                    let e = Wrapf e ''VirtualMachineService %s does not have an apiserver endpoint'' [] in
                    (Inl e, add_scond (lb_condition ''WaitingForLoadBalancerIP'' SeverityWarning ''WaitingForIP'' e) w)
                | Inr cpEndpoint \<Rightarrow>
                    (Inr (Some cpEndpoint), add_scond [v1beta1_MarkTrue ''LoadBalancerReady'', cond_Set ''LoadBalancerReady'' ConditionTrue ''Ready'' NoMsg] w))))"

definition ReconcileControlPlaneEndpointService :: "sup_ext \<Rightarrow> gates \<Rightarrow> NetworkProvider \<Rightarrow> APIEndpoint option supc_step" where
  "ReconcileControlPlaneEndpointService y g np w =
     (if \<not> HasLoadBalancer np then (Inr None, w)
      else case DetermineClusterIPFamily (Some (cl_Network (cx_Cluster w))) of
        Inl e \<Rightarrow> lb_failed e w
      | Inr ipFamily \<Rightarrow>
          if \<not> SupportsIPv6DualStack g np \<and> ipFamily \<noteq> IPv4SingleStack
          then lb_failed (Errorf ''IPv6 and DualStack require the IPv6DualStack feature gate, VM Operator v1alpha6+, and a network provider that supports it'' []) w
          else bindE (control_plane_service y np (SupportsIPv6DualStack g np) ipFamily w) (endpoint_of_service y ipFamily))"

section \<open>The resource policy\<close>

definition createOrPatchVirtualMachineSetResourcePolicy :: "sup_ext \<Rightarrow> unit supc_step" where
  "createOrPatchVirtualMachineSetResourcePolicy y w =
     (let cluster = m_Name (cl_meta (cx_Cluster w)); ns = m_Namespace (cl_meta (cx_Cluster w));
          write = (\<lambda>exists original w.
            let policy = original\<lparr>rp_ResourcePool := cluster, rp_Folder := cluster,
                  rp_ClusterModuleGroups := [''control-plane-group'', getMachineDeploymentNameForCluster cluster]\<rparr> in
            case y_SetOwnerReference y (sc_meta (cx_VSphereCluster w)) (rp_meta policy) of
              Inl e \<Rightarrow> (Inl (Wrapf e ''error setting %s/%s as owner of %s/%s'' []), w)
            | Inr m \<Rightarrow>
                let policy = policy\<lparr>rp_meta := m\<rparr> in
                if \<not> exists then sup_do (SCreate_ResourcePolicy policy) (y_unit y) w
                else if original \<noteq> policy then
                  bindE (wrapE ''failed to create patch for VirtualMachineSetResourcePolicy object'' [] (sup_do (SMergeFrom_ResourcePolicy original) (y_unit y) w)) (\<lambda>_ w.
                  wrapE ''failed to patch VirtualMachineSetResourcePolicy object'' [] (sup_do (SPatch_ResourcePolicy original policy) (y_unit y) w))
                else (Inr (), w))
      in case sup_do (SGet_ResourcePolicy ns cluster) (y_policy y) w of
           (Inl e, w) \<Rightarrow>
             if \<not> apierrors_IsNotFound e then (Inl e, w)
             else write False \<lparr>rp_meta = empty_meta\<lparr>m_Name := cluster, m_Namespace := ns\<rparr>, rp_ResourcePool = '''', rp_Folder = '''', rp_ClusterModuleGroups = []\<rparr> w
         | (Inr policy, w) \<Rightarrow> write True policy w)"

definition ReconcileResourcePolicy :: "sup_ext \<Rightarrow> unit supc_step" where
  "ReconcileResourcePolicy y w =
     (case createOrPatchVirtualMachineSetResourcePolicy y w of
        (Inl e, w) \<Rightarrow> (Inl (Errorf ''failed to create Resource Policy: %+v'' []), w)
      | (Inr _, w) \<Rightarrow> (Inr (), w))"

end
