(* ===== verification/Sup_Cluster_Controller.thy ===== *)
theory Sup_Cluster_Controller
  imports Sup_Cluster Controller_Base
begin

text \<open>
  The controller of the VSphereClusters of the supervisor mode, \<open>controllers/vmware/vspherecluster_reconciler.go\<close>.
\<close>

definition SupClusterFinalizer :: string where
  "SupClusterFinalizer = ''vspherecluster.vmware.infrastructure.cluster.x-k8s.io''"

definition upd_scluster :: "(SVSphereCluster \<Rightarrow> SVSphereCluster) \<Rightarrow> 'w sup_vcluster_scheme \<Rightarrow> 'w sup_vcluster_scheme" where
  "upd_scluster f w = w\<lparr>cx_VSphereCluster := f (cx_VSphereCluster w)\<rparr>"

section \<open>Failure domains\<close>

definition markControlPlaneFailureDomain :: "sup_ext \<Rightarrow> string option \<Rightarrow> Zone \<Rightarrow> go_error + bool option" where
  "markControlPlaneFailureDomain y selector zone =
     (case selector of
        None \<Rightarrow> Inr (Some True)
      | Some s \<Rightarrow> (case y_Selector y s of Inl e \<Rightarrow> Inl e | Inr matches \<Rightarrow> Inr (Some (matches (m_Labels (zo_meta zone))))))"

fun zone_domains :: "sup_ext \<Rightarrow> string option \<Rightarrow> Zone list \<Rightarrow> go_error + (string \<times> bool option) list" where
  \<comment> \<open>the loop over the zones; those in deletion are skipped\<close>
  "zone_domains y selector [] = Inr []"
| "zone_domains y selector (zone # zones) =
     (if m_DeletionTimestamp (zo_meta zone) \<noteq> None then zone_domains y selector zones
      else case markControlPlaneFailureDomain y selector zone of
        Inl e \<Rightarrow> Inl e
      | Inr cp \<Rightarrow> map_sum id (\<lambda>ds. (m_Name (zo_meta zone), cp) # ds) (zone_domains y selector zones))"

definition fd_internal_error :: "cond_op list" where
  "fd_internal_error = [cond_Set ''FailureDomainsReady'' ConditionFalse ''InternalError'' (Msg ''Please check controller logs for errors'' [])]"

definition discover_domains :: "sup_ext \<Rightarrow> gates \<Rightarrow> 'w sup_vcluster_scheme \<Rightarrow> (go_error + (string \<times> bool option) list) \<times> 'w sup_vcluster_scheme" where
  \<comment> \<open>the two sources of failure domains\<close>
  "discover_domains y g w =
     (let ns = m_Namespace (sc_meta (cx_VSphereCluster w)) in
      if NamespaceScopedZones g then
        (case sup_do (SList_Zones ns) (y_zones y) w of
           (Inl e, w) \<Rightarrow> (Inl (Wrapf e ''failed to list Zones in namespace %s'' [ns]), add_scond fd_internal_error w)
         | (Inr zones, w) \<Rightarrow>
             (case zone_domains y (sc_Selector (cx_VSphereCluster w)) zones of
                Inl e \<Rightarrow> (Inl e, add_scond fd_internal_error w)
              | Inr ds \<Rightarrow> (Inr ds, w)))
      else
        (case sup_do SList_AvailabilityZones (y_names y) w of
           (Inl e, w) \<Rightarrow> (Inl e, add_scond fd_internal_error w)
         | (Inr azs, w) \<Rightarrow> (Inr (map (\<lambda>az. (az, Some True)) azs), w)))"

definition sup_reconcileFailureDomains :: "sup_ext \<Rightarrow> gates \<Rightarrow> 'w sup_vcluster_scheme \<Rightarrow> (go_error + unit) \<times> 'w sup_vcluster_scheme" where
  "sup_reconcileFailureDomains y g w =
     bindE (discover_domains y g w) (\<lambda>failureDomains w.
     if failureDomains \<noteq> [] \<and> \<not> list_ex (\<lambda>(n, cp). Deref cp False) failureDomains
     then (Inl (Errorf ''no zone is matching the selector %q for control plane failure domains'' [Deref (sc_Selector (cx_VSphereCluster w)) '''']),
           add_scond [cond_Set ''FailureDomainsReady'' ConditionFalse ''NotReady''
             (Msg ''No zone matches the specified selector for control plane failure domains'' [])] w)
     else (Inr (), add_scond [cond_Set ''FailureDomainsReady'' ConditionTrue ''Ready'' NoMsg]
             (upd_scluster (\<lambda>c. c\<lparr>sc_FailureDomains := sort_key fst failureDomains\<rparr>) w)))"

section \<open>The control plane endpoint\<close>

definition lb_ready :: "NetworkProvider \<Rightarrow> cond_op list" where
  "lb_ready np = cond_Set ''LoadBalancerReady'' ConditionTrue ''Ready'' NoMsg #
     (if HasLoadBalancer np then [v1beta1_MarkTrue ''LoadBalancerReady''] else [])"

definition reconcileLoadBalancedEndpoint :: "sup_ext \<Rightarrow> gates \<Rightarrow> NetworkProvider \<Rightarrow> unit supc_step" where
  "reconcileLoadBalancedEndpoint y g np w =
     bindE (ReconcileControlPlaneEndpointService y g np w) (\<lambda>cpEndpoint w.
     (Inr (), case cpEndpoint of None \<Rightarrow> w | Some e \<Rightarrow> upd_scluster (\<lambda>c. c\<lparr>sc_Endpoint := e\<rparr>) w))"

definition GetVSphereMachine :: "sup_ext \<Rightarrow> string \<Rightarrow> string \<Rightarrow> 'w sup_world_scheme \<Rightarrow> (go_error + SVSphereMachine) \<times> 'w sup_world_scheme" where
  "GetVSphereMachine y namespace machineName w = sup_do (SGet_VSphereMachine namespace machineName) (y_machine y) w"

fun api_endpoints :: "sup_ext \<Rightarrow> SupMachine list \<Rightarrow> APIEndpoint list supc_step" where
  \<comment> \<open>the loop over the control plane machines\<close>
  "api_endpoints y [] w = (Inr [], w)"
| "api_endpoints y (m # ms) w =
     (if mach_BootstrapDataSecretName m = None then api_endpoints y ms w
      else
        bindE (wrapE ''failed to get VSphereMachine for Machine %s/%s'' [m_Namespace (mach_meta m), m_Name (mach_meta m)]
          (GetVSphereMachine y (m_Namespace (mach_meta m)) (m_Name (mach_meta m)) w)) (\<lambda>vsphereMachine w.
        case ss_Addresses (sv_Status vsphereMachine) of
          [] \<Rightarrow> api_endpoints y ms w
        | a # _ \<Rightarrow> bindE (api_endpoints y ms w) (\<lambda>es w. (Inr (\<lparr>ae_Host = ma_Address a, ae_Port = 6443\<rparr> # es), w))))"

definition reconcileAPIEndpoints :: "sup_ext \<Rightarrow> unit supc_step" where
  \<comment> \<open>without an endpoint the source returns \<open>pkgerrors.Wrapf(err, ...)\<close> on an error that is nil there, which is nil\<close>
  "reconcileAPIEndpoints y w =
     (let ns = m_Namespace (cl_meta (cx_Cluster w)); name = m_Name (cl_meta (cx_Cluster w)) in
      bindE (wrapE ''failed to get Machines for Cluster %s/%s'' [ns, name] (sup_do (SList_ControlPlaneMachines ns name) (y_cpmachines y) w)) (\<lambda>machines w.
      bindE (api_endpoints y machines w) (\<lambda>apiEndpointList w.
      case apiEndpointList of
        [] \<Rightarrow> (Inr (), w)
      | e # _ \<Rightarrow> (Inr (), upd_scluster (\<lambda>c. c\<lparr>sc_Endpoint := e\<rparr>) w))))"

definition reconcileControlPlaneEndpoint :: "sup_ext \<Rightarrow> gates \<Rightarrow> NetworkProvider \<Rightarrow> unit supc_step" where
  "reconcileControlPlaneEndpoint y g np w =
     (if \<not> endpoint_IsZero (cl_Endpoint (cx_Cluster w))
      then (Inr (), add_scond (lb_ready np) (upd_scluster (\<lambda>c. c\<lparr>sc_Endpoint := cl_Endpoint (cx_Cluster w)\<rparr>) w))
      else if \<not> endpoint_IsZero (sc_Endpoint (cx_VSphereCluster w)) then (Inr (), add_scond (lb_ready np) w)
      else if HasLoadBalancer np
      then wrapE ''failed to reconcile loadbalanced endpoint for VSphereCluster %s/%s'' [] (reconcileLoadBalancedEndpoint y g np w)
      else wrapE ''failed to reconcile API endpoints for VSphereCluster %s/%s'' [] (reconcileAPIEndpoints y w))"

section \<open>One reconciliation\<close>

definition policy_failed :: "go_error \<Rightarrow> cond_op list" where
  "policy_failed e = [v1beta1_MarkFalse ''ResourcePolicyReady'' ''ResourcePolicyCreationFailed'' SeverityWarning (ErrMsg e),
     cond_Set ''ResourcePolicyReady'' ConditionFalse ''NotReady'' (ErrMsg e)]"

definition supc_reconcileNormal :: "sup_ext \<Rightarrow> gates \<Rightarrow> NetworkProvider \<Rightarrow> unit supc_step" where
  "supc_reconcileNormal y g np w =
     bindE (wrapE ''unexpected error while discovering failure domains for %s'' [] (sup_reconcileFailureDomains y g w)) (\<lambda>_ w.
     case ReconcileResourcePolicy y w of
       (Inl e, w) \<Rightarrow> (Inl (Wrapf e ''failed to configure resource policy for vsphereCluster %s/%s'' []), add_scond (policy_failed e) w)
     | (Inr _, w) \<Rightarrow>
         let w = add_scond [v1beta1_MarkTrue ''ResourcePolicyReady'', cond_Set ''ResourcePolicyReady'' ConditionTrue ''Ready'' NoMsg] w in
         bindE (wrapE ''failed to configure cluster network for VSphereCluster %s/%s'' [] (ProvisionClusterNetwork y g np w)) (\<lambda>_ w.
         bindE (wrapE ''unexpected error while reconciling control plane endpoint for %s'' [] (reconcileControlPlaneEndpoint y g np w)) (\<lambda>_ w.
         (Inr (), if endpoint_IsZero (sc_Endpoint (cx_VSphereCluster w)) then w
                  else upd_scluster (\<lambda>c. c\<lparr>sc_Provisioned := Some True\<rparr>) w))))"

definition deleting :: "string \<Rightarrow> cond_op" where
  "deleting t = cond_Set t ConditionFalse ''Deleting'' NoMsg"

definition supc_reconcileDelete :: "sup_ext \<Rightarrow> 'w sup_vcluster_scheme \<Rightarrow> 'w sup_vcluster_scheme" where
  "supc_reconcileDelete y w =
     (let mark = (\<lambda>w t. if y_v1beta1_Has y (sc_Conditions (cx_VSphereCluster w)) t
            then add_scond [v1beta1_MarkFalse t ''Deleting'' SeverityInfo NoMsg] w else w);
          w = foldl mark w [''ResourcePolicyReady'', ''ClusterNetworkReady'', ''LoadBalancerReady''];
          w = add_scond [deleting ''ResourcePolicyReady'', deleting ''NetworkReady'', deleting ''LoadBalancerReady'', deleting ''FailureDomainsReady''] w
      in upd_scluster (\<lambda>c. c\<lparr>sc_meta := (sc_meta c)\<lparr>m_Finalizers := y_RemoveFinalizer y (m_Finalizers (sc_meta c)) SupClusterFinalizer\<rparr>\<rparr>) w)"

definition supc_patch :: "sup_ext \<Rightarrow> 'w sup_vcluster_scheme \<Rightarrow> (go_error + unit) \<times> 'w sup_vcluster_scheme" where
  "supc_patch y w =
     (let w = add_scond [v1beta1_SetSummary [''ResourcePolicyReady'', ''ClusterNetworkReady'', ''LoadBalancerReady'']] w in
      case y_SetSummaryCondition y (sc_Conditions (cx_VSphereCluster w)) of
        Some e \<Rightarrow> (Inl (Wrapf e ''failed to set %s condition'' [''Ready'']), w)
      | None \<Rightarrow>
          let w = add_scond [cond_SetSummary ''Ready'' [''ResourcePolicyReady'', ''NetworkReady'', ''LoadBalancerReady'', ''FailureDomainsReady'',
                    ''ProviderServiceAccountsReady'', ''ServiceDiscoveryReady''] [''ProviderServiceAccountsReady'', ''ServiceDiscoveryReady'']] w in
          sup_do (SPatch_VSphereCluster (cx_VSphereCluster w)) (y_unit y) w)"

definition supc_finish :: "sup_ext \<Rightarrow> (go_error + unit) \<times> 'w sup_vcluster_scheme \<Rightarrow> (go_error + unit) \<times> sup_call list" where
  \<comment> \<open>the deferred patch; the result and all calls made\<close>
  "supc_finish y rw =
     (case rw of (r, w) \<Rightarrow>
        (case supc_patch y w of
           (Inl err, w) \<Rightarrow> (Inl (Aggregate ((case r of Inl e \<Rightarrow> [e] | Inr _ \<Rightarrow> []) @ [err])), shist w)
         | (Inr _, w) \<Rightarrow> (r, shist w)))"

definition supc_run :: "sup_ext \<Rightarrow> gates \<Rightarrow> NetworkProviderFactory \<Rightarrow> SVSphereCluster \<Rightarrow> SupCluster \<Rightarrow> sup_call list \<Rightarrow> (go_error + unit) \<times> sup_cluster" where
  \<comment> \<open>a cluster that is not deleted and has an owner\<close>
  "supc_run y g factory c cluster h =
     (let w = \<lparr>shist = h, cx_VSphereCluster = c, cx_Cluster = cluster\<rparr> in
      case ForCluster factory c of
        Inl e \<Rightarrow> if errors_Is e ErrNetworkProviderEmpty then (Inr (), w)
                 else (Inl (Wrapf e ''failed to resolve network provider for VSphereCluster %s'' []), w)
      | Inr np \<Rightarrow> supc_reconcileNormal y g np w)"

definition supc_Reconcile :: "sup_ext \<Rightarrow> gates \<Rightarrow> NetworkProviderFactory \<Rightarrow> string \<Rightarrow> string \<Rightarrow> sup_world \<Rightarrow> (go_error + unit) \<times> sup_call list" where
  "supc_Reconcile y g factory ns name w =
     (case sup_do (SGet_VSphereCluster ns name) (y_vcluster y) w of
        (Inl e, w) \<Rightarrow> (if apierrors_IsNotFound e then Inr () else Inl e, shist w)
      | (Inr c, w) \<Rightarrow>
          (case sup_do (SGet_OwnerCluster (sc_meta c)) (y_owner y) w of
             (Inl e, w) \<Rightarrow> (Inl e, shist w)
           | (Inr cluster, w) \<Rightarrow>
               (case bindE (sup_do (SEnsureFinalizer (sc_meta c) SupClusterFinalizer) (y_bool y) w) (\<lambda>added w.
                     if added then (Inr True, w)
                     else bindE (sup_do (SNewPatchHelper (sc_meta c)) (y_unit y) w) (\<lambda>_ w.
                          bindE (sup_do (SEnsurePaused (sc_meta c)) (y_paused y) w) (\<lambda>(isPaused, requeue) w. (Inr (isPaused \<or> requeue), w)))) of
                  (Inl e, w) \<Rightarrow> (Inl e, shist w)
                | (Inr True, w) \<Rightarrow> (Inr (), shist w)
                | (Inr False, w) \<Rightarrow>
                    if m_DeletionTimestamp (sc_meta c) \<noteq> None
                    then supc_finish y (Inr (), supc_reconcileDelete y \<lparr>shist = shist w, cx_VSphereCluster = c\<rparr>)
                    else case cluster of
                      None \<Rightarrow> supc_finish y (Inr (), \<lparr>shist = shist w, cx_VSphereCluster = c\<rparr>)
                    | Some cl \<Rightarrow> supc_finish y (supc_run y g factory c cl (shist w)))))"

section \<open>Events\<close>

definition GetVSphereClusterFromVMwareMachine ::
  "sup_ext \<Rightarrow> ObjectMeta \<Rightarrow> sup_world \<Rightarrow> (go_error + SVSphereCluster) \<times> sup_world" where
  "GetVSphereClusterFromVMwareMachine y machine w =
     (let clusterName = Deref (m_Labels machine ClusterNameLabel) ''''; ns = m_Namespace machine in
      if clusterName = '''' then (Inl (Errorf ''error getting VSphereCluster name from VSphereMachine %s/%s'' [ns, m_Name machine]), w)
      else
        bindE (sup_do (SGet_Cluster ns clusterName) (y_cluster y) w) (\<lambda>cluster w.
        if \<not> cl_InfrastructureRefIsDefined cluster
        then (Inl (Errorf ''error getting VSphereCluster name from VSphereMachine %s/%s: Cluster.spec.infrastructureRef not yet set'' [ns, m_Name machine]), w)
        else sup_do (SGet_VSphereCluster ns (cl_InfrastructureRefName cluster)) (y_vcluster y) w))"

definition VSphereMachineToCluster :: "sup_ext \<Rightarrow> SVSphereMachine \<Rightarrow> sup_world \<Rightarrow> (string \<times> string) list \<times> sup_world" where
  "VSphereMachineToCluster y m w =
     (if \<not> IsControlPlaneMachine (sv_meta m) \<or> ss_Addresses (sv_Status m) = [] then ([], w)
      else case GetVSphereClusterFromVMwareMachine y (sv_meta m) w of
        (Inl _, w) \<Rightarrow> ([], w)
      | (Inr c, w) \<Rightarrow> ([(m_Namespace (sc_meta c), m_Name (sc_meta c))], w))"

definition ZoneToVSphereClusters :: "sup_ext \<Rightarrow> Zone \<Rightarrow> sup_world \<Rightarrow> (string \<times> string) list \<times> sup_world" where
  "ZoneToVSphereClusters y zone w =
     (case sup_do (SList_VSphereClusters (m_Namespace (zo_meta zone))) (y_vclusters y) w of
        (Inl _, w) \<Rightarrow> ([], w)
      | (Inr cs, w) \<Rightarrow> (map (\<lambda>c. (m_Namespace (sc_meta c), m_Name (sc_meta c))) cs, w))"

definition KubeadmControlPlaneToCluster :: "sup_ext \<Rightarrow> ObjectMeta \<Rightarrow> sup_world \<Rightarrow> (string \<times> string) list \<times> sup_world" where
  \<comment> \<open>the argument: the metadata of the KubeadmControlPlane\<close>
  "KubeadmControlPlaneToCluster y kcp w =
     (let clusterName = Deref (m_Labels kcp ClusterNameLabel) '''' in
      if clusterName = '''' then ([], w)
      else case sup_do (SGet_Cluster (m_Namespace kcp) clusterName) (y_cluster y) w of
        (Inl _, w) \<Rightarrow> ([], w)
      | (Inr cluster, w) \<Rightarrow>
          if cl_InfrastructureRefName cluster = '''' \<or> cl_InfrastructureRefKind cluster \<noteq> ''VSphereCluster'' then ([], w)
          else ([(m_Namespace kcp, cl_InfrastructureRefName cluster)], w))"

end
