(* ===== verification/Sup_Cluster_Correct.thy ===== *)
theory Sup_Cluster_Correct
  imports Sup_Cluster_Controller Sup_Machine_Correct
begin

text \<open>
  Theorems on the clusters of the supervisor mode: where the control plane endpoint comes from and that it stays, that a provisioned
  cluster has one, and which failure domains a cluster reports.
\<close>

section \<open>Addresses\<close>

definition is_v4 :: "string \<Rightarrow> bool" where
  "is_v4 s \<longleftrightarrow> (\<exists>ip. ParseIP s = Some ip \<and> To4 ip \<noteq> None)"

definition is_v6 :: "string \<Rightarrow> bool" where
  "is_v6 s \<longleftrightarrow> (\<exists>ip. ParseIP s = Some ip \<and> To4 ip = None)"

definition primary_is :: "ClusterIPFamily \<Rightarrow> string \<Rightarrow> bool" where
  "primary_is f s = (if f = IPv4SingleStack \<or> f = DualStackIPv4Primary then is_v4 s else is_v6 s)"

lemma vips_loop_sound:
  assumes "vips_loop a b ings = Inr (v4, v6)"
  shows "(v4 = a \<or> (v4 \<in> set ings \<and> is_v4 v4)) \<and> (v6 = b \<or> (v6 \<in> set ings \<and> is_v6 v6))"
  using assms by (induction a b ings rule: vips_loop.induct) (auto simp: is_v4_def is_v6_def split: if_splits option.splits)

lemma getAndValidateVIPs_sound:
  assumes "getAndValidateVIPs svc f = Inr (p, req)"
  shows "p \<in> set (vs_Ingress svc)" "primary_is f p"
    "is_dual f \<Longrightarrow> \<exists>v4 v6. set req = {v4, v6} \<and> length req = 2 \<and> v4 \<in> set (vs_Ingress svc) \<and> v6 \<in> set (vs_Ingress svc) \<and> is_v4 v4 \<and> is_v6 v6 \<and>
      p = (if f = DualStackIPv4Primary then v4 else v6)"
proof -
  from assms obtain v4 v6 where v: "vips_loop '''' '''' (vs_Ingress svc) = Inr (v4, v6)"
    by (auto simp: getAndValidateVIPs_def getVMServiceVIPs_def split: sum.splits if_splits)
  note s = vips_loop_sound [OF v]
  have f: "case f of IPv4SingleStack \<Rightarrow> v4 \<noteq> '''' \<and> p = v4 | IPv6SingleStack \<Rightarrow> v6 \<noteq> '''' \<and> p = v6
    | DualStackIPv4Primary \<Rightarrow> v4 \<noteq> '''' \<and> v6 \<noteq> '''' \<and> p = v4 \<and> req = [v4, v6] | DualStackIPv6Primary \<Rightarrow> v4 \<noteq> '''' \<and> v6 \<noteq> '''' \<and> p = v6 \<and> req = [v6, v4]"
    using assms v by (auto simp: getAndValidateVIPs_def getVMServiceVIPs_def split: if_splits ClusterIPFamily.splits)
  show "p \<in> set (vs_Ingress svc)" "primary_is f p" using f s by (cases f; auto simp: primary_is_def)+
  show "\<exists>v4 v6. set req = {v4, v6} \<and> length req = 2 \<and> v4 \<in> set (vs_Ingress svc) \<and> v6 \<in> set (vs_Ingress svc) \<and> is_v4 v4 \<and> is_v6 v6 \<and>
      p = (if f = DualStackIPv4Primary then v4 else v6)" if "is_dual f"
    using f s that by (cases f) (auto simp: is_dual_def insert_commute)
qed

lemma service_port_sound: "service_port ps \<noteq> -1 \<Longrightarrow> \<exists>p\<in>set ps. vp_Name p = ''apiserver'' \<and> vp_Protocol p = ''TCP'' \<and> vp_Port p = service_port ps"
  by (induction ps) auto

lemma kcp_ready_sound: "kcp_ready kcp ips = None \<Longrightarrow> kcp_DeletionTimestamp kcp = None \<Longrightarrow> set ips \<subseteq> set (kcp_CertSANs kcp)"
  by (auto simp: kcp_ready_def find_None_iff split: if_splits option.splits)

lemma ensureKCP_sound:
  assumes "ensureKCPReadyForControlPlaneEndpoint y ips w = (Inr (), w')" "length ips > 1"
  shows "\<exists>n kcp. cl_ControlPlaneRef (cx_Cluster w) = Some n \<and>
    sanswered (y_kcp y) (shist w) (shist w') (SGet_KCP (m_Namespace (cl_meta (cx_Cluster w))) n) (Inr kcp) \<and>
    (kcp_DeletionTimestamp kcp = None \<longrightarrow> set ips \<subseteq> set (kcp_CertSANs kcp))"
proof -
  from assms obtain n kcp where kcp: "sup_do (SGet_KCP (m_Namespace (cl_meta (cx_Cluster w))) n) (y_kcp y) w = (Inr kcp, w')" "kcp_ready kcp ips = None"
      "cl_ControlPlaneRef (cx_Cluster w) = Some n"
    by (auto simp: ensureKCPReadyForControlPlaneEndpoint_def Let_def bindE_eq_Inr wrapE_eq_Inr split: option.splits)
  then show ?thesis using kcp_ready_sound sanswered_do [OF kcp(1)] by blast
qed

lemma ensureKCP_ok: "sup_ok (\<lambda>_. True) w (snd (ensureKCPReadyForControlPlaneEndpoint y ips w))"
  unfolding ensureKCPReadyForControlPlaneEndpoint_def Let_def by (auto intro!: sup_intros split: option.split)

section \<open>The service behind the endpoint\<close>

lemma check_service_same: "check_service w svc = Inr svc' \<Longrightarrow> svc' = svc"
  by (simp add: check_service_def split: if_splits)

definition service_request :: "sup_ext \<Rightarrow> sup_cluster \<Rightarrow> sup_call list \<Rightarrow> sup_call list \<Rightarrow> sup_call \<Rightarrow> bool" where
  \<comment> \<open>a request for the VirtualMachineService of this cluster: a read under its name or its legacy name, the creation under its name
    with the owner reference, or the patch of what a read under its name returned in the run between the two histories\<close>
  "service_request y w h h' c \<longleftrightarrow>
     (let ns = m_Namespace (cl_meta (cx_Cluster w)); name = m_Name (cl_meta (cx_Cluster w)) in
      c = SGet_VMService ns (controlPlaneVMServiceName name) \<or> c = SGet_VMService ns (legacyControlPlaneVMServiceName name) \<or>
      (\<exists>s m. c = SCreate_VMService s \<and> y_SetOwnerReference y (sc_meta (cx_VSphereCluster w)) m = Inr (vs_meta s) \<and>
         m_Namespace m = ns \<and> m_Name m = controlPlaneVMServiceName name) \<or>
      (\<exists>old s. c = SPatch_VMService old s \<and> sanswered (y_service y) h h' (SGet_VMService ns (controlPlaneVMServiceName name)) (Inr old)))"

definition service_answered :: "sup_ext \<Rightarrow> sup_cluster \<Rightarrow> sup_call list \<Rightarrow> sup_call list \<Rightarrow> VMService \<Rightarrow> bool" where
  \<comment> \<open>the API server returned the service of this cluster, as it was read or written, in the run between two histories\<close>
  "service_answered y w h h' svc \<longleftrightarrow> (\<exists>c. service_request y w h h' c \<and> sanswered (y_service y) h h' c (Inr svc))"

lemma service_answered_mono:
  assumes "service_answered y w h h' svc" and "prefix h0 h" "prefix h' h1"
  shows "service_answered y w h0 h1 svc"
proof -
  from assms(1) obtain c where c: "service_request y w h h' c" "sanswered (y_service y) h h' c (Inr svc)" unfolding service_answered_def by blast
  have m: "sanswered (y_service y) h h' d r \<Longrightarrow> sanswered (y_service y) h0 h1 d r" for d r by (rule sanswered_mono [OF _ assms(2,3)])
  then have "service_request y w h0 h1 c" using c(1) by (auto simp: service_request_def Let_def)
  then show ?thesis using sanswered_mono [OF c(2) assms(2,3)] unfolding service_answered_def by blast
qed

lemma service_answered_at:
  "y_service y (h @ k @ [c]) = Inr svc \<Longrightarrow> service_request y w h (h @ k @ [c]) c \<Longrightarrow> service_answered y w h (h @ k @ [c]) svc"
  unfolding service_answered_def sanswered_def by (intro exI conjI, assumption) auto

lemmas service_answers = service_answered_at [where k = "[]", simplified] service_answered_at [where k = "[a]" for a, simplified]
  service_answered_at [where k = "[a, b]" for a b, simplified]

definition same_cluster :: "sup_cluster \<Rightarrow> sup_cluster \<Rightarrow> bool" where
  "same_cluster w w' \<longleftrightarrow> cx_Cluster w' = cx_Cluster w \<and> sc_meta (cx_VSphereCluster w') = sc_meta (cx_VSphereCluster w)"

lemma service_answered_same: "same_cluster w w' \<Longrightarrow> service_answered y w' h h' svc = service_answered y w h h' svc"
  by (simp add: service_answered_def service_request_def same_cluster_def)

lemma getVMControlPlaneService_same: "same_cluster w (snd (getVMControlPlaneService y w))"
  by (auto simp: getVMControlPlaneService_def Let_def sup_do_def same_cluster_def split: sum.split)

lemma GetVMServiceAnnotations_same: "same_cluster w (snd (GetVMServiceAnnotations y np w))"
proof -
  have l: "\<exists>h. snd (getClusterNetwork y c w) = w\<lparr>shist := h\<rparr>" for c and w :: sup_cluster
    by (auto simp: getClusterNetwork_def getDefaultClusterNetworkWithLabel_def sup_do_def bindE_def split: sum.split list.split)
  show ?thesis
  proof (cases np)
    case NetOp
    obtain h where "snd (getClusterNetwork y (cx_Cluster w) w) = w\<lparr>shist := h\<rparr>" using l by blast
    then show ?thesis using NetOp
      by (cases "getClusterNetwork y (cx_Cluster w) w"; cases "fst (getClusterNetwork y (cx_Cluster w) w)") (auto simp: same_cluster_def)
  qed (auto simp: same_cluster_def Let_def sup_do_def bindE_def split: sum.split)
qed

lemma getVMControlPlaneService_prefix: "prefix (shist w) (shist (snd (getVMControlPlaneService y w)))"
  by (auto simp: getVMControlPlaneService_def Let_def sup_do_def split: sum.split)

lemma GetVMServiceAnnotations_prefix: "prefix (shist w) (shist (snd (GetVMServiceAnnotations y np w)))"
proof -
  have "sup_ok (\<lambda>_. True) w (snd (getClusterNetwork y c w))" for c and w :: sup_cluster
    unfolding getClusterNetwork_def by (auto intro!: sup_intros)
  then have "sup_ok (\<lambda>_. True) w (snd (GetVMServiceAnnotations y np w))"
    by (cases np) (auto simp: Let_def intro!: sup_intros)
  then show ?thesis by (rule sup_ok_prefix)
qed

lemma getVMControlPlaneService_read:
  "getVMControlPlaneService y w = (Inr svc, w') \<Longrightarrow> service_answered y w (shist w) (shist w') svc"
  by (auto simp: getVMControlPlaneService_def Let_def sup_do_def service_request_def dest!: check_service_same intro!: service_answers
    split: sum.splits if_splits)

lemma desired_service_meta [simp]:
  "m_Name (vs_meta (desired_service c an d f s)) = m_Name (vs_meta s)" "m_Namespace (vs_meta (desired_service c an d f s)) = m_Namespace (vs_meta s)"
  by (simp_all add: desired_service_def)

lemma sanswered_first: "f (h @ [c]) = r \<Longrightarrow> sanswered f h (h @ c # cs) c r"
  unfolding sanswered_def by (rule exI [of _ "[]"]) simp

lemma createVMControlPlaneService_read:
  "createVMControlPlaneService y an d f w = (Inr svc, w') \<Longrightarrow> service_answered y w (shist w) (shist w') svc"
  by (auto simp: createVMControlPlaneService_def Let_def sup_do_def bindE_def wrapE_def service_request_def intro!: service_answers sanswered_first
    split: sum.splits if_splits) (intro exI conjI, assumption, simp_all)

lemma control_plane_service_read:
  assumes "control_plane_service y np d f w = (Inr svc, w')"
  shows "service_answered y w (shist w) (shist w') svc"
proof (cases "getVMControlPlaneService y w")
  case (Pair r w1)
  show ?thesis
  proof (cases r)
    case (Inr s)
    then show ?thesis using assms Pair getVMControlPlaneService_read by (auto simp: control_plane_service_def)
  next
    case (Inl e)
    then obtain an w2 where an: "GetVMServiceAnnotations y np w1 = (Inr an, w2)" and c: "createVMControlPlaneService y an d f w2 = (Inr svc, w')"
      using assms Pair by (auto simp: control_plane_service_def lb_failed_def split: if_splits prod.splits sum.splits)
    have "prefix (shist w) (shist w1)" using getVMControlPlaneService_prefix [of w y] Pair by simp
    moreover have "prefix (shist w1) (shist w2)" using GetVMServiceAnnotations_prefix [of w1 y np] an by simp
    ultimately have "prefix (shist w) (shist w2)" by (rule prefix_order.trans)
    then have "service_answered y w2 (shist w) (shist w') svc" using service_answered_mono [OF createVMControlPlaneService_read [OF c]] by simp
    moreover have "same_cluster w w2"
      using getVMControlPlaneService_same [of w y] GetVMServiceAnnotations_same [of w1 y np] Pair an by (simp add: same_cluster_def)
    ultimately show ?thesis by (simp add: service_answered_same)
  qed
qed

lemma control_plane_service_cluster:
  assumes "control_plane_service y np d f w = (r, w')"
  shows "cx_Cluster w' = cx_Cluster w"
proof -
  have 1: "cx_Cluster (snd (createVMControlPlaneService y an d f v)) = cx_Cluster v" for an v
    by (auto simp: createVMControlPlaneService_def Let_def sup_do_def bindE_def wrapE_def split: sum.split)
  obtain r1 w1 where g: "getVMControlPlaneService y w = (r1, w1)" by fastforce
  obtain r2 w2 where a: "GetVMServiceAnnotations y np w1 = (r2, w2)" by fastforce
  obtain r3 w3 where c: "createVMControlPlaneService y (projr r2) d f w2 = (r3, w3)" by fastforce
  have "cx_Cluster w1 = cx_Cluster w" "cx_Cluster w2 = cx_Cluster w1" "cx_Cluster w3 = cx_Cluster w2"
    using getVMControlPlaneService_same [of w y] GetVMServiceAnnotations_same [of w1 y np] 1 [of "projr r2" w2] g a c by (simp_all add: same_cluster_def)
  then show ?thesis
    using assms g a c by (cases r1; cases r2; cases r3) (auto simp: control_plane_service_def lb_failed_def add_scond_def upd_scluster_def split: if_splits)
qed

text \<open>
  C20. The endpoint of a load balanced control plane is an address that the API server reports for the cluster's own VirtualMachineService
  (the one of its name or of its legacy name, read or written in this run), of the primary family of the cluster, with the port of the API
  server on that service. In a dual stack cluster the service has an address of each family, the endpoint is one of these two, and the
  KubeadmControlPlane that the cluster refers to names both in its certificates, unless it is being deleted: then the code does not look
  at its certificates.
\<close>

theorem lb_endpoint_verified:
  assumes "ReconcileControlPlaneEndpointService y g np w = (Inr (Some e), w')"
  shows "\<exists>svc f. service_answered y w (shist w) (shist w') svc \<and> DetermineClusterIPFamily (Some (cl_Network (cx_Cluster w))) = Inr f \<and>
    ae_Host e \<in> set (vs_Ingress svc) \<and> primary_is f (ae_Host e) \<and>
    (\<exists>p\<in>set (vs_Ports svc). vp_Name p = ''apiserver'' \<and> vp_Protocol p = ''TCP'' \<and> vp_Port p = ae_Port e) \<and>
    (is_dual f \<longrightarrow> (\<exists>v4 v6 n kcp. {v4, v6} \<subseteq> set (vs_Ingress svc) \<and> is_v4 v4 \<and> is_v6 v6 \<and>
      ae_Host e = (if f = DualStackIPv4Primary then v4 else v6) \<and> cl_ControlPlaneRef (cx_Cluster w) = Some n \<and>
      sanswered (y_kcp y) (shist w) (shist w') (SGet_KCP (m_Namespace (cl_meta (cx_Cluster w))) n) (Inr kcp) \<and>
      (kcp_DeletionTimestamp kcp = None \<longrightarrow> {v4, v6} \<subseteq> set (kcp_CertSANs kcp))))"
proof -
  from assms obtain f svc w1 where f: "DetermineClusterIPFamily (Some (cl_Network (cx_Cluster w))) = Inr f"
    and svc: "control_plane_service y np (SupportsIPv6DualStack g np) f w = (Inr svc, w1)" and e: "endpoint_of_service y f svc w1 = (Inr (Some e), w')"
    by (auto simp: ReconcileControlPlaneEndpointService_def lb_failed_def bindE_eq_Inr split: if_splits sum.splits)
  from e obtain p req w2 where vips: "getAndValidateVIPs svc f = Inr (p, req)" and api: "getAPIEndpointFromVIP svc p = Inr e"
    and kcp: "if is_dual f then ensureKCPReadyForControlPlaneEndpoint y req w1 = (Inr (), w2) else w2 = w1" and w': "shist w' = shist w2"
    by (auto simp: endpoint_of_service_def Let_def add_scond_def split: sum.splits prod.splits if_splits)
  note s1 = control_plane_service_read [OF svc] and c1 = control_plane_service_cluster [OF svc]
  have p1: "prefix (shist w) (shist w1)" using s1 by (auto simp: service_answered_def sanswered_def prefix_def)
  have p2: "prefix (shist w1) (shist w2)"
    using kcp sup_ok_prefix [OF ensureKCP_ok [of w1 y req]] by (auto split: if_splits)
  have host: "ae_Host e = p" "ae_Port e = service_port (vs_Ports svc)" "service_port (vs_Ports svc) \<noteq> -1"
    using api by (auto simp: getAPIEndpointFromVIP_def Let_def split: if_splits)
  have dual: "\<exists>v4 v6 n kcp. {v4, v6} \<subseteq> set (vs_Ingress svc) \<and> is_v4 v4 \<and> is_v6 v6 \<and>
      ae_Host e = (if f = DualStackIPv4Primary then v4 else v6) \<and> cl_ControlPlaneRef (cx_Cluster w) = Some n \<and>
      sanswered (y_kcp y) (shist w) (shist w') (SGet_KCP (m_Namespace (cl_meta (cx_Cluster w))) n) (Inr kcp) \<and>
      (kcp_DeletionTimestamp kcp = None \<longrightarrow> {v4, v6} \<subseteq> set (kcp_CertSANs kcp))" if d: "is_dual f"
  proof -
    obtain v4 v6 where v: "set req = {v4, v6}" "length req = 2" "{v4, v6} \<subseteq> set (vs_Ingress svc)" "is_v4 v4" "is_v6 v6"
      "p = (if f = DualStackIPv4Primary then v4 else v6)"
      using getAndValidateVIPs_sound(3) [OF vips d] by auto
    obtain n kcp where k: "cl_ControlPlaneRef (cx_Cluster w) = Some n"
      "sanswered (y_kcp y) (shist w1) (shist w2) (SGet_KCP (m_Namespace (cl_meta (cx_Cluster w))) n) (Inr kcp)"
      "kcp_DeletionTimestamp kcp = None \<longrightarrow> set req \<subseteq> set (kcp_CertSANs kcp)"
      using ensureKCP_sound [of y req w1 w2] kcp d v(2) unfolding c1 by auto
    have "sanswered (y_kcp y) (shist w) (shist w') (SGet_KCP (m_Namespace (cl_meta (cx_Cluster w))) n) (Inr kcp)"
      using sanswered_mono [OF k(2) p1] w' by simp
    then show ?thesis using k(1,3) v(3-6) host(1) unfolding v(1)
      by (intro exI [of _ v4] exI [of _ v6] exI [of _ n] exI [of _ kcp]) simp
  qed
  show ?thesis
  proof (rule exI [of _ svc], rule exI [of _ f], intro conjI impI)
    show "service_answered y w (shist w) (shist w') svc" by (rule service_answered_mono [OF s1]) (use p2 w' in simp_all)
    show "DetermineClusterIPFamily (Some (cl_Network (cx_Cluster w))) = Inr f" by (rule f)
    show "ae_Host e \<in> set (vs_Ingress svc)" "primary_is f (ae_Host e)" using getAndValidateVIPs_sound(1,2) [OF vips] host by simp_all
    show "\<exists>p\<in>set (vs_Ports svc). vp_Name p = ''apiserver'' \<and> vp_Protocol p = ''TCP'' \<and> vp_Port p = ae_Port e"
      using service_port_sound [OF host(3)] host(2) by simp
  qed (rule dual)
qed

section \<open>Which steps touch the endpoint\<close>

definition keeps_core :: "sup_cluster \<Rightarrow> sup_cluster \<Rightarrow> bool" where
  \<comment> \<open>the endpoint, the flag and the owner are the same\<close>
  "keeps_core w w' \<longleftrightarrow> sc_Endpoint (cx_VSphereCluster w') = sc_Endpoint (cx_VSphereCluster w) \<and>
     sc_Provisioned (cx_VSphereCluster w') = sc_Provisioned (cx_VSphereCluster w) \<and> cx_Cluster w' = cx_Cluster w"

named_theorems core_intros \<open>rules for operations that keep endpoint, flag and owner\<close>

lemma keeps_core_refl [core_intros, simp]: "keeps_core w w"
  by (simp add: keeps_core_def)

lemma keeps_core_trans: "keeps_core w w1 \<Longrightarrow> keeps_core w1 w2 \<Longrightarrow> keeps_core w w2"
  by (simp add: keeps_core_def)

lemma keeps_core_do [core_intros]: "keeps_core w (snd (sup_do c f w))"
  by (simp add: keeps_core_def sup_do_def)

lemma keeps_core_wrapE [core_intros]: "keeps_core w (snd m) \<Longrightarrow> keeps_core w (snd (wrapE msg args m))"
  by simp

lemma keeps_core_bindE [core_intros]:
  assumes "keeps_core w (snd m)" and "\<And>a w'. m = (Inr a, w') \<Longrightarrow> keeps_core w' (snd (k a w'))"
  shows "keeps_core w (snd (bindE m k))"
  using assms by (cases m; cases "fst m") (auto simp: bindE_def intro: keeps_core_trans)

lemma keeps_core_case [core_intros]:
  assumes "keeps_core w (snd m)" and "\<And>e w'. m = (Inl e, w') \<Longrightarrow> keeps_core w' (snd (f e w'))"
    and "\<And>a w'. m = (Inr a, w') \<Longrightarrow> keeps_core w' (snd (g a w'))"
  shows "keeps_core w (snd (case m of (Inl e, w) \<Rightarrow> f e w | (Inr a, w) \<Rightarrow> g a w))"
  using assms by (cases m; cases "fst m") (auto intro: keeps_core_trans)

lemma keeps_core_cond [simp]: "keeps_core w (add_scond ops w') = keeps_core w w'"
  by (simp add: keeps_core_def add_scond_def)

lemma verify_status_core [core_intros]: "keeps_core w (snd (verify_status a b cs w))"
  by (simp add: verify_status_def Let_def split: sum.split bool.split)

lemma whitelist_core [core_intros]: "keeps_core w (snd (whitelist y d v w))"
  by (auto simp: whitelist_def keeps_core_def sup_do_def bindE_def wrapE_def split: sum.split)

lemma ProvisionClusterNetwork_core [core_intros]: "keeps_core w (snd (ProvisionClusterNetwork y g np w))"
proof (cases np)
  case (Nsxt d)
  then show ?thesis
    by (auto simp: nsxt_ProvisionClusterNetwork_def Let_def verifyNSXTVirtualNetworkStatus_def provision_failed_def intro!: core_intros split: sum.split)
next
  case NsxtVPC
  then show ?thesis
    by (auto simp: vpc_ProvisionClusterNetwork_def Let_def verifyNsxtVpcSubnetSetStatus_def provision_failed_def intro!: core_intros split: sum.split)
qed simp_all

lemma ReconcileResourcePolicy_core [core_intros]: "keeps_core w (snd (ReconcileResourcePolicy y w))"
  by (auto simp: ReconcileResourcePolicy_def createOrPatchVirtualMachineSetResourcePolicy_def Let_def intro!: core_intros split: sum.split)

lemma discover_domains_core [core_intros]: "keeps_core w (snd (discover_domains y g w))"
  by (auto simp: discover_domains_def Let_def intro!: core_intros split: sum.split)

lemma reconcileFailureDomains_core [core_intros]: "keeps_core w (snd (sup_reconcileFailureDomains y g w))"
proof -
  have "keeps_core v (upd_scluster (\<lambda>c. c\<lparr>sc_FailureDomains := ds\<rparr>) v)" for v ds by (simp add: keeps_core_def upd_scluster_def)
  then show ?thesis by (auto simp: sup_reconcileFailureDomains_def intro!: core_intros)
qed

lemma GetVMServiceAnnotations_core [core_intros]: "keeps_core w (snd (GetVMServiceAnnotations y np w))"
proof -
  have l: "keeps_core v (snd (getDefaultClusterNetworkWithLabel y ns l v))" for ns l v
    unfolding getDefaultClusterNetworkWithLabel_def by (auto intro!: core_intros)
  then have n: "keeps_core v (snd (getClusterNetwork y c v))" for c v unfolding getClusterNetwork_def by (auto intro!: core_intros)
  show ?thesis by (cases np) (auto simp: Let_def intro!: core_intros n)
qed

lemma control_plane_service_core [core_intros]: "keeps_core w (snd (control_plane_service y np d f w))"
proof -
  have "keeps_core v (snd (getVMControlPlaneService y v))" for v
    unfolding getVMControlPlaneService_def Let_def by (auto intro!: core_intros)
  moreover have "keeps_core v (snd (createVMControlPlaneService y an d f v))" for v an
    unfolding createVMControlPlaneService_def Let_def by (auto intro!: core_intros split: sum.split)
  ultimately show ?thesis unfolding control_plane_service_def lb_failed_def by (auto intro!: core_intros)
qed

lemma ReconcileControlPlaneEndpointService_core [core_intros]: "keeps_core w (snd (ReconcileControlPlaneEndpointService y g np w))"
proof -
  have "keeps_core v (snd (ensureKCPReadyForControlPlaneEndpoint y ips v))" for v ips
    unfolding ensureKCPReadyForControlPlaneEndpoint_def Let_def by (auto intro!: core_intros split: option.split)
  then have "keeps_core v (snd (endpoint_of_service y f svc v))" for v f svc
    unfolding endpoint_of_service_def Let_def by (auto intro!: core_intros split: sum.split)
  then show ?thesis unfolding ReconcileControlPlaneEndpointService_def lb_failed_def by (auto intro!: core_intros split: sum.split)
qed

lemma api_endpoints_core [core_intros]: "keeps_core w (snd (api_endpoints y ms w))"
  by (induction y ms w rule: api_endpoints.induct) (auto simp: GetVSphereMachine_def intro!: core_intros split: list.split)

section \<open>The endpoint stays\<close>

definition next_endpoint :: "APIEndpoint \<Rightarrow> APIEndpoint \<Rightarrow> APIEndpoint \<Rightarrow> bool" where
  \<comment> \<open>of the owner, before, after: the owner decides, else what is set stays\<close>
  "next_endpoint owner before after \<longleftrightarrow>
     (if \<not> endpoint_IsZero owner then after = owner else \<not> endpoint_IsZero before \<longrightarrow> after = before)"

lemma keeps_coreD: "keeps_core w w' \<Longrightarrow> sc_Endpoint (cx_VSphereCluster w') = sc_Endpoint (cx_VSphereCluster w)"
  "keeps_core w w' \<Longrightarrow> sc_Provisioned (cx_VSphereCluster w') = sc_Provisioned (cx_VSphereCluster w)"
  "keeps_core w w' \<Longrightarrow> cx_Cluster w' = cx_Cluster w"
  by (simp_all add: keeps_core_def)

lemma reconcileLoadBalancedEndpoint_flag:
  "sc_Provisioned (cx_VSphereCluster (snd (reconcileLoadBalancedEndpoint y g np w))) = sc_Provisioned (cx_VSphereCluster w)"
  using keeps_coreD(2) [OF ReconcileControlPlaneEndpointService_core, of y g np w]
  by (auto simp: reconcileLoadBalancedEndpoint_def bindE_def upd_scluster_def split: prod.split sum.split option.split)

lemma reconcileAPIEndpoints_flag:
  "sc_Provisioned (cx_VSphereCluster (snd (reconcileAPIEndpoints y w))) = sc_Provisioned (cx_VSphereCluster w)"
proof -
  let ?w1 = "w\<lparr>shist := shist w @ [SList_ControlPlaneMachines (m_Namespace (cl_meta (cx_Cluster w))) (m_Name (cl_meta (cx_Cluster w)))]\<rparr>"
  have "sc_Provisioned (cx_VSphereCluster v) = sc_Provisioned (cx_VSphereCluster w)" if "api_endpoints y ms ?w1 = (es, v)" for ms es v
    using keeps_coreD(2) [OF api_endpoints_core, of y ms ?w1] that by simp
  then show ?thesis
    by (auto simp: reconcileAPIEndpoints_def Let_def bindE_def wrapE_def sup_do_def upd_scluster_def split: prod.split sum.split list.split)
qed

lemma reconcileControlPlaneEndpoint_result:
  assumes "reconcileControlPlaneEndpoint y g np w = (r, w')"
  shows "sc_Provisioned (cx_VSphereCluster w') = sc_Provisioned (cx_VSphereCluster w)"
    "next_endpoint (cl_Endpoint (cx_Cluster w)) (sc_Endpoint (cx_VSphereCluster w)) (sc_Endpoint (cx_VSphereCluster w'))"
proof -
  consider (owner) "\<not> endpoint_IsZero (cl_Endpoint (cx_Cluster w))"
    | (own) "endpoint_IsZero (cl_Endpoint (cx_Cluster w))" "\<not> endpoint_IsZero (sc_Endpoint (cx_VSphereCluster w))"
    | (none) "endpoint_IsZero (cl_Endpoint (cx_Cluster w))" "endpoint_IsZero (sc_Endpoint (cx_VSphereCluster w))" by blast
  then have "sc_Provisioned (cx_VSphereCluster w') = sc_Provisioned (cx_VSphereCluster w) \<and>
    next_endpoint (cl_Endpoint (cx_Cluster w)) (sc_Endpoint (cx_VSphereCluster w)) (sc_Endpoint (cx_VSphereCluster w'))"
  proof cases
    case owner
    then show ?thesis using assms by (auto simp: reconcileControlPlaneEndpoint_def next_endpoint_def add_scond_def upd_scluster_def)
  next
    case own
    then show ?thesis using assms by (auto simp: reconcileControlPlaneEndpoint_def next_endpoint_def add_scond_def)
  next
    case none
    then have "w' = snd (reconcileLoadBalancedEndpoint y g np w) \<or> w' = snd (reconcileAPIEndpoints y w)"
      using arg_cong [OF assms, of snd] by (auto simp: reconcileControlPlaneEndpoint_def split: if_splits)
    then show ?thesis using none reconcileLoadBalancedEndpoint_flag reconcileAPIEndpoints_flag by (auto simp: next_endpoint_def)
  qed
  then show "sc_Provisioned (cx_VSphereCluster w') = sc_Provisioned (cx_VSphereCluster w)"
    "next_endpoint (cl_Endpoint (cx_Cluster w)) (sc_Endpoint (cx_VSphereCluster w)) (sc_Endpoint (cx_VSphereCluster w'))" by auto
qed

definition has_endpoint :: "SVSphereCluster \<Rightarrow> bool" where
  \<comment> \<open>a provisioned cluster has an endpoint\<close>
  "has_endpoint c \<longleftrightarrow> (Deref (sc_Provisioned c) False \<longrightarrow> \<not> endpoint_IsZero (sc_Endpoint c))"

definition good_update :: "APIEndpoint \<Rightarrow> SVSphereCluster \<Rightarrow> SVSphereCluster \<Rightarrow> bool" where
  \<comment> \<open>an update of a cluster whose owner has the given endpoint\<close>
  "good_update owner c c' \<longleftrightarrow> (has_endpoint c \<longrightarrow> has_endpoint c') \<and>
     (\<not> endpoint_IsZero (sc_Endpoint c) \<longrightarrow> sc_Endpoint c' = sc_Endpoint c \<or> \<not> endpoint_IsZero owner \<and> sc_Endpoint c' = owner)"

lemma good_update_same: "sc_Endpoint c' = sc_Endpoint c \<Longrightarrow> sc_Provisioned c' = sc_Provisioned c \<Longrightarrow> good_update owner c c'"
  by (simp add: good_update_def has_endpoint_def)

lemma good_update_next:
  assumes "next_endpoint owner (sc_Endpoint c) (sc_Endpoint c')" "sc_Provisioned c' = sc_Provisioned c \<or> \<not> endpoint_IsZero (sc_Endpoint c')"
  shows "good_update owner c c'"
  using assms by (auto simp: good_update_def has_endpoint_def next_endpoint_def split: if_splits)

lemma reconcileNormal_update:
  assumes "supc_reconcileNormal y g np w = (r, w')"
  shows "good_update (cl_Endpoint (cx_Cluster w)) (cx_VSphereCluster w) (cx_VSphereCluster w')"
proof (cases "sup_reconcileFailureDomains y g w")
  case (Pair r1 w1)
  have k1: "keeps_core w w1" using reconcileFailureDomains_core [of w y g] Pair by simp
  show ?thesis
  proof (cases r1)
    case (Inl e)
    then have "w' = w1" using assms Pair by (auto simp: supc_reconcileNormal_def bindE_def wrapE_def)
    then show ?thesis using keeps_coreD [OF k1] by (intro good_update_same) auto
  next
    case (Inr u)
    obtain r2 w2 where 2: "ReconcileResourcePolicy y w1 = (r2, w2)" by fastforce
    have k2: "keeps_core w w2" using ReconcileResourcePolicy_core [of w1 y] 2 k1 keeps_core_trans by fastforce
    let ?w3 = "add_scond [v1beta1_MarkTrue ''ResourcePolicyReady'', cond_Set ''ResourcePolicyReady'' ConditionTrue ''Ready'' NoMsg] w2"
    obtain r4 w4 where 4: "ProvisionClusterNetwork y g np ?w3 = (r4, w4)" by fastforce
    have "keeps_core w ?w3" using k2 by simp
    then have k4: "keeps_core w w4" using ProvisionClusterNetwork_core [of ?w3 y g np] 4 keeps_core_trans by fastforce
    obtain r5 w5 where 5: "reconcileControlPlaneEndpoint y g np w4 = (r5, w5)" by fastforce
    note e = reconcileControlPlaneEndpoint_result [OF 5]
    have "keeps_core w w' \<or> w' = w5 \<or> (\<not> endpoint_IsZero (sc_Endpoint (cx_VSphereCluster w5)) \<and> w' = upd_scluster (\<lambda>c. c\<lparr>sc_Provisioned := Some True\<rparr>) w5)"
      using assms Pair Inr 2 4 5 k2 k4 by (auto simp: supc_reconcileNormal_def bindE_def wrapE_def Let_def split: sum.splits if_splits)
    then show ?thesis
    proof (elim disjE)
      assume "keeps_core w w'"
      then show ?thesis using keeps_coreD [of w w'] by (intro good_update_same) auto
    qed (use e keeps_coreD [OF k4] in \<open>auto intro!: good_update_next simp: upd_scluster_def\<close>)
  qed
qed

section \<open>What is written\<close>

definition no_cluster_patch :: "sup_call \<Rightarrow> bool" where
  "no_cluster_patch c \<longleftrightarrow> (\<forall>v. c \<noteq> SPatch_VSphereCluster v)"

lemma shist_cond [simp]: "shist (add_scond ops w) = shist w" "shist (upd_scluster f w) = shist w"
  by (simp_all add: add_scond_def upd_scluster_def)

lemma sup_ok_cond [simp]: "sup_ok P w (add_scond ops w') = sup_ok P w w'" "sup_ok P (add_scond ops w) w' = sup_ok P w w'"
  "sup_ok P w (upd_scluster f w') = sup_ok P w w'"
  by (simp_all add: sup_ok_def)

lemma verify_status_ok [sup_intros]: "sup_ok P w (snd (verify_status a b cs w))"
  by (simp add: verify_status_def Let_def split: sum.split bool.split)

lemma whitelist_ok [sup_intros]: "sup_ok no_cluster_patch w (snd (whitelist y d v w))"
  by (auto simp: whitelist_def sup_ok_def no_cluster_patch_def sup_do_def bindE_def wrapE_def split: sum.split)

lemma ProvisionClusterNetwork_ok [sup_intros]: "sup_ok no_cluster_patch w (snd (ProvisionClusterNetwork y g np w))"
proof (cases np)
  case (Nsxt d)
  then show ?thesis
    by (auto simp: nsxt_ProvisionClusterNetwork_def Let_def verifyNSXTVirtualNetworkStatus_def provision_failed_def no_cluster_patch_def
      intro!: sup_intros whitelist_ok [unfolded no_cluster_patch_def] split: sum.split)
next
  case NsxtVPC
  then show ?thesis
    by (auto simp: vpc_ProvisionClusterNetwork_def Let_def verifyNsxtVpcSubnetSetStatus_def provision_failed_def no_cluster_patch_def
      intro!: sup_intros split: sum.split)
qed simp_all

lemma ReconcileResourcePolicy_ok [sup_intros]: "sup_ok no_cluster_patch w (snd (ReconcileResourcePolicy y w))"
  by (auto simp: ReconcileResourcePolicy_def createOrPatchVirtualMachineSetResourcePolicy_def Let_def no_cluster_patch_def intro!: sup_intros split: sum.split)

lemma reconcileFailureDomains_ok [sup_intros]: "sup_ok no_cluster_patch w (snd (sup_reconcileFailureDomains y g w))"
  by (auto simp: sup_reconcileFailureDomains_def discover_domains_def Let_def no_cluster_patch_def intro!: sup_intros split: sum.split)

lemma GetVMServiceAnnotations_ok [sup_intros]: "sup_ok no_cluster_patch w (snd (GetVMServiceAnnotations y np w))"
  by (cases np) (auto simp: Let_def getClusterNetwork_def no_cluster_patch_def intro!: sup_intros)

lemma control_plane_service_ok [sup_intros]: "sup_ok no_cluster_patch w (snd (control_plane_service y np d f w))"
proof -
  have "sup_ok no_cluster_patch v (snd (getVMControlPlaneService y v))" for v
    unfolding getVMControlPlaneService_def Let_def by (auto simp: no_cluster_patch_def intro!: sup_intros)
  moreover have "sup_ok no_cluster_patch v (snd (createVMControlPlaneService y an d f v))" for v an
    unfolding createVMControlPlaneService_def Let_def by (auto simp: no_cluster_patch_def intro!: sup_intros split: sum.split)
  ultimately show ?thesis unfolding control_plane_service_def lb_failed_def by (auto intro!: sup_intros)
qed

lemma endpoint_of_service_ok [sup_intros]: "sup_ok no_cluster_patch w (snd (endpoint_of_service y f svc w))"
proof -
  have "sup_ok no_cluster_patch v (snd (ensureKCPReadyForControlPlaneEndpoint y ips v))" for v ips
    unfolding ensureKCPReadyForControlPlaneEndpoint_def Let_def by (auto simp: no_cluster_patch_def intro!: sup_intros split: option.split)
  then show ?thesis unfolding endpoint_of_service_def Let_def by (auto intro!: sup_intros split: sum.split)
qed

lemma api_endpoints_ok [sup_intros]: "sup_ok no_cluster_patch w (snd (api_endpoints y ms w))"
  by (induction y ms w rule: api_endpoints.induct) (auto simp: GetVSphereMachine_def no_cluster_patch_def intro!: sup_intros split: list.split)

lemma reconcileControlPlaneEndpoint_ok [sup_intros]: "sup_ok no_cluster_patch w (snd (reconcileControlPlaneEndpoint y g np w))"
proof -
  have "sup_ok no_cluster_patch w (snd (reconcileLoadBalancedEndpoint y g np w))"
    unfolding reconcileLoadBalancedEndpoint_def ReconcileControlPlaneEndpointService_def lb_failed_def
    by (auto intro!: sup_intros split: sum.split option.split)
  moreover have "sup_ok no_cluster_patch w (snd (reconcileAPIEndpoints y w))"
    unfolding reconcileAPIEndpoints_def Let_def
    by (auto simp: no_cluster_patch_def intro!: sup_intros api_endpoints_ok [unfolded no_cluster_patch_def] split: list.split)
  ultimately show ?thesis by (auto simp: reconcileControlPlaneEndpoint_def)
qed

lemma ProvisionClusterNetwork_after: "sup_ok no_cluster_patch w (snd (ProvisionClusterNetwork y g np (add_scond ops w)))"
  using ProvisionClusterNetwork_ok [of "add_scond ops w"] by simp

lemma reconcileNormal_ok: "sup_ok no_cluster_patch w (snd (supc_reconcileNormal y g np w))"
  unfolding supc_reconcileNormal_def Let_def by (auto intro!: sup_intros ProvisionClusterNetwork_after)

lemma supc_run_ok:
  "supc_run y g factory c cl h = (r, w') \<Longrightarrow> (\<exists>cs. shist w' = h @ cs \<and> list_all no_cluster_patch cs) \<and>
    good_update (cl_Endpoint cl) c (cx_VSphereCluster w')"
  using reconcileNormal_ok [of "\<lparr>shist = h, cx_VSphereCluster = c, cx_Cluster = cl\<rparr>" y g]
    reconcileNormal_update [of y g _ "\<lparr>shist = h, cx_VSphereCluster = c, cx_Cluster = cl\<rparr>" r w']
  by (auto simp: supc_run_def Let_def sup_ok_def intro: good_update_same split: sum.splits if_splits) (metis snd_conv)

lemma supc_finish_patches:
  assumes "SPatch_VSphereCluster c' \<in> set (snd (supc_finish y (r, w)))" "list_all no_cluster_patch (shist w)"
  shows "sc_Endpoint c' = sc_Endpoint (cx_VSphereCluster w) \<and> sc_Provisioned c' = sc_Provisioned (cx_VSphereCluster w)"
  using assms by (auto simp: supc_finish_def supc_patch_def Let_def sup_do_def add_scond_def list_all_iff no_cluster_patch_def
    split: option.splits sum.splits)

lemma delete_core:
  "sc_Endpoint (cx_VSphereCluster (supc_reconcileDelete y w)) = sc_Endpoint (cx_VSphereCluster w)"
  "sc_Provisioned (cx_VSphereCluster (supc_reconcileDelete y w)) = sc_Provisioned (cx_VSphereCluster w)"
  "shist (supc_reconcileDelete y w) = shist w"
  by (simp_all add: supc_reconcileDelete_def Let_def upd_scluster_def add_scond_def)

lemma supc_Reconcile_cases:
  assumes "supc_Reconcile y g factory ns name \<lparr>shist = []\<rparr> = (r, calls)"
  obtains (early) "list_all no_cluster_patch calls"
  | (finish) c cl h b where "y_vcluster y [SGet_VSphereCluster ns name] = Inr c"
    "y_owner y [SGet_VSphereCluster ns name, SGet_OwnerCluster (sc_meta c)] = Inr cl" "list_all no_cluster_patch h"
    "b = \<lparr>shist = h, cx_VSphereCluster = c\<rparr>"
    "(r, calls) = supc_finish y (Inr (), supc_reconcileDelete y b) \<or> (r, calls) = supc_finish y (Inr (), b) \<or>
     (\<exists>k. cl = Some k \<and> (r, calls) = supc_finish y (supc_run y g factory c k h))"
proof -
  have "list_all no_cluster_patch calls \<or> (\<exists>c cl h b. y_vcluster y [SGet_VSphereCluster ns name] = Inr c \<and>
    y_owner y [SGet_VSphereCluster ns name, SGet_OwnerCluster (sc_meta c)] = Inr cl \<and> list_all no_cluster_patch h \<and>
    b = \<lparr>shist = h, cx_VSphereCluster = c\<rparr> \<and>
    ((r, calls) = supc_finish y (Inr (), supc_reconcileDelete y b) \<or> (r, calls) = supc_finish y (Inr (), b) \<or>
     (\<exists>k. cl = Some k \<and> (r, calls) = supc_finish y (supc_run y g factory c k h))))"
  proof -
    let ?h1 = "[SGet_VSphereCluster ns name]"
    consider (a) e where "y_vcluster y ?h1 = Inl e"
      | (b) c e where "y_vcluster y ?h1 = Inr c" "y_owner y (?h1 @ [SGet_OwnerCluster (sc_meta c)]) = Inl e"
      | (c) c cl where "y_vcluster y ?h1 = Inr c" "y_owner y (?h1 @ [SGet_OwnerCluster (sc_meta c)]) = Inr cl"
      by (cases "y_vcluster y ?h1"; cases "y_owner y (?h1 @ [SGet_OwnerCluster (sc_meta (projr (y_vcluster y ?h1)))])") auto
    then show ?thesis
    proof cases
      case c
      let ?m = "sc_meta c" and ?h2 = "?h1 @ [SGet_OwnerCluster (sc_meta c)]"
      let ?h = "?h2 @ [SEnsureFinalizer ?m SupClusterFinalizer, SNewPatchHelper ?m, SEnsurePaused ?m]"
      have h: "list_all no_cluster_patch ?h" by (simp add: no_cluster_patch_def)
      have "list_all no_cluster_patch calls \<or> (r, calls) = supc_finish y (Inr (), supc_reconcileDelete y \<lparr>shist = ?h, cx_VSphereCluster = c\<rparr>) \<or>
        (r, calls) = supc_finish y (Inr (), \<lparr>shist = ?h, cx_VSphereCluster = c\<rparr>) \<or>
        (\<exists>k. cl = Some k \<and> (r, calls) = supc_finish y (supc_run y g factory c k ?h))"
        using assms c by (auto simp: supc_Reconcile_def sup_do_def bindE_def no_cluster_patch_def split: sum.splits if_splits option.splits bool.splits)
      then show ?thesis using c h unfolding append.simps by blast
    qed (use assms in \<open>auto simp: supc_Reconcile_def sup_do_def no_cluster_patch_def split: if_splits\<close>)
  qed
  then show thesis using early finish by blast
qed

text \<open>
  C21. The endpoint of a VSphereCluster stays: what the controller writes back has the endpoint that was set before, unless the owner Cluster
  has one, which then wins; and a cluster that is marked as provisioned has an endpoint, if that held when it was read.
\<close>

theorem cluster_endpoint_stays:
  assumes "supc_Reconcile y g factory ns name \<lparr>shist = []\<rparr> = (r, calls)" and "SPatch_VSphereCluster c' \<in> set calls"
  shows "\<exists>c. y_vcluster y [SGet_VSphereCluster ns name] = Inr c \<and> (has_endpoint c \<longrightarrow> has_endpoint c') \<and>
    (\<not> endpoint_IsZero (sc_Endpoint c) \<longrightarrow> sc_Endpoint c' = sc_Endpoint c \<or>
      (\<exists>cl. y_owner y [SGet_VSphereCluster ns name, SGet_OwnerCluster (sc_meta c)] = Inr (Some cl) \<and> \<not> endpoint_IsZero (cl_Endpoint cl) \<and> sc_Endpoint c' = cl_Endpoint cl))"
  using assms(1)
proof (cases rule: supc_Reconcile_cases)
  case early
  then show ?thesis using assms(2) by (auto simp: list_all_iff no_cluster_patch_def)
next
  case (finish c cl h b)
  have same: ?thesis if "sc_Endpoint c' = sc_Endpoint c" "sc_Provisioned c' = sc_Provisioned c"
    using finish(1) that by (auto simp: has_endpoint_def)
  from finish(5) show ?thesis
  proof (elim disjE exE conjE)
    assume "(r, calls) = supc_finish y (Inr (), supc_reconcileDelete y b)"
    then have "SPatch_VSphereCluster c' \<in> set (snd (supc_finish y (Inr (), supc_reconcileDelete y b)))" using assms(2) by (metis snd_conv)
    from supc_finish_patches [OF this] show ?thesis using finish(3,4) by (intro same) (simp_all add: delete_core)
  next
    assume "(r, calls) = supc_finish y (Inr (), b)"
    then have "SPatch_VSphereCluster c' \<in> set (snd (supc_finish y (Inr (), b)))" using assms(2) by (metis snd_conv)
    from supc_finish_patches [OF this] show ?thesis using finish(3,4) by (intro same) simp_all
  next
    fix k assume k: "cl = Some k" "(r, calls) = supc_finish y (supc_run y g factory c k h)"
    obtain r' w' where run: "supc_run y g factory c k h = (r', w')" by fastforce
    have "SPatch_VSphereCluster c' \<in> set (snd (supc_finish y (r', w')))" using assms(2) k(2) run by (metis snd_conv)
    moreover have "list_all no_cluster_patch (shist w')" using supc_run_ok [OF run] finish(3) by auto
    ultimately have "sc_Endpoint c' = sc_Endpoint (cx_VSphereCluster w') \<and> sc_Provisioned c' = sc_Provisioned (cx_VSphereCluster w')"
      by (rule supc_finish_patches)
    then have "good_update (cl_Endpoint k) c c'" using supc_run_ok [OF run] by (simp add: good_update_def has_endpoint_def)
    then show ?thesis using finish(1,2) k(1) unfolding good_update_def by blast
  qed
qed

section \<open>Failure domains\<close>

definition zone_matches :: "sup_ext \<Rightarrow> string option \<Rightarrow> Zone \<Rightarrow> bool" where
  "zone_matches y selector zone = (case selector of None \<Rightarrow> True
     | Some s \<Rightarrow> (case y_Selector y s of Inl _ \<Rightarrow> False | Inr matches \<Rightarrow> matches (m_Labels (zo_meta zone))))"

lemma zone_domains_result:
  "zone_domains y sel zones = Inr ds \<Longrightarrow>
    ds = map (\<lambda>z. (m_Name (zo_meta z), Some (zone_matches y sel z))) (filter (\<lambda>z. live (zo_meta z)) zones)"
proof (induction zones arbitrary: ds)
  case Nil
  then show ?case by simp
next
  case (Cons z zones)
  then show ?case
    by (cases "zone_domains y sel zones") (auto simp: markControlPlaneFailureDomain_def zone_matches_def split: if_splits option.splits sum.splits)
qed

lemma failure_domains_sorted:
  assumes "sup_reconcileFailureDomains y g w = (Inr (), w')"
  obtains ds w1 where "discover_domains y g w = (Inr ds, w1)" "sc_FailureDomains (cx_VSphereCluster w') = sort_key fst ds"
    "ds = [] \<or> list_ex (\<lambda>(n, cp). Deref cp False) ds"
  using assms by (auto simp: sup_reconcileFailureDomains_def bindE_eq_Inr upd_scluster_def add_scond_def split: if_splits)

text \<open>
  C31. With the feature gate \<open>NamespaceScopedZones\<close>, the failure domains that a cluster reports after a successful run are exactly the
  zones that the API server lists for its namespace and that are not being deleted, in the order of their names, each open to the
  control plane exactly if it matches the selector of the cluster (every zone does if there is no selector); and if there is such a zone
  then at least one of them is open to the control plane.
\<close>

theorem reported_failure_domains:
  assumes "sup_reconcileFailureDomains y g w = (Inr (), w')" and "NamespaceScopedZones g"
  shows "\<exists>zones. y_zones y (shist w @ [SList_Zones (m_Namespace (sc_meta (cx_VSphereCluster w)))]) = Inr zones \<and>
    sc_FailureDomains (cx_VSphereCluster w') =
      sort_key fst (map (\<lambda>z. (m_Name (zo_meta z), Some (zone_matches y (sc_Selector (cx_VSphereCluster w)) z))) (filter (\<lambda>z. live (zo_meta z)) zones)) \<and>
    ((\<exists>z\<in>set zones. live (zo_meta z)) \<longrightarrow> (\<exists>z\<in>set zones. live (zo_meta z) \<and> zone_matches y (sc_Selector (cx_VSphereCluster w)) z))"
proof -
  from assms(1) obtain ds w1 where d: "discover_domains y g w = (Inr ds, w1)"
    and w': "sc_FailureDomains (cx_VSphereCluster w') = sort_key fst ds" and ok: "ds = [] \<or> list_ex (\<lambda>(n, cp). Deref cp False) ds"
    by (rule failure_domains_sorted)
  obtain zones where z: "y_zones y (shist w @ [SList_Zones (m_Namespace (sc_meta (cx_VSphereCluster w)))]) = Inr zones"
    "zone_domains y (sc_Selector (cx_VSphereCluster w)) zones = Inr ds"
    using d assms(2) by (auto simp: discover_domains_def Let_def sup_do_def split: sum.splits)
  note ds = zone_domains_result [OF z(2)]
  have "\<exists>z\<in>set zones. live (zo_meta z) \<and> zone_matches y (sc_Selector (cx_VSphereCluster w)) z" if "\<exists>z\<in>set zones. live (zo_meta z)"
    using ok that unfolding ds by (auto simp: list_ex_iff filter_empty_conv)
  then show ?thesis using z(1) w' unfolding ds by blast
qed

text \<open>
  Without the gate the reported failure domains are the availability zones, all open to the control plane: a selector is ignored.
  (The documentation of the field says that the reconciliation fails then.)
\<close>

lemma selector_ignored_without_gate:
  assumes "sup_reconcileFailureDomains y g w = (Inr (), w')" and "\<not> NamespaceScopedZones g"
  shows "\<exists>azs. y_names y (shist w @ [SList_AvailabilityZones]) = Inr azs \<and>
    sc_FailureDomains (cx_VSphereCluster w') = sort_key fst (map (\<lambda>az. (az, Some True)) azs)"
proof -
  from assms(1) obtain ds w1 where d: "discover_domains y g w = (Inr ds, w1)" and w': "sc_FailureDomains (cx_VSphereCluster w') = sort_key fst ds"
    by (rule failure_domains_sorted)
  then obtain azs where "y_names y (shist w @ [SList_AvailabilityZones]) = Inr azs" "ds = map (\<lambda>az. (az, Some True)) azs"
    using assms(2) by (auto simp: discover_domains_def Let_def sup_do_def split: sum.splits)
  then show ?thesis using w' by blast
qed

section \<open>A cluster without an endpoint\<close>

text \<open>
  C37. Without a load balancer and with no control plane machine that has an address, the endpoint is left empty and the run still
  succeeds: nothing asks for another run.
\<close>

theorem missing_endpoint_not_reported:
  assumes "\<not> HasLoadBalancer np" "endpoint_IsZero (cl_Endpoint (cx_Cluster w))" "endpoint_IsZero (sc_Endpoint (cx_VSphereCluster w))"
    and "\<forall>h. y_cpmachines y h = Inr machines" and "\<forall>h. \<exists>m. y_machine y h = Inr m \<and> ss_Addresses (sv_Status m) = []"
  shows "\<exists>w'. reconcileControlPlaneEndpoint y g np w = (Inr (), w') \<and> endpoint_IsZero (sc_Endpoint (cx_VSphereCluster w'))"
proof -
  have none: "\<exists>w2. api_endpoints y ms w1 = (Inr [], w2) \<and> keeps_core w1 w2" for ms w1
  proof -
    have "\<exists>w2. api_endpoints y ms w1 = (Inr [], w2)"
    proof (induction ms arbitrary: w1)
      case (Cons m ms)
      obtain v where "y_machine y (shist w1 @ [SGet_VSphereMachine (m_Namespace (mach_meta m)) (m_Name (mach_meta m))]) = Inr v"
        "ss_Addresses (sv_Status v) = []" using assms(5) by blast
      then show ?case using Cons.IH by (simp add: GetVSphereMachine_def sup_do_def)
    qed simp
    then show ?thesis using api_endpoints_core [of w1 y ms] by auto
  qed
  let ?w1 = "w\<lparr>shist := shist w @ [SList_ControlPlaneMachines (m_Namespace (cl_meta (cx_Cluster w))) (m_Name (cl_meta (cx_Cluster w)))]\<rparr>"
  obtain w2 where w2: "api_endpoints y machines ?w1 = (Inr [], w2)" "keeps_core ?w1 w2" using none by blast
  then have "reconcileControlPlaneEndpoint y g np w = (Inr (), w2)"
    using assms(1-4) by (simp add: reconcileControlPlaneEndpoint_def reconcileAPIEndpoints_def Let_def sup_do_def)
  moreover have "endpoint_IsZero (sc_Endpoint (cx_VSphereCluster w2))" using keeps_coreD(1) [OF w2(2)] assms(3) by simp
  ultimately show ?thesis by blast
qed

section \<open>An example\<close>

definition sample_vcluster :: SVSphereCluster where
  "sample_vcluster = zero_scluster\<lparr>sc_meta := empty_meta\<lparr>m_Name := ''c1'', m_Namespace := ''ns'', m_UID := ''u1''\<rparr>\<rparr>"

definition sample_owner :: SupCluster where
  "sample_owner = sample_sup_cluster\<lparr>cl_Endpoint := \<lparr>ae_Host = '''', ae_Port = 0\<rparr>\<rparr>"

definition sample_cluster_state :: sup_cluster where
  "sample_cluster_state = \<lparr>shist = [], cx_VSphereCluster = sample_vcluster, cx_Cluster = sample_owner\<rparr>"

definition sample_service :: VMService where
  "sample_service = \<lparr>vs_meta = empty_meta\<lparr>m_Name := ''c1'', m_Namespace := ''ns''\<rparr>, vs_Type = VirtualMachineServiceTypeLoadBalancer,
     vs_Ports = [\<lparr>vp_Name = ''apiserver'', vp_Protocol = ''TCP'', vp_Port = 6443, vp_TargetPort = 6443\<rparr>],
     vs_Selector = [], vs_IPFamilyPolicy = None, vs_IPFamilies = [], vs_Ingress = [''10.0.0.9'']\<rparr>"

definition sample_cy :: sup_ext where
  "sample_cy = (sample_sup (Inr sample_group) sample_machines)\<lparr>y_service := \<lambda>_. Inr sample_service,
     y_vcluster := \<lambda>_. Inr (sample_vcluster\<lparr>sc_Endpoint := \<lparr>ae_Host = ''10.0.0.9'', ae_Port = 6443\<rparr>\<rparr>)\<rparr>"

lemma sample_family: "DetermineClusterIPFamily (Some (cl_Network sample_owner)) = Inr IPv4SingleStack"
proof -
  have "DetermineClusterIPFamily (Some \<lparr>cn_Pods = [''192.168.0.0/16''], cn_Services = []\<rparr>) = Inr IPv4SingleStack" by code_simp
  then show ?thesis by (simp add: sample_owner_def sample_sup_cluster_def)
qed

lemma sample_vips: "getAndValidateVIPs sample_service IPv4SingleStack = Inr (''10.0.0.9'', [''10.0.0.9''])"
proof -
  have "vips_loop '''' '''' [''10.0.0.9''] = Inr (''10.0.0.9'', '''')" by code_simp
  then show ?thesis by (simp add: getAndValidateVIPs_def getVMServiceVIPs_def sample_service_def)
qed

lemma sample_lb:
  "\<exists>w'. ReconcileControlPlaneEndpointService sample_cy sample_gates DummyLB sample_cluster_state = (Inr (Some \<lparr>ae_Host = ''10.0.0.9'', ae_Port = 6443\<rparr>), w')"
proof -
  have "\<exists>w'. control_plane_service sample_cy DummyLB d f sample_cluster_state = (Inr sample_service, w')" for d f
    by (simp add: control_plane_service_def getVMControlPlaneService_def sup_do_def sample_cy_def check_service_def sample_service_def empty_meta_def)
  then obtain w1 where "control_plane_service sample_cy DummyLB (SupportsIPv6DualStack sample_gates DummyLB) IPv4SingleStack sample_cluster_state = (Inr sample_service, w1)"
    by blast
  moreover have "getAPIEndpointFromVIP sample_service ''10.0.0.9'' = Inr \<lparr>ae_Host = ''10.0.0.9'', ae_Port = 6443\<rparr>"
    by (simp add: getAPIEndpointFromVIP_def sample_service_def)
  moreover have "DetermineClusterIPFamily (Some (cl_Network (cx_Cluster sample_cluster_state))) = Inr IPv4SingleStack"
    using sample_family by (simp add: sample_cluster_state_def)
  ultimately show ?thesis
    by (simp add: ReconcileControlPlaneEndpointService_def HasLoadBalancer_def endpoint_of_service_def sample_vips is_dual_def)
qed

theorem lb_endpoint_verified_witness:
  "\<exists>w'. ReconcileControlPlaneEndpointService sample_cy sample_gates DummyLB sample_cluster_state = (Inr (Some \<lparr>ae_Host = ''10.0.0.9'', ae_Port = 6443\<rparr>), w') \<and>
    primary_is IPv4SingleStack ''10.0.0.9''"
proof -
  obtain w' where w': "ReconcileControlPlaneEndpointService sample_cy sample_gates DummyLB sample_cluster_state =
    (Inr (Some \<lparr>ae_Host = ''10.0.0.9'', ae_Port = 6443\<rparr>), w')" using sample_lb by blast
  from lb_endpoint_verified [OF w'] show ?thesis using w' sample_family by (auto simp: sample_cluster_state_def)
qed

theorem cluster_endpoint_stays_witness:
  "\<exists>c'. SPatch_VSphereCluster c' \<in> set (snd (supc_Reconcile sample_cy sample_gates (Static DummyLB) ''ns'' ''c1'' \<lparr>shist = []\<rparr>)) \<and>
    sc_Endpoint c' = \<lparr>ae_Host = ''10.0.0.9'', ae_Port = 6443\<rparr>"
proof -
  have "\<exists>c'. SPatch_VSphereCluster c' \<in> set (snd (supc_Reconcile sample_cy sample_gates (Static DummyLB) ''ns'' ''c1'' \<lparr>shist = []\<rparr>))"
    by (simp add: supc_Reconcile_def sup_do_def sample_cy_def sample_sup_def sample_vcluster_def zero_scluster_def empty_meta_def supc_finish_def supc_patch_def
      Let_def)
  then obtain c' where c': "SPatch_VSphereCluster c' \<in> set (snd (supc_Reconcile sample_cy sample_gates (Static DummyLB) ''ns'' ''c1'' \<lparr>shist = []\<rparr>))" by blast
  have "y_vcluster sample_cy h = Inr c \<Longrightarrow> sc_Endpoint c = \<lparr>ae_Host = ''10.0.0.9'', ae_Port = 6443\<rparr>" "y_owner sample_cy h \<noteq> Inr (Some cl)" for h c cl
    by (auto simp: sample_cy_def sample_sup_def)
  then show ?thesis
    using cluster_endpoint_stays [OF surjective_pairing c'] c' by (fastforce simp: endpoint_IsZero_def)
qed

theorem reported_failure_domains_witness:
  "sc_FailureDomains (cx_VSphereCluster (snd (sup_reconcileFailureDomains sample_cy sample_gates sample_cluster_state))) =
     sort_key fst (map (\<lambda>z. (m_Name (zo_meta z), Some (zone_matches sample_cy None z))) (filter (\<lambda>z. live (zo_meta z)) sample_zones)) \<and>
   (\<exists>z\<in>set sample_zones. live (zo_meta z) \<and> zone_matches sample_cy None z)"
proof -
  have ok: "fst (sup_reconcileFailureDomains sample_cy sample_gates sample_cluster_state) = Inr ()"
    by (simp add: sup_reconcileFailureDomains_def discover_domains_def sample_cy_def sample_sup_def sample_gates_def sup_do_def sample_zones_def empty_meta_def
      markControlPlaneFailureDomain_def sample_cluster_state_def sample_vcluster_def zero_scluster_def)
  have z: "y_zones sample_cy h = Inr sample_zones" for h by (simp add: sample_cy_def sample_sup_def)
  have gate: "NamespaceScopedZones sample_gates" by (simp add: sample_gates_def)
  have sel: "sc_Selector (cx_VSphereCluster sample_cluster_state) = None"
    by (simp add: sample_cluster_state_def sample_vcluster_def zero_scluster_def)
  have live: "\<exists>z\<in>set sample_zones. live (zo_meta z)" by (simp add: sample_zones_def empty_meta_def)
  obtain w' where run: "sup_reconcileFailureDomains sample_cy sample_gates sample_cluster_state = (Inr (), w')"
    using ok by (cases "sup_reconcileFailureDomains sample_cy sample_gates sample_cluster_state") simp
  from reported_failure_domains [OF run gate] show ?thesis using z live unfolding sel run by simp
qed

theorem missing_endpoint_not_reported_witness:
  "\<exists>y w'. reconcileControlPlaneEndpoint y sample_gates Dummy sample_cluster_state = (Inr (), w') \<and> endpoint_IsZero (sc_Endpoint (cx_VSphereCluster w'))"
proof -
  let ?y = "(sample_sup (Inr sample_group) sample_machines)\<lparr>y_machine := \<lambda>_. Inr (sample_machine ''m1'' ''md-a'')\<rparr>"
  have "\<forall>h. y_cpmachines ?y h = Inr []" "\<forall>h. \<exists>m. y_machine ?y h = Inr m \<and> ss_Addresses (sv_Status m) = []"
    by (simp_all add: sample_sup_def sample_machine_def)
  then show ?thesis
    using missing_endpoint_not_reported [of Dummy sample_cluster_state ?y "[]" sample_gates]
    by (auto simp: HasLoadBalancer_def endpoint_IsZero_def sample_cluster_state_def sample_owner_def sample_vcluster_def zero_scluster_def)
qed

end
