(* ===== verification/Spec2Isabelle.thy ===== *)
theory Spec2Isabelle
  imports Util Extra_Config VM_Controller_End VM_Controller_Ready VM_Claims_Correct
    Machine_Correct Cluster_Modules_Correct Cluster_Correct Zone_Correct Session_Correct Webhooks_Correct
    VM_Group_Correct Sup_Machine_Correct Sup_Cluster_Correct
begin

text \<open>
  Verification of the vSphere provider of Cluster API (the Go program under \<open>src/\<close>).

  \<^bold>\<open>The program.\<close> The provider turns Kubernetes objects into virtual machines of a vCenter. Its
  controllers are called with the name of an object, read it and the objects around it, talk to
  vCenter or to VM operator, and write status, conditions and finalizers back. It has two modes. In the \<open>govmomi\<close> mode
  a \<open>VSphereMachine\<close> owns a \<open>VSphereVM\<close>; the controller of \<open>VSphereVM\<close>s
  (\<open>controllers/vspherevm_controller.go\<close>) keeps its IPAddressClaims and calls the VM service
  (\<open>pkg/services/govmomi/service.go\<close>), which clones the VM from a template and brings it step by
  step to what the spec says. vCenter works asynchronously: a request starts a task, its reference is
  stored in \<open>Status.TaskRef\<close>, and the next run of the controller looks at the task first. The controllers of
  \<open>VSphereCluster\<close>s, identities and deployment zones prepare what the VMs need: credentials, cluster modules, failure domains;
  a cache (\<open>pkg/session\<close>) keeps the logins at the vCenters. In the supervisor mode a \<open>VSphereMachine\<close> is backed by a
  \<open>VirtualMachine\<close> of VM operator, VMs of the workers are placed together through a \<open>VirtualMachineGroup\<close>, and network and
  control plane endpoint come from one of several network providers.

  \<^bold>\<open>How the model is built.\<close> Pure Go functions are HOL functions with the names of the source. Code with
  effects passes a state explicitly. The world outside the repository (vCenter, the Kubernetes API
  server, the clock, the functions of Cluster API and apimachinery) is the record \<open>ext\<close> of theory
  \<open>Vim\<close>: every field is the answer to one kind of request, as a function of the requests made so far,
  so an answer may depend on the whole history and may change from one request to the next. Every
  request is recorded in the field \<open>hist\<close> of the state, so that theorems can speak about what was sent
  and in which order. All theorems hold for every \<open>ext\<close>; those that need documented behaviour of the
  outside name it as a hypothesis. The supervisor mode has an outside of its own, \<open>sup_ext\<close> of theory
  \<open>Supervisor_Types\<close>, with its requests in the field \<open>shist\<close>, and so has the session cache. Errors are values of the datatype \<open>go_error\<close> of theory
  \<open>CAPV_Prelude\<close> (one constructor per kind that the code distinguishes), results are sums
  \<open>go_error + 'a\<close>, and each early return of the source is a branch. Objects behind pointers that
  the code mutates (the VSphereVM of a context) are fields of the state.
  The one loop of the source that may run forever (\<open>encode\<close> of \<open>extra/config.go\<close>) is a
  \<open>partial_function (option)\<close>; \<open>None\<close> is non-termination, it propagates through
  \<open>ReconcileVM\<close> and the controller, and it is characterised exactly. No fuel is used.

  \<^bold>\<open>The theories.\<close>
  \<^item> \<open>CAPV_Prelude\<close>: errors, the plumbing of fallible stateful code (\<open>bindE\<close>, \<open>wrapE\<close>), lists and maps,
    the collections \<open>go_simps\<close> and \<open>calls_intros\<close>.
  \<^item> \<open>Go_Strings\<close>, \<open>Go_Base64\<close>, \<open>Go_Netip\<close>, \<open>Go_Path\<close>, \<open>Go_Float\<close>: the parts of Go's standard library
    the program uses (strings and fmt, base64, net and netip, path, float64 rounding).
  \<^item> \<open>Util\<close>: \<open>pkg/util\<close> (hardware versions, provider IDs, claim names, host labels, IP families, names).
    Provider IDs round trip, host labels fit into 63 characters.
  \<^item> \<open>Extra_Config\<close>: \<open>pkg/services/govmomi/extra/config.go\<close>; when the encoder terminates, and what it encodes.
  \<^item> \<open>API_Types\<close>, \<open>API_Cluster\<close>: the structs of \<open>api/govmomi/v1beta2\<close>, one record each, and the condition helpers.
  \<^item> \<open>Vim\<close>: the outside world (above), the objects of the vSphere API, requests and answers.
  \<^item> \<open>VM_Context\<close>: \<open>pkg/context/vm_context.go\<close>, the state of a reconciliation, which requests leave a task running, and
    rules that bound the requests of an operation (\<open>calls_ok\<close>).
  \<^item> \<open>PCI\<close>, \<open>Disks\<close>, \<open>Clone\<close>: the hardware and the clone request (\<open>pci/device.go\<close>, \<open>vcenter/clone.go\<close>,
    \<open>create.go\<close>, \<open>template.go\<close>). Disks never shrink, data disks get free unit numbers, network cards are
    replaced exactly, one clone request is sent, and what a failed clone leaves behind.
  \<^item> \<open>Net_Status\<close>, \<open>IPAM\<close>, \<open>Metadata\<close>: addresses of a VM and its cloud-init metadata (\<open>net/net.go\<close>,
    \<open>ipam\<close>, \<open>GetMachineMetadata\<close> of \<open>machines.go\<close>).
  \<^item> \<open>Cluster_Module_Provider\<close>: \<open>clustermodules/provider.go\<close> and \<open>cluster/vmgroup.go\<close>.
  \<^item> \<open>VM_Tasks\<close>: \<open>util.go\<close>, \<open>errors.go\<close>, \<open>power.go\<close>: the task in flight, the search for the VM, powering off.
  \<^item> \<open>VM_Service\<close>: \<open>service.go\<close>, every step of \<open>ReconcileVM\<close> and \<open>DestroyVM\<close>. \<open>VM_Service_Steps\<close> states the
    contract that the steps share (locales \<open>service_step\<close>, \<open>stopping_step\<close>, \<open>finishing_step\<close>) and interprets it on each step;
    \<open>VM_Service_Correct\<close> and \<open>VM_Service_Destroy\<close> hold the theorems on the service: a VM is reported ready
    only when it matches its spec, nothing is changed while a task is in flight or until a failed one has waited for its delay,
    a VM is destroyed only when it is not powered on, and so on. \<open>VM_Service_Contract\<close> packs the promises to the controller into the
    locale \<open>virtual_machine_service\<close> (the interface of \<open>pkg/services/interfaces.go\<close>), interpreted on the
    model of the service.
  \<^item> \<open>Owners\<close>, \<open>Identity\<close>: \<open>fetch_object.go\<close>, \<open>cluster.go\<close> and \<open>pkg/identity\<close>: owners and credentials.
  \<^item> \<open>VM_Claims\<close>, \<open>VM_Claims_Correct\<close>: \<open>vspherevm_ipaddress_reconciler.go\<close>.
  \<^item> \<open>VM_Controller\<close>: \<open>Reconcile\<close> of \<open>vspherevm_controller.go\<close> with the deferred patch. \<open>VM_Controller_Steps\<close>
    holds its branches, \<open>VM_Controller_Correct\<close>, \<open>VM_Controller_End\<close> and \<open>VM_Controller_Ready\<close> the theorems: a run leaves at most
    one task (two only with a storage policy), the finalizer goes last, what a ready VSphereVM carries in every reachable state
    (an inductive life of the stored object).

  \<^item> \<open>Controller_Base\<close>: what the other controllers share (results, the aggregation of errors, early returns).
  \<^item> \<open>Machine_Service\<close>, \<open>Machine_Controller\<close>, \<open>Machine_Correct\<close>: \<open>pkg/services/vimmachine.go\<close> and
    \<open>vspheremachine_controller.go\<close>. From which object every field of a VSphereVM is written, what a provisioned machine
    reports, and that its finalizer goes last.
  \<^item> \<open>Cluster_Modules\<close>, \<open>Cluster_Modules_Correct\<close>: \<open>pkg/clustermodule\<close> and \<open>clustermodule_reconciler.go\<close>; the contract of the
    module service is the locale \<open>cluster_module_service\<close>, interpreted on its model.
  \<^item> \<open>Identity_Controller\<close>, \<open>Cluster_Controller\<close>, \<open>Cluster_Correct\<close>: \<open>vsphereclusteridentity_controller.go\<close> and
    \<open>vspherecluster_reconciler.go\<close>: failure domains, deletion, and the owners of a secret over the lives of identities and
    clusters (the inductive \<open>secret_life\<close>).
  \<^item> \<open>Zone_Controller\<close>, \<open>Zone_Correct\<close>: \<open>vspheredeploymentzone_controller.go\<close>, \<open>pkg/taggable\<close>; a ready zone was confirmed by
    vCenter in the same run.
  \<^item> \<open>Go_Sha256\<close>, \<open>Session\<close>, \<open>Session_Correct\<close>: \<open>pkg/session/session.go\<close> with SHA-256 on 32-bit words; no login is lost
    by any sequence of operations (\<open>session_life\<close>) except one whose logout vCenter refused.
  \<^item> \<open>Webhooks\<close>, \<open>Webhooks_Correct\<close>: \<open>internal/webhooks\<close>; which updates are admitted.
  \<^item> \<open>Supervisor_Types\<close>: the types of \<open>api/supervisor/v1beta2\<close> and of VM operator, and the outside of the supervisor mode.
  \<^item> \<open>Vmop_Machine\<close>, \<open>Sup_Machine\<close>, \<open>Sup_Machine_Correct\<close>: \<open>vmopmachine.go\<close> and the machine controller in this mode. A worker
    is created only inside its VM group, a provisioned machine has the values of its VM, and a VM settles. The hook that
    configures the network has the contract \<open>vm_modifier\<close>, interpreted on the hook of the program.
  \<^item> \<open>VM_Group\<close>, \<open>VM_Group_Correct\<close>: \<open>virtualmachinegroup_reconciler.go\<close>: members and placement of a group over its life
    (\<open>group_life\<close>).
  \<^item> \<open>Sup_Network\<close>: the network providers (\<open>pkg/services/network\<close>) and the choice among them (\<open>pkg/manager\<close>).
  \<^item> \<open>Sup_Cluster\<close>, \<open>Sup_Cluster_Controller\<close>, \<open>Sup_Cluster_Correct\<close>: \<open>control_plane_endpoint.go\<close>, \<open>resource_policy.go\<close> and
    \<open>controllers/vmware/vspherecluster_reconciler.go\<close>: where an endpoint comes from, that it stays, and the failure domains.

  \<^bold>\<open>Not modelled.\<close> In the supervisor mode the controllers that mirror service accounts and services into the
  workload cluster, the one of machine templates, and the webhooks. Conversions between API versions and
  deep copies are generated field copies, and the development works on one version of each type. Process
  set-up, the YAML generators and the test tools carry no logic of the running
  program. The goroutine of \<open>util.go\<close> that waits for addresses is seen through what it reports.
  Log output, metrics and events are left out: the code never reads them. Of \<open>services.NetworkProvider\<close> the
  operation \<open>VerifyNetworkStatus\<close> is left out, which nothing calls.
\<close>

end
